(* ===== verification/Prelude.thy ===== *)
theory Prelude
  imports Main
begin

text \<open>
  Shared vocabulary of the development.

  A Python function that may raise is a HOL function into the sum type \<open>exn + 'a\<close>:
  \<open>Inl e\<close> is "raises \<open>e\<close>", \<open>Inr v\<close> is "returns \<open>v\<close>".
  \<open>bindE\<close> sequences two calls, \<open>mapE\<close> is a comprehension whose element
  expression may raise, \<open>foldE\<close> is a \<open>for\<close> loop over a list with an
  explicit loop state.  The lemmas here turn "the function returned \<open>v\<close>" into the
  conjunction of everything the function checked on the way, which is what the component
  theories use.
\<close>

named_theorems res_simps \<open>inversion of successful results\<close>

subsection \<open>Exceptions\<close>

text \<open>
  One constructor per exception class that the modelled code raises or lets escape.
  The first group is Python's own, the second the program's.  A message is the text given
  to the constructor (always ASCII in the source).
\<close>

datatype exn =
    TypeError
  | KeyError
  | IndexError
  | AttributeError
  | ValueError string
  | UnicodeEncodeError
  | BundleProtocolError string
  | BundleTargetContractError string
  | BundleContractError string
  | PlanContractError string
  | IdeaContractError string
  | ReasoningContractError string
  | TargetRunContractError string
  | OwnerConflict string

type_synonym 'a res = "exn + 'a"

text \<open>The subclass relation of the exception classes, as the \<open>except\<close> clauses see it.\<close>

fun is_value_error :: "exn \<Rightarrow> bool" where
  "is_value_error (ValueError _) = True"
| "is_value_error UnicodeEncodeError = True"
| "is_value_error (BundleProtocolError _) = True"
| "is_value_error (BundleTargetContractError _) = True"
| "is_value_error (BundleContractError _) = True"
| "is_value_error (PlanContractError _) = True"
| "is_value_error (IdeaContractError _) = True"
| "is_value_error (ReasoningContractError _) = True"
| "is_value_error (TargetRunContractError _) = True"
| "is_value_error _ = False"

subsection \<open>The result monad\<close>

definition bindE :: "'e + 'a \<Rightarrow> ('a \<Rightarrow> 'e + 'b) \<Rightarrow> 'e + 'b" where
  "bindE m f = (case m of Inl e \<Rightarrow> Inl e | Inr x \<Rightarrow> f x)"

lemma bindE_simps [simp]:
  "bindE (Inl e) f = Inl e"
  "bindE (Inr x) f = f x"
  by (simp_all add: bindE_def)

lemma bindE_eq_Inr [simp, res_simps]:
  "bindE m f = Inr y \<longleftrightarrow> (\<exists>x. m = Inr x \<and> f x = Inr y)"
  by (cases m) simp_all

lemma bindE_eq_Inl:
  "bindE m f = Inl e \<longleftrightarrow> m = Inl e \<or> (\<exists>x. m = Inr x \<and> f x = Inl e)"
  by (cases m) simp_all

lemma bindE_assoc: "bindE (bindE m f) g = bindE m (\<lambda>x. bindE (f x) g)"
  by (cases m) simp_all

lemma bindE_Inr_right [simp]: "bindE m Inr = m"
  by (cases m) simp_all

lemma bindE_cong [fundef_cong]:
  assumes "m = m'" and "\<And>x. m' = Inr x \<Longrightarrow> f x = g x"
  shows "bindE m f = bindE m' g"
  using assms by (cases m') simp_all

lemma if_Inl_eq_Inr [simp, res_simps]:
  "(if b then Inl e else r) = Inr x \<longleftrightarrow> \<not> b \<and> r = Inr x"
  by simp

lemma if_Inl_right_eq_Inr [simp, res_simps]:
  "(if b then r else Inl e) = Inr x \<longleftrightarrow> b \<and> r = Inr x"
  by simp

definition raise_if :: "bool \<Rightarrow> 'e \<Rightarrow> 'e + unit" where
  "raise_if b e = (if b then Inl e else Inr ())"

lemma raise_if_simps [simp]:
  "raise_if True e = Inl e"
  "raise_if False e = Inr ()"
  by (simp_all add: raise_if_def)

lemma raise_if_eq_Inr [simp, res_simps]: "raise_if b e = Inr u \<longleftrightarrow> \<not> b"
  by (simp add: raise_if_def)

lemma raise_if_eq_Inl [simp]: "raise_if b e = Inl e' \<longleftrightarrow> b \<and> e' = e"
  by (auto simp: raise_if_def)

text \<open>\<open>try m except E if handles E: raise g E\<close>.\<close>

definition rethrow :: "('e \<Rightarrow> bool) \<Rightarrow> ('e \<Rightarrow> 'e) \<Rightarrow> 'e + 'a \<Rightarrow> 'e + 'a" where
  "rethrow handles g m = (case m of Inl e \<Rightarrow> Inl (if handles e then g e else e) | Inr x \<Rightarrow> Inr x)"

lemma rethrow_eq_Inr [simp, res_simps]: "rethrow h g m = Inr x \<longleftrightarrow> m = Inr x"
  by (cases m) (simp_all add: rethrow_def)

lemma rethrow_Inr [simp]: "rethrow h g (Inr x) = Inr x"
  by (simp add: rethrow_def)

lemma rethrow_Inl [simp]: "rethrow h g (Inl e) = Inl (if h e then g e else e)"
  by (simp add: rethrow_def)

definition returns :: "'e + 'a \<Rightarrow> bool" where
  "returns m \<longleftrightarrow> (case m of Inl _ \<Rightarrow> False | Inr _ \<Rightarrow> True)"

lemma returns_simps [simp]: "\<not> returns (Inl e)" "returns (Inr x)"
  by (simp_all add: returns_def)

lemma returns_iff: "returns m \<longleftrightarrow> (\<exists>x. m = Inr x)"
  by (cases m) simp_all

subsection \<open>Loops over lists\<close>

fun mapE :: "('a \<Rightarrow> 'e + 'b) \<Rightarrow> 'a list \<Rightarrow> 'e + 'b list" where
  "mapE f [] = Inr []"
| "mapE f (x # xs) = bindE (f x) (\<lambda>y. bindE (mapE f xs) (\<lambda>ys. Inr (y # ys)))"

lemma mapE_cong [fundef_cong]:
  assumes "xs = ys" and "\<And>x. x \<in> set ys \<Longrightarrow> f x = g x"
  shows "mapE f xs = mapE g ys"
proof -
  have "(\<And>x. x \<in> set ys \<Longrightarrow> f x = g x) \<Longrightarrow> mapE f ys = mapE g ys"
    by (induction ys) (auto intro!: bindE_cong)
  then show ?thesis using assms by simp
qed

lemma mapE_eq_Inr [res_simps]:
  "mapE f xs = Inr ys \<longleftrightarrow> list_all2 (\<lambda>x y. f x = Inr y) xs ys"
  by (induction xs arbitrary: ys) (auto simp: list_all2_Cons1)

lemma mapE_map: "mapE f (map g xs) = mapE (\<lambda>x. f (g x)) xs"
  by (induction xs) simp_all

lemma mapE_Inr [simp]: "mapE (\<lambda>x. Inr (f x)) xs = Inr (map f xs)"
  by (induction xs) simp_all

lemma mapE_length: "mapE f xs = Inr ys \<Longrightarrow> length ys = length xs"
  by (auto simp: mapE_eq_Inr dest: list_all2_lengthD)

lemma mapE_mem: "mapE f xs = Inr ys \<Longrightarrow> y \<in> set ys \<Longrightarrow> \<exists>x\<in>set xs. f x = Inr y"
  by (induction xs arbitrary: ys) auto

lemma mapE_each: "mapE f xs = Inr ys \<Longrightarrow> x \<in> set xs \<Longrightarrow> \<exists>y\<in>set ys. f x = Inr y"
  by (induction xs arbitrary: ys) auto

lemma mapE_append: "mapE f (xs @ ys) = bindE (mapE f xs) (\<lambda>us. bindE (mapE f ys) (\<lambda>vs. Inr (us @ vs)))"
  by (induction xs) (simp_all add: bindE_assoc)

lemma mapE_ident: "(\<And>x. x \<in> set xs \<Longrightarrow> f x = Inr (g x)) \<Longrightarrow> mapE f xs = Inr (map g xs)"
  by (induction xs) simp_all

lemma mapE_Inr_map:
  "mapE f xs = Inr ys \<Longrightarrow> (\<And>x y. x \<in> set xs \<Longrightarrow> f x = Inr y \<Longrightarrow> y = g x) \<Longrightarrow> ys = map g xs"
proof (induction xs arbitrary: ys)
  case Nil
  then show ?case by simp
next
  case (Cons x xs)
  then obtain y ys' where y: "f x = Inr y" and ys': "mapE f xs = Inr ys'" and "ys = y # ys'"
    by auto
  moreover have "y = g x" using Cons.prems(2) [of x y] y by simp
  moreover have "ys' = map g xs" using Cons.IH [OF ys'] Cons.prems(2) by simp
  ultimately show ?case by simp
qed

definition forE :: "('a \<Rightarrow> 'e + unit) \<Rightarrow> 'a list \<Rightarrow> 'e + unit" where
  "forE f xs = bindE (mapE f xs) (\<lambda>_. Inr ())"

lemma forE_Nil [simp]: "forE f [] = Inr ()"
  by (simp add: forE_def)

lemma forE_Cons [simp]: "forE f (x # xs) = bindE (f x) (\<lambda>_. forE f xs)"
  by (simp add: forE_def bindE_assoc)

lemma forE_eq_Inr [simp, res_simps]: "forE f xs = Inr () \<longleftrightarrow> (\<forall>x\<in>set xs. f x = Inr ())"
  by (induction xs) auto

fun foldE :: "('s \<Rightarrow> 'a \<Rightarrow> 'e + 's) \<Rightarrow> 's \<Rightarrow> 'a list \<Rightarrow> 'e + 's" where
  "foldE f s [] = Inr s"
| "foldE f s (x # xs) = bindE (f s x) (\<lambda>s'. foldE f s' xs)"

lemma foldE_cong [fundef_cong]:
  assumes "s = s'" and "xs = ys" and "\<And>t x. x \<in> set ys \<Longrightarrow> f t x = g t x"
  shows "foldE f s xs = foldE g s' ys"
proof -
  have "(\<And>t x. x \<in> set ys \<Longrightarrow> f t x = g t x) \<Longrightarrow> foldE f s ys = foldE g s ys" for s
    by (induction ys arbitrary: s) (auto intro!: bindE_cong)
  then show ?thesis using assms by simp
qed

lemma foldE_append: "foldE f s (xs @ ys) = bindE (foldE f s xs) (\<lambda>t. foldE f t ys)"
  by (induction xs arbitrary: s) (simp_all add: bindE_assoc)

text \<open>
  The loop rule: an invariant over the processed prefix.  It is the one place where a
  \<open>for\<close> loop of the source is unfolded by induction.
\<close>

lemma foldE_prefix_rule:
  assumes "foldE f s xs = Inr t" and "I [] s"
    and "\<And>dn x rest s s'. xs = dn @ x # rest \<Longrightarrow> I dn s \<Longrightarrow> f s x = Inr s' \<Longrightarrow> I (dn @ [x]) s'"
  shows "I xs t"
proof -
  have "foldE f s ys = Inr t \<Longrightarrow> I dn s \<Longrightarrow> xs = dn @ ys \<Longrightarrow> I xs t" for dn ys s
  proof (induction ys arbitrary: dn s)
    case Nil
    then show ?case by simp
  next
    case (Cons y ys)
    from Cons.prems(1) obtain s' where s': "f s y = Inr s'" "foldE f s' ys = Inr t"
      by auto
    have "I (dn @ [y]) s'"
      using assms(3) [OF Cons.prems(3) Cons.prems(2) s'(1)] .
    then show ?case
      using Cons.IH [OF s'(2)] Cons.prems(3) by simp
  qed
  from this [OF assms(1,2)] show ?thesis by simp
qed

subsection \<open>Insertion-ordered dictionaries\<close>

text \<open>
  A Python \<open>dict\<close> is an association list in insertion order whose keys are distinct;
  \<open>map_of\<close> is the lookup.  \<open>dict_set\<close> is \<open>d[k] = v\<close>: it keeps the
  position of an existing key.
\<close>

fun dict_set :: "'k \<Rightarrow> 'v \<Rightarrow> ('k \<times> 'v) list \<Rightarrow> ('k \<times> 'v) list" where
  "dict_set k v [] = [(k, v)]"
| "dict_set k v ((k', v') # d) = (if k = k' then (k, v) # d else (k', v') # dict_set k v d)"

lemma map_of_dict_set [simp]: "map_of (dict_set k v d) = (map_of d)(k \<mapsto> v)"
  by (induction d) (auto simp: fun_eq_iff)

lemma keys_dict_set: "set (map fst (dict_set k v d)) = insert k (set (map fst d))"
proof (induction d)
  case (Cons p d)
  then show ?case by (cases p) auto
qed simp

lemma dict_set_new: "k \<notin> set (map fst d) \<Longrightarrow> dict_set k v d = d @ [(k, v)]"
  by (induction d) auto

lemma distinct_dict_set: "distinct (map fst d) \<Longrightarrow> distinct (map fst (dict_set k v d))"
proof (induction d)
  case (Cons p d)
  obtain k' v' where p: "p = (k', v')" by (cases p)
  show ?case
    using Cons keys_dict_set [of k v d] by (auto simp: p)
qed simp

definition has_key :: "('k \<times> 'v) list \<Rightarrow> 'k \<Rightarrow> bool" where
  "has_key d k \<longleftrightarrow> map_of d k \<noteq> None"

lemma has_key_iff: "has_key d k \<longleftrightarrow> k \<in> set (map fst d)"
  by (simp add: has_key_def map_of_eq_None_iff)

lemma has_key_simps [simp]:
  "\<not> has_key [] k"
  "has_key ((k', v) # d) k \<longleftrightarrow> k' = k \<or> has_key d k"
  by (auto simp: has_key_def)

subsection \<open>Duplicate checks\<close>

text \<open>\<open>len(xs) != len(set(xs))\<close> is the source's test for a repeated element.\<close>

lemma card_set_distinct: "length xs = card (set xs) \<longleftrightarrow> distinct xs"
  by (metis card_distinct distinct_card)

definition subset_list :: "'a list \<Rightarrow> 'a list \<Rightarrow> bool" where
  "subset_list xs ys \<longleftrightarrow> list_all (\<lambda>x. List.member ys x) xs"

lemma subset_list_iff [simp]: "subset_list xs ys \<longleftrightarrow> set xs \<subseteq> set ys"
  by (auto simp: subset_list_def list_all_iff)

definition same_set :: "'a list \<Rightarrow> 'a list \<Rightarrow> bool" where
  "same_set xs ys \<longleftrightarrow> subset_list xs ys \<and> subset_list ys xs"

lemma same_set_iff [simp]: "same_set xs ys \<longleftrightarrow> set xs = set ys"
  by (auto simp: same_set_def)

text \<open>\<open>tuple(sorted(set(xs)))\<close>.\<close>

definition sorted_set :: "'a::linorder list \<Rightarrow> 'a list" where
  "sorted_set xs = sort (remdups xs)"

lemma set_sorted_set [simp]: "set (sorted_set xs) = set xs"
  by (simp add: sorted_set_def)

lemma sorted_set_props [simp]: "sorted (sorted_set xs)" "distinct (sorted_set xs)"
  by (simp_all add: sorted_set_def)

lemma sorted_set_fix: "xs = sorted_set xs \<longleftrightarrow> sorted xs \<and> distinct xs"
proof
  assume "sorted xs \<and> distinct xs"
  then show "xs = sorted_set xs"
    by (simp add: sorted_set_def distinct_remdups_id sorted_sort_id)
qed (metis sorted_set_props)

lemma sorted_set_eq: "set xs = set ys \<Longrightarrow> sorted_set xs = sorted_set ys"
  by (metis set_sorted_set sorted_distinct_set_unique sorted_set_props)

lemma list_all2_map_ident: "list_all2 (\<lambda>x y. y = f x) xs ys \<longleftrightarrow> ys = map f xs"
  by (induction xs arbitrary: ys) (auto simp: list_all2_Cons1)

end
