(* ===== verification/PyStr.thy ===== *)
theory PyStr
  imports Prelude "HOL-Library.List_Lexorder"
begin

text \<open>
  Python's \<open>str\<close>: a sequence of Unicode code points, kept as natural numbers, so that
  the program's two kinds of length limit differ here as they do in the code: \<open>len(s)\<close>
  counts code points, \<open>len(s.encode("utf-8"))\<close> counts bytes, and a lone surrogate makes
  \<open>encode\<close> raise.  The literal \<open>"abc"\<close> of the source is \<open>L ''abc''\<close>.
  Strings are ordered by code points, as \<open>sorted\<close> and \<open>sort_keys=True\<close> order
  them; the \<open>linorder\<close> instance gives the library's sorting to the model.
\<close>

datatype str = Str (codes: "nat list")

definition L :: "string \<Rightarrow> str" where
  "L s = Str (map of_char s)"

lemma L_inject [simp]: "L s = L t \<longleftrightarrow> s = t"
  by (auto simp: L_def inj_map_eq_map [OF inj_of_char])

lemma codes_L [simp]: "codes (L s) = map of_char s"
  by (simp add: L_def)

lemma inj_L: "inj L"
  by (simp add: inj_on_def)

instantiation str :: linorder
begin

definition less_eq_str :: "str \<Rightarrow> str \<Rightarrow> bool" where
  "less_eq_str s t \<longleftrightarrow> codes s \<le> codes t"

definition less_str :: "str \<Rightarrow> str \<Rightarrow> bool" where
  "less_str s t \<longleftrightarrow> codes s < codes t"

instance
  by standard (auto simp: less_eq_str_def less_str_def codes_def split: str.splits)

end

subsection \<open>Operations of \<open>str\<close>\<close>

definition slen :: "str \<Rightarrow> nat" where
  "slen s = length (codes s)"

lemma slen_L [simp]: "slen (L s) = length s"
  by (simp add: slen_def)

definition sappend :: "str \<Rightarrow> str \<Rightarrow> str" where
  "sappend s t = Str (codes s @ codes t)"

text \<open>\<open>str.isspace\<close> of one code point: the characters \<open>strip()\<close> and \<open>split()\<close> remove.\<close>

definition is_space :: "nat \<Rightarrow> bool" where
  "is_space c \<longleftrightarrow> (9 \<le> c \<and> c \<le> 13) \<or> (28 \<le> c \<and> c \<le> 32) \<or> c = 133 \<or> c = 160 \<or> c = 5760
     \<or> (8192 \<le> c \<and> c \<le> 8202) \<or> c = 8232 \<or> c = 8233 \<or> c = 8239 \<or> c = 8287 \<or> c = 12288"

definition strip :: "str \<Rightarrow> str" where
  "strip s = Str (rev (dropWhile is_space (rev (dropWhile is_space (codes s)))))"

definition is_blank :: "str \<Rightarrow> bool" where
  "is_blank s \<longleftrightarrow> codes (strip s) = []"

lemma is_blank_iff: "is_blank s \<longleftrightarrow> list_all is_space (codes s)"
proof -
  have "dropWhile is_space (rev xs) = [] \<longleftrightarrow> list_all is_space xs" for xs
    by (auto simp: dropWhile_eq_Nil_conv list_all_iff)
  moreover have "list_all is_space (dropWhile is_space xs) \<longleftrightarrow> list_all is_space xs" for xs
    by (induction xs) auto
  ultimately show ?thesis by (simp add: is_blank_def strip_def)
qed

lemma strip_fix_iff:
  "s = strip s \<longleftrightarrow> codes s = [] \<or> (\<not> is_space (hd (codes s)) \<and> \<not> is_space (last (codes s)))"
proof -
  let ?d = "dropWhile is_space"
  have len: "length (?d xs) \<le> length xs" for xs :: "nat list"
    by (induction xs) auto
  have fixd: "?d xs = xs \<longleftrightarrow> xs = [] \<or> \<not> is_space (hd xs)" for xs :: "nat list"
  proof (cases xs)
    case (Cons y ys)
    then show ?thesis using len [of ys] by auto
  qed simp
  have "s = strip s \<longleftrightarrow> rev (?d (rev (?d (codes s)))) = codes s"
    by (cases s) (auto simp: strip_def)
  also have "\<dots> \<longleftrightarrow> ?d (codes s) = codes s \<and> ?d (rev (codes s)) = rev (codes s)"
  proof
    assume eq: "rev (?d (rev (?d (codes s)))) = codes s"
    have "length (codes s) \<le> length (?d (codes s))"
      using eq len [of "rev (?d (codes s))"] by (metis length_rev)
    moreover have "length (takeWhile is_space (codes s)) + length (?d (codes s)) = length (codes s)"
      by (metis length_append takeWhile_dropWhile_id)
    ultimately have "length (takeWhile is_space (codes s)) = 0" by linarith
    then have "takeWhile is_space (codes s) = []" by simp
    then have "?d (codes s) = codes s"
      by (metis append_Nil takeWhile_dropWhile_id)
    then show "?d (codes s) = codes s \<and> ?d (rev (codes s)) = rev (codes s)"
      using eq by (metis rev_rev_ident)
  qed simp
  also have "\<dots> \<longleftrightarrow> codes s = [] \<or> (\<not> is_space (hd (codes s)) \<and> \<not> is_space (last (codes s)))"
    by (auto simp: fixd hd_rev)
  finally show ?thesis .
qed

definition scontains :: "nat \<Rightarrow> str \<Rightarrow> bool" where
  "scontains c s \<longleftrightarrow> List.member (codes s) c"

definition schars_in :: "str \<Rightarrow> string \<Rightarrow> bool" where
  "schars_in s cs \<longleftrightarrow> list_all (\<lambda>c. List.member (map of_char cs) c) (codes s)"

definition sreplace :: "nat \<Rightarrow> nat \<Rightarrow> str \<Rightarrow> str" where
  "sreplace a b s = Str (map (\<lambda>c. if c = a then b else c) (codes s))"

text \<open>
  \<open>str.casefold\<close> on the code points whose folding is pure ASCII; every other code point
  folds to a text with a non-ASCII character and is left alone.  The code compares folded
  keys with ASCII words only, so this is exact for every comparison it makes.
\<close>

fun casefold_cp :: "nat \<Rightarrow> nat list" where
  "casefold_cp c =
     (if 65 \<le> c \<and> c \<le> 90 then [c + 32]
      else if c = 223 \<or> c = 7838 then [115, 115]
      else if c = 383 then [115]
      else if c = 8490 then [107]
      else if c = 64256 then [102, 102]
      else if c = 64257 then [102, 105]
      else if c = 64258 then [102, 108]
      else if c = 64259 then [102, 102, 105]
      else if c = 64260 then [102, 102, 108]
      else if c = 64261 \<or> c = 64262 then [115, 116]
      else [c])"

definition casefold :: "str \<Rightarrow> str" where
  "casefold s = Str (concat (map casefold_cp (codes s)))"

subsection \<open>UTF-8\<close>

definition utf8_cp :: "nat \<Rightarrow> nat list option" where
  "utf8_cp c =
     (if c < 128 then Some [c]
      else if c < 2048 then Some [192 + c div 64, 128 + c mod 64]
      else if 55296 \<le> c \<and> c \<le> 57343 then None
      else if c < 65536 then Some [224 + c div 4096, 128 + (c div 64) mod 64, 128 + c mod 64]
      else if c < 1114112 then
        Some [240 + c div 262144, 128 + (c div 4096) mod 64, 128 + (c div 64) mod 64, 128 + c mod 64]
      else None)"

fun utf8_codes :: "nat list \<Rightarrow> nat list option" where
  "utf8_codes [] = Some []"
| "utf8_codes (c # cs) =
     (case utf8_cp c of None \<Rightarrow> None
      | Some b \<Rightarrow> (case utf8_codes cs of None \<Rightarrow> None | Some bs \<Rightarrow> Some (b @ bs)))"

definition encode_utf8 :: "str \<Rightarrow> nat list res" where
  "encode_utf8 s = (case utf8_codes (codes s) of None \<Rightarrow> Inl UnicodeEncodeError | Some bs \<Rightarrow> Inr bs)"

lemma utf8_codes_append:
  "utf8_codes (xs @ ys) =
     (case utf8_codes xs of None \<Rightarrow> None
      | Some a \<Rightarrow> (case utf8_codes ys of None \<Rightarrow> None | Some b \<Rightarrow> Some (a @ b)))"
  by (induction xs) (auto split: option.splits)

lemma utf8_codes_len: "utf8_codes cs = Some bs \<Longrightarrow> length cs \<le> length bs"
  by (induction cs arbitrary: bs) (fastforce simp: utf8_cp_def split: option.splits if_splits)+

lemma utf8_codes_bound: "utf8_codes cs = Some bs \<Longrightarrow> length bs \<le> 4 * length cs"
  by (induction cs arbitrary: bs) (fastforce simp: utf8_cp_def split: option.splits if_splits)+

lemma utf8_codes_ascii: "list_all (\<lambda>c. c < 128) cs \<Longrightarrow> utf8_codes cs = Some cs"
  by (induction cs) (auto simp: utf8_cp_def)

lemma encode_utf8_len: "encode_utf8 s = Inr bs \<Longrightarrow> slen s \<le> length bs"
  by (auto simp: encode_utf8_def slen_def split: option.splits dest: utf8_codes_len)

text \<open>Each code point's encoding determines it: the encoder is injective.\<close>

fun utf8_decode1 :: "nat list \<Rightarrow> nat" where
  "utf8_decode1 [a] = a"
| "utf8_decode1 [a, b] = (a - 192) * 64 + (b - 128)"
| "utf8_decode1 [a, b, c] = (a - 224) * 4096 + (b - 128) * 64 + (c - 128)"
| "utf8_decode1 [a, b, c, d] = (a - 240) * 262144 + (b - 128) * 4096 + (c - 128) * 64 + (d - 128)"
| "utf8_decode1 _ = 0"

lemma utf8_cp_decode: "utf8_cp c = Some b \<Longrightarrow> utf8_decode1 b = c"
proof -
  have d2: "c div 64 * 64 + c mod 64 = c" by simp
  have q: "x div 64 mod 64 * 64 + x div 64 div 64 * 4096 = x div 64 * 64" for x :: nat
    using div_mult_mod_eq [of "x div 64" 64] by linarith
  have d3: "c div 4096 * 4096 + c div 64 mod 64 * 64 = c div 64 * 64"
    using q [of c] div_mult2_eq [of c 64 64] by simp
  have "c div 64 div 64 div 64 = c div 262144" "c div 64 div 64 = c div 4096"
    by (simp_all add: div_mult2_eq [symmetric])
  then have d4: "c div 262144 * 262144 + c div 4096 mod 64 * 4096 = c div 4096 * 4096"
    using q [of "c div 64"] by simp
  assume "utf8_cp c = Some b"
  then show ?thesis using d2 d3 d4
    by (auto simp: utf8_cp_def split: if_splits)
qed

definition utf8_width :: "nat \<Rightarrow> nat" where
  "utf8_width h = (if h < 128 then 1 else if h < 224 then 2 else if h < 240 then 3 else 4)"

lemma utf8_cp_width:
  assumes "utf8_cp c = Some b"
  shows "length b = utf8_width (hd b)"
proof -
  have "c < 2048 \<Longrightarrow> c div 64 < 32" and "c < 65536 \<Longrightarrow> c div 4096 < 16"
    by (simp_all add: less_mult_imp_div_less)
  with assms show ?thesis
    by (auto simp: utf8_cp_def utf8_width_def split: if_splits)
qed

lemma utf8_cp_prefix:
  assumes b: "utf8_cp c = Some b" and b': "utf8_cp c' = Some b'" and eq: "b @ xs = b' @ xs'"
  shows "c = c' \<and> xs = xs'"
proof -
  have "b \<noteq> []" "b' \<noteq> []" using b b' by (auto simp: utf8_cp_def split: if_splits)
  then have "hd b = hd b'" using eq by (metis hd_append2)
  then have "length b = length b'" using utf8_cp_width [OF b] utf8_cp_width [OF b'] by simp
  then have "b = b' \<and> xs = xs'" using eq by simp
  then show ?thesis using utf8_cp_decode [OF b] utf8_cp_decode [OF b'] by simp
qed

lemma utf8_cp_nonempty: "utf8_cp c = Some b \<Longrightarrow> b \<noteq> []"
  by (auto simp: utf8_cp_def split: if_splits)

lemma utf8_codes_inj: "utf8_codes xs = Some bs \<Longrightarrow> utf8_codes ys = Some bs \<Longrightarrow> xs = ys"
proof (induction xs arbitrary: ys bs)
  case Nil
  then show ?case
    by (cases ys) (auto split: option.splits dest: utf8_cp_nonempty)
next
  case (Cons x xs)
  then obtain b rest where b: "utf8_cp x = Some b" "utf8_codes xs = Some rest" "bs = b @ rest"
    by (auto split: option.splits)
  from b have "bs \<noteq> []" using utf8_cp_nonempty by auto
  with Cons.prems(2) obtain y ys' where ys: "ys = y # ys'" by (cases ys) auto
  with Cons.prems(2) obtain b' rest' where
    b': "utf8_cp y = Some b'" "utf8_codes ys' = Some rest'" "bs = b' @ rest'"
    by (auto split: option.splits)
  have "x = y \<and> rest = rest'"
    using utf8_cp_prefix [OF b(1) b'(1), of rest rest'] b(3) b'(3) by simp
  then show ?case using Cons.IH [OF b(2)] b'(2) ys by simp
qed

lemma encode_utf8_inj: "encode_utf8 s = Inr bs \<Longrightarrow> encode_utf8 t = Inr bs \<Longrightarrow> s = t"
  by (cases s; cases t) (auto simp: encode_utf8_def split: option.splits dest: utf8_codes_inj)

lemma utf8_bytes: "utf8_codes cs = Some bs \<Longrightarrow> list_all (\<lambda>b. b < 256) bs"
  by (induction cs arbitrary: bs) (fastforce simp: utf8_cp_def split: option.splits if_splits)+

subsection \<open>\<open>split\<close> and \<open>join\<close>\<close>

text \<open>\<open>s.split()\<close>: the maximal runs of non-space code points, in order.\<close>

function split_ws :: "nat list \<Rightarrow> nat list list" where
  "split_ws cs =
     (let r = dropWhile is_space cs
      in if r = [] then []
         else takeWhile (\<lambda>c. \<not> is_space c) r # split_ws (dropWhile (\<lambda>c. \<not> is_space c) r))"
  by pat_completeness auto
termination
proof (relation "measure length")
  fix cs r :: "nat list"
  assume r: "r = dropWhile is_space cs" and ne: "\<not> r = []"
  have "\<not> is_space (hd r)" using r ne by (metis hd_dropWhile)
  then have "length (dropWhile (\<lambda>c. \<not> is_space c) r) < length r"
    using ne by (cases r) (auto simp: length_dropWhile_le less_Suc_eq_le)
  moreover have "length r \<le> length cs" by (simp add: r length_dropWhile_le)
  ultimately show "(dropWhile (\<lambda>c. \<not> is_space c) r, cs) \<in> measure length" by simp
qed simp

declare split_ws.simps [simp del]

fun join_sp :: "nat list list \<Rightarrow> nat list" where
  "join_sp [] = []"
| "join_sp [w] = w"
| "join_sp (w # v # ws) = w @ 32 # join_sp (v # ws)"

definition normalize_ws :: "str \<Rightarrow> str" where
  "normalize_ws s = Str (join_sp (split_ws (codes s)))"

text \<open>Decimal digits of a natural number, as \<open>str(n)\<close> prints them.\<close>

fun nat_codes :: "nat \<Rightarrow> nat list" where
  "nat_codes n = (if n < 10 then [48 + n] else nat_codes (n div 10) @ [48 + n mod 10])"

declare nat_codes.simps [simp del]

definition int_codes :: "int \<Rightarrow> nat list" where
  "int_codes i = (if i < 0 then 45 # nat_codes (nat (- i)) else nat_codes (nat i))"

lemma nat_codes_digits: "list_all (\<lambda>c. 48 \<le> c \<and> c \<le> 57) (nat_codes n)"
proof (induction n rule: nat_codes.induct)
  case (1 n)
  then show ?case by (subst nat_codes.simps) (auto simp: list_all_iff)
qed

lemma nat_codes_nonempty [simp]: "nat_codes n \<noteq> []"
  by (subst nat_codes.simps) simp

end
