(* ===== verification/PyFloat.thy ===== *)
theory PyFloat
  imports PyStr Complex_Main
begin

text \<open>
  Python's \<open>float\<close> as far as documents need it: a finite float is its sign and its exact
  magnitude; \<open>float(text)\<close> of a JSON number token is the nearest double (ties to even);
  \<open>repr\<close> is the shortest decimal text that reads back as the same double.  Documents
  carry floats only as data, so no arithmetic on them is modelled.
\<close>

datatype pyfloat = FNan | FInf bool | FFin bool rat

definition float_finite :: "pyfloat \<Rightarrow> bool" where
  "float_finite f = (case f of FFin _ _ \<Rightarrow> True | _ \<Rightarrow> False)"

text \<open>\<open>a == b\<close> on floats, and the exact value a finite float is compared with an \<open>int\<close> by.\<close>

definition float_value :: "pyfloat \<Rightarrow> rat option" where
  "float_value f = (case f of FFin neg m \<Rightarrow> Some (if neg then - m else m) | _ \<Rightarrow> None)"

definition float_eq :: "pyfloat \<Rightarrow> pyfloat \<Rightarrow> bool" where
  "float_eq a b =
     (case (a, b) of
        (FInf s, FInf t) \<Rightarrow> s = t
      | (FFin _ _, FFin _ _) \<Rightarrow> float_value a = float_value b
      | _ \<Rightarrow> False)"

subsection \<open>Nearest double\<close>

fun ilog2 :: "nat \<Rightarrow> nat" where
  "ilog2 n = (if n < 2 then 0 else Suc (ilog2 (n div 2)))"

declare ilog2.simps [simp del]

definition pow_rat :: "rat \<Rightarrow> int \<Rightarrow> rat" where
  "pow_rat b e = (if 0 \<le> e then b ^ nat e else 1 / b ^ nat (- e))"

definition floor_log2 :: "rat \<Rightarrow> int" where
  "floor_log2 q =
     (case quotient_of q of (a, b) \<Rightarrow>
        let e = int (ilog2 (nat a)) - int (ilog2 (nat b))
        in if pow_rat 2 e \<le> q then e else e - 1)"

definition round_half_even :: "rat \<Rightarrow> int" where
  "round_half_even q =
     (let f = \<lfloor>q\<rfloor>; r = q - of_int f
      in if r < 1 / 2 then f else if 1 / 2 < r then f + 1 else if even f then f else f + 1)"

text \<open>The nearest double of a non-negative rational; \<open>None\<close> is overflow to infinity.\<close>

definition nearest_double :: "rat \<Rightarrow> rat option" where
  "nearest_double q =
     (if q = 0 then Some 0
      else let u = pow_rat 2 (max (floor_log2 q) (-1022) - 52);
               v = of_int (round_half_even (q / u)) * u
           in if 2 ^ 1024 \<le> v then None else Some v)"

fun digits_value :: "nat list \<Rightarrow> nat \<Rightarrow> nat" where
  "digits_value [] acc = acc"
| "digits_value (c # cs) acc = digits_value cs (acc * 10 + (c - 48))"

text \<open>\<open>float\<close> of a token: sign, integer digits, fraction digits, exponent.\<close>

definition float_of_token :: "bool \<Rightarrow> nat list \<Rightarrow> nat list \<Rightarrow> int \<Rightarrow> pyfloat" where
  "float_of_token neg ds fs e =
     (case nearest_double (of_nat (digits_value (ds @ fs) 0) * pow_rat 10 (e - int (length fs))) of
        None \<Rightarrow> FInf neg | Some v \<Rightarrow> FFin neg v)"

subsection \<open>\<open>repr\<close>\<close>

definition floor_log10 :: "rat \<Rightarrow> int" where
  "floor_log10 q =
     (if 1 \<le> q then int (length (nat_codes (nat \<lfloor>q\<rfloor>))) - 1
      else let n = int (length (nat_codes (nat \<lfloor>1 / q\<rfloor>)))
           in if q = pow_rat 10 (1 - n) then 1 - n else - n)"

text \<open>The digits of the nearest of the two \<open>nd\<close>-digit neighbours that read back, if one does.\<close>

definition repr_candidate :: "rat \<Rightarrow> nat \<Rightarrow> nat option" where
  "repr_candidate q nd =
     (let s = pow_rat 10 (int nd - 1 - floor_log10 q); x = q * s; lo = \<lfloor>x\<rfloor>; hi = lo + 1;
          ok = (\<lambda>c. nearest_double (of_int c / s) = Some q)
      in if ok lo \<and> ok hi then Some (nat (round_half_even x))
         else if ok lo then Some (nat lo) else if ok hi then Some (nat hi) else None)"

fun repr_search :: "rat \<Rightarrow> nat list \<Rightarrow> nat \<times> nat" where
  "repr_search q [] = (nat \<lfloor>q * pow_rat 10 (16 - floor_log10 q)\<rfloor>, 17)"
| "repr_search q (nd # nds) =
     (case repr_candidate q nd of Some c \<Rightarrow> (c, nd) | None \<Rightarrow> repr_search q nds)"

definition strip_zeros :: "nat list \<Rightarrow> nat list" where
  "strip_zeros ds = (let r = rev (dropWhile (\<lambda>c. c = 48) (rev ds)) in if r = [] then [48] else r)"

definition exponent_codes :: "int \<Rightarrow> nat list" where
  "exponent_codes e =
     (let ds = nat_codes (nat \<bar>e\<bar>)
      in [101, if e < 0 then 45 else 43] @ (if length ds < 2 then 48 # ds else ds))"

definition repr_mag :: "rat \<Rightarrow> nat list" where
  "repr_mag q =
     (if q = 0 then [48, 46, 48]
      else case repr_search q [1..<18] of (c, nd) \<Rightarrow>
        let all = nat_codes c;
            decpt = floor_log10 q + 1 + (int (length all) - int nd);
            ds = strip_zeros all
        in if -4 < decpt \<and> decpt \<le> 16 then
             (if decpt \<le> 0 then [48, 46] @ replicate (nat (- decpt)) 48 @ ds
              else if nat decpt < length ds then take (nat decpt) ds @ 46 # drop (nat decpt) ds
              else ds @ replicate (nat decpt - length ds) 48 @ [46, 48])
           else take 1 ds @ (if length ds = 1 then [] else 46 # drop 1 ds) @ exponent_codes (decpt - 1))"

definition repr_codes :: "pyfloat \<Rightarrow> nat list" where
  "repr_codes f =
     (case f of FNan \<Rightarrow> map of_char ''nan''
      | FInf neg \<Rightarrow> (if neg then map of_char ''-inf'' else map of_char ''inf'')
      | FFin neg m \<Rightarrow> (if neg then 45 # repr_mag m else repr_mag m))"

end
