(* ===== verification/PyJson.thy ===== *)
theory PyJson
  imports PyFloat
begin

text \<open>
  The JSON-shaped Python values the program passes around: \<open>None\<close>, \<open>bool\<close>,
  \<open>int\<close>, \<open>float\<close>, \<open>str\<close>, \<open>list\<close> and \<open>dict\<close> with string keys (in
  insertion order), with \<open>==\<close>, \<open>.get\<close>, membership in a literal set, and the two codecs
  \<open>json.dumps(..., ensure_ascii=False, allow_nan=False, sort_keys=True, separators=(",", ":"))\<close>
  and \<open>json.loads\<close>.  Not modelled: \<open>RecursionError\<close> and \<open>MemoryError\<close>, and
  dictionaries with keys that are not strings (JSON decoding makes none).
\<close>

datatype json =
    JNull
  | JBool bool
  | JInt int
  | JFloat pyfloat
  | JStr str
  | JList "json list"
  | JDict "(str \<times> json) list"

type_synonym jdict = "(str \<times> json) list"

text \<open>\<open>d.get(k)\<close>, and \<open>d.get(k, default)\<close>.\<close>

definition dget :: "jdict \<Rightarrow> string \<Rightarrow> json" where
  "dget d k = (case map_of d (L k) of None \<Rightarrow> JNull | Some v \<Rightarrow> v)"

definition dget_or :: "jdict \<Rightarrow> string \<Rightarrow> json \<Rightarrow> json" where
  "dget_or d k v0 = (case map_of d (L k) of None \<Rightarrow> v0 | Some v \<Rightarrow> v)"

text \<open>\<open>d[k]\<close>.\<close>

definition ditem :: "jdict \<Rightarrow> string \<Rightarrow> json res" where
  "ditem d k = (case map_of d (L k) of None \<Rightarrow> Inl KeyError | Some v \<Rightarrow> Inr v)"

definition keys :: "('k \<times> 'v) list \<Rightarrow> 'k list" where
  "keys d = map fst d"

lemma keys_simps [simp]: "keys [] = []" "keys (p # d) = fst p # keys d"
  by (simp_all add: keys_def)

text \<open>\<open>set(d) == {k1, ..., kn}\<close>.\<close>

definition keys_are :: "jdict \<Rightarrow> string list \<Rightarrow> bool" where
  "keys_are d ks \<longleftrightarrow> same_set (keys d) (map L ks)"

lemma keys_are_has: "keys_are d ks \<Longrightarrow> k \<in> set ks \<Longrightarrow> \<exists>v. map_of d (L k) = Some v"
proof -
  assume "keys_are d ks" "k \<in> set ks"
  then have "L k \<in> fst ` set d" by (auto simp: keys_are_def keys_def)
  then show ?thesis by (metis domD dom_map_of_conv_image_fst)
qed

lemma ditem_dget: "keys_are d ks \<Longrightarrow> k \<in> set ks \<Longrightarrow> ditem d k = Inr (dget d k)"
  by (auto simp: ditem_def dget_def dest: keys_are_has)

lemma dget_simps [simp]:
  "dget [] k = JNull"
  "dget ((L k', v) # d) k = (if k' = k then v else dget d k)"
  by (simp_all add: dget_def)

lemma dget_dict_set: "dget (dict_set (L k') v d) k = (if k' = k then v else dget d k)"
  by (simp add: dget_def)

lemma ditem_simps [simp]:
  "ditem [] k = Inl KeyError"
  "ditem ((L k', v) # d) k = (if k' = k then Inr v else ditem d k)"
  by (simp_all add: ditem_def)

subsection \<open>Equality and hashing\<close>

text \<open>
  \<open>a == b\<close>: \<open>True\<close> equals \<open>1\<close>, an integral float equals the integer, two
  dictionaries are equal as maps, whatever their order.
\<close>

definition num_value :: "json \<Rightarrow> rat option" where
  "num_value v =
     (case v of JBool b \<Rightarrow> Some (if b then 1 else 0) | JInt i \<Rightarrow> Some (of_int i)
      | JFloat f \<Rightarrow> float_value f | _ \<Rightarrow> None)"

lemma zip_size [termination_simp]: "(a, b) \<in> set (zip xs ys) \<Longrightarrow> size a < Suc (size_list size xs)"
  by (auto dest!: set_zip_leftD simp: less_Suc_eq_le intro: size_list_estimation')

fun py_eq :: "json \<Rightarrow> json \<Rightarrow> bool" where
  "py_eq JNull w = (w = JNull)"
| "py_eq (JStr s) w = (w = JStr s)"
| "py_eq (JList xs) w =
     (case w of JList ys \<Rightarrow> length xs = length ys \<and> list_all (\<lambda>p. py_eq (fst p) (snd p)) (zip xs ys)
      | _ \<Rightarrow> False)"
| "py_eq (JDict d) w =
     (case w of JDict e \<Rightarrow>
        length d = length e \<and>
        list_all (\<lambda>p. case map_of e (fst p) of None \<Rightarrow> False | Some u \<Rightarrow> py_eq (snd p) u) d
      | _ \<Rightarrow> False)"
| "py_eq (JFloat f) w = (case w of JFloat g \<Rightarrow> float_eq f g | _ \<Rightarrow> num_value w \<noteq> None \<and> num_value w = float_value f)"
| "py_eq v w = (case w of JFloat g \<Rightarrow> float_value g \<noteq> None \<and> float_value g = num_value v
                | _ \<Rightarrow> num_value w = num_value v)"

lemma py_eq_JStr_right [simp]: "py_eq v (JStr s) \<longleftrightarrow> v = JStr s"
  by (cases v) (auto simp: num_value_def)

lemma py_eq_JNull_right [simp]: "py_eq v JNull \<longleftrightarrow> v = JNull"
  by (cases v) (auto simp: num_value_def)

fun unhashable :: "json \<Rightarrow> bool" where
  "unhashable (JList _) = True"
| "unhashable (JDict _) = True"
| "unhashable _ = False"

text \<open>\<open>v in {"a", "b", ...}\<close>: hashing a list or a dict raises \<open>TypeError\<close>.\<close>

definition in_str_set :: "json \<Rightarrow> string list \<Rightarrow> bool res" where
  "in_str_set v ks =
     (if unhashable v then Inl TypeError
      else Inr (case v of JStr s \<Rightarrow> List.member (map L ks) s | _ \<Rightarrow> False))"

lemma in_str_set_JStr [simp]: "in_str_set (JStr (L s)) ks = Inr (s \<in> set ks)"
  by (auto simp: in_str_set_def)

lemma in_str_set_True: "in_str_set v ks = Inr True \<longleftrightarrow> (\<exists>k\<in>set ks. v = JStr (L k))"
  by (cases v) (auto simp: in_str_set_def)

subsection \<open>\<open>json.dumps\<close> in the canonical configuration\<close>

definition esc_cp :: "nat \<Rightarrow> nat list" where
  "esc_cp c =
     (if c = 34 then [92, 34] else if c = 92 then [92, 92] else if c = 10 then [92, 110]
      else if c = 13 then [92, 114] else if c = 9 then [92, 116] else if c = 8 then [92, 98]
      else if c = 12 then [92, 102]
      else if c < 32 then [92, 117, 48, 48, 48 + c div 16, (if c mod 16 < 10 then 48 + c mod 16 else 87 + c mod 16)]
      else [c])"

definition quote_codes :: "str \<Rightarrow> nat list" where
  "quote_codes s = 34 # concat (map esc_cp (codes s)) @ [34]"

fun join_comma :: "nat list list \<Rightarrow> nat list" where
  "join_comma [] = []"
| "join_comma [x] = x"
| "join_comma (x # y # xs) = x @ 44 # join_comma (y # xs)"

fun json_codes :: "json \<Rightarrow> nat list" where
  "json_codes JNull = map of_char ''null''"
| "json_codes (JBool b) = (if b then map of_char ''true'' else map of_char ''false'')"
| "json_codes (JInt i) = int_codes i"
| "json_codes (JFloat f) = repr_codes f"
| "json_codes (JStr s) = quote_codes s"
| "json_codes (JList xs) = 91 # join_comma (map json_codes xs) @ [93]"
| "json_codes (JDict d) =
     123 # join_comma (map (\<lambda>p. quote_codes (fst p) @ 58 # snd p)
                        (sort_key fst (map (\<lambda>p. (fst p, json_codes (snd p))) d))) @ [125]"

text \<open>
  \<open>dumps\<close> refuses a float that is not finite (\<open>allow_nan=False\<close>) and an integer of more
  than 4300 digits (the interpreter's limit for \<open>int\<close> to text), both with \<open>ValueError\<close>.
\<close>

definition int_text_limit :: int where
  "int_text_limit = 10 ^ 4300"

fun dumpable :: "json \<Rightarrow> bool" where
  "dumpable (JFloat f) = float_finite f"
| "dumpable (JInt i) = (\<bar>i\<bar> < int_text_limit)"
| "dumpable (JList xs) = list_all dumpable xs"
| "dumpable (JDict d) = list_all (\<lambda>p. dumpable (snd p)) d"
| "dumpable _ = True"

definition json_dumps :: "json \<Rightarrow> str res" where
  "json_dumps v =
     (if dumpable v then Inr (Str (json_codes v)) else Inl (ValueError ''not JSON compliant''))"

text \<open>The value with every dictionary in key order: what the canonical text denotes.\<close>

fun key_sorted :: "json \<Rightarrow> json" where
  "key_sorted (JList xs) = JList (map key_sorted xs)"
| "key_sorted (JDict d) = JDict (sort_key fst (map (\<lambda>p. (fst p, key_sorted (snd p))) d))"
| "key_sorted v = v"

fun wf_json :: "json \<Rightarrow> bool" where
  "wf_json (JList xs) = list_all wf_json xs"
| "wf_json (JDict d) = (distinct (map fst d) \<and> list_all (\<lambda>p. wf_json (snd p)) d)"
| "wf_json _ = True"

subsection \<open>\<open>json.loads\<close>\<close>

definition is_ws :: "nat \<Rightarrow> bool" where
  "is_ws c \<longleftrightarrow> c = 32 \<or> c = 9 \<or> c = 10 \<or> c = 13"

definition skip_ws :: "nat list \<Rightarrow> nat list" where
  "skip_ws s = dropWhile is_ws s"

definition is_digit :: "nat \<Rightarrow> bool" where
  "is_digit c \<longleftrightarrow> 48 \<le> c \<and> c \<le> 57"

definition hex_value :: "nat \<Rightarrow> nat option" where
  "hex_value c =
     (if 48 \<le> c \<and> c \<le> 57 then Some (c - 48) else if 97 \<le> c \<and> c \<le> 102 then Some (c - 87)
      else if 65 \<le> c \<and> c \<le> 70 then Some (c - 55) else None)"

fun hex4 :: "nat list \<Rightarrow> (nat \<times> nat list) option" where
  "hex4 (a # b # c # d # s) =
     (case (hex_value a, hex_value b, hex_value c, hex_value d) of
        (Some a', Some b', Some c', Some d') \<Rightarrow> Some (((a' * 16 + b') * 16 + c') * 16 + d', s)
      | _ \<Rightarrow> None)"
| "hex4 _ = None"

definition simple_escape :: "nat \<Rightarrow> nat option" where
  "simple_escape c =
     (if c = 34 then Some 34 else if c = 92 then Some 92 else if c = 47 then Some 47
      else if c = 98 then Some 8 else if c = 102 then Some 12 else if c = 110 then Some 10
      else if c = 114 then Some 13 else if c = 116 then Some 9 else None)"

text \<open>A \<open>\\uXXXX\<close> escape, joined with a following low surrogate when it is a high one.\<close>

definition unicode_escape :: "nat list \<Rightarrow> (nat \<times> nat list) option" where
  "unicode_escape s =
     (case hex4 s of None \<Rightarrow> None
      | Some (u, r) \<Rightarrow>
          if 55296 \<le> u \<and> u \<le> 56319 \<and> take 2 r = [92, 117] then
            (case hex4 (drop 2 r) of None \<Rightarrow> None
             | Some (w, r') \<Rightarrow>
                 if 56320 \<le> w \<and> w \<le> 57343 then Some (65536 + (u - 55296) * 1024 + (w - 56320), r')
                 else Some (u, r))
          else Some (u, r))"

lemma hex4_shorter: "hex4 s = Some (u, r) \<Longrightarrow> length r < length s"
  by (induction s rule: hex4.induct) (auto split: option.splits)

lemma unicode_escape_shorter: "unicode_escape s = Some (u, r) \<Longrightarrow> length r < length s"
  by (auto simp: unicode_escape_def split: option.splits if_splits dest!: hex4_shorter)

text \<open>The body of a string, after the opening quote: its code points and the rest.\<close>

function parse_str :: "nat list \<Rightarrow> (nat list \<times> nat list) option" where
  "parse_str [] = None"
| "parse_str (c # s) =
     (if c = 34 then Some ([], s)
      else if c = 92 then
        (case s of [] \<Rightarrow> None
         | e # s' \<Rightarrow>
             if e = 117 then
               (case unicode_escape s' of None \<Rightarrow> None
                | Some (u, r) \<Rightarrow> map_option (\<lambda>(cs, r'). (u # cs, r')) (parse_str r))
             else
               (case simple_escape e of None \<Rightarrow> None
                | Some u \<Rightarrow> map_option (\<lambda>(cs, r'). (u # cs, r')) (parse_str s')))
      else if c < 32 then None
      else map_option (\<lambda>(cs, r'). (c # cs, r')) (parse_str s))"
  by pat_completeness auto
termination
  by (relation "measure length") (auto dest!: unicode_escape_shorter)

text \<open>
  A number token: \<open>-?(0|[1-9][0-9]*)(\.[0-9]+)?([eE][-+]?[0-9]+)?\<close>.  Without fraction
  and exponent it is an \<open>int\<close> (of at most 4300 digits), otherwise a \<open>float\<close>.
\<close>

definition parse_frac :: "nat list \<Rightarrow> nat list \<times> nat list" where
  "parse_frac s =
     (case s of c # r \<Rightarrow>
        if c = 46 \<and> takeWhile is_digit r \<noteq> [] then (takeWhile is_digit r, dropWhile is_digit r) else ([], s)
      | [] \<Rightarrow> ([], s))"

definition parse_exp :: "nat list \<Rightarrow> int option \<times> nat list" where
  "parse_exp s =
     (case s of c # r \<Rightarrow>
        if c = 101 \<or> c = 69 then
          (let sg = take 1 r; r' = (if sg = [43] \<or> sg = [45] then drop 1 r else r);
               ds = takeWhile is_digit r'; v = int (digits_value ds 0)
           in if ds = [] then (None, s)
              else (Some (if sg = [45] then - v else v), dropWhile is_digit r'))
        else (None, s)
      | [] \<Rightarrow> (None, s))"

definition int_digits :: "nat list \<Rightarrow> nat list" where
  "int_digits r = (if take 1 r = [48] then [48] else takeWhile is_digit r)"

definition parse_number :: "nat list \<Rightarrow> (json \<times> nat list) option" where
  "parse_number s =
     (let neg = (take 1 s = [45]); r = (if neg then drop 1 s else s);
          ds = int_digits r;
          r1 = drop (length ds) r
      in if ds = [] then None
         else case parse_frac r1 of (fs, r2) \<Rightarrow> case parse_exp r2 of (e, r3) \<Rightarrow>
           if fs = [] \<and> e = None then
             (if 4300 < length ds then None
              else let v = int (digits_value ds 0) in Some (JInt (if neg then - v else v), r3))
           else Some (JFloat (float_of_token neg ds fs (case e of None \<Rightarrow> 0 | Some x \<Rightarrow> x)), r3))"

definition literal_tokens :: "(nat list \<times> json) list" where
  "literal_tokens =
     [(map of_char ''null'', JNull), (map of_char ''true'', JBool True), (map of_char ''false'', JBool False),
      (map of_char ''NaN'', JFloat FNan), (map of_char ''Infinity'', JFloat (FInf False)),
      (map of_char ''-Infinity'', JFloat (FInf True))]"

fun parse_literal :: "(nat list \<times> json) list \<Rightarrow> nat list \<Rightarrow> (json \<times> nat list) option" where
  "parse_literal [] s = None"
| "parse_literal ((t, v) # ts) s =
     (if take (length t) s = t then Some (v, drop (length t) s) else parse_literal ts s)"

text \<open>
  Values, the elements of a list after its bracket, the members of an object after its brace.
  The first argument bounds the number of nested calls; \<open>json_loads\<close> gives twice the
  length of the text, and every two calls consume a character.
\<close>

fun parse_value :: "nat \<Rightarrow> nat list \<Rightarrow> (json \<times> nat list) option"
and parse_elems :: "nat \<Rightarrow> nat list \<Rightarrow> (json list \<times> nat list) option"
and parse_members :: "nat \<Rightarrow> nat list \<Rightarrow> ((str \<times> json) list \<times> nat list) option" where
  "parse_value 0 s = None"
| "parse_value (Suc n) s =
     (case s of [] \<Rightarrow> None
      | c # r \<Rightarrow>
          if c = 34 then map_option (\<lambda>(cs, q). (JStr (Str cs), q)) (parse_str r)
          else if c = 91 then
            (if take 1 (skip_ws r) = [93] then Some (JList [], drop 1 (skip_ws r))
             else map_option (\<lambda>(vs, q). (JList vs, q)) (parse_elems n (skip_ws r)))
          else if c = 123 then
            (if take 1 (skip_ws r) = [125] then Some (JDict [], drop 1 (skip_ws r))
             else map_option (\<lambda>(ms, q). (JDict (foldl (\<lambda>d p. dict_set (fst p) (snd p) d) [] ms), q))
                    (parse_members n (skip_ws r)))
          else case parse_literal literal_tokens s of Some x \<Rightarrow> Some x | None \<Rightarrow> parse_number s)"
| "parse_elems 0 s = None"
| "parse_elems (Suc n) s =
     (case parse_value n s of None \<Rightarrow> None
      | Some (v, r) \<Rightarrow>
          (case skip_ws r of [] \<Rightarrow> None
           | c # q \<Rightarrow>
               if c = 93 then Some ([v], q)
               else if c = 44 then map_option (\<lambda>(vs, q'). (v # vs, q')) (parse_elems n (skip_ws q))
               else None))"
| "parse_members 0 s = None"
| "parse_members (Suc n) s =
     (case s of [] \<Rightarrow> None
      | c # s' \<Rightarrow>
          if c \<noteq> 34 then None
          else case parse_str s' of None \<Rightarrow> None
          | Some (k, r) \<Rightarrow>
              (case skip_ws r of [] \<Rightarrow> None
               | c' # r' \<Rightarrow>
                   if c' \<noteq> 58 then None
                   else case parse_value n (skip_ws r') of None \<Rightarrow> None
                   | Some (v, q) \<Rightarrow>
                       (case skip_ws q of [] \<Rightarrow> None
                        | c'' # q' \<Rightarrow>
                            if c'' = 125 then Some ([(Str k, v)], q')
                            else if c'' = 44 then
                              map_option (\<lambda>(ms, t). ((Str k, v) # ms, t)) (parse_members n (skip_ws q'))
                            else None)))"

definition json_loads :: "str \<Rightarrow> json res" where
  "json_loads t =
     (case parse_value (2 * length (codes t) + 1) (skip_ws (codes t)) of
        Some (v, r) \<Rightarrow> if skip_ws r = [] then Inr v else Inl (ValueError ''JSONDecodeError'')
      | None \<Rightarrow> Inl (ValueError ''JSONDecodeError''))"

end
