(* ===== verification/JsonCodec.thy ===== *)
theory JsonCodec
  imports PyJson
begin

text \<open>
  Facts about the two JSON codecs: the canonical text depends on a document only as a map,
  and \<open>json_loads\<close> reads the canonical text back as the document with its keys in order.
\<close>

subsection \<open>Sorting by key\<close>

lemma insort_key_map: "insort_key f (h x) (map h xs) = map h (insort_key (\<lambda>x. f (h x)) x xs)"
  by (induction xs) simp_all

lemma sort_key_map: "sort_key f (map h xs) = map h (sort_key (\<lambda>x. f (h x)) xs)"
  by (induction xs) (simp_all add: insort_key_map)

lemma sort_key_fst_map [simp]:
  "sort_key fst (map (\<lambda>p. (fst p, g (snd p))) d) = map (\<lambda>p. (fst p, g (snd p))) (sort_key fst d)"
  by (simp add: sort_key_map)

lemma sort_key_idem [simp]: "sort_key f (sort_key f xs) = sort_key f xs"
proof -
  have "sorted (map f ys) \<Longrightarrow> sort_key f ys = ys" for ys
    by (induction ys) (auto simp: insort_is_Cons)
  then show ?thesis by simp
qed

text \<open>Two dictionaries with the same entries sort to the same list.\<close>

lemma sort_key_perm:
  fixes d e :: "('k :: linorder \<times> 'v) list"
  assumes "distinct (map fst d)" and "distinct (map fst e)" and "set d = set e"
  shows "sort_key fst d = sort_key fst e"
proof -
  have inj: "inj_on fst (set d)"
    using assms(1) by (simp add: distinct_map)
  have "distinct (map fst (sort_key fst d))" "distinct (map fst (sort_key fst e))"
    using assms(1,2) by (metis distinct_sort distinct_map set_sort)+
  moreover have "sorted (map fst (sort_key fst d))" "sorted (map fst (sort_key fst e))"
    by simp_all
  moreover have "set (map fst (sort_key fst d)) = set (map fst (sort_key fst e))"
    using assms(3) by simp
  ultimately have keys: "map fst (sort_key fst d) = map fst (sort_key fst e)"
    by (metis sorted_distinct_set_unique)
  have "sort_key fst d ! i = sort_key fst e ! i" if i: "i < length (sort_key fst d)" for i
  proof -
    have len: "length (sort_key fst d) = length (sort_key fst e)"
      using keys by (metis length_map)
    have "fst (sort_key fst d ! i) = fst (sort_key fst e ! i)"
      using keys i len by (metis nth_map)
    moreover have "sort_key fst d ! i \<in> set d" "sort_key fst e ! i \<in> set d"
      using i len assms(3) by (metis nth_mem set_sort)+
    ultimately show ?thesis using inj by (auto simp: inj_on_def)
  qed
  then show ?thesis using keys by (metis length_map nth_equalityI)
qed

subsection \<open>Digits\<close>

lemma digits_value_append: "digits_value (xs @ ys) a = digits_value ys (digits_value xs a)"
  by (induction xs arbitrary: a) simp_all

lemma digits_value_nat_codes [simp]: "digits_value (nat_codes n) 0 = n"
proof (induction n rule: nat_codes.induct)
  case (1 n)
  then show ?case by (subst nat_codes.simps) (auto simp: digits_value_append)
qed

lemma length_nat_codes: "n < 10 ^ k \<Longrightarrow> 0 < k \<Longrightarrow> length (nat_codes n) \<le> k"
proof (induction n arbitrary: k rule: nat_codes.induct)
  case (1 n)
  show ?case
  proof (cases "n < 10")
    case True
    then show ?thesis using 1(3) by (subst nat_codes.simps) simp
  next
    case False
    obtain j where k: "k = Suc j" using 1(3) by (cases k) auto
    have "0 < j" using False 1(2) k by (cases j) auto
    moreover have "n div 10 < 10 ^ j" using 1(2) k by (simp add: less_mult_imp_div_less)
    ultimately have "length (nat_codes (n div 10)) \<le> j" using 1(1) False by simp
    then show ?thesis using False k by (subst nat_codes.simps) simp
  qed
qed

lemma nat_codes_Cons: "nat_codes n \<noteq> [] \<and> is_digit (hd (nat_codes n)) \<and> (hd (nat_codes n) = 48 \<longrightarrow> n = 0)"
proof (induction n rule: nat_codes.induct)
  case (1 n)
  show ?case
  proof (cases "n < 10")
    case True
    then show ?thesis by (subst (1 2 3) nat_codes.simps) (simp add: is_digit_def)
  next
    case False
    then have "hd (nat_codes n) = hd (nat_codes (n div 10))"
      by (subst nat_codes.simps) simp
    with 1 False show ?thesis by auto
  qed
qed

lemma nat_codes_0 [simp]: "nat_codes 0 = [48]"
  by (subst nat_codes.simps) simp

lemma takeWhile_digits:
  assumes "list_all is_digit ds" and "\<And>c r. rest = c # r \<Longrightarrow> \<not> is_digit c"
  shows "takeWhile is_digit (ds @ rest) = ds"
  using assms by (induction ds) (cases rest, auto)

lemma nat_codes_is_digit: "list_all is_digit (nat_codes n)"
  using nat_codes_digits [of n] by (simp add: is_digit_def [abs_def])

subsection \<open>Strings\<close>

lemma unicode_escape_control:
  assumes "c < 32"
  shows "unicode_escape (48 # 48 # (48 + c div 16) # (if c mod 16 < 10 then 48 + c mod 16 else 87 + c mod 16) # s)
    = Some (c, s)"
proof -
  have hv: "hex_value (if x < 10 then 48 + x else 87 + x) = Some x" if "x < 16" for x
    using that by (auto simp: hex_value_def)
  have "c div 16 < 2" using assms by (simp add: less_mult_imp_div_less)
  then have "hex_value (48 + c div 16) = Some (c div 16)" by (auto simp: hex_value_def)
  moreover have "hex_value (if c mod 16 < 10 then 48 + c mod 16 else 87 + c mod 16) = Some (c mod 16)"
    by (rule hv) simp
  moreover have "hex_value 48 = Some 0" by (simp add: hex_value_def)
  ultimately show ?thesis
    using assms by (simp add: unicode_escape_def)
qed

lemma parse_str_esc:
  "parse_str (esc_cp c @ s) = map_option (\<lambda>(cs, r). (c # cs, r)) (parse_str s)"
proof (cases "c < 32 \<and> c \<noteq> 10 \<and> c \<noteq> 13 \<and> c \<noteq> 9 \<and> c \<noteq> 8 \<and> c \<noteq> 12")
  case True
  then show ?thesis
    using unicode_escape_control [of c s] by (simp add: esc_cp_def)
next
  case False
  then show ?thesis by (auto simp: esc_cp_def simple_escape_def)
qed

lemma parse_str_quote: "parse_str (concat (map esc_cp cs) @ 34 # s) = Some (cs, s)"
  by (induction cs) (simp_all add: parse_str_esc)

subsection \<open>Values\<close>

text \<open>What may follow a number in a canonical text, and what a value starts with.\<close>

definition num_end :: "nat list \<Rightarrow> bool" where
  "num_end rest \<longleftrightarrow> (case rest of [] \<Rightarrow> True | c # _ \<Rightarrow> c = 44 \<or> c = 93 \<or> c = 125)"

lemma num_end_Nil [simp]: "num_end []"
  by (simp add: num_end_def)

lemma skip_ws_Nil [simp]: "skip_ws [] = []"
  by (simp add: skip_ws_def)

definition value_start :: "nat \<Rightarrow> bool" where
  "value_start c \<longleftrightarrow> c = 34 \<or> c = 45 \<or> is_digit c \<or> c = 91 \<or> c = 102 \<or> c = 110 \<or> c = 116 \<or> c = 123"

text \<open>
  A float is \<open>float_ok\<close> when its \<open>repr\<close> reads back: every double of the interpreter is
  (it is the interpreter's documented guarantee for \<open>repr\<close>); the model's type has more.
\<close>

definition float_ok :: "pyfloat \<Rightarrow> bool" where
  "float_ok f \<longleftrightarrow>
     float_finite f \<and> repr_codes f \<noteq> [] \<and> (is_digit (hd (repr_codes f)) \<or> hd (repr_codes f) = 45) \<and>
     (\<forall>rest. num_end rest \<longrightarrow>
        parse_literal literal_tokens (repr_codes f @ rest) = None \<and>
        parse_number (repr_codes f @ rest) = Some (JFloat f, rest))"

fun floats_ok :: "json \<Rightarrow> bool" where
  "floats_ok (JFloat f) = float_ok f"
| "floats_ok (JList xs) = list_all floats_ok xs"
| "floats_ok (JDict d) = list_all (\<lambda>p. floats_ok (snd p)) d"
| "floats_ok _ = True"

lemma json_codes_start:
  assumes "floats_ok v"
  shows "\<exists>c r. json_codes v = c # r \<and> value_start c"
proof (cases v)
  case (JInt i)
  then show ?thesis
    using nat_codes_Cons [of "nat i"] by (cases "nat_codes (nat i)") (auto simp: int_codes_def value_start_def)
next
  case (JFloat f)
  then show ?thesis
    using assms by (cases "repr_codes f") (auto simp: float_ok_def value_start_def)
qed (auto simp: value_start_def quote_codes_def)

lemma skip_ws_start: "value_start c \<Longrightarrow> skip_ws (c # r) = c # r"
  by (auto simp: skip_ws_def is_ws_def value_start_def is_digit_def)

lemma skip_ws_codes: "floats_ok v \<Longrightarrow> skip_ws (json_codes v @ r) = json_codes v @ r"
  using json_codes_start [of v] skip_ws_start by auto

lemma skip_ws_sep [simp]: "c \<in> {34, 44, 58, 93, 125} \<Longrightarrow> skip_ws (c # r) = c # r"
  by (auto simp: skip_ws_def is_ws_def)

lemma parse_literal_digit:
  assumes "is_digit c"
  shows "parse_literal literal_tokens (c # s) = None" and "parse_literal literal_tokens (45 # c # s) = None"
  using assms by (auto simp: literal_tokens_def is_digit_def)

lemma int_less_pow10: "int n < 10 ^ k \<longleftrightarrow> n < 10 ^ k"
  by (metis of_nat_less_iff of_nat_numeral of_nat_power)

lemma parse_number_nat:
  assumes "num_end rest" and "int n < int_text_limit"
  shows "parse_number (nat_codes n @ rest) = Some (JInt (int n), rest)"
    and "parse_number (45 # nat_codes n @ rest) = Some (JInt (- int n), rest)"
proof -
  obtain c cs where cs: "nat_codes n = c # cs" and c: "is_digit c" "c = 48 \<longrightarrow> n = 0"
    using nat_codes_Cons [of n] by (cases "nat_codes n") auto
  have n: "n < 10 ^ 4300" using assms(2) unfolding int_text_limit_def by (rule int_less_pow10 [THEN iffD1])
  have len: "length (nat_codes n) \<le> 4300" by (rule length_nat_codes [OF n]) simp
  have tw: "takeWhile is_digit (nat_codes n @ rest) = nat_codes n"
    using assms(1) by (intro takeWhile_digits nat_codes_is_digit) (auto simp: num_end_def is_digit_def)
  have fr: "parse_frac rest = ([], rest)" "parse_exp rest = (None, rest)"
    using assms(1) by (auto simp: parse_frac_def parse_exp_def num_end_def split: list.splits)
  have ds: "int_digits (nat_codes n @ rest) = nat_codes n"
    using tw cs c(2) by (auto simp: int_digits_def)
  have neg: "take 1 (nat_codes n @ rest) \<noteq> [45]"
    using cs c(1) by (auto simp: is_digit_def)
  have ne: "nat_codes n \<noteq> []" by simp
  show "parse_number (nat_codes n @ rest) = Some (JInt (int n), rest)"
    unfolding parse_number_def Let_def using ds len fr neg by simp
  show "parse_number (45 # nat_codes n @ rest) = Some (JInt (- int n), rest)"
    unfolding parse_number_def Let_def using ds len fr by simp
qed

lemma parse_value_int:
  assumes "num_end rest" and "\<bar>i\<bar> < int_text_limit"
  shows "parse_value (Suc n) (int_codes i @ rest) = Some (JInt i, rest)"
proof (cases "i < 0")
  case True
  obtain c cs where cs: "nat_codes (nat (- i)) = c # cs" and c: "is_digit c"
    using nat_codes_Cons [of "nat (- i)"] by (cases "nat_codes (nat (- i))") auto
  have "parse_number (45 # nat_codes (nat (- i)) @ rest) = Some (JInt (- int (nat (- i))), rest)"
    using assms True by (intro parse_number_nat) auto
  then show ?thesis
    using True parse_literal_digit(2) [OF c] by (simp add: int_codes_def cs)
next
  case False
  obtain c cs where cs: "nat_codes (nat i) = c # cs" and c: "is_digit c"
    using nat_codes_Cons [of "nat i"] by (cases "nat_codes (nat i)") auto
  have "parse_number (nat_codes (nat i) @ rest) = Some (JInt (int (nat i)), rest)"
    using assms False by (intro parse_number_nat) auto
  then show ?thesis
    using False parse_literal_digit(1) [OF c] c by (auto simp: int_codes_def cs is_digit_def)
qed

lemma parse_value_float:
  assumes "num_end rest" and "float_ok f"
  shows "parse_value (Suc n) (repr_codes f @ rest) = Some (JFloat f, rest)"
proof -
  obtain c cs where cs: "repr_codes f = c # cs" and c: "is_digit c \<or> c = 45"
    using assms(2) by (cases "repr_codes f") (auto simp: float_ok_def)
  have "parse_literal literal_tokens (c # cs @ rest) = None" "parse_number (c # cs @ rest) = Some (JFloat f, rest)"
    using assms cs by (auto simp: float_ok_def)
  then show ?thesis using c by (auto simp: cs is_digit_def)
qed

lemma parse_value_quote: "parse_value (Suc n) (quote_codes s @ rest) = Some (JStr s, rest)"
  by (simp add: quote_codes_def parse_str_quote)

lemma dict_sets_distinct:
  "distinct (map fst (d @ ms)) \<Longrightarrow> foldl (\<lambda>d p. dict_set (fst p) (snd p) d) d ms = d @ ms"
  by (induction ms arbitrary: d) (auto simp: dict_set_new)

definition member_codes :: "(str \<times> json) \<Rightarrow> nat list" where
  "member_codes p = quote_codes (fst p) @ 58 # json_codes (snd p)"

text \<open>The three parsers on the three kinds of text, given the values inside are read back.\<close>

definition reads_back :: "json \<Rightarrow> bool" where
  "reads_back v \<longleftrightarrow>
     (\<forall>n rest. num_end rest \<longrightarrow> 2 * length (json_codes v) \<le> Suc n \<longrightarrow>
        parse_value n (json_codes v @ rest) = Some (key_sorted v, rest))"

lemma parse_elems_codes:
  assumes "xs \<noteq> []" and "list_all reads_back xs" and "list_all floats_ok xs"
    and "2 * length (join_comma (map json_codes xs)) \<le> n"
  shows "parse_elems n (join_comma (map json_codes xs) @ 93 # rest) = Some (map key_sorted xs, rest)"
  using assms
proof (induction xs arbitrary: n)
  case (Cons x xs)
  obtain c r where cr: "json_codes x = c # r" using json_codes_start [of x] Cons.prems(3) by auto
  have pos: "0 < length (join_comma (map json_codes (x # xs)))"
    using cr by (cases xs) simp_all
  then obtain m where n: "n = Suc m" using Cons.prems(4) by (cases n) auto
  show ?case
  proof (cases xs)
    case Nil
    have "parse_value m (json_codes x @ 93 # rest) = Some (key_sorted x, 93 # rest)"
      using Cons.prems Nil n by (auto simp: reads_back_def num_end_def)
    then show ?thesis using Nil n by simp
  next
    case (Cons y ys)
    let ?tail = "join_comma (map json_codes xs)"
    have len: "length (join_comma (map json_codes (x # xs))) = length (json_codes x) + 1 + length ?tail"
      using Cons by simp
    have "parse_value m (json_codes x @ 44 # ?tail @ 93 # rest) = Some (key_sorted x, 44 # ?tail @ 93 # rest)"
      using Cons.prems n len by (auto simp: reads_back_def num_end_def)
    moreover have "parse_elems m (?tail @ 93 # rest) = Some (map key_sorted xs, rest)"
      using Cons.IH [of m] Cons Cons.prems n len by simp
    moreover have "skip_ws (?tail @ 93 # rest) = ?tail @ 93 # rest"
      using Cons Cons.prems(3) json_codes_start [of y] skip_ws_start by (cases ys) auto
    ultimately show ?thesis using Cons n by simp
  qed
qed simp

lemma parse_members_codes:
  assumes "d \<noteq> []" and "list_all (\<lambda>p. reads_back (snd p)) d" and "list_all (\<lambda>p. floats_ok (snd p)) d"
    and "2 * length (join_comma (map member_codes d)) \<le> n"
  shows "parse_members n (join_comma (map member_codes d) @ 125 # rest)
    = Some (map (\<lambda>p. (fst p, key_sorted (snd p))) d, rest)"
  using assms
proof (induction d arbitrary: n)
  case (Cons p d)
  obtain k v where p: "p = (k, v)" by (cases p)
  have start: "member_codes q = 34 # concat (map esc_cp (codes (fst q))) @ 34 # 58 # json_codes (snd q)" for q
    by (simp add: member_codes_def quote_codes_def)
  have pos: "0 < length (join_comma (map member_codes (p # d)))"
    using start [of p] by (cases d) simp_all
  then obtain m where n: "n = Suc m" using Cons.prems(4) by (cases n) auto
  have fl: "floats_ok v" using Cons.prems(3) p by simp
  show ?case
  proof (cases d)
    case Nil
    have "parse_value m (json_codes v @ 125 # rest) = Some (key_sorted v, 125 # rest)"
      using Cons.prems Nil n p start [of p] by (auto simp: reads_back_def num_end_def)
    then show ?thesis
      using Nil n p start [of p] by (simp add: parse_str_quote skip_ws_codes [OF fl])
  next
    case (Cons q e)
    let ?tail = "join_comma (map member_codes d)"
    have len: "length (join_comma (map member_codes (p # d))) = length (member_codes p) + 1 + length ?tail"
      using Cons by simp
    have "parse_value m (json_codes v @ 44 # ?tail @ 125 # rest) = Some (key_sorted v, 44 # ?tail @ 125 # rest)"
      using Cons.prems n len p start [of p] by (auto simp: reads_back_def num_end_def)
    moreover have "parse_members m (?tail @ 125 # rest) = Some (map (\<lambda>p. (fst p, key_sorted (snd p))) d, rest)"
      using Cons.IH [of m] Cons Cons.prems n len by simp
    moreover have "skip_ws (?tail @ 125 # rest) = ?tail @ 125 # rest"
      using Cons start [of q] by (cases e) simp_all
    ultimately show ?thesis
      using Cons n p start [of p] by (simp add: parse_str_quote skip_ws_codes [OF fl])
  qed
qed simp

lemma json_codes_dict: "json_codes (JDict d) = 123 # join_comma (map member_codes (sort_key fst d)) @ [125]"
  by (simp add: member_codes_def [abs_def] comp_def)

lemma parse_list_codes:
  assumes "list_all reads_back xs" and "list_all floats_ok xs"
  shows "reads_back (JList xs)"
  unfolding reads_back_def
proof (intro allI impI)
  fix n rest
  assume "num_end rest" and len: "2 * length (json_codes (JList xs)) \<le> Suc n"
  then obtain m where n: "n = Suc m" by (cases n) auto
  show "parse_value n (json_codes (JList xs) @ rest) = Some (key_sorted (JList xs), rest)"
  proof (cases xs)
    case Nil
    then show ?thesis using n by simp
  next
    case (Cons y ys)
    let ?t = "join_comma (map json_codes xs)"
    obtain c r where cr: "json_codes y = c # r" "value_start c"
      using json_codes_start [of y] assms(2) Cons by auto
    have t: "\<exists>r'. ?t = c # r'" using cr Cons by (cases ys) simp_all
    have "skip_ws (?t @ 93 # rest) = ?t @ 93 # rest" using t cr(2) skip_ws_start by auto
    moreover have "c \<noteq> 93" using cr(2) by (auto simp: value_start_def is_digit_def)
    moreover have "parse_elems m (?t @ 93 # rest) = Some (map key_sorted xs, rest)"
      using parse_elems_codes [OF _ assms] Cons len n by simp
    ultimately show ?thesis using t n by auto
  qed
qed

lemma parse_dict_codes:
  assumes "list_all (\<lambda>p. reads_back (snd p)) d" and "list_all (\<lambda>p. floats_ok (snd p)) d"
    and "distinct (map fst d)"
  shows "reads_back (JDict d)"
  unfolding reads_back_def
proof (intro allI impI)
  fix n rest
  assume "num_end rest" and len: "2 * length (json_codes (JDict d)) \<le> Suc n"
  then obtain m where n: "n = Suc m" by (cases n) auto
  let ?d = "sort_key fst d" and ?m = "map (\<lambda>p. (fst p, key_sorted (snd p)))"
  show "parse_value n (json_codes (JDict d) @ rest) = Some (key_sorted (JDict d), rest)"
  proof (cases "d = []")
    case True
    then show ?thesis using n by simp
  next
    case False
    let ?t = "join_comma (map member_codes ?d)"
    have ne: "?d \<noteq> []" using False by (metis set_empty set_sort)
    then obtain q e where qe: "?d = q # e" by (cases ?d) auto
    have t: "\<exists>r'. ?t = 34 # r'"
      using qe by (cases e) (simp_all add: member_codes_def quote_codes_def)
    have "parse_members m (?t @ 125 # rest) = Some (?m ?d, rest)"
      using parse_members_codes [OF ne] assms(1,2) len n
      by (simp add: json_codes_dict list_all_iff del: json_codes.simps)
    moreover have "distinct (map fst (?m ?d))"
      using assms(3) by (simp add: comp_def) (metis distinct_map distinct_sort set_sort)
    then have "foldl (\<lambda>d p. dict_set (fst p) (snd p) d) [] (?m ?d) = ?m ?d"
      using dict_sets_distinct [of "[]" "?m ?d"] by simp
    ultimately show ?thesis using t n
      by (auto simp: json_codes_dict simp del: json_codes.simps)
  qed
qed

lemma reads_back_scalar:
  assumes "floats_ok v"
    and "\<And>n rest. num_end rest \<Longrightarrow> parse_value (Suc n) (json_codes v @ rest) = Some (key_sorted v, rest)"
  shows "reads_back v"
  unfolding reads_back_def
proof (intro allI impI)
  fix n rest
  assume end': "num_end rest" and "2 * length (json_codes v) \<le> Suc n"
  then obtain m where "n = Suc m"
    using json_codes_start [OF assms(1)] by (cases n) auto
  then show "parse_value n (json_codes v @ rest) = Some (key_sorted v, rest)"
    using assms(2) [OF end'] by simp
qed

lemma reads_back_all: "wf_json v \<Longrightarrow> dumpable v \<Longrightarrow> floats_ok v \<Longrightarrow> reads_back v"
proof (induction v)
  case (JInt i)
  show ?case
    using parse_value_int [of _ i] JInt by (intro reads_back_scalar) (simp_all del: parse_value.simps)
next
  case (JFloat f)
  show ?case
    using parse_value_float [of _ f] JFloat by (intro reads_back_scalar) (simp_all del: parse_value.simps)
next
  case (JStr s)
  show ?case
    using parse_value_quote [of _ s] by (intro reads_back_scalar) (simp_all del: parse_value.simps)
next
  case (JList xs)
  then show ?case by (intro parse_list_codes) (auto simp: list_all_iff)
next
  case (JDict d)
  have "reads_back (snd p)" if "p \<in> set d" for p
    using JDict that by (cases p) (force simp: list_all_iff)
  with JDict.prems show ?case by (intro parse_dict_codes) (auto simp: list_all_iff)
next
  case JNull
  show ?case by (intro reads_back_scalar) (simp_all add: literal_tokens_def)
next
  case (JBool b)
  show ?case by (intro reads_back_scalar) (simp_all add: literal_tokens_def)
qed

text \<open>The codec law: the canonical text reads back as the document with its keys in order.\<close>

lemma json_loads_dumps:
  assumes "wf_json v" and "floats_ok v" and "json_dumps v = Inr t"
  shows "json_loads t = Inr (key_sorted v)"
proof -
  from assms(3) have d: "dumpable v" and t: "t = Str (json_codes v)"
    by (auto simp: json_dumps_def split: if_splits)
  have "parse_value (2 * length (json_codes v) + 1) (json_codes v @ []) = Some (key_sorted v, [])"
    using reads_back_all [OF assms(1) d assms(2)] num_end_Nil
    unfolding reads_back_def by (metis le_add1 mult_2 Suc_eq_plus1 le_SucI order_refl)
  then show ?thesis
    using skip_ws_codes [OF assms(2), of "[]"] skip_ws_Nil
    by (simp add: json_loads_def t del: parse_value.simps)
qed

subsection \<open>The canonical text depends on the document as a map\<close>

lemma json_codes_key_sorted [simp]: "json_codes (key_sorted v) = json_codes v"
proof (induction v)
  case (JList xs)
  then show ?case by (simp add: comp_def cong: map_cong)
next
  case (JDict d)
  have eq: "map (\<lambda>p. (fst p, json_codes (key_sorted (snd p)))) (sort_key fst d)
      = map (\<lambda>p. (fst p, json_codes (snd p))) (sort_key fst d)"
    using JDict by auto
  show ?case by (simp add: comp_def eq)
qed simp_all

lemma dumpable_key_sorted [simp]: "dumpable (key_sorted v) = dumpable v"
  by (induction v) (auto simp: list_all_iff)

lemma key_sorted_idem [simp]: "key_sorted (key_sorted v) = key_sorted v"
proof (induction v)
  case (JDict d)
  have "map (\<lambda>p. (fst p, key_sorted (key_sorted (snd p)))) (sort_key fst d)
      = map (\<lambda>p. (fst p, key_sorted (snd p))) (sort_key fst d)"
    using JDict by auto
  then show ?case by (simp add: comp_def sort_key_map)
qed simp_all

lemma json_dumps_key_sorted [simp]: "json_dumps (key_sorted v) = json_dumps v"
  by (simp add: json_dumps_def)

text \<open>Same document up to the order of keys, at every depth.\<close>

definition same_document :: "json \<Rightarrow> json \<Rightarrow> bool" where
  "same_document v w \<longleftrightarrow> key_sorted v = key_sorted w"

lemma json_dumps_same_document: "same_document v w \<Longrightarrow> json_dumps v = json_dumps w"
  unfolding same_document_def by (metis json_dumps_key_sorted)

lemma same_document_perm:
  assumes "distinct (map fst d)" and "distinct (map fst e)" and "set d = set e"
  shows "same_document (JDict d) (JDict e)"
  using sort_key_perm [OF assms] by (simp add: same_document_def)

text \<open>
  Conversely, documents (without unreadable floats) of equal canonical text are the same document.
\<close>

lemma json_dumps_inj:
  assumes "wf_json v" "floats_ok v" "wf_json w" "floats_ok w"
    and "json_dumps v = Inr t" and "json_dumps w = Inr t"
  shows "same_document v w"
  using json_loads_dumps [of v t] json_loads_dumps [of w t] assms by (simp add: same_document_def)

end
