(* ===== verification/Sha256.thy ===== *)
theory Sha256
  imports PyStr "HOL-Library.Word"
begin

unbundle bit_operations_syntax

text \<open>
  \<open>hashlib.sha256(b).hexdigest()\<close>, which the program uses as the identity of every
  document: the algorithm of FIPS 180-4 on lists of bytes, with 32-bit words that wrap.
  The theorems of the development use only what holds of it (the digest is a function of
  the bytes and is always 64 lower-case hexadecimal characters), never that it is injective.
\<close>

type_synonym u32 = "32 word"

text \<open>The round constants and the initial state, in decimal.\<close>

definition sha_k :: "u32 list" where
  "sha_k =
    [1116352408, 1899447441, 3049323471, 3921009573, 961987163, 1508970993, 2453635748, 2870763221,
     3624381080, 310598401, 607225278, 1426881987, 1925078388, 2162078206, 2614888103, 3248222580,
     3835390401, 4022224774, 264347078, 604807628, 770255983, 1249150122, 1555081692, 1996064986,
     2554220882, 2821834349, 2952996808, 3210313671, 3336571891, 3584528711, 113926993, 338241895,
     666307205, 773529912, 1294757372, 1396182291, 1695183700, 1986661051, 2177026350, 2456956037,
     2730485921, 2820302411, 3259730800, 3345764771, 3516065817, 3600352804, 4094571909, 275423344,
     430227734, 506948616, 659060556, 883997877, 958139571, 1322822218, 1537002063, 1747873779,
     1955562222, 2024104815, 2227730452, 2361852424, 2428436474, 2756734187, 3204031479, 3329325298]"

definition sha_init :: "u32 list" where
  "sha_init = [1779033703, 3144134277, 1013904242, 2773480762, 1359893119, 2600822924, 528734635, 1541459225]"

definition rotr :: "nat \<Rightarrow> u32 \<Rightarrow> u32" where
  "rotr n x = drop_bit n x OR push_bit (32 - n) x"

definition big_sigma0 :: "u32 \<Rightarrow> u32" where
  "big_sigma0 x = rotr 2 x XOR rotr 13 x XOR rotr 22 x"

definition big_sigma1 :: "u32 \<Rightarrow> u32" where
  "big_sigma1 x = rotr 6 x XOR rotr 11 x XOR rotr 25 x"

definition small_sigma0 :: "u32 \<Rightarrow> u32" where
  "small_sigma0 x = rotr 7 x XOR rotr 18 x XOR drop_bit 3 x"

definition small_sigma1 :: "u32 \<Rightarrow> u32" where
  "small_sigma1 x = rotr 17 x XOR rotr 19 x XOR drop_bit 10 x"

definition sha_ch :: "u32 \<Rightarrow> u32 \<Rightarrow> u32 \<Rightarrow> u32" where
  "sha_ch e f g = (e AND f) XOR (NOT e AND g)"

definition sha_maj :: "u32 \<Rightarrow> u32 \<Rightarrow> u32 \<Rightarrow> u32" where
  "sha_maj a b c = (a AND b) XOR (a AND c) XOR (b AND c)"

text \<open>The message: padding to a multiple of 64 bytes, blocks of 64, big-endian words.\<close>

fun be_bytes :: "nat \<Rightarrow> nat \<Rightarrow> nat list" where
  "be_bytes 0 n = []"
| "be_bytes (Suc k) n = be_bytes k (n div 256) @ [n mod 256]"

definition sha_pad :: "nat list \<Rightarrow> nat list" where
  "sha_pad bs = bs @ [128] @ replicate ((119 - length bs mod 64) mod 64) 0 @ be_bytes 8 (8 * length bs)"

function sha_blocks :: "nat list \<Rightarrow> nat list list" where
  "sha_blocks bs = (if bs = [] then [] else take 64 bs # sha_blocks (drop 64 bs))"
  by pat_completeness auto
termination
  by (relation "measure length") auto

declare sha_blocks.simps [simp del]

fun be_words :: "nat list \<Rightarrow> u32 list" where
  "be_words (a # b # c # d # rest) =
     (((of_nat a * 256 + of_nat b) * 256 + of_nat c) * 256 + of_nat d) # be_words rest"
| "be_words _ = []"

text \<open>The schedule is built newest word first, so the taps at distance 2, 7, 15 and 16 are at fixed positions.\<close>

fun sha_extend :: "nat \<Rightarrow> u32 list \<Rightarrow> u32 list" where
  "sha_extend 0 w = w"
| "sha_extend (Suc n) w =
     sha_extend n ((small_sigma1 (w ! 1) + w ! 6 + small_sigma0 (w ! 14) + w ! 15) # w)"

fun sha_round :: "u32 list \<Rightarrow> u32 \<times> u32 \<Rightarrow> u32 list" where
  "sha_round [a, b, c, d, e, f, g, h] (k, w) =
     (let t1 = h + big_sigma1 e + sha_ch e f g + k + w;
          t2 = big_sigma0 a + sha_maj a b c
      in [t1 + t2, a, b, c, d + t1, e, f, g])"
| "sha_round st _ = st"

definition sha_compress :: "u32 list \<Rightarrow> nat list \<Rightarrow> u32 list" where
  "sha_compress h block =
     (let w = rev (sha_extend 48 (rev (be_words block)))
      in map2 (+) h (foldl sha_round h (zip sha_k w)))"

definition hex_digit :: "nat \<Rightarrow> nat" where
  "hex_digit n = (if n < 10 then 48 + n else 87 + n)"

fun hex_codes :: "nat \<Rightarrow> u32 \<Rightarrow> nat list" where
  "hex_codes 0 w = []"
| "hex_codes (Suc k) w = hex_codes k (drop_bit 4 w) @ [hex_digit (unat (take_bit 4 w))]"

definition sha256_hex :: "nat list \<Rightarrow> str" where
  "sha256_hex bs =
     Str (concat (map (\<lambda>w. hex_codes 8 w) (foldl sha_compress sha_init (sha_blocks (sha_pad bs)))))"

subsection \<open>What the program relies on\<close>

definition is_hex64 :: "str \<Rightarrow> bool" where
  "is_hex64 s \<longleftrightarrow> slen s = 64 \<and> schars_in s ''0123456789abcdef''"

lemma length_hex_codes [simp]: "length (hex_codes k w) = k"
  by (induction k arbitrary: w) simp_all

lemma hex_digit_mem: "n < 16 \<Longrightarrow> hex_digit n \<in> set (map of_char ''0123456789abcdef'')"
  unfolding hex_digit_def by (simp add: numeral_eq_Suc less_Suc_eq) auto

lemma hex_codes_mem: "c \<in> set (hex_codes k w) \<Longrightarrow> c \<in> set (map of_char ''0123456789abcdef'')"
proof (induction k arbitrary: w)
  case (Suc k)
  have "unat (take_bit 4 w) < 16"
    by (simp add: take_bit_eq_mod unat_mod)
  then have "hex_digit (unat (take_bit 4 w)) \<in> set (map of_char ''0123456789abcdef'')"
    by (rule hex_digit_mem)
  with Suc show ?case by (auto simp del: set_map list.map)
qed simp

lemma length_sha_round: "length st = 8 \<Longrightarrow> length (sha_round st kw) = 8"
  by (induction st kw rule: sha_round.induct) (auto simp: Let_def)

lemma length_sha_rounds: "length st = 8 \<Longrightarrow> length (foldl sha_round st kws) = 8"
  by (induction kws arbitrary: st) (auto simp: length_sha_round)

lemma length_sha_compress: "length h = 8 \<Longrightarrow> length (sha_compress h b) = 8"
  by (simp add: sha_compress_def Let_def length_sha_rounds)

lemma length_sha_state: "length h = 8 \<Longrightarrow> length (foldl sha_compress h bs) = 8"
  by (induction bs arbitrary: h) (auto simp: length_sha_compress)

lemma length_concat_hex: "length (concat (map (\<lambda>w. hex_codes 8 w) ws)) = 8 * length ws"
  by (induction ws) simp_all

lemma concat_hex_mem:
  assumes "c \<in> set (concat (map (\<lambda>w. hex_codes 8 w) ws))"
  shows "c \<in> set (map of_char ''0123456789abcdef'')"
proof -
  from assms obtain w where "c \<in> set (hex_codes 8 w)" by auto
  then show ?thesis by (rule hex_codes_mem)
qed

lemma sha256_hex_is_hex64 [simp]: "is_hex64 (sha256_hex bs)"
proof -
  let ?ws = "foldl sha_compress sha_init (sha_blocks (sha_pad bs))"
  have "length ?ws = 8"
    by (rule length_sha_state) (simp add: sha_init_def)
  then have "slen (sha256_hex bs) = 64"
    by (simp add: slen_def sha256_hex_def length_concat_hex)
  moreover have "schars_in (sha256_hex bs) ''0123456789abcdef''"
    unfolding schars_in_def list_all_iff sha256_hex_def str.sel List.member_iff
    using concat_hex_mem by blast
  ultimately show ?thesis by (simp add: is_hex64_def)
qed

end
