(* ===== verification/OwnersCommon.thy ===== *)
theory OwnersCommon
  imports JsonCodec Sha256
begin

text \<open>
  \<open>src/meta_research/owners/common.py\<close>: the canonical text and hash of a document, on which
  every owner's receipts and every contract's source bindings rest.
\<close>

definition canonical_json :: "json \<Rightarrow> str res" where
  "canonical_json value = json_dumps value"

definition canonical_hash :: "json \<Rightarrow> str res" where
  "canonical_hash value =
     bindE (canonical_json value) (\<lambda>t.
     bindE (encode_utf8 t) (\<lambda>b.
     Inr (sha256_hex b)))"

definition decoded_object :: "str \<Rightarrow> jdict res" where
  "decoded_object value =
     bindE (json_loads value) (\<lambda>decoded.
       case decoded of JDict d \<Rightarrow> Inr d | _ \<Rightarrow> Inl (ValueError ''stored value is not a JSON object''))"

text \<open>The digest of a document is well formed and does not depend on the order of keys.\<close>

lemma canonical_hash_is_hex64: "canonical_hash v = Inr h \<Longrightarrow> is_hex64 h"
  by (auto simp: canonical_hash_def)

lemma canonical_hash_same_document: "same_document v w \<Longrightarrow> canonical_hash v = canonical_hash w"
  by (simp add: canonical_hash_def canonical_json_def json_dumps_same_document)

text \<open>A stored document reads back: \<open>decoded_object\<close> undoes \<open>canonical_json\<close>.\<close>

lemma decoded_object_canonical_json:
  assumes "wf_json (JDict d)" and "floats_ok (JDict d)" and "canonical_json (JDict d) = Inr t"
  shows "\<exists>d'. decoded_object t = Inr d' \<and> same_document (JDict d') (JDict d)"
proof -
  let ?d' = "sort_key fst (map (\<lambda>p. (fst p, key_sorted (snd p))) d)"
  have "json_loads t = Inr (key_sorted (JDict d))"
    using assms by (intro json_loads_dumps) (simp_all add: canonical_json_def)
  then have "decoded_object t = Inr ?d'" by (simp add: decoded_object_def)
  moreover have "same_document (JDict ?d') (JDict d)"
    unfolding same_document_def using key_sorted_idem [of "JDict d"] by simp
  ultimately show ?thesis by blast
qed

end
