(* ===== verification/ContractValues.thy ===== *)
theory ContractValues
  imports OwnersCommon
begin

text \<open>
  What the document validators (\<open>control_contract.py\<close>, \<open>idea_contract.py\<close>, \<open>plan_contract.py\<close>)
  share: the shape tests they make on a JSON value, the two ways of reading a member of a value
  whose type is not known, and the part of the interpreter that the code depends on without
  fixing it.
\<close>

subsection \<open>The interpreter\<close>

text \<open>
  The Unicode tables and the iteration order of a \<open>set\<close> are the interpreter's: the code calls
  \<open>unicodedata.normalize\<close>, \<open>unicodedata.category\<close> and \<open>str.casefold\<close>, and it sorts a set by a key
  that need not separate its members; \<open>container_text\<close> is \<open>str\<close> of a list or a dictionary.  \<open>py_ok\<close> is what the language reference promises of the
  iteration order: every member once.
\<close>

record interp =
  nfkc :: "nat list \<Rightarrow> nat list"
  category :: "nat \<Rightarrow> string"
  full_casefold :: "nat list \<Rightarrow> nat list"
  set_order :: "(str \<times> int) list \<Rightarrow> (str \<times> int) list"
  container_text :: "json \<Rightarrow> nat list"

definition py_ok :: "interp \<Rightarrow> bool" where
  "py_ok py \<longleftrightarrow> (\<forall>xs. distinct (set_order py xs) \<and> set (set_order py xs) = set xs)"

text \<open>An interpreter for concrete runs: ASCII tables and insertion order.\<close>

definition ascii_interp :: interp where
  "ascii_interp =
     \<lparr>nfkc = (\<lambda>s. s),
      category = (\<lambda>c. if is_space c then ''Zs'' else if is_digit c then ''Nd''
        else if (65 \<le> c \<and> c \<le> 90) \<or> (97 \<le> c \<and> c \<le> 122) then ''L'' else ''Po''),
      full_casefold = (\<lambda>s. concat (map casefold_cp s)), set_order = remdups,
      container_text = json_codes\<rparr>"

lemma py_ok_ascii: "py_ok ascii_interp"
  by (simp add: py_ok_def ascii_interp_def)

subsection \<open>Shapes\<close>

text \<open>\<open>isinstance(v, str) and v\<close>, and the type tests on numbers and containers.\<close>

fun nonempty_str :: "json \<Rightarrow> bool" where
  "nonempty_str (JStr s) = (codes s \<noteq> [])"
| "nonempty_str _ = False"

fun is_str :: "json \<Rightarrow> bool" where
  "is_str (JStr _) = True"
| "is_str _ = False"

fun is_obj :: "json \<Rightarrow> bool" where
  "is_obj (JDict _) = True"
| "is_obj _ = False"

fun is_list :: "json \<Rightarrow> bool" where
  "is_list (JList _) = True"
| "is_list _ = False"

fun list_items :: "json \<Rightarrow> json list" where
  "list_items (JList xs) = xs"
| "list_items _ = []"

fun obj_items :: "json \<Rightarrow> jdict" where
  "obj_items (JDict d) = d"
| "obj_items _ = []"

fun str_of :: "json \<Rightarrow> str" where
  "str_of (JStr s) = s"
| "str_of _ = L []"

text \<open>An \<open>int\<close> that is not a \<open>bool\<close>, at least \<open>n\<close>.\<close>

fun int_at_least :: "int \<Rightarrow> json \<Rightarrow> bool" where
  "int_at_least n (JInt i) = (n \<le> i)"
| "int_at_least n _ = False"

fun int_of :: "json \<Rightarrow> int" where
  "int_of (JInt i) = i"
| "int_of _ = 0"

text \<open>A lower-case SHA-256 text, and any string of its length.\<close>

fun hash_text :: "json \<Rightarrow> bool" where
  "hash_text (JStr s) = is_hex64 s"
| "hash_text _ = False"

fun str64 :: "json \<Rightarrow> bool" where
  "str64 (JStr s) = (slen s = 64)"
| "str64 _ = False"

lemma is_str_iff: "is_str v \<longleftrightarrow> (\<exists>s. v = JStr s)" by (cases v) auto
lemma nonempty_str_iff: "nonempty_str v \<longleftrightarrow> (\<exists>s. v = JStr s \<and> codes s \<noteq> [])" by (cases v) auto
lemma is_obj_iff: "is_obj v \<longleftrightarrow> (\<exists>d. v = JDict d)" by (cases v) auto
lemma is_list_iff: "is_list v \<longleftrightarrow> (\<exists>xs. v = JList xs)" by (cases v) auto
lemma int_at_least_iff: "int_at_least n v \<longleftrightarrow> (\<exists>i. v = JInt i \<and> n \<le> i)" by (cases v) auto
lemma hash_text_iff: "hash_text v \<longleftrightarrow> (\<exists>s. v = JStr s \<and> is_hex64 s)" by (cases v) auto

lemma ex_True [simp]: "\<exists>b. b"
  by blast

lemmas shape_iffs = is_str_iff nonempty_str_iff is_obj_iff is_list_iff int_at_least_iff hash_text_iff

text \<open>\<open>v.get(k)\<close> and \<open>v[k]\<close> on a value of unknown type.\<close>

fun attr_get :: "json \<Rightarrow> string \<Rightarrow> json res" where
  "attr_get (JDict d) k = Inr (dget d k)"
| "attr_get _ k = Inl AttributeError"

text \<open>\<open>for x in v\<close>: a list's elements, a dictionary's keys, a string's characters.\<close>

fun py_iter :: "json \<Rightarrow> json list res" where
  "py_iter (JList xs) = Inr xs"
| "py_iter (JDict d) = Inr (map (\<lambda>p. JStr (fst p)) d)"
| "py_iter (JStr s) = Inr (map (\<lambda>c. JStr (Str [c])) (codes s))"
| "py_iter _ = Inl TypeError"

text \<open>\<open>str(v)\<close>.\<close>

fun py_str :: "interp \<Rightarrow> json \<Rightarrow> str" where
  "py_str py (JStr s) = s"
| "py_str py JNull = L ''None''"
| "py_str py (JBool b) = (if b then L ''True'' else L ''False'')"
| "py_str py (JInt i) = Str (int_codes i)"
| "py_str py (JFloat f) = Str (repr_codes f)"
| "py_str py v = Str (container_text py v)"

text \<open>A dictionary without some of its keys.\<close>

definition without :: "string list \<Rightarrow> jdict \<Rightarrow> jdict" where
  "without ks d = filter (\<lambda>p. \<not> List.member (map L ks) (fst p)) d"

lemma dget_without: "dget (without ks d) k = (if k \<in> set ks then JNull else dget d k)"
proof -
  have "map_of (filter (\<lambda>p. P (fst p)) d) x = (if P x then map_of d x else None)" for P x
    by (induction d) auto
  from this [of "\<lambda>x. \<not> List.member (map L ks) x" "L k"] show ?thesis
    by (auto simp: without_def dget_def)
qed

lemma keys_without: "keys (without ks d) = filter (\<lambda>k. \<not> List.member (map L ks) k) (keys d)"
  by (simp add: without_def keys_def filter_map comp_def)

subsection \<open>Stripped texts\<close>

lemma strip_strip [simp]: "strip (strip s) = strip s"
proof -
  let ?d = "dropWhile is_space"
  have hd: "?d xs = [] \<or> \<not> is_space (hd (?d xs))" for xs :: "nat list"
    by (induction xs) auto
  let ?a = "?d (codes s)"
  let ?b = "?d (rev ?a)"
  have "codes (strip s) = [] \<or> (\<not> is_space (hd (codes (strip s))) \<and> \<not> is_space (last (codes (strip s))))"
  proof (cases "?b = []")
    case False
    then have "last ?b = last (rev ?a)"
      by (metis last_appendR takeWhile_dropWhile_id)
    moreover have "?a \<noteq> []" using False by (metis dropWhile.simps(1) rev.simps(1))
    ultimately show ?thesis
      using hd [of "codes s"] hd [of "rev ?a"] False
      by (simp add: strip_def hd_rev last_rev del: dropWhile_eq_Nil_conv)
  qed (simp add: strip_def)
  then show ?thesis by (simp add: strip_fix_iff [symmetric])
qed

lemma is_blank_strip [simp]: "is_blank (strip s) = is_blank s"
  by (simp add: is_blank_def)

lemma slen_strip: "slen (strip s) \<le> slen s"
  using length_dropWhile_le [of is_space "rev (dropWhile is_space (codes s))"] length_dropWhile_le [of is_space "codes s"]
  by (simp add: slen_def strip_def)

subsection \<open>ASCII documents\<close>

text \<open>The canonical text of a document of ASCII strings is ASCII, so it always has a hash.\<close>

fun ascii_json :: "json \<Rightarrow> bool" where
  "ascii_json (JStr s) = list_all (\<lambda>c. c < 128) (codes s)"
| "ascii_json (JInt i) = (\<bar>i\<bar> < int_text_limit)"
| "ascii_json (JFloat f) = False"
| "ascii_json (JList xs) = list_all ascii_json xs"
| "ascii_json (JDict d) = list_all (\<lambda>p. list_all (\<lambda>c. c < 128) (codes (fst p)) \<and> ascii_json (snd p)) d"
| "ascii_json _ = True"

lemma set_join_comma: "set (join_comma xs) \<subseteq> insert (44::nat) (\<Union> (set ` set xs))"
  by (induction xs rule: join_comma.induct) auto

lemma ascii_esc: "c < 128 \<Longrightarrow> x \<in> set (esc_cp c) \<Longrightarrow> x < 128"
  by (auto simp: esc_cp_def split: if_splits)

lemma ascii_quote: "\<forall>c\<in>set (codes s). c < 128 \<Longrightarrow> c \<in> set (quote_codes s) \<Longrightarrow> c < 128"
  using ascii_esc by (auto simp: quote_codes_def)

lemma ascii_json_codes: "ascii_json v \<Longrightarrow> \<forall>c\<in>set (json_codes v). c < 128"
proof (induction v)
  case (JInt i)
  then show ?case using nat_codes_digits [of "nat i"] nat_codes_digits [of "nat (- i)"]
    by (auto simp: int_codes_def list_all_iff)
next
  case (JStr s)
  then show ?case using ascii_quote [of s] by (auto simp: list_all_iff)
next
  case (JList xs)
  have "\<forall>c\<in>set (join_comma (map json_codes xs)). c < 128"
  proof
    fix c assume "c \<in> set (join_comma (map json_codes xs))"
    then have "c = 44 \<or> (\<exists>x\<in>set xs. c \<in> set (json_codes x))"
      using set_join_comma by fastforce
    then show "c < 128" using JList by (auto simp: list_all_iff)
  qed
  then show ?case by auto
next
  case (JDict d)
  let ?m = "map (\<lambda>p. quote_codes (fst p) @ 58 # snd p) (sort_key fst (map (\<lambda>p. (fst p, json_codes (snd p))) d))"
  have "\<forall>c\<in>set (join_comma ?m). c < 128"
  proof
    fix c assume "c \<in> set (join_comma ?m)"
    then have "c = 44 \<or> (\<exists>p\<in>set d. c \<in> set (quote_codes (fst p)) \<or> c = 58 \<or> c \<in> set (json_codes (snd p)))"
      using set_join_comma [of ?m] by fastforce
    moreover have "\<forall>p\<in>set d. (\<forall>c\<in>set (codes (fst p)). c < 128) \<and> (\<forall>c\<in>set (json_codes (snd p)). c < 128)"
      using JDict by (fastforce simp: list_all_iff)
    ultimately show "c < 128" using ascii_quote by auto
  qed
  then show ?case by auto
qed (auto simp: split: if_splits)

lemma ascii_json_plain: "ascii_json v \<Longrightarrow> dumpable v \<and> floats_ok v"
  by (induction v) (fastforce simp: list_all_iff)+

lemma hex_codes_ascii: "is_hex64 h \<Longrightarrow> list_all (\<lambda>c. c < 128) (codes h)"
  by (auto simp: is_hex64_def schars_in_def list_all_iff dest!: bspec)

lemma ascii_json_hash: "ascii_json v \<Longrightarrow> canonical_hash v = Inr (sha256_hex (json_codes v))"
  using ascii_json_codes [of v] ascii_json_plain [of v]
  by (simp add: canonical_hash_def canonical_json_def json_dumps_def encode_utf8_def utf8_codes_ascii list_all_iff)

end
