(* ===== verification/ControlContract.thy ===== *)
theory ControlContract
  imports ContractValues
begin

text \<open>
  \<open>src/meta_research/control_contract.py\<close>, \<open>time_budget.py\<close> and \<open>cycle_position.py\<close>: the closed
  payload of a research control command, the signed preview an owner shows before it acts, the
  wall-clock budgets of a Quest, and the frozen focus of a Cycle.
\<close>

subsection \<open>Control commands\<close>

abbreviation conflict :: "string \<Rightarrow> exn" where
  "conflict code \<equiv> OwnerConflict code"

definition CONTROL_ACTIONS :: "string list" where
  "CONTROL_ACTIONS =
     [''pause'', ''resume'', ''normal_switch'', ''forced_switch'', ''cancel'', ''abandon'', ''prune'', ''restore'']"

definition SWITCH_ACTIONS :: "string list" where
  "SWITCH_ACTIONS = [''normal_switch'', ''forced_switch'']"

definition QUESTION_ACTIONS :: "string list" where
  "QUESTION_ACTIONS = SWITCH_ACTIONS @ [''prune'', ''restore'']"

definition CONTROL_TARGET_SCOPES :: "string list" where
  "CONTROL_TARGET_SCOPES = [''cycle'', ''stage'', ''run'']"

definition RUN_ACTIONS :: "string list" where
  "RUN_ACTIONS = [''pause'', ''resume'', ''cancel'']"

definition STAGE_ACTIONS :: "string list" where
  "STAGE_ACTIONS = [''pause'', ''resume'', ''cancel'']"

text \<open>\<open>isinstance(v, str) and v and len(v) <= 96\<close>.\<close>

definition control_ref :: "json \<Rightarrow> bool" where
  "control_ref v = (case v of JStr s \<Rightarrow> codes s \<noteq> [] \<and> slen s \<le> 96 | _ \<Rightarrow> False)"

definition json_in :: "json \<Rightarrow> string list \<Rightarrow> bool" where
  "json_in v ks = (case v of JStr s \<Rightarrow> List.member (map L ks) s | _ \<Rightarrow> False)"

definition optional_member :: "string \<Rightarrow> json \<Rightarrow> jdict" where
  "optional_member k v = (if v = JNull then [] else [(L k, v)])"

definition control_target :: "json \<Rightarrow> jdict \<Rightarrow> jdict res" where
  "control_target action target =
     bindE (raise_if (\<not> subset_list (map L [''quest_ref'', ''cycle_ref'', ''question_ref'', ''epoch'']) (keys target)
         \<or> \<not> subset_list (keys target) (map L [''quest_ref'', ''cycle_ref'', ''question_ref'', ''epoch'',
               ''target_scope'', ''run_ref'', ''target_question_ref'', ''prune_record_ref'']))
       (conflict ''research_control_target_invalid'')) (\<lambda>_.
     bindE (raise_if (list_ex (\<lambda>k. \<not> control_ref (dget target k)) [''quest_ref'', ''cycle_ref'', ''question_ref''])
       (conflict ''research_control_target_invalid'')) (\<lambda>_.
     bindE (raise_if (\<not> int_at_least 1 (dget target ''epoch''))
       (conflict ''research_control_target_invalid'')) (\<lambda>_.
     let target_scope = dget_or target ''target_scope'' (JStr (L ''cycle'')); run_ref = dget target ''run_ref'' in
     bindE (in_str_set target_scope CONTROL_TARGET_SCOPES) (\<lambda>known_scope.
     bindE (raise_if (\<not> known_scope) (conflict ''research_control_target_invalid'')) (\<lambda>_.
     bindE (if target_scope = JStr (L ''run'')
            then raise_if (\<not> json_in action RUN_ACTIONS \<or> \<not> control_ref run_ref)
                   (conflict ''research_control_run_target_invalid'')
            else raise_if (run_ref \<noteq> JNull) (conflict ''research_control_target_invalid'')) (\<lambda>_.
     bindE (raise_if (target_scope = JStr (L ''stage'') \<and> \<not> json_in action STAGE_ACTIONS)
       (conflict ''research_control_stage_action_invalid'')) (\<lambda>_.
     bindE (raise_if (json_in action QUESTION_ACTIONS \<and> target_scope \<noteq> JStr (L ''cycle''))
       (conflict ''research_control_target_invalid'')) (\<lambda>_.
     let target_question_ref = dget target ''target_question_ref''; prune_record_ref = dget target ''prune_record_ref'' in
     bindE (if json_in action QUESTION_ACTIONS
            then raise_if (\<not> control_ref target_question_ref) (conflict ''research_control_question_target_required'')
            else raise_if (target_question_ref \<noteq> JNull) (conflict ''research_control_target_invalid'')) (\<lambda>_.
     bindE (if action = JStr (L ''restore'')
            then raise_if (\<not> control_ref prune_record_ref) (conflict ''research_control_prune_record_required'')
            else raise_if (prune_record_ref \<noteq> JNull) (conflict ''research_control_target_invalid'')) (\<lambda>_.
     Inr ([(L ''quest_ref'', dget target ''quest_ref''), (L ''cycle_ref'', dget target ''cycle_ref''),
           (L ''question_ref'', dget target ''question_ref''), (L ''epoch'', dget target ''epoch''),
           (L ''target_scope'', target_scope)]
          @ optional_member ''run_ref'' run_ref
          @ optional_member ''target_question_ref'' target_question_ref
          @ optional_member ''prune_record_ref'' prune_record_ref)))))))))))"

definition validate_control_payload :: "json \<Rightarrow> jdict res" where
  "validate_control_payload value =
     (case value of
        JDict d \<Rightarrow>
          bindE (raise_if (\<not> keys_are d [''action'', ''target'', ''reason'']) (conflict ''research_control_payload_invalid'')) (\<lambda>_.
          bindE (in_str_set (dget d ''action'') CONTROL_ACTIONS) (\<lambda>known_action.
          bindE (raise_if (\<not> known_action \<or> \<not> is_obj (dget d ''target'')) (conflict ''research_control_payload_invalid'')) (\<lambda>_.
          case dget d ''reason'' of
            JStr reason \<Rightarrow>
              bindE (raise_if (is_blank reason \<or> 512 < slen reason) (conflict ''research_control_reason_invalid'')) (\<lambda>_.
              bindE (control_target (dget d ''action'') (obj_items (dget d ''target''))) (\<lambda>target.
              Inr [(L ''action'', dget d ''action''), (L ''target'', JDict target), (L ''reason'', JStr (strip reason))]))
          | _ \<Rightarrow> Inl (conflict ''research_control_reason_invalid''))))
      | _ \<Rightarrow> Inl (conflict ''research_control_payload_invalid''))"

definition jtexts :: "str list \<Rightarrow> json" where
  "jtexts xs = JList (map JStr xs)"

definition signed_owner_preview ::
    "str \<Rightarrow> jdict \<Rightarrow> str list \<Rightarrow> str list \<Rightarrow> str list \<Rightarrow> str list \<Rightarrow> jdict res" where
  "signed_owner_preview source_owner target_assertion will_happen will_not_happen risks stale_conditions =
     (let preview = [(L ''source_owner'', JStr source_owner), (L ''target_assertion'', JDict target_assertion),
            (L ''will_happen'', jtexts will_happen), (L ''will_not_happen'', jtexts will_not_happen),
            (L ''risks'', jtexts risks), (L ''stale_conditions'', jtexts stale_conditions)] in
      bindE (canonical_hash (JDict preview)) (\<lambda>digest.
      Inr (preview @ [(L ''digest'', JStr digest)])))"

subsection \<open>Wall-clock budgets\<close>

definition MAX_SAFE_SECONDS :: int where
  "MAX_SAFE_SECONDS = 9007199254740991"

definition LEGACY_SECONDS :: "(string \<times> int option) list" where
  "LEGACY_SECONDS =
     [(''7d'', Some (7 * 24 * 3600)), (''30d'', Some (30 * 24 * 3600)), (''90d'', Some (90 * 24 * 3600)), (''open'', None)]"

text \<open>
  The pattern \<open>[0-9]+(\.[0-9]{1,2})?h\<close>: the digits before and after the point.  The product
  with 3600 has at most 27 digits, so \<open>Decimal\<close>'s 28 digits hold it exactly.
\<close>

definition hours_match :: "nat list \<Rightarrow> (nat list \<times> nat list) option" where
  "hours_match cs =
     (let a = takeWhile is_digit cs; r = dropWhile is_digit cs in
      if a = [] then None
      else if r = [104] then Some (a, [])
      else case r of [] \<Rightarrow> None
        | c # q \<Rightarrow>
            let f = takeWhile is_digit q in
            if c = 46 \<and> dropWhile is_digit q = [104] \<and> 1 \<le> length f \<and> length f \<le> 2 then Some (a, f) else None)"

definition decimal_seconds :: "nat list \<Rightarrow> nat list \<Rightarrow> int" where
  "decimal_seconds a f = int ((digits_value (a @ f) 0 * 3600) div 10 ^ length f)"

definition time_budget_seconds :: "json \<Rightarrow> int option res" where
  "time_budget_seconds value =
     (case value of
        JStr s \<Rightarrow>
          (case map_of (map (\<lambda>p. (L (fst p), snd p)) LEGACY_SECONDS) s of
             Some seconds \<Rightarrow> Inr seconds
           | None \<Rightarrow>
               if 24 < slen s then Inl (ValueError ''time_budget_invalid'')
               else case hours_match (codes s) of
                 None \<Rightarrow> Inl (ValueError ''time_budget_invalid'')
               | Some (a, f) \<Rightarrow>
                   let seconds = decimal_seconds a f in
                   if seconds \<le> 0 \<or> MAX_SAFE_SECONDS < seconds then Inl (ValueError ''time_budget_invalid'')
                   else Inr (Some seconds))
      | _ \<Rightarrow> Inl (ValueError ''time_budget_invalid''))"

definition valid_time_budget :: "json \<Rightarrow> bool res" where
  "valid_time_budget value =
     (case time_budget_seconds value of
        Inl e \<Rightarrow> if is_value_error e then Inr False else Inl e
      | Inr _ \<Rightarrow> Inr True)"

subsection \<open>The focus of a Cycle\<close>

definition validate_cycle_position :: "json \<Rightarrow> str \<Rightarrow> unit res" where
  "validate_cycle_position position cycle_ref =
     (case position of
        JDict d \<Rightarrow>
          raise_if
            (\<not> keys_are d [''cycle_ref'', ''round'', ''cycle_focus'', ''focus_source'']
             \<or> dget d ''cycle_ref'' \<noteq> JStr cycle_ref
             \<or> \<not> int_at_least 1 (dget d ''round'')
             \<or> (case dget d ''cycle_focus'' of JStr s \<Rightarrow> is_blank s | _ \<Rightarrow> True)
             \<or> (case dget d ''focus_source'' of JDict e \<Rightarrow> e = [] | _ \<Rightarrow> True))
            (ValueError ''cycle_position_invalid'')
      | _ \<Rightarrow> Inl (ValueError ''cycle_position_invalid''))"

end
