(* ===== verification/IdeaContract.thy ===== *)
theory IdeaContract
  imports ControlContract
begin

text \<open>
  \<open>src/meta_research/idea_contract.py\<close>: the Idea stage's outcome (a set of candidates, or the
  statement that none is viable), its advisory review, the context pack it was produced from, and
  the material hash that recognises a cosmetic rewrite.
\<close>

abbreviation idea_error :: "string \<Rightarrow> exn" where
  "idea_error code \<equiv> IdeaContractError code"

abbreviation idea_fail :: "string \<Rightarrow> 'a res" where
  "idea_fail code \<equiv> Inl (IdeaContractError code)"

definition IDEA_REVIEW_SCHEMA_REF :: string where
  "IDEA_REVIEW_SCHEMA_REF = ''meta-research/idea-advisory-review/v2''"

definition IDEA_CONTEXT_PACK_SCHEMA_REF :: string where
  "IDEA_CONTEXT_PACK_SCHEMA_REF = ''meta-research/idea-context-pack/v1''"

definition IDEA_CONTEXT_PACK_SCHEMA_V2_REF :: string where
  "IDEA_CONTEXT_PACK_SCHEMA_V2_REF = ''meta-research/idea-context-pack/v2''"

definition IDEA_CONTEXT_PACK_SCHEMA_V3_REF :: string where
  "IDEA_CONTEXT_PACK_SCHEMA_V3_REF = ''meta-research/idea-context-pack/v3''"

definition IDEA_CONTEXT_PACK_SCHEMA_V4_REF :: string where
  "IDEA_CONTEXT_PACK_SCHEMA_V4_REF = ''meta-research/idea-context-pack/v4''"

definition MAX_IDEA_CONTEXT_EVIDENCE_REFS :: nat where
  "MAX_IDEA_CONTEXT_EVIDENCE_REFS = 100"

definition MAX_IDEA_CONTEXT_GUIDANCE_BINDINGS :: nat where
  "MAX_IDEA_CONTEXT_GUIDANCE_BINDINGS = 100"

definition idea_context_pack_v1_fields :: "string list" where
  "idea_context_pack_v1_fields =
     [''schema_ref'', ''cycle_ref'', ''accepted_question_binding'', ''accepted_evidence_refs'', ''literature_binding'',
      ''prior_accepted_bindings'', ''active_guidance_bindings'']"

definition idea_context_pack_v2_fields :: "string list" where
  "idea_context_pack_v2_fields = idea_context_pack_v1_fields @ [''evidence_reference_revision'']"

definition prior_reasoning_binding_fields :: "string list" where
  "prior_reasoning_binding_fields =
     [''stage'', ''commit_ref'', ''cycle_ref'', ''epoch'', ''disposition'', ''receipt'', ''request_ref'', ''run_ref'',
      ''outcome_ref'', ''outcome_kind'', ''run_completion_receipt'', ''outcome_receipt'', ''closure'']"

definition receipt_fields :: "string list" where
  "receipt_fields = [''status'', ''issuer'', ''kind'', ''receipt_ref'', ''subject_ref'', ''payload_hash'']"

subsection \<open>Primitive checks\<close>

definition idea_require_text :: "json \<Rightarrow> string \<Rightarrow> unit res" where
  "idea_require_text value label =
     (case value of
        JStr s \<Rightarrow> raise_if (is_blank s) (idea_error (label @ ''_invalid''))
      | _ \<Rightarrow> idea_fail (label @ ''_invalid''))"

definition require_text_list :: "json \<Rightarrow> string \<Rightarrow> unit res" where
  "require_text_list value label =
     (case value of
        JList xs \<Rightarrow> if xs = [] then idea_fail (label @ ''_missing'') else forE (\<lambda>item. idea_require_text item label) xs
      | _ \<Rightarrow> idea_fail (label @ ''_missing''))"

text \<open>The fields are those of a set: the source tests them in the set's order, which only
  decides whose label a failure carries.\<close>

definition validate_text_object :: "json \<Rightarrow> string list \<Rightarrow> string \<Rightarrow> unit res" where
  "validate_text_object value names label =
     (case value of
        JDict d \<Rightarrow>
          if \<not> keys_are d names then idea_fail (label @ ''_shape_invalid'')
          else forE (\<lambda>field. idea_require_text (dget d field) (label @ ''_'' @ field)) names
      | _ \<Rightarrow> idea_fail (label @ ''_shape_invalid''))"

text \<open>A reference is non-empty and, when the accepted references are known, one of them.\<close>

definition bound_ref :: "str list option \<Rightarrow> json \<Rightarrow> bool" where
  "bound_ref accepted v \<longleftrightarrow> nonempty_str v \<and> (case accepted of None \<Rightarrow> True | Some refs \<Rightarrow> List.member refs (str_of v))"

definition validate_evidence_boundary :: "json \<Rightarrow> str list option \<Rightarrow> unit res" where
  "validate_evidence_boundary value accepted_refs =
     (case value of
        JDict d \<Rightarrow>
          if \<not> keys_are d [''accepted_evidence_refs'', ''supported'', ''inferred'', ''unknown'']
          then idea_fail ''evidence_boundary_shape_invalid''
          else (case dget d ''accepted_evidence_refs'' of
              JList refs \<Rightarrow>
                if list_ex (\<lambda>item. \<not> bound_ref accepted_refs item) refs then idea_fail ''accepted_evidence_ref_unbound''
                else forE (\<lambda>field. idea_require_text (dget d field) field) [''supported'', ''inferred'', ''unknown'']
            | _ \<Rightarrow> idea_fail ''accepted_evidence_ref_unbound'')
      | _ \<Rightarrow> idea_fail ''evidence_boundary_shape_invalid'')"

subsection \<open>Material identity\<close>

text \<open>\<open>material_text\<close>: the NFKC form without spaces, punctuation, separators and format characters.\<close>

definition material_char :: "interp \<Rightarrow> nat \<Rightarrow> bool" where
  "material_char py c \<longleftrightarrow>
     \<not> is_space c \<and> \<not> List.member [CHR ''P'', CHR ''Z''] (hd (category py c)) \<and> category py c \<noteq> ''Cf''"

definition material_text :: "interp \<Rightarrow> str \<Rightarrow> str" where
  "material_text py s = Str (filter (material_char py) (nfkc py (codes s)))"

definition material_identity_fields :: "string list" where
  "material_identity_fields = [''candidate_key'', ''question_ref'', ''context_pack_ref'', ''recommendation'']"

definition material_key :: "str \<times> json \<Rightarrow> bool" where
  "material_key p \<longleftrightarrow>
     \<not> List.member (map L material_identity_fields) (fst p)
     \<and> \<not> (fst p = L ''notes'' \<and> (case snd p of JStr s \<Rightarrow> is_blank s | _ \<Rightarrow> False))"

text \<open>\<open>{_canonical_json(item): item for item in items}\<close>, then the items in the order of the keys.\<close>

definition unique_sorted :: "(str \<times> json) list \<Rightarrow> json list" where
  "unique_sorted items = map (\<lambda>k. the (map_of (rev items) k)) (sorted_set (map fst items))"

function idea_material_value :: "interp \<Rightarrow> json \<Rightarrow> json res" where
  "idea_material_value py (JDict d) =
     bindE (mapE (\<lambda>p. bindE (idea_material_value py (snd p)) (\<lambda>v. Inr (fst p, v))) (filter material_key d)) (\<lambda>e. Inr (JDict e))"
| "idea_material_value py (JList xs) =
     bindE (mapE (\<lambda>x. bindE (idea_material_value py x) (\<lambda>v. bindE (canonical_json v) (\<lambda>t. Inr (t, v)))) xs) (\<lambda>items.
     Inr (JList (unique_sorted items)))"
| "idea_material_value py (JStr s) = Inr (JStr (material_text py s))"
| "idea_material_value py JNull = Inr JNull"
| "idea_material_value py (JBool b) = Inr (JBool b)"
| "idea_material_value py (JInt i) = Inr (JInt i)"
| "idea_material_value py (JFloat f) = Inr (JFloat f)"
  by pat_completeness auto
termination
proof (relation "measure (\<lambda>(_, v). size v)")
  fix py :: interp and d :: jdict and p
  assume "p \<in> set (filter material_key d)"
  then have "size (snd p) < Suc (size_list (size_prod (\<lambda>_. 0) size) d)"
    by (induction d) (auto simp: less_Suc_eq_le split: if_splits)
  then show "((py, snd p), py, JDict d) \<in> measure (\<lambda>(_, v). size v)" by simp
next
  fix py :: interp and xs :: "json list" and x
  assume "x \<in> set xs"
  then have "size x < Suc (size_list size xs)"
    by (auto simp: less_Suc_eq_le intro: size_list_estimation')
  then show "((py, x), py, JList xs) \<in> measure (\<lambda>(_, v). size v)" by simp
qed simp

definition material_outcome_hash :: "interp \<Rightarrow> jdict \<Rightarrow> str res" where
  "material_outcome_hash py outcome = bindE (idea_material_value py (JDict outcome)) canonical_hash"

subsection \<open>Outcomes\<close>

definition idea_candidate_required :: "string list" where
  "idea_candidate_required = [''candidate_key'', ''direction'', ''rationale'', ''evidence_boundary'']"

definition idea_candidate_optional :: "string list" where
  "idea_candidate_optional = [''assumptions'', ''risks'', ''falsification_hint'', ''material_difference'', ''notes'']"

text \<open>The candidate without its key, and without how it differs from its peers.\<close>

definition material_candidate :: "jdict \<Rightarrow> jdict" where
  "material_candidate candidate =
     (let rest = without [''candidate_key''] candidate in
      if has_key candidate (L ''material_difference'')
      then dict_set (L ''material_difference'') (JDict (without [''from_peers''] (obj_items (dget candidate ''material_difference'')))) rest
      else rest)"

definition idea_candidate_check :: "str list option \<Rightarrow> json \<Rightarrow> jdict res" where
  "idea_candidate_check accepted_refs value =
     (case value of
        JDict candidate \<Rightarrow>
          bindE (raise_if (\<not> subset_list (map L idea_candidate_required) (keys candidate)
              \<or> \<not> subset_list (keys candidate) (map L (idea_candidate_required @ idea_candidate_optional)))
            (idea_error ''idea_candidate_shape_invalid'')) (\<lambda>_.
          bindE (raise_if (has_key candidate (L ''notes'') \<and> \<not> is_str (dget candidate ''notes'')) (idea_error ''idea_notes_invalid'')) (\<lambda>_.
          bindE (forE (\<lambda>field. idea_require_text (dget candidate field) field) [''candidate_key'', ''direction'', ''rationale'']) (\<lambda>_.
          bindE (forE (\<lambda>field. if has_key candidate (L field) then require_text_list (dget candidate field) (''candidate_'' @ field)
                         else Inr ()) [''assumptions'', ''risks'']) (\<lambda>_.
          bindE (validate_evidence_boundary (dget candidate ''evidence_boundary'') accepted_refs) (\<lambda>_.
          bindE (if has_key candidate (L ''falsification_hint'')
                 then validate_text_object (dget candidate ''falsification_hint'') [''test'', ''would_refute''] ''falsification_hint''
                 else Inr ()) (\<lambda>_.
          bindE (if has_key candidate (L ''material_difference'')
                 then validate_text_object (dget candidate ''material_difference'')
                        [''from_history'', ''from_peers'', ''plan_commitment_change''] ''material_difference''
                 else Inr ()) (\<lambda>_.
          Inr candidate)))))))
      | _ \<Rightarrow> idea_fail ''idea_candidate_shape_invalid'')"

text \<open>One pass of the loop: the key and the material hash of the candidate are appended.\<close>

definition idea_candidate_step :: "interp \<Rightarrow> str list option \<Rightarrow> str list \<times> str list \<Rightarrow> json \<Rightarrow> (str list \<times> str list) res" where
  "idea_candidate_step py accepted_refs = (\<lambda>(ks, material) value.
     bindE (idea_candidate_check accepted_refs value) (\<lambda>candidate.
     bindE (idea_material_value py (JDict (material_candidate candidate))) (\<lambda>v.
     bindE (canonical_hash v) (\<lambda>h.
     Inr (ks @ [str_of (dget candidate ''candidate_key'')], material @ [h])))))"

definition validate_recommendation :: "json \<Rightarrow> unit res" where
  "validate_recommendation recommendation =
     (case recommendation of
        JNull \<Rightarrow> Inr ()
      | JDict d \<Rightarrow>
          bindE (raise_if (\<not> keys_are d [''note'', ''binding'']) (idea_error ''idea_recommendation_shape_invalid'')) (\<lambda>_.
          bindE (idea_require_text (dget d ''note'') ''recommendation_note'') (\<lambda>_.
          raise_if (dget d ''binding'' \<noteq> JBool False) (idea_error ''idea_recommendation_must_be_advisory'')))
      | _ \<Rightarrow> idea_fail ''idea_recommendation_shape_invalid'')"

definition validate_idea_set :: "interp \<Rightarrow> jdict \<Rightarrow> str list option \<Rightarrow> unit res" where
  "validate_idea_set py outcome accepted_refs =
     bindE (raise_if (\<not> keys_are outcome ([''kind'', ''question_ref'', ''context_pack_ref'', ''candidates'', ''recommendation'']
         @ (if has_key outcome (L ''notes'') then [''notes''] else []))) (idea_error ''idea_set_shape_invalid'')) (\<lambda>_.
     case dget outcome ''candidates'' of
       JList candidates \<Rightarrow>
         if candidates = [] then idea_fail ''idea_set_empty''
         else
           bindE (foldE (idea_candidate_step py accepted_refs) ([], []) candidates) (\<lambda>(ks, material).
           bindE (raise_if (\<not> distinct ks) (idea_error ''idea_candidate_key_duplicate'')) (\<lambda>_.
           bindE (raise_if (\<not> distinct material) (idea_error ''idea_candidate_material_duplicate'')) (\<lambda>_.
           validate_recommendation (dget outcome ''recommendation''))))
     | _ \<Rightarrow> idea_fail ''idea_set_empty'')"

definition candidate_family_check :: "str list option \<Rightarrow> json \<Rightarrow> unit res" where
  "candidate_family_check accepted_refs value =
     (case value of
        JDict family \<Rightarrow>
          bindE (raise_if (\<not> keys_are family [''family'', ''why_not_viable'', ''evidence_refs'']) (idea_error ''candidate_family_shape_invalid'')) (\<lambda>_.
          bindE (idea_require_text (dget family ''family'') ''candidate_family'') (\<lambda>_.
          bindE (idea_require_text (dget family ''why_not_viable'') ''why_not_viable'') (\<lambda>_.
          raise_if (\<not> is_list (dget family ''evidence_refs'')
              \<or> list_ex (\<lambda>item. \<not> bound_ref accepted_refs item) (list_items (dget family ''evidence_refs'')))
            (idea_error ''candidate_family_evidence_unbound''))))
      | _ \<Rightarrow> idea_fail ''candidate_family_shape_invalid'')"

definition validate_no_viable :: "jdict \<Rightarrow> str list option \<Rightarrow> unit res" where
  "validate_no_viable outcome accepted_refs =
     bindE (raise_if (\<not> keys_are outcome ([''kind'', ''question_ref'', ''context_pack_ref'', ''exploration_scope'',
           ''candidate_families_considered'', ''evidence_boundary'', ''overturn_conditions'', ''why_plan_cannot_proceed'']
         @ (if has_key outcome (L ''notes'') then [''notes''] else []))) (idea_error ''no_viable_shape_invalid'')) (\<lambda>_.
     bindE (idea_require_text (dget outcome ''exploration_scope'') ''exploration_scope'') (\<lambda>_.
     bindE (idea_require_text (dget outcome ''why_plan_cannot_proceed'') ''why_plan_cannot_proceed'') (\<lambda>_.
     bindE (require_text_list (dget outcome ''overturn_conditions'') ''overturn_conditions'') (\<lambda>_.
     bindE (validate_evidence_boundary (dget outcome ''evidence_boundary'') accepted_refs) (\<lambda>_.
     case dget outcome ''candidate_families_considered'' of
       JList families \<Rightarrow>
         if families = [] then idea_fail ''candidate_families_missing''
         else forE (candidate_family_check accepted_refs) families
     | _ \<Rightarrow> idea_fail ''candidate_families_missing'')))))"

text \<open>The references an outcome cites; the result stands for a set.\<close>

definition boundary_values :: "jdict \<Rightarrow> json list res" where
  "boundary_values outcome =
     (if dget outcome ''kind'' = JStr (L ''IdeaSet'')
      then bindE (py_iter (dget_or outcome ''candidates'' (JList []))) (\<lambda>candidates.
             Inr (map (\<lambda>c. dget (obj_items c) ''evidence_boundary'') (filter is_obj candidates)))
      else Inr [dget outcome ''evidence_boundary''])"

definition cited_refs_step :: "str list \<Rightarrow> json \<Rightarrow> str list res" where
  "cited_refs_step refs values =
     (if \<not> is_list values \<or> list_ex (\<lambda>v. \<not> nonempty_str v) (list_items values) then idea_fail ''accepted_evidence_ref_unbound''
      else Inr (refs @ map str_of (list_items values)))"

definition idea_used_evidence_refs :: "jdict \<Rightarrow> str list res" where
  "idea_used_evidence_refs outcome =
     bindE (boundary_values outcome) (\<lambda>boundaries.
     bindE (py_iter (dget_or outcome ''candidate_families_considered'' (JList []))) (\<lambda>families.
     bindE (foldE cited_refs_step []
         (map (\<lambda>b. dget_or (obj_items b) ''accepted_evidence_refs'' (JList [])) (filter is_obj boundaries)
          @ map (\<lambda>f. dget_or (obj_items f) ''evidence_refs'' (JList [])) (filter is_obj families))) (\<lambda>refs.
     if MAX_IDEA_CONTEXT_EVIDENCE_REFS < length (remdups refs) then idea_fail ''idea_selected_evidence_too_large''
     else Inr (remdups refs))))"

text \<open>An absent question or context is \<open>None\<close>, here \<open>JNull\<close>.\<close>

definition validate_idea_outcome :: "interp \<Rightarrow> json \<Rightarrow> json \<Rightarrow> json \<Rightarrow> str list option \<Rightarrow> str res" where
  "validate_idea_outcome py value question_ref context_pack_ref accepted_evidence_refs =
     (case value of
        JDict outcome \<Rightarrow>
          bindE (raise_if (question_ref \<noteq> JNull \<and> \<not> py_eq (dget outcome ''question_ref'') question_ref)
            (idea_error ''idea_outcome_question_mismatch'')) (\<lambda>_.
          bindE (raise_if (context_pack_ref \<noteq> JNull \<and> \<not> py_eq (dget outcome ''context_pack_ref'') context_pack_ref)
            (idea_error ''idea_outcome_context_mismatch'')) (\<lambda>_.
          bindE (idea_require_text (dget outcome ''question_ref'') ''question_ref'') (\<lambda>_.
          bindE (idea_require_text (dget outcome ''context_pack_ref'') ''context_pack_ref'') (\<lambda>_.
          bindE (raise_if (has_key outcome (L ''notes'') \<and> \<not> is_str (dget outcome ''notes'')) (idea_error ''idea_notes_invalid'')) (\<lambda>_.
          bindE (if dget outcome ''kind'' = JStr (L ''IdeaSet'') then validate_idea_set py outcome accepted_evidence_refs
                 else if dget outcome ''kind'' = JStr (L ''NoViableCandidate'') then validate_no_viable outcome accepted_evidence_refs
                 else idea_fail ''idea_outcome_kind_invalid'') (\<lambda>_.
          bindE (idea_used_evidence_refs outcome) (\<lambda>_.
          canonical_hash (JDict outcome))))))))
      | _ \<Rightarrow> idea_fail ''idea_outcome_not_object'')"

definition validate_advisory_review :: "json \<Rightarrow> str \<Rightarrow> str option \<Rightarrow> str res" where
  "validate_advisory_review value outcome_hash reviewed_draft_hash =
     (case value of
        JDict review \<Rightarrow>
          if \<not> keys_are review [''schema_ref'', ''reviewed_draft_hash'', ''final_outcome_hash'']
             \<or> dget review ''schema_ref'' \<noteq> JStr (L IDEA_REVIEW_SCHEMA_REF)
             \<or> dget review ''final_outcome_hash'' \<noteq> JStr outcome_hash
             \<or> \<not> str64 (dget review ''reviewed_draft_hash'')
             \<or> (reviewed_draft_hash \<noteq> None \<and> dget review ''reviewed_draft_hash'' \<noteq> JStr (the reviewed_draft_hash))
          then idea_fail ''idea_review_binding_invalid''
          else canonical_hash value
      | _ \<Rightarrow> idea_fail ''idea_review_binding_invalid'')"

definition validate_idea_content ::
    "interp \<Rightarrow> json \<Rightarrow> jdict \<Rightarrow> json option \<Rightarrow> json \<Rightarrow> json \<Rightarrow> str list option \<Rightarrow> (str \<times> str) res" where
  "validate_idea_content py outcome review reviewed_draft question_ref context_pack_ref accepted_evidence_refs =
     bindE (validate_idea_outcome py outcome question_ref context_pack_ref accepted_evidence_refs) (\<lambda>outcome_hash.
     bindE (case reviewed_draft of
         None \<Rightarrow> if dget review ''reviewed_draft_hash'' \<noteq> JStr outcome_hash then idea_fail ''idea_reviewed_draft_missing'' else Inr outcome
       | Some draft \<Rightarrow> Inr draft) (\<lambda>draft.
     bindE (validate_idea_outcome py draft question_ref context_pack_ref accepted_evidence_refs) (\<lambda>reviewed_draft_hash.
     bindE (validate_advisory_review (JDict review) outcome_hash (Some reviewed_draft_hash)) (\<lambda>review_hash.
     Inr (outcome_hash, review_hash)))))"

end
