(* ===== verification/IdeaContext.thy ===== *)
theory IdeaContext
  imports IdeaContract "HOL-Library.Product_Lexorder"
begin

text \<open>
  \<open>src/meta_research/idea_contract.py\<close>, the context pack: its four schema versions, the bindings to
  literature and to prior Reasoning it may carry, and the evidence references it opens.
\<close>

definition pack_fail :: "'a res" where
  "pack_fail = idea_fail ''idea_context_pack_invalid''"

definition pack_check :: "bool \<Rightarrow> unit res" where
  "pack_check ok = raise_if (\<not> ok) (idea_error ''idea_context_pack_invalid'')"

lemma pack_check_Inr [simp, res_simps]: "pack_check ok = Inr u \<longleftrightarrow> ok"
  by (simp add: pack_check_def)

lemma pack_fail_Inr [simp, res_simps]: "pack_fail \<noteq> Inr x"
  by (simp add: pack_fail_def)

subsection \<open>Receipts and bindings\<close>

definition validate_public_receipt :: "json \<Rightarrow> string \<Rightarrow> json \<Rightarrow> unit res" where
  "validate_public_receipt value issuer subject_ref =
     (let d = obj_items value in
      pack_check (is_obj value \<and> keys_are d receipt_fields
        \<and> dget d ''status'' = JStr (L ''accepted'') \<and> dget d ''issuer'' = JStr (L issuer)
        \<and> py_eq (dget d ''subject_ref'') subject_ref
        \<and> nonempty_str (dget d ''kind'') \<and> nonempty_str (dget d ''receipt_ref'') \<and> hash_text (dget d ''payload_hash'')))"

definition validate_question_literature_revision_binding :: "json \<Rightarrow> json \<Rightarrow> unit res" where
  "validate_question_literature_revision_binding value question_ref =
     (let d = obj_items value; receipt = dget d ''receipt''; r = obj_items receipt in
      pack_check (is_obj value
        \<and> keys_are d [''kind'', ''revision_ref'', ''question_ref'', ''literature_snapshot_ref'', ''records'',
            ''rm_acceptance_receipt_ref'', ''rg_question_association_receipt_ref'', ''receipt'']
        \<and> dget d ''kind'' = JStr (L ''QuestionLiteratureRevision'')
        \<and> py_eq (dget d ''question_ref'') question_ref
        \<and> is_list (dget d ''records'')
        \<and> list_all (\<lambda>field. nonempty_str (dget d field)) [''revision_ref'', ''question_ref'', ''literature_snapshot_ref'',
            ''rm_acceptance_receipt_ref'', ''rg_question_association_receipt_ref'']
        \<and> is_obj receipt
        \<and> dget r ''status'' = JStr (L ''accepted'') \<and> dget r ''issuer'' = JStr (L ''research_memory'')
        \<and> dget r ''kind'' = JStr (L ''question_literature_revision_acceptance'')
        \<and> py_eq (dget r ''subject_ref'') (dget d ''revision_ref'')
        \<and> py_eq (dget r ''receipt_ref'') (dget d ''rm_acceptance_receipt_ref'')
        \<and> hash_text (dget r ''payload_hash'')))"

definition validate_literature_binding :: "json \<Rightarrow> unit res" where
  "validate_literature_binding value =
     (let d = obj_items value; receipt = dget d ''receipt''; r = obj_items receipt in
      pack_check (is_obj value
        \<and> keys_are d [''schema_ref'', ''snapshot_ref'', ''snapshot_hash'', ''initialization_id'', ''draft_revision'',
            ''draft_hash'', ''receipt'']
        \<and> dget d ''schema_ref'' = JStr (L ''meta-research/idea-literature-binding/v1'')
        \<and> nonempty_str (dget d ''snapshot_ref'') \<and> nonempty_str (dget d ''initialization_id'')
        \<and> str64 (dget d ''snapshot_hash'') \<and> str64 (dget d ''draft_hash'')
        \<and> int_at_least 1 (dget d ''draft_revision'')
        \<and> is_obj receipt \<and> keys_are r receipt_fields
        \<and> dget r ''status'' = JStr (L ''accepted'') \<and> dget r ''issuer'' = JStr (L ''research_memory'')
        \<and> dget r ''kind'' = JStr (L ''literature_snapshot_acceptance'')
        \<and> py_eq (dget r ''subject_ref'') (dget d ''snapshot_ref'')
        \<and> nonempty_str (dget r ''receipt_ref'') \<and> str64 (dget r ''payload_hash'')))"

text \<open>One prior Reasoning commit; the loop collects its Cycle and epoch.\<close>

definition prior_binding_check :: "json \<Rightarrow> (str \<times> int) res" where
  "prior_binding_check value =
     (let b = obj_items value; closure = dget b ''closure'' in
      bindE (pack_check (is_obj value \<and> keys_are b prior_reasoning_binding_fields)) (\<lambda>_.
      bindE (pack_check (dget b ''stage'' = JStr (L ''reasoning'') \<and> dget b ''disposition'' = JStr (L ''completed'')
          \<and> dget b ''outcome_kind'' = JStr (L ''reasoning_outcome'') \<and> int_at_least 1 (dget b ''epoch'')
          \<and> list_all (\<lambda>field. nonempty_str (dget b field)) [''commit_ref'', ''cycle_ref'', ''request_ref'', ''run_ref'', ''outcome_ref'']
          \<and> is_obj closure)) (\<lambda>_.
      bindE (in_str_set (dget (obj_items closure) ''transition_kind'') [''next_cycle_proposal'', ''candidate_completion'']) (\<lambda>known.
      bindE (pack_check known) (\<lambda>_.
      bindE (validate_public_receipt (dget b ''run_completion_receipt'') ''agent_runtime'' (dget b ''run_ref'')) (\<lambda>_.
      bindE (validate_public_receipt (dget b ''outcome_receipt'') ''research_graph'' (dget b ''outcome_ref'')) (\<lambda>_.
      bindE (validate_public_receipt (dget b ''receipt'') ''advancement_engine'' (dget b ''commit_ref'')) (\<lambda>_.
      Inr (str_of (dget b ''cycle_ref''), int_of (dget b ''epoch''))))))))))"

text \<open>\<open>sorted(set(identities), key=epoch)\<close>: a stable sort of the set in its iteration order.\<close>

definition sorted_by_epoch :: "interp \<Rightarrow> (str \<times> int) list \<Rightarrow> (str \<times> int) list" where
  "sorted_by_epoch py identities = sort_key snd (set_order py identities)"

definition validate_prior_reasoning_bindings :: "interp \<Rightarrow> json \<Rightarrow> unit res" where
  "validate_prior_reasoning_bindings py value =
     bindE (pack_check (is_list value \<and> list_items value \<noteq> [])) (\<lambda>_.
     bindE (mapE prior_binding_check (list_items value)) (\<lambda>identities.
     pack_check (identities = sorted_by_epoch py identities)))"

subsection \<open>Guidance and evidence references\<close>

definition guidance_fields :: "string list" where
  "guidance_fields =
     [''schema_ref'', ''issuer'', ''constraint_ref'', ''scope_ref'', ''revision'', ''guidance'', ''guidance_hash'',
      ''receipt_ref'', ''receipt_hash'']"

definition guidance_binding_check :: "json \<Rightarrow> ((str \<times> str \<times> int) \<times> str) res" where
  "guidance_binding_check value =
     (let b = obj_items value; code = idea_error ''idea_context_guidance_bindings_invalid'' in
      bindE (raise_if (\<not> (is_obj value \<and> keys_are b guidance_fields
          \<and> dget b ''schema_ref'' = JStr (L ''meta-research/active-guidance-binding/v1'')
          \<and> dget b ''issuer'' = JStr (L ''human_collaboration'') \<and> int_at_least 1 (dget b ''revision'')
          \<and> is_obj (dget b ''guidance'') \<and> obj_items (dget b ''guidance'') \<noteq> [] \<and> hash_text (dget b ''guidance_hash''))) code) (\<lambda>_.
      bindE (canonical_hash (dget b ''guidance'')) (\<lambda>h.
      bindE (raise_if (JStr h \<noteq> dget b ''guidance_hash'' \<or> \<not> hash_text (dget b ''receipt_hash'')) code) (\<lambda>_.
      bindE (forE (\<lambda>field. idea_require_text (dget b field) field) [''constraint_ref'', ''scope_ref'', ''receipt_ref'']) (\<lambda>_.
      Inr ((str_of (dget b ''scope_ref''), str_of (dget b ''constraint_ref''), int_of (dget b ''revision'')),
           str_of (dget b ''receipt_ref'')))))))"

text \<open>\<open>keys == sorted(set(keys))\<close> compares the tuples lexicographically.\<close>

definition validate_guidance_bindings :: "json \<Rightarrow> unit res" where
  "validate_guidance_bindings guidance =
     (let code = idea_error ''idea_context_guidance_bindings_invalid'' in
      bindE (raise_if (\<not> is_list guidance \<or> MAX_IDEA_CONTEXT_GUIDANCE_BINDINGS < length (list_items guidance)) code) (\<lambda>_.
      bindE (mapE guidance_binding_check (list_items guidance)) (\<lambda>rows.
      raise_if (map fst rows \<noteq> sorted_set (map fst rows) \<or> \<not> distinct (map snd rows)) code)))"

text \<open>A JSON list equals \<open>sorted(set(refs))\<close> of its own strings.\<close>

definition evidence_refs_check :: "json \<Rightarrow> str list res" where
  "evidence_refs_check refs =
     bindE (raise_if (\<not> is_list refs \<or> MAX_IDEA_CONTEXT_EVIDENCE_REFS < length (list_items refs)
         \<or> list_ex (\<lambda>v. \<not> nonempty_str v) (list_items refs)
         \<or> map str_of (list_items refs) \<noteq> sorted_set (map str_of (list_items refs)))
       (idea_error ''context_pack_evidence_bindings_invalid'')) (\<lambda>_.
     Inr (map str_of (list_items refs)))"

subsection \<open>The pack\<close>

definition cycle_position_check :: "jdict \<Rightarrow> str \<Rightarrow> unit res" where
  "cycle_position_check pack cycle_ref =
     (if has_key pack (L ''cycle_position'')
      then rethrow is_value_error (\<lambda>_. idea_error ''idea_context_pack_invalid'')
             (validate_cycle_position (dget pack ''cycle_position'') cycle_ref)
      else Inr ())"

definition pack_literature_check :: "interp \<Rightarrow> string \<Rightarrow> jdict \<Rightarrow> jdict \<Rightarrow> unit res" where
  "pack_literature_check py schema pack question =
     (let literature = dget pack ''literature_binding''; prior = dget pack ''prior_accepted_bindings'' in
      if schema = IDEA_CONTEXT_PACK_SCHEMA_REF then pack_check (literature = JNull \<and> prior = JList [])
      else if schema = IDEA_CONTEXT_PACK_SCHEMA_V2_REF then
        bindE (pack_check (prior = JList [])) (\<lambda>_.
        if literature \<noteq> JNull then validate_literature_binding literature else Inr ())
      else
        bindE (validate_question_literature_revision_binding literature (dget question ''question_ref'')) (\<lambda>_.
        validate_prior_reasoning_bindings py prior))"

text \<open>The versions one to three; \<open>schema\<close> is the pack's reference once it is known to be one of them.\<close>

definition validate_context_pack_v123 :: "interp \<Rightarrow> jdict \<Rightarrow> str \<Rightarrow> jdict \<Rightarrow> str list res" where
  "validate_context_pack_v123 py pack cycle_ref question =
     (let schema_ref = dget pack ''schema_ref'';
          expected = (if schema_ref = JStr (L IDEA_CONTEXT_PACK_SCHEMA_V3_REF) \<or> schema_ref = JStr (L IDEA_CONTEXT_PACK_SCHEMA_V2_REF)
                      then idea_context_pack_v2_fields else idea_context_pack_v1_fields) in
      bindE (cycle_position_check pack cycle_ref) (\<lambda>_.
      bindE (pack_check (keys_are pack (expected @ (if has_key pack (L ''cycle_position'') then [''cycle_position''] else [])))) (\<lambda>_.
      bindE (in_str_set schema_ref [IDEA_CONTEXT_PACK_SCHEMA_REF, IDEA_CONTEXT_PACK_SCHEMA_V2_REF, IDEA_CONTEXT_PACK_SCHEMA_V3_REF]) (\<lambda>known.
      bindE (pack_check (known \<and> dget pack ''cycle_ref'' = JStr cycle_ref
          \<and> py_eq (dget pack ''accepted_question_binding'') (JDict question))) (\<lambda>_.
      let schema = (if schema_ref = JStr (L IDEA_CONTEXT_PACK_SCHEMA_V3_REF) then IDEA_CONTEXT_PACK_SCHEMA_V3_REF
                    else if schema_ref = JStr (L IDEA_CONTEXT_PACK_SCHEMA_V2_REF) then IDEA_CONTEXT_PACK_SCHEMA_V2_REF
                    else IDEA_CONTEXT_PACK_SCHEMA_REF) in
      bindE (pack_literature_check py schema pack question) (\<lambda>_.
      bindE (pack_check (schema = IDEA_CONTEXT_PACK_SCHEMA_REF \<or> int_at_least 0 (dget pack ''evidence_reference_revision''))) (\<lambda>_.
      bindE (pack_check (schema \<noteq> IDEA_CONTEXT_PACK_SCHEMA_REF \<or> dget pack ''accepted_evidence_refs'' = JList [])) (\<lambda>_.
      bindE (evidence_refs_check (dget pack ''accepted_evidence_refs'')) (\<lambda>refs.
      bindE (validate_guidance_bindings (dget pack ''active_guidance_bindings'')) (\<lambda>_.
      Inr refs))))))))))"

text \<open>A discovery preview of literature records stands for a revision binding without records.\<close>

definition validate_literature_reference :: "json \<Rightarrow> json \<Rightarrow> unit res" where
  "validate_literature_reference value question_ref =
     (if value = JNull then Inr ()
      else let d = obj_items value in
        bindE (pack_check (is_obj value
            \<and> keys_are d [''kind'', ''revision_ref'', ''question_ref'', ''literature_snapshot_ref'', ''rm_acceptance_receipt_ref'',
                ''rg_question_association_receipt_ref'', ''receipt'', ''records_hash'', ''record_count'', ''records_preview'']
            \<and> dget d ''kind'' = JStr (L ''QuestionLiteratureReference'')
            \<and> int_at_least 0 (dget d ''record_count'') \<and> hash_text (dget d ''records_hash''))) (\<lambda>_.
        bindE (validate_question_literature_revision_binding
            (JDict (dict_set (L ''records'') (JList []) (dict_set (L ''kind'') (JStr (L ''QuestionLiteratureRevision''))
               (without [''records_hash'', ''record_count'', ''records_preview''] d)))) question_ref) (\<lambda>_.
        let page = dget d ''records_preview''; p = obj_items page; shown = int (length (list_items (dget p ''items''))) in
        pack_check (is_obj page \<and> is_list (dget p ''items'')
          \<and> py_eq (dget p ''shown_count'') (JInt shown) \<and> py_eq (dget p ''total_count'') (dget d ''record_count'')
          \<and> shown \<le> 24 \<and> py_eq (dget p ''truncated'') (JBool (shown < int_of (dget d ''record_count'')))))))"

definition evidence_page_check :: "json \<Rightarrow> jdict \<Rightarrow> str list \<Rightarrow> unit res" where
  "evidence_page_check page pack refs =
     (if page = JNull then pack_check (refs = [] \<and> py_eq (dget pack ''evidence_reference_revision'') (JInt 0))
      else let p = obj_items page; n = int (length refs); total = dget p ''total_count'' in
        bindE (pack_check (is_obj page
            \<and> keys_are p [''schema_ref'', ''total_count'', ''shown_count'', ''offset'', ''limit'', ''next_offset'', ''selection'',
                ''complete'', ''references_hash'']
            \<and> dget p ''schema_ref'' = JStr (L ''meta-research/evidence-reference-page/v1'')
            \<and> (case total of JInt i \<Rightarrow> n \<le> i | _ \<Rightarrow> False)
            \<and> py_eq (dget p ''shown_count'') (JInt n) \<and> py_eq total (dget pack ''evidence_reference_revision'')
            \<and> py_eq (dget p ''offset'') (JInt 0) \<and> py_eq (dget p ''limit'') (JInt 32) \<and> n \<le> 32)) (\<lambda>_.
        bindE (canonical_hash (jtexts (sort refs))) (\<lambda>h.
        pack_check (dget p ''references_hash'' = JStr h
            \<and> py_eq (dget p ''complete'') (JBool (n = int_of total))
            \<and> py_eq (dget p ''next_offset'') (if n < int_of total then JInt n else JNull)))))"

definition handoff_reference_check :: "json \<Rightarrow> unit res" where
  "handoff_reference_check value =
     (let item = obj_items value in
      bindE (pack_check (is_obj value
          \<and> keys_are (without [''research_notes'', ''handoff_notes''] item) [''kind'', ''cycle_ref'', ''commit_ref'', ''outcome_ref'',
              ''closure_hash'', ''receipt'', ''outcome_receipt'', ''scientific_summary'', ''exact_reader'']
          \<and> dget item ''kind'' = JStr (L ''ReasoningHandoffReference'') \<and> hash_text (dget item ''closure_hash'')
          \<and> dget item ''exact_reader'' = JStr (L ''research_memory.stage_context.read''))) (\<lambda>_.
      bindE (pack_check (\<not> has_key item (L ''research_notes'') \<or> is_list (dget item ''research_notes''))) (\<lambda>_.
      bindE (if has_key item (L ''handoff_notes'') then
               let note = dget item ''handoff_notes''; n = obj_items note in
               bindE (pack_check (is_obj note \<and> keys_are n [''text'', ''source_utf8_bytes'', ''truncated'']
                   \<and> is_str (dget n ''text'') \<and> (case dget n ''source_utf8_bytes'' of JInt _ \<Rightarrow> True | _ \<Rightarrow> False))) (\<lambda>_.
               bindE (encode_utf8 (str_of (dget n ''text''))) (\<lambda>b.
               pack_check (dget n ''source_utf8_bytes'' = JInt (int (length b)) \<and> dget n ''truncated'' = JBool False)))
             else Inr ()) (\<lambda>_.
      bindE (validate_public_receipt (dget item ''receipt'') ''advancement_engine'' (dget item ''commit_ref'')) (\<lambda>_.
      validate_public_receipt (dget item ''outcome_receipt'') ''research_graph'' (dget item ''outcome_ref''))))))"

definition creation_basis_check :: "json \<Rightarrow> unit res" where
  "creation_basis_check creation =
     (if creation = JNull then Inr ()
      else let c = obj_items creation in
        bindE (pack_check (is_obj creation \<and> keys_are c [''basis_ref'', ''basis_hash'', ''kind'']
            \<and> is_str (dget c ''basis_ref'') \<and> hash_text (dget c ''basis_hash''))) (\<lambda>_.
        bindE (in_str_set (dget c ''kind'') [''prepared'', ''literature_revised'']) pack_check))"

definition validate_context_pack_v4 :: "interp \<Rightarrow> jdict \<Rightarrow> str \<Rightarrow> jdict \<Rightarrow> str list res" where
  "validate_context_pack_v4 py pack cycle_ref question =
     bindE (pack_check (keys_are (without [''cycle_position''] pack) (idea_context_pack_v2_fields @ [''evidence_page''])
         \<or> keys_are (without [''cycle_position''] pack) (idea_context_pack_v2_fields @ [''evidence_page'', ''creation_basis'']))) (\<lambda>_.
     bindE (cycle_position_check pack cycle_ref) (\<lambda>_.
     bindE (creation_basis_check (dget pack ''creation_basis'')) (\<lambda>_.
     let legacy = dict_set (L ''prior_accepted_bindings'') (JList []) (dict_set (L ''literature_binding'') JNull
           (dict_set (L ''schema_ref'') (JStr (L IDEA_CONTEXT_PACK_SCHEMA_V2_REF))
             (without [''evidence_page'', ''creation_basis'', ''cycle_position''] pack))) in
     bindE (validate_context_pack_v123 py legacy cycle_ref question) (\<lambda>refs.
     bindE (evidence_page_check (dget pack ''evidence_page'') pack refs) (\<lambda>_.
     bindE (validate_literature_reference (dget pack ''literature_binding'') (dget question ''question_ref'')) (\<lambda>_.
     let prior = dget pack ''prior_accepted_bindings'' in
     bindE (pack_check (is_list prior \<and> length (list_items prior) \<le> 1)) (\<lambda>_.
     bindE (forE handoff_reference_check (list_items prior)) (\<lambda>_.
     Inr refs))))))))"

definition validate_idea_context_pack :: "interp \<Rightarrow> json \<Rightarrow> str \<Rightarrow> jdict \<Rightarrow> str list res" where
  "validate_idea_context_pack py value cycle_ref question =
     (case value of
        JDict pack \<Rightarrow>
          if dget pack ''schema_ref'' = JStr (L IDEA_CONTEXT_PACK_SCHEMA_V4_REF)
          then validate_context_pack_v4 py pack cycle_ref question
          else validate_context_pack_v123 py pack cycle_ref question
      | _ \<Rightarrow> pack_fail)"

definition accepted_evidence_refs :: "jdict \<Rightarrow> str list res" where
  "accepted_evidence_refs pack =
     (let value = dget_or pack ''accepted_evidence_refs'' (JList []) in
      bindE (raise_if (\<not> is_list value \<or> list_ex (\<lambda>v. \<not> nonempty_str v) (list_items value))
        (idea_error ''context_pack_evidence_bindings_invalid'')) (\<lambda>_.
      Inr (map str_of (list_items value))))"

definition idea_validation_evidence_refs :: "jdict \<Rightarrow> str list option res" where
  "idea_validation_evidence_refs pack =
     (if dget pack ''schema_ref'' = JStr (L IDEA_CONTEXT_PACK_SCHEMA_V4_REF) then Inr None
      else bindE (accepted_evidence_refs pack) (\<lambda>refs. Inr (Some refs)))"

definition evidence_reference_revision :: "jdict \<Rightarrow> int option res" where
  "evidence_reference_revision pack =
     (case dget pack ''evidence_reference_revision'' of
        JNull \<Rightarrow> Inr None
      | JInt i \<Rightarrow> if i < 0 then pack_fail else Inr (Some i)
      | _ \<Rightarrow> pack_fail)"

definition literature_binding :: "jdict \<Rightarrow> json res" where
  "literature_binding pack =
     (let v = dget pack ''literature_binding'' in
      if v = JNull then Inr JNull
      else if dget pack ''schema_ref'' = JStr (L IDEA_CONTEXT_PACK_SCHEMA_V4_REF) then
        bindE (ditem pack ''accepted_question_binding'') (\<lambda>q.
        bindE (attr_get q ''question_ref'') (\<lambda>question_ref.
        bindE (validate_literature_reference v question_ref) (\<lambda>_. Inr v)))
      else if dget pack ''schema_ref'' = JStr (L IDEA_CONTEXT_PACK_SCHEMA_V3_REF) then
        bindE (validate_question_literature_revision_binding v
            (dget (obj_items (dget pack ''accepted_question_binding'')) ''question_ref'')) (\<lambda>_. Inr v)
      else bindE (validate_literature_binding v) (\<lambda>_. Inr v))"

end
