(* ===== verification/PlanLimits.thy ===== *)
theory PlanLimits
  imports Main
begin

text \<open>
  The two constants of \<open>src/meta_research/plan_contract.py\<close> that the Bundle modules import: the
  schema of a Plan document and the length limit of the prose of a Plan.
\<close>

definition PLAN_DOCUMENT_SCHEMA_REF :: string where
  "PLAN_DOCUMENT_SCHEMA_REF = ''meta-research/plan-document/v1''"

definition PLAN_TEXT_MAX_CHARS :: nat where
  "PLAN_TEXT_MAX_CHARS = 8192"

end
