(* ===== verification/PlanContract.thy ===== *)
theory PlanContract
  imports IdeaContext PlanLimits
begin

text \<open>
  \<open>src/meta_research/plan_contract.py\<close>: the Plan's context pack and its evidence catalogue, the
  Plan document (answer contract, coverage, gaps, experiment briefs, idea trace, source bindings),
  its review, and the material hash that ignores invocation-only identities.
\<close>

abbreviation plan_error :: "string \<Rightarrow> exn" where
  "plan_error code \<equiv> PlanContractError code"

abbreviation plan_fail :: "string \<Rightarrow> 'a res" where
  "plan_fail code \<equiv> Inl (PlanContractError code)"

definition PLAN_CONTEXT_PACK_SCHEMA_REF :: string where
  "PLAN_CONTEXT_PACK_SCHEMA_REF = ''meta-research/plan-context-pack/v1''"

definition PLAN_REVIEW_SCHEMA_REF :: string where
  "PLAN_REVIEW_SCHEMA_REF = ''meta-research/plan-advisory-review/v1''"

definition EVIDENCE_REF_SCHEMA_REF :: string where
  "EVIDENCE_REF_SCHEMA_REF = ''meta-research/evidence-ref/v1''"

definition GENERIC_EVIDENCE_KINDS :: "string list" where
  "GENERIC_EVIDENCE_KINDS = [''HumanInput'', ''ScientificOutcome'', ''AssetVersion'', ''LiteratureSnapshot'']"

definition MAX_PLAN_OBLIGATIONS :: nat where
  "MAX_PLAN_OBLIGATIONS = 64"

definition MAX_PLAN_EVIDENCE_REFS :: nat where
  "MAX_PLAN_EVIDENCE_REFS = 256"

definition MAX_PLAN_EXPERIMENT_BRIEFS :: nat where
  "MAX_PLAN_EXPERIMENT_BRIEFS = 64"

definition question_trace_fields :: "string list" where
  "question_trace_fields = [''unknown_statement'', ''answer_shape'', ''applicability_scope'']"

definition idea_roles :: "string list" where
  "idea_roles = [''query_lens'', ''experiment_lens'', ''not_relevant'']"

definition coverage_dispositions :: "string list" where
  "coverage_dispositions = [''covered'', ''gap'']"

subsection \<open>Primitive checks\<close>

definition plan_object :: "json \<Rightarrow> string \<Rightarrow> jdict res" where
  "plan_object value code = (case value of JDict d \<Rightarrow> Inr d | _ \<Rightarrow> plan_fail code)"

definition exact_keys :: "jdict \<Rightarrow> string list \<Rightarrow> string \<Rightarrow> unit res" where
  "exact_keys value expected code = raise_if (\<not> keys_are value expected) (plan_error code)"

text \<open>\<open>_text\<close>: a string that is not blank, of at most \<open>PLAN_TEXT_MAX_CHARS\<close> code points.\<close>

fun is_plan_text :: "json \<Rightarrow> bool" where
  "is_plan_text (JStr s) = (\<not> is_blank s \<and> slen s \<le> PLAN_TEXT_MAX_CHARS)"
| "is_plan_text _ = False"

definition require_text :: "json \<Rightarrow> string \<Rightarrow> unit res" where
  "require_text value code = raise_if (\<not> is_plan_text value) (plan_error code)"

definition plan_sha256 :: "json \<Rightarrow> string \<Rightarrow> unit res" where
  "plan_sha256 value code = raise_if (\<not> hash_text value) (plan_error code)"

text \<open>A list of distinct texts.\<close>

definition text_set :: "json \<Rightarrow> bool" where
  "text_set value \<longleftrightarrow>
     is_list value \<and> list_all is_plan_text (list_items value) \<and> distinct (map str_of (list_items value))"

definition validate_idea_ref_list :: "json \<Rightarrow> str list \<Rightarrow> string \<Rightarrow> unit res" where
  "validate_idea_ref_list value candidate_refs code =
     raise_if (\<not> text_set value \<or> \<not> subset_list (map str_of (list_items value)) candidate_refs) (plan_error code)"

definition validate_plan_receipt :: "json \<Rightarrow> string \<Rightarrow> string option \<Rightarrow> str \<Rightarrow> string \<Rightarrow> jdict res" where
  "validate_plan_receipt value issuer kind subject_ref code =
     bindE (plan_object value code) (\<lambda>receipt.
     bindE (exact_keys receipt receipt_fields code) (\<lambda>_.
     bindE (raise_if (dget receipt ''status'' \<noteq> JStr (L ''accepted'') \<or> dget receipt ''issuer'' \<noteq> JStr (L issuer)
         \<or> (kind \<noteq> None \<and> dget receipt ''kind'' \<noteq> JStr (L (the kind)))
         \<or> dget receipt ''subject_ref'' \<noteq> JStr subject_ref
         \<or> \<not> is_plan_text (dget receipt ''kind'') \<or> \<not> is_plan_text (dget receipt ''receipt_ref'')) (plan_error code)) (\<lambda>_.
     bindE (plan_sha256 (dget receipt ''payload_hash'') code) (\<lambda>_.
     Inr receipt))))"

subsection \<open>Evidence references\<close>

definition evidence_ref_fields :: "string list" where
  "evidence_ref_fields =
     [''schema_ref'', ''evidence_ref'', ''asset_version_ref'', ''asset_ref'', ''content_hash'', ''manifest_hash'',
      ''target_commit_root_ref'', ''provenance_closure_refs'', ''capabilities'', ''eligibility_token_ref'',
      ''integrity_receipt_ref'', ''availability_receipt_ref'', ''currentness_receipt_ref'', ''asset_receipt'',
      ''role_ref'', ''role_receipt'']"

definition evidence_text_fields :: "string list" where
  "evidence_text_fields =
     [''evidence_ref'', ''asset_version_ref'', ''asset_ref'', ''target_commit_root_ref'', ''eligibility_token_ref'',
      ''integrity_receipt_ref'', ''availability_receipt_ref'', ''currentness_receipt_ref'', ''role_ref'']"

definition validate_evidence_ref :: "jdict \<Rightarrow> unit res" where
  "validate_evidence_ref evidence =
     (let code = ''plan_evidence_ref_invalid'' in
      bindE (exact_keys evidence evidence_ref_fields code) (\<lambda>_.
      bindE (raise_if (dget evidence ''schema_ref'' \<noteq> JStr (L EVIDENCE_REF_SCHEMA_REF)) (plan_error code)) (\<lambda>_.
      bindE (forE (\<lambda>field. require_text (dget evidence field) code) evidence_text_fields) (\<lambda>_.
      bindE (forE (\<lambda>field. plan_sha256 (dget evidence field) code) [''content_hash'', ''manifest_hash'']) (\<lambda>_.
      bindE (forE (\<lambda>field. raise_if (\<not> text_set (dget evidence field) \<or> list_items (dget evidence field) = []) (plan_error code))
               [''provenance_closure_refs'', ''capabilities'']) (\<lambda>_.
      bindE (validate_plan_receipt (dget evidence ''asset_receipt'') ''research_memory'' None
               (str_of (dget evidence ''asset_version_ref'')) code) (\<lambda>asset_receipt.
      bindE (validate_plan_receipt (dget evidence ''role_receipt'') ''research_graph'' (Some ''asset_role_acceptance'')
               (str_of (dget evidence ''role_ref'')) code) (\<lambda>role_receipt.
      raise_if (\<not> py_eq (dget evidence ''integrity_receipt_ref'') (dget asset_receipt ''receipt_ref'')
        \<or> \<not> py_eq (dget evidence ''availability_receipt_ref'') (dget asset_receipt ''receipt_ref'')
        \<or> \<not> py_eq (dget evidence ''eligibility_token_ref'') (dget role_receipt ''receipt_ref'')
        \<or> \<not> py_eq (dget evidence ''currentness_receipt_ref'') (dget role_receipt ''receipt_ref'')) (plan_error code)))))))))"

text \<open>The loop over the catalogue keeps the entries by reference and the asset versions seen.\<close>

definition catalog_step :: "(str \<times> jdict) list \<times> str list \<Rightarrow> json \<Rightarrow> ((str \<times> jdict) list \<times> str list) res" where
  "catalog_step = (\<lambda>(by_ref, version_refs) value.
     bindE (plan_object value ''plan_evidence_ref_invalid'') (\<lambda>evidence.
     bindE (validate_evidence_ref evidence) (\<lambda>_.
     let evidence_ref = str_of (dget evidence ''evidence_ref''); version_ref = str_of (dget evidence ''asset_version_ref'') in
     if has_key by_ref evidence_ref \<or> List.member version_refs version_ref then plan_fail ''plan_evidence_catalog_invalid''
     else Inr (by_ref @ [(evidence_ref, evidence)], version_refs @ [version_ref]))))"

definition valid_evidence_discovery_projection :: "jdict \<Rightarrow> bool res" where
  "valid_evidence_discovery_projection projection =
     (if has_key projection (L ''target_spec'') then
        (if \<not> is_obj (dget projection ''target_spec'') then Inr False
         else bindE (canonical_hash (dget projection ''target_spec'')) (\<lambda>h.
           Inr (dget projection ''target_spec_hash'' = JStr h \<and> is_obj (dget projection ''metric_result''))))
      else
        let summary = dget projection ''research_summary'' in
        Inr (hash_text (dget projection ''target_spec_hash'') \<and> is_obj summary
          \<and> dget (obj_items summary) ''schema_ref'' = JStr (L ''meta-research/evidence-discovery-summary/v1'')
          \<and> dget (obj_items summary) ''summary_only'' = JBool True))"

definition page_fields :: "string list" where
  "page_fields =
     [''total_candidates'', ''candidate_unit'', ''candidate_count'', ''scanned_count'', ''offset'', ''limit'', ''next_offset'',
      ''question_ref'', ''selection'', ''snapshot_hash'', ''projections'']"

definition page_count_fields :: "string list" where
  "page_count_fields = [''total_candidates'', ''candidate_count'', ''scanned_count'', ''offset'', ''limit'']"

text \<open>The discovery page: its counts fit the catalogue and its \<open>next_offset\<close> is the next page's start.\<close>

definition evidence_catalog_page_check :: "json \<Rightarrow> json list \<Rightarrow> json \<Rightarrow> unit res" where
  "evidence_catalog_page_check page catalog question_ref =
     (let code = ''plan_evidence_page_invalid'' in
      bindE (plan_object page code) (\<lambda>p.
      let n = (\<lambda>k. int_of (dget p k)) in
      bindE (exact_keys p page_fields code) (\<lambda>_.
      bindE (raise_if (list_ex (\<lambda>k. \<not> int_at_least 0 (dget p k)) page_count_fields
          \<or> \<not> (1 \<le> n ''limit'' \<and> n ''limit'' \<le> int MAX_PLAN_EVIDENCE_REFS)
          \<or> dget p ''candidate_unit'' \<noteq> JStr (L ''evidence_asset_role'')
          \<or> n ''candidate_count'' \<noteq> int (length catalog)
          \<or> \<not> (int (length catalog) \<le> n ''scanned_count'' \<and> n ''scanned_count'' \<le> n ''limit'')
          \<or> n ''scanned_count'' > max 0 (n ''total_candidates'' - n ''offset'')
          \<or> \<not> py_eq (dget p ''question_ref'') question_ref
          \<or> dget p ''selection'' \<noteq> JStr (L ''current_question_then_recent_active_or_shared'')) (plan_error code)) (\<lambda>_.
      bindE (canonical_hash (JList catalog)) (\<lambda>h.
      bindE (raise_if (dget p ''snapshot_hash'' \<noteq> JStr h \<or> \<not> is_list (dget p ''projections'')) (plan_error code)) (\<lambda>_.
      let next_offset = n ''offset'' + n ''scanned_count'' in
      raise_if (\<not> py_eq (dget p ''next_offset'')
          (if next_offset < n ''total_candidates'' then JInt next_offset else JNull)) (plan_error code)))))))"

definition projection_check :: "json \<times> json \<Rightarrow> unit res" where
  "projection_check = (\<lambda>(evidence_value, projection_value).
     let code = ''plan_evidence_page_invalid''; e = obj_items evidence_value; p = obj_items projection_value in
     bindE (raise_if (\<not> is_obj projection_value
         \<or> \<not> py_eq (dget p ''evidence_ref'') (dget e ''evidence_ref'')
         \<or> \<not> py_eq (dget p ''target_commit_ref'') (dget e ''target_commit_root_ref'')
         \<or> \<not> py_eq (dget p ''asset_version_ref'') (dget e ''asset_version_ref'')
         \<or> \<not> py_eq (dget p ''content_hash'') (dget e ''content_hash'')
         \<or> \<not> is_plan_text (dget p ''question_ref'') \<or> \<not> is_plan_text (dget p ''cycle_ref'')) (plan_error code)) (\<lambda>_.
     bindE (valid_evidence_discovery_projection p) (\<lambda>valid.
     raise_if (\<not> valid \<or> dget p ''exact_content_reader'' \<noteq> JStr (L ''research_memory.plan_evidence.read'')) (plan_error code))))"

definition page_projections_check :: "json \<Rightarrow> json list \<Rightarrow> unit res" where
  "page_projections_check page catalog =
     (let projections = list_items (dget (obj_items page) ''projections'') in
      if page = JNull \<or> projections = [] then Inr ()
      else if length projections \<noteq> length catalog then plan_fail ''plan_evidence_page_invalid''
      else forE projection_check (zip catalog projections))"

subsection \<open>The context pack\<close>

text \<open>The evidence that the Idea set's own candidates cite: the references their boundaries name.\<close>

definition boundary_refs :: "json \<Rightarrow> str list" where
  "boundary_refs candidate =
     map str_of (filter nonempty_str (list_items (dget (obj_items (dget (obj_items candidate) ''evidence_boundary''))
       ''accepted_evidence_refs'')))"

definition idea_set_binding_fields :: "string list" where
  "idea_set_binding_fields =
     [''outcome_ref'', ''outcome_kind'', ''content_ref'', ''payload_hash'', ''outcome_hash'', ''content_receipt'',
      ''outcome_receipt'', ''stage_commit_ref'', ''stage_commit_receipt'', ''idea_set'']"

text \<open>\<open>except (IdeaContractError, TypeError)\<close>.\<close>

fun idea_or_type_error :: "exn \<Rightarrow> bool" where
  "idea_or_type_error (IdeaContractError _) = True"
| "idea_or_type_error TypeError = True"
| "idea_or_type_error _ = False"

definition validate_idea_set_binding :: "interp \<Rightarrow> jdict \<Rightarrow> json \<Rightarrow> unit res" where
  "validate_idea_set_binding py binding question_ref =
     (let code = ''plan_idea_set_binding_invalid'' in
      bindE (exact_keys binding idea_set_binding_fields code) (\<lambda>_.
      bindE (forE (\<lambda>field. require_text (dget binding field) code) [''outcome_ref'', ''content_ref'', ''stage_commit_ref'']) (\<lambda>_.
      bindE (forE (\<lambda>field. plan_sha256 (dget binding field) code) [''payload_hash'', ''outcome_hash'']) (\<lambda>_.
      bindE (raise_if (dget binding ''outcome_kind'' \<noteq> JStr (L ''idea_set'')) (plan_error code)) (\<lambda>_.
      bindE (plan_object (dget binding ''idea_set'') code) (\<lambda>idea_set.
      let accepted_refs = concat (map boundary_refs (list_items (dget idea_set ''candidates''))) in
      bindE (rethrow idea_or_type_error (\<lambda>_. plan_error code)
          (validate_idea_outcome py (JDict idea_set) question_ref (dget idea_set ''context_pack_ref'') (Some accepted_refs))) (\<lambda>validated_hash.
      bindE (raise_if (dget binding ''outcome_hash'' \<noteq> JStr validated_hash) (plan_error code)) (\<lambda>_.
      bindE (validate_plan_receipt (dget binding ''content_receipt'') ''research_memory'' (Some ''idea_outcome_content_acceptance'')
               (str_of (dget binding ''content_ref'')) code) (\<lambda>_.
      bindE (validate_plan_receipt (dget binding ''outcome_receipt'') ''research_graph'' (Some ''idea_outcome_accepted'')
               (str_of (dget binding ''outcome_ref'')) code) (\<lambda>_.
      bindE (validate_plan_receipt (dget binding ''stage_commit_receipt'') ''advancement_engine'' (Some ''stage_commit'')
               (str_of (dget binding ''stage_commit_ref'')) code) (\<lambda>_.
      Inr ())))))))))))"

definition plan_context_pack_fields :: "string list" where
  "plan_context_pack_fields =
     [''schema_ref'', ''cycle_ref'', ''accepted_question_binding'', ''accepted_idea_set_binding'', ''evidence_catalog'',
      ''evidence_reference_revision'']"

definition validate_plan_context_pack :: "interp \<Rightarrow> jdict \<Rightarrow> str \<Rightarrow> jdict \<Rightarrow> (str \<times> jdict) list res" where
  "validate_plan_context_pack py pack cycle_ref question =
     bindE (exact_keys pack (plan_context_pack_fields
         @ (if has_key pack (L ''evidence_catalog_page'') then [''evidence_catalog_page''] else [])
         @ (if has_key pack (L ''cycle_position'') then [''cycle_position''] else [])) ''plan_context_pack_invalid'') (\<lambda>_.
     bindE (raise_if (dget pack ''schema_ref'' \<noteq> JStr (L PLAN_CONTEXT_PACK_SCHEMA_REF) \<or> dget pack ''cycle_ref'' \<noteq> JStr cycle_ref
         \<or> \<not> py_eq (dget pack ''accepted_question_binding'') (JDict question)) (plan_error ''plan_context_pack_invalid'')) (\<lambda>_.
     bindE (if has_key pack (L ''cycle_position'')
            then rethrow is_value_error (\<lambda>_. plan_error ''plan_context_pack_invalid'')
                   (validate_cycle_position (dget pack ''cycle_position'') cycle_ref)
            else Inr ()) (\<lambda>_.
     let question_ref = dget question ''question_ref'' in
     bindE (raise_if (\<not> is_plan_text question_ref) (plan_error ''plan_context_pack_invalid'')) (\<lambda>_.
     bindE (plan_object (dget pack ''accepted_idea_set_binding'') ''plan_idea_set_binding_invalid'') (\<lambda>idea_binding.
     bindE (validate_idea_set_binding py idea_binding question_ref) (\<lambda>_.
     let revision = dget pack ''evidence_reference_revision''; catalog = dget pack ''evidence_catalog''; entries = list_items catalog in
     bindE (raise_if (\<not> int_at_least 0 revision \<or> \<not> is_list catalog \<or> MAX_PLAN_EVIDENCE_REFS < length entries
         \<or> int_of revision \<noteq> int (length entries)) (plan_error ''plan_evidence_catalog_invalid'')) (\<lambda>_.
     let page = dget pack ''evidence_catalog_page'' in
     bindE (if page = JNull then Inr () else evidence_catalog_page_check page entries question_ref) (\<lambda>_.
     bindE (foldE catalog_step ([], []) entries) (\<lambda>(evidence_by_ref, version_refs).
     bindE (page_projections_check page entries) (\<lambda>_.
     Inr evidence_by_ref))))))))))"

end
