(* ===== verification/PlanDocument.thy ===== *)
theory PlanDocument
  imports PlanContract
begin

text \<open>
  \<open>src/meta_research/plan_contract.py\<close>, the Plan document: the evidence it adopts, its answer
  contract, its coverage of the obligations, its experiment briefs and its idea trace.
\<close>

subsection \<open>Adopted evidence\<close>

definition selected_evidence_source_check :: "jdict \<Rightarrow> jdict \<Rightarrow> unit res" where
  "selected_evidence_source_check entry source =
     (let code = plan_error ''plan_selected_evidence_invalid''; kind = dget entry ''source_kind'' in
      if kind = JStr (L ''TargetCommit'') then
        bindE (validate_evidence_ref source) (\<lambda>_.
        raise_if (dget source ''schema_ref'' \<noteq> JStr (L EVIDENCE_REF_SCHEMA_REF)
          \<or> \<not> py_eq (dget source ''evidence_ref'') (dget entry ''evidence_ref'')
          \<or> \<not> py_eq (dget source ''target_commit_root_ref'') (dget entry ''source_ref'')) code)
      else if kind = JStr (L ''AssetVersion'') then
        raise_if (\<not> py_eq (dget source ''version_ref'') (dget entry ''source_ref'')
          \<or> \<not> py_eq (dget entry ''evidence_ref'') (dget entry ''source_ref'')) code
      else
        bindE (in_str_set kind GENERIC_EVIDENCE_KINDS) (\<lambda>known.
        raise_if (\<not> known \<or> \<not> py_eq (dget source ''kind'') kind
          \<or> \<not> py_eq (dget source ''ref'') (dget entry ''source_ref'')
          \<or> \<not> py_eq (dget entry ''evidence_ref'') (dget entry ''source_ref'')) code))"

definition validate_selected_evidence_binding :: "jdict \<Rightarrow> unit res" where
  "validate_selected_evidence_binding entry =
     (let code = ''plan_selected_evidence_invalid'' in
      bindE (exact_keys entry [''evidence_ref'', ''source_kind'', ''source_ref'', ''source_binding'', ''reader''] code) (\<lambda>_.
      bindE (forE (\<lambda>field. require_text (dget entry field) code) [''evidence_ref'', ''source_ref'']) (\<lambda>_.
      bindE (plan_object (dget entry ''source_binding'') code) (\<lambda>source.
      bindE (selected_evidence_source_check entry source) (\<lambda>_.
      bindE (plan_object (dget entry ''reader'') code) (\<lambda>reader.
      bindE (exact_keys reader [''operation'', ''args''] code) (\<lambda>_.
      bindE (require_text (dget reader ''operation'') code) (\<lambda>_.
      raise_if (\<not> is_obj (dget reader ''args'') \<or> obj_items (dget reader ''args'') = []) (plan_error code)))))))))"

text \<open>
  The loop's state: the entries by reference, and the versions already adopted with the reference
  that adopted them.  A version is any hashable value, compared by \<open>==\<close>.
\<close>

definition version_adopted :: "(json \<times> str) list \<Rightarrow> json \<Rightarrow> str option" where
  "version_adopted versions version = map_option snd (List.find (\<lambda>p. py_eq (fst p) version) versions)"

definition selected_step ::
    "(str \<times> jdict) list \<Rightarrow> (str \<times> jdict) list \<times> (json \<times> str) list \<Rightarrow> json \<Rightarrow> ((str \<times> jdict) list \<times> (json \<times> str) list) res" where
  "selected_step frozen_by_ref = (\<lambda>(result, versions) raw.
     bindE (plan_object raw ''plan_selected_evidence_invalid'') (\<lambda>entry.
     bindE (validate_selected_evidence_binding entry) (\<lambda>_.
     let ref = str_of (dget entry ''evidence_ref''); source = dget entry ''source_binding'';
         version = dget_or (obj_items source) ''asset_version_ref'' (dget entry ''source_ref'') in
     bindE (raise_if (has_key result ref
         \<or> (case map_of frozen_by_ref ref of None \<Rightarrow> False | Some frozen \<Rightarrow> \<not> py_eq (JDict frozen) source))
       (plan_error ''plan_selected_evidence_invalid'')) (\<lambda>_.
     if unhashable version then Inl TypeError
     else case version_adopted versions version of
         Some other \<Rightarrow> if other \<noteq> ref then plan_fail ''plan_selected_evidence_invalid''
                       else Inr (result @ [(ref, entry)], versions)
       | None \<Rightarrow> Inr (result @ [(ref, entry)], versions @ [(version, ref)])))))"

definition selected_plan_evidence_catalog :: "interp \<Rightarrow> jdict \<Rightarrow> jdict list \<Rightarrow> jdict list res" where
  "selected_plan_evidence_catalog py document frozen_catalog =
     (let selected = dget (obj_items (dget document ''source_bindings'')) ''selected_evidence_bindings'' in
      bindE (raise_if (\<not> is_list selected) (plan_error ''plan_selected_evidence_invalid'')) (\<lambda>_.
      bindE (foldE (\<lambda>d item. bindE (ditem item ''evidence_ref'') (\<lambda>v. Inr (dict_set (py_str py v) item d))) [] frozen_catalog) (\<lambda>frozen_by_ref.
      bindE (foldE (selected_step frozen_by_ref) ([], []) (list_items selected)) (\<lambda>(result, versions).
      Inr (map snd result)))))"

subsection \<open>The answer contract\<close>

definition candidate_ref_step :: "str list \<Rightarrow> json \<Rightarrow> str list res" where
  "candidate_ref_step refs value =
     bindE (plan_object value ''plan_accepted_idea_set_invalid'') (\<lambda>candidate.
     let ref = dget candidate ''candidate_key'' in
     if \<not> is_plan_text ref \<or> List.member refs (str_of ref) then plan_fail ''plan_accepted_idea_set_invalid''
     else Inr (refs @ [str_of ref]))"

definition accepted_candidate_refs :: "jdict \<Rightarrow> str \<Rightarrow> str list res" where
  "accepted_candidate_refs idea_set question_ref =
     (let candidates = dget idea_set ''candidates'' in
      bindE (raise_if (dget idea_set ''kind'' \<noteq> JStr (L ''IdeaSet'') \<or> dget idea_set ''question_ref'' \<noteq> JStr question_ref
          \<or> \<not> is_list candidates \<or> list_items candidates = []) (plan_error ''plan_accepted_idea_set_invalid'')) (\<lambda>_.
      foldE candidate_ref_step [] (list_items candidates)))"

type_synonym roles = "(str \<times> str) list"

definition relevance_step :: "str list \<Rightarrow> roles \<Rightarrow> json \<Rightarrow> roles res" where
  "relevance_step candidate_refs rs item_value =
     (let code = ''plan_idea_matrix_invalid'' in
      bindE (plan_object item_value code) (\<lambda>item.
      bindE (exact_keys item [''idea_ref'', ''role'', ''rationale''] code) (\<lambda>_.
      let idea_ref = dget item ''idea_ref''; role = dget item ''role'' in
      bindE (raise_if (\<not> is_str idea_ref \<or> \<not> List.member candidate_refs (str_of idea_ref) \<or> has_key rs (str_of idea_ref))
        (plan_error code)) (\<lambda>_.
      bindE (in_str_set role idea_roles) (\<lambda>known.
      bindE (raise_if (\<not> known) (plan_error code)) (\<lambda>_.
      bindE (require_text (dget item ''rationale'') code) (\<lambda>_.
      Inr (rs @ [(str_of idea_ref, str_of role)]))))))))"

text \<open>
  \<open>len(trace) != len(set(trace)) or not set(trace) <= FIELDS\<close>: once every element is one of the
  field names the elements are strings, so a repeated one is a repeated string.
\<close>

definition question_trace_check :: "json \<Rightarrow> unit res" where
  "question_trace_check trace =
     (let code = plan_error ''answer_contract_trace_invalid'' in
      if \<not> is_list trace then Inl code
      else if list_ex unhashable (list_items trace) then Inl TypeError
      else raise_if (list_ex (\<lambda>v. \<not> is_str v) (list_items trace)
        \<or> \<not> subset_list (map str_of (list_items trace)) (map L question_trace_fields)
        \<or> \<not> distinct (map str_of (list_items trace)) \<or> list_items trace = []) code)"

definition obligation_step :: "str list \<Rightarrow> (str \<times> roles) list \<Rightarrow> json \<Rightarrow> (str \<times> roles) list res" where
  "obligation_step candidate_refs result value =
     (let code = ''answer_contract_invalid'' in
      bindE (plan_object value code) (\<lambda>obligation.
      bindE (exact_keys obligation [''obligation_key'', ''statement'', ''minimum_support'', ''question_trace'', ''idea_relevance''] code) (\<lambda>_.
      bindE (forE (\<lambda>field. require_text (dget obligation field) code) [''obligation_key'', ''statement'', ''minimum_support'']) (\<lambda>_.
      let key = str_of (dget obligation ''obligation_key'') in
      bindE (raise_if (has_key result key) (plan_error code)) (\<lambda>_.
      bindE (question_trace_check (dget obligation ''question_trace'')) (\<lambda>_.
      let relevance = dget obligation ''idea_relevance'' in
      bindE (raise_if (\<not> is_list relevance \<or> length candidate_refs < length (list_items relevance))
        (plan_error ''plan_idea_matrix_incomplete'')) (\<lambda>_.
      bindE (foldE (relevance_step candidate_refs) [] (list_items relevance)) (\<lambda>rs.
      Inr (result @ [(key, rs)])))))))))"

definition validate_answer_contract :: "jdict \<Rightarrow> str \<Rightarrow> str \<Rightarrow> str list \<Rightarrow> (str \<times> roles) list res" where
  "validate_answer_contract contract question_ref idea_set_ref candidate_refs =
     bindE (exact_keys contract [''source_question_ref'', ''source_idea_set_ref'', ''obligations'', ''answer_contract_hash'']
       ''answer_contract_invalid'') (\<lambda>_.
     bindE (raise_if (dget contract ''source_question_ref'' \<noteq> JStr question_ref
         \<or> dget contract ''source_idea_set_ref'' \<noteq> JStr idea_set_ref) (plan_error ''answer_contract_source_invalid'')) (\<lambda>_.
     bindE (canonical_hash (JDict (without [''answer_contract_hash''] contract))) (\<lambda>h.
     bindE (raise_if (dget contract ''answer_contract_hash'' \<noteq> JStr h) (plan_error ''answer_contract_hash_invalid'')) (\<lambda>_.
     let obligations = dget contract ''obligations''; n = length (list_items obligations) in
     bindE (raise_if (\<not> is_list obligations \<or> \<not> (1 \<le> n \<and> n \<le> MAX_PLAN_OBLIGATIONS)) (plan_error ''answer_contract_invalid'')) (\<lambda>_.
     foldE (obligation_step candidate_refs) [] (list_items obligations))))))"

subsection \<open>Coverage\<close>

definition validate_evidence_use :: "str \<Rightarrow> (str \<times> jdict) list \<Rightarrow> str list \<Rightarrow> json \<Rightarrow> jdict res" where
  "validate_evidence_use obligation_key evidence_by_ref candidate_refs value =
     (let code = ''plan_evidence_use_invalid'' in
      bindE (plan_object value code) (\<lambda>use.
      bindE (exact_keys use [''obligation_key'', ''evidence_ref'', ''supported_claim'', ''support_boundary'', ''contributing_idea_refs''] code) (\<lambda>_.
      bindE (raise_if (dget use ''obligation_key'' \<noteq> JStr obligation_key) (plan_error code)) (\<lambda>_.
      let evidence_ref = dget use ''evidence_ref'' in
      if unhashable evidence_ref then Inl TypeError
      else
        bindE (raise_if (\<not> is_str evidence_ref \<or> \<not> has_key evidence_by_ref (str_of evidence_ref))
          (plan_error ''plan_evidence_ref_unbound'')) (\<lambda>_.
        bindE (require_text (dget use ''supported_claim'') code) (\<lambda>_.
        bindE (require_text (dget use ''support_boundary'') code) (\<lambda>_.
        bindE (validate_idea_ref_list (dget use ''contributing_idea_refs'') candidate_refs code) (\<lambda>_.
        Inr use))))))))"

record coverage_state =
  cov_keys :: "str list"
  cov_uses :: "json list"
  cov_gaps :: "str list"

definition coverage_step ::
    "(str \<times> roles) list \<Rightarrow> (str \<times> jdict) list \<Rightarrow> str list \<Rightarrow> coverage_state \<Rightarrow> json \<Rightarrow> coverage_state res" where
  "coverage_step obligation_roles evidence_by_ref candidate_refs st value =
     (let code = ''plan_coverage_invalid'' in
      bindE (plan_object value code) (\<lambda>coverage.
      bindE (exact_keys coverage [''obligation_key'', ''disposition'', ''evidence_uses'', ''insufficiency''] code) (\<lambda>_.
      let key = str_of (dget coverage ''obligation_key''); disposition = dget coverage ''disposition'';
          evidence_uses = dget coverage ''evidence_uses''; insufficiency = dget coverage ''insufficiency'' in
      bindE (raise_if (\<not> is_plan_text (dget coverage ''obligation_key'') \<or> \<not> has_key obligation_roles key \<or> List.member (cov_keys st) key)
        (plan_error code)) (\<lambda>_.
      bindE (in_str_set disposition coverage_dispositions) (\<lambda>known.
      bindE (raise_if (\<not> known \<or> \<not> is_list evidence_uses) (plan_error code)) (\<lambda>_.
      bindE (mapE (validate_evidence_use key evidence_by_ref candidate_refs) (list_items evidence_uses)) (\<lambda>parsed_uses.
      bindE (if disposition = JStr (L ''covered'')
             then raise_if (parsed_uses = [] \<or> insufficiency \<noteq> JNull) (plan_error code)
             else require_text insufficiency code) (\<lambda>_.
      Inr \<lparr>cov_keys = cov_keys st @ [key], cov_uses = cov_uses st @ map JDict parsed_uses,
           cov_gaps = (if disposition = JStr (L ''covered'') then cov_gaps st else cov_gaps st @ [key])\<rparr>))))))))"

definition validate_coverage ::
    "json \<Rightarrow> (str \<times> roles) list \<Rightarrow> (str \<times> jdict) list \<Rightarrow> str list \<Rightarrow> coverage_state res" where
  "validate_coverage coverage_value obligation_roles evidence_by_ref candidate_refs =
     bindE (raise_if (\<not> is_list coverage_value \<or> length (list_items coverage_value) \<noteq> length obligation_roles)
       (plan_error ''plan_coverage_incomplete'')) (\<lambda>_.
     bindE (foldE (coverage_step obligation_roles evidence_by_ref candidate_refs) \<lparr>cov_keys = [], cov_uses = [], cov_gaps = []\<rparr>
              (list_items coverage_value)) (\<lambda>st.
     bindE (raise_if (\<not> same_set (cov_keys st) (keys obligation_roles)) (plan_error ''plan_coverage_incomplete'')) (\<lambda>_.
     Inr st)))"

subsection \<open>Experiment briefs and the idea trace\<close>

definition validate_experiment_brief ::
    "jdict \<Rightarrow> str list \<Rightarrow> str list \<Rightarrow> (str \<times> jdict) list \<Rightarrow> (str list \<times> str) res" where
  "validate_experiment_brief brief gap_keys candidate_refs evidence_by_ref =
     (let code = ''plan_experiment_brief_invalid'' in
      bindE (exact_keys brief ([''experiment_key'', ''gap_obligation_keys'', ''goal'', ''characteristics'', ''boundary_constraints'',
          ''semantic_delta'', ''contributing_idea_refs'']
          @ (if has_key brief (L ''reuse_material_refs'') then [''reuse_material_refs''] else [])) code) (\<lambda>_.
      bindE (forE (\<lambda>field. require_text (dget brief field) code)
          [''experiment_key'', ''goal'', ''characteristics'', ''boundary_constraints'', ''semantic_delta'']) (\<lambda>_.
      let gaps = dget brief ''gap_obligation_keys'' in
      bindE (raise_if (\<not> text_set gaps \<or> list_items gaps = [] \<or> \<not> subset_list (map str_of (list_items gaps)) gap_keys)
        (plan_error ''plan_gap_brief_closure_invalid'')) (\<lambda>_.
      bindE (validate_idea_ref_list (dget brief ''contributing_idea_refs'') candidate_refs code) (\<lambda>_.
      let reuse_refs = dget_or brief ''reuse_material_refs'' (JList []) in
      bindE (raise_if (\<not> text_set reuse_refs \<or> \<not> subset_list (map str_of (list_items reuse_refs)) (keys evidence_by_ref))
        (plan_error ''plan_reuse_material_ref_invalid'')) (\<lambda>_.
      Inr (map str_of (list_items gaps), str_of (dget brief ''experiment_key'')))))))) "

definition brief_key_step :: "str list \<Rightarrow> str list \<Rightarrow> (str \<times> jdict) list \<Rightarrow> str list \<Rightarrow> json \<Rightarrow> str list res" where
  "brief_key_step gap_keys candidate_refs evidence_by_ref experiment_keys value =
     bindE (plan_object value ''plan_experiment_brief_invalid'') (\<lambda>brief.
     bindE (validate_experiment_brief brief gap_keys candidate_refs evidence_by_ref) (\<lambda>(gaps, experiment_key).
     if List.member experiment_keys experiment_key then plan_fail ''plan_experiment_brief_invalid''
     else Inr (experiment_keys @ [experiment_key])))"

text \<open>The column of the relevance matrix that belongs to one idea.\<close>

definition idea_column :: "(str \<times> roles) list \<Rightarrow> str \<Rightarrow> roles" where
  "idea_column obligation_roles idea_ref =
     concat (map (\<lambda>(key, rs). case map_of rs idea_ref of None \<Rightarrow> [] | Some role \<Rightarrow> [(key, role)]) obligation_roles)"

definition trace_role_step :: "roles \<Rightarrow> roles \<Rightarrow> json \<Rightarrow> roles res" where
  "trace_role_step expected actual role_value =
     (let code = ''plan_idea_trace_invalid'' in
      bindE (plan_object role_value code) (\<lambda>role.
      bindE (exact_keys role [''obligation_key'', ''role''] code) (\<lambda>_.
      let key = dget role ''obligation_key''; role_name = dget role ''role'' in
      if unhashable key then Inl TypeError
      else
        bindE (raise_if (\<not> is_str key \<or> \<not> has_key expected (str_of key) \<or> has_key actual (str_of key)) (plan_error code)) (\<lambda>_.
        bindE (in_str_set role_name idea_roles) (\<lambda>known.
        bindE (raise_if (\<not> known) (plan_error code)) (\<lambda>_.
        Inr (actual @ [(str_of key, str_of role_name)])))))))"

definition trace_item_step :: "str list \<Rightarrow> (str \<times> roles) list \<Rightarrow> str list \<Rightarrow> json \<Rightarrow> str list res" where
  "trace_item_step candidate_refs obligation_roles seen item_value =
     (let code = ''plan_idea_trace_invalid'' in
      bindE (plan_object item_value code) (\<lambda>item.
      bindE (exact_keys item [''idea_ref'', ''obligation_roles''] code) (\<lambda>_.
      let idea_ref = dget item ''idea_ref''; rs = dget item ''obligation_roles'' in
      bindE (raise_if (\<not> is_str idea_ref \<or> \<not> List.member candidate_refs (str_of idea_ref)
          \<or> List.member seen (str_of idea_ref) \<or> \<not> is_list rs) (plan_error code)) (\<lambda>_.
      let expected = idea_column obligation_roles (str_of idea_ref) in
      bindE (foldE (trace_role_step expected) [] (list_items rs)) (\<lambda>actual.
      bindE (raise_if (\<not> same_set actual expected) (plan_error code)) (\<lambda>_.
      Inr (seen @ [str_of idea_ref])))))))"

definition validate_idea_trace :: "json \<Rightarrow> str list \<Rightarrow> (str \<times> roles) list \<Rightarrow> unit res" where
  "validate_idea_trace value candidate_refs obligation_roles =
     (let expected_refs = remdups (concat (map (\<lambda>p. keys (snd p)) obligation_roles)) in
      bindE (raise_if (\<not> is_list value \<or> length (list_items value) \<noteq> length expected_refs) (plan_error ''plan_idea_trace_invalid'')) (\<lambda>_.
      bindE (foldE (trace_item_step candidate_refs obligation_roles) [] (list_items value)) (\<lambda>seen.
      raise_if (\<not> same_set seen expected_refs) (plan_error ''plan_idea_trace_invalid''))))"

subsection \<open>The Plan document\<close>

definition plan_document_fields :: "string list" where
  "plan_document_fields =
     [''schema_ref'', ''kind'', ''question_ref'', ''idea_set_ref'', ''context_pack_ref'', ''answer_contract'', ''evidence_reuse_set'',
      ''coverage'', ''gap_set'', ''experiment_briefs'', ''idea_trace'', ''bundle_disposition'', ''source_bindings'']"

definition source_bindings_check :: "jdict \<Rightarrow> str \<Rightarrow> str \<Rightarrow> str \<Rightarrow> str \<Rightarrow> json \<Rightarrow> unit res" where
  "source_bindings_check document question_ref idea_set_ref context_pack_ref context_pack_hash revision =
     (let code = ''plan_document_source_invalid'' in
      bindE (plan_object (dget document ''source_bindings'') code) (\<lambda>source_bindings.
      bindE (exact_keys source_bindings [''question_ref'', ''idea_set_ref'', ''context_pack_ref'', ''context_pack_hash'',
          ''evidence_reference_revision'', ''selected_evidence_bindings''] code) (\<lambda>_.
      raise_if (\<not> py_eq (JDict (without [''selected_evidence_bindings''] source_bindings))
        (JDict [(L ''question_ref'', JStr question_ref), (L ''idea_set_ref'', JStr idea_set_ref), (L ''context_pack_ref'', JStr context_pack_ref),
           (L ''context_pack_hash'', JStr context_pack_hash), (L ''evidence_reference_revision'', revision)])) (plan_error code))))"

definition evidence_reuse_check :: "json \<Rightarrow> json list \<Rightarrow> unit res" where
  "evidence_reuse_check evidence_reuse_set flattened_uses =
     (if \<not> is_list evidence_reuse_set then plan_fail ''plan_evidence_reuse_set_invalid''
      else
        bindE (canonical_json evidence_reuse_set) (\<lambda>a.
        bindE (canonical_json (JList flattened_uses)) (\<lambda>b.
        raise_if (a \<noteq> b) (plan_error ''plan_evidence_reuse_set_invalid''))))"

definition validate_plan_document ::
    "interp \<Rightarrow> jdict \<Rightarrow> str \<Rightarrow> str \<Rightarrow> str \<Rightarrow> str \<Rightarrow> jdict \<Rightarrow> (str \<times> jdict) list \<Rightarrow> json \<Rightarrow> str res" where
  "validate_plan_document py document question_ref idea_set_ref context_pack_ref context_pack_hash accepted_idea_set
       frozen_evidence revision =
     bindE (exact_keys document (plan_document_fields @ (if has_key document (L ''notes'') then [''notes''] else []))
       ''plan_document_invalid'') (\<lambda>_.
     bindE (raise_if (has_key document (L ''notes'') \<and> \<not> is_str (dget document ''notes'')) (plan_error ''plan_notes_invalid'')) (\<lambda>_.
     bindE (raise_if (dget document ''schema_ref'' \<noteq> JStr (L PLAN_DOCUMENT_SCHEMA_REF) \<or> dget document ''kind'' \<noteq> JStr (L ''PlanDocument'')
         \<or> dget document ''question_ref'' \<noteq> JStr question_ref \<or> dget document ''idea_set_ref'' \<noteq> JStr idea_set_ref
         \<or> dget document ''context_pack_ref'' \<noteq> JStr context_pack_ref) (plan_error ''plan_document_source_invalid'')) (\<lambda>_.
     bindE (plan_sha256 (JStr context_pack_hash) ''plan_document_source_invalid'') (\<lambda>_.
     bindE (raise_if (case revision of JInt _ \<Rightarrow> False | _ \<Rightarrow> True) (plan_error ''plan_document_source_invalid'')) (\<lambda>_.
     bindE (selected_plan_evidence_catalog py document (map snd frozen_evidence)) (\<lambda>selected.
     let evidence_by_ref = map (\<lambda>item. (str_of (dget item ''evidence_ref''), item)) selected in
     bindE (accepted_candidate_refs accepted_idea_set question_ref) (\<lambda>candidate_refs.
     bindE (plan_object (dget document ''answer_contract'') ''answer_contract_invalid'') (\<lambda>contract.
     bindE (validate_answer_contract contract question_ref idea_set_ref candidate_refs) (\<lambda>obligation_roles.
     bindE (validate_coverage (dget document ''coverage'') obligation_roles evidence_by_ref candidate_refs) (\<lambda>coverage.
     bindE (evidence_reuse_check (dget document ''evidence_reuse_set'') (cov_uses coverage)) (\<lambda>_.
     let gap_set = dget document ''gap_set''; briefs = dget document ''experiment_briefs'' in
     bindE (raise_if (\<not> text_set gap_set \<or> \<not> same_set (map str_of (list_items gap_set)) (cov_gaps coverage)) (plan_error ''plan_gap_set_invalid'')) (\<lambda>_.
     bindE (raise_if (\<not> is_list briefs \<or> MAX_PLAN_EXPERIMENT_BRIEFS < length (list_items briefs)) (plan_error ''plan_experiment_brief_invalid'')) (\<lambda>_.
     bindE (foldE (brief_key_step (cov_gaps coverage) candidate_refs evidence_by_ref) [] (list_items briefs)) (\<lambda>experiment_keys.
     bindE (validate_idea_trace (dget document ''idea_trace'') candidate_refs obligation_roles) (\<lambda>_.
     bindE (raise_if (dget document ''bundle_disposition'' \<noteq>
         JStr (L (if list_items briefs = [] then ''no_new_experiment_required'' else ''experiments_required'')))
       (plan_error ''plan_bundle_disposition_invalid'')) (\<lambda>_.
     bindE (source_bindings_check document question_ref idea_set_ref context_pack_ref context_pack_hash revision) (\<lambda>_.
     canonical_hash (JDict document))))))))))))))))))"

definition validate_plan_review :: "json \<Rightarrow> str \<Rightarrow> str option \<Rightarrow> str res" where
  "validate_plan_review value final_plan_hash reviewed_draft_hash =
     (case value of
        JDict review \<Rightarrow>
          if \<not> keys_are review [''schema_ref'', ''reviewed_draft_hash'', ''final_plan_hash'']
             \<or> dget review ''schema_ref'' \<noteq> JStr (L PLAN_REVIEW_SCHEMA_REF)
             \<or> dget review ''final_plan_hash'' \<noteq> JStr final_plan_hash
             \<or> \<not> str64 (dget review ''reviewed_draft_hash'')
             \<or> (reviewed_draft_hash \<noteq> None \<and> dget review ''reviewed_draft_hash'' \<noteq> JStr (the reviewed_draft_hash))
          then plan_fail ''plan_review_binding_invalid''
          else canonical_hash value
      | _ \<Rightarrow> plan_fail ''plan_review_binding_invalid'')"

subsection \<open>Material identity\<close>

definition plan_invocation_fields :: "string list" where
  "plan_invocation_fields = [''context_pack_ref'', ''context_pack_hash'', ''evidence_reference_revision'']"

fun plan_material_value :: "interp \<Rightarrow> json \<Rightarrow> json" where
  "plan_material_value py (JDict d) =
     JDict (map (\<lambda>p. (fst p, plan_material_value py (snd p))) (filter (\<lambda>p. \<not> List.member (map L plan_invocation_fields) (fst p)) d))"
| "plan_material_value py (JList xs) = JList (map (plan_material_value py) xs)"
| "plan_material_value py (JStr s) = JStr (Str (full_casefold py (codes (normalize_ws s))))"
| "plan_material_value py v = v"

definition material_plan_hash :: "interp \<Rightarrow> jdict \<Rightarrow> str res" where
  "material_plan_hash py document = canonical_hash (plan_material_value py (JDict document))"

end
