(* ===== verification/ReasoningContract.thy ===== *)
theory ReasoningContract
  imports PlanDocument
begin

text \<open>
  \<open>src/meta_research/reasoning_contract.py\<close>, part one: the primitive checks, the binding of a
  candidate to the outcome it follows from, the two transitions a Reasoning stage may propose
  (the next cycle, or the completion of the quest), and the questions it may create.
\<close>

abbreviation rc_error :: "string \<Rightarrow> exn" where
  "rc_error code \<equiv> ReasoningContractError code"

abbreviation rc_fail :: "string \<Rightarrow> 'a res" where
  "rc_fail code \<equiv> Inl (ReasoningContractError code)"

definition SCIENTIFIC_OUTCOME_SCHEMA_REF :: string where
  "SCIENTIFIC_OUTCOME_SCHEMA_REF = ''meta-research/scientific-outcome-candidate/v1''"

definition REASONING_STAGE_OUTPUT_SCHEMA_REF :: string where
  "REASONING_STAGE_OUTPUT_SCHEMA_REF = ''meta-research/reasoning-stage-output/v1''"

definition REASONING_AUTHORITATIVE_RESEARCH_CONTEXT_SCHEMA_REF :: string where
  "REASONING_AUTHORITATIVE_RESEARCH_CONTEXT_SCHEMA_REF = ''meta-research/reasoning-research-context/v3''"

definition REASONING_AUTONOMOUS_CHECKPOINT_SCHEMA_REF :: string where
  "REASONING_AUTONOMOUS_CHECKPOINT_SCHEMA_REF = ''meta-research/reasoning-autonomous-checkpoint/v1''"

definition AUTONOMOUS_QUESTION_SCOPE_SCHEMA_REF :: string where
  "AUTONOMOUS_QUESTION_SCOPE_SCHEMA_REF = ''meta-research/autonomous-question-scope/v1''"

definition AUTONOMOUS_QUESTION_PROPOSAL_SCHEMA_REF :: string where
  "AUTONOMOUS_QUESTION_PROPOSAL_SCHEMA_REF = ''meta-research/autonomous-question-proposal/v1''"

definition NEXT_CYCLE_PROPOSAL_SCHEMA_REF :: string where
  "NEXT_CYCLE_PROPOSAL_SCHEMA_REF = ''meta-research/next-cycle-proposal/v1''"

definition CANDIDATE_COMPLETION_SCHEMA_REF :: string where
  "CANDIDATE_COMPLETION_SCHEMA_REF = ''meta-research/candidate-completion/v1''"

definition REASONING_SUCCESSOR_ENTRY_STAGES :: "string list" where
  "REASONING_SUCCESSOR_ENTRY_STAGES = [''idea'', ''plan'', ''reasoning'']"

definition SCIENTIFIC_OUTCOMES :: "string list" where
  "SCIENTIFIC_OUTCOMES = [''affirmed'', ''denied'', ''uncertain'', ''insufficient_evidence'']"

definition FORMAL_QUESTION_FIELDS :: "string list" where
  "FORMAL_QUESTION_FIELDS =
     [''title'', ''unknown_statement'', ''answer_shape'', ''applicability_scope'', ''background_context'', ''requirements_constraints'']"

definition reasoning_source_fields :: "string list" where
  "reasoning_source_fields =
     [''source_quest_ref'', ''source_cycle_ref'', ''source_reasoning_stage_run_request_ref'', ''source_scientific_outcome_ref'',
      ''source_question_ref'', ''source_foreground_epoch'']"

definition autonomous_proposal_fields :: "string list" where
  "autonomous_proposal_fields =
     [''schema_ref'', ''kind'', ''creation_mode'', ''source_quest_ref'', ''source_cycle_ref'',
      ''source_reasoning_stage_run_request_ref'', ''source_scientific_outcome_ref'', ''source_question_ref'',
      ''source_foreground_epoch'', ''question'', ''is_authoritative'']"

definition autonomous_scope_fields :: "string list" where
  "autonomous_scope_fields =
     [''schema_ref'', ''kind'', ''creation_mode'', ''mode'', ''source_quest_ref'', ''source_cycle_ref'',
      ''source_reasoning_stage_run_request_ref'', ''source_scientific_outcome_ref'', ''source_question_ref'',
      ''source_foreground_epoch'', ''question_blueprint'', ''parent_question_ref'', ''decomposition_basis_refs'', ''entry_stage'',
      ''typed_skip_basis_refs_by_stage'', ''is_authoritative'']"

definition next_cycle_proposal_fields :: "string list" where
  "next_cycle_proposal_fields = reasoning_source_fields @
     [''cycle_focus'', ''schema_ref'', ''kind'', ''target_question_ref'', ''target_question_anchor_ref'', ''entry_stage'',
      ''typed_skip_basis_refs_by_stage'', ''is_authoritative'']"

definition candidate_completion_fields :: "string list" where
  "candidate_completion_fields = reasoning_source_fields @
     [''schema_ref'', ''kind'', ''current_quest_ref'', ''current_goal_revision_ref'', ''completion_milestone_basis_refs'',
      ''rationale'', ''is_authoritative'']"

subsection \<open>Primitive checks\<close>

definition rc_exact_keys :: "jdict \<Rightarrow> string list \<Rightarrow> string \<Rightarrow> unit res" where
  "rc_exact_keys value expected code = raise_if (\<not> keys_are value expected) (rc_error code)"

definition rc_text :: "json \<Rightarrow> string \<Rightarrow> str res" where
  "rc_text value code = (case value of JStr s \<Rightarrow> if is_blank s then rc_fail code else Inr s | _ \<Rightarrow> rc_fail code)"

definition rc_text_list :: "json \<Rightarrow> string \<Rightarrow> str list res" where
  "rc_text_list value code = (case value of JList items \<Rightarrow> mapE (\<lambda>item. rc_text item code) items | _ \<Rightarrow> rc_fail code)"

definition rc_texts :: "jdict \<Rightarrow> string list \<Rightarrow> string \<Rightarrow> unit res" where
  "rc_texts value names code = forE (\<lambda>field. bindE (rc_text (dget value field) code) (\<lambda>_. Inr ())) names"

definition rc_object :: "json \<Rightarrow> string \<Rightarrow> jdict res" where
  "rc_object value code = (case value of JDict d \<Rightarrow> Inr d | _ \<Rightarrow> rc_fail code)"

definition rc_list :: "json \<Rightarrow> string \<Rightarrow> json list res" where
  "rc_list value code = (case value of JList xs \<Rightarrow> Inr xs | _ \<Rightarrow> rc_fail code)"

text \<open>\<open>v not in {...}\<close> followed by a \<open>raise\<close>.\<close>

definition rc_member :: "json \<Rightarrow> string list \<Rightarrow> string \<Rightarrow> unit res" where
  "rc_member value names code = bindE (in_str_set value names) (\<lambda>known. raise_if (\<not> known) (rc_error code))"

definition validate_new_reasoning_successor_entry :: "jdict \<Rightarrow> unit res" where
  "validate_new_reasoning_successor_entry output =
     forE (\<lambda>field. let route = dget output field in
       raise_if (is_obj route \<and> dget (obj_items route) ''entry_stage'' \<notin> JStr ` L ` set REASONING_SUCCESSOR_ENTRY_STAGES)
         (rc_error ''reasoning_next_cycle_entry_stage_forbidden''))
       [''next_cycle_proposal'', ''autonomous_scope'']"

definition completion_milestone_basis_refs :: "jdict \<Rightarrow> str list res" where
  "completion_milestone_basis_refs context_pack =
     (let code = ''reasoning_context_pack_invalid'' in
      bindE (rc_list (dget context_pack ''upstream_stage_closure'') code) (\<lambda>closure.
      bindE (raise_if (closure = []) (rc_error code)) (\<lambda>_.
      bindE (mapE (\<lambda>item. bindE (rc_object item code) (\<lambda>d. rc_text (dget d ''commit_ref'') code)) closure) (\<lambda>refs.
      bindE (raise_if (\<not> distinct refs) (rc_error code)) (\<lambda>_.
      Inr refs)))))"

subsection \<open>The outcome a candidate follows from\<close>

definition outcome_ref_fields :: "string list" where
  "outcome_ref_fields =
     [''outcome_ref'', ''stage_run_request_ref'', ''cycle_ref'', ''question_ref'', ''quest_ref'', ''goal_revision_ref'']"

definition require_source_outcome :: "jdict \<Rightarrow> unit res" where
  "require_source_outcome outcome =
     (let code = ''scientific_outcome_source_invalid'' in
      bindE (raise_if (dget outcome ''kind'' \<noteq> JStr (L ''ScientificOutcomeCandidate'')) (rc_error code)) (\<lambda>_.
      bindE (rc_member (dget outcome ''disposition'') SCIENTIFIC_OUTCOMES code) (\<lambda>_.
      bindE (rc_texts outcome outcome_ref_fields code) (\<lambda>_.
      raise_if (\<not> int_at_least 1 (dget outcome ''foreground_epoch'')) (rc_error code)))))"

text \<open>The dictionary \<open>expected\<close>: each source field and the member of the outcome it must repeat.\<close>

definition source_binding_fields :: "(string \<times> string) list" where
  "source_binding_fields =
     [(''source_quest_ref'', ''quest_ref''), (''source_cycle_ref'', ''cycle_ref''),
      (''source_reasoning_stage_run_request_ref'', ''stage_run_request_ref''),
      (''source_scientific_outcome_ref'', ''outcome_ref''), (''source_question_ref'', ''question_ref''),
      (''source_foreground_epoch'', ''foreground_epoch'')]"

definition reasoning_bindings_check :: "jdict \<Rightarrow> jdict \<Rightarrow> string \<Rightarrow> unit res" where
  "reasoning_bindings_check candidate source_outcome code =
     bindE (mapE (\<lambda>(field, member). bindE (ditem source_outcome member) (\<lambda>v. Inr (field, v))) source_binding_fields) (\<lambda>expected.
     forE (\<lambda>(field, v). raise_if (\<not> py_eq (dget candidate field) v) (rc_error code)) expected)"

definition validate_reasoning_source_bindings :: "jdict \<Rightarrow> jdict \<Rightarrow> unit res" where
  "validate_reasoning_source_bindings candidate source_outcome =
     reasoning_bindings_check candidate source_outcome ''reasoning_transition_source_binding_invalid''"

subsection \<open>The route to a successor\<close>

definition stage_order :: "string list" where
  "stage_order = [''idea'', ''plan'', ''bundle'', ''reasoning'']"

text \<open>\<open>stage_order[: stage_order.index(entry_stage)]\<close>.\<close>

definition skipped_stages :: "json \<Rightarrow> string list" where
  "skipped_stages entry_stage = takeWhile (\<lambda>stage. JStr (L stage) \<noteq> entry_stage) stage_order"

definition skip_basis_check :: "json \<Rightarrow> jdict \<Rightarrow> string \<Rightarrow> unit res" where
  "skip_basis_check entry_stage skip_basis code =
     bindE (raise_if (\<not> keys_are skip_basis (skipped_stages entry_stage)) (rc_error code)) (\<lambda>_.
     forE (\<lambda>(stage, refs). bindE (rc_text_list refs code) (\<lambda>normalized.
       raise_if (normalized = [] \<or> \<not> distinct normalized) (rc_error code))) skip_basis)"

definition validate_successor_route :: "jdict \<Rightarrow> string \<Rightarrow> string \<Rightarrow> unit res" where
  "validate_successor_route value invalid_code skip_code =
     (let entry_stage = dget value ''entry_stage''; skip_basis = dget value ''typed_skip_basis_refs_by_stage'' in
      bindE (raise_if (entry_stage \<notin> JStr ` L ` set stage_order \<or> \<not> is_obj skip_basis) (rc_error invalid_code)) (\<lambda>_.
      skip_basis_check entry_stage (obj_items skip_basis) skip_code))"

subsection \<open>The transition\<close>

definition next_cycle_check :: "jdict \<Rightarrow> unit res" where
  "next_cycle_check next_cycle =
     (let code = ''next_cycle_proposal_invalid'' in
      bindE (rc_exact_keys next_cycle next_cycle_proposal_fields code) (\<lambda>_.
      bindE (raise_if (dget next_cycle ''schema_ref'' \<noteq> JStr (L NEXT_CYCLE_PROPOSAL_SCHEMA_REF)
          \<or> dget next_cycle ''kind'' \<noteq> JStr (L ''NextCycleProposal'')
          \<or> dget next_cycle ''is_authoritative'' \<noteq> JBool False) (rc_error code)) (\<lambda>_.
      bindE (rc_text (dget next_cycle ''cycle_focus'') ''next_cycle_focus_invalid'') (\<lambda>_.
      bindE (rc_text (dget next_cycle ''target_question_ref'') code) (\<lambda>_.
      bindE (rc_text (dget next_cycle ''target_question_anchor_ref'') code) (\<lambda>_.
      validate_successor_route next_cycle code ''next_cycle_proposal_skip_basis_invalid''))))))"

definition candidate_completion_check :: "jdict \<Rightarrow> jdict \<Rightarrow> str list option \<Rightarrow> unit res" where
  "candidate_completion_check source_outcome completion expected_basis_refs =
     bindE (rc_exact_keys completion candidate_completion_fields ''candidate_completion_invalid'') (\<lambda>_.
     bindE (raise_if (dget completion ''schema_ref'' \<noteq> JStr (L CANDIDATE_COMPLETION_SCHEMA_REF)
         \<or> dget completion ''kind'' \<noteq> JStr (L ''CandidateCompletion'')
         \<or> dget completion ''is_authoritative'' \<noteq> JBool False
         \<or> \<not> py_eq (dget completion ''current_quest_ref'') (dget source_outcome ''quest_ref'')
         \<or> \<not> py_eq (dget completion ''current_goal_revision_ref'') (dget source_outcome ''goal_revision_ref''))
       (rc_error ''candidate_completion_current_binding_invalid'')) (\<lambda>_.
     bindE (rc_text (dget completion ''rationale'') ''candidate_completion_invalid'') (\<lambda>_.
     bindE (rc_text_list (dget completion ''completion_milestone_basis_refs'') ''candidate_completion_basis_invalid'') (\<lambda>basis_refs.
     raise_if (basis_refs = [] \<or> \<not> distinct basis_refs \<or> (expected_basis_refs \<noteq> None \<and> expected_basis_refs \<noteq> Some basis_refs))
       (rc_error ''candidate_completion_basis_invalid'')))))"

definition validate_reasoning_transition :: "jdict \<Rightarrow> jdict option \<Rightarrow> jdict option \<Rightarrow> str list option \<Rightarrow> str res" where
  "validate_reasoning_transition source_outcome next_cycle candidate_completion expected_basis_refs =
     bindE (require_source_outcome source_outcome) (\<lambda>_.
     case (next_cycle, candidate_completion) of
       (Some chosen, None) \<Rightarrow>
         bindE (validate_reasoning_source_bindings chosen source_outcome) (\<lambda>_.
         bindE (next_cycle_check chosen) (\<lambda>_. canonical_hash (JDict chosen)))
     | (None, Some chosen) \<Rightarrow>
         bindE (validate_reasoning_source_bindings chosen source_outcome) (\<lambda>_.
         bindE (candidate_completion_check source_outcome chosen expected_basis_refs) (\<lambda>_. canonical_hash (JDict chosen)))
     | _ \<Rightarrow> rc_fail ''reasoning_transition_xor_invalid'')"

subsection \<open>Questions\<close>

definition validate_formal_question :: "jdict \<Rightarrow> unit res" where
  "validate_formal_question question =
     (let code = ''autonomous_question_six_fields_incomplete'' in
      bindE (rc_exact_keys question FORMAL_QUESTION_FIELDS code) (\<lambda>_.
      forE (\<lambda>field.
        if field \<in> {''background_context'', ''requirements_constraints''}
        then raise_if (\<not> is_str (dget question field)) (rc_error code)
        else bindE (rc_text (dget question field) code) (\<lambda>_. Inr ())) FORMAL_QUESTION_FIELDS))"

definition validate_autonomous_question_proposal :: "jdict \<Rightarrow> jdict \<Rightarrow> str res" where
  "validate_autonomous_question_proposal proposal source_outcome =
     bindE (rc_exact_keys proposal autonomous_proposal_fields ''autonomous_question_proposal_invalid'') (\<lambda>_.
     bindE (raise_if (dget proposal ''schema_ref'' \<noteq> JStr (L AUTONOMOUS_QUESTION_PROPOSAL_SCHEMA_REF)
         \<or> dget proposal ''kind'' \<noteq> JStr (L ''QuestionProposal'')
         \<or> dget proposal ''creation_mode'' \<noteq> JStr (L ''AutonomousCreation'')
         \<or> dget proposal ''is_authoritative'' \<noteq> JBool False) (rc_error ''autonomous_question_proposal_invalid'')) (\<lambda>_.
     bindE (require_source_outcome source_outcome) (\<lambda>_.
     bindE (reasoning_bindings_check proposal source_outcome ''autonomous_question_source_binding_invalid'') (\<lambda>_.
     bindE (rc_object (dget proposal ''question'') ''autonomous_question_six_fields_incomplete'') (\<lambda>question.
     bindE (validate_formal_question question) (\<lambda>_.
     canonical_hash (JDict proposal)))))))"

definition decomposition_check :: "jdict \<Rightarrow> unit res" where
  "decomposition_check scope =
     (let code = ''autonomous_question_decomposition_invalid''; parent = dget scope ''parent_question_ref'' in
      bindE (rc_text_list (dget scope ''decomposition_basis_refs'') code) (\<lambda>basis_refs.
      if dget scope ''mode'' = JStr (L ''new'') then raise_if (parent \<noteq> JNull \<or> basis_refs \<noteq> []) (rc_error code)
      else
        bindE (rc_text parent code) (\<lambda>_.
        raise_if (basis_refs = [] \<or> \<not> distinct basis_refs) (rc_error code))))"

definition validate_autonomous_question_scope :: "jdict \<Rightarrow> jdict \<Rightarrow> str res" where
  "validate_autonomous_question_scope scope source_outcome =
     (let code = ''autonomous_question_scope_invalid'' in
      bindE (rc_exact_keys scope autonomous_scope_fields code) (\<lambda>_.
      bindE (raise_if (dget scope ''schema_ref'' \<noteq> JStr (L AUTONOMOUS_QUESTION_SCOPE_SCHEMA_REF)
          \<or> dget scope ''kind'' \<noteq> JStr (L ''AutonomousQuestionScope'')
          \<or> dget scope ''creation_mode'' \<noteq> JStr (L ''AutonomousCreation'')
          \<or> dget scope ''is_authoritative'' \<noteq> JBool False) (rc_error code)) (\<lambda>_.
      bindE (rc_member (dget scope ''mode'') [''new'', ''decompose''] code) (\<lambda>_.
      bindE (rc_member (dget scope ''entry_stage'') stage_order code) (\<lambda>_.
      bindE (validate_reasoning_source_bindings scope source_outcome) (\<lambda>_.
      bindE (rc_object (dget scope ''question_blueprint'') ''autonomous_question_six_fields_incomplete'') (\<lambda>blueprint.
      bindE (validate_formal_question blueprint) (\<lambda>_.
      bindE (decomposition_check scope) (\<lambda>_.
      bindE (rc_object (dget scope ''typed_skip_basis_refs_by_stage'') ''autonomous_question_skip_basis_invalid'') (\<lambda>skip_basis.
      bindE (skip_basis_check (dget scope ''entry_stage'') skip_basis ''autonomous_question_skip_basis_invalid'') (\<lambda>_.
      canonical_hash (JDict scope))))))))))))"

text \<open>
  The source fields are copied in the order of a set, which no reader of the proposal sees: its hash
  does not depend on the order of its keys.
\<close>

definition proposal_of_scope :: "jdict \<Rightarrow> jdict res" where
  "proposal_of_scope scope =
     bindE (mapE (\<lambda>field. bindE (ditem scope field) (\<lambda>v. Inr (L field, v))) reasoning_source_fields) (\<lambda>sources.
     Inr ([(L ''schema_ref'', JStr (L AUTONOMOUS_QUESTION_PROPOSAL_SCHEMA_REF)), (L ''kind'', JStr (L ''QuestionProposal'')),
           (L ''creation_mode'', JStr (L ''AutonomousCreation''))] @ sources
          @ [(L ''question'', JDict (obj_items (dget scope ''question_blueprint''))), (L ''is_authoritative'', JBool False)]))"

definition autonomous_question_proposal_from_scope :: "jdict \<Rightarrow> jdict \<Rightarrow> jdict res" where
  "autonomous_question_proposal_from_scope scope source_outcome =
     bindE (validate_autonomous_question_scope scope source_outcome) (\<lambda>_.
     bindE (proposal_of_scope scope) (\<lambda>proposal.
     bindE (validate_autonomous_question_proposal proposal source_outcome) (\<lambda>_.
     Inr proposal)))"

end
