(* ===== verification/ReasoningEvidence.thy ===== *)
theory ReasoningEvidence
  imports ReasoningContract
begin

text \<open>
  \<open>src/meta_research/reasoning_contract.py\<close>, part two: the leaves of an evidence closure, the
  closure of the evidence a Plan reuses and of the Targets of the current cycle, and the selection
  of evidence by an outcome.
\<close>

definition literature_evidence_bases :: "string list" where
  "literature_evidence_bases = [''title_lead'', ''citation_context'', ''abstract'', ''verified_fulltext'']"

definition scientific_findings :: "string list" where
  "scientific_findings = [''supporting'', ''negative'', ''partial'', ''context'']"

definition evidence_reuse_leaf_fields :: "string list" where
  "evidence_reuse_leaf_fields =
     [''schema_ref'', ''kind'', ''role'', ''evidence_ref'', ''evidence_item_ref'', ''source_role_ref'', ''source_variant_run_ref'',
      ''source_evaluation_attempt_ref'', ''source_subject_kind'', ''source_subject_ref'', ''target_commit_ref'',
      ''asset_version_ref'', ''evidence_catalog_entry_hash'', ''evidence_use_hashes'', ''evidence_asset_receipt'',
      ''evidence_role_receipt'', ''formal_measurement_acceptance_receipt'', ''target_commit_acceptance_receipt'']"

subsection \<open>Leaves\<close>

definition leaf_code :: string where
  "leaf_code = ''reasoning_evidence_closure_invalid''"

definition literature_leaf_check :: "jdict \<Rightarrow> unit res" where
  "literature_leaf_check value =
     bindE (rc_exact_keys value [''kind'', ''ref'', ''evidence_basis'', ''evidence_basis_ref''] leaf_code) (\<lambda>_.
     bindE (rc_member (dget value ''evidence_basis'') literature_evidence_bases leaf_code) (\<lambda>_.
     rc_texts value [''evidence_basis_ref''] leaf_code))"

definition metric_leaf_check :: "jdict \<Rightarrow> unit res" where
  "metric_leaf_check value =
     bindE (rc_exact_keys value [''kind'', ''ref'', ''source_evaluation_attempt_ref'', ''research_graph_acceptance_receipt_ref'',
        ''formal_measurement_acceptance_receipt_ref''] leaf_code) (\<lambda>_.
     rc_texts value [''source_evaluation_attempt_ref'', ''research_graph_acceptance_receipt_ref'',
        ''formal_measurement_acceptance_receipt_ref''] leaf_code)"

definition human_input_leaf_check :: "jdict \<Rightarrow> unit res" where
  "human_input_leaf_check value =
     bindE (rc_exact_keys value [''kind'', ''ref'', ''input_ref'', ''content_hash'', ''owner_acceptance_receipt_ref''] leaf_code) (\<lambda>_.
     rc_texts value [''ref'', ''input_ref'', ''content_hash'', ''owner_acceptance_receipt_ref''] leaf_code)"

definition human_response_leaf_check :: "jdict \<Rightarrow> unit res" where
  "human_response_leaf_check value =
     bindE (rc_exact_keys value [''kind'', ''ref'', ''response_ref'', ''request_ref'', ''content_hash'',
        ''owner_acceptance_receipt_ref''] leaf_code) (\<lambda>_.
     bindE (rc_texts value [''response_ref'', ''request_ref'', ''content_hash'', ''owner_acceptance_receipt_ref''] leaf_code) (\<lambda>_.
     raise_if (\<not> py_eq (dget value ''ref'') (dget value ''response_ref'')) (rc_error leaf_code)))"

definition owned_leaf_check :: "jdict \<Rightarrow> unit res" where
  "owned_leaf_check value =
     bindE (rc_exact_keys value [''kind'', ''ref'', ''source_subject_ref'', ''owner_acceptance_receipt_ref''] leaf_code) (\<lambda>_.
     rc_texts value [''source_subject_ref'', ''owner_acceptance_receipt_ref''] leaf_code)"

definition validated_closure_leaf :: "jdict \<Rightarrow> str res" where
  "validated_closure_leaf value =
     (let kind = dget value ''kind'' in
      bindE (if kind = JStr (L ''LiteratureRecord'') then literature_leaf_check value
             else if kind = JStr (L ''MetricResult'') then metric_leaf_check value
             else if kind = JStr (L ''HumanInput'') \<and> has_key value (L ''input_ref'') then human_input_leaf_check value
             else if kind = JStr (L ''HumanInput'') then human_response_leaf_check value
             else if nonempty_str kind then owned_leaf_check value
             else rc_fail leaf_code) (\<lambda>_.
      rc_text (dget value ''ref'') leaf_code))"

subsection \<open>Receipts\<close>

definition reasoning_receipt_fields :: "string list" where
  "reasoning_receipt_fields = [''status'', ''issuer'', ''kind'', ''receipt_ref'', ''subject_ref'', ''payload_hash'']"

definition reuse_code :: string where
  "reuse_code = ''reasoning_plan_evidence_closure_invalid''"

text \<open>The kind is one name, compared by \<open>==\<close>, or a set of names, where the value is hashed.\<close>

definition receipt_kind_known :: "json \<Rightarrow> string + string list \<Rightarrow> bool res" where
  "receipt_kind_known value kinds = (case kinds of Inl name \<Rightarrow> Inr (value = JStr (L name)) | Inr names \<Rightarrow> in_str_set value names)"

definition validate_reasoning_owner_receipt :: "json \<Rightarrow> string \<Rightarrow> string + string list \<Rightarrow> str \<Rightarrow> jdict res" where
  "validate_reasoning_owner_receipt value issuer kinds subject_ref =
     bindE (rc_object value reuse_code) (\<lambda>receipt.
     bindE (raise_if (\<not> keys_are receipt reasoning_receipt_fields \<or> dget receipt ''status'' \<noteq> JStr (L ''accepted'')
         \<or> dget receipt ''issuer'' \<noteq> JStr (L issuer)) (rc_error reuse_code)) (\<lambda>_.
     bindE (receipt_kind_known (dget receipt ''kind'') kinds) (\<lambda>known.
     bindE (raise_if (\<not> known \<or> dget receipt ''subject_ref'' \<noteq> JStr subject_ref
         \<or> list_ex (\<lambda>field. \<not> nonempty_str (dget receipt field)) [''issuer'', ''kind'', ''receipt_ref'', ''subject_ref'', ''payload_hash''])
         (rc_error reuse_code)) (\<lambda>_.
     Inr receipt))))"

subsection \<open>The evidence a Plan reuses\<close>

text \<open>The state of the loop over the leaves; \<open>reuse_adopted\<close> is the catalogue, once it was read.\<close>

record reuse_state =
  reuse_normalized :: "jdict list"
  reuse_evidence_refs :: "str list"
  reuse_item_refs :: "str list"
  reuse_roles :: "(str \<times> str list) list"
  reuse_adopted :: "(str \<times> jdict) list option"

definition nothing_reused :: reuse_state where
  "nothing_reused = \<lparr>reuse_normalized = [], reuse_evidence_refs = [], reuse_item_refs = [], reuse_roles = [], reuse_adopted = None\<rparr>"

definition grouped :: "'k \<Rightarrow> 'v \<Rightarrow> ('k \<times> 'v list) list \<Rightarrow> ('k \<times> 'v list) list" where
  "grouped k v d = dict_set k ((case map_of d k of None \<Rightarrow> [] | Some vs \<Rightarrow> vs) @ [v]) d"

definition use_step :: "(str \<times> json list) list \<Rightarrow> json \<Rightarrow> (str \<times> json list) list res" where
  "use_step uses value =
     bindE (rc_object value reuse_code) (\<lambda>d.
     bindE (rc_text (dget d ''evidence_ref'') reuse_code) (\<lambda>evidence_ref.
     Inr (grouped evidence_ref value uses)))"

definition uses_of :: "(str \<times> json list) list \<Rightarrow> str \<Rightarrow> json list" where
  "uses_of uses ref = (case map_of uses ref of None \<Rightarrow> [] | Some us \<Rightarrow> us)"

definition use_hashes :: "(str \<times> json list) list \<Rightarrow> str \<Rightarrow> str list res" where
  "use_hashes uses ref = mapE canonical_hash (uses_of uses ref)"

definition add_leaf :: "str \<Rightarrow> str \<Rightarrow> str \<Rightarrow> jdict \<Rightarrow> reuse_state \<Rightarrow> reuse_state" where
  "add_leaf evidence_ref item_ref role leaf st =
     st\<lparr>reuse_normalized := reuse_normalized st @ [leaf], reuse_evidence_refs := reuse_evidence_refs st @ [evidence_ref],
        reuse_item_refs := reuse_item_refs st @ [item_ref], reuse_roles := grouped evidence_ref role (reuse_roles st)\<rparr>"

fun is_plan_error :: "exn \<Rightarrow> bool" where
  "is_plan_error (PlanContractError _) = True"
| "is_plan_error _ = False"

definition adopted_catalog :: "interp \<Rightarrow> jdict \<Rightarrow> reuse_state \<Rightarrow> (str \<times> jdict) list res" where
  "adopted_catalog py plan_input st =
     (case reuse_adopted st of
        Some adopted \<Rightarrow> Inr adopted
      | None \<Rightarrow>
          bindE (rc_object (dget (obj_items (dget plan_input ''formal_plan_binding'')) ''plan_document'') reuse_code) (\<lambda>document.
          rethrow is_plan_error (\<lambda>_. rc_error reuse_code)
            (bindE (selected_plan_evidence_catalog py document []) (\<lambda>items.
             foldE (\<lambda>d item. bindE (ditem item ''evidence_ref'') (\<lambda>ref. Inr (dict_set (py_str py ref) item d))) [] items))))"

definition unreceipted_fields :: "string list" where
  "unreceipted_fields =
     [''source_role_ref'', ''source_variant_run_ref'', ''source_evaluation_attempt_ref'', ''target_commit_ref'',
      ''evidence_asset_receipt'', ''evidence_role_receipt'', ''formal_measurement_acceptance_receipt'',
      ''target_commit_acceptance_receipt'']"

text \<open>A leaf that carries its own source binding: it repeats an entry that the Plan adopted.\<close>

definition bound_leaf_check ::
  "jdict \<Rightarrow> jdict \<Rightarrow> str \<Rightarrow> str \<Rightarrow> str \<Rightarrow> (str \<times> json list) list \<Rightarrow> jdict option \<Rightarrow> unit res" where
  "bound_leaf_check value source evidence_ref role item_ref uses selected =
     bindE (raise_if (dget source ''kind'' \<noteq> JStr role \<or> dget source ''ref'' \<noteq> JStr item_ref \<or> evidence_ref \<noteq> item_ref
         \<or> dget value ''source_subject_kind'' \<noteq> JStr role
         \<or> \<not> py_eq (dget value ''source_subject_ref'') (dget_or source ''source_subject_ref'' (JStr item_ref))
         \<or> dget value ''asset_version_ref'' \<noteq> (if role = L ''AssetVersion'' then JStr item_ref else JNull)) (rc_error reuse_code)) (\<lambda>_.
     case selected of
       None \<Rightarrow> rc_fail reuse_code
     | Some entry \<Rightarrow>
         bindE (raise_if (dget entry ''source_kind'' \<noteq> JStr role \<or> dget entry ''source_ref'' \<noteq> JStr item_ref) (rc_error reuse_code)) (\<lambda>_.
         bindE (canonical_hash (JDict entry)) (\<lambda>entry_hash.
         bindE (raise_if (dget value ''evidence_catalog_entry_hash'' \<noteq> JStr entry_hash) (rc_error reuse_code)) (\<lambda>_.
         bindE (use_hashes uses evidence_ref) (\<lambda>hashes.
         raise_if (dget value ''evidence_use_hashes'' \<noteq> JList (map JStr hashes) \<or> uses_of uses evidence_ref = []
           \<or> list_ex (\<lambda>field. dget value field \<noteq> JNull) unreceipted_fields) (rc_error reuse_code))))))"

definition bound_leaf_step ::
  "interp \<Rightarrow> jdict \<Rightarrow> (str \<times> json list) list \<Rightarrow> reuse_state \<Rightarrow> jdict \<Rightarrow> str \<Rightarrow> str \<Rightarrow> str \<Rightarrow> reuse_state res" where
  "bound_leaf_step py plan_input uses st value evidence_ref role item_ref =
     bindE (rc_object (dget value ''source_binding'') reuse_code) (\<lambda>source.
     bindE (raise_if (\<not> List.member (map L GENERIC_EVIDENCE_KINDS) role) (rc_error reuse_code)) (\<lambda>_.
     bindE (validated_closure_leaf source) (\<lambda>_.
     bindE (adopted_catalog py plan_input st) (\<lambda>adopted.
     bindE (bound_leaf_check value source evidence_ref role item_ref uses (map_of adopted evidence_ref)) (\<lambda>_.
     Inr (add_leaf evidence_ref item_ref role source (st\<lparr>reuse_adopted := Some adopted\<rparr>)))))))"

definition leaf_subject_ok :: "str \<Rightarrow> json \<Rightarrow> str \<Rightarrow> str \<Rightarrow> str option \<Rightarrow> bool" where
  "leaf_subject_ok role subject_kind subject_ref variant_run_ref attempt_ref \<longleftrightarrow>
     (let of_variant = (subject_kind = JStr (L ''VariantRun'')); of_attempt = (subject_kind = JStr (L ''EvaluationAttempt'')) in
      Some subject_ref = (if of_variant then Some variant_run_ref else if of_attempt then attempt_ref else None)
      \<and> (role = L ''MetricResult'' \<longrightarrow> of_attempt)
      \<and> (role \<in> {L ''WorkProduct'', L ''CheckpointArtifact''} \<longrightarrow> of_variant)
      \<and> (role \<in> {L ''LogAsset'', L ''AnalysisAsset''} \<longrightarrow> of_variant \<or> of_attempt))"

definition metric_leaf :: "str \<Rightarrow> str \<Rightarrow> json \<Rightarrow> json \<Rightarrow> jdict" where
  "metric_leaf item_ref attempt_ref target_receipt_ref formal_receipt_ref =
     [(L ''kind'', JStr (L ''MetricResult'')), (L ''ref'', JStr item_ref), (L ''source_evaluation_attempt_ref'', JStr attempt_ref),
      (L ''research_graph_acceptance_receipt_ref'', target_receipt_ref),
      (L ''formal_measurement_acceptance_receipt_ref'', formal_receipt_ref)]"

definition owned_leaf :: "str \<Rightarrow> str \<Rightarrow> str \<Rightarrow> json \<Rightarrow> jdict" where
  "owned_leaf role item_ref subject_ref role_receipt_ref =
     [(L ''kind'', JStr role), (L ''ref'', JStr item_ref), (L ''source_subject_ref'', JStr subject_ref),
      (L ''owner_acceptance_receipt_ref'', role_receipt_ref)]"

text \<open>
  The attempt of a leaf and the reference of the receipt of its measurement: both absent on a
  \<open>WorkProduct\<close>, both required elsewhere.
\<close>

definition leaf_attempt :: "jdict \<Rightarrow> str \<Rightarrow> str option res" where
  "leaf_attempt value role =
     (let attempt = dget value ''source_evaluation_attempt_ref'' in
      if role = L ''WorkProduct'' then (if attempt \<noteq> JNull then rc_fail reuse_code else Inr None)
      else bindE (rc_text attempt reuse_code) (\<lambda>ref. Inr (Some ref)))"

definition leaf_measurement_receipt :: "jdict \<Rightarrow> str option \<Rightarrow> jdict option res" where
  "leaf_measurement_receipt value attempt_ref =
     (let receipt = dget value ''formal_measurement_acceptance_receipt'' in
      case attempt_ref of
        None \<Rightarrow> if receipt \<noteq> JNull then rc_fail reuse_code else Inr None
      | Some attempt \<Rightarrow>
          bindE (validate_reasoning_owner_receipt receipt ''research_graph'' (Inl ''formal_measurement_acceptance'') attempt) (\<lambda>d.
          Inr (Some d)))"

definition receipted_leaf_step ::
  "(str \<times> json list) list \<Rightarrow> reuse_state \<Rightarrow> jdict \<Rightarrow> str \<Rightarrow> str \<Rightarrow> str \<Rightarrow> reuse_state res" where
  "receipted_leaf_step uses st value evidence_ref role item_ref =
     bindE (rc_text (dget value ''source_role_ref'') reuse_code) (\<lambda>role_ref.
     bindE (rc_text (dget value ''source_variant_run_ref'') reuse_code) (\<lambda>variant_run_ref.
     bindE (leaf_attempt value role) (\<lambda>attempt_ref.
     bindE (rc_text (dget value ''target_commit_ref'') reuse_code) (\<lambda>target_commit_ref.
     bindE (rc_text (dget value ''asset_version_ref'') reuse_code) (\<lambda>asset_version_ref.
     bindE (rc_text (dget value ''evidence_catalog_entry_hash'') reuse_code) (\<lambda>_.
     bindE (rc_text_list (dget value ''evidence_use_hashes'') reuse_code) (\<lambda>hashes.
     bindE (use_hashes uses evidence_ref) (\<lambda>expected.
     bindE (raise_if (expected = [] \<or> hashes \<noteq> expected) (rc_error reuse_code)) (\<lambda>_.
     bindE (validate_reasoning_owner_receipt (dget value ''evidence_asset_receipt'') ''research_memory'' (Inl ''asset_acceptance'')
              asset_version_ref) (\<lambda>_.
     bindE (validate_reasoning_owner_receipt (dget value ''evidence_role_receipt'') ''research_graph''
              (Inr [''asset_role_acceptance'', ''experiment_asset_role_acceptance'']) role_ref) (\<lambda>role_receipt.
     bindE (leaf_measurement_receipt value attempt_ref) (\<lambda>formal_receipt.
     bindE (validate_reasoning_owner_receipt (dget value ''target_commit_acceptance_receipt'') ''research_graph''
              (Inr [''target_commit'', ''target_commit_accepted'']) target_commit_ref) (\<lambda>target_receipt.
     bindE (rc_text (dget value ''source_subject_ref'') reuse_code) (\<lambda>subject_ref.
     bindE (raise_if (\<not> leaf_subject_ok role (dget value ''source_subject_kind'') subject_ref variant_run_ref attempt_ref)
              (rc_error reuse_code)) (\<lambda>_.
     Inr (add_leaf evidence_ref item_ref role
       (case (attempt_ref, formal_receipt) of
          (Some attempt, Some formal) \<Rightarrow>
            if role = L ''MetricResult''
            then metric_leaf item_ref attempt (dget target_receipt ''receipt_ref'') (dget formal ''receipt_ref'')
            else owned_leaf role item_ref subject_ref (dget role_receipt ''receipt_ref'')
        | _ \<Rightarrow> owned_leaf role item_ref subject_ref (dget role_receipt ''receipt_ref'')) st))))))))))))))))"

definition reuse_leaf_step :: "interp \<Rightarrow> jdict \<Rightarrow> (str \<times> json list) list \<Rightarrow> reuse_state \<Rightarrow> json \<Rightarrow> reuse_state res" where
  "reuse_leaf_step py plan_input uses st raw =
     bindE (rc_object raw reuse_code) (\<lambda>value.
     let bound = has_key value (L ''source_binding''); role = dget value ''role'' in
     bindE (rc_exact_keys value (evidence_reuse_leaf_fields @ (if bound then [''source_binding''] else [])) reuse_code) (\<lambda>_.
     bindE (raise_if (dget value ''schema_ref'' \<noteq> JStr (L ''meta-research/evidence-reuse-leaf/v1'')
         \<or> dget value ''kind'' \<noteq> JStr (L ''EvidenceReuseLeaf'') \<or> \<not> nonempty_str role) (rc_error reuse_code)) (\<lambda>_.
     bindE (rc_text (dget value ''evidence_ref'') reuse_code) (\<lambda>evidence_ref.
     bindE (rc_text (dget value ''evidence_item_ref'') reuse_code) (\<lambda>item_ref.
     if bound then bound_leaf_step py plan_input uses st value evidence_ref (str_of role) item_ref
     else receipted_leaf_step uses st value evidence_ref (str_of role) item_ref)))))"

definition principal_kinds :: "string list" where
  "principal_kinds = [''MetricResult'', ''WorkProduct'', ''HumanInput'', ''ScientificOutcome'', ''AssetVersion'', ''LiteratureSnapshot'']"

definition principal_count :: "str list \<Rightarrow> nat" where
  "principal_count roles = sum_list (map (\<lambda>kind. count_list roles (L kind)) principal_kinds)"

definition plan_evidence_reuse_leaves :: "interp \<Rightarrow> jdict \<Rightarrow> jdict list res" where
  "plan_evidence_reuse_leaves py context_pack =
     (let code = ''reasoning_plan_evidence_binding_invalid'' in
      bindE (rc_object (dget context_pack ''plan_evidence_input'') code) (\<lambda>plan_input.
      let kind = dget plan_input ''kind'' in
      bindE (rc_member kind [''none'', ''accepted''] code) (\<lambda>_.
      if kind = JStr (L ''none'') then
        bindE (rc_exact_keys plan_input [''kind'', ''basis_stage_commit_refs''] code) (\<lambda>_. Inr [])
      else
        bindE (rc_exact_keys plan_input [''kind'', ''formal_plan_binding'', ''evidence_reuse_set'', ''evidence_reuse_closure''] code) (\<lambda>_.
        bindE (rc_object (dget plan_input ''formal_plan_binding'') code) (\<lambda>_.
        let uses = dget plan_input ''evidence_reuse_set''; leaves = dget plan_input ''evidence_reuse_closure'' in
        bindE (raise_if (\<not> is_list uses \<or> \<not> is_list leaves) (rc_error reuse_code)) (\<lambda>_.
        bindE (foldE use_step [] (list_items uses)) (\<lambda>uses_by_ref.
        bindE (foldE (reuse_leaf_step py plan_input uses_by_ref) nothing_reused (list_items leaves)) (\<lambda>st.
        bindE (raise_if (\<not> sorted (reuse_evidence_refs st) \<or> \<not> distinct (reuse_item_refs st)
            \<or> \<not> same_set (reuse_evidence_refs st) (keys uses_by_ref)
            \<or> list_ex (\<lambda>(ref, roles). principal_count roles \<noteq> 1) (reuse_roles st)) (rc_error reuse_code)) (\<lambda>_.
        Inr (reuse_normalized st))))))))))"

subsection \<open>The Targets of the current cycle\<close>

definition target_code :: string where
  "target_code = ''reasoning_target_evidence_closure_invalid''"

definition closure_target_refs :: "json list \<Rightarrow> str list" where
  "closure_target_refs closures =
     remdups (map str_of (filter is_str (map (\<lambda>v. dget (obj_items v) ''target_commit_ref'') (filter is_obj closures))))"

definition current_leaf :: "json \<Rightarrow> jdict res" where
  "current_leaf value =
     bindE (rc_object value target_code) (\<lambda>d.
     bindE (raise_if (dget d ''evidence_use_hashes'' \<noteq> JList [] \<or> \<not> is_str (dget d ''evidence_ref'')
         \<or> \<not> is_str (dget d ''target_commit_ref'')) (rc_error target_code)) (\<lambda>_.
     Inr d))"

definition evidence_use_of :: "str \<Rightarrow> json" where
  "evidence_use_of ref = JDict [(L ''evidence_ref'', JStr ref)]"

definition with_use_hash :: "(str \<times> str) list \<Rightarrow> jdict \<Rightarrow> jdict res" where
  "with_use_hash hashes leaf =
     bindE (case map_of hashes (str_of (dget leaf ''evidence_ref'')) of None \<Rightarrow> Inl KeyError | Some h \<Rightarrow> Inr h) (\<lambda>h.
     Inr (dict_set (L ''evidence_use_hashes'') (JList [JStr h]) leaf))"

fun is_reasoning_error :: "exn \<Rightarrow> bool" where
  "is_reasoning_error (ReasoningContractError _) = True"
| "is_reasoning_error _ = False"

definition current_target_pack :: "str list \<Rightarrow> jdict list \<Rightarrow> jdict" where
  "current_target_pack refs leaves =
     [(L ''plan_evidence_input'', JDict
        [(L ''kind'', JStr (L ''accepted'')),
         (L ''formal_plan_binding'', JDict [(L ''kind'', JStr (L ''current-target-closure''))]),
         (L ''evidence_reuse_set'', JList (map evidence_use_of refs)),
         (L ''evidence_reuse_closure'', JList (map JDict leaves))])]"

definition current_target_evidence_leaves :: "interp \<Rightarrow> jdict \<Rightarrow> jdict list res" where
  "current_target_evidence_leaves py context_pack =
     (let closures = dget context_pack ''accepted_target_commit_closures''; frozen = dget context_pack ''current_target_evidence_closure'' in
      bindE (raise_if (\<not> is_list closures \<or> \<not> is_list frozen) (rc_error target_code)) (\<lambda>_.
      let expected = closure_target_refs (list_items closures) in
      bindE (raise_if (length expected \<noteq> length (list_items closures)) (rc_error target_code)) (\<lambda>_.
      if list_items frozen = [] then (if expected \<noteq> [] then rc_fail target_code else Inr [])
      else
        bindE (mapE current_leaf (list_items frozen)) (\<lambda>leaves.
        bindE (raise_if (\<not> same_set (map (\<lambda>d. str_of (dget d ''target_commit_ref'')) leaves) expected) (rc_error target_code)) (\<lambda>_.
        let refs = sorted_set (map (\<lambda>d. str_of (dget d ''evidence_ref'')) leaves) in
        bindE (mapE (\<lambda>ref. bindE (canonical_hash (evidence_use_of ref)) (\<lambda>h. Inr (ref, h))) refs) (\<lambda>hashes.
        bindE (mapE (with_use_hash hashes) leaves) (\<lambda>copied.
        rethrow is_reasoning_error (\<lambda>_. rc_error target_code)
          (plan_evidence_reuse_leaves py
             (current_target_pack refs (sort_key (\<lambda>d. str_of (dget d ''evidence_ref'')) copied))))))))))"

subsection \<open>The evidence an outcome selects\<close>

definition closure_step :: "(str \<times> jdict) list \<Rightarrow> json \<Rightarrow> (str \<times> jdict) list res" where
  "closure_step closure value =
     bindE (rc_object value leaf_code) (\<lambda>leaf.
     bindE (validated_closure_leaf leaf) (\<lambda>ref.
     bindE (raise_if (has_key closure ref) (rc_error leaf_code)) (\<lambda>_.
     Inr (dict_set ref leaf closure))))"

definition citation_code :: string where
  "citation_code = ''scientific_outcome_evidence_invalid''"

text \<open>
  The resolver of citations of earlier cycles is the caller's: it answers for one reference, or
  raises.
\<close>

definition resolved_leaf :: "(str \<Rightarrow> json res) option \<Rightarrow> (str \<times> jdict) list \<Rightarrow> str \<Rightarrow> jdict option res" where
  "resolved_leaf resolver closure ref =
     (case (map_of closure ref, resolver) of
        (Some leaf, _) \<Rightarrow> Inr (Some leaf)
      | (None, None) \<Rightarrow> Inr None
      | (None, Some resolve) \<Rightarrow>
          bindE (resolve ref) (\<lambda>resolved.
          case resolved of
            JDict leaf \<Rightarrow>
              bindE (validated_closure_leaf leaf) (\<lambda>leaf_ref.
              bindE (raise_if (leaf_ref \<noteq> ref) (rc_error citation_code)) (\<lambda>_.
              Inr (Some leaf)))
          | _ \<Rightarrow> Inr None))"

definition citation_step :: "(str \<Rightarrow> json res) option \<Rightarrow> (str \<times> jdict) list \<Rightarrow> str list \<Rightarrow> json \<Rightarrow> str list res" where
  "citation_step resolver closure cited raw =
     bindE (rc_object raw citation_code) (\<lambda>value.
     bindE (rc_exact_keys value [''kind'', ''ref'', ''finding''] citation_code) (\<lambda>_.
     bindE (rc_text (dget value ''ref'') citation_code) (\<lambda>ref.
     bindE (resolved_leaf resolver closure ref) (\<lambda>found.
     case found of
       None \<Rightarrow> rc_fail citation_code
     | Some leaf \<Rightarrow>
         bindE (raise_if (\<not> py_eq (dget value ''kind'') (dget leaf ''kind'')) (rc_error citation_code)) (\<lambda>_.
         bindE (rc_member (dget value ''finding'') scientific_findings citation_code) (\<lambda>_.
         if ref \<in> set cited then rc_fail citation_code else Inr (cited @ [ref])))))))"

definition validate_scientific_evidence_selection :: "json \<Rightarrow> json list \<Rightarrow> (str \<Rightarrow> json res) option \<Rightarrow> str list res" where
  "validate_scientific_evidence_selection evidence frozen_closure resolver =
     bindE (foldE closure_step [] frozen_closure) (\<lambda>closure.
     bindE (rc_list evidence citation_code) (\<lambda>items.
     foldE (citation_step resolver closure) [] items))"

end
