(* ===== verification/ReasoningOutcome.thy ===== *)
theory ReasoningOutcome
  imports ReasoningEvidence
begin

text \<open>
  \<open>src/meta_research/reasoning_contract.py\<close>, part three, and \<open>context_history.py\<close>: the frozen
  research context, the scientific outcome that is bound to it, the assembly of the metadata that
  the system owns, and the two documents of a Reasoning run.
\<close>

definition outcome_fields :: "string list" where
  "outcome_fields =
     [''schema_ref'', ''kind'', ''outcome_ref'', ''stage_run_request_ref'', ''cycle_ref'', ''question_ref'', ''quest_ref'',
      ''goal_revision_ref'', ''foreground_epoch'', ''disposition'', ''claim'', ''evidence'', ''missing_evidence'',
      ''uncertainty_basis'', ''support_scope'', ''limitations'', ''causal_interpretation'', ''research_synthesis'',
      ''is_authoritative'']"

subsection \<open>A page of history\<close>

text \<open>\<open>len(v)\<close>.\<close>

fun py_len :: "json \<Rightarrow> int res" where
  "py_len (JList xs) = Inr (int (length xs))"
| "py_len (JDict d) = Inr (int (length d))"
| "py_len (JStr s) = Inr (int (slen s))"
| "py_len _ = Inl TypeError"

definition history_page_fields :: "string list" where
  "history_page_fields =
     [''schema_ref'', ''limit'', ''summary_only'', ''active_total'', ''active_shown'', ''active_next_offset'', ''prior_total'',
      ''prior_shown'', ''prior_next_offset'', ''parent_shown'', ''parent_has_more'', ''parent_next_question_ref'']"

definition history_error :: exn where
  "history_error = OwnerConflict ''reasoning_research_context_invalid''"

text \<open>Both counts are integers; a total below what is shown is refused, so a negative one is too.\<close>

definition history_count_check :: "jdict \<Rightarrow> jdict \<Rightarrow> string \<times> string \<Rightarrow> unit res" where
  "history_count_check binding page = (\<lambda>(key, field).
     let total = dget page (key @ ''_total''); shown = dget page (key @ ''_shown''); t = int_of total; n = int_of shown in
     bindE (raise_if (\<not> int_at_least 0 total \<or> \<not> int_at_least 0 shown \<or> \<not> n \<le> min t 12) history_error) (\<lambda>_.
     bindE (ditem binding field) (\<lambda>shown_value.
     bindE (py_len shown_value) (\<lambda>len.
     raise_if (n \<noteq> len \<or> \<not> py_eq (dget page (key @ ''_next_offset'')) (if n < t then JInt n else JNull)) history_error))))"

text \<open>The count of parents equals a length, so it is a number and the chained comparison is on that number.\<close>

definition history_parents_check :: "jdict \<Rightarrow> jdict \<Rightarrow> unit res" where
  "history_parents_check binding page =
     bindE (ditem binding ''parent_question_bindings'') (\<lambda>parents.
     bindE (py_len parents) (\<lambda>len.
     let has_more = dget page ''parent_has_more'' in
     raise_if (\<not> py_eq (dget page ''parent_shown'') (JInt len) \<or> 12 < len
       \<or> has_more \<noteq> JBool (dget page ''parent_next_question_ref'' \<noteq> JNull)) history_error))"

definition validate_history_page :: "jdict \<Rightarrow> unit res" where
  "validate_history_page binding =
     (let page_value = dget binding ''history_page''; page = obj_items page_value in
      bindE (raise_if (\<not> is_obj page_value \<or> \<not> keys_are page history_page_fields
          \<or> dget page ''schema_ref'' \<noteq> JStr (L ''meta-research/research-history-page/v1'')
          \<or> \<not> py_eq (dget page ''limit'') (JInt 12) \<or> dget page ''summary_only'' \<noteq> JBool True) history_error) (\<lambda>_.
      bindE (forE (history_count_check binding page)
               [(''active'', ''active_question_refs''), (''prior'', ''prior_current_question_outcomes'')]) (\<lambda>_.
      history_parents_check binding page)))"

subsection \<open>The frozen research context\<close>

definition context_code :: string where
  "context_code = ''reasoning_research_context_invalid''"

definition causal_ref_fields :: "string list" where
  "causal_ref_fields = [''target_commit_refs'', ''changed_axis_fact_refs'', ''held_fixed_fact_refs'', ''provenance_refs'']"

text \<open>What the outcome must repeat of its context.\<close>

record frozen_context =
  fc_parent_question_refs :: "str list"
  fc_prior_outcome_refs :: "str list"
  fc_graph_revision_ref :: json
  fc_causal_context :: "(string \<times> str list) list"

definition context_head_check :: "jdict \<Rightarrow> json \<Rightarrow> json \<Rightarrow> json \<Rightarrow> json \<Rightarrow> unit res" where
  "context_head_check context cycle_ref question_ref quest_ref goal_revision_ref =
     bindE (rc_exact_keys context [''schema_ref'', ''cycle_ref'', ''quest_ref'', ''question_ref'', ''goal_revision_ref'',
       ''quest_goal_revision'', ''graph_binding'', ''causal_context'', ''upstream_stage_commit_refs''] context_code) (\<lambda>_.
     bindE (rc_member (dget context ''schema_ref'') [''meta-research/reasoning-research-context/v2'',
       REASONING_AUTHORITATIVE_RESEARCH_CONTEXT_SCHEMA_REF] context_code) (\<lambda>_.
     raise_if (\<not> py_eq (dget context ''cycle_ref'') cycle_ref \<or> \<not> py_eq (dget context ''question_ref'') question_ref
       \<or> \<not> py_eq (dget context ''quest_ref'') quest_ref \<or> \<not> py_eq (dget context ''goal_revision_ref'') goal_revision_ref)
       (rc_error context_code)))"

definition graph_v2 :: "jdict \<Rightarrow> bool" where
  "graph_v2 graph \<longleftrightarrow> dget graph ''schema_ref'' = JStr (L ''meta-research/reasoning-graph-context/v2'')"

definition graph_head_check :: "jdict \<Rightarrow> json \<Rightarrow> json \<Rightarrow> str list res" where
  "graph_head_check graph quest_ref question_ref =
     bindE (rc_exact_keys graph ([''schema_ref'', ''issuer'', ''quest_ref'', ''question_ref'', ''graph_revision_ref'',
       ''active_question_refs'', ''parent_question_bindings'', ''prior_current_question_outcomes'', ''binding_ref'', ''binding_hash'']
       @ (if graph_v2 graph then [''history_page''] else [])) context_code) (\<lambda>_.
     bindE (rc_member (dget graph ''schema_ref'') [''meta-research/reasoning-graph-context/v1'',
       ''meta-research/reasoning-graph-context/v2''] context_code) (\<lambda>_.
     bindE (raise_if (dget graph ''issuer'' \<noteq> JStr (L ''research_graph'') \<or> \<not> py_eq (dget graph ''quest_ref'') quest_ref
       \<or> \<not> py_eq (dget graph ''question_ref'') question_ref) (rc_error context_code)) (\<lambda>_.
     bindE (rc_texts graph [''graph_revision_ref'', ''binding_ref'', ''binding_hash''] context_code) (\<lambda>_.
     bindE (rc_text_list (dget graph ''active_question_refs'') context_code) (\<lambda>active.
     bindE (raise_if (active \<noteq> sorted_set active \<or> question_ref \<notin> JStr ` set active) (rc_error context_code)) (\<lambda>_.
     Inr active))))))"

text \<open>\<open>except (OwnerConflict, KeyError, TypeError)\<close>.\<close>

fun is_history_error :: "exn \<Rightarrow> bool" where
  "is_history_error (OwnerConflict _) = True"
| "is_history_error KeyError = True"
| "is_history_error TypeError = True"
| "is_history_error _ = False"

definition causal_field :: "jdict \<Rightarrow> string \<Rightarrow> (string \<times> str list) res" where
  "causal_field causal field =
     bindE (rc_text_list (dget causal field) context_code) (\<lambda>values.
     bindE (raise_if (values \<noteq> sorted_set values) (rc_error context_code)) (\<lambda>_.
     Inr (field, values)))"

definition parent_step :: "jdict \<Rightarrow> str list \<Rightarrow> str list \<Rightarrow> json \<Rightarrow> str list res" where
  "parent_step graph active parent_refs raw =
     bindE (rc_object raw context_code) (\<lambda>parent.
     bindE (rc_exact_keys parent [''question_ref'', ''parent_question_ref'', ''question_receipt_ref''] context_code) (\<lambda>_.
     bindE (rc_text (dget parent ''question_ref'') context_code) (\<lambda>parent_ref.
     bindE (raise_if (dget parent ''parent_question_ref'' \<noteq> JNull \<and> \<not> is_str (dget parent ''parent_question_ref''))
              (rc_error context_code)) (\<lambda>_.
     bindE (rc_text (dget parent ''question_receipt_ref'') context_code) (\<lambda>_.
     bindE (raise_if (parent_ref \<in> set parent_refs
         \<or> (dget graph ''schema_ref'' = JStr (L ''meta-research/reasoning-graph-context/v1'') \<and> parent_ref \<notin> set active))
         (rc_error context_code)) (\<lambda>_.
     Inr (parent_refs @ [parent_ref])))))))"

definition prior_step :: "str list \<Rightarrow> json \<Rightarrow> str list res" where
  "prior_step prior_refs raw =
     bindE (rc_object raw context_code) (\<lambda>accepted.
     bindE (rc_exact_keys accepted [''cycle_ref'', ''request_ref'', ''outcome_ref'', ''disposition'', ''outcome_receipt_ref'']
              context_code) (\<lambda>_.
     bindE (rc_texts accepted [''cycle_ref'', ''request_ref'', ''outcome_ref'', ''outcome_receipt_ref''] context_code) (\<lambda>_.
     bindE (rc_member (dget accepted ''disposition'') SCIENTIFIC_OUTCOMES context_code) (\<lambda>_.
     let ref = str_of (dget accepted ''outcome_ref'') in
     bindE (raise_if (ref \<in> set prior_refs) (rc_error context_code)) (\<lambda>_.
     Inr (prior_refs @ [ref]))))))"

definition validate_frozen_research_context :: "jdict \<Rightarrow> json \<Rightarrow> json \<Rightarrow> json \<Rightarrow> json \<Rightarrow> frozen_context res" where
  "validate_frozen_research_context context cycle_ref question_ref quest_ref goal_revision_ref =
     bindE (context_head_check context cycle_ref question_ref quest_ref goal_revision_ref) (\<lambda>_.
     bindE (rc_object (dget context ''quest_goal_revision'') context_code) (\<lambda>goal.
     bindE (raise_if (dget goal ''kind'' \<noteq> JStr (L ''QuestGoalRevision'') \<or> \<not> py_eq (dget goal ''quest_ref'') quest_ref
       \<or> \<not> py_eq (dget goal ''goal_revision_ref'') goal_revision_ref) (rc_error context_code)) (\<lambda>_.
     bindE (rc_object (dget context ''graph_binding'') context_code) (\<lambda>graph.
     bindE (graph_head_check graph quest_ref question_ref) (\<lambda>active.
     bindE (rc_list (dget graph ''parent_question_bindings'') context_code) (\<lambda>parents.
     bindE (rc_list (dget graph ''prior_current_question_outcomes'') context_code) (\<lambda>prior.
     bindE (if graph_v2 graph then rethrow is_history_error (\<lambda>_. rc_error context_code) (validate_history_page graph) else Inr ()) (\<lambda>_.
     bindE (rc_object (dget context ''causal_context'') context_code) (\<lambda>causal.
     bindE (rc_exact_keys causal causal_ref_fields context_code) (\<lambda>_.
     bindE (mapE (causal_field causal) causal_ref_fields) (\<lambda>causal_expected.
     bindE (foldE (parent_step graph active) [] parents) (\<lambda>parent_refs.
     bindE (foldE prior_step [] prior) (\<lambda>prior_refs.
     bindE (rc_text_list (dget context ''upstream_stage_commit_refs'') context_code) (\<lambda>commits.
     bindE (raise_if (length commits \<noteq> 3 \<or> \<not> distinct commits) (rc_error context_code)) (\<lambda>_.
     Inr \<lparr>fc_parent_question_refs = parent_refs, fc_prior_outcome_refs = prior_refs,
          fc_graph_revision_ref = dget graph ''graph_revision_ref'', fc_causal_context = causal_expected\<rparr>)))))))))))))))"

subsection \<open>Scope and synthesis\<close>

definition causal_code :: string where
  "causal_code = ''scientific_outcome_causal_interpretation_invalid''"

definition synthesis_code :: string where
  "synthesis_code = ''scientific_outcome_research_synthesis_invalid''"

definition causal_list_fields :: "string list" where
  "causal_list_fields = causal_ref_fields @ [''attribution_basis_refs'', ''confounders'']"

definition causal_interpretation_check :: "jdict \<Rightarrow> str list \<Rightarrow> (string \<times> str list) list \<Rightarrow> unit res" where
  "causal_interpretation_check causal cited_refs frozen_causal =
     bindE (rc_exact_keys causal (causal_ref_fields @ [''attribution_basis_refs'', ''claim_scope'', ''statement'',
       ''sufficiency_rationale'', ''confounders'']) causal_code) (\<lambda>_.
     bindE (forE (\<lambda>field. bindE (rc_text_list (dget causal field) causal_code) (\<lambda>values.
       raise_if (\<not> distinct values) (rc_error causal_code))) causal_list_fields) (\<lambda>_.
     bindE (rc_texts causal [''claim_scope'', ''statement'', ''sufficiency_rationale''] causal_code) (\<lambda>_.
     bindE (raise_if (\<not> subset_list (map str_of (list_items (dget causal ''attribution_basis_refs''))) cited_refs)
              (rc_error causal_code)) (\<lambda>_.
     forE (\<lambda>(field, refs). raise_if (dget causal field \<noteq> JList (map JStr refs)) (rc_error causal_code)) frozen_causal))))"

definition parent_impact :: "json \<Rightarrow> str res" where
  "parent_impact raw =
     bindE (rc_object raw synthesis_code) (\<lambda>value.
     bindE (rc_exact_keys value [''question_ref'', ''impact'', ''statement''] synthesis_code) (\<lambda>_.
     bindE (rc_text (dget value ''question_ref'') synthesis_code) (\<lambda>ref.
     bindE (rc_member (dget value ''impact'') [''material'', ''no_material'', ''unknown''] synthesis_code) (\<lambda>_.
     bindE (rc_text (dget value ''statement'') synthesis_code) (\<lambda>_.
     Inr ref)))))"

definition synthesis_heads_check :: "jdict \<Rightarrow> jdict \<Rightarrow> jdict \<Rightarrow> jdict \<Rightarrow> frozen_context \<Rightarrow> unit res" where
  "synthesis_heads_check outcome cycle current quest expected =
     bindE (rc_exact_keys cycle [''cycle_ref'', ''impact''] synthesis_code) (\<lambda>_.
     bindE (rc_exact_keys current [''question_ref'', ''prior_accepted_outcome_refs'', ''progress''] synthesis_code) (\<lambda>_.
     bindE (rc_exact_keys quest [''quest_ref'', ''goal_revision_ref'', ''graph_revision_ref'', ''impact''] synthesis_code) (\<lambda>_.
     bindE (raise_if (\<not> py_eq (dget cycle ''cycle_ref'') (dget outcome ''cycle_ref'')
         \<or> \<not> py_eq (dget current ''question_ref'') (dget outcome ''question_ref'')
         \<or> \<not> py_eq (dget quest ''quest_ref'') (dget outcome ''quest_ref'')
         \<or> \<not> py_eq (dget quest ''goal_revision_ref'') (dget outcome ''goal_revision_ref'')
         \<or> \<not> py_eq (dget quest ''graph_revision_ref'') (fc_graph_revision_ref expected)) (rc_error synthesis_code)) (\<lambda>_.
     forE (\<lambda>value. bindE (rc_text value synthesis_code) (\<lambda>_. Inr ()))
       [dget cycle ''impact'', dget current ''progress'', dget quest ''impact'']))))"

definition research_synthesis_check :: "jdict \<Rightarrow> frozen_context \<Rightarrow> unit res" where
  "research_synthesis_check outcome expected =
     bindE (rc_object (dget outcome ''research_synthesis'') synthesis_code) (\<lambda>synthesis.
     bindE (rc_exact_keys synthesis [''cycle'', ''current_question'', ''parent_questions'', ''quest''] synthesis_code) (\<lambda>_.
     bindE (rc_object (dget synthesis ''cycle'') synthesis_code) (\<lambda>cycle.
     bindE (rc_object (dget synthesis ''current_question'') synthesis_code) (\<lambda>current.
     bindE (rc_object (dget synthesis ''quest'') synthesis_code) (\<lambda>quest.
     bindE (rc_list (dget synthesis ''parent_questions'') synthesis_code) (\<lambda>parents.
     bindE (synthesis_heads_check outcome cycle current quest expected) (\<lambda>_.
     bindE (rc_text_list (dget current ''prior_accepted_outcome_refs'') synthesis_code) (\<lambda>prior_refs.
     bindE (raise_if (prior_refs \<noteq> fc_prior_outcome_refs expected) (rc_error synthesis_code)) (\<lambda>_.
     bindE (mapE parent_impact parents) (\<lambda>parent_refs.
     raise_if (parent_refs \<noteq> fc_parent_question_refs expected) (rc_error synthesis_code)))))))))))"

definition validate_outcome_scope_and_synthesis :: "jdict \<Rightarrow> str list \<Rightarrow> frozen_context \<Rightarrow> unit res" where
  "validate_outcome_scope_and_synthesis outcome cited_refs expected =
     bindE (rc_text_list (dget outcome ''support_scope'') ''scientific_outcome_support_scope_invalid'') (\<lambda>support_scope.
     bindE (rc_text_list (dget outcome ''limitations'') ''scientific_outcome_limitations_invalid'') (\<lambda>limitations.
     bindE (raise_if (support_scope = [] \<or> \<not> distinct support_scope \<or> \<not> distinct limitations)
              (rc_error ''scientific_outcome_support_scope_invalid'')) (\<lambda>_.
     bindE (rc_object (dget outcome ''causal_interpretation'') causal_code) (\<lambda>causal.
     bindE (causal_interpretation_check causal cited_refs (fc_causal_context expected)) (\<lambda>_.
     research_synthesis_check outcome expected)))))"

subsection \<open>The outcome\<close>

definition outcome_head_check :: "jdict \<Rightarrow> unit res" where
  "outcome_head_check outcome =
     (let has_notes = has_key outcome (L ''notes'') in
      bindE (rc_exact_keys outcome (outcome_fields @ (if has_notes then [''notes''] else [])) ''scientific_outcome_invalid'') (\<lambda>_.
      bindE (raise_if (has_notes \<and> \<not> is_str (dget outcome ''notes'')) (rc_error ''scientific_outcome_notes_invalid'')) (\<lambda>_.
      bindE (raise_if (dget outcome ''schema_ref'' \<noteq> JStr (L SCIENTIFIC_OUTCOME_SCHEMA_REF)
          \<or> dget outcome ''kind'' \<noteq> JStr (L ''ScientificOutcomeCandidate'')
          \<or> dget outcome ''is_authoritative'' \<noteq> JBool False) (rc_error ''scientific_outcome_invalid'')) (\<lambda>_.
      bindE (rc_texts outcome outcome_ref_fields ''scientific_outcome_binding_invalid'') (\<lambda>_.
      bindE (raise_if (\<not> int_at_least 1 (dget outcome ''foreground_epoch'')) (rc_error ''scientific_outcome_binding_invalid'')) (\<lambda>_.
      rc_member (dget outcome ''disposition'') SCIENTIFIC_OUTCOMES ''scientific_outcome_disposition_invalid''))))))"

definition disposition_check :: "jdict \<Rightarrow> str list \<Rightarrow> str list \<Rightarrow> unit res" where
  "disposition_check outcome missing_evidence uncertainty_basis =
     (let disposition = dget outcome ''disposition'' in
      if disposition = JStr (L ''insufficient_evidence'') then
        raise_if (dget outcome ''claim'' \<noteq> JNull \<or> missing_evidence = []) (rc_error ''scientific_outcome_insufficient_evidence_invalid'')
      else
        bindE (rc_text (dget outcome ''claim'') ''scientific_outcome_claim_invalid'') (\<lambda>_.
        raise_if (disposition = JStr (L ''uncertain'') \<and> uncertainty_basis = []) (rc_error ''scientific_outcome_uncertainty_invalid'')))"

definition frozen_context_of :: "jdict \<Rightarrow> jdict \<Rightarrow> frozen_context res" where
  "frozen_context_of context outcome =
     validate_frozen_research_context context (dget outcome ''cycle_ref'') (dget outcome ''question_ref'') (dget outcome ''quest_ref'')
       (dget outcome ''goal_revision_ref'')"

definition validate_scientific_outcome :: "jdict \<Rightarrow> json list \<Rightarrow> jdict \<Rightarrow> (str \<Rightarrow> json res) option \<Rightarrow> str res" where
  "validate_scientific_outcome outcome frozen_closure frozen_research_context resolver =
     bindE (outcome_head_check outcome) (\<lambda>_.
     bindE (frozen_context_of frozen_research_context outcome) (\<lambda>expected.
     bindE (validate_scientific_evidence_selection (dget outcome ''evidence'') frozen_closure resolver) (\<lambda>cited_refs.
     bindE (rc_text_list (dget outcome ''missing_evidence'') ''scientific_outcome_missing_evidence_invalid'') (\<lambda>missing_evidence.
     bindE (rc_text_list (dget outcome ''uncertainty_basis'') ''scientific_outcome_uncertainty_invalid'') (\<lambda>uncertainty_basis.
     bindE (validate_outcome_scope_and_synthesis outcome cited_refs expected) (\<lambda>_.
     bindE (disposition_check outcome missing_evidence uncertainty_basis) (\<lambda>_.
     canonical_hash (JDict outcome))))))))"

subsection \<open>The metadata the system owns\<close>

text \<open>
  The assembly works on a deep copy, so it returns a new document.  The messages of its conflicts
  end with the values in conflict; the model keeps what names the conflict.
\<close>

definition metadata_conflict :: "string \<Rightarrow> exn" where
  "metadata_conflict path = rc_error (''scientific_outcome_authoritative_metadata_conflict:'' @ path)"

definition validate_supplied_authoritative_refs :: "json \<Rightarrow> str list \<Rightarrow> string \<Rightarrow> unit res" where
  "validate_supplied_authoritative_refs value frozen_refs path =
     bindE (rc_text_list value (''scientific_outcome_authoritative_metadata_conflict:'' @ path)) (\<lambda>supplied.
     raise_if (list_ex (\<lambda>ref. ref \<notin> set frozen_refs \<or> 1 < count_list supplied ref) supplied) (metadata_conflict path))"

definition identity_check :: "jdict \<Rightarrow> jdict \<Rightarrow> unit res" where
  "identity_check outcome context =
     forE (\<lambda>field. raise_if (\<not> py_eq (dget outcome field) (dget context field)) (metadata_conflict (''scientific_outcome.'' @ field)))
       [''cycle_ref'', ''question_ref'', ''quest_ref'', ''goal_revision_ref'']"

definition assemble_refs :: "string \<Rightarrow> jdict \<Rightarrow> string \<times> str list \<Rightarrow> jdict res" where
  "assemble_refs path value = (\<lambda>(field, refs).
     bindE (if has_key value (L field) then validate_supplied_authoritative_refs (dget value field) refs (path @ field) else Inr ()) (\<lambda>_.
     Inr (dict_set (L field) (JList (map JStr refs)) value)))"

definition impact_step :: "str list \<Rightarrow> (str \<times> json) list \<Rightarrow> json \<Rightarrow> (str \<times> json) list res" where
  "impact_step parent_refs by_ref parent =
     bindE (rc_object parent synthesis_code) (\<lambda>d.
     bindE (rc_text (dget d ''question_ref'') synthesis_code) (\<lambda>ref.
     if ref \<notin> set parent_refs \<or> has_key by_ref ref then Inl (metadata_conflict ''research_synthesis.parent_questions.question_ref'')
     else Inr (dict_set ref parent by_ref)))"

definition assemble_parents :: "json \<Rightarrow> str list \<Rightarrow> json res" where
  "assemble_parents parents parent_refs =
     bindE (rc_list parents synthesis_code) (\<lambda>items.
     bindE (foldE (impact_step parent_refs) [] items) (\<lambda>by_ref.
     bindE (raise_if (\<not> same_set (keys by_ref) parent_refs)
              (rc_error (synthesis_code @ '':research_synthesis.parent_questions:missing_impact_for''))) (\<lambda>_.
     bindE (mapE (\<lambda>ref. case map_of by_ref ref of None \<Rightarrow> Inl KeyError | Some parent \<Rightarrow> Inr parent) parent_refs) (\<lambda>ordered.
     Inr (JList ordered)))))"

definition assemble_synthesis :: "json \<Rightarrow> frozen_context \<Rightarrow> jdict res" where
  "assemble_synthesis value expected =
     bindE (rc_object value synthesis_code) (\<lambda>synthesis.
     bindE (rc_object (dget synthesis ''current_question'') synthesis_code) (\<lambda>current.
     bindE (assemble_refs ''research_synthesis.current_question.'' current (''prior_accepted_outcome_refs'', fc_prior_outcome_refs expected)) (\<lambda>current'.
     bindE (assemble_parents (dget synthesis ''parent_questions'') (fc_parent_question_refs expected)) (\<lambda>parents.
     Inr (dict_set (L ''parent_questions'') parents (dict_set (L ''current_question'') (JDict current') synthesis))))))"

definition assemble_reasoning_authoritative_metadata :: "jdict \<Rightarrow> jdict \<Rightarrow> jdict res" where
  "assemble_reasoning_authoritative_metadata output context =
     (if dget context ''schema_ref'' \<noteq> JStr (L REASONING_AUTHORITATIVE_RESEARCH_CONTEXT_SCHEMA_REF) then Inr output
      else
        bindE (rc_object (dget output ''scientific_outcome'') ''reasoning_stage_output_invalid'') (\<lambda>outcome.
        bindE (identity_check outcome context) (\<lambda>_.
        bindE (frozen_context_of context outcome) (\<lambda>expected.
        bindE (rc_object (dget outcome ''causal_interpretation'') causal_code) (\<lambda>causal.
        bindE (foldE (assemble_refs ''causal_interpretation.'') causal (fc_causal_context expected)) (\<lambda>causal'.
        bindE (assemble_synthesis (dget outcome ''research_synthesis'') expected) (\<lambda>synthesis.
        Inr (dict_set (L ''scientific_outcome'')
               (JDict (dict_set (L ''research_synthesis'') (JDict synthesis)
                 (dict_set (L ''causal_interpretation'') (JDict causal') outcome))) output))))))))"

subsection \<open>The documents of a run\<close>

fun optional_object :: "json \<Rightarrow> string \<Rightarrow> jdict option res" where
  "optional_object JNull code = Inr None"
| "optional_object (JDict d) code = Inr (Some d)"
| "optional_object _ code = rc_fail code"

definition validate_reasoning_stage_output ::
  "jdict \<Rightarrow> json list \<Rightarrow> jdict \<Rightarrow> str list option \<Rightarrow> (str \<Rightarrow> json res) option \<Rightarrow> (str \<times> str \<times> str) res" where
  "validate_reasoning_stage_output output frozen_closure frozen_research_context expected_basis_refs resolver =
     (let code = ''reasoning_stage_output_invalid'' in
      bindE (rc_exact_keys output [''schema_ref'', ''scientific_outcome'', ''next_cycle_proposal'', ''candidate_completion''] code) (\<lambda>_.
      bindE (raise_if (dget output ''schema_ref'' \<noteq> JStr (L REASONING_STAGE_OUTPUT_SCHEMA_REF)) (rc_error code)) (\<lambda>_.
      bindE (rc_object (dget output ''scientific_outcome'') code) (\<lambda>outcome.
      bindE (optional_object (dget output ''next_cycle_proposal'') code) (\<lambda>next_cycle.
      bindE (optional_object (dget output ''candidate_completion'') code) (\<lambda>completion.
      bindE (validate_scientific_outcome outcome frozen_closure frozen_research_context resolver) (\<lambda>outcome_hash.
      bindE (validate_reasoning_transition outcome next_cycle completion expected_basis_refs) (\<lambda>transition_hash.
      bindE (canonical_hash (JDict output)) (\<lambda>output_hash.
      Inr (output_hash, outcome_hash, transition_hash))))))))))"

definition validate_reasoning_autonomous_checkpoint ::
  "jdict \<Rightarrow> json list \<Rightarrow> jdict \<Rightarrow> (str \<Rightarrow> json res) option \<Rightarrow> (str \<times> str \<times> str) res" where
  "validate_reasoning_autonomous_checkpoint checkpoint frozen_closure frozen_research_context resolver =
     (let code = ''reasoning_autonomous_checkpoint_invalid'' in
      bindE (rc_exact_keys checkpoint [''schema_ref'', ''scientific_outcome'', ''autonomous_scope''] code) (\<lambda>_.
      bindE (raise_if (dget checkpoint ''schema_ref'' \<noteq> JStr (L REASONING_AUTONOMOUS_CHECKPOINT_SCHEMA_REF)) (rc_error code)) (\<lambda>_.
      bindE (rc_object (dget checkpoint ''scientific_outcome'') code) (\<lambda>outcome.
      bindE (rc_object (dget checkpoint ''autonomous_scope'') code) (\<lambda>scope.
      bindE (validate_scientific_outcome outcome frozen_closure frozen_research_context resolver) (\<lambda>outcome_hash.
      bindE (validate_autonomous_question_scope scope outcome) (\<lambda>scope_hash.
      bindE (canonical_hash (JDict checkpoint)) (\<lambda>checkpoint_hash.
      Inr (checkpoint_hash, outcome_hash, scope_hash)))))))))"

end
