(* ===== verification/ReasoningLaws.thy ===== *)
theory ReasoningLaws
  imports ReasoningOutcome
begin

text \<open>
  What the Reasoning contract promises: an accepted outcome cites authorised evidence only and
  repeats its frozen context; a stage proposes exactly one transition, bound to its outcome.
\<close>

subsection \<open>Inversion of the primitive checks\<close>

lemma rc_text_Inr [simp]: "rc_text v c = Inr s \<longleftrightarrow> v = JStr s \<and> \<not> is_blank s"
  by (cases v) (auto simp: rc_text_def)

lemma rc_text_list_Inr [simp]: "rc_text_list v c = Inr ss \<longleftrightarrow> v = JList (map JStr ss) \<and> (\<forall>s\<in>set ss. \<not> is_blank s)"
proof (cases v)
  case (JList items)
  have "mapE (\<lambda>item. rc_text item c) items = Inr ss \<longleftrightarrow> items = map JStr ss \<and> (\<forall>s\<in>set ss. \<not> is_blank s)"
    by (induction items arbitrary: ss) (auto simp: Cons_eq_map_conv)
  then show ?thesis by (simp add: rc_text_list_def JList)
qed (simp_all add: rc_text_list_def)

lemma rc_object_Inr [simp]: "rc_object v c = Inr d \<longleftrightarrow> v = JDict d"
  by (cases v) (auto simp: rc_object_def)

lemma rc_list_Inr [simp]: "rc_list v c = Inr xs \<longleftrightarrow> v = JList xs"
  by (cases v) (auto simp: rc_list_def)

lemma rc_exact_keys_Inr [simp]: "rc_exact_keys d ks c = Inr u \<longleftrightarrow> keys_are d ks"
  by (simp add: rc_exact_keys_def)

lemma rc_member_Inr [simp]: "rc_member v names c = Inr u \<longleftrightarrow> (\<exists>k\<in>set names. v = JStr (L k))"
  by (simp add: rc_member_def) (metis (full_types) in_str_set_True)

lemma rc_texts_Inr [simp]: "rc_texts d names c = Inr u \<longleftrightarrow> (\<forall>field\<in>set names. \<exists>s. dget d field = JStr s \<and> \<not> is_blank s)"
  by (simp add: rc_texts_def)

subsection \<open>Evidence\<close>

text \<open>The leaf a citation stands for: the frozen one, or else what the resolver finds.\<close>

definition frozen_leaf :: "json list \<Rightarrow> str \<Rightarrow> jdict \<Rightarrow> bool" where
  "frozen_leaf closure ref leaf \<longleftrightarrow> JDict leaf \<in> set closure \<and> validated_closure_leaf leaf = Inr ref"

definition authorized_leaf :: "json list \<Rightarrow> (str \<Rightarrow> json res) option \<Rightarrow> str \<Rightarrow> jdict \<Rightarrow> bool" where
  "authorized_leaf closure resolver ref leaf \<longleftrightarrow>
     frozen_leaf closure ref leaf
     \<or> (\<forall>leaf'. \<not> frozen_leaf closure ref leaf') \<and> validated_closure_leaf leaf = Inr ref
        \<and> (\<exists>resolve. resolver = Some resolve \<and> resolve ref = Inr (JDict leaf))"

definition cites :: "json list \<Rightarrow> (str \<Rightarrow> json res) option \<Rightarrow> json \<Rightarrow> str \<Rightarrow> bool" where
  "cites closure resolver item ref \<longleftrightarrow>
     (\<exists>value leaf. item = JDict value \<and> dget value ''ref'' = JStr ref \<and> authorized_leaf closure resolver ref leaf
        \<and> py_eq (dget value ''kind'') (dget leaf ''kind'') \<and> dget value ''finding'' \<in> JStr ` L ` set scientific_findings)"

lemma closure_table:
  assumes "foldE closure_step [] closure = Inr d"
  shows "map_of d ref = Some leaf \<longleftrightarrow> frozen_leaf closure ref leaf"
proof -
  have "\<forall>ref leaf. map_of d ref = Some leaf \<longleftrightarrow> frozen_leaf closure ref leaf"
  proof (rule foldE_prefix_rule [OF assms])
    show "\<forall>ref leaf. map_of [] ref = Some leaf \<longleftrightarrow> frozen_leaf [] ref leaf" by (simp add: frozen_leaf_def)
  next
    fix dn x rest s s'
    assume IH: "\<forall>ref leaf. map_of s ref = Some leaf \<longleftrightarrow> frozen_leaf dn ref leaf" and step: "closure_step s x = Inr s'"
    then obtain leaf' ref' where new: "x = JDict leaf'" "validated_closure_leaf leaf' = Inr ref'" "\<not> has_key s ref'" "s' = dict_set ref' leaf' s"
      by (auto simp: closure_step_def)
    then have "\<not> frozen_leaf dn ref' leaf" for leaf using IH by (auto simp: has_key_def)
    then show "\<forall>ref leaf. map_of s' ref = Some leaf \<longleftrightarrow> frozen_leaf (dn @ [x]) ref leaf"
      using IH new by (auto simp: frozen_leaf_def)
  qed
  then show ?thesis by blast
qed

lemma resolved_leaf_Inr:
  assumes "foldE closure_step [] closure = Inr d" and "resolved_leaf resolver d ref = Inr (Some leaf)"
  shows "authorized_leaf closure resolver ref leaf"
proof (cases "map_of d ref")
  case (Some found)
  then show ?thesis
    using assms(2) closure_table [OF assms(1), of ref leaf] by (simp add: resolved_leaf_def authorized_leaf_def)
next
  case None
  then have "\<not> frozen_leaf closure ref leaf'" for leaf' using closure_table [OF assms(1), of ref leaf'] by simp
  then show ?thesis
    using assms(2) None
    by (auto simp: resolved_leaf_def authorized_leaf_def split: option.splits) (auto elim: json.exhaust split: json.splits)
qed

lemma evidence_selected:
  assumes "validate_scientific_evidence_selection evidence closure resolver = Inr cited"
  shows "distinct cited \<and> (\<exists>items. evidence = JList items \<and> list_all2 (cites closure resolver) items cited)"
proof -
  obtain d items where d: "foldE closure_step [] closure = Inr d" and items: "evidence = JList items"
    and loop: "foldE (citation_step resolver d) [] items = Inr cited"
    using assms by (auto simp: validate_scientific_evidence_selection_def)
  have "distinct cited \<and> list_all2 (cites closure resolver) items cited"
  proof (rule foldE_prefix_rule [OF loop])
    fix dn x rest s s'
    assume IH: "distinct s \<and> list_all2 (cites closure resolver) dn s" and step: "citation_step resolver d s x = Inr s'"
    then obtain v ref leaf where new: "x = JDict v" "dget v ''ref'' = JStr ref" "resolved_leaf resolver d ref = Inr (Some leaf)"
      "py_eq (dget v ''kind'') (dget leaf ''kind'')" "dget v ''finding'' \<in> JStr ` L ` set scientific_findings"
      "ref \<notin> set s" "s' = s @ [ref]"
      by (auto simp: citation_step_def split: option.splits if_splits)
    then have "cites closure resolver x ref" using resolved_leaf_Inr [OF d] unfolding cites_def by blast
    then show "distinct s' \<and> list_all2 (cites closure resolver) (dn @ [x]) s'" using IH new by (simp add: list_all2_appendI)
  qed simp
  then show ?thesis using items by blast
qed

subsection \<open>The outcome and its context\<close>

definition texts_of :: "str list \<Rightarrow> json" where
  "texts_of refs = JList (map JStr refs)"

text \<open>The outcome says of its context exactly what the context says.\<close>

definition repeats_context :: "jdict \<Rightarrow> frozen_context \<Rightarrow> bool" where
  "repeats_context outcome context \<longleftrightarrow>
     (let causal = obj_items (dget outcome ''causal_interpretation''); synthesis = obj_items (dget outcome ''research_synthesis'');
          current = obj_items (dget synthesis ''current_question''); quest = obj_items (dget synthesis ''quest'') in
      (\<forall>(field, refs)\<in>set (fc_causal_context context). dget causal field = texts_of refs)
      \<and> dget current ''prior_accepted_outcome_refs'' = texts_of (fc_prior_outcome_refs context)
      \<and> map (\<lambda>v. dget (obj_items v) ''question_ref'') (list_items (dget synthesis ''parent_questions''))
          = map JStr (fc_parent_question_refs context)
      \<and> py_eq (dget quest ''graph_revision_ref'') (fc_graph_revision_ref context))"

definition claims_fit :: "jdict \<Rightarrow> bool" where
  "claims_fit outcome \<longleftrightarrow>
     (if dget outcome ''disposition'' = JStr (L ''insufficient_evidence'')
      then dget outcome ''claim'' = JNull \<and> dget outcome ''missing_evidence'' \<noteq> JList []
      else (\<exists>s. dget outcome ''claim'' = JStr s \<and> \<not> is_blank s)
        \<and> (dget outcome ''disposition'' = JStr (L ''uncertain'') \<longrightarrow> dget outcome ''uncertainty_basis'' \<noteq> JList []))"

lemma parent_impacts: "mapE parent_impact parents = Inr refs \<Longrightarrow> map (\<lambda>v. dget (obj_items v) ''question_ref'') parents = map JStr refs"
  by (induction parents arbitrary: refs) (auto simp: parent_impact_def)

lemma scope_and_synthesis_Inr:
  assumes "validate_outcome_scope_and_synthesis outcome cited expected = Inr u"
  shows "repeats_context outcome expected"
    and "\<exists>causal attribution. dget outcome ''causal_interpretation'' = JDict causal
       \<and> dget causal ''attribution_basis_refs'' = texts_of attribution \<and> set attribution \<subseteq> set cited"
proof -
  obtain causal where causal: "dget outcome ''causal_interpretation'' = JDict causal"
    and reading: "causal_interpretation_check causal cited (fc_causal_context expected) = Inr ()"
    and synthesis: "research_synthesis_check outcome expected = Inr ()"
    using assms by (auto simp: validate_outcome_scope_and_synthesis_def)
  have lists: "\<exists>ss. dget causal field = JList (map JStr ss)" if "field \<in> set causal_list_fields" for field
    using reading that by (auto simp: causal_interpretation_check_def)
  then obtain attribution where attribution: "dget causal ''attribution_basis_refs'' = JList (map JStr attribution)"
    by (force simp: causal_list_fields_def)
  then have "set attribution \<subseteq> set cited"
    using reading by (auto simp: causal_interpretation_check_def comp_def)
  then show "\<exists>causal attribution. dget outcome ''causal_interpretation'' = JDict causal
       \<and> dget causal ''attribution_basis_refs'' = texts_of attribution \<and> set attribution \<subseteq> set cited"
    using causal attribution by (auto simp: texts_of_def)
  have "\<forall>(field, refs)\<in>set (fc_causal_context expected). dget causal field = texts_of refs"
    using reading by (auto simp: causal_interpretation_check_def texts_of_def)
  then show "repeats_context outcome expected"
    using synthesis causal
    by (auto simp: repeats_context_def research_synthesis_check_def synthesis_heads_check_def texts_of_def Let_def dest: parent_impacts)
qed

lemma scientific_outcome_hash: "validate_scientific_outcome outcome closure context resolver = Inr h \<Longrightarrow> canonical_hash (JDict outcome) = Inr h"
  by (auto simp: validate_scientific_outcome_def)

text \<open>
  C3. An accepted scientific outcome is bounded by its citations and its context.  It may cite nothing,
  but what it cites it cites once, and each citation stands for a leaf of the frozen closure or, when
  the closure has none, for the leaf the resolver answers for that very reference, of the kind cited;
  its attribution rests on cited references only; it repeats the causal facts, the prior outcomes, the
  parents and the graph revision of the frozen context.  Its claim fits its disposition: an outcome of
  insufficient evidence makes no claim and names missing evidence, every other one makes a non-blank
  claim, and an uncertain one says what its uncertainty rests on.  Whether a claim has citations is
  left to the Agent.
\<close>
theorem scientific_outcome_bounded:
  assumes "validate_scientific_outcome outcome closure context resolver = Inr h"
  shows "canonical_hash (JDict outcome) = Inr h \<and> claims_fit outcome
     \<and> (\<exists>expected cited items causal attribution.
          frozen_context_of context outcome = Inr expected \<and> repeats_context outcome expected
          \<and> dget outcome ''evidence'' = JList items \<and> distinct cited \<and> list_all2 (cites closure resolver) items cited
          \<and> dget outcome ''causal_interpretation'' = JDict causal
          \<and> dget causal ''attribution_basis_refs'' = texts_of attribution \<and> set attribution \<subseteq> set cited)"
proof -
  obtain expected cited missing basis where expected: "frozen_context_of context outcome = Inr expected"
    and cited: "validate_scientific_evidence_selection (dget outcome ''evidence'') closure resolver = Inr cited"
    and scope: "validate_outcome_scope_and_synthesis outcome cited expected = Inr ()"
    and disposition: "disposition_check outcome missing basis = Inr ()"
    and lists: "dget outcome ''missing_evidence'' = JList (map JStr missing)" "dget outcome ''uncertainty_basis'' = JList (map JStr basis)"
    and hash: "canonical_hash (JDict outcome) = Inr h"
    using assms by (auto simp: validate_scientific_outcome_def)
  have "claims_fit outcome"
    using disposition lists by (auto simp: disposition_check_def claims_fit_def split: if_splits)
  then show ?thesis using hash expected evidence_selected [OF cited] scope_and_synthesis_Inr [OF scope] by blast
qed

end
