(* ===== verification/ReasoningAssembly.thy ===== *)
theory ReasoningAssembly
  imports ReasoningLaws "HOL-Library.Multiset"
begin

text \<open>
  The two ways a Reasoning run ends, each bound to its outcome, and the assembly of the metadata
  that the system owns: it binds the outcome to its context, leaves the agent's own words alone, and
  has nothing left to do a second time.
\<close>

subsection \<open>One transition\<close>

definition bound_to :: "jdict \<Rightarrow> jdict \<Rightarrow> bool" where
  "bound_to candidate outcome \<longleftrightarrow> (\<forall>(field, member)\<in>set source_binding_fields. py_eq (dget candidate field) (dget outcome member))"

definition basis_refs :: "json \<Rightarrow> str list \<Rightarrow> bool" where
  "basis_refs v refs \<longleftrightarrow> v = texts_of refs \<and> refs \<noteq> [] \<and> distinct refs \<and> (\<forall>ref\<in>set refs. \<not> is_blank ref)"

text \<open>A successor enters at a stage and gives a basis for skipping each stage before it, and no other.\<close>

definition enters_successor :: "jdict \<Rightarrow> bool" where
  "enters_successor route \<longleftrightarrow>
     (\<exists>before entry after skip. stage_order = before @ entry # after \<and> dget route ''entry_stage'' = JStr (L entry)
        \<and> dget route ''typed_skip_basis_refs_by_stage'' = JDict skip \<and> set (keys skip) = L ` set before
        \<and> (\<forall>(stage, v)\<in>set skip. \<exists>refs. basis_refs v refs))"

lemma source_bindings_Inr:
  assumes "reasoning_bindings_check candidate outcome code = Inr u"
  shows "bound_to candidate outcome"
proof -
  obtain expected where expected: "mapE (\<lambda>(field, member). bindE (ditem outcome member) (\<lambda>v. Inr (field, v))) source_binding_fields = Inr expected"
    and checked: "\<forall>p\<in>set expected. py_eq (dget candidate (fst p)) (snd p)"
    using assms by (force simp: reasoning_bindings_check_def)
  have "py_eq (dget candidate field) (dget outcome member)" if "(field, member) \<in> set source_binding_fields" for field member
  proof -
    from mapE_each [OF expected that] obtain y where "y \<in> set expected" "bindE (ditem outcome member) (\<lambda>v. Inr (field, v)) = Inr y" by auto
    then have "(field, dget outcome member) \<in> set expected" by (auto simp: ditem_def dget_def split: option.splits)
    then show ?thesis using checked by fastforce
  qed
  then show ?thesis unfolding bound_to_def by blast
qed

lemma skipped_stages_split:
  assumes "entry \<in> set stage_order"
  obtains after where "stage_order = skipped_stages (JStr (L entry)) @ entry # after"
proof -
  obtain before after where so: "stage_order = before @ entry # after" and "entry \<notin> set before"
    using split_list_first [OF assms] by blast
  moreover have "entry \<notin> set xs \<Longrightarrow> takeWhile (\<lambda>s. s \<noteq> entry) (xs @ entry # after) = xs" for xs
    by (induction xs) auto
  ultimately have "skipped_stages (JStr (L entry)) = before" unfolding skipped_stages_def so by simp
  then show ?thesis using so that by simp
qed

lemma successor_route_Inr:
  assumes "validate_successor_route route invalid skip_code = Inr u"
  shows "enters_successor route"
proof -
  obtain entry skip where entry: "entry \<in> set stage_order" "dget route ''entry_stage'' = JStr (L entry)"
    and skip: "dget route ''typed_skip_basis_refs_by_stage'' = JDict skip"
    and checked: "skip_basis_check (JStr (L entry)) skip skip_code = Inr ()"
    using assms by (auto simp: validate_successor_route_def Let_def is_obj_iff)
  obtain after where "stage_order = skipped_stages (JStr (L entry)) @ entry # after" using skipped_stages_split [OF entry(1)] .
  moreover have "set (keys skip) = L ` set (skipped_stages (JStr (L entry)))" using checked by (simp add: skip_basis_check_def keys_are_def)
  moreover have "\<forall>(stage, v)\<in>set skip. \<exists>refs. basis_refs v refs"
  proof (intro ballI, clarify)
    fix stage v
    assume "(stage, v) \<in> set skip"
    then obtain refs where "rc_text_list v skip_code = Inr refs" "refs \<noteq> []" "distinct refs"
      using checked by (force simp: skip_basis_check_def)
    then show "\<exists>refs. basis_refs v refs" by (auto simp: basis_refs_def texts_of_def)
  qed
  ultimately show ?thesis using entry(2) skip unfolding enters_successor_def by blast
qed

definition completes :: "jdict \<Rightarrow> jdict \<Rightarrow> str list option \<Rightarrow> bool" where
  "completes completion outcome expected_basis_refs \<longleftrightarrow>
     py_eq (dget completion ''current_quest_ref'') (dget outcome ''quest_ref'')
     \<and> py_eq (dget completion ''current_goal_revision_ref'') (dget outcome ''goal_revision_ref'')
     \<and> (\<exists>refs. basis_refs (dget completion ''completion_milestone_basis_refs'') refs
          \<and> (expected_basis_refs = None \<or> expected_basis_refs = Some refs))"

text \<open>
  C5. An accepted stage output makes exactly one transition.  Its three hashes are those of the
  output, of its outcome and of the transition; the transition repeats the six identities of that
  outcome; a next cycle enters at one stage and justifies the skip of each stage before it and of no
  other; a completion names the outcome's quest and goal and rests on the frozen milestones.
\<close>
theorem stage_output_one_transition:
  assumes "validate_reasoning_stage_output output closure context expected_basis_refs resolver = Inr (output_hash, outcome_hash, transition_hash)"
  shows "canonical_hash (JDict output) = Inr output_hash
     \<and> (\<exists>outcome chosen. dget output ''scientific_outcome'' = JDict outcome \<and> canonical_hash (JDict outcome) = Inr outcome_hash
          \<and> canonical_hash (JDict chosen) = Inr transition_hash \<and> bound_to chosen outcome
          \<and> (dget output ''next_cycle_proposal'' = JDict chosen \<and> dget output ''candidate_completion'' = JNull \<and> enters_successor chosen
             \<or> dget output ''next_cycle_proposal'' = JNull \<and> dget output ''candidate_completion'' = JDict chosen
               \<and> completes chosen outcome expected_basis_refs))"
proof -
  have optional: "optional_object v c = Inr x \<longleftrightarrow> v = (case x of None \<Rightarrow> JNull | Some d \<Rightarrow> JDict d)" for v c x
    by (cases v) (auto split: option.splits)
  obtain outcome next_cycle completion where outcome: "dget output ''scientific_outcome'' = JDict outcome"
    and nc: "dget output ''next_cycle_proposal'' = (case next_cycle of None \<Rightarrow> JNull | Some d \<Rightarrow> JDict d)"
    and cc: "dget output ''candidate_completion'' = (case completion of None \<Rightarrow> JNull | Some d \<Rightarrow> JDict d)"
    and hash: "validate_scientific_outcome outcome closure context resolver = Inr outcome_hash"
    and transition: "validate_reasoning_transition outcome next_cycle completion expected_basis_refs = Inr transition_hash"
    and output_hash: "canonical_hash (JDict output) = Inr output_hash"
    using assms by (auto simp: validate_reasoning_stage_output_def Let_def optional)
  have outcome_hash: "canonical_hash (JDict outcome) = Inr outcome_hash" using scientific_outcome_hash [OF hash] .
  show ?thesis
  proof (cases next_cycle)
    case None
    then obtain chosen where chosen: "completion = Some chosen" "bound_to chosen outcome" "canonical_hash (JDict chosen) = Inr transition_hash"
      "candidate_completion_check outcome chosen expected_basis_refs = Inr ()"
      using transition
      by (auto simp: validate_reasoning_transition_def validate_reasoning_source_bindings_def split: option.splits dest: source_bindings_Inr)
    then have "completes chosen outcome expected_basis_refs"
      by (auto simp: candidate_completion_check_def completes_def basis_refs_def texts_of_def)
    then show ?thesis using output_hash outcome outcome_hash chosen None nc cc by auto
  next
    case (Some chosen)
    then have chosen: "completion = None" "bound_to chosen outcome" "canonical_hash (JDict chosen) = Inr transition_hash"
      "next_cycle_check chosen = Inr ()"
      using transition
      by (auto simp: validate_reasoning_transition_def validate_reasoning_source_bindings_def split: option.splits dest: source_bindings_Inr)
    then have "enters_successor chosen" by (auto simp: next_cycle_check_def Let_def dest: successor_route_Inr)
    then show ?thesis using output_hash outcome outcome_hash chosen Some nc cc by auto
  qed
qed

subsection \<open>The frozen context\<close>

definition ref_list :: "str list \<Rightarrow> bool" where
  "ref_list refs \<longleftrightarrow> distinct refs \<and> (\<forall>ref\<in>set refs. \<not> is_blank ref)"

lemma parents_listed: "foldE (parent_step graph active) [] parents = Inr refs \<Longrightarrow> ref_list refs"
  by (erule foldE_prefix_rule) (auto simp: ref_list_def parent_step_def)

lemma priors_listed: "foldE prior_step [] prior = Inr refs \<Longrightarrow> ref_list refs"
  by (erule foldE_prefix_rule) (auto simp: ref_list_def prior_step_def Let_def)

lemma causal_field_Inr:
  "causal_field causal field = Inr p \<longleftrightarrow>
     (\<exists>refs. p = (field, refs) \<and> dget causal field = texts_of refs \<and> refs = sorted_set refs \<and> (\<forall>ref\<in>set refs. \<not> is_blank ref))"
  by (auto simp: causal_field_def texts_of_def)

lemma causal_listed:
  assumes "mapE (causal_field causal) names = Inr expected"
  shows "map fst expected = names \<and> (\<forall>p\<in>set expected. ref_list (snd p))"
  using assms
proof (induction names arbitrary: expected)
  case (Cons name names)
  then obtain refs rest where "expected = (name, refs) # rest" "mapE (causal_field causal) names = Inr rest"
    "refs = sorted_set refs" "\<forall>ref\<in>set refs. \<not> is_blank ref"
    by (auto simp: causal_field_Inr)
  then show ?case using Cons.IH [of rest] sorted_set_props(2) [of refs] by (simp add: ref_list_def)
qed simp

lemma frozen_context_listed:
  assumes "validate_frozen_research_context context c q g r = Inr expected"
  shows "ref_list (fc_prior_outcome_refs expected)" and "ref_list (fc_parent_question_refs expected)"
    and "map fst (fc_causal_context expected) = causal_ref_fields" and "\<forall>p\<in>set (fc_causal_context expected). ref_list (snd p)"
proof -
  obtain causal graph active parents prior where
    "foldE (parent_step graph active) [] parents = Inr (fc_parent_question_refs expected)"
    "foldE prior_step [] prior = Inr (fc_prior_outcome_refs expected)"
    "mapE (causal_field causal) causal_ref_fields = Inr (fc_causal_context expected)"
    using assms by (auto simp: validate_frozen_research_context_def)
  then show "ref_list (fc_prior_outcome_refs expected)" "ref_list (fc_parent_question_refs expected)"
    "map fst (fc_causal_context expected) = causal_ref_fields" "\<forall>p\<in>set (fc_causal_context expected). ref_list (snd p)"
    using parents_listed priors_listed causal_listed by blast+
qed

subsection \<open>Assembly\<close>

lemma dict_set_same: "map_of d k = Some v \<Longrightarrow> dict_set k v d = d"
  by (induction d) (auto split: if_splits)

text \<open>What the assembly wrote is admitted as supplied.\<close>

lemma count_distinct: "distinct xs \<Longrightarrow> count_list xs x \<le> 1"
  by (induction xs) (auto simp: count_notin)

lemma supplied_again: "ref_list refs \<Longrightarrow> validate_supplied_authoritative_refs (texts_of refs) refs path = Inr ()"
  using count_distinct [of refs]
  by (auto simp: validate_supplied_authoritative_refs_def texts_of_def ref_list_def list_ex_iff not_less)

lemma assemble_refs_Inr:
  assumes "assemble_refs path d (field, refs) = Inr d'"
  shows "d' = dict_set (L field) (texts_of refs) d"
  using assms by (auto simp: assemble_refs_def texts_of_def)

lemma assemble_refs_again:
  assumes "map_of d (L field) = Some (texts_of refs)" and "ref_list refs"
  shows "assemble_refs path d (field, refs) = Inr d"
  using assms supplied_again [OF assms(2)]
  by (simp add: assemble_refs_def dget_def has_key_def dict_set_same texts_of_def)

lemma assembled_causal:
  assumes "foldE (assemble_refs path) d items = Inr d'" and "distinct (map fst items)"
  shows "(\<forall>(field, refs)\<in>set items. map_of d' (L field) = Some (texts_of refs))
     \<and> (\<forall>k. k \<notin> L ` set (map fst items) \<longrightarrow> map_of d' k = map_of d k)"
  using assms
proof (induction items arbitrary: d)
  case (Cons item items)
  obtain field refs where item: "item = (field, refs)" by (cases item)
  obtain e where e: "e = dict_set (L field) (texts_of refs) d" and rest: "foldE (assemble_refs path) e items = Inr d'"
    using Cons.prems(1) assemble_refs_Inr unfolding item by fastforce
  have fresh: "field \<notin> set (map fst items)" "distinct (map fst items)" using Cons.prems(2) by (simp_all add: item)
  note IH = Cons.IH [OF rest fresh(2)]
  have "L field \<notin> L ` set (map fst items)" using fresh(1) by (force simp: image_iff)
  then have "map_of d' (L field) = Some (texts_of refs)" using IH by (simp add: e)
  then show ?case using IH by (auto simp: item e)
qed simp

lemma assembled_causal_again:
  assumes "\<forall>(field, refs)\<in>set items. map_of d (L field) = Some (texts_of refs)" and "\<forall>p\<in>set items. ref_list (snd p)"
  shows "foldE (assemble_refs path) d items = Inr d"
  using assms by (induction items) (auto simp: assemble_refs_again)

text \<open>The parents' impacts by reference, and in the order of the context.\<close>

definition impact_of :: "str \<Rightarrow> json \<Rightarrow> bool" where
  "impact_of ref v \<longleftrightarrow> (\<exists>d. v = JDict d \<and> dget d ''question_ref'' = JStr ref \<and> \<not> is_blank ref)"

lemma impacts_collected:
  assumes "foldE (impact_step parent_refs) [] items = Inr by_ref"
  shows "\<forall>ref v. map_of by_ref ref = Some v \<longrightarrow> impact_of ref v \<and> v \<in> set items"
proof (rule foldE_prefix_rule [OF assms])
  fix dn x rest s s'
  assume "\<forall>ref v. map_of s ref = Some v \<longrightarrow> impact_of ref v \<and> v \<in> set dn" and "impact_step parent_refs s x = Inr s'"
  then show "\<forall>ref v. map_of s' ref = Some v \<longrightarrow> impact_of ref v \<and> v \<in> set (dn @ [x])"
    by (auto simp: impact_step_def impact_of_def split: if_splits)
qed simp

lemma parents_assembled:
  assumes "assemble_parents parents refs = Inr v"
  shows "\<exists>ordered. v = JList ordered \<and> list_all2 impact_of refs ordered \<and> (\<exists>items. parents = JList items \<and> set ordered \<subseteq> set items)"
proof -
  obtain items by_ref ordered where items: "parents = JList items" and by_ref: "foldE (impact_step refs) [] items = Inr by_ref"
    and ordered: "mapE (\<lambda>ref. case map_of by_ref ref of None \<Rightarrow> Inl KeyError | Some parent \<Rightarrow> Inr parent) refs = Inr ordered" "v = JList ordered"
    using assms by (auto simp: assemble_parents_def)
  have found: "list_all2 (\<lambda>ref v. map_of by_ref ref = Some v) refs ordered"
    using ordered(1) by (simp add: mapE_eq_Inr) (erule list_all2_mono, simp split: option.splits)
  then have "list_all2 impact_of refs ordered" by (rule list_all2_mono) (use impacts_collected [OF by_ref] in blast)
  moreover have "set ordered \<subseteq> set items"
  proof
    fix v
    assume "v \<in> set ordered"
    then obtain i where "i < length ordered" "v = ordered ! i" by (auto simp: in_set_conv_nth)
    then have "map_of by_ref (refs ! i) = Some v" using found by (simp add: list_all2_conv_all_nth)
    then show "v \<in> set items" using impacts_collected [OF by_ref] by blast
  qed
  ultimately show ?thesis using items ordered(2) by blast
qed

lemma impacts_in_order:
  assumes "foldE (impact_step parent_refs) [] items = Inr by_ref"
  shows "map snd by_ref = items \<and> distinct (keys by_ref)"
proof (rule foldE_prefix_rule [OF assms])
  fix dn x rest s s'
  assume "map snd s = dn \<and> distinct (keys s)" and "impact_step parent_refs s x = Inr s'"
  then show "map snd s' = dn @ [x] \<and> distinct (keys s')"
    by (auto simp: impact_step_def dict_set_new has_key_iff keys_def split: if_splits)
qed (simp add: keys_def)

lemma lookup_distinct: "distinct (keys d) \<Longrightarrow> map (\<lambda>k. the (map_of d k)) (keys d) = map snd d"
  by (induction d) (auto simp: keys_def rev_image_eqI intro!: map_cong)

text \<open>The parents are the agent's own, each once: they are only put in the order of the context.\<close>

lemma parents_reordered:
  assumes "assemble_parents (JList items) refs = Inr (JList ordered)" and "distinct refs"
  shows "mset ordered = mset items"
proof -
  obtain by_ref where by_ref: "foldE (impact_step refs) [] items = Inr by_ref" and same: "same_set (keys by_ref) refs"
    and ordered: "mapE (\<lambda>ref. case map_of by_ref ref of None \<Rightarrow> Inl KeyError | Some parent \<Rightarrow> Inr parent) refs = Inr ordered"
    using assms(1) by (auto simp: assemble_parents_def rc_list_def)
  note once = impacts_in_order [OF by_ref]
  have "list_all2 (\<lambda>ref v. the (map_of by_ref ref) = v) refs ordered"
    using ordered by (simp add: mapE_eq_Inr) (erule list_all2_mono, simp split: option.splits)
  then have "ordered = map (\<lambda>ref. the (map_of by_ref ref)) refs"
    by (simp add: list_all2_conv_all_nth list_eq_iff_nth_eq)
  moreover have "mset refs = mset (keys by_ref)"
    using same once assms(2) by (simp add: same_set_def set_eq_iff_mset_eq_distinct)
  ultimately have "mset ordered = mset (map (\<lambda>ref. the (map_of by_ref ref)) (keys by_ref))" by (simp add: mset_map)
  then show ?thesis using once lookup_distinct [of by_ref] by simp
qed

lemma impacts_again:
  assumes "list_all2 impact_of refs items" and "distinct refs" and "set refs \<subseteq> set all" and "\<forall>ref\<in>set refs. \<not> has_key s ref"
  shows "foldE (impact_step all) s items = Inr (s @ zip refs items)"
  using assms
proof (induction refs items arbitrary: s rule: list_all2_induct)
  case (Cons ref refs item items)
  then obtain d where item: "item = JDict d" "dget d ''question_ref'' = JStr ref" "\<not> is_blank ref" by (auto simp: impact_of_def)
  have step: "impact_step all s item = Inr (s @ [(ref, item)])"
    using Cons.prems item dict_set_new [of ref s item] by (auto simp: impact_step_def rc_object_def rc_text_def has_key_iff)
  have "\<forall>r\<in>set refs. \<not> has_key (s @ [(ref, item)]) r" using Cons.prems by (auto simp: has_key_iff)
  then show ?case using Cons.IH [of "s @ [(ref, item)]"] Cons.prems step by simp
qed simp

lemma parents_assembled_again:
  assumes "list_all2 impact_of refs ordered" and "distinct refs"
  shows "assemble_parents (JList ordered) refs = Inr (JList ordered)"
proof -
  have len: "length refs = length ordered" using assms(1) by (rule list_all2_lengthD)
  have "mapE (\<lambda>ref. case map_of (zip refs ordered) ref of None \<Rightarrow> Inl KeyError | Some parent \<Rightarrow> Inr parent) refs = Inr ordered"
    unfolding mapE_eq_Inr list_all2_conv_all_nth using len map_of_zip_nth [OF len assms(2)] by auto
  moreover have "keys (zip refs ordered) = refs" using len by (simp add: keys_def)
  ultimately show ?thesis
    using impacts_again [OF assms, of refs "[]"] by (simp add: assemble_parents_def rc_list_def)
qed

text \<open>The synthesis after assembly, and once more.\<close>

definition synthesis_bound :: "jdict \<Rightarrow> frozen_context \<Rightarrow> bool" where
  "synthesis_bound synthesis expected \<longleftrightarrow>
     (\<exists>current ordered. map_of synthesis (L ''current_question'') = Some (JDict current)
        \<and> map_of current (L ''prior_accepted_outcome_refs'') = Some (texts_of (fc_prior_outcome_refs expected))
        \<and> map_of synthesis (L ''parent_questions'') = Some (JList ordered)
        \<and> list_all2 impact_of (fc_parent_question_refs expected) ordered)"

text \<open>Everything else of the synthesis is the agent's.\<close>

definition synthesis_kept :: "jdict \<Rightarrow> jdict \<Rightarrow> bool" where
  "synthesis_kept synthesis synthesis' \<longleftrightarrow>
     (\<exists>current current' parents parents'.
        dget synthesis ''current_question'' = JDict current \<and> dget synthesis' ''current_question'' = JDict current'
        \<and> dget synthesis ''parent_questions'' = JList parents \<and> dget synthesis' ''parent_questions'' = JList parents'
        \<and> (\<forall>k. k \<noteq> L ''current_question'' \<and> k \<noteq> L ''parent_questions'' \<longrightarrow> map_of synthesis' k = map_of synthesis k)
        \<and> (\<forall>k. k \<noteq> L ''prior_accepted_outcome_refs'' \<longrightarrow> map_of current' k = map_of current k)
        \<and> mset parents' = mset parents)"

lemma assemble_synthesis_Inr:
  assumes "assemble_synthesis v expected = Inr synthesis" and "ref_list (fc_parent_question_refs expected)"
  shows "synthesis_bound synthesis expected" and "\<exists>before. v = JDict before \<and> synthesis_kept before synthesis"
proof -
  obtain before current current' parents where v: "v = JDict before"
    and current: "dget before ''current_question'' = JDict current"
    and current': "assemble_refs ''research_synthesis.current_question.'' current (''prior_accepted_outcome_refs'', fc_prior_outcome_refs expected)
      = Inr current'"
    and parents: "assemble_parents (dget before ''parent_questions'') (fc_parent_question_refs expected) = Inr parents"
    and synthesis: "synthesis = dict_set (L ''parent_questions'') parents (dict_set (L ''current_question'') (JDict current') before)"
    using assms by (auto simp: assemble_synthesis_def)
  show "synthesis_bound synthesis expected"
    using assemble_refs_Inr [OF current'] parents_assembled [OF parents] by (auto simp: synthesis_bound_def synthesis)
  from parents_assembled [OF parents] obtain ordered items where lists: "parents = JList ordered" "dget before ''parent_questions'' = JList items"
    by blast
  then have "mset ordered = mset items"
    using parents_reordered [of items "fc_parent_question_refs expected" ordered] parents assms(2) by (simp add: ref_list_def)
  then show "\<exists>before. v = JDict before \<and> synthesis_kept before synthesis"
    unfolding synthesis_kept_def
    by (intro exI [of _ before] conjI exI [of _ current] exI [of _ current'] exI [of _ items] exI [of _ ordered])
      (simp_all add: v current lists assemble_refs_Inr [OF current'] synthesis dget_dict_set)
qed

lemma assemble_synthesis_again:
  assumes "synthesis_bound synthesis expected" and "ref_list (fc_prior_outcome_refs expected)" "ref_list (fc_parent_question_refs expected)"
  shows "assemble_synthesis (JDict synthesis) expected = Inr synthesis"
proof -
  obtain current ordered where bound: "map_of synthesis (L ''current_question'') = Some (JDict current)"
    "map_of current (L ''prior_accepted_outcome_refs'') = Some (texts_of (fc_prior_outcome_refs expected))"
    "map_of synthesis (L ''parent_questions'') = Some (JList ordered)" "list_all2 impact_of (fc_parent_question_refs expected) ordered"
    using assms(1) unfolding synthesis_bound_def by blast
  then show ?thesis
    using assemble_refs_again [OF bound(2) assms(2)] parents_assembled_again [OF bound(4)] assms(3)
    by (simp add: assemble_synthesis_def rc_object_def dget_def ref_list_def dict_set_same)
qed

definition v3_context :: "jdict \<Rightarrow> bool" where
  "v3_context context \<longleftrightarrow> dget context ''schema_ref'' = JStr (L REASONING_AUTHORITATIVE_RESEARCH_CONTEXT_SCHEMA_REF)"

text \<open>What the assembly may change of an outcome, and of the output around it.\<close>

definition assembles_only :: "jdict \<Rightarrow> jdict \<Rightarrow> bool" where
  "assembles_only output output' \<longleftrightarrow>
     (\<exists>outcome outcome' causal causal' synthesis synthesis'.
        dget output ''scientific_outcome'' = JDict outcome \<and> dget output' ''scientific_outcome'' = JDict outcome'
        \<and> dget outcome ''causal_interpretation'' = JDict causal \<and> dget outcome' ''causal_interpretation'' = JDict causal'
        \<and> dget outcome ''research_synthesis'' = JDict synthesis \<and> dget outcome' ''research_synthesis'' = JDict synthesis'
        \<and> (\<forall>k. k \<noteq> L ''scientific_outcome'' \<longrightarrow> map_of output' k = map_of output k)
        \<and> (\<forall>k. k \<noteq> L ''causal_interpretation'' \<and> k \<noteq> L ''research_synthesis'' \<longrightarrow> map_of outcome' k = map_of outcome k)
        \<and> (\<forall>k. k \<notin> L ` set [''target_commit_refs'', ''changed_axis_fact_refs'', ''held_fixed_fact_refs'', ''provenance_refs''] \<longrightarrow> map_of causal' k = map_of causal k)
        \<and> synthesis_kept synthesis synthesis')"

lemma frozen_context_of_cong:
  "\<forall>k. k \<notin> {''causal_interpretation'', ''research_synthesis''} \<longrightarrow> dget outcome' k = dget outcome k \<Longrightarrow>
     frozen_context_of context outcome' = frozen_context_of context outcome
     \<and> identity_check outcome' context = identity_check outcome context"
  by (simp add: frozen_context_of_def identity_check_def)

lemma assembled_v3:
  assumes "assemble_reasoning_authoritative_metadata output context = Inr output'" and "v3_context context"
  shows "assemble_reasoning_authoritative_metadata output' context = Inr output' \<and> assembles_only output output'
     \<and> (\<exists>outcome' expected synthesis. dget output' ''scientific_outcome'' = JDict outcome'
          \<and> frozen_context_of context outcome' = Inr expected
          \<and> (\<forall>(field, refs)\<in>set (fc_causal_context expected).
               dget (obj_items (dget outcome' ''causal_interpretation'')) field = texts_of refs)
          \<and> dget outcome' ''research_synthesis'' = JDict synthesis \<and> synthesis_bound synthesis expected)"
proof -
  obtain outcome expected causal causal' synthesis where
    outcome: "dget output ''scientific_outcome'' = JDict outcome" and identity: "identity_check outcome context = Inr ()"
    and expected: "frozen_context_of context outcome = Inr expected" and causal: "dget outcome ''causal_interpretation'' = JDict causal"
    and causal': "foldE (assemble_refs ''causal_interpretation.'') causal (fc_causal_context expected) = Inr causal'"
    and synthesis: "assemble_synthesis (dget outcome ''research_synthesis'') expected = Inr synthesis"
    and output': "output' = dict_set (L ''scientific_outcome'') (JDict (dict_set (L ''research_synthesis'') (JDict synthesis)
        (dict_set (L ''causal_interpretation'') (JDict causal') outcome))) output"
    using assms by (auto simp: assemble_reasoning_authoritative_metadata_def v3_context_def)
  obtain outcome' where outcome'_def: "outcome' = dict_set (L ''research_synthesis'') (JDict synthesis)
      (dict_set (L ''causal_interpretation'') (JDict causal') outcome)"
    by simp
  note listed = frozen_context_listed [OF expected [unfolded frozen_context_of_def]]
  note bound = assemble_synthesis_Inr [OF synthesis listed(2)]
  have fields: "distinct (map fst (fc_causal_context expected))" unfolding listed(3) by (simp add: causal_ref_fields_def)
  note causal_facts = assembled_causal [OF causal' fields]
  have same: "\<forall>k. k \<notin> {''causal_interpretation'', ''research_synthesis''} \<longrightarrow> dget outcome' k = dget outcome k"
    by (simp add: outcome'_def dget_dict_set)
  have now: "dget output' ''scientific_outcome'' = JDict outcome'" "dget outcome' ''causal_interpretation'' = JDict causal'"
    "dget outcome' ''research_synthesis'' = JDict synthesis"
    by (simp_all add: output' outcome'_def dget_dict_set)
  have "foldE (assemble_refs ''causal_interpretation.'') causal' (fc_causal_context expected) = Inr causal'"
    using causal_facts listed(4) by (intro assembled_causal_again) blast+
  moreover have "assemble_synthesis (JDict synthesis) expected = Inr synthesis"
    using assemble_synthesis_again [OF bound(1) listed(1,2)] .
  moreover have "dict_set (L ''research_synthesis'') (JDict synthesis) (dict_set (L ''causal_interpretation'') (JDict causal') outcome') = outcome'"
    by (simp add: outcome'_def dict_set_same)
  moreover have "dict_set (L ''scientific_outcome'') (JDict outcome') output' = output'"
    by (simp add: output' outcome'_def dict_set_same)
  ultimately have again: "assemble_reasoning_authoritative_metadata output' context = Inr output'"
    using assms(2) frozen_context_of_cong [OF same, of "context"] identity expected now
    by (simp add: assemble_reasoning_authoritative_metadata_def v3_context_def rc_object_def)
  have kept: "\<forall>k. k \<notin> L ` set [''target_commit_refs'', ''changed_axis_fact_refs'', ''held_fixed_fact_refs'', ''provenance_refs''] \<longrightarrow> map_of causal' k = map_of causal k"
    using causal_facts by (simp add: listed(3) causal_ref_fields_def)
  from bound(2) obtain before where before: "dget outcome ''research_synthesis'' = JDict before" "synthesis_kept before synthesis"
    by blast
  have others: "\<forall>k. k \<noteq> L ''scientific_outcome'' \<longrightarrow> map_of output' k = map_of output k"
    "\<forall>k. k \<noteq> L ''causal_interpretation'' \<and> k \<noteq> L ''research_synthesis'' \<longrightarrow> map_of outcome' k = map_of outcome k"
    unfolding output' outcome'_def by simp_all
  have "assembles_only output output'"
    unfolding assembles_only_def using outcome now(1) causal now(2) before(1) now(3) others kept before(2) by (intro exI conjI)
  moreover have "\<forall>(field, refs)\<in>set (fc_causal_context expected). dget causal' field = texts_of refs"
    using causal_facts by (auto simp: dget_def)
  ultimately show ?thesis
    using again now frozen_context_of_cong [OF same, of "context"] expected bound(1)
    by (intro conjI exI [of _ outcome'] exI [of _ expected] exI [of _ synthesis]) simp_all
qed

text \<open>
  C10. The assembly of the system's metadata is sound and idempotent. Under any other context it returns
  the output as it is. Under the authoritative (v3) context it keeps every member of the output, of its
  outcome, of the causal interpretation, of the synthesis and of its current question but four causal
  reference lists, the prior outcome references and the order of the agent's own parent impacts; those
  it sets to the causal facts, the prior outcomes and the parents of the frozen context, in its order.
  Assembling again changes nothing.
\<close>
theorem assembly_idempotent:
  assumes "assemble_reasoning_authoritative_metadata output context = Inr output'"
  shows "assemble_reasoning_authoritative_metadata output' context = Inr output'
     \<and> (if v3_context context then assembles_only output output'
          \<and> (\<exists>outcome' expected synthesis. dget output' ''scientific_outcome'' = JDict outcome'
               \<and> frozen_context_of context outcome' = Inr expected
               \<and> (\<forall>(field, refs)\<in>set (fc_causal_context expected).
                    dget (obj_items (dget outcome' ''causal_interpretation'')) field = texts_of refs)
               \<and> dget outcome' ''research_synthesis'' = JDict synthesis \<and> synthesis_bound synthesis expected)
        else output' = output)"
proof (cases "v3_context context")
  case False
  then show ?thesis using assms by (simp add: assemble_reasoning_authoritative_metadata_def v3_context_def)
next
  case True
  then show ?thesis using assembled_v3 [OF assms True] by simp
qed

end
