(* ===== verification/BundleRecords.thy ===== *)
theory BundleRecords
  imports JsonCodec
begin

text \<open>
  The closed, immutable records of \<open>src/meta_research/bundle_protocol.py\<close> (each a frozen
  dataclass there, a \<open>record\<close> here, one field per field, with a short prefix because HOL
  has one name space for fields), and the table of their annotations that the source reads
  with \<open>get_type_hints\<close>.

  The source validates and serialises these records by reflection.  Its view of a record is
  \<open>pval\<close>: a type name and the fields in order.  \<open>pv_R\<close> is that view of the record
  \<open>R\<close>; the tuple of metric values keeps its JSON values as they are (\<open>PJson\<close>).
\<close>

datatype pval =
    PNone
  | PBool bool
  | PInt int
  | PFloat pyfloat
  | PStr str
  | PTuple "pval list"
  | PRec string "(string \<times> pval) list"
  | PJson json

datatype ann =
    AStr | AInt | ABool | ANone | AMetric
  | ATuple ann
  | AFixed "ann list"
  | AUnion "ann list"
  | ARec string

definition pv_opt :: "('a \<Rightarrow> pval) \<Rightarrow> 'a option \<Rightarrow> pval" where
  "pv_opt f x = (case x of None \<Rightarrow> PNone | Some y \<Rightarrow> f y)"

lemma pv_opt_simps [simp]: "pv_opt f None = PNone" "pv_opt f (Some y) = f y"
  by (simp_all add: pv_opt_def)

definition pv_strs :: "str list \<Rightarrow> pval" where
  "pv_strs xs = PTuple (map PStr xs)"

record StageRunRequest =
  srr_request_ref :: "str"
  srr_formal_plan_ref :: "str"
  srr_formal_plan_content_hash_ref :: "str"
  srr_typed :: "bool"
  srr_currentness_known :: "bool"
  srr_current :: "bool"
  srr_root_execution_fence_current :: "bool"

definition pv_StageRunRequest :: "StageRunRequest \<Rightarrow> pval" where
  "pv_StageRunRequest r = PRec ''StageRunRequest''
     [(''request_ref'', PStr (srr_request_ref r)),
      (''formal_plan_ref'', PStr (srr_formal_plan_ref r)),
      (''formal_plan_content_hash_ref'', PStr (srr_formal_plan_content_hash_ref r)),
      (''typed'', PBool (srr_typed r)),
      (''currentness_known'', PBool (srr_currentness_known r)),
      (''current'', PBool (srr_current r)),
      (''root_execution_fence_current'', PBool (srr_root_execution_fence_current r))]"

definition hints_StageRunRequest :: "(string \<times> ann) list" where
  "hints_StageRunRequest =
     [(''request_ref'', AStr),
      (''formal_plan_ref'', AStr),
      (''formal_plan_content_hash_ref'', AStr),
      (''typed'', ABool),
      (''currentness_known'', ABool),
      (''current'', ABool),
      (''root_execution_fence_current'', ABool)]"

record HeldFixedBinding =
  hfb_semantic_slot :: "str"
  hfb_implementation_revision_ref :: "str"

definition pv_HeldFixedBinding :: "HeldFixedBinding \<Rightarrow> pval" where
  "pv_HeldFixedBinding r = PRec ''HeldFixedBinding''
     [(''semantic_slot'', PStr (hfb_semantic_slot r)),
      (''implementation_revision_ref'', PStr (hfb_implementation_revision_ref r))]"

definition hints_HeldFixedBinding :: "(string \<times> ann) list" where
  "hints_HeldFixedBinding =
     [(''semantic_slot'', AStr),
      (''implementation_revision_ref'', AStr)]"

record ContentBindingProof =
  cbp_subject_ref :: "str"
  cbp_content_hash_ref :: "str"

definition pv_ContentBindingProof :: "ContentBindingProof \<Rightarrow> pval" where
  "pv_ContentBindingProof r = PRec ''ContentBindingProof''
     [(''subject_ref'', PStr (cbp_subject_ref r)),
      (''content_hash_ref'', PStr (cbp_content_hash_ref r))]"

definition hints_ContentBindingProof :: "(string \<times> ann) list" where
  "hints_ContentBindingProof =
     [(''subject_ref'', AStr),
      (''content_hash_ref'', AStr)]"

record ReceiptProof =
  rp_receipt_ref :: "str"
  rp_subject_ref :: "str"
  rp_verified :: "bool"
  rp_currentness_known :: "bool"
  rp_current :: "bool"

definition pv_ReceiptProof :: "ReceiptProof \<Rightarrow> pval" where
  "pv_ReceiptProof r = PRec ''ReceiptProof''
     [(''receipt_ref'', PStr (rp_receipt_ref r)),
      (''subject_ref'', PStr (rp_subject_ref r)),
      (''verified'', PBool (rp_verified r)),
      (''currentness_known'', PBool (rp_currentness_known r)),
      (''current'', PBool (rp_current r))]"

definition hints_ReceiptProof :: "(string \<times> ann) list" where
  "hints_ReceiptProof =
     [(''receipt_ref'', AStr),
      (''subject_ref'', AStr),
      (''verified'', ABool),
      (''currentness_known'', ABool),
      (''current'', ABool)]"

record ExperimentBrief =
  eb_experiment_key :: "str"
  eb_semantic_delta :: "str"
  eb_held_fixed_slots :: "str list"
  eb_required_measurement_unit_keys :: "str list"

definition pv_ExperimentBrief :: "ExperimentBrief \<Rightarrow> pval" where
  "pv_ExperimentBrief r = PRec ''ExperimentBrief''
     [(''experiment_key'', PStr (eb_experiment_key r)),
      (''semantic_delta'', PStr (eb_semantic_delta r)),
      (''held_fixed_slots'', pv_strs (eb_held_fixed_slots r)),
      (''required_measurement_unit_keys'', pv_strs (eb_required_measurement_unit_keys r))]"

definition hints_ExperimentBrief :: "(string \<times> ann) list" where
  "hints_ExperimentBrief =
     [(''experiment_key'', AStr),
      (''semantic_delta'', AStr),
      (''held_fixed_slots'', ATuple AStr),
      (''required_measurement_unit_keys'', ATuple AStr)]"

record FormalPlan =
  fp_formal_plan_ref :: "str"
  fp_briefs :: "ExperimentBrief list"
  fp_content_binding :: "ContentBindingProof"
  fp_acceptance_receipt :: "ReceiptProof"

definition pv_FormalPlan :: "FormalPlan \<Rightarrow> pval" where
  "pv_FormalPlan r = PRec ''FormalPlan''
     [(''formal_plan_ref'', PStr (fp_formal_plan_ref r)),
      (''briefs'', PTuple (map pv_ExperimentBrief (fp_briefs r))),
      (''content_binding'', pv_ContentBindingProof (fp_content_binding r)),
      (''acceptance_receipt'', pv_ReceiptProof (fp_acceptance_receipt r))]"

definition hints_FormalPlan :: "(string \<times> ann) list" where
  "hints_FormalPlan =
     [(''formal_plan_ref'', AStr),
      (''briefs'', ATuple (ARec ''ExperimentBrief'')),
      (''content_binding'', ARec ''ContentBindingProof''),
      (''acceptance_receipt'', ARec ''ReceiptProof'')]"

record CodeReviewRecord =
  crr_code_changed :: "bool"
  crr_disposition :: "str"
  crr_candidate_revision_ref :: "str"
  crr_reviewed_revision_ref :: "str option"
  crr_fixed_base_ref :: "str option"
  crr_diff_ref :: "str option"
  crr_review_ref :: "str option"
  crr_review_parent_session_ref :: "str option"
  crr_reviewer_session_ref :: "str option"
  crr_reviewer_spawn_evidence_ref :: "str option"
  crr_unresolved_standards_findings :: "int"
  crr_unresolved_spec_findings :: "int"

definition pv_CodeReviewRecord :: "CodeReviewRecord \<Rightarrow> pval" where
  "pv_CodeReviewRecord r = PRec ''CodeReviewRecord''
     [(''code_changed'', PBool (crr_code_changed r)),
      (''disposition'', PStr (crr_disposition r)),
      (''candidate_revision_ref'', PStr (crr_candidate_revision_ref r)),
      (''reviewed_revision_ref'', pv_opt PStr (crr_reviewed_revision_ref r)),
      (''fixed_base_ref'', pv_opt PStr (crr_fixed_base_ref r)),
      (''diff_ref'', pv_opt PStr (crr_diff_ref r)),
      (''review_ref'', pv_opt PStr (crr_review_ref r)),
      (''review_parent_session_ref'', pv_opt PStr (crr_review_parent_session_ref r)),
      (''reviewer_session_ref'', pv_opt PStr (crr_reviewer_session_ref r)),
      (''reviewer_spawn_evidence_ref'', pv_opt PStr (crr_reviewer_spawn_evidence_ref r)),
      (''unresolved_standards_findings'', PInt (crr_unresolved_standards_findings r)),
      (''unresolved_spec_findings'', PInt (crr_unresolved_spec_findings r))]"

definition hints_CodeReviewRecord :: "(string \<times> ann) list" where
  "hints_CodeReviewRecord =
     [(''code_changed'', ABool),
      (''disposition'', AStr),
      (''candidate_revision_ref'', AStr),
      (''reviewed_revision_ref'', AUnion [AStr, ANone]),
      (''fixed_base_ref'', AUnion [AStr, ANone]),
      (''diff_ref'', AUnion [AStr, ANone]),
      (''review_ref'', AUnion [AStr, ANone]),
      (''review_parent_session_ref'', AUnion [AStr, ANone]),
      (''reviewer_session_ref'', AUnion [AStr, ANone]),
      (''reviewer_spawn_evidence_ref'', AUnion [AStr, ANone]),
      (''unresolved_standards_findings'', AInt),
      (''unresolved_spec_findings'', AInt)]"

record RevisionEvidenceProof =
  rep_evidence_ref :: "str"
  rep_subject_revision_ref :: "str"

definition pv_RevisionEvidenceProof :: "RevisionEvidenceProof \<Rightarrow> pval" where
  "pv_RevisionEvidenceProof r = PRec ''RevisionEvidenceProof''
     [(''evidence_ref'', PStr (rep_evidence_ref r)),
      (''subject_revision_ref'', PStr (rep_subject_revision_ref r))]"

definition hints_RevisionEvidenceProof :: "(string \<times> ann) list" where
  "hints_RevisionEvidenceProof =
     [(''evidence_ref'', AStr),
      (''subject_revision_ref'', AStr)]"

record ResultReviewRecord =
  rrr_reviewed_evaluation_attempt_ref :: "str"
  rrr_reviewed_metric_result_ref :: "str"
  rrr_reviewed_asset_manifest_ref :: "str"
  rrr_review_ref :: "str"
  rrr_review_parent_session_ref :: "str"
  rrr_reviewer_session_ref :: "str"
  rrr_reviewer_spawn_evidence_ref :: "str"
  rrr_unresolved_findings :: "int"

definition pv_ResultReviewRecord :: "ResultReviewRecord \<Rightarrow> pval" where
  "pv_ResultReviewRecord r = PRec ''ResultReviewRecord''
     [(''reviewed_evaluation_attempt_ref'', PStr (rrr_reviewed_evaluation_attempt_ref r)),
      (''reviewed_metric_result_ref'', PStr (rrr_reviewed_metric_result_ref r)),
      (''reviewed_asset_manifest_ref'', PStr (rrr_reviewed_asset_manifest_ref r)),
      (''review_ref'', PStr (rrr_review_ref r)),
      (''review_parent_session_ref'', PStr (rrr_review_parent_session_ref r)),
      (''reviewer_session_ref'', PStr (rrr_reviewer_session_ref r)),
      (''reviewer_spawn_evidence_ref'', PStr (rrr_reviewer_spawn_evidence_ref r)),
      (''unresolved_findings'', PInt (rrr_unresolved_findings r))]"

definition hints_ResultReviewRecord :: "(string \<times> ann) list" where
  "hints_ResultReviewRecord =
     [(''reviewed_evaluation_attempt_ref'', AStr),
      (''reviewed_metric_result_ref'', AStr),
      (''reviewed_asset_manifest_ref'', AStr),
      (''review_ref'', AStr),
      (''review_parent_session_ref'', AStr),
      (''reviewer_session_ref'', AStr),
      (''reviewer_spawn_evidence_ref'', AStr),
      (''unresolved_findings'', AInt)]"

record CodeReviewScope =
  crs_candidate_revision_binding :: "ContentBindingProof"
  crs_target_spec_binding :: "ContentBindingProof"
  crs_target_spec_acceptance_receipt :: "ReceiptProof"
  crs_formal_plan_binding :: "ContentBindingProof"
  crs_formal_plan_acceptance_receipt :: "ReceiptProof"
  crs_experiment_keys :: "str list"
  crs_semantic_deltas :: "str list"
  crs_held_fixed_bindings :: "HeldFixedBinding list"
  crs_accepted_input_refs :: "str list"
  crs_reuse_provenance_refs :: "str list"
  crs_repository_standards_refs :: "str list"

definition pv_CodeReviewScope :: "CodeReviewScope \<Rightarrow> pval" where
  "pv_CodeReviewScope r = PRec ''CodeReviewScope''
     [(''candidate_revision_binding'', pv_ContentBindingProof (crs_candidate_revision_binding r)),
      (''target_spec_binding'', pv_ContentBindingProof (crs_target_spec_binding r)),
      (''target_spec_acceptance_receipt'', pv_ReceiptProof (crs_target_spec_acceptance_receipt r)),
      (''formal_plan_binding'', pv_ContentBindingProof (crs_formal_plan_binding r)),
      (''formal_plan_acceptance_receipt'', pv_ReceiptProof (crs_formal_plan_acceptance_receipt r)),
      (''experiment_keys'', pv_strs (crs_experiment_keys r)),
      (''semantic_deltas'', pv_strs (crs_semantic_deltas r)),
      (''held_fixed_bindings'', PTuple (map pv_HeldFixedBinding (crs_held_fixed_bindings r))),
      (''accepted_input_refs'', pv_strs (crs_accepted_input_refs r)),
      (''reuse_provenance_refs'', pv_strs (crs_reuse_provenance_refs r)),
      (''repository_standards_refs'', pv_strs (crs_repository_standards_refs r))]"

definition hints_CodeReviewScope :: "(string \<times> ann) list" where
  "hints_CodeReviewScope =
     [(''candidate_revision_binding'', ARec ''ContentBindingProof''),
      (''target_spec_binding'', ARec ''ContentBindingProof''),
      (''target_spec_acceptance_receipt'', ARec ''ReceiptProof''),
      (''formal_plan_binding'', ARec ''ContentBindingProof''),
      (''formal_plan_acceptance_receipt'', ARec ''ReceiptProof''),
      (''experiment_keys'', ATuple AStr),
      (''semantic_deltas'', ATuple AStr),
      (''held_fixed_bindings'', ATuple (ARec ''HeldFixedBinding'')),
      (''accepted_input_refs'', ATuple AStr),
      (''reuse_provenance_refs'', ATuple AStr),
      (''repository_standards_refs'', ATuple AStr)]"

record TargetExecutionPreflight =
  tep_target_ref :: "str"
  tep_target_run_ref :: "str"
  tep_implementation_revision_ref :: "str"
  tep_implementation_acceptance_receipt :: "ReceiptProof"
  tep_target_spec_acceptance_receipt :: "ReceiptProof"
  tep_candidate_ready_evidence :: "RevisionEvidenceProof"
  tep_self_check_evidence :: "RevisionEvidenceProof list"
  tep_review_scope :: "CodeReviewScope"
  tep_code_review :: "CodeReviewRecord"
  tep_code_review_evidence_binding :: "ContentBindingProof option"
  tep_code_review_evidence_receipt :: "ReceiptProof option"

definition pv_TargetExecutionPreflight :: "TargetExecutionPreflight \<Rightarrow> pval" where
  "pv_TargetExecutionPreflight r = PRec ''TargetExecutionPreflight''
     [(''target_ref'', PStr (tep_target_ref r)),
      (''target_run_ref'', PStr (tep_target_run_ref r)),
      (''implementation_revision_ref'', PStr (tep_implementation_revision_ref r)),
      (''implementation_acceptance_receipt'', pv_ReceiptProof (tep_implementation_acceptance_receipt r)),
      (''target_spec_acceptance_receipt'', pv_ReceiptProof (tep_target_spec_acceptance_receipt r)),
      (''candidate_ready_evidence'', pv_RevisionEvidenceProof (tep_candidate_ready_evidence r)),
      (''self_check_evidence'', PTuple (map pv_RevisionEvidenceProof (tep_self_check_evidence r))),
      (''review_scope'', pv_CodeReviewScope (tep_review_scope r)),
      (''code_review'', pv_CodeReviewRecord (tep_code_review r)),
      (''code_review_evidence_binding'', pv_opt pv_ContentBindingProof (tep_code_review_evidence_binding r)),
      (''code_review_evidence_receipt'', pv_opt pv_ReceiptProof (tep_code_review_evidence_receipt r))]"

definition hints_TargetExecutionPreflight :: "(string \<times> ann) list" where
  "hints_TargetExecutionPreflight =
     [(''target_ref'', AStr),
      (''target_run_ref'', AStr),
      (''implementation_revision_ref'', AStr),
      (''implementation_acceptance_receipt'', ARec ''ReceiptProof''),
      (''target_spec_acceptance_receipt'', ARec ''ReceiptProof''),
      (''candidate_ready_evidence'', ARec ''RevisionEvidenceProof''),
      (''self_check_evidence'', ATuple (ARec ''RevisionEvidenceProof'')),
      (''review_scope'', ARec ''CodeReviewScope''),
      (''code_review'', ARec ''CodeReviewRecord''),
      (''code_review_evidence_binding'', AUnion [ARec ''ContentBindingProof'', ANone]),
      (''code_review_evidence_receipt'', AUnion [ARec ''ReceiptProof'', ANone])]"

record ProtocolAggregationProof =
  pap_protocol_version_ref :: "str"
  pap_part_keys :: "str list"
  pap_aggregation_rule_ref :: "str"
  pap_aggregation_evidence_binding :: "ContentBindingProof"
  pap_aggregation_evidence_receipt :: "ReceiptProof"

definition pv_ProtocolAggregationProof :: "ProtocolAggregationProof \<Rightarrow> pval" where
  "pv_ProtocolAggregationProof r = PRec ''ProtocolAggregationProof''
     [(''protocol_version_ref'', PStr (pap_protocol_version_ref r)),
      (''part_keys'', pv_strs (pap_part_keys r)),
      (''aggregation_rule_ref'', PStr (pap_aggregation_rule_ref r)),
      (''aggregation_evidence_binding'', pv_ContentBindingProof (pap_aggregation_evidence_binding r)),
      (''aggregation_evidence_receipt'', pv_ReceiptProof (pap_aggregation_evidence_receipt r))]"

definition hints_ProtocolAggregationProof :: "(string \<times> ann) list" where
  "hints_ProtocolAggregationProof =
     [(''protocol_version_ref'', AStr),
      (''part_keys'', ATuple AStr),
      (''aggregation_rule_ref'', AStr),
      (''aggregation_evidence_binding'', ARec ''ContentBindingProof''),
      (''aggregation_evidence_receipt'', ARec ''ReceiptProof'')]"

record ProtocolPart =
  pp_part_key :: "str"
  pp_protocol_version_ref :: "str"

definition pv_ProtocolPart :: "ProtocolPart \<Rightarrow> pval" where
  "pv_ProtocolPart r = PRec ''ProtocolPart''
     [(''part_key'', PStr (pp_part_key r)),
      (''protocol_version_ref'', PStr (pp_protocol_version_ref r))]"

definition hints_ProtocolPart :: "(string \<times> ann) list" where
  "hints_ProtocolPart =
     [(''part_key'', AStr),
      (''protocol_version_ref'', AStr)]"

record RouteSpec =
  rs_route_ref :: "str"
  rs_known_external_operation_refs :: "str list"

definition pv_RouteSpec :: "RouteSpec \<Rightarrow> pval" where
  "pv_RouteSpec r = PRec ''RouteSpec''
     [(''route_ref'', PStr (rs_route_ref r)),
      (''known_external_operation_refs'', pv_strs (rs_known_external_operation_refs r))]"

definition hints_RouteSpec :: "(string \<times> ann) list" where
  "hints_RouteSpec =
     [(''route_ref'', AStr),
      (''known_external_operation_refs'', ATuple AStr)]"

record TargetCandidate =
  tc_local_label :: "str"
  tc_experiment_keys :: "str list"
  tc_measurement_unit_keys :: "str list"
  tc_held_fixed_bindings :: "HeldFixedBinding list"
  tc_implementation_revision_ref :: "str"
  tc_code_changed :: "bool"
  tc_routes :: "RouteSpec list"
  tc_depends_on_labels :: "str list"
  tc_direct_accepted_input_asset_refs :: "str list"

definition pv_TargetCandidate :: "TargetCandidate \<Rightarrow> pval" where
  "pv_TargetCandidate r = PRec ''TargetCandidate''
     [(''local_label'', PStr (tc_local_label r)),
      (''experiment_keys'', pv_strs (tc_experiment_keys r)),
      (''measurement_unit_keys'', pv_strs (tc_measurement_unit_keys r)),
      (''held_fixed_bindings'', PTuple (map pv_HeldFixedBinding (tc_held_fixed_bindings r))),
      (''implementation_revision_ref'', PStr (tc_implementation_revision_ref r)),
      (''code_changed'', PBool (tc_code_changed r)),
      (''routes'', PTuple (map pv_RouteSpec (tc_routes r))),
      (''depends_on_labels'', pv_strs (tc_depends_on_labels r)),
      (''direct_accepted_input_asset_refs'', pv_strs (tc_direct_accepted_input_asset_refs r))]"

definition hints_TargetCandidate :: "(string \<times> ann) list" where
  "hints_TargetCandidate =
     [(''local_label'', AStr),
      (''experiment_keys'', ATuple AStr),
      (''measurement_unit_keys'', ATuple AStr),
      (''held_fixed_bindings'', ATuple (ARec ''HeldFixedBinding'')),
      (''implementation_revision_ref'', AStr),
      (''code_changed'', ABool),
      (''routes'', ATuple (ARec ''RouteSpec'')),
      (''depends_on_labels'', ATuple AStr),
      (''direct_accepted_input_asset_refs'', ATuple AStr)]"

record StrategyUpdate =
  su_revision :: "int"
  su_candidates :: "TargetCandidate list"
  su_requires_accepted_labels :: "str list"
  su_strategy_complete :: "bool"

definition pv_StrategyUpdate :: "StrategyUpdate \<Rightarrow> pval" where
  "pv_StrategyUpdate r = PRec ''StrategyUpdate''
     [(''revision'', PInt (su_revision r)),
      (''candidates'', PTuple (map pv_TargetCandidate (su_candidates r))),
      (''requires_accepted_labels'', pv_strs (su_requires_accepted_labels r)),
      (''strategy_complete'', PBool (su_strategy_complete r))]"

definition hints_StrategyUpdate :: "(string \<times> ann) list" where
  "hints_StrategyUpdate =
     [(''revision'', AInt),
      (''candidates'', ATuple (ARec ''TargetCandidate'')),
      (''requires_accepted_labels'', ATuple AStr),
      (''strategy_complete'', ABool)]"

record TargetBinding =
  tb_local_label :: "str"
  tb_target_ref :: "str"
  tb_target_spec_binding :: "ContentBindingProof option"
  tb_target_spec_acceptance_receipt :: "ReceiptProof option"

definition pv_TargetBinding :: "TargetBinding \<Rightarrow> pval" where
  "pv_TargetBinding r = PRec ''TargetBinding''
     [(''local_label'', PStr (tb_local_label r)),
      (''target_ref'', PStr (tb_target_ref r)),
      (''target_spec_binding'', pv_opt pv_ContentBindingProof (tb_target_spec_binding r)),
      (''target_spec_acceptance_receipt'', pv_opt pv_ReceiptProof (tb_target_spec_acceptance_receipt r))]"

definition hints_TargetBinding :: "(string \<times> ann) list" where
  "hints_TargetBinding =
     [(''local_label'', AStr),
      (''target_ref'', AStr),
      (''target_spec_binding'', AUnion [ARec ''ContentBindingProof'', ANone]),
      (''target_spec_acceptance_receipt'', AUnion [ARec ''ReceiptProof'', ANone])]"

record AcceptedInputAssetProof =
  aiap_asset_ref :: "str"
  aiap_rm_acceptance_receipt :: "ReceiptProof"
  aiap_rg_role_receipt :: "ReceiptProof"

definition pv_AcceptedInputAssetProof :: "AcceptedInputAssetProof \<Rightarrow> pval" where
  "pv_AcceptedInputAssetProof r = PRec ''AcceptedInputAssetProof''
     [(''asset_ref'', PStr (aiap_asset_ref r)),
      (''rm_acceptance_receipt'', pv_ReceiptProof (aiap_rm_acceptance_receipt r)),
      (''rg_role_receipt'', pv_ReceiptProof (aiap_rg_role_receipt r))]"

definition hints_AcceptedInputAssetProof :: "(string \<times> ann) list" where
  "hints_AcceptedInputAssetProof =
     [(''asset_ref'', AStr),
      (''rm_acceptance_receipt'', ARec ''ReceiptProof''),
      (''rg_role_receipt'', ARec ''ReceiptProof'')]"

record TargetWorkHandle =
  twh_target_ref :: "str"
  twh_target_run_ref :: "str"
  twh_root_session_ref :: "str"
  twh_execution_attempt_ref :: "str"
  twh_execution_fence_ref :: "str"
  twh_execution_input_binding_ref :: "str"
  twh_execution_input_binding_receipt :: "ReceiptProof"
  twh_accepted_input_target_commit_refs :: "str list"
  twh_accepted_input_asset_proofs :: "AcceptedInputAssetProof list"
  twh_recoverable :: "bool"

definition pv_TargetWorkHandle :: "TargetWorkHandle \<Rightarrow> pval" where
  "pv_TargetWorkHandle r = PRec ''TargetWorkHandle''
     [(''target_ref'', PStr (twh_target_ref r)),
      (''target_run_ref'', PStr (twh_target_run_ref r)),
      (''root_session_ref'', PStr (twh_root_session_ref r)),
      (''execution_attempt_ref'', PStr (twh_execution_attempt_ref r)),
      (''execution_fence_ref'', PStr (twh_execution_fence_ref r)),
      (''execution_input_binding_ref'', PStr (twh_execution_input_binding_ref r)),
      (''execution_input_binding_receipt'', pv_ReceiptProof (twh_execution_input_binding_receipt r)),
      (''accepted_input_target_commit_refs'', pv_strs (twh_accepted_input_target_commit_refs r)),
      (''accepted_input_asset_proofs'', PTuple (map pv_AcceptedInputAssetProof (twh_accepted_input_asset_proofs r))),
      (''recoverable'', PBool (twh_recoverable r))]"

definition hints_TargetWorkHandle :: "(string \<times> ann) list" where
  "hints_TargetWorkHandle =
     [(''target_ref'', AStr),
      (''target_run_ref'', AStr),
      (''root_session_ref'', AStr),
      (''execution_attempt_ref'', AStr),
      (''execution_fence_ref'', AStr),
      (''execution_input_binding_ref'', AStr),
      (''execution_input_binding_receipt'', ARec ''ReceiptProof''),
      (''accepted_input_target_commit_refs'', ATuple AStr),
      (''accepted_input_asset_proofs'', ATuple (ARec ''AcceptedInputAssetProof'')),
      (''recoverable'', ABool)]"

record TargetLaunchRequest =
  tlr_target_ref :: "str"
  tlr_target_spec_binding :: "ContentBindingProof"
  tlr_target_spec_acceptance_receipt :: "ReceiptProof"
  tlr_accepted_input_target_commit_refs :: "str list"
  tlr_accepted_input_asset_refs :: "str list"
  tlr_recoverable_required :: "bool"

definition pv_TargetLaunchRequest :: "TargetLaunchRequest \<Rightarrow> pval" where
  "pv_TargetLaunchRequest r = PRec ''TargetLaunchRequest''
     [(''target_ref'', PStr (tlr_target_ref r)),
      (''target_spec_binding'', pv_ContentBindingProof (tlr_target_spec_binding r)),
      (''target_spec_acceptance_receipt'', pv_ReceiptProof (tlr_target_spec_acceptance_receipt r)),
      (''accepted_input_target_commit_refs'', pv_strs (tlr_accepted_input_target_commit_refs r)),
      (''accepted_input_asset_refs'', pv_strs (tlr_accepted_input_asset_refs r)),
      (''recoverable_required'', PBool (tlr_recoverable_required r))]"

definition hints_TargetLaunchRequest :: "(string \<times> ann) list" where
  "hints_TargetLaunchRequest =
     [(''target_ref'', AStr),
      (''target_spec_binding'', ARec ''ContentBindingProof''),
      (''target_spec_acceptance_receipt'', ARec ''ReceiptProof''),
      (''accepted_input_target_commit_refs'', ATuple AStr),
      (''accepted_input_asset_refs'', ATuple AStr),
      (''recoverable_required'', ABool)]"

record TargetLaunchAck =
  tla_target_ref :: "str"
  tla_operation_ref :: "str"

definition pv_TargetLaunchAck :: "TargetLaunchAck \<Rightarrow> pval" where
  "pv_TargetLaunchAck r = PRec ''TargetLaunchAck''
     [(''target_ref'', PStr (tla_target_ref r)),
      (''operation_ref'', PStr (tla_operation_ref r))]"

definition hints_TargetLaunchAck :: "(string \<times> ann) list" where
  "hints_TargetLaunchAck =
     [(''target_ref'', AStr),
      (''operation_ref'', AStr)]"

record TargetControlRequest =
  tcr_target_ref :: "str"
  tcr_intent_ref :: "str"

definition pv_TargetControlRequest :: "TargetControlRequest \<Rightarrow> pval" where
  "pv_TargetControlRequest r = PRec ''TargetControlRequest''
     [(''target_ref'', PStr (tcr_target_ref r)),
      (''intent_ref'', PStr (tcr_intent_ref r))]"

definition hints_TargetControlRequest :: "(string \<times> ann) list" where
  "hints_TargetControlRequest =
     [(''target_ref'', AStr),
      (''intent_ref'', AStr)]"

record TargetControlAck =
  tca_target_ref :: "str"
  tca_intent_ref :: "str"
  tca_operation_ref :: "str"

definition pv_TargetControlAck :: "TargetControlAck \<Rightarrow> pval" where
  "pv_TargetControlAck r = PRec ''TargetControlAck''
     [(''target_ref'', PStr (tca_target_ref r)),
      (''intent_ref'', PStr (tca_intent_ref r)),
      (''operation_ref'', PStr (tca_operation_ref r))]"

definition hints_TargetControlAck :: "(string \<times> ann) list" where
  "hints_TargetControlAck =
     [(''target_ref'', AStr),
      (''intent_ref'', AStr),
      (''operation_ref'', AStr)]"

record TargetFrontierEntry =
  tfe_target_ref :: "str"
  tfe_target_spec_binding :: "ContentBindingProof"
  tfe_target_spec_acceptance_receipt :: "ReceiptProof"
  tfe_state_revision :: "int"
  tfe_state :: "str"
  tfe_current_handle :: "TargetWorkHandle"
  tfe_terminal_fact_ref :: "str option"
  tfe_currentness_known :: "bool"
  tfe_current :: "bool"

definition pv_TargetFrontierEntry :: "TargetFrontierEntry \<Rightarrow> pval" where
  "pv_TargetFrontierEntry r = PRec ''TargetFrontierEntry''
     [(''target_ref'', PStr (tfe_target_ref r)),
      (''target_spec_binding'', pv_ContentBindingProof (tfe_target_spec_binding r)),
      (''target_spec_acceptance_receipt'', pv_ReceiptProof (tfe_target_spec_acceptance_receipt r)),
      (''state_revision'', PInt (tfe_state_revision r)),
      (''state'', PStr (tfe_state r)),
      (''current_handle'', pv_TargetWorkHandle (tfe_current_handle r)),
      (''terminal_fact_ref'', pv_opt PStr (tfe_terminal_fact_ref r)),
      (''currentness_known'', PBool (tfe_currentness_known r)),
      (''current'', PBool (tfe_current r))]"

definition hints_TargetFrontierEntry :: "(string \<times> ann) list" where
  "hints_TargetFrontierEntry =
     [(''target_ref'', AStr),
      (''target_spec_binding'', ARec ''ContentBindingProof''),
      (''target_spec_acceptance_receipt'', ARec ''ReceiptProof''),
      (''state_revision'', AInt),
      (''state'', AStr),
      (''current_handle'', ARec ''TargetWorkHandle''),
      (''terminal_fact_ref'', AUnion [AStr, ANone]),
      (''currentness_known'', ABool),
      (''current'', ABool)]"

record StopDecisionProof =
  sdp_stop_basis :: "str"
  sdp_decision_ref :: "str"
  sdp_target_ref :: "str"
  sdp_target_run_ref :: "str"
  sdp_execution_attempt_ref :: "str"
  sdp_frozen_rule_ref :: "str option"
  sdp_protocol_version_ref :: "str option"
  sdp_termination_receipt :: "ReceiptProof"
  sdp_process_tree_drained :: "bool"

definition pv_StopDecisionProof :: "StopDecisionProof \<Rightarrow> pval" where
  "pv_StopDecisionProof r = PRec ''StopDecisionProof''
     [(''stop_basis'', PStr (sdp_stop_basis r)),
      (''decision_ref'', PStr (sdp_decision_ref r)),
      (''target_ref'', PStr (sdp_target_ref r)),
      (''target_run_ref'', PStr (sdp_target_run_ref r)),
      (''execution_attempt_ref'', PStr (sdp_execution_attempt_ref r)),
      (''frozen_rule_ref'', pv_opt PStr (sdp_frozen_rule_ref r)),
      (''protocol_version_ref'', pv_opt PStr (sdp_protocol_version_ref r)),
      (''termination_receipt'', pv_ReceiptProof (sdp_termination_receipt r)),
      (''process_tree_drained'', PBool (sdp_process_tree_drained r))]"

definition hints_StopDecisionProof :: "(string \<times> ann) list" where
  "hints_StopDecisionProof =
     [(''stop_basis'', AStr),
      (''decision_ref'', AStr),
      (''target_ref'', AStr),
      (''target_run_ref'', AStr),
      (''execution_attempt_ref'', AStr),
      (''frozen_rule_ref'', AUnion [AStr, ANone]),
      (''protocol_version_ref'', AUnion [AStr, ANone]),
      (''termination_receipt'', ARec ''ReceiptProof''),
      (''process_tree_drained'', ABool)]"

record MonitorObservation =
  mo_target_ref :: "str"
  mo_target_run_ref :: "str"
  mo_execution_attempt_ref :: "str"
  mo_execution_fence_ref :: "str"
  mo_mode :: "str"
  mo_cursor :: "int"
  mo_after_cursor :: "int option"
  mo_status_revision :: "int"
  mo_after_status_revision :: "int option"
  mo_limit :: "int"
  mo_stop_decision :: "StopDecisionProof option"

definition pv_MonitorObservation :: "MonitorObservation \<Rightarrow> pval" where
  "pv_MonitorObservation r = PRec ''MonitorObservation''
     [(''target_ref'', PStr (mo_target_ref r)),
      (''target_run_ref'', PStr (mo_target_run_ref r)),
      (''execution_attempt_ref'', PStr (mo_execution_attempt_ref r)),
      (''execution_fence_ref'', PStr (mo_execution_fence_ref r)),
      (''mode'', PStr (mo_mode r)),
      (''cursor'', PInt (mo_cursor r)),
      (''after_cursor'', pv_opt PInt (mo_after_cursor r)),
      (''status_revision'', PInt (mo_status_revision r)),
      (''after_status_revision'', pv_opt PInt (mo_after_status_revision r)),
      (''limit'', PInt (mo_limit r)),
      (''stop_decision'', pv_opt pv_StopDecisionProof (mo_stop_decision r))]"

definition hints_MonitorObservation :: "(string \<times> ann) list" where
  "hints_MonitorObservation =
     [(''target_ref'', AStr),
      (''target_run_ref'', AStr),
      (''execution_attempt_ref'', AStr),
      (''execution_fence_ref'', AStr),
      (''mode'', AStr),
      (''cursor'', AInt),
      (''after_cursor'', AUnion [AInt, ANone]),
      (''status_revision'', AInt),
      (''after_status_revision'', AUnion [AInt, ANone]),
      (''limit'', AInt),
      (''stop_decision'', AUnion [ARec ''StopDecisionProof'', ANone])]"

record TechnicalBlocker =
  tbl_target_ref :: "str"
  tbl_target_run_ref :: "str"
  tbl_execution_attempt_ref :: "str"
  tbl_execution_fence_ref :: "str"
  tbl_blocker_ref :: "str"
  tbl_blocker_receipt :: "ReceiptProof"
  tbl_reason :: "str"
  tbl_recovery_ready :: "bool"
  tbl_old_session_fenced :: "bool"
  tbl_recovery_pack_complete :: "bool"
  tbl_recovery_receipt :: "ReceiptProof option"
  tbl_replacement_implementation_revision_ref :: "str option"
  tbl_bundle_decision_required :: "bool"
  tbl_escalation_scope :: "str option"
  tbl_pending_obligation_refs :: "str list"
  tbl_escalation_evidence :: "ContentBindingProof option"
  tbl_escalation_receipt :: "ReceiptProof option"

definition pv_TechnicalBlocker :: "TechnicalBlocker \<Rightarrow> pval" where
  "pv_TechnicalBlocker r = PRec ''TechnicalBlocker''
     [(''target_ref'', PStr (tbl_target_ref r)),
      (''target_run_ref'', PStr (tbl_target_run_ref r)),
      (''execution_attempt_ref'', PStr (tbl_execution_attempt_ref r)),
      (''execution_fence_ref'', PStr (tbl_execution_fence_ref r)),
      (''blocker_ref'', PStr (tbl_blocker_ref r)),
      (''blocker_receipt'', pv_ReceiptProof (tbl_blocker_receipt r)),
      (''reason'', PStr (tbl_reason r)),
      (''recovery_ready'', PBool (tbl_recovery_ready r)),
      (''old_session_fenced'', PBool (tbl_old_session_fenced r)),
      (''recovery_pack_complete'', PBool (tbl_recovery_pack_complete r)),
      (''recovery_receipt'', pv_opt pv_ReceiptProof (tbl_recovery_receipt r)),
      (''replacement_implementation_revision_ref'', pv_opt PStr (tbl_replacement_implementation_revision_ref r)),
      (''bundle_decision_required'', PBool (tbl_bundle_decision_required r)),
      (''escalation_scope'', pv_opt PStr (tbl_escalation_scope r)),
      (''pending_obligation_refs'', pv_strs (tbl_pending_obligation_refs r)),
      (''escalation_evidence'', pv_opt pv_ContentBindingProof (tbl_escalation_evidence r)),
      (''escalation_receipt'', pv_opt pv_ReceiptProof (tbl_escalation_receipt r))]"

definition hints_TechnicalBlocker :: "(string \<times> ann) list" where
  "hints_TechnicalBlocker =
     [(''target_ref'', AStr),
      (''target_run_ref'', AStr),
      (''execution_attempt_ref'', AStr),
      (''execution_fence_ref'', AStr),
      (''blocker_ref'', AStr),
      (''blocker_receipt'', ARec ''ReceiptProof''),
      (''reason'', AStr),
      (''recovery_ready'', ABool),
      (''old_session_fenced'', ABool),
      (''recovery_pack_complete'', ABool),
      (''recovery_receipt'', AUnion [ARec ''ReceiptProof'', ANone]),
      (''replacement_implementation_revision_ref'', AUnion [AStr, ANone]),
      (''bundle_decision_required'', ABool),
      (''escalation_scope'', AUnion [AStr, ANone]),
      (''pending_obligation_refs'', ATuple AStr),
      (''escalation_evidence'', AUnion [ARec ''ContentBindingProof'', ANone]),
      (''escalation_receipt'', AUnion [ARec ''ReceiptProof'', ANone])]"

record ExecutionInputBindingProof =
  eibp_binding_ref :: "str"
  eibp_subject_ref :: "str"
  eibp_input_refs :: "str list"
  eibp_acceptance_receipt :: "ReceiptProof"

definition pv_ExecutionInputBindingProof :: "ExecutionInputBindingProof \<Rightarrow> pval" where
  "pv_ExecutionInputBindingProof r = PRec ''ExecutionInputBindingProof''
     [(''binding_ref'', PStr (eibp_binding_ref r)),
      (''subject_ref'', PStr (eibp_subject_ref r)),
      (''input_refs'', pv_strs (eibp_input_refs r)),
      (''acceptance_receipt'', pv_ReceiptProof (eibp_acceptance_receipt r))]"

definition hints_ExecutionInputBindingProof :: "(string \<times> ann) list" where
  "hints_ExecutionInputBindingProof =
     [(''binding_ref'', AStr),
      (''subject_ref'', AStr),
      (''input_refs'', ATuple AStr),
      (''acceptance_receipt'', ARec ''ReceiptProof'')]"

record AcceptedMeasurementClosure =
  amc_target_ref :: "str"
  amc_target_run_ref :: "str"
  amc_target_commit_ref :: "str"
  amc_experiment_keys :: "str list"
  amc_measurement_unit_key :: "str"
  amc_variant_run_ref :: "str"
  amc_evaluation_ref :: "str"
  amc_protocol_version_ref :: "str"
  amc_evaluation_attempt_ref :: "str option"
  amc_metric_result_ref :: "str option"
  amc_metric_values :: "json list"
  amc_asset_manifest_ref :: "str"
  amc_execution_attempt_ref :: "str"
  amc_execution_fence_ref :: "str"
  amc_checkpoint_artifact_refs :: "str list"
  amc_implementation_revision_ref :: "str"
  amc_held_fixed_bindings :: "HeldFixedBinding list"
  amc_implementation_provenance_refs :: "str list"
  amc_variant_run_input_binding :: "ExecutionInputBindingProof"
  amc_evaluation_attempt_input_binding :: "ExecutionInputBindingProof option"
  amc_rm_asset_receipt :: "ReceiptProof"
  amc_ar_execution_receipt :: "ReceiptProof"
  amc_rg_formal_measurement_receipt :: "ReceiptProof option"
  amc_rg_target_commit_receipt :: "ReceiptProof"
  amc_code_review :: "CodeReviewRecord option"
  amc_result_review :: "ResultReviewRecord option"
  amc_formal_measurement_accepted :: "bool"
  amc_currentness_known :: "bool"
  amc_current :: "bool"
  amc_root_completion_receipt :: "ReceiptProof option"
  amc_protocol_internal_parts :: "ProtocolPart list"
  amc_protocol_aggregation_proof :: "ProtocolAggregationProof option"

definition pv_AcceptedMeasurementClosure :: "AcceptedMeasurementClosure \<Rightarrow> pval" where
  "pv_AcceptedMeasurementClosure r = PRec ''AcceptedMeasurementClosure''
     [(''target_ref'', PStr (amc_target_ref r)),
      (''target_run_ref'', PStr (amc_target_run_ref r)),
      (''target_commit_ref'', PStr (amc_target_commit_ref r)),
      (''experiment_keys'', pv_strs (amc_experiment_keys r)),
      (''measurement_unit_key'', PStr (amc_measurement_unit_key r)),
      (''variant_run_ref'', PStr (amc_variant_run_ref r)),
      (''evaluation_ref'', PStr (amc_evaluation_ref r)),
      (''protocol_version_ref'', PStr (amc_protocol_version_ref r)),
      (''evaluation_attempt_ref'', pv_opt PStr (amc_evaluation_attempt_ref r)),
      (''metric_result_ref'', pv_opt PStr (amc_metric_result_ref r)),
      (''metric_values'', PTuple (map PJson (amc_metric_values r))),
      (''asset_manifest_ref'', PStr (amc_asset_manifest_ref r)),
      (''execution_attempt_ref'', PStr (amc_execution_attempt_ref r)),
      (''execution_fence_ref'', PStr (amc_execution_fence_ref r)),
      (''checkpoint_artifact_refs'', pv_strs (amc_checkpoint_artifact_refs r)),
      (''implementation_revision_ref'', PStr (amc_implementation_revision_ref r)),
      (''held_fixed_bindings'', PTuple (map pv_HeldFixedBinding (amc_held_fixed_bindings r))),
      (''implementation_provenance_refs'', pv_strs (amc_implementation_provenance_refs r)),
      (''variant_run_input_binding'', pv_ExecutionInputBindingProof (amc_variant_run_input_binding r)),
      (''evaluation_attempt_input_binding'', pv_opt pv_ExecutionInputBindingProof (amc_evaluation_attempt_input_binding r)),
      (''rm_asset_receipt'', pv_ReceiptProof (amc_rm_asset_receipt r)),
      (''ar_execution_receipt'', pv_ReceiptProof (amc_ar_execution_receipt r)),
      (''rg_formal_measurement_receipt'', pv_opt pv_ReceiptProof (amc_rg_formal_measurement_receipt r)),
      (''rg_target_commit_receipt'', pv_ReceiptProof (amc_rg_target_commit_receipt r)),
      (''code_review'', pv_opt pv_CodeReviewRecord (amc_code_review r)),
      (''result_review'', pv_opt pv_ResultReviewRecord (amc_result_review r)),
      (''formal_measurement_accepted'', PBool (amc_formal_measurement_accepted r)),
      (''currentness_known'', PBool (amc_currentness_known r)),
      (''current'', PBool (amc_current r)),
      (''root_completion_receipt'', pv_opt pv_ReceiptProof (amc_root_completion_receipt r)),
      (''protocol_internal_parts'', PTuple (map pv_ProtocolPart (amc_protocol_internal_parts r))),
      (''protocol_aggregation_proof'', pv_opt pv_ProtocolAggregationProof (amc_protocol_aggregation_proof r))]"

definition hints_AcceptedMeasurementClosure :: "(string \<times> ann) list" where
  "hints_AcceptedMeasurementClosure =
     [(''target_ref'', AStr),
      (''target_run_ref'', AStr),
      (''target_commit_ref'', AStr),
      (''experiment_keys'', ATuple AStr),
      (''measurement_unit_key'', AStr),
      (''variant_run_ref'', AStr),
      (''evaluation_ref'', AStr),
      (''protocol_version_ref'', AStr),
      (''evaluation_attempt_ref'', AUnion [AStr, ANone]),
      (''metric_result_ref'', AUnion [AStr, ANone]),
      (''metric_values'', AMetric),
      (''asset_manifest_ref'', AStr),
      (''execution_attempt_ref'', AStr),
      (''execution_fence_ref'', AStr),
      (''checkpoint_artifact_refs'', ATuple AStr),
      (''implementation_revision_ref'', AStr),
      (''held_fixed_bindings'', ATuple (ARec ''HeldFixedBinding'')),
      (''implementation_provenance_refs'', ATuple AStr),
      (''variant_run_input_binding'', ARec ''ExecutionInputBindingProof''),
      (''evaluation_attempt_input_binding'', AUnion [ARec ''ExecutionInputBindingProof'', ANone]),
      (''rm_asset_receipt'', ARec ''ReceiptProof''),
      (''ar_execution_receipt'', ARec ''ReceiptProof''),
      (''rg_formal_measurement_receipt'', AUnion [ARec ''ReceiptProof'', ANone]),
      (''rg_target_commit_receipt'', ARec ''ReceiptProof''),
      (''code_review'', AUnion [ARec ''CodeReviewRecord'', ANone]),
      (''result_review'', AUnion [ARec ''ResultReviewRecord'', ANone]),
      (''formal_measurement_accepted'', ABool),
      (''currentness_known'', ABool),
      (''current'', ABool),
      (''root_completion_receipt'', AUnion [ARec ''ReceiptProof'', ANone]),
      (''protocol_internal_parts'', ATuple (ARec ''ProtocolPart'')),
      (''protocol_aggregation_proof'', AUnion [ARec ''ProtocolAggregationProof'', ANone])]"

record ExternalOperationReconciliation =
  eor_operation_ref :: "str"
  eor_receipt :: "ReceiptProof"
  eor_outcome :: "str"

definition pv_ExternalOperationReconciliation :: "ExternalOperationReconciliation \<Rightarrow> pval" where
  "pv_ExternalOperationReconciliation r = PRec ''ExternalOperationReconciliation''
     [(''operation_ref'', PStr (eor_operation_ref r)),
      (''receipt'', pv_ReceiptProof (eor_receipt r)),
      (''outcome'', PStr (eor_outcome r))]"

definition hints_ExternalOperationReconciliation :: "(string \<times> ann) list" where
  "hints_ExternalOperationReconciliation =
     [(''operation_ref'', AStr),
      (''receipt'', ARec ''ReceiptProof''),
      (''outcome'', AStr)]"

record RouteDisposition =
  rd_disposition_ref :: "str"
  rd_route_ref :: "str"
  rd_experiment_keys :: "str list"
  rd_outcome :: "str"
  rd_required_changes :: "str list"
  rd_evidence_refs :: "str list"
  rd_external_reconciliations :: "ExternalOperationReconciliation list"

definition pv_RouteDisposition :: "RouteDisposition \<Rightarrow> pval" where
  "pv_RouteDisposition r = PRec ''RouteDisposition''
     [(''disposition_ref'', PStr (rd_disposition_ref r)),
      (''route_ref'', PStr (rd_route_ref r)),
      (''experiment_keys'', pv_strs (rd_experiment_keys r)),
      (''outcome'', PStr (rd_outcome r)),
      (''required_changes'', pv_strs (rd_required_changes r)),
      (''evidence_refs'', pv_strs (rd_evidence_refs r)),
      (''external_reconciliations'', PTuple (map pv_ExternalOperationReconciliation (rd_external_reconciliations r)))]"

definition hints_RouteDisposition :: "(string \<times> ann) list" where
  "hints_RouteDisposition =
     [(''disposition_ref'', AStr),
      (''route_ref'', AStr),
      (''experiment_keys'', ATuple AStr),
      (''outcome'', AStr),
      (''required_changes'', ATuple AStr),
      (''evidence_refs'', ATuple AStr),
      (''external_reconciliations'', ATuple (ARec ''ExternalOperationReconciliation''))]"

record SemanticBarrier =
  sb_target_ref :: "str"
  sb_target_run_ref :: "str"
  sb_execution_attempt_ref :: "str"
  sb_execution_fence_ref :: "str"
  sb_experiment_keys :: "str list"
  sb_reason :: "str"
  sb_route_dispositions :: "RouteDisposition list"

definition pv_SemanticBarrier :: "SemanticBarrier \<Rightarrow> pval" where
  "pv_SemanticBarrier r = PRec ''SemanticBarrier''
     [(''target_ref'', PStr (sb_target_ref r)),
      (''target_run_ref'', PStr (sb_target_run_ref r)),
      (''execution_attempt_ref'', PStr (sb_execution_attempt_ref r)),
      (''execution_fence_ref'', PStr (sb_execution_fence_ref r)),
      (''experiment_keys'', pv_strs (sb_experiment_keys r)),
      (''reason'', PStr (sb_reason r)),
      (''route_dispositions'', PTuple (map pv_RouteDisposition (sb_route_dispositions r)))]"

definition hints_SemanticBarrier :: "(string \<times> ann) list" where
  "hints_SemanticBarrier =
     [(''target_ref'', AStr),
      (''target_run_ref'', AStr),
      (''execution_attempt_ref'', AStr),
      (''execution_fence_ref'', AStr),
      (''experiment_keys'', ATuple AStr),
      (''reason'', AStr),
      (''route_dispositions'', ATuple (ARec ''RouteDisposition''))]"

record GoalWorkDisposition =
  gwd_disposition :: "str"
  gwd_target_ref :: "str"
  gwd_target_run_ref :: "str"
  gwd_execution_attempt_ref :: "str option"
  gwd_execution_fence_ref :: "str option"
  gwd_terminal_fact_ref :: "str"
  gwd_goal_work_intent_ref :: "str"
  gwd_goal_revision_ref :: "str"
  gwd_goal_revision_receipt_ref :: "str"
  gwd_goal_revision_receipt_hash :: "str"
  gwd_reason :: "str"
  gwd_retention_kind :: "str option"
  gwd_custody_refs :: "str list"

definition pv_GoalWorkDisposition :: "GoalWorkDisposition \<Rightarrow> pval" where
  "pv_GoalWorkDisposition r = PRec ''GoalWorkDisposition''
     [(''disposition'', PStr (gwd_disposition r)),
      (''target_ref'', PStr (gwd_target_ref r)),
      (''target_run_ref'', PStr (gwd_target_run_ref r)),
      (''execution_attempt_ref'', pv_opt PStr (gwd_execution_attempt_ref r)),
      (''execution_fence_ref'', pv_opt PStr (gwd_execution_fence_ref r)),
      (''terminal_fact_ref'', PStr (gwd_terminal_fact_ref r)),
      (''goal_work_intent_ref'', PStr (gwd_goal_work_intent_ref r)),
      (''goal_revision_ref'', PStr (gwd_goal_revision_ref r)),
      (''goal_revision_receipt_ref'', PStr (gwd_goal_revision_receipt_ref r)),
      (''goal_revision_receipt_hash'', PStr (gwd_goal_revision_receipt_hash r)),
      (''reason'', PStr (gwd_reason r)),
      (''retention_kind'', pv_opt PStr (gwd_retention_kind r)),
      (''custody_refs'', pv_strs (gwd_custody_refs r))]"

definition hints_GoalWorkDisposition :: "(string \<times> ann) list" where
  "hints_GoalWorkDisposition =
     [(''disposition'', AStr),
      (''target_ref'', AStr),
      (''target_run_ref'', AStr),
      (''execution_attempt_ref'', AUnion [AStr, ANone]),
      (''execution_fence_ref'', AUnion [AStr, ANone]),
      (''terminal_fact_ref'', AStr),
      (''goal_work_intent_ref'', AStr),
      (''goal_revision_ref'', AStr),
      (''goal_revision_receipt_ref'', AStr),
      (''goal_revision_receipt_hash'', AStr),
      (''reason'', AStr),
      (''retention_kind'', AUnion [AStr, ANone]),
      (''custody_refs'', ATuple AStr)]"

text \<open>\<open>TargetTerminal\<close>: how a Target run can end.\<close>

datatype TargetTerminal =
    Term_TechnicalBlocker TechnicalBlocker
  | Term_AcceptedMeasurementClosure AcceptedMeasurementClosure
  | Term_SemanticBarrier SemanticBarrier
  | Term_GoalWorkDisposition GoalWorkDisposition

fun pv_TargetTerminal :: "TargetTerminal \<Rightarrow> pval" where
  "pv_TargetTerminal (Term_TechnicalBlocker x) = pv_TechnicalBlocker x"
| "pv_TargetTerminal (Term_AcceptedMeasurementClosure x) = pv_AcceptedMeasurementClosure x"
| "pv_TargetTerminal (Term_SemanticBarrier x) = pv_SemanticBarrier x"
| "pv_TargetTerminal (Term_GoalWorkDisposition x) = pv_GoalWorkDisposition x"

record TargetRunHandoff =
  trh_handle_history :: "TargetWorkHandle list"
  trh_code_review_preflights :: "TargetExecutionPreflight list"
  trh_stop_decisions :: "StopDecisionProof list"
  trh_recovered_blockers :: "TechnicalBlocker list"
  trh_recovery_evidence_refs :: "str list"
  trh_terminal :: "TargetTerminal"

definition pv_TargetRunHandoff :: "TargetRunHandoff \<Rightarrow> pval" where
  "pv_TargetRunHandoff r = PRec ''TargetRunHandoff''
     [(''handle_history'', PTuple (map pv_TargetWorkHandle (trh_handle_history r))),
      (''code_review_preflights'', PTuple (map pv_TargetExecutionPreflight (trh_code_review_preflights r))),
      (''stop_decisions'', PTuple (map pv_StopDecisionProof (trh_stop_decisions r))),
      (''recovered_blockers'', PTuple (map pv_TechnicalBlocker (trh_recovered_blockers r))),
      (''recovery_evidence_refs'', pv_strs (trh_recovery_evidence_refs r)),
      (''terminal'', pv_TargetTerminal (trh_terminal r))]"

definition hints_TargetRunHandoff :: "(string \<times> ann) list" where
  "hints_TargetRunHandoff =
     [(''handle_history'', ATuple (ARec ''TargetWorkHandle'')),
      (''code_review_preflights'', ATuple (ARec ''TargetExecutionPreflight'')),
      (''stop_decisions'', ATuple (ARec ''StopDecisionProof'')),
      (''recovered_blockers'', ATuple (ARec ''TechnicalBlocker'')),
      (''recovery_evidence_refs'', ATuple AStr),
      (''terminal'', AUnion [ARec ''TechnicalBlocker'', ARec ''AcceptedMeasurementClosure'', ARec ''SemanticBarrier'', ARec ''GoalWorkDisposition''])]"

record TargetWorkNotice =
  twn_notice_ref :: "str"
  twn_sequence :: "int"
  twn_terminal_transition_ref :: "str"
  twn_kind :: "str"
  twn_target_ref :: "str"
  twn_target_run_ref :: "str"
  twn_execution_attempt_ref :: "str option"
  twn_execution_fence_ref :: "str option"
  twn_terminal_fact_ref :: "str"
  twn_handoff_manifest_ref :: "str"
  twn_handoff_manifest_sha256 :: "str"
  twn_compact_reason :: "str"
  twn_pending_obligation_refs :: "str list"
  twn_payload_sha256 :: "str"

definition pv_TargetWorkNotice :: "TargetWorkNotice \<Rightarrow> pval" where
  "pv_TargetWorkNotice r = PRec ''TargetWorkNotice''
     [(''notice_ref'', PStr (twn_notice_ref r)),
      (''sequence'', PInt (twn_sequence r)),
      (''terminal_transition_ref'', PStr (twn_terminal_transition_ref r)),
      (''kind'', PStr (twn_kind r)),
      (''target_ref'', PStr (twn_target_ref r)),
      (''target_run_ref'', PStr (twn_target_run_ref r)),
      (''execution_attempt_ref'', pv_opt PStr (twn_execution_attempt_ref r)),
      (''execution_fence_ref'', pv_opt PStr (twn_execution_fence_ref r)),
      (''terminal_fact_ref'', PStr (twn_terminal_fact_ref r)),
      (''handoff_manifest_ref'', PStr (twn_handoff_manifest_ref r)),
      (''handoff_manifest_sha256'', PStr (twn_handoff_manifest_sha256 r)),
      (''compact_reason'', PStr (twn_compact_reason r)),
      (''pending_obligation_refs'', pv_strs (twn_pending_obligation_refs r)),
      (''payload_sha256'', PStr (twn_payload_sha256 r))]"

definition hints_TargetWorkNotice :: "(string \<times> ann) list" where
  "hints_TargetWorkNotice =
     [(''notice_ref'', AStr),
      (''sequence'', AInt),
      (''terminal_transition_ref'', AStr),
      (''kind'', AStr),
      (''target_ref'', AStr),
      (''target_run_ref'', AStr),
      (''execution_attempt_ref'', AUnion [AStr, ANone]),
      (''execution_fence_ref'', AUnion [AStr, ANone]),
      (''terminal_fact_ref'', AStr),
      (''handoff_manifest_ref'', AStr),
      (''handoff_manifest_sha256'', AStr),
      (''compact_reason'', AStr),
      (''pending_obligation_refs'', ATuple AStr),
      (''payload_sha256'', AStr)]"

record BundleInboxBatch =
  bib_after_cursor :: "int"
  bib_next_cursor :: "int"
  bib_generation :: "int"
  bib_notices :: "TargetWorkNotice list"

definition pv_BundleInboxBatch :: "BundleInboxBatch \<Rightarrow> pval" where
  "pv_BundleInboxBatch r = PRec ''BundleInboxBatch''
     [(''after_cursor'', PInt (bib_after_cursor r)),
      (''next_cursor'', PInt (bib_next_cursor r)),
      (''generation'', PInt (bib_generation r)),
      (''notices'', PTuple (map pv_TargetWorkNotice (bib_notices r)))]"

definition hints_BundleInboxBatch :: "(string \<times> ann) list" where
  "hints_BundleInboxBatch =
     [(''after_cursor'', AInt),
      (''next_cursor'', AInt),
      (''generation'', AInt),
      (''notices'', ATuple (ARec ''TargetWorkNotice''))]"

record BundlePause =
  bp_stage_request_ref :: "str"
  bp_formal_plan_ref :: "str"
  bp_inbox_cursor :: "int"
  bp_inbox_generation :: "int"
  bp_active_target_refs :: "str list"
  bp_reason :: "str"

definition pv_BundlePause :: "BundlePause \<Rightarrow> pval" where
  "pv_BundlePause r = PRec ''BundlePause''
     [(''stage_request_ref'', PStr (bp_stage_request_ref r)),
      (''formal_plan_ref'', PStr (bp_formal_plan_ref r)),
      (''inbox_cursor'', PInt (bp_inbox_cursor r)),
      (''inbox_generation'', PInt (bp_inbox_generation r)),
      (''active_target_refs'', pv_strs (bp_active_target_refs r)),
      (''reason'', PStr (bp_reason r))]"

definition hints_BundlePause :: "(string \<times> ann) list" where
  "hints_BundlePause =
     [(''stage_request_ref'', AStr),
      (''formal_plan_ref'', AStr),
      (''inbox_cursor'', AInt),
      (''inbox_generation'', AInt),
      (''active_target_refs'', ATuple AStr),
      (''reason'', AStr)]"

record BundleReport =
  br_disposition :: "str"
  br_stage_request_ref :: "str"
  br_formal_plan_ref :: "str"
  br_accepted_target_commit_refs :: "str list"
  br_accepted_evaluation_attempt_refs :: "str list"
  br_metric_result_refs :: "str list"
  br_execution_attempt_refs :: "str list"
  br_execution_fence_refs :: "str list"
  br_checkpoint_artifact_refs :: "str list"
  br_realized_experiment_keys :: "str list"
  br_remaining_experiment_keys :: "str list"
  br_blocker_refs :: "str list"
  br_semantic_change_required :: "str list"
  br_evidence_refs :: "str list"
  br_route_disposition_refs :: "str list"
  br_reconciliation_receipt_refs :: "str list"
  br_owner_receipt_refs :: "str list"
  br_stop_decision_refs :: "str list"
  br_recovery_evidence_refs :: "str list"
  br_code_review_preflights :: "TargetExecutionPreflight list"
  br_code_review_refs :: "str list"
  br_result_reviews :: "ResultReviewRecord list"
  br_result_review_refs :: "str list"
  br_reviewer_session_refs :: "str list"
  br_reviewer_spawn_evidence_refs :: "str list"
  br_provenance :: "(str \<times> str list) list"

definition pv_BundleReport :: "BundleReport \<Rightarrow> pval" where
  "pv_BundleReport r = PRec ''BundleReport''
     [(''disposition'', PStr (br_disposition r)),
      (''stage_request_ref'', PStr (br_stage_request_ref r)),
      (''formal_plan_ref'', PStr (br_formal_plan_ref r)),
      (''accepted_target_commit_refs'', pv_strs (br_accepted_target_commit_refs r)),
      (''accepted_evaluation_attempt_refs'', pv_strs (br_accepted_evaluation_attempt_refs r)),
      (''metric_result_refs'', pv_strs (br_metric_result_refs r)),
      (''execution_attempt_refs'', pv_strs (br_execution_attempt_refs r)),
      (''execution_fence_refs'', pv_strs (br_execution_fence_refs r)),
      (''checkpoint_artifact_refs'', pv_strs (br_checkpoint_artifact_refs r)),
      (''realized_experiment_keys'', pv_strs (br_realized_experiment_keys r)),
      (''remaining_experiment_keys'', pv_strs (br_remaining_experiment_keys r)),
      (''blocker_refs'', pv_strs (br_blocker_refs r)),
      (''semantic_change_required'', pv_strs (br_semantic_change_required r)),
      (''evidence_refs'', pv_strs (br_evidence_refs r)),
      (''route_disposition_refs'', pv_strs (br_route_disposition_refs r)),
      (''reconciliation_receipt_refs'', pv_strs (br_reconciliation_receipt_refs r)),
      (''owner_receipt_refs'', pv_strs (br_owner_receipt_refs r)),
      (''stop_decision_refs'', pv_strs (br_stop_decision_refs r)),
      (''recovery_evidence_refs'', pv_strs (br_recovery_evidence_refs r)),
      (''code_review_preflights'', PTuple (map pv_TargetExecutionPreflight (br_code_review_preflights r))),
      (''code_review_refs'', pv_strs (br_code_review_refs r)),
      (''result_reviews'', PTuple (map pv_ResultReviewRecord (br_result_reviews r))),
      (''result_review_refs'', pv_strs (br_result_review_refs r)),
      (''reviewer_session_refs'', pv_strs (br_reviewer_session_refs r)),
      (''reviewer_spawn_evidence_refs'', pv_strs (br_reviewer_spawn_evidence_refs r)),
      (''provenance'', PTuple (map (\<lambda>p. PTuple [PStr (fst p), pv_strs (snd p)]) (br_provenance r)))]"

definition hints_BundleReport :: "(string \<times> ann) list" where
  "hints_BundleReport =
     [(''disposition'', AStr),
      (''stage_request_ref'', AStr),
      (''formal_plan_ref'', AStr),
      (''accepted_target_commit_refs'', ATuple AStr),
      (''accepted_evaluation_attempt_refs'', ATuple AStr),
      (''metric_result_refs'', ATuple AStr),
      (''execution_attempt_refs'', ATuple AStr),
      (''execution_fence_refs'', ATuple AStr),
      (''checkpoint_artifact_refs'', ATuple AStr),
      (''realized_experiment_keys'', ATuple AStr),
      (''remaining_experiment_keys'', ATuple AStr),
      (''blocker_refs'', ATuple AStr),
      (''semantic_change_required'', ATuple AStr),
      (''evidence_refs'', ATuple AStr),
      (''route_disposition_refs'', ATuple AStr),
      (''reconciliation_receipt_refs'', ATuple AStr),
      (''owner_receipt_refs'', ATuple AStr),
      (''stop_decision_refs'', ATuple AStr),
      (''recovery_evidence_refs'', ATuple AStr),
      (''code_review_preflights'', ATuple (ARec ''TargetExecutionPreflight'')),
      (''code_review_refs'', ATuple AStr),
      (''result_reviews'', ATuple (ARec ''ResultReviewRecord'')),
      (''result_review_refs'', ATuple AStr),
      (''reviewer_session_refs'', ATuple AStr),
      (''reviewer_spawn_evidence_refs'', ATuple AStr),
      (''provenance'', ATuple (AFixed [AStr, ATuple AStr]))]"

text \<open>The annotations, by type name: the canonical types and their fields.\<close>

definition type_hints :: "(string \<times> (string \<times> ann) list) list" where
  "type_hints =
    [(''StageRunRequest'', hints_StageRunRequest),
     (''HeldFixedBinding'', hints_HeldFixedBinding),
     (''ContentBindingProof'', hints_ContentBindingProof),
     (''ReceiptProof'', hints_ReceiptProof),
     (''ExperimentBrief'', hints_ExperimentBrief),
     (''FormalPlan'', hints_FormalPlan),
     (''CodeReviewRecord'', hints_CodeReviewRecord),
     (''RevisionEvidenceProof'', hints_RevisionEvidenceProof),
     (''ResultReviewRecord'', hints_ResultReviewRecord),
     (''CodeReviewScope'', hints_CodeReviewScope),
     (''TargetExecutionPreflight'', hints_TargetExecutionPreflight),
     (''ProtocolAggregationProof'', hints_ProtocolAggregationProof),
     (''ProtocolPart'', hints_ProtocolPart),
     (''RouteSpec'', hints_RouteSpec),
     (''TargetCandidate'', hints_TargetCandidate),
     (''StrategyUpdate'', hints_StrategyUpdate),
     (''TargetBinding'', hints_TargetBinding),
     (''AcceptedInputAssetProof'', hints_AcceptedInputAssetProof),
     (''TargetWorkHandle'', hints_TargetWorkHandle),
     (''TargetLaunchRequest'', hints_TargetLaunchRequest),
     (''TargetLaunchAck'', hints_TargetLaunchAck),
     (''TargetControlRequest'', hints_TargetControlRequest),
     (''TargetControlAck'', hints_TargetControlAck),
     (''TargetFrontierEntry'', hints_TargetFrontierEntry),
     (''StopDecisionProof'', hints_StopDecisionProof),
     (''MonitorObservation'', hints_MonitorObservation),
     (''TechnicalBlocker'', hints_TechnicalBlocker),
     (''ExecutionInputBindingProof'', hints_ExecutionInputBindingProof),
     (''AcceptedMeasurementClosure'', hints_AcceptedMeasurementClosure),
     (''ExternalOperationReconciliation'', hints_ExternalOperationReconciliation),
     (''RouteDisposition'', hints_RouteDisposition),
     (''SemanticBarrier'', hints_SemanticBarrier),
     (''GoalWorkDisposition'', hints_GoalWorkDisposition),
     (''TargetRunHandoff'', hints_TargetRunHandoff),
     (''TargetWorkNotice'', hints_TargetWorkNotice),
     (''BundleInboxBatch'', hints_BundleInboxBatch),
     (''BundlePause'', hints_BundlePause),
     (''BundleReport'', hints_BundleReport)]"

lemmas hint_tables =
  type_hints_def
  hints_StageRunRequest_def
  hints_HeldFixedBinding_def
  hints_ContentBindingProof_def
  hints_ReceiptProof_def
  hints_ExperimentBrief_def
  hints_FormalPlan_def
  hints_CodeReviewRecord_def
  hints_RevisionEvidenceProof_def
  hints_ResultReviewRecord_def
  hints_CodeReviewScope_def
  hints_TargetExecutionPreflight_def
  hints_ProtocolAggregationProof_def
  hints_ProtocolPart_def
  hints_RouteSpec_def
  hints_TargetCandidate_def
  hints_StrategyUpdate_def
  hints_TargetBinding_def
  hints_AcceptedInputAssetProof_def
  hints_TargetWorkHandle_def
  hints_TargetLaunchRequest_def
  hints_TargetLaunchAck_def
  hints_TargetControlRequest_def
  hints_TargetControlAck_def
  hints_TargetFrontierEntry_def
  hints_StopDecisionProof_def
  hints_MonitorObservation_def
  hints_TechnicalBlocker_def
  hints_ExecutionInputBindingProof_def
  hints_AcceptedMeasurementClosure_def
  hints_ExternalOperationReconciliation_def
  hints_RouteDisposition_def
  hints_SemanticBarrier_def
  hints_GoalWorkDisposition_def
  hints_TargetRunHandoff_def
  hints_TargetWorkNotice_def
  hints_BundleInboxBatch_def
  hints_BundlePause_def
  hints_BundleReport_def

end
