(* ===== verification/BundleProjection.thy ===== *)
theory BundleProjection
  imports BundleRecords PlanLimits OwnersCommon
begin

text \<open>
  The validators of \<open>src/meta_research/bundle_protocol.py\<close>: the closed projection (every
  Bundle-facing record is walked once, its types checked against its annotations and its size
  against three budgets, then hashed as canonical JSON), and the admission rules of the records
  that cross a boundary: receipts, launch envelopes, work notices, inbox batches, handoffs,
  goal dispositions and reports.
\<close>

definition BUNDLE_ROOT_MAX_SERIALIZED_BYTES :: int where
  "BUNDLE_ROOT_MAX_SERIALIZED_BYTES = 8 * 1024 * 1024"

definition BUNDLE_ROOT_MAX_NODES :: nat where
  "BUNDLE_ROOT_MAX_NODES = 65536"

definition BUNDLE_PROJECTION_STRING_MAX_UTF8_BYTES :: nat where
  "BUNDLE_PROJECTION_STRING_MAX_UTF8_BYTES = 4096"

definition BUNDLE_PROJECTION_MAX_TUPLE_ITEMS :: nat where
  "BUNDLE_PROJECTION_MAX_TUPLE_ITEMS = 1024"

definition BUNDLE_CANONICAL_INTEGER_MAX_ABS :: int where
  "BUNDLE_CANONICAL_INTEGER_MAX_ABS = 2 ^ 63 - 1"

definition TARGET_METRIC_MAX_DEPTH :: nat where
  "TARGET_METRIC_MAX_DEPTH = 64"

definition BUNDLE_NOTICE_REASON_MAX_CHARS :: nat where
  "BUNDLE_NOTICE_REASON_MAX_CHARS = 512"

definition BUNDLE_NOTICE_REASON_MAX_UTF8_BYTES :: nat where
  "BUNDLE_NOTICE_REASON_MAX_UTF8_BYTES = 2048"

definition BUNDLE_NOTICE_MAX_PENDING_OBLIGATIONS :: nat where
  "BUNDLE_NOTICE_MAX_PENDING_OBLIGATIONS = 64"

definition BUNDLE_NOTICE_REF_MAX_UTF8_BYTES :: nat where
  "BUNDLE_NOTICE_REF_MAX_UTF8_BYTES = 1024"

definition BUNDLE_NOTICE_MAX_SERIALIZED_BYTES :: int where
  "BUNDLE_NOTICE_MAX_SERIALIZED_BYTES = 64 * 1024"

definition BUNDLE_INBOX_BATCH_MAX_NOTICES :: nat where
  "BUNDLE_INBOX_BATCH_MAX_NOTICES = 128"

definition BUNDLE_INBOX_BATCH_MAX_SERIALIZED_BYTES :: int where
  "BUNDLE_INBOX_BATCH_MAX_SERIALIZED_BYTES = 1024 * 1024"

definition BUNDLE_HANDOFF_MAX_SERIALIZED_BYTES :: int where
  "BUNDLE_HANDOFF_MAX_SERIALIZED_BYTES = 4 * 1024 * 1024"

subsection \<open>Metric values\<close>

text \<open>
  \<open>valid\<close> threads the node counter: \<open>None\<close> is "returned \<open>False\<close>" (which ends the
  walk, every caller being an \<open>all\<close>), \<open>Some n\<close> is \<open>True\<close> with the counter at \<open>n\<close>.
\<close>

fun metric_walk :: "json \<Rightarrow> nat \<Rightarrow> nat \<Rightarrow> nat option"
and metric_walk_list :: "json list \<Rightarrow> nat \<Rightarrow> nat \<Rightarrow> nat option"
and metric_walk_dict :: "(str \<times> json) list \<Rightarrow> nat \<Rightarrow> nat \<Rightarrow> nat option" where
  "metric_walk item depth n0 =
     (let n = n0 + 1 in
      if BUNDLE_ROOT_MAX_NODES < n \<or> TARGET_METRIC_MAX_DEPTH < depth then None
      else case item of
          JNull \<Rightarrow> Some n
        | JBool _ \<Rightarrow> Some n
        | JInt i \<Rightarrow> if \<bar>i\<bar> \<le> BUNDLE_CANONICAL_INTEGER_MAX_ABS then Some n else None
        | JFloat f \<Rightarrow> if float_finite f then Some n else None
        | JStr s \<Rightarrow>
            (case encode_utf8 s of Inl _ \<Rightarrow> None
             | Inr b \<Rightarrow> if length b \<le> BUNDLE_PROJECTION_STRING_MAX_UTF8_BYTES then Some n else None)
        | JList xs \<Rightarrow> metric_walk_list xs (depth + 1) n
        | JDict d \<Rightarrow> metric_walk_dict d (depth + 1) n)"
| "metric_walk_list [] depth n = Some n"
| "metric_walk_list (x # xs) depth n =
     (case metric_walk x depth n of None \<Rightarrow> None | Some n' \<Rightarrow> metric_walk_list xs depth n')"
| "metric_walk_dict [] depth n = Some n"
| "metric_walk_dict ((k, x) # d) depth n =
     (case metric_walk (JStr k) depth n of None \<Rightarrow> None
      | Some n' \<Rightarrow>
          (case metric_walk x depth n' of None \<Rightarrow> None | Some n'' \<Rightarrow> metric_walk_dict d depth n''))"

definition valid_target_metric_value :: "json \<Rightarrow> bool" where
  "valid_target_metric_value v \<longleftrightarrow> metric_walk v 0 0 \<noteq> None"

text \<open>The copy that the decoder returns is the value itself: values are never changed in place here.\<close>

fun copy_target_metric_value :: "json \<Rightarrow> json" where
  "copy_target_metric_value (JList xs) = JList (map copy_target_metric_value xs)"
| "copy_target_metric_value (JDict d) = JDict (map (\<lambda>p. (fst p, copy_target_metric_value (snd p))) d)"
| "copy_target_metric_value v = v"

lemma copy_target_metric_value_id [simp]: "copy_target_metric_value v = v"
proof (induction v)
  case (JDict d)
  then have "\<forall>p\<in>set d. (fst p, copy_target_metric_value (snd p)) = p" by fastforce
  then show ?case by (simp add: map_idI)
qed (auto simp: map_idI)

definition decode_target_metric_values :: "json \<Rightarrow> json list res" where
  "decode_target_metric_values value =
     (case value of
        JList items \<Rightarrow>
          if list_all valid_target_metric_value items then Inr (map copy_target_metric_value items) else Inl TypeError
      | _ \<Rightarrow> Inl TypeError)"

subsection \<open>The projection of a record\<close>

fun matches_annotation :: "pval \<Rightarrow> ann \<Rightarrow> bool"
and matches_any :: "pval \<Rightarrow> ann list \<Rightarrow> bool"
and matches_all :: "pval list \<Rightarrow> ann list \<Rightarrow> bool" where
  "matches_annotation v AStr = (case v of PStr _ \<Rightarrow> True | _ \<Rightarrow> False)"
| "matches_annotation v AInt = (case v of PInt _ \<Rightarrow> True | _ \<Rightarrow> False)"
| "matches_annotation v ABool = (case v of PBool _ \<Rightarrow> True | _ \<Rightarrow> False)"
| "matches_annotation v ANone = (v = PNone)"
| "matches_annotation v AMetric = False"
| "matches_annotation v (ATuple a) = (case v of PTuple xs \<Rightarrow> list_all (\<lambda>x. matches_annotation x a) xs | _ \<Rightarrow> False)"
| "matches_annotation v (AFixed as) = (case v of PTuple xs \<Rightarrow> matches_all xs as | _ \<Rightarrow> False)"
| "matches_annotation v (AUnion as) = matches_any v as"
| "matches_annotation v (ARec t) = (case v of PRec t' _ \<Rightarrow> t' = t | _ \<Rightarrow> False)"
| "matches_any v [] = False"
| "matches_any v (a # as) = (matches_annotation v a \<or> matches_any v as)"
| "matches_all [] [] = True"
| "matches_all (x # xs) (a # as) = (matches_annotation x a \<and> matches_all xs as)"
| "matches_all _ _ = False"

text \<open>
  \<open>projection_plain_value\<close>: a record becomes a dictionary, a tuple a list; an absent
  \<open>root_completion_receipt\<close> leaves the closure's wire form unchanged.
\<close>

definition drops_field :: "string \<Rightarrow> string \<times> pval \<Rightarrow> bool" where
  "drops_field t p \<longleftrightarrow> t = ''AcceptedMeasurementClosure'' \<and> fst p = ''root_completion_receipt'' \<and> snd p = PNone"

fun projection_plain_value :: "pval \<Rightarrow> json" where
  "projection_plain_value PNone = JNull"
| "projection_plain_value (PBool b) = JBool b"
| "projection_plain_value (PInt i) = JInt i"
| "projection_plain_value (PFloat f) = JFloat f"
| "projection_plain_value (PStr s) = JStr s"
| "projection_plain_value (PJson v) = v"
| "projection_plain_value (PTuple xs) = JList (map projection_plain_value xs)"
| "projection_plain_value (PRec t fs) =
     JDict (map (\<lambda>p. (L (fst p), projection_plain_value (snd p))) (filter (\<lambda>p. \<not> drops_field t p) fs))"

definition canonical_projection_bytes :: "pval \<Rightarrow> string \<Rightarrow> nat list res" where
  "canonical_projection_bytes value name =
     rethrow (\<lambda>_. True) (\<lambda>_. BundleProtocolError (name @ '' is not canonical UTF-8 JSON''))
       (bindE (json_dumps (projection_plain_value value)) encode_utf8)"

subsection \<open>The bounded walk\<close>

definition canonical_types :: "string list" where
  "canonical_types = map fst type_hints"

definition field_hint :: "string \<Rightarrow> string \<Rightarrow> ann option" where
  "field_hint t f = (case map_of type_hints t of None \<Rightarrow> None | Some h \<Rightarrow> map_of h f)"

definition duplicate_sensitive_types :: "string list" where
  "duplicate_sensitive_types =
     [''AcceptedInputAssetProof'', ''ContentBindingProof'', ''ExecutionInputBindingProof'',
      ''ProtocolAggregationProof'', ''ReceiptProof'', ''RevisionEvidenceProof'', ''StopDecisionProof'',
      ''TargetExecutionPreflight'', ''TargetWorkHandle'']"

fun duplicate_sensitive :: "pval \<Rightarrow> bool" where
  "duplicate_sensitive (PRec t _) = List.member duplicate_sensitive_types t"
| "duplicate_sensitive _ = False"

definition inherited_plan_text :: "string \<Rightarrow> string \<Rightarrow> bool" where
  "inherited_plan_text t f \<longleftrightarrow>
     (t = ''ExperimentBrief'' \<and> f = ''semantic_delta'') \<or> (t = ''CodeReviewScope'' \<and> f = ''semantic_deltas'')"

definition metric_tuple :: "pval \<Rightarrow> bool" where
  "metric_tuple v =
     (case v of PTuple xs \<Rightarrow> list_all (\<lambda>x. valid_target_metric_value (projection_plain_value x)) xs | _ \<Rightarrow> False)"

text \<open>The walk's state: nodes visited and bytes of scalars, each with its budget.\<close>

record budget =
  nodes :: nat
  scalar_bytes :: int

definition add_scalar_bytes :: "string \<Rightarrow> int \<Rightarrow> budget \<Rightarrow> int \<Rightarrow> budget res" where
  "add_scalar_bytes name limit st bytes =
     (let st' = st\<lparr>scalar_bytes := scalar_bytes st + bytes\<rparr> in
      if limit < scalar_bytes st' then Inl (BundleProtocolError (name @ '' exceeds the root projection byte budget''))
      else Inr st')"

definition add_node :: "string \<Rightarrow> budget \<Rightarrow> budget res" where
  "add_node name st =
     (let st' = st\<lparr>nodes := nodes st + 1\<rparr> in
      if BUNDLE_ROOT_MAX_NODES < nodes st' then Inl (BundleProtocolError (name @ '' exceeds the root projection node budget''))
      else Inr st')"

definition visit_str :: "string \<Rightarrow> int \<Rightarrow> bool \<Rightarrow> str \<Rightarrow> budget \<Rightarrow> budget res" where
  "visit_str name limit plan_text s st =
     bindE (rethrow (\<lambda>_. True) (\<lambda>_. BundleProtocolError (name @ '' is not valid UTF-8 text'')) (encode_utf8 s)) (\<lambda>encoded.
     if (if plan_text then PLAN_TEXT_MAX_CHARS < slen s
         else BUNDLE_PROJECTION_STRING_MAX_UTF8_BYTES < length encoded)
     then Inl (BundleProtocolError (name @ '' contains oversized text''))
     else bindE (canonical_projection_bytes (PStr s) (name @ '' text'')) (\<lambda>text.
       add_scalar_bytes name limit st (int (length text))))"

definition visit_int :: "string \<Rightarrow> int \<Rightarrow> int \<Rightarrow> budget \<Rightarrow> budget res" where
  "visit_int name limit i st =
     (if BUNDLE_CANONICAL_INTEGER_MAX_ABS < \<bar>i\<bar> then Inl (BundleProtocolError (name @ '' contains an oversized integer''))
      else add_scalar_bytes name limit st (int (length (int_codes i))))"

definition visit_float :: "string \<Rightarrow> int \<Rightarrow> pyfloat \<Rightarrow> budget \<Rightarrow> budget res" where
  "visit_float name limit f st =
     (if \<not> float_finite f then Inl (BundleProtocolError (name @ '' contains a non-finite number''))
      else add_scalar_bytes name limit st (int (length (repr_codes f))))"

text \<open>A metric value under \<open>metric=True\<close>: lists and dictionaries are walked too.\<close>

fun visit_metric :: "string \<Rightarrow> int \<Rightarrow> json \<Rightarrow> budget \<Rightarrow> budget res"
and visit_metric_list :: "string \<Rightarrow> int \<Rightarrow> json list \<Rightarrow> budget \<Rightarrow> budget res"
and visit_metric_dict :: "string \<Rightarrow> int \<Rightarrow> (str \<times> json) list \<Rightarrow> budget \<Rightarrow> budget res" where
  "visit_metric name limit v st0 =
     bindE (add_node name st0) (\<lambda>st.
       case v of
         JList xs \<Rightarrow> visit_metric_list name limit xs st
       | JDict d \<Rightarrow> visit_metric_dict name limit d st
       | JStr s \<Rightarrow> visit_str name limit False s st
       | JInt i \<Rightarrow> visit_int name limit i st
       | JFloat f \<Rightarrow> visit_float name limit f st
       | JBool b \<Rightarrow> add_scalar_bytes name limit st (if b then 4 else 5)
       | JNull \<Rightarrow> add_scalar_bytes name limit st 4)"
| "visit_metric_list name limit [] st = Inr st"
| "visit_metric_list name limit (x # xs) st =
     bindE (visit_metric name limit x st) (visit_metric_list name limit xs)"
| "visit_metric_dict name limit [] st = Inr st"
| "visit_metric_dict name limit ((k, x) # d) st =
     bindE (visit_metric name limit (JStr k) st) (\<lambda>st'.
     bindE (visit_metric name limit x st') (visit_metric_dict name limit d))"

text \<open>
  \<open>visit\<close> on records and tuples.  \<open>seen\<close> is the set of proofs met so far in one tuple.
  The tuple of metric values is visited with \<open>metric=True\<close> after each of its values passed
  \<open>valid_target_metric_value\<close>; every other field must match its annotation.
\<close>

fun visit :: "string \<Rightarrow> int \<Rightarrow> bool \<Rightarrow> bool \<Rightarrow> pval \<Rightarrow> budget \<Rightarrow> budget res"
and visit_items :: "string \<Rightarrow> int \<Rightarrow> bool \<Rightarrow> bool \<Rightarrow> pval list \<Rightarrow> pval list \<Rightarrow> budget \<Rightarrow> budget res"
and visit_fields :: "string \<Rightarrow> int \<Rightarrow> string \<Rightarrow> (string \<times> pval) list \<Rightarrow> budget \<Rightarrow> budget res" where
  "visit name limit metric plan_text (PJson v) st =
     (if metric then visit_metric name limit v st
      else Inl (BundleProtocolError (name @ '' contains a non-canonical value type'')))"
| "visit name limit metric plan_text (PRec t fs) st0 =
     bindE (add_node name st0) (\<lambda>st.
       if \<not> List.member canonical_types t then Inl (BundleProtocolError (name @ '' contains a non-canonical record type''))
       else visit_fields name limit t fs st)"
| "visit name limit metric plan_text (PTuple xs) st0 =
     bindE (add_node name st0) (\<lambda>st.
       if BUNDLE_PROJECTION_MAX_TUPLE_ITEMS < length xs then Inl (BundleProtocolError (name @ '' contains an oversized tuple''))
       else visit_items name limit metric plan_text [] xs st)"
| "visit name limit metric plan_text (PStr s) st0 =
     bindE (add_node name st0) (visit_str name limit plan_text s)"
| "visit name limit metric plan_text (PInt i) st0 =
     bindE (add_node name st0) (visit_int name limit i)"
| "visit name limit metric plan_text (PFloat f) st0 =
     bindE (add_node name st0) (visit_float name limit f)"
| "visit name limit metric plan_text (PBool b) st0 =
     bindE (add_node name st0) (\<lambda>st. add_scalar_bytes name limit st (if b then 4 else 5))"
| "visit name limit metric plan_text PNone st0 =
     bindE (add_node name st0) (\<lambda>st. add_scalar_bytes name limit st 4)"
| "visit_items name limit metric plan_text seen [] st = Inr st"
| "visit_items name limit metric plan_text seen (x # xs) st =
     bindE (visit name limit metric plan_text x st) (\<lambda>st'.
       if duplicate_sensitive x then
         (if x \<in> set seen then Inl (BundleProtocolError (name @ '' contains an exact duplicate proof''))
          else visit_items name limit metric plan_text (x # seen) xs st')
       else visit_items name limit metric plan_text seen xs st')"
| "visit_fields name limit t [] st = Inr st"
| "visit_fields name limit t ((f, v) # fs) st =
     (if t = ''AcceptedMeasurementClosure'' \<and> f = ''metric_values'' then
        (if \<not> metric_tuple v then
           Inl (BundleProtocolError (name @ '' field metric_values has a non-canonical schema type''))
         else bindE (visit name limit True False v st) (visit_fields name limit t fs))
      else if \<not> (case field_hint t f of None \<Rightarrow> False | Some h \<Rightarrow> matches_annotation v h) then
        Inl (BundleProtocolError (name @ '' field '' @ f @ '' has a non-canonical schema type''))
      else bindE (visit name limit False (inherited_plan_text t f) v st) (visit_fields name limit t fs))"

definition validate_closed_bundle_projection :: "pval \<Rightarrow> string \<Rightarrow> int \<Rightarrow> str res" where
  "validate_closed_bundle_projection value name max_serialized_bytes =
     (if max_serialized_bytes < 1 \<or> BUNDLE_ROOT_MAX_SERIALIZED_BYTES < max_serialized_bytes then
        Inl (BundleProtocolError ''Bundle projection budget is invalid'')
      else
        bindE (visit name max_serialized_bytes False False value \<lparr>nodes = 0, scalar_bytes = 0\<rparr>) (\<lambda>_.
        bindE (canonical_projection_bytes value name) (\<lambda>serialized.
        if max_serialized_bytes < int (length serialized) then
          Inl (BundleProtocolError (name @ '' exceeds the root projection byte budget''))
        else Inr (sha256_hex serialized))))"

subsection \<open>Records that cross a boundary\<close>

definition validate_receipt_proof :: "ReceiptProof \<Rightarrow> str \<Rightarrow> unit res" where
  "validate_receipt_proof receipt subject_ref =
     bindE (validate_closed_bundle_projection (pv_ReceiptProof receipt) ''ReceiptProof'' BUNDLE_ROOT_MAX_SERIALIZED_BYTES) (\<lambda>_.
     if is_blank (rp_receipt_ref receipt)
       \<or> rp_subject_ref receipt \<noteq> subject_ref
       \<or> \<not> rp_verified receipt
       \<or> \<not> rp_currentness_known receipt
       \<or> \<not> rp_current receipt
     then Inl (BundleProtocolError ''receipt proof is absent, stale, or subject-drifted'')
     else Inr ())"

definition validate_target_launch_request :: "TargetLaunchRequest \<Rightarrow> str res" where
  "validate_target_launch_request request =
     bindE (validate_closed_bundle_projection (pv_TargetLaunchRequest request) ''TargetLaunchRequest'' BUNDLE_ROOT_MAX_SERIALIZED_BYTES) (\<lambda>digest.
     if is_blank (tlr_target_ref request)
       \<or> cbp_subject_ref (tlr_target_spec_binding request) \<noteq> tlr_target_ref request
       \<or> slen (cbp_content_hash_ref (tlr_target_spec_binding request)) \<noteq> 64
       \<or> \<not> tlr_recoverable_required request
       \<or> tlr_accepted_input_target_commit_refs request \<noteq> sorted_set (tlr_accepted_input_target_commit_refs request)
       \<or> tlr_accepted_input_asset_refs request \<noteq> sorted_set (tlr_accepted_input_asset_refs request)
       \<or> list_ex is_blank (tlr_accepted_input_target_commit_refs request)
       \<or> list_ex is_blank (tlr_accepted_input_asset_refs request)
     then Inl (BundleProtocolError ''Target launch request is not canonical'')
     else
       bindE (validate_receipt_proof (tlr_target_spec_acceptance_receipt request)
                (cbp_content_hash_ref (tlr_target_spec_binding request))) (\<lambda>_.
       Inr digest))"

definition validate_target_launch_ack :: "TargetLaunchAck \<Rightarrow> TargetLaunchRequest \<Rightarrow> str res" where
  "validate_target_launch_ack ack request =
     bindE (validate_closed_bundle_projection (pv_TargetLaunchAck ack) ''TargetLaunchAck'' BUNDLE_ROOT_MAX_SERIALIZED_BYTES) (\<lambda>digest.
     if tla_target_ref ack \<noteq> tlr_target_ref request \<or> is_blank (tla_operation_ref ack)
     then Inl (BundleProtocolError ''Target launch acknowledgement is invalid'')
     else Inr digest)"

definition str_in :: "str \<Rightarrow> string list \<Rightarrow> bool" where
  "str_in s ks \<longleftrightarrow> List.member (map L ks) s"

lemma str_in_iff [simp]: "str_in s ks \<longleftrightarrow> s \<in> L ` set ks"
  by (simp add: str_in_def)

text \<open>\<open>any(len(value.encode("utf-8")) > limit for value in values)\<close>: \<open>encode\<close> may raise.\<close>

fun any_longer :: "nat \<Rightarrow> str list \<Rightarrow> bool res" where
  "any_longer limit [] = Inr False"
| "any_longer limit (s # ss) =
     bindE (encode_utf8 s) (\<lambda>b. if limit < length b then Inr True else any_longer limit ss)"

definition notice_refs :: "TargetWorkNotice \<Rightarrow> str list" where
  "notice_refs notice =
     [twn_notice_ref notice, twn_terminal_transition_ref notice, twn_target_ref notice,
      twn_target_run_ref notice, twn_terminal_fact_ref notice, twn_handoff_manifest_ref notice]"

definition notice_execution_refs :: "TargetWorkNotice \<Rightarrow> str option list" where
  "notice_execution_refs notice = [twn_execution_attempt_ref notice, twn_execution_fence_ref notice]"

definition present :: "'a option list \<Rightarrow> 'a list" where
  "present xs = map the (filter (\<lambda>x. x \<noteq> None) xs)"

lemma present_simps [simp]: "present [] = []" "present (None # xs) = present xs" "present (Some x # xs) = x # present xs"
  by (simp_all add: present_def)

lemma set_present: "x \<in> set (present xs) \<longleftrightarrow> Some x \<in> set xs"
  by (auto simp: present_def image_iff)

definition validate_target_work_notice :: "TargetWorkNotice \<Rightarrow> str res" where
  "validate_target_work_notice notice =
     bindE (validate_closed_bundle_projection (pv_TargetWorkNotice notice) ''TargetWorkNotice'' BUNDLE_NOTICE_MAX_SERIALIZED_BYTES) (\<lambda>digest.
     bindE (rethrow (\<lambda>_. True) (\<lambda>_. BundleProtocolError ''TargetWorkNotice reason is not UTF-8'')
              (encode_utf8 (twn_compact_reason notice))) (\<lambda>reason_bytes.
     let refs = notice_refs notice; execution_refs = notice_execution_refs notice;
         invalid = Inl (BundleProtocolError ''TargetWorkNotice is invalid'')
     in
     if twn_sequence notice < 1
       \<or> \<not> str_in (twn_kind notice) [''target_completed'', ''coordination_required'', ''semantic_change_required'']
       \<or> is_blank (twn_compact_reason notice)
       \<or> scontains 10 (twn_compact_reason notice)
       \<or> scontains 13 (twn_compact_reason notice)
       \<or> BUNDLE_NOTICE_REASON_MAX_CHARS < slen (twn_compact_reason notice)
       \<or> BUNDLE_NOTICE_REASON_MAX_UTF8_BYTES < length reason_bytes
       \<or> BUNDLE_NOTICE_MAX_PENDING_OBLIGATIONS < length (twn_pending_obligation_refs notice)
       \<or> \<not> distinct (twn_pending_obligation_refs notice)
       \<or> list_ex is_blank (refs @ twn_pending_obligation_refs notice)
       \<or> (list_ex (\<lambda>v. v = None) execution_refs
           \<and> \<not> (twn_kind notice = L ''semantic_change_required'' \<and> execution_refs = [None, None]))
       \<or> list_ex is_blank (present execution_refs)
     then invalid
     else
       bindE (any_longer BUNDLE_NOTICE_REF_MAX_UTF8_BYTES (refs @ twn_pending_obligation_refs notice)) (\<lambda>long.
       if long then invalid
       else bindE (any_longer BUNDLE_NOTICE_REF_MAX_UTF8_BYTES (present execution_refs)) (\<lambda>long'.
         if long' \<or> slen (twn_handoff_manifest_sha256 notice) \<noteq> 64 \<or> slen (twn_payload_sha256 notice) \<noteq> 64
         then invalid
         else Inr digest))))"

text \<open>\<open>tuple(range(a, b))\<close>.\<close>

definition py_range :: "int \<Rightarrow> int \<Rightarrow> int list" where
  "py_range a b = [a..b - 1]"

definition validate_bundle_inbox_batch :: "BundleInboxBatch \<Rightarrow> str res" where
  "validate_bundle_inbox_batch batch =
     bindE (validate_closed_bundle_projection (pv_BundleInboxBatch batch) ''BundleInboxBatch'' BUNDLE_INBOX_BATCH_MAX_SERIALIZED_BYTES) (\<lambda>digest.
     if bib_after_cursor batch < 0
       \<or> bib_next_cursor batch < bib_after_cursor batch
       \<or> bib_generation batch < 0
       \<or> BUNDLE_INBOX_BATCH_MAX_NOTICES < length (bib_notices batch)
       \<or> map twn_sequence (bib_notices batch) \<noteq> py_range (bib_after_cursor batch + 1) (bib_next_cursor batch + 1)
     then Inl (BundleProtocolError ''Bundle Inbox batch is invalid'')
     else bindE (mapE validate_target_work_notice (bib_notices batch)) (\<lambda>_. Inr digest))"

text \<open>\<open>not value\<close> of a \<open>str | None\<close>.\<close>

definition falsy_ref :: "str option \<Rightarrow> bool" where
  "falsy_ref v \<longleftrightarrow> (case v of None \<Rightarrow> True | Some s \<Rightarrow> codes s = [])"

definition validate_goal_work_disposition :: "GoalWorkDisposition \<Rightarrow> unit res" where
  "validate_goal_work_disposition value =
     (let refs = [gwd_target_ref value, gwd_target_run_ref value, gwd_terminal_fact_ref value,
                  gwd_goal_work_intent_ref value, gwd_goal_revision_ref value, gwd_goal_revision_receipt_ref value];
          invalid = Inl (BundleProtocolError ''Goal work disposition is invalid'')
      in
      if \<not> str_in (gwd_disposition value) [''cancelled'', ''not_started'']
        \<or> list_ex is_blank refs
        \<or> slen (gwd_goal_revision_receipt_hash value) \<noteq> 64
        \<or> \<not> schars_in (gwd_goal_revision_receipt_hash value) ''0123456789abcdef''
        \<or> is_blank (gwd_reason value)
        \<or> scontains 10 (gwd_reason value)
        \<or> scontains 13 (gwd_reason value)
      then invalid
      else bindE (encode_utf8 (gwd_reason value)) (\<lambda>reason_bytes.
        if BUNDLE_NOTICE_REASON_MAX_UTF8_BYTES < length reason_bytes
          \<or> gwd_custody_refs value \<noteq> sorted_set (gwd_custody_refs value)
          \<or> list_ex is_blank (gwd_custody_refs value)
        then invalid
        else if gwd_disposition value = L ''not_started'' then
          (if gwd_execution_attempt_ref value \<noteq> None
             \<or> gwd_execution_fence_ref value \<noteq> None
             \<or> gwd_terminal_fact_ref value \<noteq> gwd_goal_work_intent_ref value
             \<or> gwd_retention_kind value \<noteq> None
             \<or> gwd_custody_refs value \<noteq> []
           then Inl (BundleProtocolError ''Goal work non-start disposition is invalid'')
           else Inr ())
        else if falsy_ref (gwd_execution_attempt_ref value)
          \<or> falsy_ref (gwd_execution_fence_ref value)
          \<or> \<not> (case gwd_retention_kind value of None \<Rightarrow> False
               | Some k \<Rightarrow> str_in k [''selected'', ''pending'', ''inspected_none''])
          \<or> gwd_custody_refs value = []
        then Inl (BundleProtocolError ''Goal work cancellation disposition is invalid'')
        else Inr ()))"

definition goal_work_handoff_complete :: "TargetRunHandoff \<Rightarrow> GoalWorkDisposition \<Rightarrow> bool" where
  "goal_work_handoff_complete handoff terminal \<longleftrightarrow>
     (if gwd_disposition terminal = L ''not_started'' then
        trh_handle_history handoff = []
        \<and> trh_code_review_preflights handoff = []
        \<and> trh_stop_decisions handoff = []
        \<and> trh_recovered_blockers handoff = []
        \<and> trh_recovery_evidence_refs handoff = []
      else
        trh_handle_history handoff \<noteq> []
        \<and> trh_code_review_preflights handoff = []
        \<and> trh_stop_decisions handoff = []
        \<and> int (length (trh_recovered_blockers handoff)) = int (length (trh_handle_history handoff)) - 1
        \<and> trh_recovery_evidence_refs handoff = sorted_set (trh_recovery_evidence_refs handoff))"

definition root_handoff_incomplete :: "TargetRunHandoff \<Rightarrow> AcceptedMeasurementClosure \<Rightarrow> bool" where
  "root_handoff_incomplete handoff terminal \<longleftrightarrow>
     (if trh_handle_history handoff = [] then True
      else let handle = last (trh_handle_history handoff) in
        trh_code_review_preflights handoff \<noteq> []
        \<or> trh_stop_decisions handoff \<noteq> []
        \<or> int (length (trh_recovered_blockers handoff)) \<noteq> int (length (trh_handle_history handoff)) - 1
        \<or> (trh_recovered_blockers handoff \<noteq> []) \<noteq> (trh_recovery_evidence_refs handoff \<noteq> [])
        \<or> amc_code_review terminal \<noteq> None
        \<or> amc_result_review terminal \<noteq> None
        \<or> twh_target_ref handle \<noteq> amc_target_ref terminal
        \<or> twh_target_run_ref handle \<noteq> amc_target_run_ref terminal
        \<or> twh_execution_attempt_ref handle \<noteq> amc_execution_attempt_ref terminal
        \<or> twh_execution_fence_ref handle \<noteq> amc_execution_fence_ref terminal)"

text \<open>The receipt of a root completion, when the terminal is one.\<close>

definition root_completion :: "TargetTerminal \<Rightarrow> (AcceptedMeasurementClosure \<times> ReceiptProof) option" where
  "root_completion terminal =
     (case terminal of
        Term_AcceptedMeasurementClosure c \<Rightarrow>
          (case amc_root_completion_receipt c of None \<Rightarrow> None | Some r \<Rightarrow> Some (c, r))
      | _ \<Rightarrow> None)"

definition validate_target_run_handoff :: "TargetRunHandoff \<Rightarrow> str res" where
  "validate_target_run_handoff handoff =
     bindE (validate_closed_bundle_projection (pv_TargetRunHandoff handoff) ''TargetRunHandoff'' BUNDLE_HANDOFF_MAX_SERIALIZED_BYTES) (\<lambda>digest.
     case trh_terminal handoff of
       Term_GoalWorkDisposition terminal \<Rightarrow>
         bindE (validate_goal_work_disposition terminal) (\<lambda>_.
         if \<not> goal_work_handoff_complete handoff terminal
         then Inl (BundleProtocolError ''Goal work handoff is incomplete'')
         else Inr digest)
     | terminal \<Rightarrow>
         (case root_completion terminal of
            Some (closure, receipt) \<Rightarrow>
              if root_handoff_incomplete handoff closure
              then Inl (BundleProtocolError ''TargetRun root handoff is incomplete'')
              else bindE (validate_receipt_proof receipt (amc_execution_attempt_ref closure)) (\<lambda>_. Inr digest)
          | None \<Rightarrow>
              if trh_handle_history handoff = []
                \<or> trh_code_review_preflights handoff = []
                \<or> int (length (trh_recovered_blockers handoff)) \<noteq> int (length (trh_handle_history handoff)) - 1
              then Inl (BundleProtocolError ''TargetRun handoff is incomplete'')
              else Inr digest))"

definition validate_bundle_report :: "BundleReport \<Rightarrow> str res" where
  "validate_bundle_report report =
     bindE (validate_closed_bundle_projection (pv_BundleReport report) ''BundleReport'' BUNDLE_ROOT_MAX_SERIALIZED_BYTES) (\<lambda>digest.
     if \<not> str_in (br_disposition report) [''realized'', ''blocked'', ''replan_required'']
     then Inl (BundleProtocolError ''Bundle report disposition is invalid'')
     else if set (br_realized_experiment_keys report) \<inter> set (br_remaining_experiment_keys report) \<noteq> {}
     then Inl (BundleProtocolError ''Bundle report ExperimentKey sets overlap'')
     else if br_disposition report = L ''realized'' \<and> br_remaining_experiment_keys report \<noteq> []
     then Inl (BundleProtocolError ''realized Bundle report retains remaining work'')
     else Inr digest)"

end
