(* ===== verification/ProjectionLaws.thy ===== *)
theory ProjectionLaws
  imports BundleProjection
begin

text \<open>
  Laws of the closed projection: a value that passed the walk has a canonical text (the
  serialisation after it cannot fail), its digest is the SHA-256 of that text, and the text
  of a strategy update determines the update.
\<close>

subsection \<open>A walked value can be encoded\<close>

definition cp_ok :: "nat \<Rightarrow> bool" where
  "cp_ok c \<longleftrightarrow> utf8_cp c \<noteq> None"

lemma cp_ok_ascii: "c < 128 \<Longrightarrow> cp_ok c"
  by (simp add: cp_ok_def utf8_cp_def)

definition text_ok :: "nat list \<Rightarrow> bool" where
  "text_ok cs \<longleftrightarrow> list_all cp_ok cs"

lemma text_ok_simps [simp]:
  "text_ok []"
  "text_ok (c # cs) \<longleftrightarrow> cp_ok c \<and> text_ok cs"
  "text_ok (xs @ ys) \<longleftrightarrow> text_ok xs \<and> text_ok ys"
  "text_ok (rev xs) = text_ok xs"
  by (simp_all add: text_ok_def)

lemma text_ok_concat [simp]: "text_ok (concat xss) \<longleftrightarrow> list_all text_ok xss"
  by (induction xss) simp_all

lemma text_ok_ascii: "list_all (\<lambda>c. c < 128) cs \<Longrightarrow> text_ok cs"
  unfolding text_ok_def using cp_ok_ascii by (auto simp: list_all_iff)

lemma text_ok_iff: "text_ok cs \<longleftrightarrow> (\<exists>bs. utf8_codes cs = Some bs)"
  by (induction cs) (auto simp: cp_ok_def split: option.splits)

lemma encode_text_ok: "encode_utf8 s = Inr b \<Longrightarrow> text_ok (codes s)"
  by (auto simp: encode_utf8_def text_ok_iff split: option.splits)

lemma text_ok_L [simp]: "text_ok (map of_char s) \<longleftrightarrow> list_all (\<lambda>c. cp_ok (of_char c)) s"
  by (simp add: text_ok_def list_all_iff)

lemma esc_cp_ok: "cp_ok c \<Longrightarrow> text_ok (esc_cp c)"
  by (auto simp: esc_cp_def text_ok_def intro!: cp_ok_ascii)

lemma quote_codes_ok: "text_ok (codes s) \<Longrightarrow> text_ok (quote_codes s)"
  by (auto simp: quote_codes_def text_ok_def list_all_iff cp_ok_ascii)
     (metis esc_cp_ok list_all_iff text_ok_def)

lemma nat_codes_ok [simp]: "text_ok (nat_codes n)"
  using nat_codes_digits [of n] by (intro text_ok_ascii) (auto simp: list_all_iff)

lemma int_codes_ok [simp]: "text_ok (int_codes i)"
  by (simp add: int_codes_def cp_ok_ascii)

lemma text_ok_take: "text_ok cs \<Longrightarrow> text_ok (take n cs)"
  by (auto simp: text_ok_def list_all_iff dest: in_set_takeD)

lemma text_ok_drop: "text_ok cs \<Longrightarrow> text_ok (drop n cs)"
  by (auto simp: text_ok_def list_all_iff dest: in_set_dropD)

lemma text_ok_dropWhile: "text_ok cs \<Longrightarrow> text_ok (dropWhile P cs)"
  by (auto simp: text_ok_def list_all_iff dest: set_dropWhileD)

lemma text_ok_replicate: "cp_ok c \<Longrightarrow> text_ok (replicate n c)"
  by (auto simp: text_ok_def list_all_iff)

lemma strip_zeros_ok: "text_ok cs \<Longrightarrow> text_ok (strip_zeros cs)"
  by (simp add: strip_zeros_def Let_def cp_ok_ascii text_ok_dropWhile)

lemma repr_mag_ok: "text_ok (repr_mag q)"
  by (simp add: repr_mag_def Let_def exponent_codes_def cp_ok_ascii strip_zeros_ok text_ok_take
      text_ok_drop text_ok_replicate split: prod.split)

lemma repr_codes_ok: "text_ok (repr_codes f)"
  by (cases f) (simp_all add: repr_codes_def repr_mag_ok cp_ok_ascii)

fun texts_ok :: "json \<Rightarrow> bool" where
  "texts_ok (JStr s) = text_ok (codes s)"
| "texts_ok (JList xs) = list_all texts_ok xs"
| "texts_ok (JDict d) = list_all (\<lambda>p. text_ok (codes (fst p)) \<and> texts_ok (snd p)) d"
| "texts_ok _ = True"

lemma join_comma_ok: "list_all text_ok xss \<Longrightarrow> text_ok (join_comma xss)"
  by (induction xss rule: join_comma.induct) (simp_all add: cp_ok_ascii)

lemma json_codes_ok: "texts_ok v \<Longrightarrow> text_ok (json_codes v)"
proof (induction v)
  case (JList xs)
  then have "list_all text_ok (map json_codes xs)" by (auto simp: list_all_iff)
  then show ?case by (simp add: cp_ok_ascii join_comma_ok)
next
  case (JDict d)
  then have "list_all text_ok (map (\<lambda>p. quote_codes (fst p) @ 58 # snd p)
                (sort_key fst (map (\<lambda>p. (fst p, json_codes (snd p))) d)))"
    by (fastforce simp: list_all_iff cp_ok_ascii quote_codes_ok)
  then show ?case by (simp add: cp_ok_ascii join_comma_ok del: sort_key_fst_map)
qed (simp_all add: quote_codes_ok repr_codes_ok cp_ok_ascii)

definition encodable :: "json \<Rightarrow> bool" where
  "encodable v \<longleftrightarrow> texts_ok v \<and> dumpable v"

lemma encodable_bytes:
  "encodable v \<Longrightarrow> \<exists>b. bindE (json_dumps v) encode_utf8 = Inr b"
  using json_codes_ok [of v]
  by (auto simp: encodable_def json_dumps_def encode_utf8_def text_ok_iff)

lemma encodable_simps [simp]:
  "encodable JNull" "encodable (JBool b)"
  "encodable (JList xs) \<longleftrightarrow> list_all encodable xs"
  "encodable (JDict d) \<longleftrightarrow> list_all (\<lambda>p. text_ok (codes (fst p)) \<and> encodable (snd p)) d"
  by (auto simp: encodable_def list_all_iff)

lemma canonical_int_dumps: "\<bar>i\<bar> \<le> BUNDLE_CANONICAL_INTEGER_MAX_ABS \<Longrightarrow> \<bar>i\<bar> < int_text_limit"
proof -
  have "(10::int) ^ 19 \<le> 10 ^ 4300" by (rule power_increasing) simp_all
  then have "BUNDLE_CANONICAL_INTEGER_MAX_ABS < int_text_limit"
    unfolding BUNDLE_CANONICAL_INTEGER_MAX_ABS_def int_text_limit_def by (rule less_le_trans [rotated]) simp
  then show "\<bar>i\<bar> \<le> BUNDLE_CANONICAL_INTEGER_MAX_ABS \<Longrightarrow> \<bar>i\<bar> < int_text_limit" by simp
qed

lemma visit_str_ok: "visit_str name limit pt s st = Inr st' \<Longrightarrow> text_ok (codes s)"
  by (auto simp: visit_str_def dest: encode_text_ok)

lemma visit_int_ok: "visit_int name limit i st = Inr st' \<Longrightarrow> encodable (JInt i)"
  by (auto simp: visit_int_def encodable_def intro: canonical_int_dumps)

lemma visit_float_ok: "visit_float name limit f st = Inr st' \<Longrightarrow> encodable (JFloat f)"
  by (auto simp: visit_float_def encodable_def)

lemma encodable_JStr [simp]: "encodable (JStr s) \<longleftrightarrow> text_ok (codes s)"
  by (simp add: encodable_def)

lemma visit_metric_encodable:
  "visit_metric name limit v st = Inr st' \<Longrightarrow> encodable v"
  "visit_metric_list name limit xs st = Inr st' \<Longrightarrow> list_all encodable xs"
  "visit_metric_dict name limit d st = Inr st' \<Longrightarrow> encodable (JDict d)"
proof (induction name limit v st and name limit xs st and name limit d st arbitrary: st' and st' and st'
    rule: visit_metric_visit_metric_list_visit_metric_dict.induct)
  case (1 name limit v st0)
  then show ?case
    by (cases v) (auto dest: visit_str_ok visit_int_ok visit_float_ok)
qed (auto simp del: visit_metric.simps)

lemma field_hint_ascii: "field_hint t f = Some h \<Longrightarrow> text_ok (map of_char f)"
proof -
  have "list_all (\<lambda>p. list_all (\<lambda>q. text_ok (map of_char (fst q))) (snd p)) type_hints"
    by (simp add: hint_tables cp_ok_ascii)
  then show "field_hint t f = Some h \<Longrightarrow> text_ok (map of_char f)"
    by (fastforce simp: field_hint_def list_all_iff split: option.splits dest!: map_of_SomeD)
qed

lemma visit_encodable:
  "visit name limit metric pt v st = Inr st' \<Longrightarrow> encodable (projection_plain_value v)"
  "visit_items name limit metric pt seen xs st = Inr st' \<Longrightarrow> list_all (\<lambda>x. encodable (projection_plain_value x)) xs"
  "visit_fields name limit t fs st = Inr st' \<Longrightarrow>
     list_all (\<lambda>p. text_ok (map of_char (fst p)) \<and> encodable (projection_plain_value (snd p))) fs"
proof (induction name limit metric pt v st and name limit metric pt seen xs st and name limit t fs st
    arbitrary: st' and st' and st' rule: visit_visit_items_visit_fields.induct)
  case (1 name limit metric pt v st)
  then show ?case by (auto split: if_splits dest: visit_metric_encodable(1) simp del: visit_metric.simps)
next
  case (2 name limit metric pt t fs st0)
  then show ?case by (fastforce simp: list_all_iff)
next
  case (10 name limit metric pt seen x xs st)
  then show ?case by (cases "duplicate_sensitive x") (fastforce simp: list_all_iff)+
next
  case (12 name limit t f v fs st)
  show ?case
  proof (cases "t = ''AcceptedMeasurementClosure'' \<and> f = ''metric_values''")
    case True
    have "text_ok (map of_char ''metric_values'')" by (simp add: cp_ok_ascii)
    then show ?thesis using True 12 by (auto simp del: text_ok_L split: if_splits)
  next
    case False
    then obtain h where "field_hint t f = Some h"
      using 12(5) by (auto split: option.splits)
    then show ?thesis using False 12 field_hint_ascii [of t f h] by (auto simp del: text_ok_L)
  qed
qed (auto simp: list_all_iff dest: visit_str_ok visit_int_ok visit_float_ok split: if_splits)

text \<open>So the walk decides: after it only the size of the whole text can reject the value.\<close>

lemma visit_serialises:
  assumes "visit name limit metric pt v st = Inr st'"
  shows "\<exists>b. canonical_projection_bytes v name' = Inr b"
  using encodable_bytes [OF visit_encodable(1) [OF assms]]
  by (auto simp: canonical_projection_bytes_def)

lemma closed_projection_Inr:
  assumes "validate_closed_bundle_projection v name limit = Inr digest"
  shows "\<exists>b. canonical_projection_bytes v name = Inr b \<and> int (length b) \<le> limit
     \<and> limit \<le> BUNDLE_ROOT_MAX_SERIALIZED_BYTES \<and> digest = sha256_hex b \<and> is_hex64 digest"
  using assms by (auto simp: validate_closed_bundle_projection_def not_less)

subsection \<open>The canonical text determines the record\<close>

text \<open>Two dictionaries over the same fields are the same document iff their values are, field by field.\<close>

lemma insort_key_fst_zip:
  "fst p = fst q \<Longrightarrow> map fst xs = map fst ys \<Longrightarrow>
   insort_key fst p xs = insort_key fst q ys \<longleftrightarrow> p = q \<and> xs = ys"
proof (induction xs arbitrary: ys)
  case (Cons x xs)
  then obtain y ys' where "ys = y # ys'" by (cases ys) auto
  then show ?case using Cons by (cases "fst p \<le> fst x") auto
qed auto

lemma sort_key_fst_eq:
  "map fst xs = map fst ys \<Longrightarrow> sort_key fst xs = sort_key fst ys \<longleftrightarrow> xs = ys"
proof (induction xs arbitrary: ys)
  case (Cons x xs)
  then obtain y ys' where ys: "ys = y # ys'" "fst x = fst y" "map fst xs = map fst ys'" by (cases ys) auto
  have "map fst (sort_key fst xs) = map fst (sort_key fst ys')"
    using ys(3) by (metis sort_key_map [of "\<lambda>x. x" fst, simplified])
  then show ?case using Cons.IH [of ys'] ys insort_key_fst_zip [of x y] by simp
qed simp

definition plain_eq :: "pval \<Rightarrow> pval \<Rightarrow> bool" where
  "plain_eq v w \<longleftrightarrow> same_document (projection_plain_value v) (projection_plain_value w)"

lemma key_sorted_dict_eq:
  assumes "map fst d = map fst e"
  shows "key_sorted (JDict d) = key_sorted (JDict e)
     \<longleftrightarrow> map (key_sorted \<circ> snd) d = map (key_sorted \<circ> snd) e"
proof -
  let ?k = "map (\<lambda>p. (fst p, key_sorted (snd p)))"
  have "map fst (?k d) = map fst (?k e)" using assms by (simp add: comp_def)
  then have "key_sorted (JDict d) = key_sorted (JDict e) \<longleftrightarrow> ?k d = ?k e"
    by (simp add: sort_key_fst_eq del: sort_key_fst_map)
  also have "\<dots> \<longleftrightarrow> map (key_sorted \<circ> snd) d = map (key_sorted \<circ> snd) e"
    using assms by (induction d e rule: list_induct2') auto
  finally show ?thesis .
qed

lemma plain_eq_PRec:
  assumes "map fst fs = map fst gs" and "t \<noteq> ''AcceptedMeasurementClosure''"
  shows "plain_eq (PRec t fs) (PRec t gs) \<longleftrightarrow> list_all2 (\<lambda>p q. plain_eq (snd p) (snd q)) fs gs"
proof -
  have keep: "filter (\<lambda>p. \<not> drops_field t p) hs = hs" for hs
    using assms(2) by (simp add: drops_field_def filter_id_conv)
  have "list_all2 (\<lambda>p q. plain_eq (snd p) (snd q)) fs gs
     \<longleftrightarrow> map (\<lambda>p. key_sorted (projection_plain_value (snd p))) fs
       = map (\<lambda>p. key_sorted (projection_plain_value (snd p))) gs"
    using assms(1)
    by (induction fs gs rule: list_induct2') (auto simp: plain_eq_def same_document_def)
  moreover have "map (L \<circ> fst) fs = map (L \<circ> fst) gs"
    using assms(1) by (metis map_map)
  ultimately show ?thesis
    by (simp add: plain_eq_def same_document_def keep key_sorted_dict_eq comp_def del: key_sorted.simps)
qed

lemma plain_eq_PTuple [simp]: "plain_eq (PTuple xs) (PTuple ys) \<longleftrightarrow> list_all2 plain_eq xs ys"
proof (induction xs ys rule: list_induct2')
  case (4 x xs y ys)
  then show ?case by (simp add: plain_eq_def same_document_def)
qed (simp_all add: plain_eq_def same_document_def)

lemma plain_eq_scalar [simp]:
  "plain_eq (PStr a) (PStr b) \<longleftrightarrow> a = b"
  "plain_eq (PBool x) (PBool y) \<longleftrightarrow> x = y"
  "plain_eq (PInt i) (PInt j) \<longleftrightarrow> i = j"
  by (auto simp: plain_eq_def same_document_def)

lemma plain_eq_tuple_of:
  assumes "\<And>a b. plain_eq (f a) (f b) \<longleftrightarrow> a = b"
  shows "plain_eq (PTuple (map f xs)) (PTuple (map f ys)) \<longleftrightarrow> xs = ys"
  using assms by (induction xs ys rule: list_induct2') simp_all

lemma plain_eq_strs [simp]: "plain_eq (pv_strs xs) (pv_strs ys) \<longleftrightarrow> xs = ys"
  unfolding pv_strs_def by (rule plain_eq_tuple_of) simp

lemma plain_eq_HeldFixedBinding [simp]: "plain_eq (pv_HeldFixedBinding a) (pv_HeldFixedBinding b) \<longleftrightarrow> a = b"
  by (cases a; cases b) (simp add: pv_HeldFixedBinding_def plain_eq_PRec)

lemma plain_eq_RouteSpec [simp]: "plain_eq (pv_RouteSpec a) (pv_RouteSpec b) \<longleftrightarrow> a = b"
  by (cases a; cases b) (simp add: pv_RouteSpec_def plain_eq_PRec)

lemma plain_eq_TargetCandidate [simp]: "plain_eq (pv_TargetCandidate a) (pv_TargetCandidate b) \<longleftrightarrow> a = b"
  by (cases a; cases b)
     (simp add: pv_TargetCandidate_def plain_eq_PRec plain_eq_tuple_of del: plain_eq_PTuple)

lemma plain_eq_StrategyUpdate [simp]: "plain_eq (pv_StrategyUpdate a) (pv_StrategyUpdate b) \<longleftrightarrow> a = b"
  by (cases a; cases b)
     (simp add: pv_StrategyUpdate_def plain_eq_PRec plain_eq_tuple_of del: plain_eq_PTuple)

lemma canonical_bytes_text:
  "canonical_projection_bytes v name = Inr b \<longleftrightarrow>
     (\<exists>t. json_dumps (projection_plain_value v) = Inr t \<and> encode_utf8 t = Inr b)"
  by (simp add: canonical_projection_bytes_def)

fun no_json :: "pval \<Rightarrow> bool" where
  "no_json (PJson _) = False"
| "no_json (PFloat _) = False"
| "no_json (PTuple xs) = list_all no_json xs"
| "no_json (PRec t fs) = (distinct (map fst fs) \<and> list_all (\<lambda>p. no_json (snd p)) fs)"
| "no_json _ = True"

lemma no_json_wf: "no_json v \<Longrightarrow> wf_json (projection_plain_value v) \<and> floats_ok (projection_plain_value v)"
proof (induction v)
  case (PRec t fs)
  have "map fst (map (\<lambda>p. (L (fst p), projection_plain_value (snd p))) gs) = map L (map fst gs)" for gs :: "(string \<times> pval) list"
    by simp
  moreover have "distinct (map fst fs) \<Longrightarrow> distinct (map L (map fst (filter P fs)))" for P
    by (metis distinct_map distinct_map_filter inj_L inj_on_subset subset_UNIV)
  ultimately show ?case using PRec
    by (fastforce simp: list_all_iff comp_def simp del: map_map)
qed (auto simp: list_all_iff)

lemma same_bytes_plain_eq:
  assumes "no_json v" "no_json w"
    and "canonical_projection_bytes v n = Inr b" and "canonical_projection_bytes w m = Inr b"
  shows "plain_eq v w"
proof -
  obtain s t where s: "json_dumps (projection_plain_value v) = Inr s" "encode_utf8 s = Inr b"
    and t: "json_dumps (projection_plain_value w) = Inr t" "encode_utf8 t = Inr b"
    using assms(3,4) by (auto simp: canonical_bytes_text)
  have "s = t" using s(2) t(2) by (rule encode_utf8_inj)
  then show ?thesis
    using no_json_wf [OF assms(1)] no_json_wf [OF assms(2)] s(1) t(1)
    by (auto simp: plain_eq_def intro: json_dumps_inj)
qed

lemma no_json_strs [simp]: "no_json (pv_strs xs)"
  by (simp add: pv_strs_def list_all_iff)

lemma no_json_StrategyUpdate [simp]: "no_json (pv_StrategyUpdate u)"
  by (simp add: pv_StrategyUpdate_def pv_TargetCandidate_def pv_HeldFixedBinding_def pv_RouteSpec_def list_all_iff)

subsection \<open>Admission of small values\<close>

text \<open>An upper bound of the length of the canonical text that needs no sorting to compute.\<close>

fun json_size :: "json \<Rightarrow> nat" where
  "json_size JNull = 4"
| "json_size (JBool b) = 5"
| "json_size (JInt i) = length (int_codes i)"
| "json_size (JFloat f) = length (repr_codes f)"
| "json_size (JStr s) = 6 * slen s + 2"
| "json_size (JList xs) = 2 + sum_list (map (\<lambda>x. json_size x + 1) xs)"
| "json_size (JDict d) = 2 + sum_list (map (\<lambda>p. 6 * slen (fst p) + json_size (snd p) + 4) d)"

lemma length_esc_cp: "length (esc_cp c) \<le> 6"
  by (simp add: esc_cp_def)

lemma length_quote_codes: "length (quote_codes s) \<le> 6 * slen s + 2"
proof -
  have "length (concat (map esc_cp cs)) \<le> 6 * length cs" for cs
    by (induction cs) (use length_esc_cp in \<open>fastforce simp: add_mono\<close>)+
  then show ?thesis by (simp add: quote_codes_def slen_def)
qed

lemma length_join_comma: "length (join_comma xss) \<le> sum_list (map (\<lambda>x. length x + 1) xss)"
  by (induction xss rule: join_comma.induct) simp_all

lemma sum_list_sort_key: "sum_list (map f (sort_key g xs)) = sum_list (map f xs)" for f :: "'a \<Rightarrow> nat"
proof -
  have "sum_list (map f (insort_key g x ys)) = f x + sum_list (map f ys)" for x ys
    by (induction ys) simp_all
  then show ?thesis by (induction xs) simp_all
qed

lemma length_json_codes: "length (json_codes v) \<le> json_size v"
proof (induction v)
  case (JList xs)
  have "length (join_comma (map json_codes xs)) \<le> sum_list (map (\<lambda>x. length (json_codes x) + 1) xs)"
    using length_join_comma [of "map json_codes xs"] by (simp add: comp_def)
  also have "\<dots> \<le> sum_list (map (\<lambda>x. json_size x + 1) xs)"
    using JList by (intro sum_list_mono) simp
  finally show ?case by simp
next
  case (JDict d)
  let ?m = "\<lambda>p. quote_codes (fst p) @ 58 # snd p" and ?ps = "map (\<lambda>p. (fst p, json_codes (snd p))) d"
  have "length (join_comma (map ?m (sort_key fst ?ps))) \<le> sum_list (map (\<lambda>p. length (?m p) + 1) (sort_key fst ?ps))"
    using length_join_comma [of "map ?m (sort_key fst ?ps)"] by (simp add: comp_def del: sort_key_fst_map)
  also have "\<dots> = sum_list (map (\<lambda>p. length (quote_codes (fst p)) + length (json_codes (snd p)) + 2) d)"
    by (simp add: sum_list_sort_key comp_def del: sort_key_fst_map)
  also have "\<dots> \<le> sum_list (map (\<lambda>p. 6 * slen (fst p) + json_size (snd p) + 4) d)"
  proof (rule sum_list_mono)
    fix p assume "p \<in> set d"
    moreover have "snd p \<in> Basic_BNFs.snds p" by (simp add: snds.simps)
    ultimately have "length (json_codes (snd p)) \<le> json_size (snd p)" by (rule JDict)
    then show "length (quote_codes (fst p)) + length (json_codes (snd p)) + 2 \<le> 6 * slen (fst p) + json_size (snd p) + 4"
      using length_quote_codes [of "fst p"] by linarith
  qed
  finally show ?case by simp
next
  case (JStr s)
  then show ?case using length_quote_codes [of s] by simp
qed simp_all

lemma canonical_bytes_length:
  assumes "canonical_projection_bytes v name = Inr b"
  shows "length b \<le> 4 * json_size (projection_plain_value v)"
proof -
  obtain t where "json_dumps (projection_plain_value v) = Inr t" and t: "encode_utf8 t = Inr b"
    using assms by (auto simp: canonical_bytes_text)
  then have "codes t = json_codes (projection_plain_value v)" by (auto simp: json_dumps_def split: if_splits)
  moreover have "length b \<le> 4 * length (codes t)"
    using t by (auto simp: encode_utf8_def split: option.splits dest: utf8_codes_bound)
  ultimately show ?thesis using length_json_codes [of "projection_plain_value v"] by simp
qed

text \<open>The converse of \<open>closed_projection_Inr\<close>: a value that passes the walk and is small is admitted.\<close>

lemma closed_projection_admits:
  assumes "visit name limit False False v \<lparr>nodes = 0, scalar_bytes = 0\<rparr> = Inr st"
    and "1 \<le> limit" and "limit \<le> BUNDLE_ROOT_MAX_SERIALIZED_BYTES"
    and "int (4 * json_size (projection_plain_value v)) \<le> limit"
  shows "\<exists>d. validate_closed_bundle_projection v name limit = Inr d"
proof -
  obtain b where b: "canonical_projection_bytes v name = Inr b"
    using visit_serialises [OF assms(1)] by blast
  then have "int (length b) \<le> limit" using canonical_bytes_length [OF b] assms(4) by linarith
  then show ?thesis using assms b by (simp add: validate_closed_bundle_projection_def)
qed

text \<open>A string of printable ASCII without quote and backslash is walked at the cost of its length plus two.\<close>

definition plain_ascii :: "nat list \<Rightarrow> bool" where
  "plain_ascii cs \<longleftrightarrow> list_all (\<lambda>c. 32 \<le> c \<and> c < 128 \<and> c \<noteq> 34 \<and> c \<noteq> 92) cs"

lemma plain_ascii_simps [simp]:
  "plain_ascii []" "plain_ascii (c # cs) \<longleftrightarrow> 32 \<le> c \<and> c < 128 \<and> c \<noteq> 34 \<and> c \<noteq> 92 \<and> plain_ascii cs"
  by (simp_all add: plain_ascii_def)

lemma plain_ascii_utf8: "plain_ascii cs \<Longrightarrow> utf8_codes cs = Some cs"
  by (rule utf8_codes_ascii) (auto simp: plain_ascii_def list_all_iff)

lemma plain_ascii_encode: "plain_ascii (codes s) \<Longrightarrow> encode_utf8 s = Inr (codes s)"
  by (simp add: encode_utf8_def plain_ascii_utf8)

lemma plain_ascii_quote: "plain_ascii (codes s) \<Longrightarrow> quote_codes s = 34 # codes s @ [34]"
proof -
  have "plain_ascii cs \<Longrightarrow> concat (map esc_cp cs) = cs" for cs
    by (induction cs) (auto simp: esc_cp_def)
  then show "plain_ascii (codes s) \<Longrightarrow> ?thesis" by (simp add: quote_codes_def)
qed

lemma visit_str_ascii:
  assumes "plain_ascii (codes s)" and "slen s \<le> 4096" and "scalar_bytes st + int (slen s) + 2 \<le> limit"
  shows "visit_str name limit pt s st = Inr (st\<lparr>scalar_bytes := scalar_bytes st + int (slen s) + 2\<rparr>)"
proof -
  have "utf8_codes (34 # codes s @ [34]) = Some (34 # codes s @ [34])"
    using assms(1) by (intro utf8_codes_ascii) (auto simp: plain_ascii_def list_all_iff)
  then have "canonical_projection_bytes (PStr s) n = Inr (34 # codes s @ [34])" for n
    using assms(1) by (simp add: canonical_projection_bytes_def json_dumps_def plain_ascii_quote encode_utf8_def)
  then show ?thesis
    using assms
    by (simp add: visit_str_def plain_ascii_encode slen_def BUNDLE_PROJECTION_STRING_MAX_UTF8_BYTES_def
        PLAN_TEXT_MAX_CHARS_def add_scalar_bytes_def)
qed

text \<open>Evaluating the walk on a concrete record: the annotations of a type are looked up once.\<close>

lemma field_hint_of: "map_of type_hints t = Some h \<Longrightarrow> field_hint t f = map_of h f"
  by (simp add: field_hint_def)

lemma canonical_type_of: "map_of type_hints t = Some h \<Longrightarrow> t \<in> set canonical_types"
  by (force simp: canonical_types_def dest!: map_of_SomeD)

lemma hints_of:
  "map_of type_hints ''TargetWorkNotice'' = Some hints_TargetWorkNotice"
  "map_of type_hints ''BundleInboxBatch'' = Some hints_BundleInboxBatch"
  "map_of type_hints ''StrategyUpdate'' = Some hints_StrategyUpdate"
  "map_of type_hints ''TargetCandidate'' = Some hints_TargetCandidate"
  "map_of type_hints ''HeldFixedBinding'' = Some hints_HeldFixedBinding"
  "map_of type_hints ''RouteSpec'' = Some hints_RouteSpec"
  "map_of type_hints ''TargetRunHandoff'' = Some hints_TargetRunHandoff"
  "map_of type_hints ''GoalWorkDisposition'' = Some hints_GoalWorkDisposition"
  "map_of type_hints ''TargetWorkHandle'' = Some hints_TargetWorkHandle"
  "map_of type_hints ''ReceiptProof'' = Some hints_ReceiptProof"
  by (simp_all add: type_hints_def)

lemma plain_ascii_replicate [simp]: "plain_ascii (replicate n c) \<longleftrightarrow> n = 0 \<or> 32 \<le> c \<and> c < 128 \<and> c \<noteq> 34 \<and> c \<noteq> 92"
  by (auto simp: plain_ascii_def list_all_iff)

lemma drops_field_other [simp]: "t \<noteq> ''AcceptedMeasurementClosure'' \<Longrightarrow> \<not> drops_field t p"
  by (simp add: drops_field_def)

lemmas walk_simps = add_node_def BUNDLE_ROOT_MAX_NODES_def BUNDLE_PROJECTION_MAX_TUPLE_ITEMS_def
  visit_str_ascii visit_int_def add_scalar_bytes_def BUNDLE_CANONICAL_INTEGER_MAX_ABS_def
  pv_strs_def pv_opt_def int_codes_def nat_codes.simps inherited_plan_text_def slen_def
  hints_of [THEN field_hint_of] hints_of [THEN canonical_type_of] BUNDLE_ROOT_MAX_SERIALIZED_BYTES_def

end
