(* ===== verification/ReasoningQuestions.thy ===== *)
theory ReasoningQuestions
  imports ReasoningAssembly ProjectionLaws
begin

text \<open>
  The questions of a Reasoning run: an accepted scope always yields its proposal.  The proposal is
  hashed again, so the proof rests on what the hash of the scope says of its members: a document
  that was hashed has members that can be hashed.
\<close>

subsection \<open>A hashed document\<close>

lemma esc_cp_ok_iff: "text_ok (esc_cp c) \<longleftrightarrow> cp_ok c"
  by (auto simp: esc_cp_def cp_ok_ascii)

lemma quote_codes_ok_iff: "text_ok (quote_codes s) \<longleftrightarrow> text_ok (codes s)"
proof -
  have "list_all text_ok (map esc_cp cs) \<longleftrightarrow> text_ok cs" for cs by (induction cs) (simp_all add: esc_cp_ok_iff)
  then show ?thesis by (simp add: quote_codes_def cp_ok_ascii)
qed

lemma join_comma_ok_iff: "text_ok (join_comma xss) \<longleftrightarrow> list_all text_ok xss"
  by (induction xss rule: join_comma.induct) (simp_all add: cp_ok_ascii)

lemma json_codes_ok_iff: "text_ok (json_codes v) \<longleftrightarrow> texts_ok v"
proof (induction v)
  case (JList xs)
  then show ?case by (simp add: cp_ok_ascii join_comma_ok_iff list_all_iff)
next
  case (JDict d)
  have sorted: "set (sort_key fst (map (\<lambda>p. (fst p, json_codes (snd p))) d)) = (\<lambda>p. (fst p, json_codes (snd p))) ` set d"
    by simp
  have "text_ok (json_codes (JDict d)) \<longleftrightarrow> (\<forall>p\<in>set d. text_ok (codes (fst p)) \<and> text_ok (json_codes (snd p)))"
    using sorted by (simp add: cp_ok_ascii join_comma_ok_iff list_all_iff quote_codes_ok_iff del: sort_key_fst_map)
  then show ?case using JDict by (auto simp: list_all_iff)
qed (simp_all add: quote_codes_ok_iff repr_codes_ok cp_ok_ascii)

lemma hashed_iff: "(\<exists>h. canonical_hash v = Inr h) \<longleftrightarrow> encodable v"
  by (auto simp: canonical_hash_def canonical_json_def json_dumps_def encode_utf8_def encodable_def json_codes_ok_iff [symmetric]
      text_ok_iff split: option.splits)

lemma encodable_member: "encodable (JDict d) \<Longrightarrow> encodable (dget d k)"
  by (auto simp: dget_def list_all_iff dest!: map_of_SomeD split: option.splits)

lemma encodable_append: "encodable (JDict (d @ e)) \<longleftrightarrow> encodable (JDict d) \<and> encodable (JDict e)"
  by simp

lemma text_ok_name: "list_all (\<lambda>c. of_char c < (128::nat)) s \<Longrightarrow> text_ok (codes (L s))"
  by (induction s) (simp_all add: cp_ok_ascii)

subsection \<open>The proposal of a scope\<close>

lemma encodable_heads:
  "encodable (JDict [(L ''schema_ref'', JStr (L AUTONOMOUS_QUESTION_PROPOSAL_SCHEMA_REF)), (L ''kind'', JStr (L ''QuestionProposal'')),
     (L ''creation_mode'', JStr (L ''AutonomousCreation''))])"
  "encodable (JDict blueprint) \<Longrightarrow> encodable (JDict [(L ''question'', JDict blueprint), (L ''is_authoritative'', JBool False)])"
  unfolding encodable_simps list.pred_inject fst_conv snd_conv AUTONOMOUS_QUESTION_PROPOSAL_SCHEMA_REF_def encodable_JStr
  by (intro conjI text_ok_name; simp)+

lemma encodable_sources:
  assumes "\<And>k. encodable (dget scope k)"
  shows "encodable (JDict (map (\<lambda>field. (L field, dget scope field)) reasoning_source_fields))"
proof -
  have "\<forall>k\<in>set reasoning_source_fields. text_ok (codes (L k))"
    unfolding reasoning_source_fields_def by (intro ballI text_ok_name) auto
  then show ?thesis using assms unfolding encodable_simps(4) by (auto simp only: list_all_iff set_map fst_conv snd_conv)
qed

lemma scope_Inr:
  assumes "validate_autonomous_question_scope scope outcome = Inr h"
  obtains blueprint where "keys_are scope autonomous_scope_fields" "bound_to scope outcome"
    "validate_reasoning_source_bindings scope outcome = Inr ()"
    "dget scope ''question_blueprint'' = JDict blueprint" "validate_formal_question blueprint = Inr ()" "encodable (JDict scope)"
  using assms hashed_iff [of "JDict scope"]
  by (auto simp: validate_autonomous_question_scope_def Let_def validate_reasoning_source_bindings_def dest: source_bindings_Inr)

definition formed_proposal :: "jdict \<Rightarrow> jdict \<Rightarrow> jdict" where
  "formed_proposal scope blueprint =
     [(L ''schema_ref'', JStr (L AUTONOMOUS_QUESTION_PROPOSAL_SCHEMA_REF)), (L ''kind'', JStr (L ''QuestionProposal'')),
       (L ''creation_mode'', JStr (L ''AutonomousCreation''))]
      @ map (\<lambda>field. (L field, dget scope field)) reasoning_source_fields
      @ [(L ''question'', JDict blueprint), (L ''is_authoritative'', JBool False)]"

lemma proposal_of_scope_Inr:
  assumes "keys_are scope autonomous_scope_fields" and "dget scope ''question_blueprint'' = JDict blueprint"
  shows "proposal_of_scope scope = Inr (formed_proposal scope blueprint)"
proof -
  have "ditem scope field = Inr (dget scope field)" if "field \<in> set reasoning_source_fields" for field
    using that by (intro ditem_dget [OF assms(1)]) (auto simp: reasoning_source_fields_def autonomous_scope_fields_def)
  then have "mapE (\<lambda>field. bindE (ditem scope field) (\<lambda>v. Inr (L field, v))) fs = Inr (map (\<lambda>field. (L field, dget scope field)) fs)"
    if "set fs \<subseteq> set reasoning_source_fields" for fs
    using that by (induction fs) simp_all
  then show ?thesis by (simp add: proposal_of_scope_def formed_proposal_def assms(2))
qed

lemma dget_listed: "field \<in> set fs \<Longrightarrow> dget (map (\<lambda>f. (L f, g f)) fs @ r) field = g field"
  by (induction fs) (auto simp: dget_def)

lemma dget_unlisted: "field \<notin> set fs \<Longrightarrow> dget (map (\<lambda>f. (L f, g f)) fs @ r) field = dget r field"
  by (induction fs) (auto simp: dget_def)

lemma formed_proposal_sources: "field \<in> set reasoning_source_fields \<Longrightarrow> dget (formed_proposal scope blueprint) field = dget scope field"
proof -
  assume field: "field \<in> set reasoning_source_fields"
  then have "field \<notin> {''schema_ref'', ''kind'', ''creation_mode''}" by (auto simp: reasoning_source_fields_def)
  then show ?thesis using dget_listed [OF field] by (auto simp: formed_proposal_def)
qed

lemma formed_proposal_heads:
  "dget (formed_proposal scope blueprint) ''schema_ref'' = JStr (L AUTONOMOUS_QUESTION_PROPOSAL_SCHEMA_REF)"
  "dget (formed_proposal scope blueprint) ''kind'' = JStr (L ''QuestionProposal'')"
  "dget (formed_proposal scope blueprint) ''creation_mode'' = JStr (L ''AutonomousCreation'')"
  "dget (formed_proposal scope blueprint) ''is_authoritative'' = JBool False"
  "dget (formed_proposal scope blueprint) ''question'' = JDict blueprint"
proof -
  have "''question'' \<notin> set reasoning_source_fields" "''is_authoritative'' \<notin> set reasoning_source_fields"
    by (simp_all add: reasoning_source_fields_def)
  from this [THEN dget_unlisted, of "\<lambda>field. dget scope field"] show
    "dget (formed_proposal scope blueprint) ''is_authoritative'' = JBool False"
    "dget (formed_proposal scope blueprint) ''question'' = JDict blueprint"
    by (simp_all add: formed_proposal_def)
qed (simp_all add: formed_proposal_def)

lemma formed_proposal_keys: "keys_are (formed_proposal scope blueprint) autonomous_proposal_fields"
  unfolding keys_are_def formed_proposal_def autonomous_proposal_fields_def reasoning_source_fields_def by (simp add: insert_commute)

lemma formed_proposal_encodable:
  "encodable (JDict scope) \<Longrightarrow> encodable (JDict blueprint) \<Longrightarrow> encodable (JDict (formed_proposal scope blueprint))"
  using encodable_heads encodable_sources [OF encodable_member, of scope]
  by (simp only: formed_proposal_def encodable_append simp_thms)


lemma source_fields_kept:
  "mapE (\<lambda>(field, member). bindE (ditem outcome member) (\<lambda>v. Inr (field, v))) bs = Inr expected \<Longrightarrow>
     fst ` set expected \<subseteq> fst ` set bs"
proof (induction bs arbitrary: expected)
  case (Cons b bs)
  then obtain v rest where "expected = (fst b, v) # rest" "fst ` set rest \<subseteq> fst ` set bs" by (cases b) auto
  then show ?case by auto
qed simp

lemma source_bindings_code:
  assumes "reasoning_bindings_check candidate outcome code = Inr ()"
    and "\<And>p. p \<in> set source_binding_fields \<Longrightarrow> dget candidate' (fst p) = dget candidate (fst p)"
  shows "reasoning_bindings_check candidate' outcome code' = Inr ()"
proof -
  obtain expected where expected: "mapE (\<lambda>(field, member). bindE (ditem outcome member) (\<lambda>v. Inr (field, v))) source_binding_fields = Inr expected"
    and checked: "forE (\<lambda>(field, v). raise_if (\<not> py_eq (dget candidate field) v) (rc_error code)) expected = Inr ()"
    using assms(1) unfolding reasoning_bindings_check_def by (auto simp only: bindE_eq_Inr)
  have "fst ` set expected \<subseteq> fst ` set source_binding_fields" using source_fields_kept [OF expected] .
  moreover have "\<forall>p\<in>set expected. py_eq (dget candidate (fst p)) (snd p)"
    using checked by (simp add: case_prod_beta)
  ultimately have "\<forall>p\<in>set expected. py_eq (dget candidate' (fst p)) (snd p)"
    using assms(2) by (metis (no_types, lifting) image_iff subset_iff)
  then have "forE (\<lambda>(field, v). raise_if (\<not> py_eq (dget candidate' field) v) (rc_error code')) expected = Inr ()"
    by (simp add: case_prod_beta)
  then show ?thesis using expected by (simp only: reasoning_bindings_check_def bindE_simps(2))
qed

text \<open>
  C12. A question can always be asked: a scope that was accepted against a source outcome yields a
  proposal, which is accepted against that outcome too; the proposal carries the six identities of the
  outcome and the reviewed blueprint itself as its question.
\<close>
theorem accepted_scope_asks:
  assumes "validate_autonomous_question_scope scope outcome = Inr h" and "require_source_outcome outcome = Inr ()"
  shows "\<exists>proposal g blueprint. autonomous_question_proposal_from_scope scope outcome = Inr proposal
     \<and> validate_autonomous_question_proposal proposal outcome = Inr g \<and> canonical_hash (JDict proposal) = Inr g
     \<and> bound_to proposal outcome
     \<and> dget scope ''question_blueprint'' = JDict blueprint \<and> dget proposal ''question'' = JDict blueprint"
proof -
  obtain blueprint where scope: "keys_are scope autonomous_scope_fields" "bound_to scope outcome"
      "validate_reasoning_source_bindings scope outcome = Inr ()"
      "dget scope ''question_blueprint'' = JDict blueprint" "validate_formal_question blueprint = Inr ()" "encodable (JDict scope)"
    using scope_Inr [OF assms(1)] .
  let ?proposal = "formed_proposal scope blueprint"
  have proposal: "proposal_of_scope scope = Inr ?proposal" using proposal_of_scope_Inr [OF scope(1,4)] .
  have sources: "dget ?proposal (fst p) = dget scope (fst p)" if "p \<in> set source_binding_fields" for p
    using that by (intro formed_proposal_sources) (auto simp: source_binding_fields_def reasoning_source_fields_def)
  have "encodable (JDict blueprint)" using encodable_member [OF scope(6), of "''question_blueprint''"] scope(4) by (simp only:)
  then obtain g where g: "canonical_hash (JDict ?proposal) = Inr g"
    using hashed_iff formed_proposal_encodable [OF scope(6)] by blast
  have bindings: "reasoning_bindings_check ?proposal outcome ''autonomous_question_source_binding_invalid'' = Inr ()"
    using scope(3) sources source_bindings_code by (simp add: validate_reasoning_source_bindings_def)
  then have "validate_autonomous_question_proposal ?proposal outcome = Inr g"
    using assms(2) formed_proposal_keys [of scope blueprint] scope(5) g
    by (simp add: validate_autonomous_question_proposal_def formed_proposal_heads)
  moreover have "bound_to ?proposal outcome" using scope(2) sources unfolding bound_to_def by fastforce
  ultimately show ?thesis
    using assms(1) proposal g scope(4) formed_proposal_heads(5) by (simp add: autonomous_question_proposal_from_scope_def)
qed

end
