(* ===== verification/ReasoningReuse.thy ===== *)
theory ReasoningReuse
  imports ReasoningQuestions
begin

text \<open>
  The evidence a Plan reuses, as a Reasoning run reads it: one leaf for each entry of the frozen
  closure, over exactly the evidence that the Plan uses, with one principal role each.
\<close>

subsection \<open>Tables of groups\<close>

definition entry_ref :: "json \<Rightarrow> str" where
  "entry_ref v = str_of (dget (obj_items v) ''evidence_ref'')"

definition entry_role :: "json \<Rightarrow> str" where
  "entry_role v = str_of (dget (obj_items v) ''role'')"

text \<open>A table groups the entries read so far by their evidence.\<close>

definition groups :: "(json \<Rightarrow> 'v) \<Rightarrow> json list \<Rightarrow> (str \<times> 'v list) list \<Rightarrow> bool" where
  "groups f entries d \<longleftrightarrow>
     (\<forall>ref. map_of d ref = (if ref \<in> entry_ref ` set entries then Some (map f (filter (\<lambda>v. entry_ref v = ref) entries)) else None))"

lemma groups_step: "groups f entries d \<Longrightarrow> groups f (entries @ [v]) (grouped (entry_ref v) (f v) d)"
  by (auto simp: groups_def grouped_def image_iff filter_empty_conv)

lemma groups_of: "groups f entries d \<Longrightarrow>
    (case map_of d ref of None \<Rightarrow> [] | Some vs \<Rightarrow> vs) = map f (filter (\<lambda>v. entry_ref v = ref) entries)"
  by (auto simp: groups_def filter_empty_conv)

lemma groups_keys: "groups f entries d \<Longrightarrow> set (keys d) = entry_ref ` set entries"
proof -
  assume "groups f entries d"
  then have "ref \<in> dom (map_of d) \<longleftrightarrow> ref \<in> entry_ref ` set entries" for ref by (simp add: groups_def dom_def)
  then have "dom (map_of d) = entry_ref ` set entries" by blast
  then show ?thesis by (simp add: dom_map_of_conv_image_fst keys_def)
qed

lemma uses_grouped: "foldE use_step [] uses = Inr d \<Longrightarrow> groups id uses d"
proof (erule foldE_prefix_rule)
  fix dn x rest s s'
  assume "groups id dn s" and "use_step s x = Inr s'"
  then show "groups id (dn @ [x]) s'" using groups_step [of id dn s x] by (auto simp: use_step_def entry_ref_def)
qed (simp add: groups_def)

subsection \<open>One leaf for each entry\<close>

text \<open>The leaf repeats the item and the role of its entry; the entry repeats the hashes of the uses of its evidence.\<close>

definition reuse_leaf_of :: "json list \<Rightarrow> json \<Rightarrow> jdict \<Rightarrow> bool" where
  "reuse_leaf_of uses raw leaf \<longleftrightarrow>
     (\<exists>value item hashes. raw = JDict value \<and> dget value ''evidence_item_ref'' = JStr item \<and> dget leaf ''ref'' = JStr item
        \<and> dget leaf ''kind'' = dget value ''role''
        \<and> mapE canonical_hash (filter (\<lambda>use. entry_ref use = entry_ref raw) uses) = Inr hashes \<and> hashes \<noteq> []
        \<and> dget value ''evidence_use_hashes'' = JList (map JStr hashes))"

definition entry_item :: "json \<Rightarrow> str" where
  "entry_item v = str_of (dget (obj_items v) ''evidence_item_ref'')"

definition reuse_read :: "json list \<Rightarrow> json list \<Rightarrow> reuse_state \<Rightarrow> bool" where
  "reuse_read uses entries st \<longleftrightarrow>
     list_all2 (reuse_leaf_of uses) entries (reuse_normalized st)
     \<and> reuse_evidence_refs st = map entry_ref entries \<and> reuse_item_refs st = map entry_item entries
     \<and> groups entry_role entries (reuse_roles st)"

lemma use_hashes_grouped:
  "groups id uses d \<Longrightarrow> use_hashes d ref = mapE canonical_hash (filter (\<lambda>use. entry_ref use = ref) uses)"
  using groups_of [of id uses d ref] by (simp add: use_hashes_def uses_of_def)

lemma bound_leaf_Inr:
  assumes "bound_leaf_step py plan_input d st value evidence_ref role item_ref = Inr st'" and "groups id uses d"
  obtains leaf hashes adopted where "st' = add_leaf evidence_ref item_ref role leaf (st\<lparr>reuse_adopted := adopted\<rparr>)"
    "dget leaf ''ref'' = JStr item_ref" "dget leaf ''kind'' = JStr role" "use_hashes d evidence_ref = Inr hashes" "hashes \<noteq> []"
    "dget value ''evidence_use_hashes'' = JList (map JStr hashes)"
proof -
  obtain source adopted where source: "dget value ''source_binding'' = JDict source"
    and check: "bound_leaf_check value source evidence_ref role item_ref d (map_of adopted evidence_ref) = Inr ()"
    and st': "st' = add_leaf evidence_ref item_ref role source (st\<lparr>reuse_adopted := Some adopted\<rparr>)"
    using assms(1) by (auto simp: bound_leaf_step_def)
  obtain hashes where hashes: "use_hashes d evidence_ref = Inr hashes" "dget value ''evidence_use_hashes'' = JList (map JStr hashes)"
      "uses_of d evidence_ref \<noteq> []" "dget source ''ref'' = JStr item_ref" "dget source ''kind'' = JStr role"
    using check by (auto simp: bound_leaf_check_def split: option.splits)
  have "hashes \<noteq> []" using hashes(1,3) by (cases "uses_of d evidence_ref") (auto simp: use_hashes_def)
  then show ?thesis using that st' hashes by blast
qed

lemma receipted_leaf_Inr:
  assumes "receipted_leaf_step d st value evidence_ref role item_ref = Inr st'"
  obtains leaf hashes where "st' = add_leaf evidence_ref item_ref role leaf st"
    "dget leaf ''ref'' = JStr item_ref" "dget leaf ''kind'' = JStr role" "use_hashes d evidence_ref = Inr hashes" "hashes \<noteq> []"
    "dget value ''evidence_use_hashes'' = JList (map JStr hashes)"
proof -
  obtain hashes attempt formal target subject role_receipt where
    hashes: "use_hashes d evidence_ref = Inr hashes" "hashes \<noteq> []" "dget value ''evidence_use_hashes'' = JList (map JStr hashes)"
    and st': "st' = add_leaf evidence_ref item_ref role
       (case (attempt, formal) of
          (Some attempt, Some formal) \<Rightarrow>
            if role = L ''MetricResult''
            then metric_leaf item_ref attempt (dget target ''receipt_ref'') (dget formal ''receipt_ref'')
            else owned_leaf role item_ref subject (dget role_receipt ''receipt_ref'')
        | _ \<Rightarrow> owned_leaf role item_ref subject (dget role_receipt ''receipt_ref'')) st"
    using assms by (auto simp: receipted_leaf_step_def)
  show ?thesis
    by (rule that [OF st']) (use hashes in \<open>auto simp: metric_leaf_def owned_leaf_def split: option.splits\<close>)
qed

lemma reuse_leaf_Inr:
  assumes "reuse_leaf_step py plan_input d st raw = Inr st'" and "groups id uses d"
  obtains leaf adopted where "st' = add_leaf (entry_ref raw) (entry_item raw) (entry_role raw) leaf (st\<lparr>reuse_adopted := adopted\<rparr>)"
    "reuse_leaf_of uses raw leaf"
proof -
  obtain v role evidence_ref item_ref where raw: "raw = JDict v" "dget v ''role'' = JStr role"
      "dget v ''evidence_ref'' = JStr evidence_ref" "dget v ''evidence_item_ref'' = JStr item_ref"
    and step': "(if has_key v (L ''source_binding'') then bound_leaf_step py plan_input d st v evidence_ref (str_of (dget v ''role'')) item_ref
         else receipted_leaf_step d st v evidence_ref (str_of (dget v ''role'')) item_ref) = Inr st'"
    using assms(1) by (auto simp: reuse_leaf_step_def nonempty_str_iff Let_def)
  have step: "(if has_key v (L ''source_binding'') then bound_leaf_step py plan_input d st v evidence_ref role item_ref
         else receipted_leaf_step d st v evidence_ref role item_ref) = Inr st'"
    using step' raw(2) by (simp split: if_splits)
  have named: "entry_ref raw = evidence_ref" "entry_item raw = item_ref" "entry_role raw = role"
    by (simp_all add: raw entry_ref_def entry_item_def entry_role_def)
  obtain leaf hashes adopted where "st' = add_leaf evidence_ref item_ref role leaf (st\<lparr>reuse_adopted := adopted\<rparr>)"
    and leaf: "dget leaf ''ref'' = JStr item_ref" "dget leaf ''kind'' = JStr role" "use_hashes d evidence_ref = Inr hashes" "hashes \<noteq> []"
      "dget v ''evidence_use_hashes'' = JList (map JStr hashes)"
  proof (cases "has_key v (L ''source_binding'')")
    case True
    then show ?thesis using step bound_leaf_Inr [OF _ assms(2)] that by (simp only: if_True) blast
  next
    case False
    then have "receipted_leaf_step d st v evidence_ref role item_ref = Inr st'" using step by simp
    then obtain leaf hashes where r: "st' = add_leaf evidence_ref item_ref role leaf st" "dget leaf ''ref'' = JStr item_ref"
        "dget leaf ''kind'' = JStr role" "use_hashes d evidence_ref = Inr hashes" "hashes \<noteq> []"
        "dget v ''evidence_use_hashes'' = JList (map JStr hashes)"
      using receipted_leaf_Inr by blast
    have "st = st\<lparr>reuse_adopted := reuse_adopted st\<rparr>" by simp
    then show ?thesis using that r by metis
  qed
  moreover have "reuse_leaf_of uses raw leaf"
    using raw leaf use_hashes_grouped [OF assms(2), of evidence_ref] named unfolding reuse_leaf_of_def by auto
  ultimately show ?thesis using that named by blast
qed

lemma reuse_read_all:
  assumes "foldE (reuse_leaf_step py plan_input d) nothing_reused entries = Inr st" and "groups id uses d"
  shows "reuse_read uses entries st"
proof (rule foldE_prefix_rule [OF assms(1)])
  show "reuse_read uses [] nothing_reused" by (simp add: reuse_read_def nothing_reused_def groups_def)
next
  fix dn x rest s s'
  assume IH: "reuse_read uses dn s" and "reuse_leaf_step py plan_input d s x = Inr s'"
  then obtain leaf adopted where "s' = add_leaf (entry_ref x) (entry_item x) (entry_role x) leaf (s\<lparr>reuse_adopted := adopted\<rparr>)"
    and "reuse_leaf_of uses x leaf"
    using reuse_leaf_Inr [OF _ assms(2)] by blast
  then show "reuse_read uses (dn @ [x]) s'"
    using IH groups_step [of entry_role dn "reuse_roles s" x] by (simp add: reuse_read_def add_leaf_def list_all2_appendI)
qed

lemma accepted_reuse_Inr:
  assumes "plan_evidence_reuse_leaves py context_pack = Inr leaves"
    and "dget (obj_items (dget context_pack ''plan_evidence_input'')) ''kind'' \<noteq> JStr (L ''none'')"
  shows "\<exists>input uses entries d st. dget context_pack ''plan_evidence_input'' = JDict input
     \<and> dget input ''evidence_reuse_set'' = JList uses \<and> dget input ''evidence_reuse_closure'' = JList entries
     \<and> foldE use_step [] uses = Inr d \<and> foldE (reuse_leaf_step py input d) nothing_reused entries = Inr st
     \<and> sorted (reuse_evidence_refs st) \<and> distinct (reuse_item_refs st) \<and> same_set (reuse_evidence_refs st) (keys d)
     \<and> \<not> list_ex (\<lambda>(ref, roles). principal_count roles \<noteq> 1) (reuse_roles st) \<and> leaves = reuse_normalized st"
proof -
  have "\<exists>input. dget context_pack ''plan_evidence_input'' = JDict input"
    using assms(1)
    by (cases "dget context_pack ''plan_evidence_input''") (simp_all add: plan_evidence_reuse_leaves_def Let_def rc_object_def)
  then obtain input where input: "dget context_pack ''plan_evidence_input'' = JDict input" "dget input ''kind'' \<noteq> JStr (L ''none'')"
    using assms(2) by auto
  then obtain uses entries where lists: "dget input ''evidence_reuse_set'' = JList uses" "dget input ''evidence_reuse_closure'' = JList entries"
    using assms(1) by (auto simp: plan_evidence_reuse_leaves_def Let_def is_list_iff)
  show ?thesis using assms(1) input lists by (simp add: plan_evidence_reuse_leaves_def Let_def) blast
qed

text \<open>
  C11. The evidence a Reasoning run inherits from an accepted Plan is exactly what the Plan uses: the
  closure has one leaf for each entry, of its item and role, with the hashes of the uses of its
  evidence; no item stands twice; the entries are in the order of their evidence, which are the
  evidence references of the uses, no more and no less; each evidence has exactly one principal role.
\<close>
theorem plan_evidence_exact:
  assumes "plan_evidence_reuse_leaves py context_pack = Inr leaves"
    and "dget (obj_items (dget context_pack ''plan_evidence_input'')) ''kind'' \<noteq> JStr (L ''none'')"
  shows "\<exists>input uses entries. dget context_pack ''plan_evidence_input'' = JDict input
     \<and> dget input ''evidence_reuse_set'' = JList uses \<and> dget input ''evidence_reuse_closure'' = JList entries
     \<and> list_all2 (reuse_leaf_of uses) entries leaves
     \<and> distinct (map entry_item entries) \<and> sorted (map entry_ref entries)
     \<and> entry_ref ` set entries = entry_ref ` set uses
     \<and> (\<forall>ref\<in>entry_ref ` set entries. principal_count (map entry_role (filter (\<lambda>v. entry_ref v = ref) entries)) = 1)"
proof -
  obtain input uses entries d st where input: "dget context_pack ''plan_evidence_input'' = JDict input"
      "dget input ''evidence_reuse_set'' = JList uses" "dget input ''evidence_reuse_closure'' = JList entries"
    and d: "foldE use_step [] uses = Inr d" and st: "foldE (reuse_leaf_step py input d) nothing_reused entries = Inr st"
    and final: "sorted (reuse_evidence_refs st)" "distinct (reuse_item_refs st)" "same_set (reuse_evidence_refs st) (keys d)"
      "\<not> list_ex (\<lambda>(ref, roles). principal_count roles \<noteq> 1) (reuse_roles st)"
    and leaves: "leaves = reuse_normalized st"
    using accepted_reuse_Inr [OF assms] by blast
  have checks: "sorted (reuse_evidence_refs st)" "distinct (reuse_item_refs st)" "same_set (reuse_evidence_refs st) (keys d)"
      "\<forall>(ref, roles)\<in>set (reuse_roles st). principal_count roles = 1"
    using final by (auto simp: list_ex_iff)
  note d' = uses_grouped [OF d]
  have read: "reuse_read uses entries st" using reuse_read_all [OF st d'] .
  have "principal_count (map entry_role (filter (\<lambda>v. entry_ref v = ref) entries)) = 1" if "ref \<in> entry_ref ` set entries" for ref
  proof -
    have "map_of (reuse_roles st) ref = Some (map entry_role (filter (\<lambda>v. entry_ref v = ref) entries))"
      using read that by (simp add: reuse_read_def groups_def)
    then show ?thesis using checks(4) by (fastforce dest: map_of_SomeD)
  qed
  then have "\<forall>ref\<in>entry_ref ` set entries. principal_count (map entry_role (filter (\<lambda>v. entry_ref v = ref) entries)) = 1" by blast
  moreover have "list_all2 (reuse_leaf_of uses) entries leaves" "distinct (map entry_item entries)" "sorted (map entry_ref entries)"
    using read checks leaves by (simp_all add: reuse_read_def)
  moreover have "entry_ref ` set entries = entry_ref ` set uses"
    using read checks(3) groups_keys [OF d'] by (simp add: reuse_read_def same_set_def)
  ultimately show ?thesis using input by blast
qed

end
