(* ===== verification/PlanLaws.thy ===== *)
theory PlanLaws
  imports PlanDocument
begin

text \<open>
  What an accepted Plan document guarantees: a total and exact coverage of its obligations, evidence
  uses bound to adopted evidence, experiment briefs that only serve gaps, and an idea trace that is
  the transpose of the relevance matrix.
\<close>

subsection \<open>Loops that collect distinct keys\<close>

text \<open>A loop whose pass refuses a key it has seen and appends it otherwise collects distinct keys.\<close>

lemma fold_collects:
  assumes "foldE step [] xs = Inr ks"
    and "\<And>seen x seen'. x \<in> set xs \<Longrightarrow> step seen x = Inr seen' \<Longrightarrow> P x \<and> key x \<notin> set seen \<and> seen' = seen @ [key x]"
  shows "ks = map key xs \<and> distinct ks \<and> (\<forall>x\<in>set xs. P x)"
  using assms(1)
proof (rule foldE_prefix_rule)
  show "[] = map key [] \<and> distinct [] \<and> (\<forall>x\<in>set []. P x)" by simp
next
  fix dn x rest s s'
  assume "xs = dn @ x # rest" and I: "s = map key dn \<and> distinct s \<and> (\<forall>x\<in>set dn. P x)" and "step s x = Inr s'"
  then have "P x \<and> key x \<notin> set s \<and> s' = s @ [key x]" by (intro assms(2)) simp_all
  with I show "s' = map key (dn @ [x]) \<and> distinct s' \<and> (\<forall>x\<in>set (dn @ [x]). P x)" by auto
qed

text \<open>The same for a loop that builds a dictionary.\<close>

lemma fold_builds:
  assumes "foldE step [] xs = Inr d"
    and "\<And>seen x seen'. x \<in> set xs \<Longrightarrow> step seen x = Inr seen' \<Longrightarrow> P x \<and> \<not> has_key seen (fst (entry x)) \<and> seen' = seen @ [entry x]"
  shows "d = map entry xs \<and> distinct (map fst d) \<and> (\<forall>x\<in>set xs. P x)"
  using assms(1)
proof (rule foldE_prefix_rule)
  show "[] = map entry [] \<and> distinct (map fst []) \<and> (\<forall>x\<in>set []. P x)" by simp
next
  fix dn x rest s s'
  assume "xs = dn @ x # rest" and I: "s = map entry dn \<and> distinct (map fst s) \<and> (\<forall>x\<in>set dn. P x)" and "step s x = Inr s'"
  then have p: "P x" and k: "fst (entry x) \<notin> set (map fst s)" and s': "s' = s @ [entry x]"
    using assms(2) [of x s s'] by (auto simp: has_key_iff simp del: set_map)
  have s: "s = map entry dn" and "distinct (map fst s)" and all: "\<forall>x\<in>set dn. P x" using I by blast+
  then have "distinct (map fst (s @ [entry x]))" using k by simp
  then show "s' = map entry (dn @ [x]) \<and> distinct (map fst s') \<and> (\<forall>x\<in>set (dn @ [x]). P x)"
    using p all by (simp add: s' s)
qed

lemma in_str_set_Inr: "in_str_set v ks = Inr True \<longleftrightarrow> (\<exists>k\<in>set ks. v = JStr (L k))"
  by (rule in_str_set_True)

lemma is_plan_text_str: "is_plan_text v \<Longrightarrow> v = JStr (str_of v)"
  by (cases v) simp_all

lemma is_str_str: "is_str v \<Longrightarrow> v = JStr (str_of v)"
  by (cases v) simp_all

lemma plan_object_Inr [simp, res_simps]: "plan_object v code = Inr d \<longleftrightarrow> v = JDict d"
  by (cases v) (simp_all add: plan_object_def)

lemma exact_keys_Inr [simp, res_simps]: "exact_keys d ks code = Inr u \<longleftrightarrow> keys_are d ks"
  by (simp add: exact_keys_def)

lemma require_text_Inr [simp, res_simps]: "require_text v code = Inr u \<longleftrightarrow> is_plan_text v"
  by (simp add: require_text_def)

lemma raise_if_unit [simp]: "(\<exists>u. raise_if b e = Inr u) \<longleftrightarrow> \<not> b"
  by simp

subsection \<open>The relevance matrix and the idea trace\<close>

definition matrix_cell :: "(str \<times> roles) list \<Rightarrow> str \<Rightarrow> str \<Rightarrow> str \<Rightarrow> bool" where
  "matrix_cell matrix key idea role \<longleftrightarrow> (\<exists>rs. (key, rs) \<in> set matrix \<and> (idea, role) \<in> set rs)"

definition matrix_ok :: "(str \<times> roles) list \<Rightarrow> bool" where
  "matrix_ok matrix \<longleftrightarrow> distinct (map fst matrix) \<and> list_all (\<lambda>p. distinct (map fst (snd p))) matrix"

text \<open>The cells a trace document states: for the idea of an item, an obligation and its role.\<close>

definition trace_cell :: "json \<Rightarrow> str \<Rightarrow> str \<Rightarrow> str \<Rightarrow> bool" where
  "trace_cell trace key idea role \<longleftrightarrow>
     (\<exists>item\<in>set (list_items trace). dget (obj_items item) ''idea_ref'' = JStr idea \<and>
        (\<exists>r\<in>set (list_items (dget (obj_items item) ''obligation_roles'')).
           dget (obj_items r) ''obligation_key'' = JStr key \<and> dget (obj_items r) ''role'' = JStr role))"

lemma set_idea_column:
  "matrix_ok matrix \<Longrightarrow> set (idea_column matrix idea) = {(key, role). matrix_cell matrix key idea role}"
  by (force simp: idea_column_def matrix_cell_def matrix_ok_def list_all_iff split: option.splits
      dest: map_of_SomeD map_of_is_SomeI)

lemma trace_roles_collect:
  assumes "foldE (trace_role_step expected) [] rows = Inr actual"
  shows "set actual = {(key, role). \<exists>r\<in>set rows. dget (obj_items r) ''obligation_key'' = JStr key \<and> dget (obj_items r) ''role'' = JStr role}"
proof -
  let ?e = "\<lambda>r. (str_of (dget (obj_items r) ''obligation_key''), str_of (dget (obj_items r) ''role''))"
  have e: "actual = map ?e rows \<and> distinct (map fst actual)
      \<and> (\<forall>r\<in>set rows. dget (obj_items r) ''obligation_key'' = JStr (fst (?e r)) \<and> dget (obj_items r) ''role'' = JStr (snd (?e r)))"
    using assms
    by (rule fold_builds)
       (auto simp: trace_role_step_def Let_def in_str_set_Inr split: if_splits dest: is_str_str)
  show ?thesis
  proof (intro set_eqI iffI)
    fix p assume "p \<in> set actual"
    then obtain r where "r \<in> set rows" "p = ?e r" using e by auto
    then show "p \<in> {(key, role). \<exists>r\<in>set rows. dget (obj_items r) ''obligation_key'' = JStr key \<and> dget (obj_items r) ''role'' = JStr role}"
      using e by auto
  next
    fix p assume "p \<in> {(key, role). \<exists>r\<in>set rows. dget (obj_items r) ''obligation_key'' = JStr key \<and> dget (obj_items r) ''role'' = JStr role}"
    then obtain r where "r \<in> set rows" "p = ?e r" by (cases p) auto
    then show "p \<in> set actual" using e by simp
  qed
qed

lemma idea_trace_Inr:
  assumes "validate_idea_trace trace candidate_refs matrix = Inr ()" and "matrix_ok matrix"
  shows "trace_cell trace key idea role \<longleftrightarrow> matrix_cell matrix key idea role"
proof -
  obtain seen where fold: "foldE (trace_item_step candidate_refs matrix) [] (list_items trace) = Inr seen"
    and all: "set seen = set (concat (map (\<lambda>p. keys (snd p)) matrix))"
    using assms(1) by (auto simp: validate_idea_trace_def Let_def)
  let ?i = "\<lambda>item. str_of (dget (obj_items item) ''idea_ref'')"
  let ?rows = "\<lambda>item. list_items (dget (obj_items item) ''obligation_roles'')"
  have items: "seen = map ?i (list_items trace) \<and> distinct seen \<and>
      (\<forall>item\<in>set (list_items trace). dget (obj_items item) ''idea_ref'' = JStr (?i item) \<and>
         (\<exists>actual. foldE (trace_role_step (idea_column matrix (?i item))) [] (?rows item) = Inr actual
            \<and> set actual = set (idea_column matrix (?i item))))"
    using fold
    by (rule fold_collects)
       (auto simp: trace_item_step_def Let_def is_str_iff)
  have cell: "dget (obj_items item) ''idea_ref'' = JStr idea \<Longrightarrow> item \<in> set (list_items trace) \<Longrightarrow>
      (\<exists>r\<in>set (?rows item). dget (obj_items r) ''obligation_key'' = JStr key \<and> dget (obj_items r) ''role'' = JStr role)
      \<longleftrightarrow> matrix_cell matrix key idea role" for item
    using items set_idea_column [OF assms(2), of idea] trace_roles_collect [of "idea_column matrix idea" "?rows item"]
    by fastforce
  show ?thesis
  proof
    assume "trace_cell trace key idea role"
    then show "matrix_cell matrix key idea role" using cell by (auto simp: trace_cell_def)
  next
    assume m: "matrix_cell matrix key idea role"
    then have "idea \<in> set seen" by (force simp: all matrix_cell_def keys_def)
    then obtain item where "item \<in> set (list_items trace)" "dget (obj_items item) ''idea_ref'' = JStr idea"
      using items by auto
    then show "trace_cell trace key idea role" using cell m by (auto simp: trace_cell_def)
  qed
qed

subsection \<open>The relevance matrix of an answer contract\<close>

definition roles_ok :: "str list \<Rightarrow> roles \<Rightarrow> bool" where
  "roles_ok candidate_refs rs \<longleftrightarrow>
     distinct (map fst rs) \<and> (\<forall>p\<in>set rs. List.member candidate_refs (fst p) \<and> List.member (map L idea_roles) (snd p))"

lemma relevance_step_Inr:
  "relevance_step candidate_refs rs v = Inr rs' \<Longrightarrow>
     \<exists>idea role. List.member candidate_refs idea \<and> \<not> has_key rs idea \<and> List.member (map L idea_roles) role \<and> rs' = rs @ [(idea, role)]"
  by (auto simp: relevance_step_def Let_def in_str_set_Inr is_str_iff)

lemma relevance_fold:
  assumes "foldE (relevance_step candidate_refs) [] rows = Inr rs"
  shows "roles_ok candidate_refs rs"
  using assms
proof (rule foldE_prefix_rule)
  fix dn rest x and s s' :: roles
  assume "roles_ok candidate_refs s" and "relevance_step candidate_refs s x = Inr s'"
  then show "roles_ok candidate_refs s'"
    by (auto simp: roles_ok_def has_key_iff dest!: relevance_step_Inr)
qed (simp add: roles_ok_def)

lemma obligation_step_Inr:
  "obligation_step candidate_refs result v = Inr result' \<Longrightarrow>
     \<exists>key rs rows. dget (obj_items v) ''obligation_key'' = JStr key \<and> \<not> has_key result key
       \<and> foldE (relevance_step candidate_refs) [] rows = Inr rs \<and> result' = result @ [(key, rs)]"
  by (auto simp: obligation_step_def Let_def dest!: is_plan_text_str)

definition obligation_keys :: "jdict \<Rightarrow> str list" where
  "obligation_keys contract = map (\<lambda>v. str_of (dget (obj_items v) ''obligation_key'')) (list_items (dget contract ''obligations''))"

lemma obligations_fold:
  assumes "foldE (obligation_step candidate_refs) [] obs = Inr matrix"
  shows "map fst matrix = map (\<lambda>v. str_of (dget (obj_items v) ''obligation_key'')) obs \<and> distinct (map fst matrix)
    \<and> list_all (\<lambda>p. roles_ok candidate_refs (snd p)) matrix"
  using assms
proof (rule foldE_prefix_rule)
  fix dn rest x and s s' :: "(str \<times> roles) list"
  assume I: "map fst s = map (\<lambda>v. str_of (dget (obj_items v) ''obligation_key'')) dn \<and> distinct (map fst s)
      \<and> list_all (\<lambda>p. roles_ok candidate_refs (snd p)) s"
    and "obligation_step candidate_refs s x = Inr s'"
  then obtain key rs rows where x: "dget (obj_items x) ''obligation_key'' = JStr key" "\<not> has_key s key"
    "foldE (relevance_step candidate_refs) [] rows = Inr rs" "s' = s @ [(key, rs)]"
    by (blast dest: obligation_step_Inr)
  show "map fst s' = map (\<lambda>v. str_of (dget (obj_items v) ''obligation_key'')) (dn @ [x]) \<and> distinct (map fst s')
      \<and> list_all (\<lambda>p. roles_ok candidate_refs (snd p)) s'"
    using I x(1,2,4) relevance_fold [OF x(3)] by (auto simp: has_key_iff)
qed simp

lemma answer_contract_matrix:
  assumes "validate_answer_contract contract q i candidate_refs = Inr matrix"
  shows "map fst matrix = obligation_keys contract" and "matrix_ok matrix" and "matrix \<noteq> []"
    and "length matrix \<le> MAX_PLAN_OBLIGATIONS" and "list_all (\<lambda>p. roles_ok candidate_refs (snd p)) matrix"
proof -
  let ?obs = "list_items (dget contract ''obligations'')"
  have fold: "foldE (obligation_step candidate_refs) [] ?obs = Inr matrix"
    and len: "1 \<le> length ?obs" "length ?obs \<le> MAX_PLAN_OBLIGATIONS"
    using assms by (auto simp: validate_answer_contract_def Let_def)
  note f = obligations_fold [OF fold]
  then have "length matrix = length ?obs" by (metis length_map)
  then show "map fst matrix = obligation_keys contract" "matrix_ok matrix" "matrix \<noteq> []" "length matrix \<le> MAX_PLAN_OBLIGATIONS"
    "list_all (\<lambda>p. roles_ok candidate_refs (snd p)) matrix"
    using f len by (auto simp: obligation_keys_def matrix_ok_def list_all_iff roles_ok_def)
qed

subsection \<open>Coverage\<close>

text \<open>Reading a coverage document: the obligation of a row, and whether the row is a gap.\<close>

definition row_key :: "json \<Rightarrow> str" where
  "row_key row = str_of (dget (obj_items row) ''obligation_key'')"

definition is_gap :: "json \<Rightarrow> bool" where
  "is_gap row \<longleftrightarrow> dget (obj_items row) ''disposition'' = JStr (L ''gap'')"

definition row_uses :: "json \<Rightarrow> json list" where
  "row_uses row = list_items (dget (obj_items row) ''evidence_uses'')"

definition use_ok :: "str \<Rightarrow> (str \<times> jdict) list \<Rightarrow> str list \<Rightarrow> json \<Rightarrow> bool" where
  "use_ok key evidence candidate_refs use \<longleftrightarrow>
     dget (obj_items use) ''obligation_key'' = JStr key
     \<and> (\<exists>ref. dget (obj_items use) ''evidence_ref'' = JStr ref \<and> has_key evidence ref)
     \<and> set (map str_of (list_items (dget (obj_items use) ''contributing_idea_refs''))) \<subseteq> set candidate_refs"

definition row_ok :: "(str \<times> roles) list \<Rightarrow> (str \<times> jdict) list \<Rightarrow> str list \<Rightarrow> json \<Rightarrow> bool" where
  "row_ok matrix evidence candidate_refs row \<longleftrightarrow>
     has_key matrix (row_key row) \<and> list_all (use_ok (row_key row) evidence candidate_refs) (row_uses row)
     \<and> (if is_gap row then is_plan_text (dget (obj_items row) ''insufficiency'')
        else dget (obj_items row) ''disposition'' = JStr (L ''covered'') \<and> row_uses row \<noteq> []
             \<and> dget (obj_items row) ''insufficiency'' = JNull)"

lemma evidence_use_Inr:
  "validate_evidence_use key evidence candidate_refs v = Inr use \<Longrightarrow> v = JDict use \<and> use_ok key evidence candidate_refs v"
  by (auto simp: validate_evidence_use_def use_ok_def Let_def validate_idea_ref_list_def is_str_iff split: if_splits)

lemma evidence_uses_Inr:
  "mapE (validate_evidence_use key evidence candidate_refs) vs = Inr uses \<Longrightarrow>
     map JDict uses = vs \<and> list_all (use_ok key evidence candidate_refs) vs"
  by (induction vs arbitrary: uses) (auto dest!: evidence_use_Inr)

lemma coverage_step_Inr:
  assumes "coverage_step matrix evidence candidate_refs st row = Inr st'"
  shows "row_ok matrix evidence candidate_refs row \<and> row_key row \<notin> set (cov_keys st) \<and>
     st' = \<lparr>cov_keys = cov_keys st @ [row_key row], cov_uses = cov_uses st @ row_uses row,
            cov_gaps = cov_gaps st @ (if is_gap row then [row_key row] else [])\<rparr>"
  using assms
  by (auto simp: coverage_step_def Let_def in_str_set_Inr coverage_dispositions_def row_ok_def row_key_def is_gap_def row_uses_def
      is_list_iff split: if_splits dest!: evidence_uses_Inr)

lemma coverage_fold:
  assumes "foldE (coverage_step matrix evidence candidate_refs) \<lparr>cov_keys = [], cov_uses = [], cov_gaps = []\<rparr> rows = Inr st"
  shows "st = \<lparr>cov_keys = map row_key rows, cov_uses = concat (map row_uses rows), cov_gaps = map row_key (filter is_gap rows)\<rparr>
    \<and> distinct (map row_key rows) \<and> list_all (row_ok matrix evidence candidate_refs) rows"
  using assms
proof (rule foldE_prefix_rule)
  fix dn rest x and s s' :: coverage_state
  assume "s = \<lparr>cov_keys = map row_key dn, cov_uses = concat (map row_uses dn), cov_gaps = map row_key (filter is_gap dn)\<rparr>
      \<and> distinct (map row_key dn) \<and> list_all (row_ok matrix evidence candidate_refs) dn"
    and "coverage_step matrix evidence candidate_refs s x = Inr s'"
  then show "s' = \<lparr>cov_keys = map row_key (dn @ [x]), cov_uses = concat (map row_uses (dn @ [x])),
        cov_gaps = map row_key (filter is_gap (dn @ [x]))\<rparr>
      \<and> distinct (map row_key (dn @ [x])) \<and> list_all (row_ok matrix evidence candidate_refs) (dn @ [x])"
    by (auto dest!: coverage_step_Inr)
qed simp

end
