(* ===== verification/PlanPromises.thy ===== *)
theory PlanPromises
  imports PlanLaws
begin

text \<open>
  The promises of an accepted Plan document, read off the document itself: its coverage partitions
  the obligations of its answer contract, its briefs serve its gaps, its idea trace is its relevance
  matrix read by idea, and its material hash ignores where it was produced.
\<close>

subsection \<open>Reading the document\<close>

definition adopted_refs :: "jdict \<Rightarrow> str list" where
  "adopted_refs document =
     map (\<lambda>v. str_of (dget (obj_items v) ''evidence_ref''))
       (list_items (dget (obj_items (dget document ''source_bindings'')) ''selected_evidence_bindings''))"

definition coverage_rows :: "jdict \<Rightarrow> json list" where
  "coverage_rows document = list_items (dget document ''coverage'')"

definition plan_obligations :: "jdict \<Rightarrow> str list" where
  "plan_obligations document = obligation_keys (obj_items (dget document ''answer_contract''))"

definition plan_gaps :: "jdict \<Rightarrow> str list" where
  "plan_gaps document = map str_of (list_items (dget document ''gap_set''))"

definition brief_key :: "json \<Rightarrow> str" where
  "brief_key brief = str_of (dget (obj_items brief) ''experiment_key'')"

definition brief_gaps :: "json \<Rightarrow> str list" where
  "brief_gaps brief = map str_of (list_items (dget (obj_items brief) ''gap_obligation_keys''))"

definition relevance_cell :: "jdict \<Rightarrow> str \<Rightarrow> str \<Rightarrow> str \<Rightarrow> bool" where
  "relevance_cell document key idea role \<longleftrightarrow>
     (\<exists>ob\<in>set (list_items (dget (obj_items (dget document ''answer_contract'')) ''obligations'')).
        dget (obj_items ob) ''obligation_key'' = JStr key \<and>
        (\<exists>r\<in>set (list_items (dget (obj_items ob) ''idea_relevance'')).
           dget (obj_items r) ''idea_ref'' = JStr idea \<and> dget (obj_items r) ''role'' = JStr role))"

subsection \<open>The loops of the document\<close>

lemma relevance_entries:
  assumes "foldE (relevance_step candidate_refs) [] rows = Inr rs"
  shows "set rs = {(idea, role). \<exists>r\<in>set rows. dget (obj_items r) ''idea_ref'' = JStr idea \<and> dget (obj_items r) ''role'' = JStr role}"
proof -
  let ?e = "\<lambda>r. (str_of (dget (obj_items r) ''idea_ref''), str_of (dget (obj_items r) ''role''))"
  have e: "rs = map ?e rows \<and> distinct (map fst rs)
      \<and> (\<forall>r\<in>set rows. dget (obj_items r) ''idea_ref'' = JStr (fst (?e r)) \<and> dget (obj_items r) ''role'' = JStr (snd (?e r)))"
    using assms
    by (rule fold_builds) (auto simp: relevance_step_def Let_def in_str_set_Inr dest: is_str_str)
  show ?thesis
  proof (intro set_eqI iffI)
    fix p assume "p \<in> set rs"
    then obtain r where "r \<in> set rows" "p = ?e r" using e by auto
    then show "p \<in> {(idea, role). \<exists>r\<in>set rows. dget (obj_items r) ''idea_ref'' = JStr idea \<and> dget (obj_items r) ''role'' = JStr role}"
      using e by auto
  next
    fix p assume "p \<in> {(idea, role). \<exists>r\<in>set rows. dget (obj_items r) ''idea_ref'' = JStr idea \<and> dget (obj_items r) ''role'' = JStr role}"
    then obtain r where "r \<in> set rows" "p = ?e r" by (cases p) auto
    then show "p \<in> set rs" using e by simp
  qed
qed

lemma matrix_is_relevance:
  assumes "validate_answer_contract (obj_items (dget document ''answer_contract'')) q i candidate_refs = Inr matrix"
  shows "matrix_cell matrix key idea role \<longleftrightarrow> relevance_cell document key idea role"
proof -
  let ?obs = "list_items (dget (obj_items (dget document ''answer_contract'')) ''obligations'')"
  let ?cell = "\<lambda>obs key idea role. \<exists>ob\<in>set obs. dget (obj_items ob) ''obligation_key'' = JStr key \<and>
        (\<exists>r\<in>set (list_items (dget (obj_items ob) ''idea_relevance'')).
           dget (obj_items r) ''idea_ref'' = JStr idea \<and> dget (obj_items r) ''role'' = JStr role)"
  have fold: "foldE (obligation_step candidate_refs) [] ?obs = Inr matrix"
    using assms by (auto simp: validate_answer_contract_def Let_def)
  have "\<forall>key idea role. matrix_cell matrix key idea role \<longleftrightarrow> ?cell ?obs key idea role"
    using fold
  proof (rule foldE_prefix_rule)
    fix dn rest x and s s' :: "(str \<times> roles) list"
    assume I: "\<forall>key idea role. matrix_cell s key idea role \<longleftrightarrow> ?cell dn key idea role"
      and "obligation_step candidate_refs s x = Inr s'"
    then obtain key rs where x: "dget (obj_items x) ''obligation_key'' = JStr key" "s' = s @ [(key, rs)]"
      "foldE (relevance_step candidate_refs) [] (list_items (dget (obj_items x) ''idea_relevance'')) = Inr rs"
      by (auto simp: obligation_step_def Let_def dest!: is_plan_text_str)
    have "matrix_cell s' k idea role \<longleftrightarrow> matrix_cell s k idea role \<or> (k = key \<and> (idea, role) \<in> set rs)" for k idea role
      by (auto simp: matrix_cell_def x(2))
    then show "\<forall>key idea role. matrix_cell s' key idea role \<longleftrightarrow> ?cell (dn @ [x]) key idea role"
      using I x(1) relevance_entries [OF x(3)] by auto
  qed (simp add: matrix_cell_def)
  then show ?thesis by (simp add: relevance_cell_def)
qed

lemma selected_step_Inr:
  "selected_step frozen (result, versions) raw = Inr s' \<Longrightarrow>
     \<exists>entry versions'. raw = JDict entry \<and> is_plan_text (dget entry ''evidence_ref'')
       \<and> \<not> has_key result (str_of (dget entry ''evidence_ref''))
       \<and> s' = (result @ [(str_of (dget entry ''evidence_ref''), entry)], versions')"
  by (auto simp: selected_step_def Let_def validate_selected_evidence_binding_def split: if_splits option.splits)

lemma selected_entries:
  assumes "selected_plan_evidence_catalog py document frozen = Inr entries"
  shows "map (\<lambda>e. str_of (dget e ''evidence_ref'')) entries = adopted_refs document \<and> distinct (adopted_refs document)"
proof -
  let ?sel = "list_items (dget (obj_items (dget document ''source_bindings'')) ''selected_evidence_bindings'')"
  obtain frozen_by_ref result versions where
    fold: "foldE (selected_step frozen_by_ref) ([], []) ?sel = Inr (result, versions)" and e: "entries = map snd result"
    using assms by (auto simp: selected_plan_evidence_catalog_def Let_def)
  have "(\<lambda>s. map fst (fst s) = map (\<lambda>v. str_of (dget (obj_items v) ''evidence_ref'')) ?sel \<and> distinct (map fst (fst s))
      \<and> (\<forall>p\<in>set (fst s). fst p = str_of (dget (snd p) ''evidence_ref''))) (result, versions)"
    using fold
  proof (rule foldE_prefix_rule)
    fix dn rest x and s s' :: "(str \<times> jdict) list \<times> (json \<times> str) list"
    assume I: "map fst (fst s) = map (\<lambda>v. str_of (dget (obj_items v) ''evidence_ref'')) dn \<and> distinct (map fst (fst s))
        \<and> (\<forall>p\<in>set (fst s). fst p = str_of (dget (snd p) ''evidence_ref''))"
      and step: "selected_step frozen_by_ref s x = Inr s'"
    obtain entry versions' where x: "x = JDict entry" "\<not> has_key (fst s) (str_of (dget entry ''evidence_ref''))"
      "s' = (fst s @ [(str_of (dget entry ''evidence_ref''), entry)], versions')"
      using step selected_step_Inr [of frozen_by_ref "fst s" "snd s" x s'] by auto
    show "map fst (fst s') = map (\<lambda>v. str_of (dget (obj_items v) ''evidence_ref'')) (dn @ [x]) \<and> distinct (map fst (fst s'))
        \<and> (\<forall>p\<in>set (fst s'). fst p = str_of (dget (snd p) ''evidence_ref''))"
      using I x by (auto simp: has_key_iff)
  qed simp
  then have m: "map fst result = adopted_refs document" and d: "distinct (map fst result)"
    and k: "\<forall>p\<in>set result. fst p = str_of (dget (snd p) ''evidence_ref'')"
    unfolding adopted_refs_def fst_conv by blast+
  from k have "map (\<lambda>p. str_of (dget (snd p) ''evidence_ref'')) result = map fst result" by simp
  then have "map (\<lambda>e. str_of (dget e ''evidence_ref'')) entries = adopted_refs document" by (simp add: e comp_def m)
  then show ?thesis using d m by simp
qed

lemma briefs_fold:
  assumes "foldE (brief_key_step gaps candidate_refs evidence) [] briefs = Inr ks"
  shows "ks = map brief_key briefs \<and> distinct ks
    \<and> (\<forall>b\<in>set briefs. is_obj b \<and> is_plan_text (dget (obj_items b) ''experiment_key'') \<and> brief_gaps b \<noteq> []
         \<and> distinct (brief_gaps b) \<and> set (brief_gaps b) \<subseteq> set gaps)"
  using assms
  by (rule fold_collects)
     (auto simp: brief_key_step_def validate_experiment_brief_def Let_def brief_key_def brief_gaps_def text_set_def split: if_splits)

subsection \<open>The document\<close>

text \<open>What a successful validation established, step by step.\<close>

lemma plan_document_steps:
  assumes "validate_plan_document py document q i c h ideas frozen revision = Inr digest"
  obtains candidate_refs matrix evidence st where
    "keys evidence = adopted_refs document" "distinct (adopted_refs document)"
    "validate_answer_contract (obj_items (dget document ''answer_contract'')) q i candidate_refs = Inr matrix"
    "validate_coverage (dget document ''coverage'') matrix evidence candidate_refs = Inr st"
    "evidence_reuse_check (dget document ''evidence_reuse_set'') (cov_uses st) = Inr ()"
    "text_set (dget document ''gap_set'')" "set (plan_gaps document) = set (cov_gaps st)"
    "length (list_items (dget document ''experiment_briefs'')) \<le> MAX_PLAN_EXPERIMENT_BRIEFS"
    "\<exists>ks. foldE (brief_key_step (cov_gaps st) candidate_refs evidence) [] (list_items (dget document ''experiment_briefs'')) = Inr ks"
    "validate_idea_trace (dget document ''idea_trace'') candidate_refs matrix = Inr ()"
    "dget document ''bundle_disposition'' = JStr (L (if list_items (dget document ''experiment_briefs'') = []
        then ''no_new_experiment_required'' else ''experiments_required''))"
    "canonical_hash (JDict document) = Inr digest"
proof -
  obtain selected candidate_refs contract matrix st ks where
    s: "selected_plan_evidence_catalog py document (map snd frozen) = Inr selected"
    and a: "dget document ''answer_contract'' = JDict contract" "validate_answer_contract contract q i candidate_refs = Inr matrix"
    and e: "validate_coverage (dget document ''coverage'') matrix (map (\<lambda>item. (str_of (dget item ''evidence_ref''), item)) selected) candidate_refs = Inr st"
      "foldE (brief_key_step (cov_gaps st) candidate_refs (map (\<lambda>item. (str_of (dget item ''evidence_ref''), item)) selected)) []
         (list_items (dget document ''experiment_briefs'')) = Inr ks"
    and r: "evidence_reuse_check (dget document ''evidence_reuse_set'') (cov_uses st) = Inr ()"
      "text_set (dget document ''gap_set'')" "set (plan_gaps document) = set (cov_gaps st)"
      "length (list_items (dget document ''experiment_briefs'')) \<le> MAX_PLAN_EXPERIMENT_BRIEFS"
      "validate_idea_trace (dget document ''idea_trace'') candidate_refs matrix = Inr ()"
      "dget document ''bundle_disposition'' = JStr (L (if list_items (dget document ''experiment_briefs'') = []
        then ''no_new_experiment_required'' else ''experiments_required''))"
      "canonical_hash (JDict document) = Inr digest"
    using assms unfolding validate_plan_document_def Let_def
    by (auto simp: plan_gaps_def)
  have "keys (map (\<lambda>item. (str_of (dget item ''evidence_ref''), item)) selected) = adopted_refs document"
    "distinct (adopted_refs document)"
    using selected_entries [OF s] by (simp_all add: keys_def comp_def)
  then show thesis
    using that [of "map (\<lambda>item. (str_of (dget item ''evidence_ref''), item)) selected" candidate_refs matrix st] a e r by auto
qed

lemma plan_coverage_holds:
  assumes "validate_plan_document py document q i c h ideas frozen revision = Inr digest"
  shows "distinct (plan_obligations document) \<and> distinct (map row_key (coverage_rows document))
     \<and> set (map row_key (coverage_rows document)) = set (plan_obligations document)
     \<and> set (plan_gaps document) = row_key ` {row \<in> set (coverage_rows document). is_gap row}
     \<and> (\<forall>row\<in>set (coverage_rows document).
          if is_gap row then is_plan_text (dget (obj_items row) ''insufficiency'')
          else row_uses row \<noteq> [] \<and> (\<forall>use\<in>set (row_uses row).
                 dget (obj_items use) ''obligation_key'' = JStr (row_key row)
                 \<and> (\<exists>ref\<in>set (adopted_refs document). dget (obj_items use) ''evidence_ref'' = JStr ref)))
     \<and> canonical_json (dget document ''evidence_reuse_set'') = canonical_json (JList (concat (map row_uses (coverage_rows document))))"
  using assms
proof (rule plan_document_steps)
  fix candidate_refs matrix evidence st
  assume adopted: "keys evidence = adopted_refs document"
    and contract: "validate_answer_contract (obj_items (dget document ''answer_contract'')) q i candidate_refs = Inr matrix"
    and cov: "validate_coverage (dget document ''coverage'') matrix evidence candidate_refs = Inr st"
    and reuse: "evidence_reuse_check (dget document ''evidence_reuse_set'') (cov_uses st) = Inr ()"
    and gaps: "set (plan_gaps document) = set (cov_gaps st)"
  have fold: "foldE (coverage_step matrix evidence candidate_refs) \<lparr>cov_keys = [], cov_uses = [], cov_gaps = []\<rparr>
      (coverage_rows document) = Inr st" and same: "set (cov_keys st) = set (keys matrix)"
    using cov by (auto simp: validate_coverage_def coverage_rows_def)
  note rows = coverage_fold [OF fold]
  note m = answer_contract_matrix [OF contract]
  have "distinct (plan_obligations document)" "set (keys matrix) = set (plan_obligations document)"
    using m(1,2) by (simp_all add: plan_obligations_def matrix_ok_def keys_def)
  moreover have "has_key evidence ref \<longleftrightarrow> ref \<in> set (adopted_refs document)" for ref
    using adopted by (simp add: has_key_iff keys_def flip: set_map)
  moreover have "canonical_json (dget document ''evidence_reuse_set'') = canonical_json (JList (cov_uses st))"
    using reuse by (auto simp: evidence_reuse_check_def)
  moreover have "\<forall>row\<in>set (coverage_rows document).
      if is_gap row then is_plan_text (dget (obj_items row) ''insufficiency'')
      else row_uses row \<noteq> [] \<and> (\<forall>use\<in>set (row_uses row).
             dget (obj_items use) ''obligation_key'' = JStr (row_key row)
             \<and> (\<exists>ref\<in>set (adopted_refs document). dget (obj_items use) ''evidence_ref'' = JStr ref))"
  proof
    fix row assume "row \<in> set (coverage_rows document)"
    then have "row_ok matrix evidence candidate_refs row" using rows by (simp add: list_all_iff)
    then show "if is_gap row then is_plan_text (dget (obj_items row) ''insufficiency'')
      else row_uses row \<noteq> [] \<and> (\<forall>use\<in>set (row_uses row).
             dget (obj_items use) ''obligation_key'' = JStr (row_key row)
             \<and> (\<exists>ref\<in>set (adopted_refs document). dget (obj_items use) ''evidence_ref'' = JStr ref))"
      using calculation(3) by (auto simp: row_ok_def use_ok_def list_all_iff dest!: bspec split: if_splits)
  qed
  ultimately show ?thesis
    using rows same gaps by simp
qed

text \<open>
  C8. Coverage is a partition: an accepted Plan states every obligation of its answer contract exactly
  once, as covered or as a gap; its gap set lists exactly the gaps; every covered obligation cites at
  least one use of evidence the Plan itself adopts; and the reuse set is the concatenation of the uses.
\<close>
theorem plan_coverage_partition:
  assumes "validate_plan_document py document q i c h ideas frozen revision = Inr digest"
  shows "distinct (plan_obligations document) \<and> distinct (map row_key (coverage_rows document))
     \<and> set (map row_key (coverage_rows document)) = set (plan_obligations document)
     \<and> set (plan_gaps document) = row_key ` {row \<in> set (coverage_rows document). is_gap row}
     \<and> (\<forall>row\<in>set (coverage_rows document).
          if is_gap row then is_plan_text (dget (obj_items row) ''insufficiency'')
          else row_uses row \<noteq> [] \<and> (\<forall>use\<in>set (row_uses row).
                 dget (obj_items use) ''obligation_key'' = JStr (row_key row)
                 \<and> (\<exists>ref\<in>set (adopted_refs document). dget (obj_items use) ''evidence_ref'' = JStr ref)))
     \<and> canonical_json (dget document ''evidence_reuse_set'') = canonical_json (JList (concat (map row_uses (coverage_rows document))))"
  using assms by (rule plan_coverage_holds)

text \<open>
  C28. New experiments only serve gaps: in an accepted Plan every experiment brief has its own key and
  names at least one gap and only gaps, there are at most 64 briefs, a Plan without a gap has no brief,
  and the disposition says experiments are required exactly when there is a brief.
\<close>
theorem plan_briefs_serve_gaps:
  assumes "validate_plan_document py document q i c h ideas frozen revision = Inr digest"
  shows "distinct (map brief_key (list_items (dget document ''experiment_briefs'')))
     \<and> length (list_items (dget document ''experiment_briefs'')) \<le> MAX_PLAN_EXPERIMENT_BRIEFS
     \<and> (\<forall>b\<in>set (list_items (dget document ''experiment_briefs'')).
          brief_gaps b \<noteq> [] \<and> distinct (brief_gaps b) \<and> set (brief_gaps b) \<subseteq> set (plan_gaps document))
     \<and> (plan_gaps document = [] \<longrightarrow> list_items (dget document ''experiment_briefs'') = [])
     \<and> (dget document ''bundle_disposition'' = JStr (L ''experiments_required'') \<longleftrightarrow> list_items (dget document ''experiment_briefs'') \<noteq> [])"
  using assms
proof (rule plan_document_steps)
  fix candidate_refs matrix evidence and st :: coverage_state
  let ?bs = "list_items (dget document ''experiment_briefs'')"
  assume gaps: "set (plan_gaps document) = set (cov_gaps st)" and n: "length ?bs \<le> MAX_PLAN_EXPERIMENT_BRIEFS"
    and "\<exists>ks. foldE (brief_key_step (cov_gaps st) candidate_refs evidence) [] ?bs = Inr ks"
    and disp: "dget document ''bundle_disposition'' = JStr (L (if ?bs = [] then ''no_new_experiment_required'' else ''experiments_required''))"
  then obtain ks where fold: "foldE (brief_key_step (cov_gaps st) candidate_refs evidence) [] ?bs = Inr ks" by blast
  have "plan_gaps document = [] \<longrightarrow> ?bs = []"
    using briefs_fold [OF fold] gaps by (cases ?bs) auto
  then show ?thesis using briefs_fold [OF fold] gaps n disp by auto
qed

text \<open>
  C15. The idea trace is the relevance matrix read the other way: in an accepted Plan an idea is
  traced to an obligation with a role exactly when that obligation states the idea with that role.
\<close>
theorem plan_trace_transposes:
  assumes "validate_plan_document py document q i c h ideas frozen revision = Inr digest"
  shows "trace_cell (dget document ''idea_trace'') key idea role \<longleftrightarrow> relevance_cell document key idea role"
  using assms
proof (rule plan_document_steps)
  fix candidate_refs matrix
  assume contract: "validate_answer_contract (obj_items (dget document ''answer_contract'')) q i candidate_refs = Inr matrix"
    and trace: "validate_idea_trace (dget document ''idea_trace'') candidate_refs matrix = Inr ()"
  show ?thesis
    using idea_trace_Inr [OF trace answer_contract_matrix(2) [OF contract]] matrix_is_relevance [OF contract] by simp
qed

end
