(* ===== verification/PlanSample.thy ===== *)
theory PlanSample
  imports PlanPromises
begin

text \<open>
  A concrete Plan document with a covered obligation, a gap, adopted evidence and one experiment
  brief, admitted step by step; it witnesses the promises of accepted Plans.
\<close>

abbreviation jt :: "string \<Rightarrow> json" where
  "jt s \<equiv> JStr (L s)"

abbreviation rec :: "(string \<times> json) list \<Rightarrow> json" where
  "rec kvs \<equiv> JDict (map (\<lambda>p. (L (fst p), snd p)) kvs)"

lemma not_blank_L: "\<not> is_space (of_char c) \<Longrightarrow> \<not> is_blank (L (c # s))"
  by (simp add: is_blank_iff)

definition sample_relevance :: "string \<Rightarrow> json" where
  "sample_relevance role = JList [rec [(''idea_ref'', jt ''i1''), (''role'', jt role), (''rationale'', jt ''fits'')]]"

definition sample_obligation :: "string \<Rightarrow> string \<Rightarrow> json" where
  "sample_obligation key role =
     rec [(''obligation_key'', jt key), (''statement'', jt ''say''), (''minimum_support'', jt ''one run''),
          (''question_trace'', JList [jt ''answer_shape'']), (''idea_relevance'', sample_relevance role)]"

definition sample_contract_core :: json where
  "sample_contract_core =
     rec [(''source_question_ref'', jt ''q''), (''source_idea_set_ref'', jt ''is''),
          (''obligations'', JList [sample_obligation ''o1'' ''query_lens'', sample_obligation ''o2'' ''experiment_lens''])]"

definition sample_contract_hash :: str where
  "sample_contract_hash = sha256_hex (json_codes sample_contract_core)"

definition sample_contract :: jdict where
  "sample_contract = obj_items sample_contract_core @ [(L ''answer_contract_hash'', JStr sample_contract_hash)]"

definition sample_use :: json where
  "sample_use =
     rec [(''obligation_key'', jt ''o1''), (''evidence_ref'', jt ''e1''), (''supported_claim'', jt ''yes''),
          (''support_boundary'', jt ''here''), (''contributing_idea_refs'', JList [jt ''i1''])]"

definition sample_coverage :: json where
  "sample_coverage =
     JList [rec [(''obligation_key'', jt ''o1''), (''disposition'', jt ''covered''), (''evidence_uses'', JList [sample_use]),
                 (''insufficiency'', JNull)],
            rec [(''obligation_key'', jt ''o2''), (''disposition'', jt ''gap''), (''evidence_uses'', JList []),
                 (''insufficiency'', jt ''no data'')]]"

definition sample_brief :: json where
  "sample_brief =
     rec [(''experiment_key'', jt ''x1''), (''gap_obligation_keys'', JList [jt ''o2'']), (''goal'', jt ''g''),
          (''characteristics'', jt ''c''), (''boundary_constraints'', jt ''b''), (''semantic_delta'', jt ''d''),
          (''contributing_idea_refs'', JList [jt ''i1''])]"

definition sample_trace :: json where
  "sample_trace =
     JList [rec [(''idea_ref'', jt ''i1''),
                 (''obligation_roles'', JList [rec [(''obligation_key'', jt ''o2''), (''role'', jt ''experiment_lens'')],
                    rec [(''obligation_key'', jt ''o1''), (''role'', jt ''query_lens'')]])]]"

definition sample_selected :: jdict where
  "sample_selected = obj_items
     (rec [(''evidence_ref'', jt ''e1''), (''source_kind'', jt ''HumanInput''), (''source_ref'', jt ''e1''),
           (''source_binding'', rec [(''kind'', jt ''HumanInput''), (''ref'', jt ''e1'')]),
           (''reader'', rec [(''operation'', jt ''read''), (''args'', rec [(''ref'', jt ''e1'')])])])"

definition sample_pack_hash :: str where
  "sample_pack_hash = sha256_hex []"

lemma int_text_limit_pos: "0 < int_text_limit"
  unfolding int_text_limit_def by (rule zero_less_power) simp

lemma sample_hashes:
  "is_hex64 sample_pack_hash" "list_all (\<lambda>c. c < 128) (codes sample_pack_hash)"
  "list_all (\<lambda>c. c < 128) (codes sample_contract_hash)"
  by (simp_all only: sample_pack_hash_def sample_contract_hash_def sha256_hex_is_hex64 hex_codes_ascii)

definition sample_plan :: jdict where
  "sample_plan = obj_items
     (rec [(''schema_ref'', jt PLAN_DOCUMENT_SCHEMA_REF), (''kind'', jt ''PlanDocument''), (''question_ref'', jt ''q''),
           (''idea_set_ref'', jt ''is''), (''context_pack_ref'', jt ''cp''), (''answer_contract'', JDict sample_contract),
           (''evidence_reuse_set'', JList [sample_use]), (''coverage'', sample_coverage), (''gap_set'', JList [jt ''o2'']),
           (''experiment_briefs'', JList [sample_brief]), (''idea_trace'', sample_trace),
           (''bundle_disposition'', jt ''experiments_required''),
           (''source_bindings'', rec [(''question_ref'', jt ''q''), (''idea_set_ref'', jt ''is''), (''context_pack_ref'', jt ''cp''),
              (''context_pack_hash'', JStr sample_pack_hash), (''evidence_reference_revision'', JInt 0),
              (''selected_evidence_bindings'', JList [JDict sample_selected])])])"

definition sample_ideas :: jdict where
  "sample_ideas = obj_items
     (rec [(''kind'', jt ''IdeaSet''), (''question_ref'', jt ''q''), (''candidates'', JList [rec [(''candidate_key'', jt ''i1'')]])])"

definition sample_matrix :: "(str \<times> roles) list" where
  "sample_matrix = [(L ''o1'', [(L ''i1'', L ''query_lens'')]), (L ''o2'', [(L ''i1'', L ''experiment_lens'')])]"

lemmas plan_text_simps = not_blank_L is_space_def PLAN_TEXT_MAX_CHARS_def

lemma sample_candidate_refs: "accepted_candidate_refs sample_ideas (L ''q'') = Inr [L ''i1'']"
  by (simp add: accepted_candidate_refs_def sample_ideas_def candidate_ref_step_def plan_object_def plan_text_simps)

lemma sample_obligation_step:
  assumes "k = ''o1'' \<or> k = ''o2''" and "role \<in> set idea_roles" and "\<not> has_key result (L k)"
  shows "obligation_step [L ''i1''] result (sample_obligation k role) = Inr (result @ [(L k, [(L ''i1'', L role)])])"
  using assms
  by (auto simp: obligation_step_def sample_obligation_def sample_relevance_def relevance_step_def plan_object_def exact_keys_def
      keys_are_def require_text_def plan_text_simps question_trace_check_def question_trace_fields_def Let_def)

lemma sample_contract_admitted:
  "validate_answer_contract sample_contract (L ''q'') (L ''is'') [L ''i1''] = Inr sample_matrix"
proof -
  have "without [''answer_contract_hash''] sample_contract = obj_items sample_contract_core"
    by (simp add: without_def sample_contract_def sample_contract_core_def)
  moreover have "ascii_json sample_contract_core"
    by (simp add: sample_contract_core_def sample_obligation_def sample_relevance_def)
  ultimately have "canonical_hash (JDict (without [''answer_contract_hash''] sample_contract))
      = Inr sample_contract_hash"
    unfolding sample_contract_hash_def
    using ascii_json_hash [of sample_contract_core] by (simp add: sample_contract_core_def)
  moreover have "dget sample_contract ''obligations'' = JList [sample_obligation ''o1'' ''query_lens'', sample_obligation ''o2'' ''experiment_lens'']"
    "dget sample_contract ''source_question_ref'' = jt ''q''" "dget sample_contract ''source_idea_set_ref'' = jt ''is''"
    "dget sample_contract ''answer_contract_hash'' = JStr sample_contract_hash"
    "keys_are sample_contract [''source_question_ref'', ''source_idea_set_ref'', ''obligations'', ''answer_contract_hash'']"
    by (simp_all add: sample_contract_def sample_contract_core_def keys_are_def)
  ultimately show ?thesis
    by (simp add: validate_answer_contract_def exact_keys_def MAX_PLAN_OBLIGATIONS_def sample_obligation_step idea_roles_def
        sample_matrix_def Let_def)
qed

lemma sample_catalog_admitted: "selected_plan_evidence_catalog py sample_plan [] = Inr [sample_selected]"
proof -
  have "dget (obj_items (dget sample_plan ''source_bindings'')) ''selected_evidence_bindings'' = JList [JDict sample_selected]"
    by (simp add: sample_plan_def)
  moreover have "validate_selected_evidence_binding sample_selected = Inr ()"
    by (simp add: validate_selected_evidence_binding_def sample_selected_def exact_keys_def keys_are_def require_text_def plan_text_simps
        plan_object_def selected_evidence_source_check_def in_str_set_def GENERIC_EVIDENCE_KINDS_def)
  ultimately show ?thesis
    by (simp add: selected_plan_evidence_catalog_def selected_step_def plan_object_def Let_def)
       (simp add: sample_selected_def version_adopted_def dget_or_def)
qed

lemma sample_coverage_admitted:
  "validate_coverage sample_coverage sample_matrix [(L ''e1'', sample_selected)] [L ''i1''] =
     Inr \<lparr>cov_keys = [L ''o1'', L ''o2''], cov_uses = [sample_use], cov_gaps = [L ''o2'']\<rparr>"
proof -
  have use: "validate_evidence_use (L ''o1'') [(L ''e1'', sample_selected)] [L ''i1''] sample_use = Inr (obj_items sample_use)"
    by (simp add: validate_evidence_use_def sample_use_def plan_object_def exact_keys_def keys_are_def require_text_def plan_text_simps
        validate_idea_ref_list_def text_set_def Let_def)
  have "sample_use = JDict (obj_items sample_use)" by (simp add: sample_use_def)
  then show ?thesis
    by (simp add: validate_coverage_def sample_coverage_def sample_matrix_def coverage_step_def plan_object_def exact_keys_def
        keys_are_def plan_text_simps in_str_set_def coverage_dispositions_def use require_text_def Let_def)
qed

lemma sample_plan_admitted:
  "validate_plan_document py sample_plan (L ''q'') (L ''is'') (L ''cp'') sample_pack_hash sample_ideas [] (JInt 0)
     = Inr (sha256_hex (json_codes (JDict sample_plan)))"
proof -
  have brief: "foldE (brief_key_step [L ''o2''] [L ''i1''] [(L ''e1'', sample_selected)]) [] [sample_brief] = Inr [L ''x1'']"
    by (simp add: brief_key_step_def sample_brief_def plan_object_def validate_experiment_brief_def exact_keys_def keys_are_def
        require_text_def plan_text_simps text_set_def validate_idea_ref_list_def dget_or_def Let_def)
  have trace: "validate_idea_trace sample_trace [L ''i1''] sample_matrix = Inr ()"
    by (simp add: validate_idea_trace_def sample_trace_def sample_matrix_def trace_item_step_def plan_object_def exact_keys_def
        keys_are_def trace_role_step_def idea_column_def in_str_set_def idea_roles_def Let_def keys_def)
  have uses: "evidence_reuse_check (JList [sample_use]) [sample_use] = Inr ()"
  proof -
    have "ascii_json (JList [sample_use])" by (simp add: sample_use_def)
    then have "dumpable (JList [sample_use])" using ascii_json_plain by blast
    then show ?thesis by (simp add: evidence_reuse_check_def canonical_json_def json_dumps_def)
  qed
  have "ascii_json (JDict sample_plan)"
    by (simp add: sample_plan_def sample_contract_def sample_contract_core_def sample_obligation_def sample_relevance_def sample_use_def
        sample_coverage_def sample_brief_def sample_trace_def sample_selected_def PLAN_DOCUMENT_SCHEMA_REF_def
        int_text_limit_pos sample_hashes)
  then have hash: "canonical_hash (JDict sample_plan) = Inr (sha256_hex (json_codes (JDict sample_plan)))"
    by (rule ascii_json_hash)
  have source: "source_bindings_check sample_plan (L ''q'') (L ''is'') (L ''cp'') sample_pack_hash (JInt 0) = Inr ()"
    by (simp add: source_bindings_check_def sample_plan_def plan_object_def exact_keys_def keys_are_def without_def num_value_def)
  have selected: "dget sample_selected ''evidence_ref'' = jt ''e1''" by (simp add: sample_selected_def)
  have parts: "keys_are sample_plan plan_document_fields" "\<not> has_key sample_plan (L ''notes'')"
    "dget sample_plan ''schema_ref'' = jt PLAN_DOCUMENT_SCHEMA_REF" "dget sample_plan ''kind'' = jt ''PlanDocument''"
    "dget sample_plan ''question_ref'' = jt ''q''" "dget sample_plan ''idea_set_ref'' = jt ''is''"
    "dget sample_plan ''context_pack_ref'' = jt ''cp''" "dget sample_plan ''answer_contract'' = JDict sample_contract"
    "dget sample_plan ''coverage'' = sample_coverage" "dget sample_plan ''evidence_reuse_set'' = JList [sample_use]"
    "dget sample_plan ''gap_set'' = JList [jt ''o2'']" "dget sample_plan ''experiment_briefs'' = JList [sample_brief]"
    "dget sample_plan ''idea_trace'' = sample_trace" "dget sample_plan ''bundle_disposition'' = jt ''experiments_required''"
    by (simp_all add: sample_plan_def plan_document_fields_def keys_are_def)
  show ?thesis
    unfolding validate_plan_document_def Let_def
    by (simp add: parts exact_keys_def plan_sha256_def sample_hashes sample_catalog_admitted sample_candidate_refs plan_object_def
        sample_contract_admitted selected sample_coverage_admitted uses text_set_def plan_text_simps MAX_PLAN_EXPERIMENT_BRIEFS_def
        brief trace source hash del: foldE.simps)
qed

lemma plan_coverage_partition_witness: "set (plan_gaps sample_plan) = row_key ` {row \<in> set (coverage_rows sample_plan). is_gap row}"
  using plan_coverage_partition [OF sample_plan_admitted] by blast

lemma plan_briefs_serve_gaps_witness: "distinct (map brief_key (list_items (dget sample_plan ''experiment_briefs'')))"
  using plan_briefs_serve_gaps [OF sample_plan_admitted] by blast

lemma plan_trace_transposes_witness:
  "trace_cell (dget sample_plan ''idea_trace'') (L ''o1'') (L ''i1'') (L ''query_lens'')
     \<longleftrightarrow> relevance_cell sample_plan (L ''o1'') (L ''i1'') (L ''query_lens'')"
  using plan_trace_transposes [OF sample_plan_admitted] by blast

end
