(* ===== verification/ReasoningSample.thy ===== *)
theory ReasoningSample
  imports ReasoningReuse PlanSample
begin

text \<open>
  A Reasoning run over one measurement: a frozen context, an affirmed outcome that cites the
  measurement, a next cycle, a question, and the reuse of one work product.  It witnesses the
  promises of the Reasoning contract.
\<close>

lemmas rc_inversions = rc_text_Inr rc_text_list_Inr rc_texts_Inr rc_object_Inr rc_list_Inr rc_exact_keys_Inr rc_member_Inr bindE_eq_Inr
  raise_if_eq_Inr

lemmas rc_eval = rc_text_def rc_text_list_def rc_texts_def rc_object_def rc_list_def rc_exact_keys_def rc_member_def keys_are_def
  in_str_set_def not_blank_L is_space_def

subsection \<open>The frozen context\<close>

lemma p_before_q: "L ''p'' \<le> L ''q''"
  by (simp add: less_eq_str_def L_def)

definition run_graph :: json where
  "run_graph = rec
     [(''schema_ref'', jt ''meta-research/reasoning-graph-context/v1''), (''issuer'', jt ''research_graph''), (''quest_ref'', jt ''quest''),
      (''question_ref'', jt ''q''), (''graph_revision_ref'', jt ''g1''), (''active_question_refs'', JList [jt ''p'', jt ''q'']),
      (''parent_question_bindings'', JList [rec [(''question_ref'', jt ''p''), (''parent_question_ref'', JNull), (''question_receipt_ref'', jt ''qr'')]]),
      (''prior_current_question_outcomes'', JList [rec [(''cycle_ref'', jt ''c0''), (''request_ref'', jt ''r0''), (''outcome_ref'', jt ''o0''),
         (''disposition'', jt ''uncertain''), (''outcome_receipt_ref'', jt ''or0'')]]),
      (''binding_ref'', jt ''b''), (''binding_hash'', jt ''bh'')]"

definition run_context :: jdict where
  "run_context = obj_items (rec
     [(''schema_ref'', jt REASONING_AUTHORITATIVE_RESEARCH_CONTEXT_SCHEMA_REF), (''cycle_ref'', jt ''c1''), (''quest_ref'', jt ''quest''),
      (''question_ref'', jt ''q''), (''goal_revision_ref'', jt ''goal''),
      (''quest_goal_revision'', rec [(''kind'', jt ''QuestGoalRevision''), (''quest_ref'', jt ''quest''), (''goal_revision_ref'', jt ''goal'')]),
      (''graph_binding'', run_graph),
      (''causal_context'', rec [(''target_commit_refs'', JList [jt ''tc1'']), (''changed_axis_fact_refs'', JList [jt ''axis1'']),
         (''held_fixed_fact_refs'', JList []), (''provenance_refs'', JList [jt ''pv1''])]),
      (''upstream_stage_commit_refs'', JList [jt ''i1'', jt ''p1'', jt ''b1''])])"

definition run_frozen :: frozen_context where
  "run_frozen = \<lparr>fc_parent_question_refs = [L ''p''], fc_prior_outcome_refs = [L ''o0''], fc_graph_revision_ref = jt ''g1'',
     fc_causal_context = [(''target_commit_refs'', [L ''tc1'']), (''changed_axis_fact_refs'', [L ''axis1'']), (''held_fixed_fact_refs'', []),
       (''provenance_refs'', [L ''pv1''])]\<rparr>"

lemma run_frozen_context:
  "validate_frozen_research_context run_context (jt ''c1'') (jt ''q'') (jt ''quest'') (jt ''goal'') = Inr run_frozen"
  by (simp add: validate_frozen_research_context_def run_context_def run_graph_def context_head_check_def graph_head_check_def graph_v2_def
      causal_ref_fields_def causal_field_def parent_step_def prior_step_def SCIENTIFIC_OUTCOMES_def run_frozen_def sorted_set_def p_before_q
      rc_eval del: rc_inversions)

subsection \<open>The outcome\<close>

definition run_metric_leaf :: jdict where
  "run_metric_leaf = metric_leaf (L ''m1'') (L ''attempt1'') (jt ''receipt1'') (jt ''receipt2'')"

definition run_causal :: "json list \<Rightarrow> json list \<Rightarrow> json list \<Rightarrow> json" where
  "run_causal targets axes provenance = rec
     [(''target_commit_refs'', JList targets), (''changed_axis_fact_refs'', JList axes), (''held_fixed_fact_refs'', JList []),
      (''provenance_refs'', JList provenance), (''attribution_basis_refs'', JList [jt ''m1'']), (''claim_scope'', jt ''here''),
      (''statement'', jt ''it helps''), (''sufficiency_rationale'', jt ''one run''), (''confounders'', JList [])]"

definition run_synthesis :: "json list \<Rightarrow> json" where
  "run_synthesis prior = rec
     [(''cycle'', rec [(''cycle_ref'', jt ''c1''), (''impact'', jt ''some'')]),
      (''current_question'', rec [(''question_ref'', jt ''q''), (''prior_accepted_outcome_refs'', JList prior), (''progress'', jt ''more'')]),
      (''parent_questions'', JList [rec [(''question_ref'', jt ''p''), (''impact'', jt ''material''), (''statement'', jt ''moves'')]]),
      (''quest'', rec [(''quest_ref'', jt ''quest''), (''goal_revision_ref'', jt ''goal''), (''graph_revision_ref'', jt ''g1''),
         (''impact'', jt ''some'')])]"

definition run_outcome_over :: "json list \<Rightarrow> json list \<Rightarrow> json list \<Rightarrow> json list \<Rightarrow> jdict" where
  "run_outcome_over targets axes provenance prior = obj_items (rec
     [(''schema_ref'', jt SCIENTIFIC_OUTCOME_SCHEMA_REF), (''kind'', jt ''ScientificOutcomeCandidate''), (''outcome_ref'', jt ''o1''),
      (''stage_run_request_ref'', jt ''r1''), (''cycle_ref'', jt ''c1''), (''question_ref'', jt ''q''), (''quest_ref'', jt ''quest''),
      (''goal_revision_ref'', jt ''goal''), (''foreground_epoch'', JInt 1), (''disposition'', jt ''affirmed''), (''claim'', jt ''it helps''),
      (''evidence'', JList [rec [(''kind'', jt ''MetricResult''), (''ref'', jt ''m1''), (''finding'', jt ''supporting'')]]),
      (''missing_evidence'', JList []), (''uncertainty_basis'', JList []), (''support_scope'', JList [jt ''here'']), (''limitations'', JList []),
      (''causal_interpretation'', run_causal targets axes provenance), (''research_synthesis'', run_synthesis prior),
      (''is_authoritative'', JBool False)])"

definition run_outcome :: jdict where
  "run_outcome = run_outcome_over [jt ''tc1''] [jt ''axis1''] [jt ''pv1''] [jt ''o0'']"

definition run_outcome_hash :: str where
  "run_outcome_hash = sha256_hex (json_codes (JDict run_outcome))"

lemma one_dumps: "(1::int) < int_text_limit"
  unfolding int_text_limit_def by (rule one_less_power) simp_all

lemma run_outcome_ascii: "ascii_json (JDict run_outcome)"
  by (simp add: run_outcome_def run_outcome_over_def run_causal_def run_synthesis_def SCIENTIFIC_OUTCOME_SCHEMA_REF_def one_dumps)

lemma run_outcome_hashed: "canonical_hash (JDict run_outcome) = Inr run_outcome_hash"
  using ascii_json_hash [OF run_outcome_ascii] by (simp only: run_outcome_hash_def)

lemma run_head: "outcome_head_check run_outcome = Inr ()"
  by (simp add: outcome_head_check_def run_outcome_def run_outcome_over_def outcome_fields_def outcome_ref_fields_def SCIENTIFIC_OUTCOMES_def rc_eval
      del: rc_inversions)

lemma run_selection: "validate_scientific_evidence_selection (dget run_outcome ''evidence'') [JDict run_metric_leaf] None = Inr [L ''m1'']"
  by (simp add: validate_scientific_evidence_selection_def run_outcome_def run_outcome_over_def closure_step_def citation_step_def resolved_leaf_def
      validated_closure_leaf_def metric_leaf_check_def run_metric_leaf_def metric_leaf_def scientific_findings_def rc_eval
      del: rc_inversions)

lemma run_scope_and_synthesis: "validate_outcome_scope_and_synthesis run_outcome [L ''m1''] run_frozen = Inr ()"
  by (simp add: validate_outcome_scope_and_synthesis_def run_outcome_def run_outcome_over_def run_causal_def run_synthesis_def run_frozen_def
      causal_interpretation_check_def causal_list_fields_def causal_ref_fields_def research_synthesis_check_def synthesis_heads_check_def
      parent_impact_def rc_eval
      del: rc_inversions)

lemma run_bindings: "dget run_outcome ''cycle_ref'' = jt ''c1''" "dget run_outcome ''question_ref'' = jt ''q''"
  "dget run_outcome ''quest_ref'' = jt ''quest''" "dget run_outcome ''goal_revision_ref'' = jt ''goal''"
  "dget run_outcome ''missing_evidence'' = JList []" "dget run_outcome ''uncertainty_basis'' = JList []"
  by (simp_all add: run_outcome_def run_outcome_over_def)

lemma run_outcome_admitted:
  "validate_scientific_outcome run_outcome [JDict run_metric_leaf] run_context None = Inr run_outcome_hash"
proof -
  have "disposition_check run_outcome [] [] = Inr ()"
    by (simp add: disposition_check_def run_outcome_def run_outcome_over_def not_blank_L is_space_def)
  then show ?thesis
    by (simp add: validate_scientific_outcome_def frozen_context_of_def run_head run_frozen_context run_bindings run_selection
        run_scope_and_synthesis run_outcome_hashed)
qed

lemma scientific_outcome_bounded_witness: "claims_fit run_outcome \<and> canonical_hash (JDict run_outcome) = Inr run_outcome_hash"
  using scientific_outcome_bounded [OF run_outcome_admitted] by blast

subsection \<open>The stage output\<close>

definition run_next_cycle :: jdict where
  "run_next_cycle = obj_items (rec
     [(''source_quest_ref'', jt ''quest''), (''source_cycle_ref'', jt ''c1''), (''source_reasoning_stage_run_request_ref'', jt ''r1''),
      (''source_scientific_outcome_ref'', jt ''o1''), (''source_question_ref'', jt ''q''), (''source_foreground_epoch'', JInt 1),
      (''cycle_focus'', jt ''repeat''), (''schema_ref'', jt NEXT_CYCLE_PROPOSAL_SCHEMA_REF), (''kind'', jt ''NextCycleProposal''),
      (''target_question_ref'', jt ''q''), (''target_question_anchor_ref'', jt ''qa''), (''entry_stage'', jt ''plan''),
      (''typed_skip_basis_refs_by_stage'', rec [(''idea'', JList [jt ''i1''])]), (''is_authoritative'', JBool False)])"

definition run_output_of :: "jdict \<Rightarrow> jdict" where
  "run_output_of outcome = obj_items (rec
     [(''schema_ref'', jt REASONING_STAGE_OUTPUT_SCHEMA_REF), (''scientific_outcome'', JDict outcome),
      (''next_cycle_proposal'', JDict run_next_cycle), (''candidate_completion'', JNull)])"

lemma run_ascii: "ascii_json (JDict run_next_cycle)" "ascii_json (JDict (run_output_of run_outcome))"
  using run_outcome_ascii
  by (simp_all add: run_next_cycle_def run_output_of_def NEXT_CYCLE_PROPOSAL_SCHEMA_REF_def REASONING_STAGE_OUTPUT_SCHEMA_REF_def one_dumps)

lemma run_source: "require_source_outcome run_outcome = Inr ()"
  by (simp add: require_source_outcome_def run_outcome_def run_outcome_over_def outcome_ref_fields_def SCIENTIFIC_OUTCOMES_def rc_eval
      del: rc_inversions)

lemma run_transition:
  "validate_reasoning_transition run_outcome (Some run_next_cycle) None None = Inr (sha256_hex (json_codes (JDict run_next_cycle)))"
proof -
  have "reasoning_bindings_check run_next_cycle run_outcome code = Inr ()" for code
    by (simp add: reasoning_bindings_check_def source_binding_fields_def run_next_cycle_def run_outcome_def run_outcome_over_def
        del: rc_inversions)
  moreover have "next_cycle_check run_next_cycle = Inr ()"
    by (simp add: next_cycle_check_def run_next_cycle_def next_cycle_proposal_fields_def reasoning_source_fields_def
        validate_successor_route_def skip_basis_check_def skipped_stages_def stage_order_def rc_eval del: rc_inversions)
  ultimately show ?thesis
    using ascii_json_hash [OF run_ascii(1)]
    by (simp add: validate_reasoning_transition_def validate_reasoning_source_bindings_def run_source del: json_codes.simps)
qed

lemma run_output_admitted:
  "validate_reasoning_stage_output (run_output_of run_outcome) [JDict run_metric_leaf] run_context None None
     = Inr (sha256_hex (json_codes (JDict (run_output_of run_outcome))), run_outcome_hash, sha256_hex (json_codes (JDict run_next_cycle)))"
proof -
  have fields: "dget (run_output_of run_outcome) ''scientific_outcome'' = JDict run_outcome"
    "dget (run_output_of run_outcome) ''next_cycle_proposal'' = JDict run_next_cycle"
    "dget (run_output_of run_outcome) ''candidate_completion'' = JNull"
    "dget (run_output_of run_outcome) ''schema_ref'' = jt REASONING_STAGE_OUTPUT_SCHEMA_REF"
    "keys_are (run_output_of run_outcome) [''schema_ref'', ''scientific_outcome'', ''next_cycle_proposal'', ''candidate_completion'']"
    by (simp_all add: run_output_of_def keys_are_def)
  show ?thesis
    using ascii_json_hash [OF run_ascii(2)]
    by (simp add: validate_reasoning_stage_output_def Let_def fields run_outcome_admitted run_transition del: json_codes.simps)
qed

lemma stage_output_one_transition_witness: "bound_to run_next_cycle run_outcome \<and> enters_successor run_next_cycle"
  using stage_output_one_transition [OF run_output_admitted] by (simp add: run_output_of_def)

subsection \<open>The assembly\<close>

text \<open>A draft that leaves the metadata of its context empty is completed to the output above.\<close>

lemma run_draft_assembled:
  "assemble_reasoning_authoritative_metadata (run_output_of (run_outcome_over [] [] [] [])) run_context = Inr (run_output_of run_outcome)"
proof -
  let ?draft = "run_outcome_over [] [] [] []"
  have v3: "dget run_context ''schema_ref'' = jt REASONING_AUTHORITATIVE_RESEARCH_CONTEXT_SCHEMA_REF" by (simp add: run_context_def)
  have drafted: "dget (run_output_of ?draft) ''scientific_outcome'' = JDict ?draft" by (simp add: run_output_of_def)
  have identity: "identity_check ?draft run_context = Inr ()"
    by (simp add: identity_check_def run_outcome_over_def run_context_def)
  have frozen: "frozen_context_of run_context ?draft = Inr run_frozen"
    using run_frozen_context by (simp add: frozen_context_of_def run_outcome_over_def)
  have causal: "foldE (assemble_refs ''causal_interpretation.'') (obj_items (run_causal [] [] [])) (fc_causal_context run_frozen)
      = Inr (obj_items (run_causal [jt ''tc1''] [jt ''axis1''] [jt ''pv1'']))"
    by (simp add: run_causal_def run_frozen_def assemble_refs_def validate_supplied_authoritative_refs_def rc_eval has_key_def
        del: rc_inversions)
  have synthesis: "assemble_synthesis (run_synthesis []) run_frozen = Inr (obj_items (run_synthesis [jt ''o0'']))"
    by (simp add: run_synthesis_def run_frozen_def assemble_synthesis_def assemble_refs_def validate_supplied_authoritative_refs_def
        assemble_parents_def impact_step_def rc_eval has_key_def del: rc_inversions)
  have parts: "dget ?draft ''causal_interpretation'' = JDict (obj_items (run_causal [] [] []))"
    "dget ?draft ''research_synthesis'' = run_synthesis []"
    by (simp_all add: run_outcome_over_def run_causal_def)
  have "dict_set (L ''scientific_outcome'')
      (JDict (dict_set (L ''research_synthesis'') (JDict (obj_items (run_synthesis [jt ''o0''])))
        (dict_set (L ''causal_interpretation'') (JDict (obj_items (run_causal [jt ''tc1''] [jt ''axis1''] [jt ''pv1'']))) ?draft)))
      (run_output_of ?draft) = run_output_of run_outcome"
    by (simp add: run_output_of_def run_outcome_def run_outcome_over_def run_causal_def run_synthesis_def)
  then show ?thesis
    by (simp add: assemble_reasoning_authoritative_metadata_def v3 drafted identity frozen causal synthesis parts rc_object_def
        del: rc_inversions)
qed

lemma assembly_idempotent_witness:
  "assemble_reasoning_authoritative_metadata (run_output_of run_outcome) run_context = Inr (run_output_of run_outcome)
   \<and> assembles_only (run_output_of (run_outcome_over [] [] [] [])) (run_output_of run_outcome)"
  using assembly_idempotent [OF run_draft_assembled] by (simp add: v3_context_def run_context_def)

subsection \<open>The question\<close>

definition run_blueprint :: json where
  "run_blueprint = rec
     [(''title'', jt ''t''), (''unknown_statement'', jt ''u''), (''answer_shape'', jt ''a''), (''applicability_scope'', jt ''s''),
      (''background_context'', jt []), (''requirements_constraints'', jt [])]"

definition run_scope_of_question :: jdict where
  "run_scope_of_question = obj_items (rec
     [(''schema_ref'', jt AUTONOMOUS_QUESTION_SCOPE_SCHEMA_REF), (''kind'', jt ''AutonomousQuestionScope''),
      (''creation_mode'', jt ''AutonomousCreation''), (''mode'', jt ''decompose''), (''source_quest_ref'', jt ''quest''),
      (''source_cycle_ref'', jt ''c1''), (''source_reasoning_stage_run_request_ref'', jt ''r1''), (''source_scientific_outcome_ref'', jt ''o1''),
      (''source_question_ref'', jt ''q''), (''source_foreground_epoch'', JInt 1), (''question_blueprint'', run_blueprint),
      (''parent_question_ref'', jt ''q''), (''decomposition_basis_refs'', JList [jt ''o1'']), (''entry_stage'', jt ''plan''),
      (''typed_skip_basis_refs_by_stage'', rec [(''idea'', JList [jt ''i1''])]), (''is_authoritative'', JBool False)])"

lemma run_scope_admitted:
  "validate_autonomous_question_scope run_scope_of_question run_outcome = Inr (sha256_hex (json_codes (JDict run_scope_of_question)))"
proof -
  have bindings: "validate_reasoning_source_bindings run_scope_of_question run_outcome = Inr ()"
    by (simp add: validate_reasoning_source_bindings_def reasoning_bindings_check_def source_binding_fields_def run_scope_of_question_def
        run_outcome_def run_outcome_over_def del: rc_inversions)
  have question: "validate_formal_question (obj_items run_blueprint) = Inr ()"
    by (simp add: validate_formal_question_def run_blueprint_def FORMAL_QUESTION_FIELDS_def rc_eval del: rc_inversions)
  have decomposition: "decomposition_check run_scope_of_question = Inr ()"
    by (simp add: decomposition_check_def run_scope_of_question_def rc_eval del: rc_inversions)
  have skips: "skip_basis_check (jt ''plan'') [(L ''idea'', JList [jt ''i1''])] code = Inr ()" for code
    by (simp add: skip_basis_check_def skipped_stages_def stage_order_def rc_eval del: rc_inversions)
  have "ascii_json (JDict run_scope_of_question)"
    by (simp add: run_scope_of_question_def run_blueprint_def AUTONOMOUS_QUESTION_SCOPE_SCHEMA_REF_def one_dumps)
  note hash = ascii_json_hash [OF this]
  have "keys_are run_scope_of_question autonomous_scope_fields"
    by (simp add: run_scope_of_question_def keys_are_def autonomous_scope_fields_def)
  moreover have "dget run_scope_of_question ''schema_ref'' = jt AUTONOMOUS_QUESTION_SCOPE_SCHEMA_REF"
    "dget run_scope_of_question ''kind'' = jt ''AutonomousQuestionScope''" "dget run_scope_of_question ''creation_mode'' = jt ''AutonomousCreation''"
    "dget run_scope_of_question ''mode'' = jt ''decompose''" "dget run_scope_of_question ''entry_stage'' = jt ''plan''"
    "dget run_scope_of_question ''question_blueprint'' = JDict (obj_items run_blueprint)"
    "dget run_scope_of_question ''typed_skip_basis_refs_by_stage'' = JDict [(L ''idea'', JList [jt ''i1''])]"
    "dget run_scope_of_question ''is_authoritative'' = JBool False"
    by (simp_all add: run_scope_of_question_def run_blueprint_def)
  ultimately show ?thesis
    using hash by (simp add: validate_autonomous_question_scope_def Let_def bindings question decomposition skips stage_order_def
        rc_exact_keys_def rc_member_def rc_object_def in_str_set_def del: rc_inversions json_codes.simps)
qed

lemma accepted_scope_asks_witness: "\<exists>proposal. autonomous_question_proposal_from_scope run_scope_of_question run_outcome = Inr proposal"
  using accepted_scope_asks [OF run_scope_admitted run_source] by blast

subsection \<open>The reuse of a work product\<close>

definition run_use :: json where
  "run_use = rec [(''evidence_ref'', jt ''e1'')]"

definition run_use_hash :: str where
  "run_use_hash = sha256_hex (json_codes run_use)"

definition run_receipt :: "string \<Rightarrow> string \<Rightarrow> string \<Rightarrow> json" where
  "run_receipt issuer kind subject = rec
     [(''status'', jt ''accepted''), (''issuer'', jt issuer), (''kind'', jt kind), (''receipt_ref'', jt ''rr''), (''subject_ref'', jt subject),
      (''payload_hash'', jt ''ph'')]"

definition run_entry :: jdict where
  "run_entry = obj_items (rec
     [(''schema_ref'', jt ''meta-research/evidence-reuse-leaf/v1''), (''kind'', jt ''EvidenceReuseLeaf''), (''role'', jt ''WorkProduct''),
      (''evidence_ref'', jt ''e1''), (''evidence_item_ref'', jt ''w1''), (''source_role_ref'', jt ''role1''),
      (''source_variant_run_ref'', jt ''v1''), (''source_evaluation_attempt_ref'', JNull), (''source_subject_kind'', jt ''VariantRun''),
      (''source_subject_ref'', jt ''v1''), (''target_commit_ref'', jt ''tc1''), (''asset_version_ref'', jt ''a1''),
      (''evidence_catalog_entry_hash'', jt ''ch''), (''evidence_use_hashes'', JList [JStr run_use_hash]),
      (''evidence_asset_receipt'', run_receipt ''research_memory'' ''asset_acceptance'' ''a1''),
      (''evidence_role_receipt'', run_receipt ''research_graph'' ''asset_role_acceptance'' ''role1''),
      (''formal_measurement_acceptance_receipt'', JNull),
      (''target_commit_acceptance_receipt'', run_receipt ''research_graph'' ''target_commit'' ''tc1'')])"

definition run_plan_input :: jdict where
  "run_plan_input = obj_items (rec
     [(''kind'', jt ''accepted''), (''formal_plan_binding'', rec []), (''evidence_reuse_set'', JList [run_use]),
      (''evidence_reuse_closure'', JList [JDict run_entry])])"

definition run_pack :: jdict where
  "run_pack = [(L ''plan_evidence_input'', JDict run_plan_input)]"

lemma hex_not_blank: "is_hex64 h \<Longrightarrow> \<not> is_blank h"
proof -
  assume h: "is_hex64 h"
  then obtain c cs where cs: "codes h = c # cs" by (cases "codes h") (auto simp: is_hex64_def slen_def)
  moreover from h cs have "\<not> is_space c" by (auto simp: is_hex64_def schars_in_def is_space_def)
  ultimately show ?thesis by (simp add: is_blank_iff)
qed

lemma run_use_hashed: "canonical_hash run_use = Inr run_use_hash" "\<not> is_blank run_use_hash"
proof -
  have "ascii_json run_use" by (simp add: run_use_def)
  then show "canonical_hash run_use = Inr run_use_hash" unfolding run_use_hash_def by (rule ascii_json_hash)
  show "\<not> is_blank run_use_hash" unfolding run_use_hash_def by (rule hex_not_blank [OF sha256_hex_is_hex64])
qed

lemma run_entry_read:
  "receipted_leaf_step [(L ''e1'', [run_use])] nothing_reused run_entry (L ''e1'') (L ''WorkProduct'') (L ''w1'')
     = Inr (add_leaf (L ''e1'') (L ''w1'') (L ''WorkProduct'') (owned_leaf (L ''WorkProduct'') (L ''w1'') (L ''v1'') (jt ''rr'')) nothing_reused)"
proof -
  have uses: "use_hashes [(L ''e1'', [run_use])] (L ''e1'') = Inr [run_use_hash]"
    by (simp add: use_hashes_def uses_of_def run_use_hashed del: rc_inversions)
  have receipts: "validate_reasoning_owner_receipt (run_receipt ''research_memory'' ''asset_acceptance'' ''a1'') ''research_memory'' (Inl ''asset_acceptance'') (L ''a1'')
      = Inr (obj_items (run_receipt ''research_memory'' ''asset_acceptance'' ''a1''))"
    "validate_reasoning_owner_receipt (run_receipt ''research_graph'' ''asset_role_acceptance'' ''role1'') ''research_graph''
      (Inr [''asset_role_acceptance'', ''experiment_asset_role_acceptance'']) (L ''role1'') = Inr (obj_items (run_receipt ''research_graph'' ''asset_role_acceptance'' ''role1''))"
    "validate_reasoning_owner_receipt (run_receipt ''research_graph'' ''target_commit'' ''tc1'') ''research_graph''
      (Inr [''target_commit'', ''target_commit_accepted'']) (L ''tc1'') = Inr (obj_items (run_receipt ''research_graph'' ''target_commit'' ''tc1''))"
    by (simp_all add: validate_reasoning_owner_receipt_def run_receipt_def receipt_kind_known_def reasoning_receipt_fields_def rc_eval
        del: rc_inversions)
  have receipt_ref: "dget (obj_items (run_receipt issuer kind subject)) ''receipt_ref'' = jt ''rr''" for issuer kind subject
    by (simp add: run_receipt_def)
  show ?thesis
    by (simp add: receipted_leaf_step_def run_entry_def uses receipts receipt_ref run_use_hashed leaf_attempt_def leaf_measurement_receipt_def
        leaf_subject_ok_def rc_text_def rc_text_list_def not_blank_L is_space_def Let_def del: rc_inversions)
qed

lemma run_reuse:
  "plan_evidence_reuse_leaves ascii_interp run_pack = Inr [owned_leaf (L ''WorkProduct'') (L ''w1'') (L ''v1'') (jt ''rr'')]"
proof -
  have entry: "\<not> has_key run_entry (L ''source_binding'')" "dget run_entry ''role'' = jt ''WorkProduct''" "dget run_entry ''evidence_ref'' = jt ''e1''"
    "dget run_entry ''evidence_item_ref'' = jt ''w1''" "dget run_entry ''schema_ref'' = jt ''meta-research/evidence-reuse-leaf/v1''"
    "dget run_entry ''kind'' = jt ''EvidenceReuseLeaf''" "keys_are run_entry evidence_reuse_leaf_fields"
    by (simp_all add: run_entry_def has_key_def keys_are_def evidence_reuse_leaf_fields_def)
  have step: "reuse_leaf_step ascii_interp run_plan_input [(L ''e1'', [run_use])] nothing_reused (JDict run_entry)
      = Inr (add_leaf (L ''e1'') (L ''w1'') (L ''WorkProduct'') (owned_leaf (L ''WorkProduct'') (L ''w1'') (L ''v1'') (jt ''rr'')) nothing_reused)"
    by (simp add: reuse_leaf_step_def entry Let_def run_entry_read rc_object_def rc_text_def rc_exact_keys_def not_blank_L is_space_def
        del: rc_inversions)
  have uses: "use_step [] run_use = Inr [(L ''e1'', [run_use])]"
    by (simp add: use_step_def run_use_def grouped_def rc_eval del: rc_inversions)
  have input: "dget run_plan_input ''kind'' = jt ''accepted''" "dget run_plan_input ''formal_plan_binding'' = JDict []"
    "dget run_plan_input ''evidence_reuse_set'' = JList [run_use]" "dget run_plan_input ''evidence_reuse_closure'' = JList [JDict run_entry]"
    "keys_are run_plan_input [''kind'', ''formal_plan_binding'', ''evidence_reuse_set'', ''evidence_reuse_closure'']"
    by (simp_all add: run_plan_input_def keys_are_def)
  have "principal_count [L ''WorkProduct''] = 1" by (simp add: principal_count_def principal_kinds_def)
  then show ?thesis
    by (simp add: plan_evidence_reuse_leaves_def run_pack_def Let_def input uses step [unfolded nothing_reused_def] rc_object_def rc_member_def in_str_set_def rc_exact_keys_def
        add_leaf_def nothing_reused_def grouped_def del: rc_inversions)
qed

lemma plan_evidence_exact_witness:
  "list_all2 (reuse_leaf_of [run_use]) [JDict run_entry] [owned_leaf (L ''WorkProduct'') (L ''w1'') (L ''v1'') (jt ''rr'')]"
  using plan_evidence_exact [OF run_reuse] by (auto simp: run_pack_def run_plan_input_def)

text \<open>
  A receipt whose reference is a blank text is admitted, but the leaf made from it is not a leaf of a
  closure: what the reuse returned is refused when an outcome is validated over it.
\<close>

lemma blank_receipt_unusable:
  "(\<exists>d. validate_reasoning_owner_receipt
      (rec [(''status'', jt ''accepted''), (''issuer'', jt ''research_graph''), (''kind'', jt ''asset_role_acceptance''), (''receipt_ref'', jt '' ''),
            (''subject_ref'', jt ''role1''), (''payload_hash'', jt ''ph'')])
      ''research_graph'' (Inr [''asset_role_acceptance'', ''experiment_asset_role_acceptance'']) (L ''role1'') = Inr d)
   \<and> validated_closure_leaf (owned_leaf (L ''WorkProduct'') (L ''w1'') (L ''v1'') (jt '' '')) = rc_fail leaf_code"
proof -
  have "is_blank (L '' '')" by (simp add: is_blank_iff is_space_def)
  then show ?thesis
    by (simp add: validate_reasoning_owner_receipt_def receipt_kind_known_def reasoning_receipt_fields_def validated_closure_leaf_def
        owned_leaf_def owned_leaf_check_def leaf_code_def rc_eval del: rc_inversions)
qed

end
