(* ===== verification/BoundaryLaws.thy ===== *)
theory BoundaryLaws
  imports ProjectionLaws
begin

text \<open>
  What an admitted boundary record guarantees: pages of the Bundle inbox chain without gap or
  repetition, a work notice names its execution, a handoff's history matches its terminal.
\<close>

subsection \<open>Inbox pages\<close>

lemma inbox_batch_Inr:
  assumes "validate_bundle_inbox_batch b = Inr d"
  shows "map twn_sequence (bib_notices b) = [bib_after_cursor b + 1..bib_next_cursor b]"
    and "0 \<le> bib_after_cursor b" and "bib_after_cursor b \<le> bib_next_cursor b"
    and "length (bib_notices b) \<le> BUNDLE_INBOX_BATCH_MAX_NOTICES"
    and "\<And>n. n \<in> set (bib_notices b) \<Longrightarrow> \<exists>dn. validate_target_work_notice n = Inr dn"
  using assms
  by (auto simp: validate_bundle_inbox_batch_def py_range_def not_less dest: mapE_each)

text \<open>A reader that polls from cursor \<open>c\<close>, each page from the cursor the page before ended at.\<close>

fun chained_pages :: "int \<Rightarrow> BundleInboxBatch list \<Rightarrow> bool" where
  "chained_pages c [] = True"
| "chained_pages c (b # bs) = (bib_after_cursor b = c \<and> chained_pages (bib_next_cursor b) bs)"

fun end_cursor :: "int \<Rightarrow> BundleInboxBatch list \<Rightarrow> int" where
  "end_cursor c [] = c"
| "end_cursor c (b # bs) = end_cursor (bib_next_cursor b) bs"

lemma end_cursor_mono:
  "list_all (\<lambda>b. returns (validate_bundle_inbox_batch b)) bs \<Longrightarrow> chained_pages c bs \<Longrightarrow> c \<le> end_cursor c bs"
  by (induction bs arbitrary: c) (force simp: returns_iff dest: inbox_batch_Inr(3))+

lemma upto_join: "i \<le> j + 1 \<Longrightarrow> j \<le> k \<Longrightarrow> [i..j] @ [j + 1..k] = [i..k]" for i j k :: int
proof -
  assume "i \<le> j + 1" "j \<le> k"
  then consider "i \<le> j" | "i = j + 1" by linarith
  then show ?thesis using upto_split2 [of i j k] \<open>j \<le> k\<close> by cases simp_all
qed

text \<open>
  C13. Polling the Bundle inbox loses and repeats nothing: the admitted pages read one after the
  other from cursor c carry exactly the notices c+1, c+2, ..., in order.
\<close>
theorem inbox_pages_contiguous:
  assumes "list_all (\<lambda>b. returns (validate_bundle_inbox_batch b)) bs" and "chained_pages c bs"
  shows "map twn_sequence (concat (map bib_notices bs)) = [c + 1..end_cursor c bs]"
  using assms
proof (induction bs arbitrary: c)
  case (Cons b bs)
  then obtain d where b: "validate_bundle_inbox_batch b = Inr d" by (auto simp: returns_iff)
  have "bib_next_cursor b \<le> end_cursor (bib_next_cursor b) bs"
    using Cons.prems by (intro end_cursor_mono) auto
  then show ?case
    using Cons.IH [of "bib_next_cursor b"] Cons.prems inbox_batch_Inr(1,3) [OF b]
      upto_join [of "c + 1" "bib_next_cursor b" "end_cursor (bib_next_cursor b) bs"]
    by simp
qed simp

text \<open>A page of two notices.\<close>

definition sample_notice :: "int \<Rightarrow> TargetWorkNotice" where
  "sample_notice i =
     \<lparr>twn_notice_ref = L ''notice'', twn_sequence = i, twn_terminal_transition_ref = L ''transition'',
      twn_kind = L ''target_completed'', twn_target_ref = L ''target'', twn_target_run_ref = L ''run'',
      twn_execution_attempt_ref = Some (L ''attempt''), twn_execution_fence_ref = Some (L ''fence''),
      twn_terminal_fact_ref = L ''fact'', twn_handoff_manifest_ref = L ''manifest'',
      twn_handoff_manifest_sha256 = Str (replicate 64 48), twn_compact_reason = L ''done'',
      twn_pending_obligation_refs = [], twn_payload_sha256 = Str (replicate 64 48)\<rparr>"

lemmas sample_notice_simps = pv_TargetWorkNotice_def sample_notice_def hints_TargetWorkNotice_def

lemma sample_notice_walked:
  "\<exists>d. validate_closed_bundle_projection (pv_TargetWorkNotice (sample_notice 4)) ''TargetWorkNotice'' 65536 = Inr d"
  "\<exists>d. validate_closed_bundle_projection (pv_TargetWorkNotice (sample_notice 5)) ''TargetWorkNotice'' 65536 = Inr d"
  by (rule closed_projection_admits; simp add: walk_simps sample_notice_simps)+

lemma blank_L [simp]: "is_blank (L s) \<longleftrightarrow> list_all (\<lambda>c. is_space (of_char c)) s"
  by (simp add: is_blank_iff list_all_iff)

lemma notice_admits:
  assumes "\<exists>d. validate_closed_bundle_projection (pv_TargetWorkNotice (sample_notice i)) ''TargetWorkNotice'' 65536 = Inr d"
    and "1 \<le> i"
  shows "\<exists>d. validate_target_work_notice (sample_notice i) = Inr d"
  using assms
  by (auto simp: validate_target_work_notice_def sample_notice_def notice_refs_def notice_execution_refs_def
        BUNDLE_NOTICE_MAX_SERIALIZED_BYTES_def plain_ascii_encode scontains_def slen_def is_space_def
        BUNDLE_NOTICE_REASON_MAX_CHARS_def BUNDLE_NOTICE_REASON_MAX_UTF8_BYTES_def BUNDLE_NOTICE_REF_MAX_UTF8_BYTES_def)

definition sample_batch :: BundleInboxBatch where
  "sample_batch = \<lparr>bib_after_cursor = 3, bib_next_cursor = 5, bib_generation = 1,
     bib_notices = [sample_notice 4, sample_notice 5]\<rparr>"

lemma sample_batch_admitted: "\<exists>d. validate_bundle_inbox_batch sample_batch = Inr d"
proof -
  have "\<exists>d. validate_closed_bundle_projection (pv_BundleInboxBatch sample_batch) ''BundleInboxBatch'' 1048576 = Inr d"
    by (rule closed_projection_admits)
      (simp_all add: walk_simps sample_notice_simps sample_batch_def pv_BundleInboxBatch_def hints_BundleInboxBatch_def duplicate_sensitive_types_def)
  then show ?thesis
    using sample_notice_walked [THEN notice_admits]
    by (auto simp: validate_bundle_inbox_batch_def BUNDLE_INBOX_BATCH_MAX_SERIALIZED_BYTES_def sample_batch_def
       BUNDLE_INBOX_BATCH_MAX_NOTICES_def py_range_def sample_notice_def upto.simps)
qed
theorem inbox_pages_contiguous_witness:
  "map twn_sequence (concat (map bib_notices [sample_batch])) = [3 + 1..end_cursor 3 [sample_batch]]"
  by (rule inbox_pages_contiguous)
     (use sample_batch_admitted in \<open>auto simp: returns_iff sample_batch_def\<close>)

subsection \<open>Handoffs\<close>

text \<open>The one history law every admitted handoff obeys: a blocker between each two handles.\<close>

definition history_alternates :: "TargetRunHandoff \<Rightarrow> bool" where
  "history_alternates h \<longleftrightarrow>
     length (trh_handle_history h) = length (trh_recovered_blockers h) + 1"

lemma receipt_proof_Inr:
  "validate_receipt_proof r s = Inr u \<Longrightarrow>
     \<not> is_blank (rp_receipt_ref r) \<and> rp_subject_ref r = s \<and> rp_verified r \<and> rp_currentness_known r \<and> rp_current r"
  by (auto simp: validate_receipt_proof_def)

lemma not_falsy_ref: "\<not> falsy_ref v \<Longrightarrow> \<exists>s. v = Some s"
  by (cases v) (simp_all add: falsy_ref_def)

lemma goal_work_Inr:
  assumes "validate_goal_work_disposition v = Inr u"
  shows "gwd_disposition v = L ''not_started'' \<and> gwd_execution_attempt_ref v = None \<and> gwd_execution_fence_ref v = None
          \<and> gwd_custody_refs v = []
       \<or> gwd_disposition v = L ''cancelled'' \<and> gwd_execution_attempt_ref v \<noteq> None \<and> gwd_execution_fence_ref v \<noteq> None
          \<and> gwd_custody_refs v \<noteq> []"
  using assms by (auto simp: validate_goal_work_disposition_def Let_def dest!: not_falsy_ref split: if_splits)

lemma length_pred_int: "int n = int m - 1 \<Longrightarrow> m = n + 1"
  by linarith

lemma root_handoff_complete:
  assumes "\<not> root_handoff_incomplete h c"
  shows "history_alternates h \<and> amc_code_review c = None \<and> amc_result_review c = None
     \<and> twh_target_ref (last (trh_handle_history h)) = amc_target_ref c
     \<and> twh_target_run_ref (last (trh_handle_history h)) = amc_target_run_ref c
     \<and> twh_execution_attempt_ref (last (trh_handle_history h)) = amc_execution_attempt_ref c
     \<and> twh_execution_fence_ref (last (trh_handle_history h)) = amc_execution_fence_ref c"
  using assms
  by (cases "trh_handle_history h = []")
     (auto simp: root_handoff_incomplete_def Let_def history_alternates_def dest: length_pred_int)

text \<open>
  C27. An admitted TargetRun handoff has exactly one of three shapes.  A Goal that was never
  started has an empty history and no execution; everywhere else the history is a non-empty
  alternation of handles and recovered blockers; a root completion moreover names the last
  handle's target, run, attempt and fence, carries no review, and its receipt is verified,
  current and about that very attempt.
\<close>
theorem handoff_shapes:
  assumes "validate_target_run_handoff h = Inr d"
  shows "case trh_terminal h of
      Term_GoalWorkDisposition g \<Rightarrow>
        (if gwd_disposition g = L ''not_started''
         then trh_handle_history h = [] \<and> trh_recovered_blockers h = []
              \<and> gwd_execution_attempt_ref g = None \<and> gwd_custody_refs g = []
         else gwd_disposition g = L ''cancelled'' \<and> history_alternates h
              \<and> gwd_execution_attempt_ref g \<noteq> None \<and> gwd_custody_refs g \<noteq> [])
    | Term_AcceptedMeasurementClosure c \<Rightarrow>
        history_alternates h \<and>
        (case amc_root_completion_receipt c of
           None \<Rightarrow> trh_code_review_preflights h \<noteq> []
         | Some r \<Rightarrow>
             let w = last (trh_handle_history h) in
             twh_target_ref w = amc_target_ref c \<and> twh_target_run_ref w = amc_target_run_ref c
             \<and> twh_execution_attempt_ref w = amc_execution_attempt_ref c
             \<and> twh_execution_fence_ref w = amc_execution_fence_ref c
             \<and> amc_code_review c = None \<and> amc_result_review c = None
             \<and> rp_subject_ref r = twh_execution_attempt_ref w \<and> rp_verified r \<and> rp_current r)
    | _ \<Rightarrow> history_alternates h \<and> trh_code_review_preflights h \<noteq> []"
proof (cases "trh_terminal h")
  case (Term_GoalWorkDisposition g)
  then obtain u where g: "validate_goal_work_disposition g = Inr u" and c: "goal_work_handoff_complete h g"
    using assms by (auto simp: validate_target_run_handoff_def)
  show ?thesis
    using goal_work_Inr [OF g] c Term_GoalWorkDisposition
    by (auto simp: goal_work_handoff_complete_def history_alternates_def dest: length_pred_int split: if_splits)
next
  case (Term_AcceptedMeasurementClosure c)
  show ?thesis
  proof (cases "amc_root_completion_receipt c")
    case None
    then show ?thesis
      using assms Term_AcceptedMeasurementClosure
      by (auto simp: validate_target_run_handoff_def root_completion_def history_alternates_def dest: length_pred_int)
  next
    case (Some r)
    then obtain u where "validate_receipt_proof r (amc_execution_attempt_ref c) = Inr u"
      and "\<not> root_handoff_incomplete h c"
      using assms Term_AcceptedMeasurementClosure by (auto simp: validate_target_run_handoff_def root_completion_def)
    then show ?thesis
      using receipt_proof_Inr [of r] root_handoff_complete [of h c] Some Term_AcceptedMeasurementClosure
      by (auto simp: Let_def)
  qed
qed (use assms in \<open>auto simp: validate_target_run_handoff_def root_completion_def history_alternates_def
       dest: length_pred_int\<close>)

text \<open>A Goal run that was cancelled after one handle.\<close>

definition sample_handle :: TargetWorkHandle where
  "sample_handle =
     \<lparr>twh_target_ref = L ''target'', twh_target_run_ref = L ''run'', twh_root_session_ref = L ''session'',
      twh_execution_attempt_ref = L ''attempt'', twh_execution_fence_ref = L ''fence'',
      twh_execution_input_binding_ref = L ''input'',
      twh_execution_input_binding_receipt =
        \<lparr>rp_receipt_ref = L ''receipt'', rp_subject_ref = L ''input'', rp_verified = True, rp_currentness_known = True, rp_current = True\<rparr>,
      twh_accepted_input_target_commit_refs = [], twh_accepted_input_asset_proofs = [], twh_recoverable = True\<rparr>"

definition sample_disposition :: GoalWorkDisposition where
  "sample_disposition =
     \<lparr>gwd_disposition = L ''cancelled'', gwd_target_ref = L ''target'', gwd_target_run_ref = L ''run'',
      gwd_execution_attempt_ref = Some (L ''attempt''), gwd_execution_fence_ref = Some (L ''fence''),
      gwd_terminal_fact_ref = L ''fact'', gwd_goal_work_intent_ref = L ''intent'', gwd_goal_revision_ref = L ''goal'',
      gwd_goal_revision_receipt_ref = L ''receipt'', gwd_goal_revision_receipt_hash = Str (replicate 64 97),
      gwd_reason = L ''goal moved'', gwd_retention_kind = Some (L ''selected''), gwd_custody_refs = [L ''asset'']\<rparr>"

definition sample_handoff :: TargetRunHandoff where
  "sample_handoff =
     \<lparr>trh_handle_history = [sample_handle], trh_code_review_preflights = [], trh_stop_decisions = [],
      trh_recovered_blockers = [], trh_recovery_evidence_refs = [], trh_terminal = Term_GoalWorkDisposition sample_disposition\<rparr>"

lemma sample_disposition_admitted: "validate_goal_work_disposition sample_disposition = Inr ()"
  by (simp add: validate_goal_work_disposition_def sample_disposition_def is_space_def Let_def schars_in_def slen_def
      scontains_def plain_ascii_encode falsy_ref_def sorted_set_def BUNDLE_NOTICE_REASON_MAX_UTF8_BYTES_def list_all_iff)

lemma sample_handoff_admitted: "\<exists>d. validate_target_run_handoff sample_handoff = Inr d"
proof -
  have "\<exists>d. validate_closed_bundle_projection (pv_TargetRunHandoff sample_handoff) ''TargetRunHandoff'' 4194304 = Inr d"
    by (rule closed_projection_admits;
        simp add: walk_simps sample_handoff_def sample_handle_def sample_disposition_def pv_TargetRunHandoff_def
          pv_TargetWorkHandle_def pv_GoalWorkDisposition_def pv_ReceiptProof_def hints_TargetRunHandoff_def
          hints_TargetWorkHandle_def hints_GoalWorkDisposition_def hints_ReceiptProof_def duplicate_sensitive_types_def)
  then show ?thesis
    using sample_disposition_admitted
    by (auto simp: validate_target_run_handoff_def BUNDLE_HANDOFF_MAX_SERIALIZED_BYTES_def sample_handoff_def
        goal_work_handoff_complete_def sample_disposition_def sorted_set_def)
qed

theorem handoff_shapes_witness:
  "history_alternates sample_handoff \<and> gwd_custody_refs sample_disposition \<noteq> []"
  using sample_handoff_admitted handoff_shapes [of sample_handoff]
  by (auto simp: sample_handoff_def sample_disposition_def)

end
