(* ===== verification/TargetContract.thy ===== *)
theory TargetContract
  imports ProjectionLaws
begin

text \<open>
  \<open>src/meta_research/bundle_target_contract.py\<close>, part one: the contract's data, its primitive
  closed-value helpers (\<open>_ref\<close>, \<open>_string_list\<close>, \<open>_exact_dict\<close>, ...), the bounded walk of a JSON
  root, and frozen domain documents.
\<close>

abbreviation bt_fail :: "string \<Rightarrow> 'a res" where
  "bt_fail code \<equiv> Inl (BundleTargetContractError code)"

definition NORMALIZED_COMPLETION_CONTRACT_SCHEMA_REF :: string where
  "NORMALIZED_COMPLETION_CONTRACT_SCHEMA_REF = ''meta-research/bundle-normalized-completion-contract/v1''"

definition FORMAL_TARGET_CANDIDATE_SCHEMA_REF :: string where
  "FORMAL_TARGET_CANDIDATE_SCHEMA_REF = ''meta-research/bundle-formal-target-candidate/v2''"

definition FORMAL_STRATEGY_UPDATE_SCHEMA_REF :: string where
  "FORMAL_STRATEGY_UPDATE_SCHEMA_REF = ''meta-research/bundle-formal-strategy-update/v2''"

definition ROLLING_STRATEGY_STATE_SCHEMA_REF :: string where
  "ROLLING_STRATEGY_STATE_SCHEMA_REF = ''meta-research/bundle-rolling-strategy-state/v2''"

definition MEASUREMENT_CONTRACT_CANDIDATE_SCHEMA_REF :: string where
  "MEASUREMENT_CONTRACT_CANDIDATE_SCHEMA_REF = ''meta-research/target-measurement-contract-candidate/v1''"

definition PROTOCOL_VERSION_CANDIDATE_SCHEMA_REF :: string where
  "PROTOCOL_VERSION_CANDIDATE_SCHEMA_REF = ''meta-research/target-protocol-version-candidate/v1''"

definition BUNDLE_ROOT_MAX_DEPTH :: nat where
  "BUNDLE_ROOT_MAX_DEPTH = 64"

definition METRIC_DEFINITION_MAX_ITEMS :: nat where
  "METRIC_DEFINITION_MAX_ITEMS = 64"

definition domain_routing_fields :: "string list" where
  "domain_routing_fields =
     [''adapter'', ''adapter_kind'', ''argv'', ''command'', ''container_image'', ''entrypoint'', ''execution'',
      ''execution_payload'', ''image'', ''provider'', ''provider_registry'', ''runtime_binding'']"

definition plan_brief_fields :: "string list" where
  "plan_brief_fields =
     [''experiment_key'', ''gap_obligation_keys'', ''goal'', ''characteristics'', ''boundary_constraints'',
      ''semantic_delta'', ''contributing_idea_refs'']"

definition plan_prose_fields :: "string list" where
  "plan_prose_fields = [''goal'', ''characteristics'', ''boundary_constraints'', ''semantic_delta'']"

definition plan_semantic_fields :: "string list" where
  "plan_semantic_fields = plan_prose_fields @ [''experiment_key'']"

definition normalized_brief_fields :: "string list" where
  "normalized_brief_fields = [''experiment_key'', ''semantic_delta'', ''held_fixed_slots'', ''required_measurement_unit_keys'']"

definition target_candidate_fields :: "string list" where
  "target_candidate_fields =
     [''local_label'', ''experiment_keys'', ''measurement_unit_keys'', ''held_fixed_bindings'',
      ''implementation_revision_ref'', ''code_changed'', ''routes'', ''depends_on_labels'',
      ''direct_accepted_input_asset_refs'']"

subsection \<open>Data\<close>

record FrozenJsonObject =
  fjo_canonical_json :: str

record FrozenSemanticInputs =
  fsi_experiment_key :: str
  fsi_goal :: str
  fsi_characteristics :: str
  fsi_boundary_constraints :: str
  fsi_semantic_delta :: str

record NormalizedExperimentCompletion =
  nec_semantic_inputs :: FrozenSemanticInputs
  nec_brief :: ExperimentBrief

record NormalizedCompletionContract =
  ncc_plan_document_hash :: str
  ncc_experiments :: "NormalizedExperimentCompletion list"
  ncc_schema_ref :: str

record FrozenAggregationRule =
  far_rule_ref :: str
  far_rule :: FrozenJsonObject

record FrozenStopRule =
  fsr_rule_ref :: str
  fsr_rule :: FrozenJsonObject

record FrozenMetricDefinition =
  fmd_metric_key :: str
  fmd_definition :: FrozenJsonObject

record FrozenProtocolVersionCandidate =
  fpv_evaluation_data :: FrozenJsonObject
  fpv_split :: FrozenJsonObject
  fpv_preprocessing :: FrozenJsonObject
  fpv_required_metrics :: "FrozenMetricDefinition list"
  fpv_optional_metrics :: "FrozenMetricDefinition list"
  fpv_internal_part_keys :: "str list"
  fpv_aggregation :: "FrozenAggregationRule option"
  fpv_preregistered_stop_rules :: "FrozenStopRule list"
  fpv_schema_ref :: str

record TargetMeasurementContractCandidate =
  tmc_experiment_keys :: "str list"
  tmc_measurement_unit_key :: str
  tmc_baseline_forward_contract :: FrozenJsonObject
  tmc_variant_recipe :: FrozenJsonObject
  tmc_evaluation_protocol_lineage :: FrozenJsonObject
  tmc_protocol_version :: FrozenProtocolVersionCandidate
  tmc_checkpoint_policy :: str
  tmc_result_schema_ref :: str
  tmc_result_schema :: FrozenJsonObject
  tmc_schema_ref :: str

record FormalTargetCandidate =
  ftc_candidate :: TargetCandidate
  ftc_semantic_inputs :: "FrozenSemanticInputs list"
  ftc_measurement_contract :: TargetMeasurementContractCandidate
  ftc_risk_class :: str
  ftc_schema_ref :: str

record FormalStrategyUpdate =
  fsu_update :: StrategyUpdate
  fsu_candidates :: "FormalTargetCandidate list"
  fsu_schema_ref :: str
  fsu_notes :: "str option"

record RollingStrategyState =
  rss_completion_contract_hash :: str
  rss_strategy :: StrategyUpdate
  rss_candidates :: "FormalTargetCandidate list"
  rss_schema_ref :: str

record LegacyV2TargetSpec =
  lts_payload :: FrozenJsonObject

subsection \<open>Primitive closed values\<close>

definition utf8_bytes_of :: "str \<Rightarrow> string \<Rightarrow> nat list res" where
  "utf8_bytes_of value name =
     rethrow (\<lambda>_. True) (\<lambda>_. BundleTargetContractError (name @ '' is not UTF-8'')) (encode_utf8 value)"

definition exact_dict :: "json \<Rightarrow> string list \<Rightarrow> string \<Rightarrow> jdict res" where
  "exact_dict value required code =
     (case value of JDict d \<Rightarrow> if \<not> keys_are d required then bt_fail code else Inr d | _ \<Rightarrow> bt_fail code)"

definition exact_object :: "json \<Rightarrow> string \<Rightarrow> jdict res" where
  "exact_object value code =
     (case value of JDict d \<Rightarrow> if d = [] then bt_fail code else Inr d | _ \<Rightarrow> bt_fail code)"

fun is_dict :: "json \<Rightarrow> bool" where
  "is_dict (JDict _) = True"
| "is_dict _ = False"

definition object_list :: "json \<Rightarrow> string \<Rightarrow> json list res" where
  "object_list value code =
     (case value of
        JList xs \<Rightarrow>
          if BUNDLE_PROJECTION_MAX_TUPLE_ITEMS < length xs then bt_fail code
          else if list_ex (\<lambda>x. \<not> is_dict x) xs then bt_fail code
          else Inr xs
      | _ \<Rightarrow> bt_fail code)"

definition text_value :: "json \<Rightarrow> string \<Rightarrow> str res" where
  "text_value value name =
     (case value of
        JStr s \<Rightarrow>
          if is_blank s then bt_fail (name @ ''_invalid'')
          else bindE (utf8_bytes_of s name) (\<lambda>b.
            if BUNDLE_PROJECTION_STRING_MAX_UTF8_BYTES < length b then bt_fail (name @ ''_invalid'')
            else Inr s)
      | _ \<Rightarrow> bt_fail (name @ ''_invalid''))"

definition plan_text :: "json \<Rightarrow> string \<Rightarrow> str res" where
  "plan_text value name =
     (case value of
        JStr s \<Rightarrow>
          if is_blank s \<or> PLAN_TEXT_MAX_CHARS < slen s then bt_fail (name @ ''_invalid'')
          else bindE (utf8_bytes_of s name) (\<lambda>_. Inr s)
      | _ \<Rightarrow> bt_fail (name @ ''_invalid''))"

definition ref_value :: "json \<Rightarrow> string \<Rightarrow> str res" where
  "ref_value value name =
     bindE (text_value value name) (\<lambda>result.
     if result \<noteq> strip result \<or> scontains 0 result \<or> scontains 13 result \<or> scontains 10 result
     then bt_fail (name @ ''_invalid'')
     else Inr result)"

definition metric_key :: "json \<Rightarrow> str res" where
  "metric_key value =
     bindE (ref_value value ''MetricKey'') (\<lambda>result.
     bindE (utf8_bytes_of result ''MetricKey'') (\<lambda>b.
     if 128 < length b then bt_fail ''MetricKey_invalid'' else Inr result))"

definition sha256_value :: "json \<Rightarrow> string \<Rightarrow> str res" where
  "sha256_value value name =
     bindE (ref_value value name) (\<lambda>result.
     if slen result \<noteq> 64 \<or> \<not> schars_in result ''0123456789abcdef''
     then bt_fail (name @ ''_invalid'')
     else Inr result)"

definition string_list :: "json \<Rightarrow> string \<Rightarrow> bool \<Rightarrow> str list res" where
  "string_list value name allow_empty =
     (case value of
        JList xs \<Rightarrow>
          bindE (mapE (\<lambda>item. ref_value item name) xs) (\<lambda>result.
          if (result = [] \<and> \<not> allow_empty) \<or> \<not> distinct result
          then bt_fail (name @ ''_invalid'')
          else Inr result)
      | _ \<Rightarrow> bt_fail (name @ ''_invalid''))"

definition canonical_string_tuple :: "str list \<Rightarrow> string \<Rightarrow> bool \<Rightarrow> str list res" where
  "canonical_string_tuple value name allow_empty =
     bindE (mapE (\<lambda>item. ref_value (JStr item) name) value) (\<lambda>result.
     if (result = [] \<and> \<not> allow_empty) \<or> \<not> distinct result
     then bt_fail (name @ ''_invalid'')
     else Inr result)"

definition exact_bool :: "json \<Rightarrow> string \<Rightarrow> bool res" where
  "exact_bool value name = (case value of JBool b \<Rightarrow> Inr b | _ \<Rightarrow> bt_fail (name @ ''_invalid''))"

definition risk_class :: "json \<Rightarrow> str res" where
  "risk_class value =
     (case value of
        JStr s \<Rightarrow> if \<not> str_in s [''normal'', ''high''] then bt_fail ''formal_target_risk_class_invalid'' else Inr s
      | _ \<Rightarrow> bt_fail ''formal_target_risk_class_invalid'')"

definition checkpoint_policy :: "json \<Rightarrow> str res" where
  "checkpoint_policy value =
     (case value of
        JStr s \<Rightarrow>
          if \<not> str_in s [''forbidden'', ''optional'', ''required'']
          then bt_fail ''measurement_checkpoint_policy_invalid'' else Inr s
      | _ \<Rightarrow> bt_fail ''measurement_checkpoint_policy_invalid'')"

definition nonnegative_int :: "json \<Rightarrow> string \<Rightarrow> int res" where
  "nonnegative_int value name =
     (case value of
        JInt i \<Rightarrow> if i < 0 \<or> BUNDLE_CANONICAL_INTEGER_MAX_ABS < i then bt_fail (name @ ''_invalid'') else Inr i
      | _ \<Rightarrow> bt_fail (name @ ''_invalid''))"

definition positive_int :: "json \<Rightarrow> string \<Rightarrow> int res" where
  "positive_int value name =
     bindE (nonnegative_int value name) (\<lambda>result.
     if result < 1 then bt_fail (name @ ''_invalid'') else Inr result)"

subsection \<open>The bounded walk of a JSON root\<close>

definition canonical_json_of :: "json \<Rightarrow> string \<Rightarrow> str res" where
  "canonical_json_of value name =
     rethrow is_value_error (\<lambda>_. BundleTargetContractError (name @ '' is not canonical UTF-8 JSON'')) (json_dumps value)"

record root_mode =
  free_text_fields :: "string list"
  plan_document :: bool
  plan_projection :: bool

definition plain_mode :: root_mode where
  "plain_mode = \<lparr>free_text_fields = [], plan_document = False, plan_projection = False\<rparr>"

definition plan_mode :: root_mode where
  "plan_mode = plain_mode\<lparr>plan_projection := True\<rparr>"

definition plan_prose_record :: "root_mode \<Rightarrow> jdict \<Rightarrow> bool" where
  "plan_prose_record mode d \<longleftrightarrow>
     plan_projection mode \<and> (keys_are d plan_semantic_fields \<or> keys_are d normalized_brief_fields)"

definition root_text :: "root_mode \<Rightarrow> string \<Rightarrow> bool \<Rightarrow> bool \<Rightarrow> str \<Rightarrow> unit res" where
  "root_text mode name free_text prose_text s =
     (if prose_text \<and> PLAN_TEXT_MAX_CHARS < slen s then bt_fail (name @ '' has oversized Plan text'')
      else bindE (utf8_bytes_of s name) (\<lambda>b.
        if BUNDLE_PROJECTION_STRING_MAX_UTF8_BYTES < length b \<and> \<not> free_text \<and> \<not> plan_document mode \<and> \<not> prose_text
        then bt_fail (name @ '' has oversized text'')
        else Inr ()))"

text \<open>\<open>root_visit\<close> returns the node count; the two flags are those of the call on this item.\<close>

fun root_visit :: "root_mode \<Rightarrow> string \<Rightarrow> json \<Rightarrow> nat \<Rightarrow> bool \<Rightarrow> bool \<Rightarrow> nat \<Rightarrow> nat res"
and root_visit_list :: "root_mode \<Rightarrow> string \<Rightarrow> json list \<Rightarrow> nat \<Rightarrow> nat \<Rightarrow> nat res"
and root_visit_dict :: "root_mode \<Rightarrow> string \<Rightarrow> bool \<Rightarrow> (str \<times> json) list \<Rightarrow> nat \<Rightarrow> nat \<Rightarrow> nat res" where
  "root_visit mode name item depth free_text prose_text count =
     (if BUNDLE_ROOT_MAX_DEPTH < depth then bt_fail (name @ '' exceeds depth budget'')
      else let n = count + 1 in
      if BUNDLE_ROOT_MAX_NODES < n then bt_fail (name @ '' exceeds node budget'')
      else case item of
        JDict d \<Rightarrow>
          if BUNDLE_PROJECTION_MAX_TUPLE_ITEMS < length d then bt_fail (name @ '' has oversized object'')
          else root_visit_dict mode name (plan_prose_record mode d) d depth n
      | JList xs \<Rightarrow>
          if BUNDLE_PROJECTION_MAX_TUPLE_ITEMS < length xs then bt_fail (name @ '' has oversized list'')
          else root_visit_list mode name xs depth n
      | JStr s \<Rightarrow> bindE (root_text mode name free_text prose_text s) (\<lambda>_. Inr n)
      | JBool _ \<Rightarrow> Inr n
      | JNull \<Rightarrow> Inr n
      | JInt i \<Rightarrow>
          if BUNDLE_CANONICAL_INTEGER_MAX_ABS < \<bar>i\<bar> then bt_fail (name @ '' has oversized integer'') else Inr n
      | JFloat f \<Rightarrow> if \<not> float_finite f then bt_fail (name @ '' has non-finite number'') else Inr n)"
| "root_visit_list mode name [] depth count = Inr count"
| "root_visit_list mode name (x # xs) depth count =
     bindE (root_visit mode name x (depth + 1) False False count) (root_visit_list mode name xs depth)"
| "root_visit_dict mode name prose [] depth count = Inr count"
| "root_visit_dict mode name prose ((k, x) # d) depth count =
     bindE (utf8_bytes_of k name) (\<lambda>_.
     bindE (root_visit mode name x (depth + 1) (depth = 0 \<and> str_in k (free_text_fields mode))
              (prose \<and> str_in k plan_prose_fields) count)
       (root_visit_dict mode name prose d depth))"

definition validate_json_root :: "root_mode \<Rightarrow> json \<Rightarrow> string \<Rightarrow> str res" where
  "validate_json_root mode value name =
     bindE (root_visit mode name value 0 False False 0) (\<lambda>_.
     bindE (canonical_json_of value name) (\<lambda>text.
     bindE (encode_utf8 text) (\<lambda>encoded.
     if BUNDLE_ROOT_MAX_SERIALIZED_BYTES < int (length encoded) then bt_fail (name @ '' exceeds byte budget'')
     else Inr (sha256_hex encoded))))"

subsection \<open>Frozen domain documents\<close>

definition as_dict :: "FrozenJsonObject \<Rightarrow> jdict res" where
  "as_dict value =
     bindE (json_loads (fjo_canonical_json value)) (\<lambda>v.
       case v of JDict d \<Rightarrow> Inr d | _ \<Rightarrow> bt_fail ''frozen_json_object_invalid'')"

definition freeze_object :: "jdict \<Rightarrow> string \<Rightarrow> FrozenJsonObject res" where
  "freeze_object value name =
     bindE (canonical_json_of (JDict value) name) (\<lambda>t. Inr \<lparr>fjo_canonical_json = t\<rparr>)"

text \<open>A routing key is compared casefolded, with hyphens as underscores.\<close>

definition routing_key :: "str \<Rightarrow> bool" where
  "routing_key key \<longleftrightarrow> str_in (sreplace 45 95 (casefold key)) domain_routing_fields"

fun json_nodes :: "json \<Rightarrow> nat" where
  "json_nodes (JList xs) = Suc (sum_list (map json_nodes xs))"
| "json_nodes (JDict d) = Suc (sum_list (map (\<lambda>p. json_nodes (snd p)) d))"
| "json_nodes _ = 1"

text \<open>
  The \<open>while pending\<close> loop with its stack (its top is the head of the list here, the last
  element there).  In a result schema only the root object and lists are entered.
\<close>

function routing_loop :: "bool \<Rightarrow> json list \<Rightarrow> bool" where
  "routing_loop schema_document [] = False"
| "routing_loop schema_document (value # pending) =
     (case value of
        JDict d \<Rightarrow>
          if list_ex (\<lambda>p. routing_key (fst p)) d then True
          else if schema_document then routing_loop schema_document pending
          else routing_loop schema_document (rev (map snd d) @ pending)
      | JList xs \<Rightarrow> routing_loop schema_document (rev xs @ pending)
      | _ \<Rightarrow> routing_loop schema_document pending)"
  by pat_completeness auto
termination
  by (relation "measure (\<lambda>(_, pending). sum_list (map json_nodes pending))")
     (simp_all add: sum_list_rev rev_map [symmetric] comp_def)

definition validate_domain_document_root :: "jdict \<Rightarrow> string \<Rightarrow> unit res" where
  "validate_domain_document_root document name =
     (if document = [] then bt_fail (name @ ''_invalid'')
      else if routing_loop (name = ''measurement result schema'') [JDict document]
      then bt_fail (name @ ''_contains_runtime_routing'')
      else Inr ())"

definition domain_document :: "json \<Rightarrow> string \<Rightarrow> FrozenJsonObject res" where
  "domain_document value name =
     bindE (exact_object value (name @ ''_invalid'')) (\<lambda>document.
     bindE (validate_json_root plain_mode (JDict document) name) (\<lambda>_.
     bindE (validate_domain_document_root document name) (\<lambda>_.
     freeze_object document name)))"

definition validate_frozen_domain_document :: "FrozenJsonObject \<Rightarrow> string \<Rightarrow> unit res" where
  "validate_frozen_domain_document value name =
     bindE (rethrow is_value_error (\<lambda>_. BundleTargetContractError (name @ ''_invalid'')) (as_dict value)) (\<lambda>document.
     bindE (canonical_json_of (JDict document) name) (\<lambda>canonical.
     if fjo_canonical_json value \<noteq> canonical then bt_fail (name @ ''_not_canonical'')
     else
       bindE (validate_json_root plain_mode (JDict document) name) (\<lambda>_.
       validate_domain_document_root document name)))"

end
