(* ===== verification/TargetParse.thy ===== *)
theory TargetParse
  imports TargetContract
begin

text \<open>
  \<open>src/meta_research/bundle_target_contract.py\<close>, part two: the parsers and serialisers of
  candidates, briefs, semantic inputs, protocol versions and measurement contracts, with the
  validators they share.
\<close>

abbreviation obj :: "(string \<times> json) list \<Rightarrow> json" where
  "obj kvs \<equiv> JDict (map (\<lambda>p. (L (fst p), snd p)) kvs)"

definition jstrs :: "str list \<Rightarrow> json" where
  "jstrs xs = JList (map JStr xs)"

text \<open>Field of a document whose keys were checked by \<open>exact_dict\<close>: \<open>document["k"]\<close>.\<close>

subsection \<open>Target candidates\<close>

definition held_fixed_from_dict :: "json \<Rightarrow> HeldFixedBinding res" where
  "held_fixed_from_dict value =
     bindE (exact_dict value [''semantic_slot'', ''implementation_revision_ref''] ''held_fixed_binding_invalid'') (\<lambda>document.
     bindE (ref_value (dget document ''semantic_slot'') ''held-fixed slot'') (\<lambda>semantic_slot.
     bindE (ref_value (dget document ''implementation_revision_ref'') ''held-fixed revision'') (\<lambda>revision.
     Inr \<lparr>hfb_semantic_slot = semantic_slot, hfb_implementation_revision_ref = revision\<rparr>)))"

definition route_from_dict :: "json \<Rightarrow> RouteSpec res" where
  "route_from_dict value =
     bindE (exact_dict value [''route_ref'', ''known_external_operation_refs''] ''route_invalid'') (\<lambda>document.
     bindE (ref_value (dget document ''route_ref'') ''route ref'') (\<lambda>route_ref.
     bindE (string_list (dget document ''known_external_operation_refs'') ''external operation refs'' True) (\<lambda>refs.
     Inr \<lparr>rs_route_ref = route_ref, rs_known_external_operation_refs = refs\<rparr>)))"

definition candidate_from_dict :: "json \<Rightarrow> TargetCandidate res" where
  "candidate_from_dict value =
     bindE (exact_dict value target_candidate_fields ''target_candidate_invalid'') (\<lambda>document.
     bindE (ref_value (dget document ''local_label'') ''Target local label'') (\<lambda>local_label.
     bindE (string_list (dget document ''experiment_keys'') ''ExperimentKeys'' False) (\<lambda>experiment_keys.
     bindE (string_list (dget document ''measurement_unit_keys'') ''measurement_unit_keys'' False) (\<lambda>measurement_unit_keys.
     bindE (object_list (dget document ''held_fixed_bindings'') ''held_fixed_bindings'') (\<lambda>binding_rows.
     bindE (mapE held_fixed_from_dict binding_rows) (\<lambda>held_fixed_bindings.
     bindE (ref_value (dget document ''implementation_revision_ref'') ''ImplementationRevisionRef'') (\<lambda>revision.
     bindE (exact_bool (dget document ''code_changed'') ''code_changed'') (\<lambda>code_changed.
     bindE (object_list (dget document ''routes'') ''routes'') (\<lambda>route_rows.
     bindE (mapE route_from_dict route_rows) (\<lambda>routes.
     bindE (string_list (dget document ''depends_on_labels'') ''depends_on_labels'' True) (\<lambda>depends_on_labels.
     bindE (string_list (dget document ''direct_accepted_input_asset_refs'') ''direct_accepted_input_asset_refs'' True) (\<lambda>assets.
     Inr \<lparr>tc_local_label = local_label, tc_experiment_keys = experiment_keys,
          tc_measurement_unit_keys = measurement_unit_keys, tc_held_fixed_bindings = held_fixed_bindings,
          tc_implementation_revision_ref = revision, tc_code_changed = code_changed, tc_routes = routes,
          tc_depends_on_labels = depends_on_labels, tc_direct_accepted_input_asset_refs = assets\<rparr>))))))))))))"

subsection \<open>Briefs and semantic inputs\<close>

definition brief_from_dict :: "json \<Rightarrow> ExperimentBrief res" where
  "brief_from_dict value =
     bindE (exact_dict value [''experiment_key'', ''semantic_delta'', ''held_fixed_slots'', ''required_measurement_unit_keys'']
              ''normalized_experiment_brief_invalid'') (\<lambda>document.
     bindE (ref_value (dget document ''experiment_key'') ''ExperimentKey'') (\<lambda>experiment_key.
     bindE (plan_text (dget document ''semantic_delta'') ''SemanticDelta'') (\<lambda>semantic_delta.
     bindE (string_list (dget document ''held_fixed_slots'') ''held_fixed_slots'' True) (\<lambda>slots.
     bindE (string_list (dget document ''required_measurement_unit_keys'') ''required_measurement_unit_keys'' False) (\<lambda>cells.
     Inr \<lparr>eb_experiment_key = experiment_key, eb_semantic_delta = semantic_delta,
          eb_held_fixed_slots = slots, eb_required_measurement_unit_keys = cells\<rparr>)))))"

definition semantic_from_dict :: "json \<Rightarrow> FrozenSemanticInputs res" where
  "semantic_from_dict value =
     bindE (exact_dict value [''experiment_key'', ''goal'', ''characteristics'', ''boundary_constraints'', ''semantic_delta'']
              ''semantic_normalization_invalid'') (\<lambda>document.
     bindE (ref_value (dget document ''experiment_key'') ''ExperimentKey'') (\<lambda>experiment_key.
     bindE (plan_text (dget document ''goal'') ''Goal'') (\<lambda>goal.
     bindE (plan_text (dget document ''characteristics'') ''Characteristics'') (\<lambda>characteristics.
     bindE (plan_text (dget document ''boundary_constraints'') ''BoundaryConstraints'') (\<lambda>boundary_constraints.
     bindE (plan_text (dget document ''semantic_delta'') ''SemanticDelta'') (\<lambda>semantic_delta.
     Inr \<lparr>fsi_experiment_key = experiment_key, fsi_goal = goal, fsi_characteristics = characteristics,
          fsi_boundary_constraints = boundary_constraints, fsi_semantic_delta = semantic_delta\<rparr>))))))"

definition semantic_to_dict :: "FrozenSemanticInputs \<Rightarrow> json" where
  "semantic_to_dict value = obj
     [(''experiment_key'', JStr (fsi_experiment_key value)),
      (''goal'', JStr (fsi_goal value)),
      (''characteristics'', JStr (fsi_characteristics value)),
      (''boundary_constraints'', JStr (fsi_boundary_constraints value)),
      (''semantic_delta'', JStr (fsi_semantic_delta value))]"

subsection \<open>Protocol versions\<close>

definition validate_aggregation_rule :: "FrozenAggregationRule \<Rightarrow> unit res" where
  "validate_aggregation_rule rule =
     bindE (ref_value (JStr (far_rule_ref rule)) ''protocol aggregation rule'') (\<lambda>_.
     validate_frozen_domain_document (far_rule rule) ''protocol aggregation rule'')"

definition aggregation_rule_from_dict :: "json \<Rightarrow> FrozenAggregationRule res" where
  "aggregation_rule_from_dict value =
     bindE (exact_dict value [''rule_ref'', ''rule''] ''protocol_aggregation_rule_invalid'') (\<lambda>document.
     bindE (ref_value (dget document ''rule_ref'') ''protocol aggregation rule'') (\<lambda>rule_ref.
     bindE (domain_document (dget document ''rule'') ''protocol aggregation rule'') (\<lambda>rule.
     let result = \<lparr>far_rule_ref = rule_ref, far_rule = rule\<rparr> in
     bindE (validate_aggregation_rule result) (\<lambda>_. Inr result))))"

definition metric_definition_from_dict :: "json \<Rightarrow> FrozenMetricDefinition res" where
  "metric_definition_from_dict value =
     bindE (exact_dict value [''metric_key'', ''definition''] ''metric_definition_invalid'') (\<lambda>document.
     bindE (metric_key (dget document ''metric_key'')) (\<lambda>key.
     bindE (domain_document (dget document ''definition'') ''Metric definition'') (\<lambda>body.
     Inr \<lparr>fmd_metric_key = key, fmd_definition = body\<rparr>)))"

definition stop_rule_from_dict :: "json \<Rightarrow> FrozenStopRule res" where
  "stop_rule_from_dict value =
     bindE (exact_dict value [''rule_ref'', ''rule''] ''preregistered_stop_rule_invalid'') (\<lambda>document.
     bindE (ref_value (dget document ''rule_ref'') ''preregistered stop rule'') (\<lambda>rule_ref.
     bindE (domain_document (dget document ''rule'') ''preregistered stop rule'') (\<lambda>rule.
     Inr \<lparr>fsr_rule_ref = rule_ref, fsr_rule = rule\<rparr>)))"

definition validate_metric_definitions :: "FrozenMetricDefinition list \<Rightarrow> string \<Rightarrow> bool \<Rightarrow> str list res" where
  "validate_metric_definitions metrics name allow_empty =
     (if (metrics = [] \<and> \<not> allow_empty) \<or> METRIC_DEFINITION_MAX_ITEMS < length metrics
      then bt_fail (name @ ''_invalid'')
      else
        bindE (mapE (\<lambda>metric.
          bindE (metric_key (JStr (fmd_metric_key metric))) (\<lambda>key.
          bindE (validate_frozen_domain_document (fmd_definition metric) ''Metric definition'') (\<lambda>_.
          Inr key))) metrics) (\<lambda>keys.
        if \<not> distinct keys then bt_fail ''protocol_metric_key_duplicate'' else Inr keys))"

definition validate_stop_rule :: "str list \<Rightarrow> FrozenStopRule \<Rightarrow> str list res" where
  "validate_stop_rule stop_refs rule =
     bindE (ref_value (JStr (fsr_rule_ref rule)) ''preregistered stop rule'') (\<lambda>_.
     if fsr_rule_ref rule \<in> set stop_refs then bt_fail ''preregistered_stop_rule_duplicate''
     else
       bindE (validate_frozen_domain_document (fsr_rule rule) ''preregistered stop rule'') (\<lambda>_.
       Inr (fsr_rule_ref rule # stop_refs)))"

definition validate_protocol_version :: "FrozenProtocolVersionCandidate \<Rightarrow> unit res" where
  "validate_protocol_version protocol =
     (if fpv_schema_ref protocol \<noteq> L PROTOCOL_VERSION_CANDIDATE_SCHEMA_REF
      then bt_fail ''protocol_version_candidate_schema_invalid''
      else
        bindE (validate_frozen_domain_document (fpv_evaluation_data protocol) ''protocol evaluation data'') (\<lambda>_.
        bindE (validate_frozen_domain_document (fpv_split protocol) ''protocol split'') (\<lambda>_.
        bindE (validate_frozen_domain_document (fpv_preprocessing protocol) ''protocol preprocessing'') (\<lambda>_.
        bindE (validate_metric_definitions (fpv_required_metrics protocol) ''required_metrics'' True) (\<lambda>required.
        bindE (validate_metric_definitions (fpv_optional_metrics protocol) ''optional_metrics'' True) (\<lambda>optional.
        if set required \<inter> set optional \<noteq> {} then bt_fail ''protocol_metric_sets_overlap''
        else
          bindE (canonical_string_tuple (fpv_internal_part_keys protocol) ''protocol internal part keys'' True) (\<lambda>parts.
          if (parts \<noteq> []) \<noteq> (fpv_aggregation protocol \<noteq> None) then bt_fail ''protocol_parts_aggregation_incomplete''
          else
            bindE (case fpv_aggregation protocol of None \<Rightarrow> Inr () | Some rule \<Rightarrow> validate_aggregation_rule rule) (\<lambda>_.
            if BUNDLE_PROJECTION_MAX_TUPLE_ITEMS < length (fpv_preregistered_stop_rules protocol)
            then bt_fail ''preregistered_stop_rules_invalid''
            else bindE (foldE validate_stop_rule [] (fpv_preregistered_stop_rules protocol)) (\<lambda>_. Inr ())))))))))"

definition protocol_version_from_dict :: "json \<Rightarrow> FrozenProtocolVersionCandidate res" where
  "protocol_version_from_dict value =
     bindE (exact_dict value
       [''schema_ref'', ''evaluation_data'', ''split'', ''preprocessing'', ''required_metrics'', ''optional_metrics'',
        ''internal_part_keys'', ''aggregation'', ''preregistered_stop_rules''] ''protocol_version_candidate_invalid'') (\<lambda>document.
     if dget document ''schema_ref'' \<noteq> JStr (L PROTOCOL_VERSION_CANDIDATE_SCHEMA_REF)
     then bt_fail ''protocol_version_candidate_schema_invalid''
     else
       bindE (case dget document ''aggregation'' of
                JNull \<Rightarrow> Inr None
              | aggregation_value \<Rightarrow> bindE (aggregation_rule_from_dict aggregation_value) (\<lambda>r. Inr (Some r))) (\<lambda>aggregation.
       bindE (domain_document (dget document ''evaluation_data'') ''protocol evaluation data'') (\<lambda>evaluation_data.
       bindE (domain_document (dget document ''split'') ''protocol split'') (\<lambda>split.
       bindE (domain_document (dget document ''preprocessing'') ''protocol preprocessing'') (\<lambda>preprocessing.
       bindE (bindE (object_list (dget document ''required_metrics'') ''required_metrics_invalid'')
                (mapE metric_definition_from_dict)) (\<lambda>required_metrics.
       bindE (bindE (object_list (dget document ''optional_metrics'') ''optional_metrics_invalid'')
                (mapE metric_definition_from_dict)) (\<lambda>optional_metrics.
       bindE (string_list (dget document ''internal_part_keys'') ''protocol internal part keys'' True) (\<lambda>internal_part_keys.
       bindE (bindE (object_list (dget document ''preregistered_stop_rules'') ''preregistered_stop_rules_invalid'')
                (mapE stop_rule_from_dict)) (\<lambda>stop_rules.
       let protocol =
         \<lparr>fpv_evaluation_data = evaluation_data, fpv_split = split, fpv_preprocessing = preprocessing,
          fpv_required_metrics = required_metrics, fpv_optional_metrics = optional_metrics,
          fpv_internal_part_keys = internal_part_keys, fpv_aggregation = aggregation,
          fpv_preregistered_stop_rules = stop_rules, fpv_schema_ref = L PROTOCOL_VERSION_CANDIDATE_SCHEMA_REF\<rparr> in
       bindE (validate_protocol_version protocol) (\<lambda>_. Inr protocol))))))))))"

definition metric_definition_to_dict :: "FrozenMetricDefinition \<Rightarrow> json res" where
  "metric_definition_to_dict metric =
     bindE (as_dict (fmd_definition metric)) (\<lambda>d.
     Inr (obj [(''metric_key'', JStr (fmd_metric_key metric)), (''definition'', JDict d)]))"

definition aggregation_rule_to_dict :: "FrozenAggregationRule \<Rightarrow> json res" where
  "aggregation_rule_to_dict rule =
     bindE (as_dict (far_rule rule)) (\<lambda>d.
     Inr (obj [(''rule_ref'', JStr (far_rule_ref rule)), (''rule'', JDict d)]))"

definition stop_rule_to_dict :: "FrozenStopRule \<Rightarrow> json res" where
  "stop_rule_to_dict rule =
     bindE (as_dict (fsr_rule rule)) (\<lambda>d.
     Inr (obj [(''rule_ref'', JStr (fsr_rule_ref rule)), (''rule'', JDict d)]))"

definition protocol_version_to_dict :: "FrozenProtocolVersionCandidate \<Rightarrow> json res" where
  "protocol_version_to_dict protocol =
     bindE (as_dict (fpv_evaluation_data protocol)) (\<lambda>evaluation_data.
     bindE (as_dict (fpv_split protocol)) (\<lambda>split.
     bindE (as_dict (fpv_preprocessing protocol)) (\<lambda>preprocessing.
     bindE (mapE metric_definition_to_dict (fpv_required_metrics protocol)) (\<lambda>required_metrics.
     bindE (mapE metric_definition_to_dict (fpv_optional_metrics protocol)) (\<lambda>optional_metrics.
     bindE (case fpv_aggregation protocol of None \<Rightarrow> Inr JNull | Some rule \<Rightarrow> aggregation_rule_to_dict rule) (\<lambda>aggregation.
     bindE (mapE stop_rule_to_dict (fpv_preregistered_stop_rules protocol)) (\<lambda>stop_rules.
     Inr (obj
       [(''schema_ref'', JStr (fpv_schema_ref protocol)),
        (''evaluation_data'', JDict evaluation_data),
        (''split'', JDict split),
        (''preprocessing'', JDict preprocessing),
        (''required_metrics'', JList required_metrics),
        (''optional_metrics'', JList optional_metrics),
        (''internal_part_keys'', jstrs (fpv_internal_part_keys protocol)),
        (''aggregation'', aggregation),
        (''preregistered_stop_rules'', JList stop_rules)]))))))))"

end
