(* ===== verification/TargetRules.thy ===== *)
theory TargetRules
  imports TargetParse
begin

text \<open>
  \<open>src/meta_research/bundle_target_contract.py\<close>, part three: the measurement contract, the frozen
  completion contract of a Plan, and the rules one candidate and a set of candidates obey:
  labels, measurement cells, held-fixed bindings, dependencies, and the coverage of a completed
  strategy.
\<close>

subsection \<open>Measurement contracts\<close>

definition measurement_contract_to_unvalidated_dict :: "TargetMeasurementContractCandidate \<Rightarrow> json res" where
  "measurement_contract_to_unvalidated_dict contract =
     bindE (as_dict (tmc_baseline_forward_contract contract)) (\<lambda>baseline.
     bindE (as_dict (tmc_variant_recipe contract)) (\<lambda>recipe.
     bindE (as_dict (tmc_evaluation_protocol_lineage contract)) (\<lambda>lineage.
     bindE (protocol_version_to_dict (tmc_protocol_version contract)) (\<lambda>protocol.
     bindE (as_dict (tmc_result_schema contract)) (\<lambda>result_schema.
     Inr (obj
       [(''schema_ref'', JStr (tmc_schema_ref contract)),
        (''experiment_keys'', jstrs (tmc_experiment_keys contract)),
        (''measurement_unit_key'', JStr (tmc_measurement_unit_key contract)),
        (''baseline_forward_contract'', JDict baseline),
        (''variant_recipe'', JDict recipe),
        (''evaluation_protocol_lineage'', JDict lineage),
        (''protocol_version'', protocol),
        (''checkpoint_policy'', JStr (tmc_checkpoint_policy contract)),
        (''result_schema_ref'', JStr (tmc_result_schema_ref contract)),
        (''result_schema'', JDict result_schema)]))))))"

definition validate_measurement_contract :: "TargetMeasurementContractCandidate \<Rightarrow> unit res" where
  "validate_measurement_contract contract =
     (if tmc_schema_ref contract \<noteq> L MEASUREMENT_CONTRACT_CANDIDATE_SCHEMA_REF
      then bt_fail ''measurement_contract_schema_invalid''
      else
        bindE (canonical_string_tuple (tmc_experiment_keys contract) ''measurement contract ExperimentKeys'' False) (\<lambda>_.
        bindE (ref_value (JStr (tmc_measurement_unit_key contract)) ''measurement contract cell'') (\<lambda>_.
        bindE (validate_frozen_domain_document (tmc_baseline_forward_contract contract) ''baseline forward contract'') (\<lambda>_.
        bindE (validate_frozen_domain_document (tmc_variant_recipe contract) ''variant recipe'') (\<lambda>_.
        bindE (validate_frozen_domain_document (tmc_evaluation_protocol_lineage contract) ''evaluation protocol lineage'') (\<lambda>_.
        bindE (validate_protocol_version (tmc_protocol_version contract)) (\<lambda>_.
        bindE (checkpoint_policy (JStr (tmc_checkpoint_policy contract))) (\<lambda>_.
        bindE (ref_value (JStr (tmc_result_schema_ref contract)) ''measurement result schema'') (\<lambda>_.
        bindE (validate_frozen_domain_document (tmc_result_schema contract) ''measurement result schema'') (\<lambda>_.
        bindE (measurement_contract_to_unvalidated_dict contract) (\<lambda>value.
        bindE (validate_json_root plain_mode value ''TargetMeasurementContractCandidate'') (\<lambda>_.
        Inr ()))))))))))))"

definition measurement_contract_from_dict :: "json \<Rightarrow> TargetMeasurementContractCandidate res" where
  "measurement_contract_from_dict value =
     bindE (exact_dict value
       [''schema_ref'', ''experiment_keys'', ''measurement_unit_key'', ''baseline_forward_contract'', ''variant_recipe'',
        ''evaluation_protocol_lineage'', ''protocol_version'', ''checkpoint_policy'', ''result_schema_ref'', ''result_schema'']
       ''measurement_contract_invalid'') (\<lambda>document.
     if dget document ''schema_ref'' \<noteq> JStr (L MEASUREMENT_CONTRACT_CANDIDATE_SCHEMA_REF)
     then bt_fail ''measurement_contract_schema_invalid''
     else
       bindE (string_list (dget document ''experiment_keys'') ''measurement contract ExperimentKeys'' False) (\<lambda>experiment_keys.
       bindE (ref_value (dget document ''measurement_unit_key'') ''measurement contract cell'') (\<lambda>unit_key.
       bindE (domain_document (dget document ''baseline_forward_contract'') ''baseline forward contract'') (\<lambda>baseline.
       bindE (domain_document (dget document ''variant_recipe'') ''variant recipe'') (\<lambda>recipe.
       bindE (domain_document (dget document ''evaluation_protocol_lineage'') ''evaluation protocol lineage'') (\<lambda>lineage.
       bindE (protocol_version_from_dict (dget document ''protocol_version'')) (\<lambda>protocol.
       bindE (checkpoint_policy (dget document ''checkpoint_policy'')) (\<lambda>policy.
       bindE (ref_value (dget document ''result_schema_ref'') ''measurement result schema'') (\<lambda>result_schema_ref.
       bindE (domain_document (dget document ''result_schema'') ''measurement result schema'') (\<lambda>result_schema.
       let result =
         \<lparr>tmc_experiment_keys = experiment_keys, tmc_measurement_unit_key = unit_key,
          tmc_baseline_forward_contract = baseline, tmc_variant_recipe = recipe,
          tmc_evaluation_protocol_lineage = lineage, tmc_protocol_version = protocol,
          tmc_checkpoint_policy = policy, tmc_result_schema_ref = result_schema_ref,
          tmc_result_schema = result_schema, tmc_schema_ref = L MEASUREMENT_CONTRACT_CANDIDATE_SCHEMA_REF\<rparr> in
       bindE (validate_json_root plain_mode value ''TargetMeasurementContractCandidate'') (\<lambda>_.
       bindE (validate_measurement_contract result) (\<lambda>_.
       Inr result))))))))))))"

definition measurement_contract_to_dict :: "TargetMeasurementContractCandidate \<Rightarrow> json res" where
  "measurement_contract_to_dict contract =
     bindE (validate_measurement_contract contract) (\<lambda>_.
     bindE (measurement_contract_to_unvalidated_dict contract) (\<lambda>value.
     bindE (validate_json_root plain_mode value ''TargetMeasurementContractCandidate'') (\<lambda>_.
     Inr value)))"

definition measurement_contract_hash :: "TargetMeasurementContractCandidate \<Rightarrow> str res" where
  "measurement_contract_hash contract =
     bindE (measurement_contract_to_dict contract) (\<lambda>value.
     validate_json_root plain_mode value ''TargetMeasurementContractCandidate'')"

subsection \<open>The completion contract of a Plan\<close>

text \<open>
  One brief of an accepted Plan.  The prose fields are checked in the order listed here; the
  source iterates over a set of the same four names.
\<close>

definition plan_brief_required :: "json \<Rightarrow> string list" where
  "plan_brief_required value =
     (case value of
        JDict d \<Rightarrow> if has_key d (L ''reuse_material_refs'') then ''reuse_material_refs'' # plan_brief_fields else plan_brief_fields
      | _ \<Rightarrow> plan_brief_fields)"

definition plan_brief_step :: "str list \<Rightarrow> (str \<times> jdict) list \<Rightarrow> json \<Rightarrow> (str \<times> jdict) list res" where
  "plan_brief_step gaps result value =
     bindE (exact_dict value (plan_brief_required value) ''plan_brief_invalid'') (\<lambda>brief.
     bindE (ref_value (dget brief ''experiment_key'') ''ExperimentKey'') (\<lambda>key.
     if has_key result key then bt_fail ''plan_brief_duplicate''
     else
       bindE (string_list (dget brief ''gap_obligation_keys'') ''brief gaps'' False) (\<lambda>brief_gaps.
       if brief_gaps = [] \<or> \<not> subset_list brief_gaps gaps then bt_fail ''plan_brief_gap_invalid''
       else
         bindE (forE (\<lambda>field. bindE (plan_text (dget brief field) field) (\<lambda>_. Inr ())) plan_prose_fields) (\<lambda>_.
         bindE (string_list (dget brief ''contributing_idea_refs'') ''contributing idea refs'' True) (\<lambda>_.
         bindE (if has_key brief (L ''reuse_material_refs'')
                then string_list (dget brief ''reuse_material_refs'') ''reuse material refs'' True else Inr []) (\<lambda>_.
         Inr (dict_set key brief result)))))))"

definition plan_document_mode :: root_mode where
  "plan_document_mode = plain_mode\<lparr>plan_document := True\<rparr>"

definition plan_briefs :: "jdict \<Rightarrow> (str \<times> (str \<times> jdict) list) res" where
  "plan_briefs plan =
     bindE (validate_json_root plan_document_mode (JDict plan) ''PlanDocument'') (\<lambda>plan_hash.
     if dget plan ''schema_ref'' \<noteq> JStr (L PLAN_DOCUMENT_SCHEMA_REF)
       \<or> dget plan ''kind'' \<noteq> JStr (L ''PlanDocument'')
       \<or> dget plan ''bundle_disposition'' \<noteq> JStr (L ''experiments_required'')
     then bt_fail ''completion_contract_plan_invalid''
     else
       bindE (string_list (dget plan ''gap_set'') ''Plan gap_set'' False) (\<lambda>gaps.
       case dget plan ''experiment_briefs'' of
         JList briefs_value \<Rightarrow>
           if gaps = [] \<or> briefs_value = [] then bt_fail ''completion_contract_plan_has_no_work''
           else bindE (foldE (plan_brief_step gaps) [] briefs_value) (\<lambda>result. Inr (plan_hash, result))
       | _ \<Rightarrow> bt_fail ''completion_contract_plan_has_no_work''))"

definition experiment_completion_to_dict :: "NormalizedExperimentCompletion \<Rightarrow> json" where
  "experiment_completion_to_dict item = obj
     [(''semantic_inputs'', semantic_to_dict (nec_semantic_inputs item)),
      (''brief'', projection_plain_value (pv_ExperimentBrief (nec_brief item)))]"

definition normalized_completion_contract_to_dict :: "NormalizedCompletionContract \<Rightarrow> json res" where
  "normalized_completion_contract_to_dict contract =
     (let value = obj
        [(''schema_ref'', JStr (ncc_schema_ref contract)),
         (''plan_document_hash'', JStr (ncc_plan_document_hash contract)),
         (''experiments'', JList (map experiment_completion_to_dict (ncc_experiments contract)))]
      in bindE (validate_json_root plan_mode value ''NormalizedCompletionContract'') (\<lambda>_. Inr value))"

definition semantic_drift :: "NormalizedExperimentCompletion \<Rightarrow> str \<Rightarrow> jdict \<Rightarrow> bool" where
  "semantic_drift item key plan_brief \<longleftrightarrow>
     (let semantic = nec_semantic_inputs item in
      JStr (fsi_goal semantic) \<noteq> dget plan_brief ''goal''
      \<or> JStr (fsi_characteristics semantic) \<noteq> dget plan_brief ''characteristics''
      \<or> JStr (fsi_boundary_constraints semantic) \<noteq> dget plan_brief ''boundary_constraints''
      \<or> JStr (fsi_semantic_delta semantic) \<noteq> dget plan_brief ''semantic_delta''
      \<or> eb_experiment_key (nec_brief item) \<noteq> key
      \<or> eb_semantic_delta (nec_brief item) \<noteq> fsi_semantic_delta semantic)"

definition completion_step ::
  "(str \<times> jdict) list \<Rightarrow> (str \<times> NormalizedExperimentCompletion) list \<Rightarrow> NormalizedExperimentCompletion
     \<Rightarrow> (str \<times> NormalizedExperimentCompletion) list res" where
  "completion_step briefs by_key item =
     (let key = fsi_experiment_key (nec_semantic_inputs item) in
      if has_key by_key key then bt_fail ''completion_contract_experiment_duplicate''
      else
        bindE (validate_closed_bundle_projection (pv_ExperimentBrief (nec_brief item)) ''ExperimentBrief'' BUNDLE_ROOT_MAX_SERIALIZED_BYTES) (\<lambda>_.
        case map_of briefs key of
          None \<Rightarrow> bt_fail ''completion_contract_experiment_unknown''
        | Some plan_brief \<Rightarrow>
            if semantic_drift item key plan_brief then bt_fail ''completion_contract_semantic_drift''
            else
              bindE (string_list (jstrs (eb_held_fixed_slots (nec_brief item))) ''held_fixed_slots'' True) (\<lambda>_.
              bindE (string_list (jstrs (eb_required_measurement_unit_keys (nec_brief item))) ''required_measurement_unit_keys'' False) (\<lambda>_.
              Inr (dict_set key item by_key)))))"

definition validate_completion_contract :: "NormalizedCompletionContract \<Rightarrow> jdict \<Rightarrow> unit res" where
  "validate_completion_contract contract plan =
     (if ncc_schema_ref contract \<noteq> L NORMALIZED_COMPLETION_CONTRACT_SCHEMA_REF
      then bt_fail ''completion_contract_schema_invalid''
      else
        bindE (plan_briefs plan) (\<lambda>(plan_hash, briefs).
        if ncc_plan_document_hash contract \<noteq> plan_hash then bt_fail ''completion_contract_plan_drift''
        else
          bindE (foldE (completion_step briefs) [] (ncc_experiments contract)) (\<lambda>by_key.
          if \<not> same_set (keys by_key) (keys briefs) then bt_fail ''completion_contract_experiment_set_incomplete''
          else
            bindE (normalized_completion_contract_to_dict contract) (\<lambda>value.
            bindE (validate_json_root plan_mode value ''NormalizedCompletionContract'') (\<lambda>_. Inr ())))))"

definition normalization_step :: "(str \<times> jdict) list \<Rightarrow> json \<Rightarrow> (str \<times> jdict) list res" where
  "normalization_step by_key value =
     bindE (exact_dict value [''experiment_key'', ''held_fixed_slots'', ''required_measurement_unit_keys'']
              ''completion_normalization_invalid'') (\<lambda>item.
     bindE (ref_value (dget item ''experiment_key'') ''ExperimentKey'') (\<lambda>key.
     if has_key by_key key then bt_fail ''completion_normalization_duplicate''
     else Inr (dict_set key item by_key)))"

definition dict_item :: "('k \<times> 'v) list \<Rightarrow> 'k \<Rightarrow> 'v res" where
  "dict_item d k = (case map_of d k of None \<Rightarrow> Inl KeyError | Some v \<Rightarrow> Inr v)"

definition normalize_experiment :: "(str \<times> jdict) list \<Rightarrow> str \<times> jdict \<Rightarrow> NormalizedExperimentCompletion res" where
  "normalize_experiment by_key = (\<lambda>(key, plan_brief).
     bindE (dict_item by_key key) (\<lambda>normalized.
     bindE (string_list (dget normalized ''held_fixed_slots'') ''held_fixed_slots'' True) (\<lambda>slots.
     bindE (string_list (dget normalized ''required_measurement_unit_keys'') ''required_measurement_unit_keys'' False) (\<lambda>cells.
     bindE (plan_text (dget plan_brief ''goal'') ''Goal'') (\<lambda>goal.
     bindE (plan_text (dget plan_brief ''characteristics'') ''Characteristics'') (\<lambda>characteristics.
     bindE (plan_text (dget plan_brief ''boundary_constraints'') ''BoundaryConstraints'') (\<lambda>boundary_constraints.
     bindE (plan_text (dget plan_brief ''semantic_delta'') ''SemanticDelta'') (\<lambda>semantic_delta.
     Inr \<lparr>nec_semantic_inputs =
            \<lparr>fsi_experiment_key = key, fsi_goal = goal, fsi_characteristics = characteristics,
             fsi_boundary_constraints = boundary_constraints, fsi_semantic_delta = semantic_delta\<rparr>,
          nec_brief =
            \<lparr>eb_experiment_key = key, eb_semantic_delta = semantic_delta, eb_held_fixed_slots = slots,
             eb_required_measurement_unit_keys = cells\<rparr>\<rparr>))))))))"

definition build_normalized_completion_contract :: "jdict \<Rightarrow> json list \<Rightarrow> NormalizedCompletionContract res" where
  "build_normalized_completion_contract plan normalization_inputs =
     bindE (plan_briefs plan) (\<lambda>(plan_hash, briefs).
     bindE (foldE normalization_step [] normalization_inputs) (\<lambda>by_key.
     if \<not> same_set (keys by_key) (keys briefs) then bt_fail ''completion_contract_experiment_set_incomplete''
     else
       bindE (mapE (normalize_experiment by_key) briefs) (\<lambda>experiments.
       let contract = \<lparr>ncc_plan_document_hash = plan_hash, ncc_experiments = experiments,
                       ncc_schema_ref = L NORMALIZED_COMPLETION_CONTRACT_SCHEMA_REF\<rparr> in
       bindE (validate_completion_contract contract plan) (\<lambda>_. Inr contract))))"

definition experiment_completion_from_dict :: "json \<Rightarrow> NormalizedExperimentCompletion res" where
  "experiment_completion_from_dict row_value =
     bindE (exact_dict row_value [''semantic_inputs'', ''brief''] ''completion_contract_invalid'') (\<lambda>row.
     bindE (semantic_from_dict (dget row ''semantic_inputs'')) (\<lambda>semantic.
     bindE (brief_from_dict (dget row ''brief'')) (\<lambda>brief.
     Inr \<lparr>nec_semantic_inputs = semantic, nec_brief = brief\<rparr>)))"

definition normalized_completion_contract_from_dict :: "json \<Rightarrow> jdict \<Rightarrow> NormalizedCompletionContract res" where
  "normalized_completion_contract_from_dict value plan =
     bindE (exact_dict value [''schema_ref'', ''plan_document_hash'', ''experiments''] ''completion_contract_invalid'') (\<lambda>document.
     if dget document ''schema_ref'' \<noteq> JStr (L NORMALIZED_COMPLETION_CONTRACT_SCHEMA_REF)
     then bt_fail ''completion_contract_schema_invalid''
     else
       bindE (object_list (dget document ''experiments'') ''completion_contract_invalid'') (\<lambda>rows.
       bindE (mapE experiment_completion_from_dict rows) (\<lambda>experiments.
       bindE (sha256_value (dget document ''plan_document_hash'') ''PlanDocument hash'') (\<lambda>plan_hash.
       let contract = \<lparr>ncc_plan_document_hash = plan_hash, ncc_experiments = experiments,
                       ncc_schema_ref = L NORMALIZED_COMPLETION_CONTRACT_SCHEMA_REF\<rparr> in
       bindE (validate_json_root plan_mode value ''NormalizedCompletionContract'') (\<lambda>_.
       bindE (validate_completion_contract contract plan) (\<lambda>_.
       Inr contract))))))"

definition completion_contract_hash :: "NormalizedCompletionContract \<Rightarrow> str res" where
  "completion_contract_hash contract =
     bindE (normalized_completion_contract_to_dict contract) (\<lambda>value.
     validate_json_root plan_mode value ''NormalizedCompletionContract'')"

subsection \<open>One candidate\<close>

text \<open>A dictionary comprehension: a repeated key keeps its place and takes the last value.\<close>

definition dict_of :: "('k \<times> 'v) list \<Rightarrow> ('k \<times> 'v) list" where
  "dict_of kvs = foldl (\<lambda>d p. dict_set (fst p) (snd p) d) [] kvs"

definition briefs_by_key :: "NormalizedCompletionContract \<Rightarrow> (str \<times> ExperimentBrief) list" where
  "briefs_by_key contract = dict_of (map (\<lambda>item. (eb_experiment_key (nec_brief item), nec_brief item)) (ncc_experiments contract))"

definition contract_by_key :: "NormalizedCompletionContract \<Rightarrow> (str \<times> NormalizedExperimentCompletion) list" where
  "contract_by_key contract = dict_of (map (\<lambda>item. (eb_experiment_key (nec_brief item), item)) (ncc_experiments contract))"

definition binding_step :: "(str \<times> str) list \<Rightarrow> HeldFixedBinding \<Rightarrow> (str \<times> str) list res" where
  "binding_step result binding =
     bindE (ref_value (JStr (hfb_semantic_slot binding)) ''held-fixed slot'') (\<lambda>slot.
     bindE (ref_value (JStr (hfb_implementation_revision_ref binding)) ''held-fixed revision'') (\<lambda>revision.
     if has_key result slot then bt_fail ''held_fixed_slot_duplicate''
     else Inr (dict_set slot revision result)))"

definition binding_map :: "HeldFixedBinding list \<Rightarrow> (str \<times> str) list res" where
  "binding_map bindings = foldE binding_step [] bindings"

definition expected_slots :: "(str \<times> ExperimentBrief) list \<Rightarrow> str list \<Rightarrow> str list res" where
  "expected_slots briefs experiment_keys =
     bindE (mapE (\<lambda>key. bindE (dict_item briefs key) (\<lambda>b. Inr (eb_held_fixed_slots b))) experiment_keys) (\<lambda>slots.
     Inr (concat slots))"

definition check_route :: "RouteSpec \<Rightarrow> unit res" where
  "check_route route =
     bindE (ref_value (JStr (rs_route_ref route)) ''semantic route'') (\<lambda>_.
     bindE (canonical_string_tuple (rs_known_external_operation_refs route) ''route external operations'' True) (\<lambda>_.
     Inr ()))"

definition check_cell_required :: "(str \<times> ExperimentBrief) list \<Rightarrow> str \<Rightarrow> str \<Rightarrow> unit res" where
  "check_cell_required briefs unit_key key =
     bindE (dict_item briefs key) (\<lambda>b.
     if unit_key \<notin> set (eb_required_measurement_unit_keys b) then bt_fail ''candidate_measurement_cell_not_required''
     else Inr ())"

definition verify_candidate :: "TargetCandidate \<Rightarrow> (str \<times> ExperimentBrief) list \<Rightarrow> (str \<times> str) list res" where
  "verify_candidate candidate briefs =
     bindE (validate_closed_bundle_projection (pv_TargetCandidate candidate) ''TargetCandidate'' BUNDLE_ROOT_MAX_SERIALIZED_BYTES) (\<lambda>_.
     bindE (ref_value (JStr (tc_local_label candidate)) ''Target local label'') (\<lambda>_.
     bindE (canonical_string_tuple (tc_experiment_keys candidate) ''candidate ExperimentKeys'' False) (\<lambda>experiment_keys.
     if \<not> subset_list experiment_keys (keys briefs) then bt_fail ''candidate_references_unknown_experiment''
     else if length (tc_measurement_unit_keys candidate) \<noteq> 1 then bt_fail ''candidate_must_cover_exactly_one_measurement_cell''
     else
       bindE (ref_value (JStr (hd (tc_measurement_unit_keys candidate))) ''measurement cell'') (\<lambda>unit_key.
       bindE (canonical_string_tuple (tc_depends_on_labels candidate) ''candidate dependencies'' True) (\<lambda>dependencies.
       if tc_local_label candidate \<in> set dependencies then bt_fail ''candidate_self_dependency''
       else
         bindE (forE (check_cell_required briefs unit_key) experiment_keys) (\<lambda>_.
         bindE (expected_slots briefs experiment_keys) (\<lambda>slots.
         bindE (binding_map (tc_held_fixed_bindings candidate)) (\<lambda>bindings.
         if \<not> same_set (keys bindings) slots then bt_fail ''candidate_held_fixed_binding_incomplete''
         else
           bindE (ref_value (JStr (tc_implementation_revision_ref candidate)) ''ImplementationRevisionRef'') (\<lambda>_.
           let route_refs = map rs_route_ref (tc_routes candidate) in
           if route_refs = [] \<or> \<not> distinct route_refs then bt_fail ''candidate_routes_incomplete''
           else
             bindE (forE check_route (tc_routes candidate)) (\<lambda>_.
             bindE (canonical_string_tuple (tc_direct_accepted_input_asset_refs candidate) ''direct accepted assets'' True) (\<lambda>_.
             Inr bindings)))))))))))"

definition semantic_input_step :: "(str \<times> FrozenSemanticInputs) list \<Rightarrow> FrozenSemanticInputs \<Rightarrow> (str \<times> FrozenSemanticInputs) list res" where
  "semantic_input_step by_key semantic =
     (if has_key by_key (fsi_experiment_key semantic) then bt_fail ''candidate_semantic_input_duplicate''
      else Inr (dict_set (fsi_experiment_key semantic) semantic by_key))"

definition check_semantic_input ::
  "(str \<times> NormalizedExperimentCompletion) list \<Rightarrow> (str \<times> FrozenSemanticInputs) list \<Rightarrow> str \<Rightarrow> unit res" where
  "check_semantic_input contract_items semantic_by_key key =
     bindE (dict_item contract_items key) (\<lambda>item.
     bindE (dict_item semantic_by_key key) (\<lambda>semantic.
     if semantic \<noteq> nec_semantic_inputs item then bt_fail ''candidate_semantic_input_drift'' else Inr ()))"

definition validate_formal_candidate :: "FormalTargetCandidate \<Rightarrow> NormalizedCompletionContract \<Rightarrow> unit res" where
  "validate_formal_candidate formal contract =
     (if ftc_schema_ref formal \<noteq> L FORMAL_TARGET_CANDIDATE_SCHEMA_REF then bt_fail ''formal_target_candidate_schema_invalid''
      else
        bindE (risk_class (JStr (ftc_risk_class formal))) (\<lambda>_.
        let candidate = ftc_candidate formal; measurement = ftc_measurement_contract formal in
        bindE (verify_candidate candidate (briefs_by_key contract)) (\<lambda>_.
        bindE (validate_measurement_contract measurement) (\<lambda>_.
        if tmc_experiment_keys measurement \<noteq> tc_experiment_keys candidate
          \<or> tmc_measurement_unit_key measurement \<noteq> hd (tc_measurement_unit_keys candidate)
        then bt_fail ''candidate_measurement_contract_binding_drift''
        else
          bindE (foldE semantic_input_step [] (ftc_semantic_inputs formal)) (\<lambda>semantic_by_key.
          if \<not> same_set (keys semantic_by_key) (tc_experiment_keys candidate) then bt_fail ''candidate_semantic_input_set_invalid''
          else forE (check_semantic_input (contract_by_key contract) semantic_by_key) (tc_experiment_keys candidate))))))"

definition formal_target_candidate_from_dict :: "json \<Rightarrow> NormalizedCompletionContract \<Rightarrow> FormalTargetCandidate res" where
  "formal_target_candidate_from_dict value contract =
     bindE (exact_dict value [''schema_ref'', ''candidate'', ''semantic_inputs'', ''measurement_contract'', ''risk_class'']
              ''formal_target_candidate_invalid'') (\<lambda>document.
     if dget document ''schema_ref'' \<noteq> JStr (L FORMAL_TARGET_CANDIDATE_SCHEMA_REF)
     then bt_fail ''formal_target_candidate_schema_invalid''
     else
       bindE (bindE (object_list (dget document ''semantic_inputs'') ''formal_target_candidate_invalid'')
                (mapE semantic_from_dict)) (\<lambda>semantic_inputs.
       bindE (candidate_from_dict (dget document ''candidate'')) (\<lambda>candidate.
       bindE (measurement_contract_from_dict (dget document ''measurement_contract'')) (\<lambda>measurement.
       bindE (risk_class (dget document ''risk_class'')) (\<lambda>risk.
       let result = \<lparr>ftc_candidate = candidate, ftc_semantic_inputs = semantic_inputs,
                     ftc_measurement_contract = measurement, ftc_risk_class = risk,
                     ftc_schema_ref = L FORMAL_TARGET_CANDIDATE_SCHEMA_REF\<rparr> in
       bindE (validate_json_root plan_mode value ''FormalTargetCandidate'') (\<lambda>_.
       bindE (validate_formal_candidate result contract) (\<lambda>_.
       Inr result)))))))"

definition formal_target_candidate_to_dict :: "FormalTargetCandidate \<Rightarrow> NormalizedCompletionContract \<Rightarrow> json res" where
  "formal_target_candidate_to_dict formal contract =
     bindE (validate_formal_candidate formal contract) (\<lambda>_.
     bindE (measurement_contract_to_dict (ftc_measurement_contract formal)) (\<lambda>measurement.
     let value = obj
       [(''schema_ref'', JStr (ftc_schema_ref formal)),
        (''candidate'', projection_plain_value (pv_TargetCandidate (ftc_candidate formal))),
        (''semantic_inputs'', JList (map semantic_to_dict (ftc_semantic_inputs formal))),
        (''measurement_contract'', measurement),
        (''risk_class'', JStr (ftc_risk_class formal))] in
     bindE (validate_json_root plan_mode value ''FormalTargetCandidate'') (\<lambda>_. Inr value)))"

subsection \<open>A set of candidates\<close>

record candidate_index =
  by_label :: "(str \<times> TargetCandidate) list"
  used_units :: "(str \<times> str) list"
  held_by_experiment :: "(str \<times> (str \<times> str) list) list"

text \<open>\<open>d.setdefault(k, v)\<close>: the value afterwards and the dictionary afterwards.\<close>

definition setdefault :: "'k \<Rightarrow> 'v \<Rightarrow> ('k \<times> 'v) list \<Rightarrow> 'v \<times> ('k \<times> 'v) list" where
  "setdefault k v d = (case map_of d k of None \<Rightarrow> (v, dict_set k v d) | Some u \<Rightarrow> (u, d))"

definition held_slot_step :: "(str \<times> str) list \<Rightarrow> (str \<times> str) list \<Rightarrow> str \<Rightarrow> (str \<times> str) list res" where
  "held_slot_step bindings established slot =
     bindE (dict_item bindings slot) (\<lambda>revision.
     case setdefault slot revision established of (previous, established') \<Rightarrow>
       if previous \<noteq> revision then bt_fail ''held_fixed_binding_drift'' else Inr established')"

definition held_experiment_step ::
  "(str \<times> ExperimentBrief) list \<Rightarrow> (str \<times> str) list \<Rightarrow> (str \<times> (str \<times> str) list) list \<Rightarrow> str
     \<Rightarrow> (str \<times> (str \<times> str) list) list res" where
  "held_experiment_step briefs bindings held key =
     (case setdefault key [] held of (established, held') \<Rightarrow>
       bindE (dict_item briefs key) (\<lambda>b.
       bindE (foldE (held_slot_step bindings) established (eb_held_fixed_slots b)) (\<lambda>established'.
       Inr (dict_set key established' held'))))"

definition candidate_set_step ::
  "(str \<times> ExperimentBrief) list \<Rightarrow> candidate_index \<Rightarrow> TargetCandidate \<Rightarrow> candidate_index res" where
  "candidate_set_step briefs st candidate =
     (if has_key (by_label st) (tc_local_label candidate) then bt_fail ''strategy_repeats_target_label''
      else
        bindE (verify_candidate candidate briefs) (\<lambda>bindings.
        case setdefault (hd (tc_measurement_unit_keys candidate)) (tc_local_label candidate) (used_units st) of (previous, used') \<Rightarrow>
        if previous \<noteq> tc_local_label candidate then bt_fail ''measurement_cell_appears_in_two_targets''
        else
          bindE (foldE (held_experiment_step briefs bindings) (held_by_experiment st) (tc_experiment_keys candidate)) (\<lambda>held'.
          Inr \<lparr>by_label = dict_set (tc_local_label candidate) candidate (by_label st), used_units = used',
               held_by_experiment = held'\<rparr>)))"

text \<open>
  The \<open>while True\<close> loop of \<open>_verify_acyclic\<close>: each round adds every label whose dependencies
  are all reachable, until a round adds nothing.
\<close>

definition newly_reachable :: "TargetCandidate list \<Rightarrow> str list \<Rightarrow> str list" where
  "newly_reachable candidates reachable =
     filter (\<lambda>l. l \<notin> set reachable)
       (map tc_local_label (filter (\<lambda>c. subset_list (tc_depends_on_labels c) reachable) candidates))"

function reachable_labels :: "TargetCandidate list \<Rightarrow> str list \<Rightarrow> str list" where
  "reachable_labels candidates reachable =
     (let added = newly_reachable candidates reachable in
      if added = [] then reachable else reachable_labels candidates (reachable @ added))"
  by pat_completeness auto
termination
proof (relation "measure (\<lambda>(candidates, reachable). card (tc_local_label ` set candidates - set reachable))")
  fix candidates reachable and added :: "str list"
  assume added: "added = newly_reachable candidates reachable" and ne: "added \<noteq> []"
  let ?all = "tc_local_label ` set candidates"
  have sub: "set added \<subseteq> ?all - set reachable" by (auto simp: added newly_reachable_def)
  then have "?all - set (reachable @ added) \<subset> ?all - set reachable"
    using ne by (cases added) auto
  then have "card (?all - set (reachable @ added)) < card (?all - set reachable)"
    by (rule psubset_card_mono [rotated]) simp
  then show "((candidates, reachable @ added), candidates, reachable)
      \<in> measure (\<lambda>(candidates, reachable). card (tc_local_label ` set candidates - set reachable))"
    by simp
qed simp

declare reachable_labels.simps [simp del]

definition verify_acyclic :: "(str \<times> TargetCandidate) list \<Rightarrow> unit res" where
  "verify_acyclic candidates =
     (let labels = keys candidates; values = map snd candidates in
      if list_ex (\<lambda>c. \<not> subset_list (tc_depends_on_labels c) labels) values then bt_fail ''strategy_dependency_unknown''
      else if \<not> same_set (reachable_labels values []) labels then bt_fail ''strategy_dependency_cycle''
      else Inr ())"

definition verify_candidate_set :: "FormalTargetCandidate list \<Rightarrow> NormalizedCompletionContract \<Rightarrow> unit res" where
  "verify_candidate_set candidates contract =
     bindE (foldE (\<lambda>st formal. candidate_set_step (briefs_by_key contract) st (ftc_candidate formal))
              \<lparr>by_label = [], used_units = [], held_by_experiment = []\<rparr> candidates) (\<lambda>st.
     verify_acyclic (by_label st))"

definition covered_cells :: "FormalTargetCandidate list \<Rightarrow> (str \<times> str) list" where
  "covered_cells candidates =
     concat (map (\<lambda>formal. map (\<lambda>key. (key, hd (tc_measurement_unit_keys (ftc_candidate formal))))
                             (tc_experiment_keys (ftc_candidate formal))) candidates)"

definition required_cells :: "NormalizedCompletionContract \<Rightarrow> (str \<times> str) list" where
  "required_cells contract =
     concat (map (\<lambda>item. map (\<lambda>unit_key. (eb_experiment_key (nec_brief item), unit_key))
                          (eb_required_measurement_unit_keys (nec_brief item))) (ncc_experiments contract))"

definition verify_completion_cells :: "FormalTargetCandidate list \<Rightarrow> NormalizedCompletionContract \<Rightarrow> unit res" where
  "verify_completion_cells candidates contract =
     bindE (verify_candidate_set candidates contract) (\<lambda>_.
     let counts = covered_cells candidates; expected = required_cells contract in
     if \<not> same_set counts expected \<or> list_ex (\<lambda>cell. count_list counts cell \<noteq> 1) expected
     then bt_fail ''completed_strategy_cell_coverage_invalid''
     else Inr ())"

end
