(* ===== verification/RootLaws.thy ===== *)
theory RootLaws
  imports TargetRules
begin

text \<open>
  Laws of the bounded JSON root and of frozen domain documents: what the walk decides, that its
  digest does not depend on the order of keys, what the routing loop finds, and that freezing a
  document and reading it back gives the document.
\<close>

subsection \<open>What the walk decides\<close>

fun node_count :: "json \<Rightarrow> nat"
and node_count_list :: "json list \<Rightarrow> nat"
and node_count_dict :: "(str \<times> json) list \<Rightarrow> nat" where
  "node_count (JList xs) = 1 + node_count_list xs"
| "node_count (JDict d) = 1 + node_count_dict d"
| "node_count _ = 1"
| "node_count_list [] = 0"
| "node_count_list (x # xs) = node_count x + node_count_list xs"
| "node_count_dict [] = 0"
| "node_count_dict ((k, x) # d) = node_count x + node_count_dict d"

definition text_fits :: "root_mode \<Rightarrow> bool \<Rightarrow> bool \<Rightarrow> str \<Rightarrow> bool" where
  "text_fits mode free prose s \<longleftrightarrow>
     (\<exists>b. encode_utf8 s = Inr b \<and> (prose \<longrightarrow> slen s \<le> PLAN_TEXT_MAX_CHARS)
       \<and> (free \<or> plan_document mode \<or> prose \<or> length b \<le> BUNDLE_PROJECTION_STRING_MAX_UTF8_BYTES))"

text \<open>The specification of an admissible root, node by node, without the counter.\<close>

fun root_ok :: "root_mode \<Rightarrow> json \<Rightarrow> nat \<Rightarrow> bool \<Rightarrow> bool \<Rightarrow> bool"
and root_ok_list :: "root_mode \<Rightarrow> json list \<Rightarrow> nat \<Rightarrow> bool"
and root_ok_dict :: "root_mode \<Rightarrow> bool \<Rightarrow> (str \<times> json) list \<Rightarrow> nat \<Rightarrow> bool" where
  "root_ok mode item depth free prose \<longleftrightarrow>
     depth \<le> BUNDLE_ROOT_MAX_DEPTH \<and>
     (case item of
        JDict d \<Rightarrow> length d \<le> BUNDLE_PROJECTION_MAX_TUPLE_ITEMS \<and> root_ok_dict mode (plan_prose_record mode d) d depth
      | JList xs \<Rightarrow> length xs \<le> BUNDLE_PROJECTION_MAX_TUPLE_ITEMS \<and> root_ok_list mode xs depth
      | JStr s \<Rightarrow> text_fits mode free prose s
      | JInt i \<Rightarrow> \<bar>i\<bar> \<le> BUNDLE_CANONICAL_INTEGER_MAX_ABS
      | JFloat f \<Rightarrow> float_finite f
      | _ \<Rightarrow> True)"
| "root_ok_list mode [] depth = True"
| "root_ok_list mode (x # xs) depth = (root_ok mode x (depth + 1) False False \<and> root_ok_list mode xs depth)"
| "root_ok_dict mode prose [] depth = True"
| "root_ok_dict mode prose ((k, x) # d) depth \<longleftrightarrow>
     text_ok (codes k)
     \<and> root_ok mode x (depth + 1) (depth = 0 \<and> str_in k (free_text_fields mode)) (prose \<and> str_in k plan_prose_fields)
     \<and> root_ok_dict mode prose d depth"

declare root_ok.simps [simp del] root_visit.simps [simp del]

lemma encode_iff: "(\<exists>b. encode_utf8 s = Inr b) \<longleftrightarrow> text_ok (codes s)"
  by (auto simp: encode_utf8_def text_ok_iff split: option.splits)

lemma utf8_bytes_of_Inr: "utf8_bytes_of s name = Inr b \<longleftrightarrow> encode_utf8 s = Inr b"
  by (simp add: utf8_bytes_of_def)

lemma root_text_Inr: "root_text mode name free prose s = Inr u \<longleftrightarrow> text_fits mode free prose s"
  by (auto simp: root_text_def text_fits_def utf8_bytes_of_Inr not_less split: if_splits)

lemma node_count_pos: "0 < node_count v"
  by (cases v) simp_all

lemma root_visit_iff:
  "root_visit mode name v depth free prose n = Inr m \<longleftrightarrow>
     root_ok mode v depth free prose \<and> m = n + node_count v \<and> m \<le> BUNDLE_ROOT_MAX_NODES"
  "n \<le> BUNDLE_ROOT_MAX_NODES \<Longrightarrow> root_visit_list mode name xs depth n = Inr m \<longleftrightarrow>
     root_ok_list mode xs depth \<and> m = n + node_count_list xs \<and> m \<le> BUNDLE_ROOT_MAX_NODES"
  "n \<le> BUNDLE_ROOT_MAX_NODES \<Longrightarrow> root_visit_dict mode name pr d depth n = Inr m \<longleftrightarrow>
     root_ok_dict mode pr d depth \<and> m = n + node_count_dict d \<and> m \<le> BUNDLE_ROOT_MAX_NODES"
proof (induction mode name v depth free prose n and mode name xs depth n and mode name pr d depth n
    arbitrary: m and m and m rule: root_visit_root_visit_list_root_visit_dict.induct)
  case (1 mode name item depth free prose count)
  show ?case
  proof (cases "depth \<le> BUNDLE_ROOT_MAX_DEPTH \<and> count + 1 \<le> BUNDLE_ROOT_MAX_NODES")
    case True
    then show ?thesis
      using 1 by (cases item) (auto simp: root_visit.simps root_ok.simps root_text_Inr Let_def not_less)
  next
    case False
    then show ?thesis
      using node_count_pos [of item] by (auto simp: root_visit.simps root_ok.simps Let_def)
  qed
next
  case (3 mode name x xs depth count)
  have head: "root_visit mode name x (depth + 1) False False count = Inr k \<longleftrightarrow>
      root_ok mode x (depth + 1) False False \<and> k = count + node_count x \<and> k \<le> BUNDLE_ROOT_MAX_NODES" for k
    by (rule 3(1))
  show ?case
  proof (cases "root_visit mode name x (depth + 1) False False count")
    case (Inl e)
    then have "\<not> (root_ok mode x (depth + 1) False False \<and> count + node_count x \<le> BUNDLE_ROOT_MAX_NODES)"
      using head by auto
    then show ?thesis using Inl by auto
  next
    case (Inr k)
    then have k: "root_ok mode x (depth + 1) False False" "k = count + node_count x" "k \<le> BUNDLE_ROOT_MAX_NODES"
      using head by auto
    show ?thesis using 3(2) [of k m] k Inr by (simp add: add.assoc)
  qed
next
  case (5 mode name prose k x d depth count)
  let ?free = "depth = 0 \<and> str_in k (free_text_fields mode)" and ?prose = "prose \<and> str_in k plan_prose_fields"
  show ?case
  proof (cases "encode_utf8 k")
    case (Inl e)
    then have "\<not> text_ok (codes k)" by (simp add: encode_iff [symmetric])
    moreover have "\<exists>e'. utf8_bytes_of k name = Inl e'" using Inl by (simp add: utf8_bytes_of_def)
    ultimately show ?thesis by auto
  next
    case (Inr b)
    then have ok: "text_ok (codes k)" and b: "utf8_bytes_of k name = Inr b"
      by (auto simp: encode_iff [symmetric] utf8_bytes_of_def)
    have head: "root_visit mode name x (depth + 1) ?free ?prose count = Inr j \<longleftrightarrow>
        root_ok mode x (depth + 1) ?free ?prose \<and> j = count + node_count x \<and> j \<le> BUNDLE_ROOT_MAX_NODES" for j
      by (rule 5(1) [OF b])
    show ?thesis
    proof (cases "root_visit mode name x (depth + 1) ?free ?prose count")
      case (Inl e)
      then have "\<not> (root_ok mode x (depth + 1) ?free ?prose \<and> count + node_count x \<le> BUNDLE_ROOT_MAX_NODES)"
        using head by auto
      then show ?thesis using Inl b by auto
    next
      case (Inr j)
      then have j: "root_ok mode x (depth + 1) ?free ?prose" "j = count + node_count x" "j \<le> BUNDLE_ROOT_MAX_NODES"
        using head by auto
      show ?thesis using 5(2) [OF b, of j m] j Inr b ok by (simp add: add.assoc)
    qed
  qed
qed auto

lemma root_ok_list_iff: "root_ok_list mode xs depth \<longleftrightarrow> list_all (\<lambda>x. root_ok mode x (depth + 1) False False) xs"
  by (induction xs) simp_all

lemma root_ok_dict_iff:
  "root_ok_dict mode prose d depth \<longleftrightarrow>
     list_all (\<lambda>p. text_ok (codes (fst p))
       \<and> root_ok mode (snd p) (depth + 1) (depth = 0 \<and> str_in (fst p) (free_text_fields mode)) (prose \<and> str_in (fst p) plan_prose_fields)) d"
  by (induction d) auto

lemma node_count_sums:
  "node_count_list xs = sum_list (map node_count xs)"
  "node_count_dict d = sum_list (map (\<lambda>p. node_count (snd p)) d)"
  by (induction xs) (simp_all, induction d, auto)

text \<open>None of it depends on the order of keys.\<close>

lemma plan_prose_record_set: "set (keys d) = set (keys e) \<Longrightarrow> plan_prose_record mode d = plan_prose_record mode e"
  by (simp add: plan_prose_record_def keys_are_def)

lemma set_keys_key_sorted: "set (keys (map (\<lambda>p. (fst p, f (snd p))) (sort_key fst d))) = set (keys d)"
  by (simp add: keys_def image_image)

lemma root_ok_key_sorted [simp]: "root_ok mode (key_sorted v) depth free prose = root_ok mode v depth free prose"
proof (induction v arbitrary: depth free prose)
  case (JList xs)
  then show ?case by (simp add: root_ok.simps [of _ "JList _"] root_ok_list_iff list_all_iff)
next
  case (JDict d)
  have "plan_prose_record mode (map (\<lambda>p. (fst p, key_sorted (snd p))) (sort_key fst d)) = plan_prose_record mode d"
    by (rule plan_prose_record_set) (rule set_keys_key_sorted)
  moreover have "\<And>p. p \<in> set d \<Longrightarrow> root_ok mode (key_sorted (snd p)) k f q = root_ok mode (snd p) k f q" for k f q
    using JDict by (metis snds.intros prod.exhaust_sel)
  ultimately show ?case
    by (simp add: root_ok.simps [of _ "JDict _"] root_ok_dict_iff list_all_iff)
qed simp_all

lemma node_count_key_sorted [simp]: "node_count (key_sorted v) = node_count v"
proof (induction v)
  case (JList xs)
  then show ?case by (simp add: node_count_sums comp_def cong: map_cong)
next
  case (JDict d)
  have "sum_list (map (\<lambda>p. node_count (key_sorted (snd p))) d) = sum_list (map (\<lambda>p. node_count (snd p)) d)"
    using JDict by (intro arg_cong [where f = sum_list] map_cong refl) (metis snds.intros prod.exhaust_sel)
  then show ?case by (simp add: node_count_sums comp_def sum_list_sort_key)
qed simp_all

lemma root_ok_encodable: "root_ok mode v depth free prose \<Longrightarrow> encodable v"
proof (induction v arbitrary: depth free prose)
  case (JStr s)
  then show ?case by (auto simp: root_ok.simps text_fits_def encode_iff [symmetric])
next
  case (JList xs)
  then show ?case by (fastforce simp: root_ok.simps root_ok_list_iff list_all_iff)
next
  case (JDict d)
  then show ?case by (fastforce simp: root_ok.simps root_ok_dict_iff list_all_iff)
next
  case (JInt i)
  then show ?case by (auto simp: root_ok.simps encodable_def intro: canonical_int_dumps)
next
  case (JFloat f)
  then show ?case by (auto simp: root_ok.simps encodable_def)
qed simp_all

definition canonical_bytes :: "json \<Rightarrow> nat list \<Rightarrow> bool" where
  "canonical_bytes v b \<longleftrightarrow> bindE (json_dumps v) encode_utf8 = Inr b"

lemma canonical_json_of_Inr: "canonical_json_of v name = Inr t \<longleftrightarrow> json_dumps v = Inr t"
  by (simp add: canonical_json_of_def)

lemma validate_json_root_decides:
  "validate_json_root mode v name = Inr h \<longleftrightarrow>
     root_ok mode v 0 False False \<and> node_count v \<le> BUNDLE_ROOT_MAX_NODES
     \<and> (\<exists>b. canonical_bytes v b \<and> int (length b) \<le> BUNDLE_ROOT_MAX_SERIALIZED_BYTES \<and> h = sha256_hex b)"
  by (auto simp: validate_json_root_def root_visit_iff(1) canonical_bytes_def canonical_json_of_Inr not_less)

text \<open>
  C24. A JSON root is admitted exactly when every node is within depth 64, containers and text are
  within their limits (inherited Plan prose by characters, everything else by bytes), numbers are
  finite and canonical, there are at most 65536 nodes, and the canonical text is at most 8 MiB; the
  digest returned is the SHA-256 of that text.
\<close>
theorem validate_json_root_iff:
  "validate_json_root mode v name = Inr h \<longleftrightarrow>
     root_ok mode v 0 False False \<and> node_count v \<le> BUNDLE_ROOT_MAX_NODES
     \<and> (\<exists>b. canonical_bytes v b \<and> int (length b) \<le> BUNDLE_ROOT_MAX_SERIALIZED_BYTES \<and> h = sha256_hex b)"
  by (rule validate_json_root_decides)

lemma validate_json_root_same:
  assumes "same_document v w"
  shows "validate_json_root mode v name = Inr h \<longleftrightarrow> validate_json_root mode w name' = Inr h"
proof -
  have "root_ok mode v 0 False False = root_ok mode w 0 False False" and "node_count v = node_count w"
    using assms unfolding same_document_def by (metis root_ok_key_sorted, metis node_count_key_sorted)
  then show ?thesis
    using json_dumps_same_document [OF assms] by (simp add: validate_json_root_decides canonical_bytes_def)
qed

text \<open>
  The digest of a JSON root depends on the document only, not on the order in which its
  objects list their keys, nor on the name the error messages would carry.
\<close>
theorem json_root_key_order:
  assumes "same_document v w"
  shows "validate_json_root mode v name = Inr h \<longleftrightarrow> validate_json_root mode w name' = Inr h"
  using assms by (rule validate_json_root_same)

subsection \<open>Runtime routing in domain documents\<close>

text \<open>A routing key occurs in the document; of a result schema only the root object counts.\<close>

fun routed :: "bool \<Rightarrow> json \<Rightarrow> bool" where
  "routed schema (JDict d) \<longleftrightarrow>
     list_ex (\<lambda>p. routing_key (fst p)) d \<or> (\<not> schema \<and> list_ex (\<lambda>p. routed schema (snd p)) d)"
| "routed schema (JList xs) \<longleftrightarrow> list_ex (routed schema) xs"
| "routed schema _ \<longleftrightarrow> False"

lemma routing_loop_decides: "routing_loop schema pending \<longleftrightarrow> list_ex (routed schema) pending"
proof (induction schema pending rule: routing_loop.induct)
  case (2 schema v pending)
  then show ?case by (cases v) (auto simp: list_ex_iff)
qed simp

lemma routed_key_sorted [simp]: "routed schema (key_sorted v) = routed schema v"
proof (induction v)
  case (JList xs)
  then show ?case by (auto simp: list_ex_iff)
next
  case (JDict d)
  then have "\<And>p. p \<in> set d \<Longrightarrow> routed schema (key_sorted (snd p)) = routed schema (snd p)"
    by (metis snds.intros prod.exhaust_sel)
  then show ?case by (auto simp: list_ex_iff)
qed simp_all

definition SCHEMA_NAME :: string where
  "SCHEMA_NAME = ''measurement result schema''"

lemma domain_root_decides:
  "validate_domain_document_root d name = Inr () \<longleftrightarrow> d \<noteq> [] \<and> \<not> routed (name = SCHEMA_NAME) (JDict d)"
  by (auto simp: validate_domain_document_root_def routing_loop_decides SCHEMA_NAME_def split: if_splits)

text \<open>
  C26. The worklist that searches a domain document for execution routing always ends, and rejects
  a document exactly when it is empty or some object in it, at any depth and inside any list, has a
  key that is a routing field up to case and hyphens; the root object of a result schema is
  searched the same way, its property names below the root are not.
\<close>
theorem domain_document_root_iff:
  "validate_domain_document_root d name = Inr () \<longleftrightarrow> d \<noteq> [] \<and> \<not> routed (name = SCHEMA_NAME) (JDict d)"
  by (rule domain_root_decides)

subsection \<open>Frozen documents\<close>

text \<open>A value that came out of \<open>json.loads\<close>: distinct keys, floats that their \<open>repr\<close> denotes.\<close>

definition loadable :: "json \<Rightarrow> bool" where
  "loadable v \<longleftrightarrow> wf_json v \<and> floats_ok v"

lemma same_document_refl [simp]: "same_document v v"
  by (simp add: same_document_def)

lemma same_document_sym: "same_document v w \<Longrightarrow> same_document w v"
  by (simp add: same_document_def)

lemma same_document_key_sorted [simp]: "same_document (key_sorted v) v" "same_document v (key_sorted v)"
  by (simp_all add: same_document_def)

fun sorted_members :: "json \<Rightarrow> jdict" where
  "sorted_members (JDict d) = map (\<lambda>p. (fst p, key_sorted (snd p))) (sort_key fst d)"
| "sorted_members _ = []"

lemma key_sorted_members: "key_sorted (JDict d) = JDict (sorted_members (JDict d))"
  by simp

lemma as_dict_frozen:
  assumes "loadable (JDict d)" and "json_dumps (JDict d) = Inr t"
  shows "as_dict \<lparr>fjo_canonical_json = t\<rparr> = Inr (sorted_members (JDict d))"
  using json_loads_dumps [of "JDict d" t] assms by (simp add: as_dict_def loadable_def)

lemma domain_document_Inr:
  "domain_document v name = Inr z \<longleftrightarrow>
     (\<exists>d h t. v = JDict d \<and> d \<noteq> [] \<and> validate_json_root plain_mode v name = Inr h
       \<and> \<not> routed (name = SCHEMA_NAME) v \<and> json_dumps v = Inr t \<and> z = \<lparr>fjo_canonical_json = t\<rparr>)"
  by (cases v)
     (auto simp: domain_document_def exact_object_def freeze_object_def canonical_json_of_Inr domain_root_decides)

lemma frozen_document_valid:
  assumes "domain_document v name = Inr z" and "loadable v"
  shows "validate_frozen_domain_document z name = Inr ()"
    and "\<exists>d'. as_dict z = Inr d' \<and> JDict d' = key_sorted v"
proof -
  obtain d h t where v: "v = JDict d" "d \<noteq> []" and h: "validate_json_root plain_mode v name = Inr h"
    and r: "\<not> routed (name = SCHEMA_NAME) v" and t: "json_dumps v = Inr t" and z: "z = \<lparr>fjo_canonical_json = t\<rparr>"
    using assms(1) by (auto simp: domain_document_Inr)
  let ?d = "sorted_members v"
  have s: "JDict ?d = key_sorted v" by (simp add: v)
  have as: "as_dict z = Inr ?d" using as_dict_frozen assms(2) t by (simp add: v z)
  then show "\<exists>d'. as_dict z = Inr d' \<and> JDict d' = key_sorted v" using s by blast
  have "length ?d = length d" by (simp add: v)
  then have "?d \<noteq> []" using v(2) by auto
  moreover have "\<not> routed (name = SCHEMA_NAME) (JDict ?d)" using r by (simp add: s)
  moreover have "validate_json_root plain_mode (JDict ?d) name = Inr h"
    unfolding s using h validate_json_root_same [OF same_document_key_sorted(2)] by blast
  moreover have "json_dumps (JDict ?d) = Inr t" using t by (simp add: s)
  ultimately show "validate_frozen_domain_document z name = Inr ()"
    using as by (simp add: validate_frozen_domain_document_def canonical_json_of_Inr z domain_root_decides)
qed

lemma domain_document_same:
  assumes "same_document v w" and "domain_document v name = Inr z"
  shows "domain_document w name = Inr z"
proof -
  obtain d h t where v: "v = JDict d" "d \<noteq> []" and h: "validate_json_root plain_mode v name = Inr h"
    and r: "\<not> routed (name = SCHEMA_NAME) v" and t: "json_dumps v = Inr t" "z = \<lparr>fjo_canonical_json = t\<rparr>"
    using assms(2) by (auto simp: domain_document_Inr)
  have eq: "key_sorted w = key_sorted v" using assms(1) by (simp add: same_document_def)
  then obtain e where w: "w = JDict e" using v(1) by (cases w) auto
  have "length e = length d" using eq v(1) w by (auto dest: arg_cong [where f = length])
  moreover have "\<not> routed (name = SCHEMA_NAME) w" using r eq by (metis routed_key_sorted)
  moreover have "validate_json_root plain_mode w name = Inr h" using h assms(1) validate_json_root_same by blast
  moreover have "json_dumps w = Inr t" using t(1) json_dumps_same_document [OF assms(1)] by simp
  ultimately show ?thesis using v(2) w t(2) by (auto simp: domain_document_Inr)
qed

lemma frozen_validates_iff:
  assumes "validate_frozen_domain_document z name = Inr ()"
  shows "\<exists>d h. as_dict z = Inr d \<and> json_dumps (JDict d) = Inr (fjo_canonical_json z)
     \<and> d \<noteq> [] \<and> \<not> routed (name = SCHEMA_NAME) (JDict d) \<and> validate_json_root plain_mode (JDict d) name = Inr h"
  using assms
  by (auto simp: validate_frozen_domain_document_def canonical_json_of_Inr domain_root_decides)

text \<open>A document that was read from a validated frozen one freezes to the same text again.\<close>

lemma refreeze:
  assumes "validate_frozen_domain_document z name = Inr ()" and "as_dict z = Inr d"
  shows "domain_document (JDict d) name = Inr z"
  using frozen_validates_iff [OF assms(1)] assms(2) by (cases z) (auto simp: domain_document_Inr)

text \<open>
  Freezing is canonical and stable: two spellings of one document freeze to the same object,
  the frozen object passes its own validation, reading it gives the document back up to the order
  of keys, and freezing what was read gives the frozen object again.
\<close>
theorem freeze_domain_document:
  assumes "domain_document v name = Inr z" and "wf_json v" and "floats_ok v" and "same_document v w"
  shows "domain_document w name = Inr z
     \<and> validate_frozen_domain_document z name = Inr ()
     \<and> (\<exists>d. as_dict z = Inr d \<and> same_document (JDict d) v \<and> domain_document (JDict d) name = Inr z)"
proof -
  have "loadable v" using assms by (simp add: loadable_def)
  note F = frozen_document_valid [OF assms(1) this]
  then obtain d where "as_dict z = Inr d" "JDict d = key_sorted v" by blast
  then show ?thesis
    using F domain_document_same [OF assms(4,1)] refreeze [OF F(1)] by (metis same_document_key_sorted(1))
qed

end
