(* ===== verification/SmallRoots.thy ===== *)
theory SmallRoots
  imports RootLaws ContractValues
begin

text \<open>
  Small ASCII documents pass the bounded walk of a JSON root whatever its mode: the bounds on
  depth, nodes, containers, texts and bytes hold by a size that is computed without sorting.
\<close>

fun small :: "nat \<Rightarrow> json \<Rightarrow> bool" where
  "small n (JStr s) = (list_all (\<lambda>c. c < 128) (codes s) \<and> slen s \<le> 4096)"
| "small n (JInt i) = (\<bar>i\<bar> \<le> BUNDLE_CANONICAL_INTEGER_MAX_ABS)"
| "small n (JFloat f) = False"
| "small n (JList xs) = (0 < n \<and> length xs \<le> BUNDLE_PROJECTION_MAX_TUPLE_ITEMS \<and> list_all (small (n - 1)) xs)"
| "small n (JDict d) =
     (0 < n \<and> length d \<le> BUNDLE_PROJECTION_MAX_TUPLE_ITEMS
      \<and> list_all (\<lambda>p. list_all (\<lambda>c. c < 128) (codes (fst p)) \<and> small (n - 1) (snd p)) d)"
| "small n _ = True"

lemma small_ascii: "small n v \<Longrightarrow> ascii_json v"
  by (induction n v rule: small.induct) (auto simp: list_all_iff intro: canonical_int_dumps)

lemma text_fits_ascii: "list_all (\<lambda>c. c < 128) (codes s) \<Longrightarrow> slen s \<le> 4096 \<Longrightarrow> text_fits mode free prose s"
  by (simp add: text_fits_def encode_utf8_def utf8_codes_ascii slen_def PLAN_TEXT_MAX_CHARS_def
      BUNDLE_PROJECTION_STRING_MAX_UTF8_BYTES_def)

lemma small_root_ok: "small n v \<Longrightarrow> depth + n \<le> BUNDLE_ROOT_MAX_DEPTH \<Longrightarrow> root_ok mode v depth free prose"
proof (induction n v arbitrary: depth free prose rule: small.induct)
  case (1 n s)
  then show ?case by (simp add: root_ok.simps text_fits_ascii)
next
  case (4 n xs)
  have "root_ok mode x (depth + 1) False False" if "x \<in> set xs" for x
    using 4 that by (intro "4.IH") (auto simp: list_all_iff)
  then show ?case using "4.prems" by (auto simp: root_ok.simps [of _ "JList _"] root_ok_list_iff list_all_iff)
next
  case (5 n d)
  have "root_ok mode (snd p) (depth + 1) f q" if "p \<in> set d" for p f q
    using 5 that by (intro "5.IH") (auto simp: list_all_iff)
  then show ?case
    using "5.prems" by (auto simp: root_ok.simps [of _ "JDict _"] root_ok_dict_iff list_all_iff intro: text_ok_ascii)
qed (simp_all add: root_ok.simps)

lemma node_count_le_size: "node_count v \<le> json_size v + 1"
proof (induction v)
  case (JList xs)
  have "sum_list (map node_count xs) \<le> sum_list (map (\<lambda>x. json_size x + 1) xs)"
    using JList by (intro sum_list_mono) simp
  then show ?case by (simp add: node_count_sums)
next
  case (JDict d)
  have "sum_list (map (\<lambda>p. node_count (snd p)) d) \<le> sum_list (map (\<lambda>p. 6 * slen (fst p) + json_size (snd p) + 4) d)"
  proof (rule sum_list_mono)
    fix p assume "p \<in> set d"
    moreover have "snd p \<in> Basic_BNFs.snds p" by (simp add: snds.simps)
    ultimately have "node_count (snd p) \<le> json_size (snd p) + 1" by (rule JDict)
    then show "node_count (snd p) \<le> 6 * slen (fst p) + json_size (snd p) + 4" by linarith
  qed
  then show ?case by (simp add: node_count_sums)
qed simp_all

lemma ascii_canonical_bytes: "ascii_json v \<Longrightarrow> canonical_bytes v (json_codes v)"
  using ascii_json_codes [of v] ascii_json_plain [of v]
  by (simp add: canonical_bytes_def json_dumps_def encode_utf8_def utf8_codes_ascii list_all_iff)

lemma small_root:
  assumes "small 64 v" and "json_size v < 65536"
  shows "validate_json_root mode v name = Inr (sha256_hex (json_codes v))"
proof -
  have "root_ok mode v 0 False False"
    using assms(1) by (rule small_root_ok) (simp add: BUNDLE_ROOT_MAX_DEPTH_def)
  moreover have "canonical_bytes v (json_codes v)" using small_ascii [OF assms(1)] by (rule ascii_canonical_bytes)
  moreover have "length (json_codes v) < 65536" using length_json_codes [of v] assms(2) by linarith
  ultimately show ?thesis
    using node_count_le_size [of v] assms(2)
    by (auto simp: validate_json_root_decides BUNDLE_ROOT_MAX_NODES_def BUNDLE_ROOT_MAX_SERIALIZED_BYTES_def
        intro!: exI [of _ "json_codes v"])
qed

lemma small_json_dumps: "small n v \<Longrightarrow> json_dumps v = Inr (Str (json_codes v))"
  using ascii_json_plain [OF small_ascii] by (simp add: json_dumps_def)

text \<open>Both measures ignore the order of keys.\<close>

lemma small_key_sorted [simp]: "small n (key_sorted v) = small n v"
proof (induction n v rule: small.induct)
  case (5 n d)
  have "small (n - 1) (key_sorted (snd p)) = small (n - 1) (snd p)" if "p \<in> set d" for p
    using 5 that .
  then show ?case by (auto simp: list_all_iff)
qed (auto simp: list_all_iff)

lemma json_size_key_sorted [simp]: "json_size (key_sorted v) = json_size v"
proof (induction v)
  case (JList xs)
  then show ?case by (simp add: comp_def cong: map_cong)
next
  case (JDict d)
  have "sum_list (map (\<lambda>p. 6 * slen (fst p) + json_size (key_sorted (snd p)) + 4) d)
      = sum_list (map (\<lambda>p. 6 * slen (fst p) + json_size (snd p) + 4) d)"
    using JDict by (intro arg_cong [where f = sum_list] map_cong refl) (metis snds.intros prod.exhaust_sel)
  then show ?case by (simp add: comp_def sum_list_sort_key)
qed simp_all

lemma small_mono: "small m v \<Longrightarrow> m \<le> n \<Longrightarrow> small n v"
proof (induction m v arbitrary: n rule: small.induct)
  case (4 m xs)
  have "small (n - 1) x" if "x \<in> set xs" for x
    proof (rule "4.IH" [OF that])
    show "small (m - 1) x" "m - 1 \<le> n - 1" using "4.prems" that by (simp_all add: list_all_iff)
  qed
  then show ?case using "4.prems" by (auto simp: list_all_iff)
next
  case (5 m d)
  have "small (n - 1) (snd p)" if "p \<in> set d" for p
    proof (rule "5.IH" [OF that])
    show "small (m - 1) (snd p)" "m - 1 \<le> n - 1" using "5.prems" that by (simp_all add: list_all_iff)
  qed
  then show ?case using "5.prems" by (auto simp: list_all_iff)
qed simp_all

text \<open>A small document without routing keys is frozen, and the frozen document validates.\<close>

lemma small_domain_document:
  assumes "small 64 (JDict d)" and "json_size (JDict d) < 65536" and "d \<noteq> []"
    and "\<not> routed (name = SCHEMA_NAME) (JDict d)"
  shows "domain_document (JDict d) name = Inr \<lparr>fjo_canonical_json = Str (json_codes (JDict d))\<rparr>"
  using assms small_root [OF assms(1,2)] small_json_dumps [OF assms(1)] by (auto simp: domain_document_Inr)

end
