(* ===== verification/RollingStrategy.thy ===== *)
theory RollingStrategy
  imports TargetRules
begin

text \<open>
  \<open>src/meta_research/bundle_target_contract.py\<close>, part four: strategy updates and the rolling,
  append-only strategy they build, with its durable snapshot.
\<close>

definition validate_update_pair :: "FormalStrategyUpdate \<Rightarrow> NormalizedCompletionContract \<Rightarrow> unit res" where
  "validate_update_pair update contract =
     (if fsu_schema_ref update \<noteq> L FORMAL_STRATEGY_UPDATE_SCHEMA_REF then bt_fail ''formal_strategy_update_schema_invalid''
      else
        bindE (positive_int (JInt (su_revision (fsu_update update))) ''strategy revision'') (\<lambda>_.
        if su_candidates (fsu_update update) \<noteq> map ftc_candidate (fsu_candidates update)
        then bt_fail ''strategy_update_candidate_projection_drift''
        else
          bindE (string_list (jstrs (su_requires_accepted_labels (fsu_update update))) ''requires_accepted_labels'' True) (\<lambda>_.
          bindE (forE (\<lambda>item. validate_formal_candidate item contract) (fsu_candidates update)) (\<lambda>_.
          bindE (validate_closed_bundle_projection (pv_StrategyUpdate (fsu_update update)) ''StrategyUpdate'' BUNDLE_ROOT_MAX_SERIALIZED_BYTES) (\<lambda>_.
          Inr ())))))"

definition validate_state :: "RollingStrategyState \<Rightarrow> NormalizedCompletionContract \<Rightarrow> unit res" where
  "validate_state state contract =
     (if rss_schema_ref state \<noteq> L ROLLING_STRATEGY_STATE_SCHEMA_REF then bt_fail ''rolling_strategy_state_schema_invalid''
      else
        bindE (completion_contract_hash contract) (\<lambda>hash.
        if rss_completion_contract_hash state \<noteq> hash then bt_fail ''rolling_strategy_completion_contract_drift''
        else
          bindE (nonnegative_int (JInt (su_revision (rss_strategy state))) ''strategy revision'') (\<lambda>_.
          if su_candidates (rss_strategy state) \<noteq> map ftc_candidate (rss_candidates state)
          then bt_fail ''rolling_strategy_candidate_projection_drift''
          else if su_requires_accepted_labels (rss_strategy state) \<noteq> [] then bt_fail ''rolling_state_retained_session_gate''
          else
            bindE (forE (\<lambda>item. validate_formal_candidate item contract) (rss_candidates state)) (\<lambda>_.
            bindE (verify_candidate_set (rss_candidates state) contract) (\<lambda>_.
            if su_strategy_complete (rss_strategy state) then verify_completion_cells (rss_candidates state) contract
            else Inr ())))))"

definition strategy_update_required :: "string list" where
  "strategy_update_required = [''schema_ref'', ''revision'', ''candidates'', ''requires_accepted_labels'', ''strategy_complete'']"

definition notes_mode :: root_mode where
  "notes_mode = plan_mode\<lparr>free_text_fields := [''notes'']\<rparr>"

definition strategy_update_from_dict :: "json \<Rightarrow> NormalizedCompletionContract \<Rightarrow> FormalStrategyUpdate res" where
  "strategy_update_from_dict value contract =
     bindE (exact_object value ''formal_strategy_update_invalid'') (\<lambda>document.
     if \<not> keys_are document strategy_update_required \<and> \<not> keys_are document (''notes'' # strategy_update_required)
     then bt_fail ''formal_strategy_update_invalid''
     else
       bindE (if has_key document (L ''notes'') then
                (case dget document ''notes'' of JStr s \<Rightarrow> Inr (Some s) | _ \<Rightarrow> bt_fail ''formal_strategy_update_notes_invalid'')
              else Inr None) (\<lambda>notes.
       if dget document ''schema_ref'' \<noteq> JStr (L FORMAL_STRATEGY_UPDATE_SCHEMA_REF)
       then bt_fail ''formal_strategy_update_schema_invalid''
       else
         bindE (positive_int (dget document ''revision'') ''strategy revision'') (\<lambda>revision.
         bindE (exact_bool (dget document ''strategy_complete'') ''strategy complete'') (\<lambda>complete.
         bindE (bindE (object_list (dget document ''candidates'') ''formal_strategy_update_invalid'')
                  (mapE (\<lambda>item. formal_target_candidate_from_dict item contract))) (\<lambda>candidates.
         bindE (string_list (dget document ''requires_accepted_labels'') ''requires_accepted_labels'' True) (\<lambda>required.
         let update = \<lparr>su_revision = revision, su_candidates = map ftc_candidate candidates,
                       su_requires_accepted_labels = required, su_strategy_complete = complete\<rparr> in
         bindE (validate_closed_bundle_projection (pv_StrategyUpdate update) ''StrategyUpdate'' BUNDLE_ROOT_MAX_SERIALIZED_BYTES) (\<lambda>_.
         bindE (validate_json_root notes_mode value ''FormalStrategyUpdate'') (\<lambda>_.
         Inr \<lparr>fsu_update = update, fsu_candidates = candidates,
              fsu_schema_ref = L FORMAL_STRATEGY_UPDATE_SCHEMA_REF, fsu_notes = notes\<rparr>))))))))"

definition strategy_update_to_dict :: "FormalStrategyUpdate \<Rightarrow> NormalizedCompletionContract \<Rightarrow> json res" where
  "strategy_update_to_dict update contract =
     bindE (validate_update_pair update contract) (\<lambda>_.
     bindE (mapE (\<lambda>item. formal_target_candidate_to_dict item contract) (fsu_candidates update)) (\<lambda>candidates.
     let value = obj
       ([(''schema_ref'', JStr (fsu_schema_ref update)),
         (''revision'', JInt (su_revision (fsu_update update))),
         (''candidates'', JList candidates),
         (''requires_accepted_labels'', jstrs (su_requires_accepted_labels (fsu_update update))),
         (''strategy_complete'', JBool (su_strategy_complete (fsu_update update)))]
        @ (case fsu_notes update of None \<Rightarrow> [] | Some notes \<Rightarrow> [(''notes'', JStr notes)])) in
     bindE (validate_json_root notes_mode value ''FormalStrategyUpdate'') (\<lambda>_. Inr value)))"

definition start_rolling_strategy :: "NormalizedCompletionContract \<Rightarrow> RollingStrategyState res" where
  "start_rolling_strategy contract =
     bindE (completion_contract_hash contract) (\<lambda>hash.
     Inr \<lparr>rss_completion_contract_hash = hash,
          rss_strategy = \<lparr>su_revision = 0, su_candidates = [], su_requires_accepted_labels = [], su_strategy_complete = False\<rparr>,
          rss_candidates = [], rss_schema_ref = L ROLLING_STRATEGY_STATE_SCHEMA_REF\<rparr>)"

definition candidate_label :: "FormalTargetCandidate \<Rightarrow> str" where
  "candidate_label formal = tc_local_label (ftc_candidate formal)"

definition new_label_step :: "str list \<Rightarrow> str list \<Rightarrow> str list \<Rightarrow> FormalTargetCandidate \<Rightarrow> str list res" where
  "new_label_step known required new_labels item =
     (let label = candidate_label item in
      if label \<in> set known \<or> label \<in> set new_labels then bt_fail ''strategy_repeats_target_label''
      else if \<not> subset_list required (tc_depends_on_labels (ftc_candidate item)) then bt_fail ''adaptive_input_missing_dependency''
      else Inr (label # new_labels))"

definition apply_strategy_update ::
  "RollingStrategyState \<Rightarrow> FormalStrategyUpdate \<Rightarrow> NormalizedCompletionContract \<Rightarrow> str list \<Rightarrow> RollingStrategyState res" where
  "apply_strategy_update state update contract accepted_labels =
     bindE (validate_state state contract) (\<lambda>_.
     bindE (validate_update_pair update contract) (\<lambda>_.
     let required = su_requires_accepted_labels (fsu_update update);
         complete = su_strategy_complete (fsu_update update);
         known_labels = map candidate_label (rss_candidates state)
     in
     if su_strategy_complete (rss_strategy state) then bt_fail ''completed_strategy_is_immutable''
     else if su_revision (fsu_update update) \<le> su_revision (rss_strategy state) then bt_fail ''strategy_revision_not_monotonic''
     else if fsu_candidates update = [] \<and> \<not> complete then bt_fail ''strategy_update_has_no_actionable_work''
     else if \<not> subset_list accepted_labels known_labels then bt_fail ''accepted_strategy_label_unknown''
     else if \<not> subset_list required accepted_labels then bt_fail ''strategy_consumed_unaccepted_result''
     else
       bindE (foldE (new_label_step known_labels required) [] (fsu_candidates update)) (\<lambda>_.
       let merged = rss_candidates state @ fsu_candidates update in
       bindE (verify_candidate_set merged contract) (\<lambda>_.
       bindE (if complete then verify_completion_cells merged contract else Inr ()) (\<lambda>_.
       let result =
         \<lparr>rss_completion_contract_hash = rss_completion_contract_hash state,
          rss_strategy = \<lparr>su_revision = su_revision (fsu_update update), su_candidates = map ftc_candidate merged,
                          su_requires_accepted_labels = [], su_strategy_complete = complete\<rparr>,
          rss_candidates = merged, rss_schema_ref = L ROLLING_STRATEGY_STATE_SCHEMA_REF\<rparr> in
       bindE (validate_state result contract) (\<lambda>_. Inr result))))))"

definition rolling_strategy_state_to_dict :: "RollingStrategyState \<Rightarrow> NormalizedCompletionContract \<Rightarrow> json res" where
  "rolling_strategy_state_to_dict state contract =
     bindE (validate_state state contract) (\<lambda>_.
     bindE (mapE (\<lambda>item. formal_target_candidate_to_dict item contract) (rss_candidates state)) (\<lambda>candidates.
     let value = obj
       [(''schema_ref'', JStr (rss_schema_ref state)),
        (''completion_contract_hash'', JStr (rss_completion_contract_hash state)),
        (''revision'', JInt (su_revision (rss_strategy state))),
        (''candidates'', JList candidates),
        (''strategy_complete'', JBool (su_strategy_complete (rss_strategy state)))] in
     bindE (validate_json_root plan_mode value ''RollingStrategyState'') (\<lambda>_. Inr value)))"

definition extends_previous ::
  "RollingStrategyState \<Rightarrow> RollingStrategyState \<Rightarrow> NormalizedCompletionContract \<Rightarrow> unit res" where
  "extends_previous result previous_state contract =
     bindE (validate_state previous_state contract) (\<lambda>_.
     if su_strategy_complete (rss_strategy previous_state) then bt_fail ''completed_strategy_is_immutable''
     else if su_revision (rss_strategy result) \<le> su_revision (rss_strategy previous_state)
     then bt_fail ''strategy_revision_not_monotonic''
     else
       bindE (mapE (\<lambda>item. formal_target_candidate_to_dict item contract) (rss_candidates previous_state)) (\<lambda>old.
       bindE (mapE (\<lambda>item. formal_target_candidate_to_dict item contract) (take (length old) (rss_candidates result))) (\<lambda>new_prefix.
       if length (rss_candidates result) < length old \<or> \<not> py_eq (JList new_prefix) (JList old)
       then bt_fail ''rolling_candidate_list_shrank_or_changed''
       else Inr ())))"

definition rolling_strategy_state_from_dict ::
  "json \<Rightarrow> NormalizedCompletionContract \<Rightarrow> RollingStrategyState option \<Rightarrow> RollingStrategyState res" where
  "rolling_strategy_state_from_dict value contract previous_state =
     bindE (exact_dict value [''schema_ref'', ''completion_contract_hash'', ''revision'', ''candidates'', ''strategy_complete'']
              ''rolling_strategy_state_invalid'') (\<lambda>document.
     if dget document ''schema_ref'' \<noteq> JStr (L ROLLING_STRATEGY_STATE_SCHEMA_REF)
     then bt_fail ''rolling_strategy_state_schema_invalid''
     else
       bindE (bindE (object_list (dget document ''candidates'') ''rolling_strategy_state_invalid'')
                (mapE (\<lambda>item. formal_target_candidate_from_dict item contract))) (\<lambda>candidates.
       bindE (sha256_value (dget document ''completion_contract_hash'') ''completion contract hash'') (\<lambda>hash.
       bindE (nonnegative_int (dget document ''revision'') ''strategy revision'') (\<lambda>revision.
       bindE (exact_bool (dget document ''strategy_complete'') ''strategy complete'') (\<lambda>complete.
       let result =
         \<lparr>rss_completion_contract_hash = hash,
          rss_strategy = \<lparr>su_revision = revision, su_candidates = map ftc_candidate candidates,
                          su_requires_accepted_labels = [], su_strategy_complete = complete\<rparr>,
          rss_candidates = candidates, rss_schema_ref = L ROLLING_STRATEGY_STATE_SCHEMA_REF\<rparr> in
       bindE (validate_json_root plan_mode value ''RollingStrategyState'') (\<lambda>_.
       bindE (validate_state result contract) (\<lambda>_.
       bindE (case previous_state of None \<Rightarrow> Inr () | Some previous \<Rightarrow> extends_previous result previous contract) (\<lambda>_.
       Inr result))))))))"

subsection \<open>Legacy specifications\<close>

definition freeze_legacy_execution :: "json \<Rightarrow> FrozenJsonObject res" where
  "freeze_legacy_execution value =
     bindE (exact_object value ''legacy_target_execution_invalid'') (\<lambda>document.
     bindE (validate_json_root plain_mode (JDict document) ''Legacy Target execution'') (\<lambda>_.
     freeze_object document ''Legacy Target execution''))"

definition parse_legacy_v2_target_spec :: "json \<Rightarrow> LegacyV2TargetSpec res" where
  "parse_legacy_v2_target_spec value =
     bindE (exact_dict value
       [''target_key'', ''title'', ''experiment_key'', ''gap_obligation_keys'', ''depends_on'', ''goal'', ''characteristics'',
        ''boundary_constraints'', ''semantic_delta'', ''contributing_idea_refs'', ''risk_class'', ''execution'']
       ''legacy_v2_target_spec_invalid'') (\<lambda>target.
     bindE (forE (\<lambda>field. bindE (text_value (dget target field) field) (\<lambda>_. Inr ()))
       [''target_key'', ''title'', ''experiment_key'', ''goal'', ''characteristics'', ''boundary_constraints'', ''semantic_delta'']) (\<lambda>_.
     bindE (string_list (dget target ''gap_obligation_keys'') ''gap_obligation_keys'' False) (\<lambda>_.
     bindE (string_list (dget target ''depends_on'') ''depends_on'' True) (\<lambda>_.
     bindE (string_list (dget target ''contributing_idea_refs'') ''contributing_idea_refs'' True) (\<lambda>_.
     bindE (in_str_set (dget target ''risk_class'') [''normal'', ''high'']) (\<lambda>known.
     if \<not> known then bt_fail ''legacy_v2_target_spec_invalid''
     else
       bindE (freeze_legacy_execution (dget target ''execution'')) (\<lambda>_.
       bindE (validate_json_root plain_mode value ''LegacyV2TargetSpec'') (\<lambda>_.
       bindE (freeze_object target ''LegacyV2TargetSpec'') (\<lambda>payload.
       Inr \<lparr>lts_payload = payload\<rparr>)))))))))"

end
