(* ===== verification/CandidateLaws.thy ===== *)
theory CandidateLaws
  imports RollingStrategy
begin

text \<open>
  Laws of candidates and candidate sets: the dependency loop decides acyclicity, an admitted set
  has one label and one measurement cell per candidate and one held-fixed revision per slot and
  experiment, and a completed strategy covers every required cell exactly once.
\<close>

subsection \<open>Dependencies\<close>

definition depends_on :: "TargetCandidate list \<Rightarrow> (str \<times> str) set" where
  "depends_on cs = {(d, tc_local_label c) | c d. c \<in> set cs \<and> d \<in> set (tc_depends_on_labels c)}"

definition labels_of :: "TargetCandidate list \<Rightarrow> str set" where
  "labels_of cs = tc_local_label ` set cs"

definition dependencies_known :: "TargetCandidate list \<Rightarrow> bool" where
  "dependencies_known cs \<longleftrightarrow> (\<forall>c\<in>set cs. set (tc_depends_on_labels c) \<subseteq> labels_of cs)"

text \<open>A list of labels in which each label's candidate depends only on labels before it.\<close>

definition execution_order :: "TargetCandidate list \<Rightarrow> str list \<Rightarrow> bool" where
  "execution_order cs ls \<longleftrightarrow>
     distinct ls \<and> (\<forall>us l vs. ls = us @ l # vs \<longrightarrow>
       (\<exists>c\<in>set cs. tc_local_label c = l \<and> set (tc_depends_on_labels c) \<subseteq> set us))"

lemma execution_orderD:
  "execution_order cs (us @ l # vs) \<Longrightarrow>
     \<exists>c\<in>set cs. tc_local_label c = l \<and> set (tc_depends_on_labels c) \<subseteq> set us"
  unfolding execution_order_def by blast

lemma newly_reachable_set:
  "set (newly_reachable cs r) = {tc_local_label c | c. c \<in> set cs \<and> set (tc_depends_on_labels c) \<subseteq> set r} - set r"
  by (auto simp: newly_reachable_def)

lemma newly_reachable_distinct:
  "distinct (map tc_local_label cs) \<Longrightarrow> distinct (newly_reachable cs r)"
  by (simp add: newly_reachable_def distinct_map_filter)

lemma append_split_cases:
  "xs @ ys = us @ l # vs \<Longrightarrow> (\<exists>ws. xs = us @ l # ws) \<or> (\<exists>ws. us = xs @ ws \<and> ys = ws @ l # vs)"
  by (auto simp: append_eq_append_conv2 append_eq_Cons_conv)

lemma execution_order_extend:
  assumes "execution_order cs r" and "distinct (map tc_local_label cs)"
  shows "execution_order cs (r @ newly_reachable cs r)"
  unfolding execution_order_def
proof (intro conjI allI impI)
  show "distinct (r @ newly_reachable cs r)"
    using assms newly_reachable_distinct [of cs r] by (auto simp: execution_order_def newly_reachable_set)
next
  fix us l vs
  assume "r @ newly_reachable cs r = us @ l # vs"
  from append_split_cases [OF this]
  show "\<exists>c\<in>set cs. tc_local_label c = l \<and> set (tc_depends_on_labels c) \<subseteq> set us"
  proof
    assume "\<exists>ws. r = us @ l # ws"
    then show ?thesis using assms(1) by (auto simp: execution_order_def)
  next
    assume "\<exists>ws. us = r @ ws \<and> newly_reachable cs r = ws @ l # vs"
    then have "l \<in> set (newly_reachable cs r)" and "set r \<subseteq> set us" by auto
    then show ?thesis by (force simp: newly_reachable_set)
  qed
qed

lemma reachable_labels_order:
  assumes "execution_order cs r" and "distinct (map tc_local_label cs)"
  shows "execution_order cs (reachable_labels cs r)"
  using assms
proof (induction cs r rule: reachable_labels.induct)
  case (1 cs r)
  then show ?case
    by (subst reachable_labels.simps) (simp add: Let_def execution_order_extend)
qed

lemma reachable_labels_fixpoint: "newly_reachable cs (reachable_labels cs r) = []"
proof (induction cs r rule: reachable_labels.induct)
  case (1 cs r)
  then show ?case by (subst reachable_labels.simps) (simp add: Let_def)
qed

lemma reachable_labels_within: "set r \<subseteq> labels_of cs \<Longrightarrow> set (reachable_labels cs r) \<subseteq> labels_of cs"
proof (induction cs r rule: reachable_labels.induct)
  case (1 cs r)
  have "set (newly_reachable cs r) \<subseteq> labels_of cs" by (auto simp: newly_reachable_set labels_of_def)
  with 1 show ?case by (subst reachable_labels.simps) (simp add: Let_def)
qed

lemma label_determines:
  "distinct (map tc_local_label cs) \<Longrightarrow> c \<in> set cs \<Longrightarrow> d \<in> set cs \<Longrightarrow> tc_local_label c = tc_local_label d \<Longrightarrow> c = d"
  by (simp add: distinct_map inj_on_def)

lemma takeWhile_first: "d \<notin> set us \<Longrightarrow> takeWhile (\<lambda>x. x \<noteq> d) (us @ d # vs) = us"
  by (induction us) auto

text \<open>An order over all labels makes the dependency relation acyclic.\<close>

lemma execution_order_acyclic:
  assumes "execution_order cs ls" and "set ls = labels_of cs" and "distinct (map tc_local_label cs)"
  shows "acyclic (depends_on cs)"
proof -
  let ?pos = "\<lambda>l. length (takeWhile (\<lambda>x. x \<noteq> l) ls)"
  have "?pos d < ?pos l" if "(d, l) \<in> depends_on cs" for d l
  proof -
    from that obtain c where c: "c \<in> set cs" "l = tc_local_label c" "d \<in> set (tc_depends_on_labels c)"
      by (auto simp: depends_on_def)
    then have "l \<in> set ls" using assms(2) by (auto simp: labels_of_def)
    then obtain us vs where ls: "ls = us @ l # vs" "l \<notin> set us" by (metis split_list_first)
    then obtain c' where "c' \<in> set cs" "tc_local_label c' = l" "set (tc_depends_on_labels c') \<subseteq> set us"
      using assms(1) execution_orderD by blast
    then have "d \<in> set us" using c label_determines [OF assms(3)] by auto
    then obtain as bs where "us = as @ d # bs" "d \<notin> set as" by (metis split_list_first)
    then have "?pos d < length us" using ls takeWhile_first [of d as "bs @ l # vs"] by simp
    moreover have "?pos l = length us" using ls takeWhile_first [of l us vs] by simp
    ultimately show ?thesis by simp
  qed
  then have "depends_on cs \<subseteq> measure ?pos" by auto
  then show ?thesis by (meson acyclic_subset wf_acyclic wf_measure)
qed

lemma finite_depends_on: "finite (depends_on cs)"
proof -
  have "depends_on cs \<subseteq> (\<Union>c\<in>set cs. set (tc_depends_on_labels c)) \<times> labels_of cs"
    by (auto simp: depends_on_def labels_of_def)
  then show ?thesis by (rule finite_subset) (simp add: labels_of_def)
qed

text \<open>Conversely the loop reaches every label of a closed acyclic set.\<close>

lemma reachable_labels_complete:
  assumes "dependencies_known cs" and "acyclic (depends_on cs)"
  shows "labels_of cs \<subseteq> set (reachable_labels cs [])"
proof (rule ccontr)
  let ?F = "set (reachable_labels cs [])"
  assume "\<not> labels_of cs \<subseteq> ?F"
  then obtain x where "x \<in> labels_of cs - ?F" by auto
  moreover have "wf (depends_on cs)" using assms(2) by (simp add: finite_acyclic_wf finite_depends_on)
  ultimately obtain m where m: "m \<in> labels_of cs - ?F" and least: "\<And>y. (y, m) \<in> depends_on cs \<Longrightarrow> y \<notin> labels_of cs - ?F"
    by (metis wfE_min)
  from m obtain c where c: "c \<in> set cs" "tc_local_label c = m" by (auto simp: labels_of_def)
  have "set (tc_depends_on_labels c) \<subseteq> ?F"
  proof
    fix d assume d: "d \<in> set (tc_depends_on_labels c)"
    then have "(d, m) \<in> depends_on cs" using c by (auto simp: depends_on_def)
    moreover have "d \<in> labels_of cs" using assms(1) c d by (auto simp: dependencies_known_def)
    ultimately show "d \<in> ?F" using least by auto
  qed
  then have "m \<in> set (newly_reachable cs (reachable_labels cs []))"
    using c m by (force simp: newly_reachable_set)
  then show False by (simp add: reachable_labels_fixpoint)
qed

definition index_of :: "TargetCandidate list \<Rightarrow> (str \<times> TargetCandidate) list" where
  "index_of cs = map (\<lambda>c. (tc_local_label c, c)) cs"

lemma index_of_simps [simp]: "keys (index_of cs) = map tc_local_label cs" "map snd (index_of cs) = cs"
  by (simp_all add: index_of_def keys_def comp_def)

lemma verify_acyclic_decides:
  assumes "distinct (map tc_local_label cs)"
  shows "verify_acyclic (index_of cs) = Inr () \<longleftrightarrow> dependencies_known cs \<and> acyclic (depends_on cs)"
proof -
  have order: "execution_order cs (reachable_labels cs [])"
    using assms by (intro reachable_labels_order) (simp_all add: execution_order_def)
  have within: "set (reachable_labels cs []) \<subseteq> labels_of cs"
    by (intro reachable_labels_within) simp
  have "verify_acyclic (index_of cs) = Inr () \<longleftrightarrow> dependencies_known cs \<and> set (reachable_labels cs []) = labels_of cs"
    by (auto simp: verify_acyclic_def Let_def dependencies_known_def labels_of_def list_ex_iff)
  then show ?thesis
    using execution_order_acyclic [OF order _ assms] reachable_labels_complete [of cs] within by blast
qed

text \<open>
  C34. The dependency check decides exactly what it is for: it terminates on every candidate set
  and accepts one with distinct labels iff every dependency names a candidate of the set and no
  candidate depends on itself through others.
\<close>
theorem verify_acyclic_iff:
  assumes "distinct (map tc_local_label cs)"
  shows "verify_acyclic (index_of cs) = Inr () \<longleftrightarrow> dependencies_known cs \<and> acyclic (depends_on cs)"
  using assms by (rule verify_acyclic_decides)

lemma verify_acyclic_order:
  assumes "verify_acyclic (index_of cs) = Inr ()" and "distinct (map tc_local_label cs)"
  shows "\<exists>ls. execution_order cs ls \<and> set ls = labels_of cs"
proof -
  have "set (reachable_labels cs []) = labels_of cs"
    using assms(1) by (auto simp: verify_acyclic_def Let_def labels_of_def split: if_splits)
  moreover have "execution_order cs (reachable_labels cs [])"
    using assms by (intro reachable_labels_order) (simp_all add: execution_order_def)
  ultimately show ?thesis by blast
qed

subsection \<open>One admitted candidate\<close>

lemma text_value_Inr: "text_value v n = Inr s \<Longrightarrow> v = JStr s \<and> \<not> is_blank s"
  by (cases v) (auto simp: text_value_def)

lemma ref_value_Inr: "ref_value v n = Inr s \<Longrightarrow> v = JStr s \<and> \<not> is_blank s \<and> s = strip s"
  by (auto simp: ref_value_def dest: text_value_Inr)

lemma ref_value_JStr: "ref_value (JStr s) n = Inr t \<Longrightarrow> t = s"
  by (auto dest: ref_value_Inr)

lemma canonical_string_tuple_Inr:
  "canonical_string_tuple xs n e = Inr ys \<Longrightarrow> ys = xs \<and> distinct xs \<and> (xs = [] \<longrightarrow> e)"
proof -
  assume a: "canonical_string_tuple xs n e = Inr ys"
  then have m: "mapE (\<lambda>item. ref_value (JStr item) n) xs = Inr ys"
    by (auto simp: canonical_string_tuple_def split: if_splits)
  have "ys = map (\<lambda>x. x) xs" by (rule mapE_Inr_map [OF m]) (auto dest: ref_value_JStr)
  with a show ?thesis by (auto simp: canonical_string_tuple_def split: if_splits)
qed

lemma string_list_Inr:
  "string_list v n e = Inr ys \<Longrightarrow> v = jstrs ys \<and> distinct ys \<and> (ys = [] \<longrightarrow> e)"
proof -
  assume a: "string_list v n e = Inr ys"
  then obtain xs where v: "v = JList xs" and m: "mapE (\<lambda>item. ref_value item n) xs = Inr ys"
    by (auto simp: string_list_def split: json.splits if_splits)
  have "xs = map JStr ys" using m
    by (induction xs arbitrary: ys) (auto dest: ref_value_Inr)
  with a v show ?thesis by (auto simp: string_list_def jstrs_def split: if_splits)
qed

definition binding_pairs :: "TargetCandidate \<Rightarrow> (str \<times> str) list" where
  "binding_pairs c = map (\<lambda>h. (hfb_semantic_slot h, hfb_implementation_revision_ref h)) (tc_held_fixed_bindings c)"

lemma binding_map_Inr:
  "binding_map bs = Inr m \<Longrightarrow>
     m = map (\<lambda>h. (hfb_semantic_slot h, hfb_implementation_revision_ref h)) bs \<and> distinct (map hfb_semantic_slot bs)"
  unfolding binding_map_def
proof (erule foldE_prefix_rule)
  fix dn rest :: "HeldFixedBinding list" and x s s'
  assume I: "s = map (\<lambda>h. (hfb_semantic_slot h, hfb_implementation_revision_ref h)) dn \<and> distinct (map hfb_semantic_slot dn)"
    and step: "binding_step s x = Inr s'"
  have "\<not> has_key s (hfb_semantic_slot x)" "s' = dict_set (hfb_semantic_slot x) (hfb_implementation_revision_ref x) s"
    using step by (auto simp: binding_step_def dest!: ref_value_JStr)
  with I show "s' = map (\<lambda>h. (hfb_semantic_slot h, hfb_implementation_revision_ref h)) (dn @ [x])
      \<and> distinct (map hfb_semantic_slot (dn @ [x]))"
    by (auto simp: has_key_iff dict_set_new comp_def)
qed simp

definition cell_of :: "TargetCandidate \<Rightarrow> str" where
  "cell_of c = hd (tc_measurement_unit_keys c)"

text \<open>What the check of one candidate establishes, against the briefs of the Plan.\<close>

definition candidate_admissible :: "(str \<times> ExperimentBrief) list \<Rightarrow> TargetCandidate \<Rightarrow> bool" where
  "candidate_admissible briefs c \<longleftrightarrow>
     tc_measurement_unit_keys c = [cell_of c]
     \<and> tc_experiment_keys c \<noteq> [] \<and> distinct (tc_experiment_keys c)
     \<and> tc_local_label c \<notin> set (tc_depends_on_labels c)
     \<and> (\<forall>key\<in>set (tc_experiment_keys c). \<exists>b. map_of briefs key = Some b
          \<and> cell_of c \<in> set (eb_required_measurement_unit_keys b)
          \<and> set (eb_held_fixed_slots b) \<subseteq> set (map fst (binding_pairs c)))
     \<and> distinct (map fst (binding_pairs c))
     \<and> tc_routes c \<noteq> [] \<and> distinct (map rs_route_ref (tc_routes c))"

lemma dict_item_Inr [simp]: "dict_item d k = Inr v \<longleftrightarrow> map_of d k = Some v"
  by (auto simp: dict_item_def split: option.splits)

lemma expected_slots_Inr:
  "expected_slots briefs ks = Inr slots \<Longrightarrow> k \<in> set ks \<Longrightarrow> map_of briefs k = Some b \<Longrightarrow>
     set (eb_held_fixed_slots b) \<subseteq> set slots"
  by (force simp: expected_slots_def dest: mapE_each)

lemma verify_candidate_Inr:
  assumes "verify_candidate c briefs = Inr bindings"
  shows "candidate_admissible briefs c" and "bindings = binding_pairs c"
proof -
  from assms obtain ks cell deps slots where
    ks: "canonical_string_tuple (tc_experiment_keys c) ''candidate ExperimentKeys'' False = Inr ks"
    and one: "length (tc_measurement_unit_keys c) = 1"
    and cell: "ref_value (JStr (hd (tc_measurement_unit_keys c))) ''measurement cell'' = Inr cell"
    and deps: "canonical_string_tuple (tc_depends_on_labels c) ''candidate dependencies'' True = Inr deps"
    and self: "tc_local_label c \<notin> set deps"
    and req: "\<forall>key\<in>set ks. check_cell_required briefs cell key = Inr ()"
    and slots: "expected_slots briefs ks = Inr slots"
    and bm: "binding_map (tc_held_fixed_bindings c) = Inr bindings"
    and same: "set (keys bindings) = set slots"
    and routes: "tc_routes c \<noteq> []" "distinct (map rs_route_ref (tc_routes c))"
    by (auto simp: verify_candidate_def Let_def)
  show b: "bindings = binding_pairs c"
    using binding_map_Inr [OF bm] by (simp add: binding_pairs_def)
  have cell': "cell = cell_of c" using ref_value_JStr [OF cell] by (simp add: cell_of_def)
  have ks': "ks = tc_experiment_keys c" "distinct ks" "ks \<noteq> []"
    using canonical_string_tuple_Inr [OF ks] by auto
  have deps': "deps = tc_depends_on_labels c" using canonical_string_tuple_Inr [OF deps] by simp
  have unit: "tc_measurement_unit_keys c = [cell_of c]"
    using one by (auto simp: cell_of_def length_Suc_conv)
  have "\<exists>b. map_of briefs key = Some b \<and> cell_of c \<in> set (eb_required_measurement_unit_keys b)
      \<and> set (eb_held_fixed_slots b) \<subseteq> set (map fst (binding_pairs c))" if "key \<in> set ks" for key
    using req that expected_slots_Inr [OF slots that] same b
    by (fastforce simp: check_cell_required_def cell' keys_def)
  moreover have "distinct (map fst (binding_pairs c))"
    using binding_map_Inr [OF bm] by (simp add: binding_pairs_def comp_def)
  ultimately show "candidate_admissible briefs c"
    using unit ks' deps' self routes by (simp add: candidate_admissible_def)
qed

subsection \<open>An admitted candidate set\<close>

lemma setdefault_simps:
  "map_of d k = None \<Longrightarrow> setdefault k v d = (v, dict_set k v d)"
  "map_of d k = Some u \<Longrightarrow> setdefault k v d = (u, d)"
  by (simp_all add: setdefault_def)

definition slots_of :: "(str \<times> ExperimentBrief) list \<Rightarrow> str \<Rightarrow> str set" where
  "slots_of briefs key = (case map_of briefs key of None \<Rightarrow> {} | Some b \<Rightarrow> set (eb_held_fixed_slots b))"

definition held_revision :: "(str \<times> (str \<times> str) list) list \<Rightarrow> str \<Rightarrow> str \<Rightarrow> str option" where
  "held_revision held key slot = (case map_of held key of None \<Rightarrow> None | Some m \<Rightarrow> map_of m slot)"

lemma held_slot_step_eq:
  assumes "map_of bindings s = Some r"
  shows "held_slot_step bindings est s =
     (if map_of est s = None then Inr (dict_set s r est)
      else if map_of est s = Some r then Inr est else bt_fail ''held_fixed_binding_drift'')"
  using assms by (cases "map_of est s") (auto simp: held_slot_step_def dict_item_def setdefault_simps)

lemma held_slots_fold:
  assumes "\<forall>s\<in>set slots. map_of bindings s \<noteq> None"
  shows "returns (foldE (held_slot_step bindings) est slots)
       \<longleftrightarrow> (\<forall>s\<in>set slots. map_of est s = None \<or> map_of est s = map_of bindings s)"
    and "foldE (held_slot_step bindings) est slots = Inr est'
       \<Longrightarrow> map_of est' s = (if s \<in> set slots then map_of bindings s else map_of est s)"
  using assms
proof (induction slots arbitrary: est)
  case (Cons x xs)
  { case 1
    then obtain r where r: "map_of bindings x = Some r" by fastforce
    then show ?case using Cons.IH(1) 1 by (auto simp: held_slot_step_eq [OF r])
  next
    case 2
    then obtain r where r: "map_of bindings x = Some r" by fastforce
    then show ?case using Cons.IH(2) 2 by (auto simp: held_slot_step_eq [OF r] split: if_splits) }
qed simp_all

lemma held_experiment_step_fold:
  assumes "map_of briefs key = Some b" and "\<forall>s\<in>set (eb_held_fixed_slots b). map_of bindings s \<noteq> None"
  shows "returns (held_experiment_step briefs bindings held key)
       \<longleftrightarrow> (\<forall>s\<in>slots_of briefs key. held_revision held key s = None \<or> held_revision held key s = map_of bindings s)"
    and "held_experiment_step briefs bindings held key = Inr held'
       \<Longrightarrow> held_revision held' k s =
            (if k = key \<and> s \<in> slots_of briefs key then map_of bindings s else held_revision held k s)"
proof -
  obtain est held1 where sd: "setdefault key [] held = (est, held1)" by (cases "setdefault key [] held")
  have est: "map_of held1 = (map_of held)(key \<mapsto> est)" and est': "est = (case map_of held key of None \<Rightarrow> [] | Some m \<Rightarrow> m)"
    using sd by (auto simp: setdefault_def fun_eq_iff split: option.splits)
  have rev: "map_of est s = held_revision held key s" for s
    by (simp add: est' held_revision_def split: option.splits)
  have step: "held_experiment_step briefs bindings held key =
      bindE (foldE (held_slot_step bindings) est (eb_held_fixed_slots b)) (\<lambda>e. Inr (dict_set key e held1))"
    using assms(1) sd by (simp add: held_experiment_step_def dict_item_def)
  note F = held_slots_fold [OF assms(2), of est]
  have "returns (held_experiment_step briefs bindings held key)
       \<longleftrightarrow> returns (foldE (held_slot_step bindings) est (eb_held_fixed_slots b))"
    by (simp add: step returns_iff)
  then show "returns (held_experiment_step briefs bindings held key)
       \<longleftrightarrow> (\<forall>s\<in>slots_of briefs key. held_revision held key s = None \<or> held_revision held key s = map_of bindings s)"
    using F(1) by (simp add: rev slots_of_def assms(1))
  show "held_revision held' k s =
            (if k = key \<and> s \<in> slots_of briefs key then map_of bindings s else held_revision held k s)"
    if "held_experiment_step briefs bindings held key = Inr held'"
  proof -
    from that obtain e where e: "foldE (held_slot_step bindings) est (eb_held_fixed_slots b) = Inr e"
      and h: "held' = dict_set key e held1" by (auto simp: step)
    show ?thesis
      using F(2) [OF e, of s] est rev [of s]
      by (auto simp: h held_revision_def slots_of_def assms(1))
  qed
qed

lemma ball_absorb:
  assumes "\<forall>s\<in>S x. P x s"
  shows "(\<forall>k\<in>A. \<forall>s\<in>S k. k = x \<and> s \<in> S x \<or> P k s) \<longleftrightarrow> (\<forall>k\<in>insert x A. \<forall>s\<in>S k. P k s)"
proof -
  have "(k = x \<and> s \<in> S x \<or> P k s) = P k s" if "s \<in> S k" for k s
    using assms that by (cases "k = x") auto
  then have "(\<forall>k\<in>A. \<forall>s\<in>S k. k = x \<and> s \<in> S x \<or> P k s) \<longleftrightarrow> (\<forall>k\<in>A. \<forall>s\<in>S k. P k s)"
    by (intro ball_cong refl) blast
  then show ?thesis using assms by simp
qed

lemma held_experiments_fold:
  assumes "\<forall>k\<in>set ks. \<exists>b. map_of briefs k = Some b \<and> (\<forall>s\<in>set (eb_held_fixed_slots b). map_of bindings s \<noteq> None)"
  shows "returns (foldE (held_experiment_step briefs bindings) held ks)
       \<longleftrightarrow> (\<forall>k\<in>set ks. \<forall>s\<in>slots_of briefs k. held_revision held k s = None \<or> held_revision held k s = map_of bindings s)"
    and "foldE (held_experiment_step briefs bindings) held ks = Inr held'
       \<Longrightarrow> held_revision held' k s =
            (if k \<in> set ks \<and> s \<in> slots_of briefs k then map_of bindings s else held_revision held k s)"
  using assms
proof (induction ks arbitrary: held)
  case (Cons x xs)
  { case 1
    then obtain b where b: "map_of briefs x = Some b" "\<forall>s\<in>set (eb_held_fixed_slots b). map_of bindings s \<noteq> None" by auto
    note S = held_experiment_step_fold [OF b, of held]
    show ?case
    proof (cases "held_experiment_step briefs bindings held x")
      case (Inl e)
      then show ?thesis using S(1) by auto
    next
      case (Inr held1)
      have "returns (foldE (held_experiment_step briefs bindings) held (x # xs))
         \<longleftrightarrow> (\<forall>k\<in>set xs. \<forall>s\<in>slots_of briefs k. held_revision held1 k s = None \<or> held_revision held1 k s = map_of bindings s)"
        using Cons.IH(1) [of held1] 1 Inr by simp
      moreover have "held_revision held1 k s = None \<or> held_revision held1 k s = map_of bindings s \<longleftrightarrow>
          k = x \<and> s \<in> slots_of briefs x \<or> (held_revision held k s = None \<or> held_revision held k s = map_of bindings s)" for k s
        using S(2) [OF Inr, of k s] by auto
      moreover have "\<forall>s\<in>slots_of briefs x. held_revision held x s = None \<or> held_revision held x s = map_of bindings s"
        using S(1) Inr by simp
      note ball_absorb [of "slots_of briefs" x "\<lambda>k s. held_revision held k s = None \<or> held_revision held k s = map_of bindings s", OF this]
      ultimately show ?thesis by simp
    qed
  next
    case 2
    then obtain b where b: "map_of briefs x = Some b" "\<forall>s\<in>set (eb_held_fixed_slots b). map_of bindings s \<noteq> None" by auto
    from 2 obtain held1 where h: "held_experiment_step briefs bindings held x = Inr held1"
      "foldE (held_experiment_step briefs bindings) held1 xs = Inr held'" by auto
    show ?case using Cons.IH(2) [of held1] h(2) 2 held_experiment_step_fold(2) [OF b h(1)] by auto }
qed simp_all

text \<open>Two candidates agree: on every slot held fixed by an experiment of both, the same revision.\<close>

definition bindings_agree :: "(str \<times> ExperimentBrief) list \<Rightarrow> TargetCandidate \<Rightarrow> TargetCandidate \<Rightarrow> bool" where
  "bindings_agree briefs c d \<longleftrightarrow>
     (\<forall>k\<in>set (tc_experiment_keys c) \<inter> set (tc_experiment_keys d). \<forall>s\<in>slots_of briefs k.
        map_of (binding_pairs c) s = map_of (binding_pairs d) s)"

definition candidate_accepted :: "(str \<times> ExperimentBrief) list \<Rightarrow> TargetCandidate \<Rightarrow> bool" where
  "candidate_accepted briefs c \<longleftrightarrow> returns (verify_candidate c briefs)"

text \<open>The specification of a candidate set, without its tables.\<close>

definition candidate_set_valid :: "(str \<times> ExperimentBrief) list \<Rightarrow> TargetCandidate list \<Rightarrow> bool" where
  "candidate_set_valid briefs cs \<longleftrightarrow>
     list_all (candidate_accepted briefs) cs
     \<and> distinct (map tc_local_label cs)
     \<and> distinct (map cell_of cs)
     \<and> (\<forall>c\<in>set cs. \<forall>d\<in>set cs. bindings_agree briefs c d)"

lemma bindings_agree_refl [simp]: "bindings_agree briefs c c"
  by (simp add: bindings_agree_def)

lemma bindings_agree_sym: "bindings_agree briefs c d \<longleftrightarrow> bindings_agree briefs d c"
  by (auto simp: bindings_agree_def)

lemma candidate_set_valid_Nil [simp]: "candidate_set_valid briefs []"
  by (simp add: candidate_set_valid_def)

lemma candidate_set_valid_snoc:
  "candidate_set_valid briefs (cs @ [c]) \<longleftrightarrow>
     candidate_set_valid briefs cs \<and> candidate_accepted briefs c
     \<and> tc_local_label c \<notin> labels_of cs \<and> cell_of c \<notin> cell_of ` set cs
     \<and> (\<forall>d\<in>set cs. bindings_agree briefs d c)"
  by (auto simp: candidate_set_valid_def labels_of_def bindings_agree_sym [of _ c])

lemma candidate_set_valid_append:
  "candidate_set_valid briefs (cs @ ds) \<Longrightarrow> candidate_set_valid briefs cs"
  by (auto simp: candidate_set_valid_def)

text \<open>What the tables hold after the candidates \<open>cs\<close>.\<close>

definition index_holds :: "(str \<times> ExperimentBrief) list \<Rightarrow> TargetCandidate list \<Rightarrow> candidate_index \<Rightarrow> bool" where
  "index_holds briefs cs st \<longleftrightarrow>
     by_label st = index_of cs
     \<and> (\<forall>u l. map_of (used_units st) u = Some l \<longrightarrow> l \<in> labels_of cs)
     \<and> (\<forall>u. map_of (used_units st) u \<noteq> None \<longleftrightarrow> u \<in> cell_of ` set cs)
     \<and> (\<forall>k s r. held_revision (held_by_experiment st) k s = Some r \<longleftrightarrow>
          (\<exists>c\<in>set cs. k \<in> set (tc_experiment_keys c) \<and> s \<in> slots_of briefs k \<and> map_of (binding_pairs c) s = Some r))"

lemma index_holds_empty: "index_holds briefs [] \<lparr>by_label = [], used_units = [], held_by_experiment = []\<rparr>"
  by (simp add: index_holds_def index_of_def held_revision_def)

lemma has_key_index: "has_key (index_of cs) l \<longleftrightarrow> l \<in> labels_of cs"
  by (simp add: has_key_iff index_of_def labels_of_def comp_def image_image)

lemma accepted_slots:
  assumes "candidate_accepted briefs c"
  shows "verify_candidate c briefs = Inr (binding_pairs c)"
    and "\<forall>k\<in>set (tc_experiment_keys c). \<exists>b. map_of briefs k = Some b
      \<and> (\<forall>s\<in>set (eb_held_fixed_slots b). map_of (binding_pairs c) s \<noteq> None)"
proof -
  obtain m where m: "verify_candidate c briefs = Inr m"
    using assms by (auto simp: candidate_accepted_def returns_iff)
  show "verify_candidate c briefs = Inr (binding_pairs c)" using verify_candidate_Inr(2) [OF m] m by simp
  have "candidate_admissible briefs c" using verify_candidate_Inr(1) [OF m] .
  then have "\<forall>k\<in>set (tc_experiment_keys c). \<exists>b. map_of briefs k = Some b
      \<and> set (eb_held_fixed_slots b) \<subseteq> set (map fst (binding_pairs c))"
    by (fastforce simp: candidate_admissible_def)
  then show "\<forall>k\<in>set (tc_experiment_keys c). \<exists>b. map_of briefs k = Some b
      \<and> (\<forall>s\<in>set (eb_held_fixed_slots b). map_of (binding_pairs c) s \<noteq> None)"
    by (fastforce simp: map_of_eq_None_iff)
qed

text \<open>The held-fixed fold of a new candidate succeeds iff it agrees with those before.\<close>

lemma held_agree_iff:
  assumes "index_holds briefs cs st" and "candidate_accepted briefs c" and acc: "list_all (candidate_accepted briefs) cs"
  shows "returns (foldE (held_experiment_step briefs (binding_pairs c)) (held_by_experiment st) (tc_experiment_keys c))
     \<longleftrightarrow> (\<forall>d\<in>set cs. bindings_agree briefs d c)"
proof -
  let ?h = "held_revision (held_by_experiment st)" and ?b = "map_of (binding_pairs c)"
  have held: "?h k s = Some r \<longleftrightarrow>
      (\<exists>d\<in>set cs. k \<in> set (tc_experiment_keys d) \<and> s \<in> slots_of briefs k \<and> map_of (binding_pairs d) s = Some r)" for k s r
    using assms(1) by (simp add: index_holds_def)
  have some: "\<exists>r. map_of (binding_pairs d) s = Some r"
    if "candidate_accepted briefs d" "k \<in> set (tc_experiment_keys d)" "s \<in> slots_of briefs k" for d k s
    using accepted_slots(2) [OF that(1)] that(2,3) by (fastforce simp: slots_of_def)
  have "(\<forall>k\<in>set (tc_experiment_keys c). \<forall>s\<in>slots_of briefs k. ?h k s = None \<or> ?h k s = ?b s)
      \<longleftrightarrow> (\<forall>d\<in>set cs. bindings_agree briefs d c)" (is "?L \<longleftrightarrow> ?R")
  proof
    assume L: ?L
    show ?R
    proof (unfold bindings_agree_def, intro ballI)
      fix d k s
      assume d: "d \<in> set cs" and k: "k \<in> set (tc_experiment_keys d) \<inter> set (tc_experiment_keys c)"
        and s: "s \<in> slots_of briefs k"
      obtain r where r: "map_of (binding_pairs d) s = Some r"
        using some [of d k s] acc d k s by (auto simp: list_all_iff)
      then have "?h k s = Some r" using held d k s by blast
      moreover have "?h k s = None \<or> ?h k s = ?b s" using L k s by blast
      ultimately show "map_of (binding_pairs d) s = ?b s" using r by simp
    qed
  next
    assume R: ?R
    show ?L
    proof (intro ballI)
      fix k s assume k: "k \<in> set (tc_experiment_keys c)" and s: "s \<in> slots_of briefs k"
      show "?h k s = None \<or> ?h k s = ?b s"
      proof (cases "?h k s")
        case (Some r)
        then obtain d where "d \<in> set cs" "k \<in> set (tc_experiment_keys d)" "map_of (binding_pairs d) s = Some r"
          using held by blast
        then show ?thesis using R k s Some by (fastforce simp: bindings_agree_def)
      qed simp
    qed
  qed
  then show ?thesis
    using held_experiments_fold(1) [OF accepted_slots(2) [OF assms(2)]] by simp
qed

lemma index_holds_step:
  assumes "index_holds briefs cs st" and "candidate_set_step briefs st c = Inr st'"
  shows "index_holds briefs (cs @ [c]) st'"
proof -
  obtain m p u h where new: "\<not> has_key (by_label st) (tc_local_label c)" and m: "verify_candidate c briefs = Inr m"
    and sd: "setdefault (cell_of c) (tc_local_label c) (used_units st) = (p, u)" and p: "p = tc_local_label c"
    and h: "foldE (held_experiment_step briefs m) (held_by_experiment st) (tc_experiment_keys c) = Inr h"
    and st': "st' = \<lparr>by_label = dict_set (tc_local_label c) c (by_label st), used_units = u, held_by_experiment = h\<rparr>"
    using assms(2)
    by (cases "setdefault (cell_of c) (tc_local_label c) (used_units st)")
       (auto simp: candidate_set_step_def cell_of_def split: if_splits)
  have acc: "candidate_accepted briefs c" using m by (simp add: candidate_accepted_def)
  have m': "m = binding_pairs c" using verify_candidate_Inr(2) [OF m] .
  have lab: "by_label st = index_of cs" using assms(1) by (simp add: index_holds_def)
  have "by_label st' = index_of (cs @ [c])"
    using new by (simp add: st' lab has_key_iff dict_set_new) (simp add: index_of_def)
  moreover have "map_of u x = (if x = cell_of c then Some (tc_local_label c) else map_of (used_units st) x)" for x
    using sd p by (cases "map_of (used_units st) (cell_of c)") (auto simp: setdefault_simps)
  moreover have "held_revision h k s = Some r \<longleftrightarrow>
      k \<in> set (tc_experiment_keys c) \<and> s \<in> slots_of briefs k \<and> map_of (binding_pairs c) s = Some r
      \<or> held_revision (held_by_experiment st) k s = Some r" for k s r
  proof -
    have "returns (foldE (held_experiment_step briefs (binding_pairs c)) (held_by_experiment st) (tc_experiment_keys c))"
      using h m' by simp
    then have "k \<in> set (tc_experiment_keys c) \<Longrightarrow> s \<in> slots_of briefs k \<Longrightarrow>
        held_revision (held_by_experiment st) k s = Some r \<Longrightarrow> map_of (binding_pairs c) s = Some r"
      using held_experiments_fold(1) [OF accepted_slots(2) [OF acc], of "held_by_experiment st"] by fastforce
    then show ?thesis
      using held_experiments_fold(2) [OF accepted_slots(2) [OF acc] h [unfolded m'], of k s] by auto
  qed
  ultimately show ?thesis
    using assms(1) by (auto simp: index_holds_def st' labels_of_def)
qed

lemma candidate_set_step_iff:
  assumes "index_holds briefs cs st" and acc: "list_all (candidate_accepted briefs) cs"
  shows "returns (candidate_set_step briefs st c) \<longleftrightarrow>
     candidate_accepted briefs c \<and> tc_local_label c \<notin> labels_of cs \<and> cell_of c \<notin> cell_of ` set cs
     \<and> (\<forall>d\<in>set cs. bindings_agree briefs d c)"
proof (cases "candidate_accepted briefs c \<and> tc_local_label c \<notin> labels_of cs")
  case True
  then have v: "verify_candidate c briefs = Inr (binding_pairs c)" by (simp add: accepted_slots)
  have lab: "\<not> has_key (by_label st) (tc_local_label c)"
    using True assms(1) by (simp add: index_holds_def has_key_index)
  show ?thesis
  proof (cases "map_of (used_units st) (cell_of c)")
    case None
    then have "cell_of c \<notin> cell_of ` set cs" using assms(1) unfolding index_holds_def by blast
    moreover have "returns (candidate_set_step briefs st c) \<longleftrightarrow>
        returns (foldE (held_experiment_step briefs (binding_pairs c)) (held_by_experiment st) (tc_experiment_keys c))"
      using None lab v by (simp add: candidate_set_step_def cell_of_def [symmetric] setdefault_simps returns_iff)
    ultimately show ?thesis using True held_agree_iff [OF assms(1) _ acc, of c] by simp
  next
    case (Some l)
    then have "l \<noteq> tc_local_label c" and "cell_of c \<in> cell_of ` set cs"
      using True assms(1) by (auto simp: index_holds_def)
    then show ?thesis
      using Some lab v by (simp add: candidate_set_step_def cell_of_def [symmetric] setdefault_simps)
  qed
next
  case False
  then show ?thesis
    using assms(1) has_key_index [of cs "tc_local_label c"]
    by (auto simp: candidate_set_step_def index_holds_def candidate_accepted_def returns_iff)
qed

lemma candidate_set_fold:
  assumes "index_holds briefs cs st" and "candidate_set_valid briefs cs"
  shows "returns (foldE (candidate_set_step briefs) st ds) \<longleftrightarrow> candidate_set_valid briefs (cs @ ds)"
    and "foldE (candidate_set_step briefs) st ds = Inr st' \<Longrightarrow> index_holds briefs (cs @ ds) st'"
  using assms
proof (induction ds arbitrary: cs st)
  case (Cons d ds)
  { case 1
    have acc: "list_all (candidate_accepted briefs) cs" using 1 by (simp add: candidate_set_valid_def)
    note step = candidate_set_step_iff [OF 1(1) acc, of d]
    show ?case
    proof (cases "candidate_set_step briefs st d")
      case (Inl e)
      then have "\<not> candidate_set_valid briefs (cs @ [d])"
        using step by (auto simp: candidate_set_valid_snoc)
      then show ?thesis using Inl candidate_set_valid_append [of briefs "cs @ [d]" ds] by auto
    next
      case (Inr st1)
      then have "candidate_set_valid briefs (cs @ [d])"
        using step 1 by (simp add: candidate_set_valid_snoc)
      then show ?thesis
        using Cons.IH(1) [OF index_holds_step [OF 1(1) Inr]] Inr by simp
    qed
  next
    case 2
    then obtain st1 where st1: "candidate_set_step briefs st d = Inr st1" "foldE (candidate_set_step briefs) st1 ds = Inr st'"
      by auto
    have acc: "list_all (candidate_accepted briefs) cs" using 2 by (simp add: candidate_set_valid_def)
    have holds: "index_holds briefs cs st" and valid: "candidate_set_valid briefs cs" using 2 by blast+
    have "candidate_set_valid briefs (cs @ [d])"
      using candidate_set_step_iff [OF holds acc, of d] st1(1) valid by (simp add: candidate_set_valid_snoc)
    then show ?case using Cons.IH(2) [of st1 "cs @ [d]"] index_holds_step [OF holds st1(1)] st1(2) by simp }
qed simp_all

lemma foldE_map: "foldE (\<lambda>st x. f st (g x)) s xs = foldE f s (map g xs)"
  by (induction xs arbitrary: s) simp_all

definition candidates_of :: "FormalTargetCandidate list \<Rightarrow> TargetCandidate list" where
  "candidates_of formals = map ftc_candidate formals"

lemma verify_candidate_set_decides:
  "verify_candidate_set formals contract = Inr () \<longleftrightarrow>
     (let briefs = briefs_by_key contract; cs = candidates_of formals in
      candidate_set_valid briefs cs \<and> dependencies_known cs \<and> acyclic (depends_on cs))"
proof -
  let ?b = "briefs_by_key contract" and ?cs = "candidates_of formals"
  let ?st = "\<lparr>by_label = [], used_units = [], held_by_experiment = []\<rparr>"
  have fold: "verify_candidate_set formals contract =
      bindE (foldE (candidate_set_step ?b) ?st ?cs) (\<lambda>st. verify_acyclic (by_label st))"
    by (simp add: verify_candidate_set_def candidates_of_def foldE_map)
  note F = candidate_set_fold [OF index_holds_empty [of ?b] candidate_set_valid_Nil, of ?cs]
  show ?thesis
  proof (cases "foldE (candidate_set_step ?b) ?st ?cs")
    case (Inl e)
    then show ?thesis using F(1) by (simp add: fold Let_def)
  next
    case (Inr st)
    then have valid: "candidate_set_valid ?b ?cs" and "by_label st = index_of ?cs"
      using F(1) F(2) [of st] by (simp_all add: index_holds_def)
    then show ?thesis
      using verify_acyclic_decides [of ?cs] Inr by (simp add: fold Let_def candidate_set_valid_def)
  qed
qed

text \<open>
  C4. The table-driven check of a candidate set is equivalent to its specification: every
  candidate is accepted on its own, labels and measurement cells are pairwise distinct, any two
  candidates of one experiment bind each held-fixed slot of it to the same revision, every
  dependency is a label of the set, and the dependency relation is acyclic.
\<close>
theorem verify_candidate_set_iff:
  "verify_candidate_set formals contract = Inr () \<longleftrightarrow>
     (let briefs = briefs_by_key contract; cs = candidates_of formals in
      candidate_set_valid briefs cs \<and> dependencies_known cs \<and> acyclic (depends_on cs))"
  by (rule verify_candidate_set_decides)

subsection \<open>Coverage\<close>

definition requires_cell :: "NormalizedCompletionContract \<Rightarrow> str \<Rightarrow> str \<Rightarrow> bool" where
  "requires_cell contract key cell \<longleftrightarrow>
     (\<exists>item\<in>set (ncc_experiments contract).
        eb_experiment_key (nec_brief item) = key \<and> cell \<in> set (eb_required_measurement_unit_keys (nec_brief item)))"

definition covers_cell :: "TargetCandidate \<Rightarrow> str \<Rightarrow> str \<Rightarrow> bool" where
  "covers_cell c key cell \<longleftrightarrow> key \<in> set (tc_experiment_keys c) \<and> cell_of c = cell"

lemma required_cells_iff: "(key, cell) \<in> set (required_cells contract) \<longleftrightarrow> requires_cell contract key cell"
  by (auto simp: required_cells_def requires_cell_def)

lemma covered_cells_eq:
  "covered_cells formals = concat (map (\<lambda>c. map (\<lambda>key. (key, cell_of c)) (tc_experiment_keys c)) (candidates_of formals))"
  by (simp add: covered_cells_def cell_of_def candidates_of_def comp_def)

lemma covered_cells_iff:
  "(key, cell) \<in> set (covered_cells formals) \<longleftrightarrow> (\<exists>c\<in>set (candidates_of formals). covers_cell c key cell)"
  by (auto simp: covered_cells_eq covers_cell_def)

lemma accepted_experiment_keys: "candidate_accepted briefs c \<Longrightarrow> distinct (tc_experiment_keys c)"
  using verify_candidate_Inr(1) [OF accepted_slots(1), of briefs c] by (simp add: candidate_admissible_def)

lemma covered_cells_distinct:
  assumes "candidate_set_valid briefs (candidates_of formals)"
  shows "distinct (covered_cells formals)"
proof -
  have "list_all (candidate_accepted briefs) cs \<Longrightarrow> distinct (map cell_of cs) \<Longrightarrow>
      distinct (concat (map (\<lambda>c. map (\<lambda>key. (key, cell_of c)) (tc_experiment_keys c)) cs))" for cs
    by (induction cs) (auto simp: distinct_map accepted_experiment_keys intro: inj_onI)
  then show ?thesis using assms by (simp add: covered_cells_eq candidate_set_valid_def)
qed

lemma distinct_count_list: "distinct xs \<Longrightarrow> count_list xs x = (if x \<in> set xs then 1 else 0)"
  by (induction xs) auto

lemma cell_determines:
  "candidate_set_valid briefs cs \<Longrightarrow> c \<in> set cs \<Longrightarrow> d \<in> set cs \<Longrightarrow> cell_of c = cell_of d \<Longrightarrow> c = d"
  by (simp add: candidate_set_valid_def distinct_map inj_on_def)

definition covers_exactly :: "NormalizedCompletionContract \<Rightarrow> TargetCandidate list \<Rightarrow> bool" where
  "covers_exactly contract cs \<longleftrightarrow>
     (\<forall>key cell. requires_cell contract key cell \<longrightarrow> (\<exists>!c. c \<in> set cs \<and> covers_cell c key cell))
     \<and> (\<forall>c\<in>set cs. \<forall>key\<in>set (tc_experiment_keys c). requires_cell contract key (cell_of c))"

lemma verify_completion_cells_decides:
  "verify_completion_cells formals contract = Inr () \<longleftrightarrow>
     verify_candidate_set formals contract = Inr () \<and> covers_exactly contract (candidates_of formals)"
proof (cases "verify_candidate_set formals contract = Inr ()")
  case True
  let ?cs = "candidates_of formals"
  have valid: "candidate_set_valid (briefs_by_key contract) ?cs"
    using True by (simp add: verify_candidate_set_decides Let_def)
  have "verify_completion_cells formals contract = Inr () \<longleftrightarrow>
      set (covered_cells formals) = set (required_cells contract)"
    using True distinct_count_list [OF covered_cells_distinct [OF valid]]
    by (auto simp: verify_completion_cells_def Let_def list_ex_iff)
  also have "\<dots> \<longleftrightarrow> (\<forall>key cell. requires_cell contract key cell \<longleftrightarrow> (\<exists>c\<in>set ?cs. covers_cell c key cell))"
    by (auto simp: set_eq_iff covered_cells_iff required_cells_iff)
  also have "\<dots> \<longleftrightarrow> covers_exactly contract ?cs"
    using cell_determines [OF valid] unfolding covers_exactly_def covers_cell_def by blast
  finally show ?thesis using True by simp
next
  case False
  then show ?thesis by (auto simp: verify_completion_cells_def)
qed

text \<open>
  A strategy may be sealed iff it is a valid candidate set in which every measurement cell
  that a Plan experiment requires is covered by exactly one candidate, and no candidate covers a
  cell that is not required.
\<close>
theorem verify_completion_cells_iff:
  "verify_completion_cells formals contract = Inr () \<longleftrightarrow>
     verify_candidate_set formals contract = Inr () \<and> covers_exactly contract (candidates_of formals)"
  by (rule verify_completion_cells_decides)

end
