(* ===== verification/RollingLaws.thy ===== *)
theory RollingLaws
  imports CandidateLaws "HOL-Library.Sublist"
begin

text \<open>
  Laws of the rolling strategy.  The interface of an append-only log is stated once as a locale
  and interpreted on the two ways a strategy state advances in the code: by applying an update,
  and by replacing the durable snapshot.
\<close>

subsection \<open>The interface of an append-only, sealable log\<close>

locale sealable_log =
  fixes advance :: "'s \<Rightarrow> 's \<Rightarrow> bool"
    and log_of :: "'s \<Rightarrow> 'c list"
    and revision_of :: "'s \<Rightarrow> int"
    and sealed :: "'s \<Rightarrow> bool"
  assumes advance_prefix: "advance s t \<Longrightarrow> prefix (log_of s) (log_of t)"
    and advance_revision: "advance s t \<Longrightarrow> revision_of s < revision_of t"
    and sealed_final: "advance s t \<Longrightarrow> \<not> sealed s"
begin

lemma run_prefix: "advance\<^sup>*\<^sup>* s t \<Longrightarrow> prefix (log_of s) (log_of t)"
  by (induction rule: rtranclp_induct) (auto dest: advance_prefix intro: prefix_order.trans)

lemma run_revision: "advance\<^sup>*\<^sup>* s t \<Longrightarrow> revision_of s \<le> revision_of t"
  by (induction rule: rtranclp_induct) (auto dest: advance_revision)

lemma run_sealed: "advance\<^sup>*\<^sup>* s t \<Longrightarrow> sealed s \<Longrightarrow> t = s"
  by (erule converse_rtranclpE) (auto dest: sealed_final)

lemma run_bounded: "(advance ^^ n) s t \<Longrightarrow> int n \<le> revision_of t - revision_of s"
  by (induction n arbitrary: t) (fastforce dest: advance_revision)+

lemma run_antisym: "advance\<^sup>*\<^sup>* s t \<Longrightarrow> advance\<^sup>*\<^sup>* t s \<Longrightarrow> s = t"
  by (metis advance_revision linorder_not_less run_revision rtranclp.cases order.strict_trans2)

end

subsection \<open>One update\<close>

definition revision :: "RollingStrategyState \<Rightarrow> int" where
  "revision state = su_revision (rss_strategy state)"

definition strategy_sealed :: "RollingStrategyState \<Rightarrow> bool" where
  "strategy_sealed state \<longleftrightarrow> su_strategy_complete (rss_strategy state)"

definition state_valid :: "RollingStrategyState \<Rightarrow> NormalizedCompletionContract \<Rightarrow> bool" where
  "state_valid state contract \<longleftrightarrow> validate_state state contract = Inr ()"

lemma positive_int_Inr: "positive_int v n = Inr i \<longleftrightarrow> v = JInt i \<and> 1 \<le> i \<and> i \<le> BUNDLE_CANONICAL_INTEGER_MAX_ABS"
  by (cases v) (auto simp: positive_int_def nonnegative_int_def)

lemma nonnegative_int_Inr: "nonnegative_int v n = Inr i \<longleftrightarrow> v = JInt i \<and> 0 \<le> i \<and> i \<le> BUNDLE_CANONICAL_INTEGER_MAX_ABS"
  by (cases v) (auto simp: nonnegative_int_def)

lemma Inr_unit_iff: "(m = Inr u) = (m = Inr ())"
  by simp

text \<open>The state validator, as the conjunction of what it checks.\<close>

lemma state_valid_iff:
  "state_valid state contract \<longleftrightarrow>
     rss_schema_ref state = L ROLLING_STRATEGY_STATE_SCHEMA_REF
     \<and> completion_contract_hash contract = Inr (rss_completion_contract_hash state)
     \<and> 0 \<le> revision state \<and> revision state \<le> BUNDLE_CANONICAL_INTEGER_MAX_ABS
     \<and> su_candidates (rss_strategy state) = candidates_of (rss_candidates state)
     \<and> su_requires_accepted_labels (rss_strategy state) = []
     \<and> (\<forall>f\<in>set (rss_candidates state). validate_formal_candidate f contract = Inr ())
     \<and> verify_candidate_set (rss_candidates state) contract = Inr ()
     \<and> (strategy_sealed state \<longrightarrow> covers_exactly contract (candidates_of (rss_candidates state)))"
  by (auto simp: state_valid_def validate_state_def revision_def strategy_sealed_def candidates_of_def
      nonnegative_int_Inr verify_completion_cells_decides split: if_splits)

text \<open>The loop over the new labels.\<close>

lemma new_labels_fold:
  "returns (foldE (new_label_step known required) seen items) \<longleftrightarrow>
     distinct (map candidate_label items)
     \<and> (\<forall>f\<in>set items. candidate_label f \<notin> set known \<union> set seen \<and> set required \<subseteq> set (tc_depends_on_labels (ftc_candidate f)))"
proof (induction items arbitrary: seen)
  case (Cons f items)
  show ?case
  proof (cases "candidate_label f \<notin> set known \<union> set seen \<and> set required \<subseteq> set (tc_depends_on_labels (ftc_candidate f))")
    case True
    then have "new_label_step known required seen f = Inr (candidate_label f # seen)"
      by (simp add: new_label_step_def Let_def)
    then show ?thesis using True Cons.IH [of "candidate_label f # seen"] by (fastforce simp: image_iff)
  next
    case False
    then show ?thesis
      by (cases "candidate_label f \<in> set known \<union> set seen") (auto simp: new_label_step_def Let_def)
  qed
qed simp

definition update_admissible ::
  "RollingStrategyState \<Rightarrow> FormalStrategyUpdate \<Rightarrow> str list \<Rightarrow> bool" where
  "update_admissible state update accepted \<longleftrightarrow>
     \<not> strategy_sealed state
     \<and> revision state < su_revision (fsu_update update)
     \<and> (fsu_candidates update \<noteq> [] \<or> su_strategy_complete (fsu_update update))
     \<and> set accepted \<subseteq> candidate_label ` set (rss_candidates state)
     \<and> set (su_requires_accepted_labels (fsu_update update)) \<subseteq> set accepted
     \<and> (\<forall>f\<in>set (fsu_candidates update).
          set (su_requires_accepted_labels (fsu_update update)) \<subseteq> set (tc_depends_on_labels (ftc_candidate f)))"

definition advanced_state :: "RollingStrategyState \<Rightarrow> FormalStrategyUpdate \<Rightarrow> RollingStrategyState" where
  "advanced_state state update =
     (let merged = rss_candidates state @ fsu_candidates update in
      \<lparr>rss_completion_contract_hash = rss_completion_contract_hash state,
       rss_strategy = \<lparr>su_revision = su_revision (fsu_update update), su_candidates = map ftc_candidate merged,
                       su_requires_accepted_labels = [],
                       su_strategy_complete = su_strategy_complete (fsu_update update)\<rparr>,
       rss_candidates = merged, rss_schema_ref = L ROLLING_STRATEGY_STATE_SCHEMA_REF\<rparr>)"

lemma update_pair_Inr:
  "validate_update_pair update contract = Inr u \<Longrightarrow>
     1 \<le> su_revision (fsu_update update) \<and> su_revision (fsu_update update) \<le> BUNDLE_CANONICAL_INTEGER_MAX_ABS
     \<and> su_candidates (fsu_update update) = candidates_of (fsu_candidates update)
     \<and> (\<forall>f\<in>set (fsu_candidates update). validate_formal_candidate f contract = Inr ())"
  by (auto simp: validate_update_pair_def positive_int_Inr candidates_of_def)

lemma advanced_state_valid:
  assumes "state_valid state contract" and "validate_update_pair update contract = Inr ()"
    and "revision state < su_revision (fsu_update update)"
    and "verify_candidate_set (rss_candidates state @ fsu_candidates update) contract = Inr ()"
    and "su_strategy_complete (fsu_update update) \<Longrightarrow>
           covers_exactly contract (candidates_of (rss_candidates state @ fsu_candidates update))"
  shows "state_valid (advanced_state state update) contract"
  using assms update_pair_Inr [OF assms(2)]
  by (auto simp: state_valid_iff advanced_state_def Let_def revision_def strategy_sealed_def candidates_of_def)

lemma candidate_label_of: "map candidate_label formals = map tc_local_label (candidates_of formals)"
  by (simp add: candidate_label_def candidates_of_def)

lemma apply_strategy_update_decides:
  "apply_strategy_update state update contract accepted = Inr state' \<longleftrightarrow>
     state_valid state contract \<and> validate_update_pair update contract = Inr ()
     \<and> update_admissible state update accepted
     \<and> verify_candidate_set (rss_candidates state @ fsu_candidates update) contract = Inr ()
     \<and> (su_strategy_complete (fsu_update update) \<longrightarrow>
          covers_exactly contract (candidates_of (rss_candidates state @ fsu_candidates update)))
     \<and> state' = advanced_state state update" (is "?L \<longleftrightarrow> ?R")
proof
  assume L: ?L
  then have fold: "returns (foldE (new_label_step (map candidate_label (rss_candidates state))
        (su_requires_accepted_labels (fsu_update update))) [] (fsu_candidates update))"
    by (auto simp: apply_strategy_update_def Let_def returns_iff)
  show ?R
    using L fold [unfolded new_labels_fold]
    by (auto simp: apply_strategy_update_def Let_def state_valid_def update_admissible_def strategy_sealed_def
        revision_def advanced_state_def verify_completion_cells_decides split: if_splits)
next
  assume R: ?R
  let ?cs = "candidates_of (rss_candidates state @ fsu_candidates update)"
  have "distinct (map tc_local_label ?cs)"
    using R by (simp add: verify_candidate_set_decides Let_def candidate_set_valid_def)
  then have "distinct (map candidate_label (rss_candidates state @ fsu_candidates update))"
    by (simp add: candidate_label_of del: map_append)
  then have "returns (foldE (new_label_step (map candidate_label (rss_candidates state))
        (su_requires_accepted_labels (fsu_update update))) [] (fsu_candidates update))"
    using R by (auto simp: new_labels_fold update_admissible_def)
  then obtain seen where seen: "foldE (new_label_step (map candidate_label (rss_candidates state))
        (su_requires_accepted_labels (fsu_update update))) [] (fsu_candidates update) = Inr seen"
    by (auto simp: returns_iff)
  have "state_valid (advanced_state state update) contract"
    using R by (intro advanced_state_valid) (auto simp: update_admissible_def)
  then show ?L
    using R seen
    by (auto simp: apply_strategy_update_def Let_def state_valid_def update_admissible_def strategy_sealed_def
        revision_def advanced_state_def verify_completion_cells_decides not_le)
qed

text \<open>
  C20. An update is applied exactly when the specification admits it: the state and the update are
  valid, the strategy is not sealed, the revision grows, there is work to do, the labels consumed
  were accepted and known, every new candidate depends on all of them, the merged candidate set is
  valid, and a sealing update leaves every required cell covered exactly once.  The new state then
  appends the new candidates and retains no session gate; the revalidation of the result at the
  end of the source's function never rejects it.
\<close>
theorem apply_strategy_update_iff:
  "apply_strategy_update state update contract accepted = Inr state' \<longleftrightarrow>
     state_valid state contract \<and> validate_update_pair update contract = Inr ()
     \<and> update_admissible state update accepted
     \<and> verify_candidate_set (rss_candidates state @ fsu_candidates update) contract = Inr ()
     \<and> (su_strategy_complete (fsu_update update) \<longrightarrow>
          covers_exactly contract (candidates_of (rss_candidates state @ fsu_candidates update)))
     \<and> state' = advanced_state state update"
  by (rule apply_strategy_update_decides)

subsection \<open>Runs of updates\<close>

inductive rolling_step :: "NormalizedCompletionContract \<Rightarrow> RollingStrategyState \<Rightarrow> RollingStrategyState \<Rightarrow> bool"
  for contract where
  apply_update:
    "apply_strategy_update state update contract accepted = Inr state' \<Longrightarrow> rolling_step contract state state'"

inductive_cases rolling_stepE: "rolling_step contract state state'"

inductive rolling_reachable :: "NormalizedCompletionContract \<Rightarrow> RollingStrategyState \<Rightarrow> bool"
  for contract where
  start: "start_rolling_strategy contract = Inr state \<Longrightarrow> rolling_reachable contract state"
| step: "rolling_reachable contract state \<Longrightarrow> rolling_step contract state state' \<Longrightarrow> rolling_reachable contract state'"

lemma rolling_step_facts:
  assumes "rolling_step contract state state'"
  shows "prefix (rss_candidates state) (rss_candidates state')"
    and "revision state < revision state'" and "\<not> strategy_sealed state" and "state_valid state' contract"
  using assms
  by (auto elim!: rolling_stepE simp: apply_strategy_update_decides update_admissible_def revision_def
      candidates_of_def intro!: advanced_state_valid) (auto simp: advanced_state_def Let_def)

interpretation rolling: sealable_log "rolling_step contract" rss_candidates revision strategy_sealed
  for contract
  by unfold_locales (auto dest: rolling_step_facts)

lemma verify_candidate_set_empty: "verify_candidate_set [] contract = Inr ()"
  by (simp add: verify_candidate_set_decides Let_def candidates_of_def dependencies_known_def depends_on_def acyclic_def)

lemma start_valid: "start_rolling_strategy contract = Inr state \<Longrightarrow> state_valid state contract"
  by (auto simp: start_rolling_strategy_def state_valid_iff revision_def strategy_sealed_def candidates_of_def
      verify_candidate_set_empty BUNDLE_CANONICAL_INTEGER_MAX_ABS_def)

lemma reachable_valid: "rolling_reachable contract state \<Longrightarrow> state_valid state contract"
  by (induction rule: rolling_reachable.induct) (auto dest: start_valid rolling_step_facts(4))

lemma reachable_order:
  assumes "state_valid state contract"
  shows "\<exists>ls. execution_order (candidates_of (rss_candidates state)) ls
     \<and> set ls = labels_of (candidates_of (rss_candidates state))"
proof -
  let ?cs = "candidates_of (rss_candidates state)"
  have "candidate_set_valid (briefs_by_key contract) ?cs" "dependencies_known ?cs" "acyclic (depends_on ?cs)"
    using assms by (simp_all add: state_valid_iff verify_candidate_set_decides Let_def)
  then show ?thesis
    using verify_acyclic_order [of ?cs] verify_acyclic_decides [of ?cs] by (simp add: candidate_set_valid_def)
qed

text \<open>
  C2. Every state reached from the start of a strategy by applying updates passes the state
  validator, so in it the candidates can be ordered such that each comes after all it depends on,
  and when the strategy is sealed its candidates cover every cell the Plan requires exactly once.
\<close>
theorem reachable_strategy_invariant:
  assumes "rolling_reachable contract state"
  shows "state_valid state contract
     \<and> (\<exists>ls. execution_order (candidates_of (rss_candidates state)) ls
          \<and> set ls = labels_of (candidates_of (rss_candidates state)))
     \<and> (strategy_sealed state \<longrightarrow> covers_exactly contract (candidates_of (rss_candidates state)))"
  using reachable_valid [OF assms] reachable_order [OF reachable_valid [OF assms]] by (simp add: state_valid_iff)

text \<open>
  C17. A strategy is append-only: along any run of updates the candidates of an earlier state are a
  prefix of those of a later one, the revision never falls, and a run cannot leave a sealed state.
  A run of n updates raises the revision by at least n, and no run returns to a state it left.
\<close>
theorem rolling_run_append_only:
  assumes "(rolling_step contract)\<^sup>*\<^sup>* state state'"
  shows "prefix (rss_candidates state) (rss_candidates state')
     \<and> revision state \<le> revision state'
     \<and> (strategy_sealed state \<longrightarrow> state' = state)
     \<and> ((rolling_step contract)\<^sup>*\<^sup>* state' state \<longrightarrow> state' = state)
     \<and> (\<forall>n. (rolling_step contract ^^ n) state state' \<longrightarrow> int n \<le> revision state' - revision state)"
  using rolling.run_prefix [OF assms] rolling.run_revision [OF assms] rolling.run_sealed [OF assms]
    rolling.run_antisym [OF assms] rolling.run_bounded [of _ contract state state'] by blast

subsection \<open>Durable snapshots\<close>

lemma py_eq_dict_same_keys:
  "map fst d = map fst e \<Longrightarrow> distinct (map fst d) \<Longrightarrow>
     py_eq (JDict d) (JDict e) \<longleftrightarrow> list_all2 (\<lambda>p q. py_eq (snd p) (snd q)) d e"
proof -
  assume keys: "map fst d = map fst e" and dist: "distinct (map fst d)"
  have len: "length e = length d" using keys by (metis length_map)
  have look: "(case map_of e (fst (d ! i)) of None \<Rightarrow> False | Some u \<Rightarrow> py_eq (snd (d ! i)) u)
      \<longleftrightarrow> py_eq (snd (d ! i)) (snd (e ! i))" if "i < length d" for i
  proof -
    have "fst (d ! i) = fst (e ! i)" using keys that len by (metis nth_map)
    moreover have "e ! i \<in> set e" using that len by simp
    ultimately have "map_of e (fst (d ! i)) = Some (snd (e ! i))" using dist keys by simp
    then show ?thesis by simp
  qed
  have "list_all (\<lambda>p. case map_of e (fst p) of None \<Rightarrow> False | Some u \<Rightarrow> py_eq (snd p) u) d
      \<longleftrightarrow> list_all2 (\<lambda>p q. py_eq (snd p) (snd q)) d e"
    unfolding list_all2_conv_all_nth list_all_length using look len by (simp only: simp_thms) blast
  then show ?thesis using len by simp
qed

definition same_value :: "pval \<Rightarrow> pval \<Rightarrow> bool" where
  "same_value v w \<longleftrightarrow> py_eq (projection_plain_value v) (projection_plain_value w)"

lemma same_value_PRec:
  assumes "map fst fs = map fst gs" and "distinct (map fst fs)" and "t \<noteq> ''AcceptedMeasurementClosure''"
  shows "same_value (PRec t fs) (PRec t gs) \<longleftrightarrow> list_all2 (\<lambda>p q. same_value (snd p) (snd q)) fs gs"
proof -
  let ?f = "\<lambda>p. (L (fst p), projection_plain_value (snd p))"
  have keep: "filter (\<lambda>p. \<not> drops_field t p) hs = hs" for hs
    using assms(3) by (simp add: filter_id_conv)
  have "map (L \<circ> fst) fs = map (L \<circ> fst) gs" using assms(1) by (metis map_map)
  moreover have "distinct (map (L \<circ> fst) fs)" using assms(2) inj_L by (metis distinct_map inj_on_subset map_map subset_UNIV)
  ultimately show ?thesis
    using py_eq_dict_same_keys [of "map ?f fs" "map ?f gs"]
    by (simp add: same_value_def keep comp_def list_all2_map1 list_all2_map2 del: py_eq.simps)
qed

lemma same_value_PTuple [simp]: "same_value (PTuple xs) (PTuple ys) \<longleftrightarrow> list_all2 same_value xs ys"
  by (auto simp: same_value_def list_all2_conv_all_nth list_all_length)

lemma same_value_scalar [simp]:
  "same_value (PStr a) (PStr b) \<longleftrightarrow> a = b"
  "same_value (PBool x) (PBool y) \<longleftrightarrow> x = y"
  by (auto simp: same_value_def num_value_def)

lemma same_value_tuple_of:
  assumes "\<And>a b. same_value (f a) (f b) \<longleftrightarrow> a = b"
  shows "same_value (PTuple (map f xs)) (PTuple (map f ys)) \<longleftrightarrow> xs = ys"
  using assms by (induction xs ys rule: list_induct2') simp_all

lemma same_value_strs [simp]: "same_value (pv_strs xs) (pv_strs ys) \<longleftrightarrow> xs = ys"
  unfolding pv_strs_def by (rule same_value_tuple_of) simp

lemma same_value_HeldFixedBinding [simp]: "same_value (pv_HeldFixedBinding a) (pv_HeldFixedBinding b) \<longleftrightarrow> a = b"
  by (cases a; cases b) (simp add: pv_HeldFixedBinding_def same_value_PRec)

lemma same_value_RouteSpec [simp]: "same_value (pv_RouteSpec a) (pv_RouteSpec b) \<longleftrightarrow> a = b"
  by (cases a; cases b) (simp add: pv_RouteSpec_def same_value_PRec)

lemma same_value_TargetCandidate [simp]: "same_value (pv_TargetCandidate a) (pv_TargetCandidate b) \<longleftrightarrow> a = b"
  by (cases a; cases b)
     (simp add: pv_TargetCandidate_def same_value_PRec same_value_tuple_of del: same_value_PTuple)

lemma formal_to_dict_eq:
  assumes "formal_target_candidate_to_dict f contract = Inr v" and "formal_target_candidate_to_dict g contract = Inr w"
    and "py_eq v w"
  shows "ftc_candidate f = ftc_candidate g"
proof -
  obtain m where v: "v = obj
       [(''schema_ref'', JStr (ftc_schema_ref f)),
        (''candidate'', projection_plain_value (pv_TargetCandidate (ftc_candidate f))),
        (''semantic_inputs'', JList (map semantic_to_dict (ftc_semantic_inputs f))),
        (''measurement_contract'', m), (''risk_class'', JStr (ftc_risk_class f))]"
    using assms(1) by (auto simp: formal_target_candidate_to_dict_def Let_def)
  obtain n where w: "w = obj
       [(''schema_ref'', JStr (ftc_schema_ref g)),
        (''candidate'', projection_plain_value (pv_TargetCandidate (ftc_candidate g))),
        (''semantic_inputs'', JList (map semantic_to_dict (ftc_semantic_inputs g))),
        (''measurement_contract'', n), (''risk_class'', JStr (ftc_risk_class g))]"
    using assms(2) by (auto simp: formal_target_candidate_to_dict_def Let_def)
  have "same_value (pv_TargetCandidate (ftc_candidate f)) (pv_TargetCandidate (ftc_candidate g))"
    unfolding same_value_def using assms(3) by (simp add: v w)
  then show ?thesis by simp
qed

lemma formals_prefix:
  assumes "mapE (\<lambda>f. formal_target_candidate_to_dict f contract) fs = Inr old"
    and "mapE (\<lambda>f. formal_target_candidate_to_dict f contract) gs = Inr new"
    and "py_eq (JList new) (JList old)"
  shows "candidates_of gs = candidates_of fs"
  using assms
proof (induction fs arbitrary: gs old new)
  case Nil
  then show ?case by (cases gs) (auto simp: candidates_of_def)
next
  case (Cons f fs)
  then obtain g gs' where gs: "gs = g # gs'" by (cases gs) auto
  then show ?case
    using Cons.prems Cons.IH [of _ gs'] formal_to_dict_eq [of g contract _ f] by (fastforce simp: candidates_of_def)
qed

definition snapshot_step :: "NormalizedCompletionContract \<Rightarrow> RollingStrategyState \<Rightarrow> RollingStrategyState \<Rightarrow> bool" where
  "snapshot_step contract state state' \<longleftrightarrow>
     (\<exists>value. rolling_strategy_state_from_dict value contract (Some state) = Inr state')"

lemma snapshot_step_facts:
  assumes "snapshot_step contract state state'"
  shows "prefix (candidates_of (rss_candidates state)) (candidates_of (rss_candidates state'))"
    and "revision state < revision state'" and "\<not> strategy_sealed state" and "state_valid state' contract"
proof -
  obtain v where v: "rolling_strategy_state_from_dict v contract (Some state) = Inr state'"
    using assms by (auto simp: snapshot_step_def)
  then have ext: "extends_previous state' state contract = Inr ()" and val: "validate_state state' contract = Inr ()"
    by (auto simp: rolling_strategy_state_from_dict_def Let_def)
  show "state_valid state' contract" using val by (simp add: state_valid_def)
  from ext obtain old new where
    old: "mapE (\<lambda>f. formal_target_candidate_to_dict f contract) (rss_candidates state) = Inr old"
    and new: "mapE (\<lambda>f. formal_target_candidate_to_dict f contract) (take (length old) (rss_candidates state')) = Inr new"
    and eq: "py_eq (JList new) (JList old)"
    and rest: "\<not> su_strategy_complete (rss_strategy state)" "su_revision (rss_strategy state) < su_revision (rss_strategy state')"
    by (auto simp: extends_previous_def simp del: py_eq.simps)
  show "revision state < revision state'" "\<not> strategy_sealed state"
    using rest by (simp_all add: revision_def strategy_sealed_def)
  have "candidates_of (take (length old) (rss_candidates state')) = candidates_of (rss_candidates state)"
    using formals_prefix [OF old new eq] .
  then show "prefix (candidates_of (rss_candidates state)) (candidates_of (rss_candidates state'))"
    by (metis candidates_of_def take_is_prefix take_map)
qed

interpretation snapshots: sealable_log "snapshot_step contract" "\<lambda>s. candidates_of (rss_candidates s)" revision strategy_sealed
  for contract
  by unfold_locales (auto dest: snapshot_step_facts)

text \<open>
  Replacing the durable snapshot of a strategy, any number of times, can only append: labels,
  experiments, cells, bindings, routes and dependencies of the earlier candidates stay as they
  are, the revision grows with each replacement, and a sealed snapshot is never replaced.
\<close>
theorem snapshot_run_append_only:
  assumes "(snapshot_step contract)\<^sup>*\<^sup>* state state'"
  shows "prefix (candidates_of (rss_candidates state)) (candidates_of (rss_candidates state'))
     \<and> revision state \<le> revision state'
     \<and> (strategy_sealed state \<longrightarrow> state' = state)
     \<and> (\<forall>n. (snapshot_step contract ^^ n) state state' \<longrightarrow> int n \<le> revision state' - revision state)"
  using snapshots.run_prefix [OF assms] snapshots.run_revision [OF assms] snapshots.run_sealed [OF assms]
    snapshots.run_bounded [of _ contract state state'] by blast

end
