(* ===== verification/CodecLaws.thy ===== *)
theory CodecLaws
  imports RootLaws RollingLaws
begin

text \<open>
  Round trips of the Target contract: what each serialiser writes, its parser reads back.  The
  shape of a codec is stated once as a locale, with its lifting to lists of documents, and
  interpreted on the pairs of the source.
\<close>

subsection \<open>Primitive values, as equivalences\<close>

definition ref_ok :: "str \<Rightarrow> bool" where
  "ref_ok s \<longleftrightarrow> \<not> is_blank s
     \<and> (\<exists>b. encode_utf8 s = Inr b \<and> length b \<le> BUNDLE_PROJECTION_STRING_MAX_UTF8_BYTES)
     \<and> s = strip s \<and> \<not> scontains 0 s \<and> \<not> scontains 13 s \<and> \<not> scontains 10 s"

definition plan_text_ok :: "str \<Rightarrow> bool" where
  "plan_text_ok s \<longleftrightarrow> \<not> is_blank s \<and> slen s \<le> PLAN_TEXT_MAX_CHARS \<and> (\<exists>b. encode_utf8 s = Inr b)"

lemma ref_value_iff: "ref_value v n = Inr s \<longleftrightarrow> v = JStr s \<and> ref_ok s"
  by (cases v) (auto simp: ref_value_def text_value_def utf8_bytes_of_Inr ref_ok_def not_less)

lemma plan_text_iff: "plan_text v n = Inr s \<longleftrightarrow> v = JStr s \<and> plan_text_ok s"
  by (cases v) (auto simp: plan_text_def utf8_bytes_of_Inr plan_text_ok_def not_less)

lemma jstrs_inject [simp]: "jstrs xs = jstrs ys \<longleftrightarrow> xs = ys"
proof -
  have "inj JStr" by (simp add: inj_on_def)
  then show ?thesis by (simp add: jstrs_def inj_map_eq_map)
qed

lemma mapE_refs: "mapE (\<lambda>item. ref_value item n) vs = Inr xs \<longleftrightarrow> vs = map JStr xs \<and> list_all ref_ok xs"
proof (induction vs arbitrary: xs)
  case (Cons v vs)
  then show ?case by (cases xs) (auto simp: ref_value_iff)
qed auto

lemma mapE_str_refs: "mapE (\<lambda>item. ref_value (JStr item) n) xs = Inr ys \<longleftrightarrow> ys = xs \<and> list_all ref_ok xs"
proof (induction xs arbitrary: ys)
  case (Cons x xs)
  then show ?case by (cases ys) (auto simp: ref_value_iff)
qed auto

lemma string_list_iff:
  "string_list v n e = Inr xs \<longleftrightarrow> v = jstrs xs \<and> list_all ref_ok xs \<and> distinct xs \<and> (xs \<noteq> [] \<or> e)"
  by (cases v) (auto simp: string_list_def mapE_refs jstrs_def)

lemma canonical_string_tuple_iff:
  "canonical_string_tuple xs n e = Inr ys \<longleftrightarrow> ys = xs \<and> list_all ref_ok xs \<and> distinct xs \<and> (xs \<noteq> [] \<or> e)"
  by (auto simp: canonical_string_tuple_def mapE_str_refs)

lemma exact_dict_iff: "exact_dict v ks c = Inr d \<longleftrightarrow> v = JDict d \<and> keys_are d ks"
  by (cases v) (auto simp: exact_dict_def)

lemma object_list_iff:
  "object_list v c = Inr xs \<longleftrightarrow> v = JList xs \<and> length xs \<le> BUNDLE_PROJECTION_MAX_TUPLE_ITEMS \<and> list_all is_dict xs"
  by (cases v) (auto simp: object_list_def list_ex_iff list_all_iff not_less)

lemma exact_bool_iff: "exact_bool v n = Inr b \<longleftrightarrow> v = JBool b"
  by (cases v) (auto simp: exact_bool_def)

lemma risk_class_iff: "risk_class v = Inr s \<longleftrightarrow> v = JStr s \<and> str_in s [''normal'', ''high'']"
  by (cases v) (auto simp: risk_class_def)

lemma checkpoint_policy_iff:
  "checkpoint_policy v = Inr s \<longleftrightarrow> v = JStr s \<and> str_in s [''forbidden'', ''optional'', ''required'']"
  by (cases v) (auto simp: checkpoint_policy_def)

lemma metric_key_iff:
  "metric_key v = Inr s \<longleftrightarrow> v = JStr s \<and> ref_ok s \<and> (\<exists>b. encode_utf8 s = Inr b \<and> length b \<le> 128)"
  by (auto simp: metric_key_def ref_value_iff utf8_bytes_of_Inr not_less)

lemma keys_are_obj: "keys_are (map (\<lambda>p. (L (fst p), snd p)) kvs) ks \<longleftrightarrow> fst ` set kvs = set ks"
proof -
  have "set (keys (map (\<lambda>p. (L (fst p), snd p)) kvs)) = L ` (fst ` set kvs)"
    by (force simp: keys_def)
  then show ?thesis
    by (simp add: keys_are_def inj_image_eq_iff [OF inj_L])
qed

lemmas parse_iffs = ref_value_iff plan_text_iff string_list_iff canonical_string_tuple_iff exact_dict_iff
  object_list_iff exact_bool_iff risk_class_iff checkpoint_policy_iff metric_key_iff

subsection \<open>The interface\<close>

locale codec =
  fixes parse :: "json \<Rightarrow> 'a res"
    and ser :: "'a \<Rightarrow> json res"
    and valid :: "'a \<Rightarrow> bool"
  assumes parse_ser: "valid a \<Longrightarrow> ser a = Inr v \<Longrightarrow> parse v = Inr a"
    and ser_dict: "ser a = Inr v \<Longrightarrow> is_dict v"
begin

lemma parse_ser_list: "list_all valid xs \<Longrightarrow> mapE ser xs = Inr vs \<Longrightarrow> mapE parse vs = Inr xs"
  by (induction xs arbitrary: vs) (auto simp: parse_ser)

lemma ser_list_dicts: "mapE ser xs = Inr vs \<Longrightarrow> list_all is_dict vs"
  by (induction xs arbitrary: vs) (auto dest: ser_dict)

lemma parse_object_list:
  assumes "list_all valid xs" and "mapE ser xs = Inr vs" and "length vs \<le> BUNDLE_PROJECTION_MAX_TUPLE_ITEMS"
  shows "bindE (object_list (JList vs) c) (mapE parse) = Inr xs"
  using assms by (simp add: object_list_iff ser_list_dicts parse_ser_list)

lemma ser_injective: "valid a \<Longrightarrow> valid b \<Longrightarrow> ser a = Inr v \<Longrightarrow> ser b = Inr v \<Longrightarrow> a = b"
  by (metis parse_ser sum.inject(2))

end

subsection \<open>Candidates, briefs and semantic inputs\<close>

definition held_fixed_ok :: "HeldFixedBinding \<Rightarrow> bool" where
  "held_fixed_ok h \<longleftrightarrow> ref_ok (hfb_semantic_slot h) \<and> ref_ok (hfb_implementation_revision_ref h)"

definition route_ok :: "RouteSpec \<Rightarrow> bool" where
  "route_ok r \<longleftrightarrow> ref_ok (rs_route_ref r) \<and> list_all ref_ok (rs_known_external_operation_refs r)
     \<and> distinct (rs_known_external_operation_refs r)"

definition semantic_ok :: "FrozenSemanticInputs \<Rightarrow> bool" where
  "semantic_ok s \<longleftrightarrow> ref_ok (fsi_experiment_key s) \<and> plan_text_ok (fsi_goal s) \<and> plan_text_ok (fsi_characteristics s)
     \<and> plan_text_ok (fsi_boundary_constraints s) \<and> plan_text_ok (fsi_semantic_delta s)"

definition brief_ok :: "ExperimentBrief \<Rightarrow> bool" where
  "brief_ok b \<longleftrightarrow> ref_ok (eb_experiment_key b) \<and> plan_text_ok (eb_semantic_delta b)
     \<and> list_all ref_ok (eb_held_fixed_slots b) \<and> distinct (eb_held_fixed_slots b)
     \<and> list_all ref_ok (eb_required_measurement_unit_keys b) \<and> distinct (eb_required_measurement_unit_keys b)
     \<and> eb_required_measurement_unit_keys b \<noteq> []"

lemma plain_strs: "projection_plain_value (pv_strs xs) = jstrs xs"
  by (simp add: pv_strs_def jstrs_def)

interpretation held_fixed: codec held_fixed_from_dict "\<lambda>h. Inr (projection_plain_value (pv_HeldFixedBinding h))" held_fixed_ok
  by unfold_locales
     (auto simp: held_fixed_from_dict_def pv_HeldFixedBinding_def parse_iffs held_fixed_ok_def keys_are_def)

interpretation route: codec route_from_dict "\<lambda>r. Inr (projection_plain_value (pv_RouteSpec r))" route_ok
  by unfold_locales
     (auto simp: route_from_dict_def pv_RouteSpec_def parse_iffs route_ok_def keys_are_def plain_strs)

interpretation semantic: codec semantic_from_dict "\<lambda>s. Inr (semantic_to_dict s)" semantic_ok
  by unfold_locales
     (auto simp: semantic_from_dict_def semantic_to_dict_def parse_iffs semantic_ok_def keys_are_def)

interpretation brief: codec brief_from_dict "\<lambda>b. Inr (projection_plain_value (pv_ExperimentBrief b))" brief_ok
  by unfold_locales
     (auto simp: brief_from_dict_def pv_ExperimentBrief_def parse_iffs brief_ok_def keys_are_def plain_strs)

definition candidate_ok :: "TargetCandidate \<Rightarrow> bool" where
  "candidate_ok c \<longleftrightarrow> ref_ok (tc_local_label c)
     \<and> list_all ref_ok (tc_experiment_keys c) \<and> distinct (tc_experiment_keys c) \<and> tc_experiment_keys c \<noteq> []
     \<and> list_all ref_ok (tc_measurement_unit_keys c) \<and> distinct (tc_measurement_unit_keys c) \<and> tc_measurement_unit_keys c \<noteq> []
     \<and> list_all held_fixed_ok (tc_held_fixed_bindings c) \<and> length (tc_held_fixed_bindings c) \<le> BUNDLE_PROJECTION_MAX_TUPLE_ITEMS
     \<and> ref_ok (tc_implementation_revision_ref c)
     \<and> list_all route_ok (tc_routes c) \<and> length (tc_routes c) \<le> BUNDLE_PROJECTION_MAX_TUPLE_ITEMS
     \<and> list_all ref_ok (tc_depends_on_labels c) \<and> distinct (tc_depends_on_labels c)
     \<and> list_all ref_ok (tc_direct_accepted_input_asset_refs c) \<and> distinct (tc_direct_accepted_input_asset_refs c)"

lemma mapE_total: "mapE (\<lambda>x. Inr (f x)) xs = Inr (map f xs)"
  by simp

interpretation candidate: codec candidate_from_dict "\<lambda>c. Inr (projection_plain_value (pv_TargetCandidate c))" candidate_ok
proof unfold_locales
  fix c v
  assume ok: "candidate_ok c" and "Inr (projection_plain_value (pv_TargetCandidate c)) = Inr v"
  then have v: "v = projection_plain_value (pv_TargetCandidate c)" by simp
  let ?hs = "map (\<lambda>h. projection_plain_value (pv_HeldFixedBinding h)) (tc_held_fixed_bindings c)"
  let ?rs = "map (\<lambda>r. projection_plain_value (pv_RouteSpec r)) (tc_routes c)"
  have h: "object_list (JList ?hs) n = Inr ?hs" "mapE held_fixed_from_dict ?hs = Inr (tc_held_fixed_bindings c)" for n
    using ok held_fixed.ser_list_dicts [OF mapE_total] held_fixed.parse_ser_list [OF _ mapE_total]
    by (auto simp: candidate_ok_def object_list_iff)
  have r: "object_list (JList ?rs) n = Inr ?rs" "mapE route_from_dict ?rs = Inr (tc_routes c)" for n
    using ok route.ser_list_dicts [OF mapE_total] route.parse_ser_list [OF _ mapE_total]
    by (auto simp: candidate_ok_def object_list_iff)
  show "candidate_from_dict v = Inr c"
    using ok h r
    by (simp add: v candidate_from_dict_def pv_TargetCandidate_def exact_dict_iff keys_are_def target_candidate_fields_def
        comp_def plain_strs ref_value_iff string_list_iff exact_bool_iff candidate_ok_def)
next
  fix c v
  show "Inr (projection_plain_value (pv_TargetCandidate c)) = Inr v \<Longrightarrow> is_dict v"
    by (auto simp: pv_TargetCandidate_def)
qed

end
