(* ===== verification/DocumentCodecs.thy ===== *)
theory DocumentCodecs
  imports CodecLaws
begin

text \<open>
  The codecs of frozen documents, protocol versions, measurement contracts, formal candidates,
  strategy updates, strategy snapshots and completion contracts.
\<close>

definition document_of :: "FrozenJsonObject \<Rightarrow> json res" where
  "document_of z = bindE (as_dict z) (\<lambda>d. Inr (JDict d))"

definition frozen_ok :: "string \<Rightarrow> FrozenJsonObject \<Rightarrow> bool" where
  "frozen_ok name z \<longleftrightarrow> validate_frozen_domain_document z name = Inr ()"

interpretation frozen: codec "\<lambda>v. domain_document v name" document_of "frozen_ok name" for name
  by unfold_locales (auto simp: document_of_def frozen_ok_def dest: refreeze)

lemma frozen_parse: "frozen_ok name z \<Longrightarrow> as_dict z = Inr d \<Longrightarrow> domain_document (JDict d) name = Inr z"
  using frozen.parse_ser by (simp add: document_of_def)

text \<open>A comprehension whose element either passes a test and maps, or raises.\<close>

lemma mapE_guarded:
  assumes "\<And>x y. f x = Inr y \<longleftrightarrow> P x \<and> y = g x"
  shows "mapE f xs = Inr ys \<longleftrightarrow> list_all P xs \<and> ys = map g xs"
proof (induction xs arbitrary: ys)
  case (Cons x xs)
  then show ?case by (cases ys) (auto simp: assms)
qed auto

subsection \<open>Parts of a protocol version\<close>

definition metric_ok :: "FrozenMetricDefinition \<Rightarrow> bool" where
  "metric_ok m \<longleftrightarrow> metric_key (JStr (fmd_metric_key m)) = Inr (fmd_metric_key m) \<and> frozen_ok ''Metric definition'' (fmd_definition m)"

definition stop_rule_ok :: "FrozenStopRule \<Rightarrow> bool" where
  "stop_rule_ok r \<longleftrightarrow> ref_ok (fsr_rule_ref r) \<and> frozen_ok ''preregistered stop rule'' (fsr_rule r)"

definition aggregation_ok :: "FrozenAggregationRule \<Rightarrow> bool" where
  "aggregation_ok r \<longleftrightarrow> ref_ok (far_rule_ref r) \<and> frozen_ok ''protocol aggregation rule'' (far_rule r)"

lemma validate_aggregation_iff: "validate_aggregation_rule r = Inr () \<longleftrightarrow> aggregation_ok r"
  by (simp add: validate_aggregation_rule_def aggregation_ok_def frozen_ok_def ref_value_iff)

interpretation metric: codec metric_definition_from_dict metric_definition_to_dict metric_ok
  by unfold_locales
     (auto simp: metric_definition_from_dict_def metric_definition_to_dict_def exact_dict_iff keys_are_def metric_ok_def
       frozen_parse)

interpretation stop_rule: codec stop_rule_from_dict stop_rule_to_dict stop_rule_ok
  by unfold_locales
     (auto simp: stop_rule_from_dict_def stop_rule_to_dict_def exact_dict_iff keys_are_def stop_rule_ok_def
       frozen_parse ref_value_iff)

interpretation aggregation: codec aggregation_rule_from_dict aggregation_rule_to_dict aggregation_ok
proof unfold_locales
  fix r v
  assume "aggregation_ok r" and "aggregation_rule_to_dict r = Inr v"
  then show "aggregation_rule_from_dict v = Inr r"
    using validate_aggregation_iff [of r]
    by (cases r) (auto simp: aggregation_rule_from_dict_def aggregation_rule_to_dict_def exact_dict_iff keys_are_def aggregation_ok_def
        frozen_parse ref_value_iff Let_def)
qed (auto simp: aggregation_rule_to_dict_def)

lemma validate_metrics_iff:
  "validate_metric_definitions ms name True = Inr ks \<longleftrightarrow>
     length ms \<le> METRIC_DEFINITION_MAX_ITEMS \<and> list_all metric_ok ms \<and> ks = map fmd_metric_key ms \<and> distinct ks"
proof -
  have one: "bindE (metric_key (JStr (fmd_metric_key m))) (\<lambda>key.
          bindE (validate_frozen_domain_document (fmd_definition m) ''Metric definition'') (\<lambda>_. Inr key)) = Inr k
      \<longleftrightarrow> metric_ok m \<and> k = fmd_metric_key m" for m k
    by (auto simp: metric_ok_def frozen_ok_def metric_key_iff)
  note loop = mapE_guarded [of _ metric_ok fmd_metric_key, OF one]
  show ?thesis by (auto simp: validate_metric_definitions_def loop not_less simp del: bindE_eq_Inr) (auto simp: loop)
qed

lemma validate_stop_rules_iff:
  "returns (foldE validate_stop_rule seen rs) \<longleftrightarrow>
     list_all stop_rule_ok rs \<and> distinct (map fsr_rule_ref rs) \<and> set (map fsr_rule_ref rs) \<inter> set seen = {}"
proof (induction rs arbitrary: seen)
  case (Cons r rs)
  show ?case
  proof (cases "stop_rule_ok r \<and> fsr_rule_ref r \<notin> set seen")
    case True
    then have "validate_stop_rule seen r = Inr (fsr_rule_ref r # seen)"
      using ref_value_iff [of "JStr (fsr_rule_ref r)" _ "fsr_rule_ref r"]
      by (simp add: validate_stop_rule_def stop_rule_ok_def frozen_ok_def)
    then show ?thesis using True Cons.IH [of "fsr_rule_ref r # seen"] by auto
  next
    case False
    then have "\<not> returns (validate_stop_rule seen r)"
      by (auto simp: validate_stop_rule_def stop_rule_ok_def frozen_ok_def returns_iff ref_value_iff)
    then show ?thesis using False by (cases "validate_stop_rule seen r") auto
  qed
qed simp

definition protocol_ok :: "FrozenProtocolVersionCandidate \<Rightarrow> bool" where
  "protocol_ok p \<longleftrightarrow>
     fpv_schema_ref p = L PROTOCOL_VERSION_CANDIDATE_SCHEMA_REF
     \<and> frozen_ok ''protocol evaluation data'' (fpv_evaluation_data p)
     \<and> frozen_ok ''protocol split'' (fpv_split p)
     \<and> frozen_ok ''protocol preprocessing'' (fpv_preprocessing p)
     \<and> length (fpv_required_metrics p) \<le> METRIC_DEFINITION_MAX_ITEMS
     \<and> length (fpv_optional_metrics p) \<le> METRIC_DEFINITION_MAX_ITEMS
     \<and> list_all metric_ok (fpv_required_metrics p @ fpv_optional_metrics p)
     \<and> distinct (map fmd_metric_key (fpv_required_metrics p @ fpv_optional_metrics p))
     \<and> list_all ref_ok (fpv_internal_part_keys p) \<and> distinct (fpv_internal_part_keys p)
     \<and> (fpv_internal_part_keys p = [] \<longleftrightarrow> fpv_aggregation p = None)
     \<and> pred_option aggregation_ok (fpv_aggregation p)
     \<and> length (fpv_preregistered_stop_rules p) \<le> BUNDLE_PROJECTION_MAX_TUPLE_ITEMS
     \<and> list_all stop_rule_ok (fpv_preregistered_stop_rules p) \<and> distinct (map fsr_rule_ref (fpv_preregistered_stop_rules p))"

lemma validate_protocol_decides: "validate_protocol_version p = Inr () \<longleftrightarrow> protocol_ok p"
proof -
  have agg: "(case fpv_aggregation p of None \<Rightarrow> Inr () | Some rule \<Rightarrow> validate_aggregation_rule rule) = Inr u
      \<longleftrightarrow> pred_option aggregation_ok (fpv_aggregation p)" for u
    by (cases "fpv_aggregation p") (simp_all add: validate_aggregation_iff)
  have stop: "(\<exists>s. foldE validate_stop_rule [] (fpv_preregistered_stop_rules p) = Inr s) \<longleftrightarrow>
      list_all stop_rule_ok (fpv_preregistered_stop_rules p) \<and> distinct (map fsr_rule_ref (fpv_preregistered_stop_rules p))"
    using validate_stop_rules_iff [of "[]"] by (simp add: returns_iff)
  show ?thesis
    by (auto simp: validate_protocol_version_def protocol_ok_def frozen_ok_def validate_metrics_iff canonical_string_tuple_iff
        agg stop not_less image_iff)
qed

subsection \<open>Protocol versions and measurement contracts\<close>

text \<open>Every list of a document that passed the bounded walk is short enough for its parser.\<close>

fun lists_bounded :: "json \<Rightarrow> bool" where
  "lists_bounded (JList xs) \<longleftrightarrow> length xs \<le> BUNDLE_PROJECTION_MAX_TUPLE_ITEMS \<and> list_all lists_bounded xs"
| "lists_bounded (JDict d) \<longleftrightarrow> list_all (\<lambda>p. lists_bounded (snd p)) d"
| "lists_bounded _ \<longleftrightarrow> True"

lemma root_ok_lists: "root_ok mode v depth free prose \<Longrightarrow> lists_bounded v"
proof (induction v arbitrary: depth free prose)
  case (JList xs)
  then show ?case by (fastforce simp: root_ok.simps root_ok_list_iff list_all_iff)
next
  case (JDict d)
  then show ?case by (fastforce simp: root_ok.simps root_ok_dict_iff list_all_iff)
qed simp_all

lemma validated_lists: "validate_json_root mode v name = Inr h \<Longrightarrow> lists_bounded v"
  by (auto simp: validate_json_root_decides dest: root_ok_lists)

lemma metric_rows:
  assumes "list_all metric_ok ms" and "length ms \<le> METRIC_DEFINITION_MAX_ITEMS" and "mapE metric_definition_to_dict ms = Inr rows"
  shows "object_list (JList rows) c = Inr rows" and "mapE metric_definition_from_dict rows = Inr ms"
  using assms metric.ser_list_dicts [OF assms(3)] metric.parse_ser_list [OF assms(1,3)] mapE_length [OF assms(3)]
  by (auto simp: object_list_iff METRIC_DEFINITION_MAX_ITEMS_def BUNDLE_PROJECTION_MAX_TUPLE_ITEMS_def)

lemma stop_rule_rows:
  assumes "list_all stop_rule_ok rs" and "length rs \<le> BUNDLE_PROJECTION_MAX_TUPLE_ITEMS" and "mapE stop_rule_to_dict rs = Inr rows"
  shows "object_list (JList rows) c = Inr rows" and "mapE stop_rule_from_dict rows = Inr rs"
  using assms stop_rule.ser_list_dicts [OF assms(3)] stop_rule.parse_ser_list [OF assms(1,3)] mapE_length [OF assms(3)]
  by (auto simp: object_list_iff)

lemma aggregation_row:
  assumes "pred_option aggregation_ok a"
    and "(case a of None \<Rightarrow> Inr JNull | Some rule \<Rightarrow> aggregation_rule_to_dict rule) = Inr v"
  shows "(case v of JNull \<Rightarrow> Inr None | w \<Rightarrow> bindE (aggregation_rule_from_dict w) (\<lambda>r. Inr (Some r))) = Inr a"
proof (cases a)
  case (Some r)
  then obtain d where "v = JDict d" "aggregation_rule_from_dict v = Inr r"
    using assms aggregation.parse_ser [of r v] aggregation.ser_dict [of r v] by (cases v) auto
  then show ?thesis using Some by simp
qed (use assms in simp)

lemma protocol_round_trip:
  assumes "protocol_ok p" and "protocol_version_to_dict p = Inr v"
  shows "protocol_version_from_dict v = Inr p"
proof -
  obtain d1 d2 d3 rq op ag st where
    d: "as_dict (fpv_evaluation_data p) = Inr d1" "as_dict (fpv_split p) = Inr d2" "as_dict (fpv_preprocessing p) = Inr d3"
    and rq: "mapE metric_definition_to_dict (fpv_required_metrics p) = Inr rq"
    and op: "mapE metric_definition_to_dict (fpv_optional_metrics p) = Inr op"
    and ag: "(case fpv_aggregation p of None \<Rightarrow> Inr JNull | Some rule \<Rightarrow> aggregation_rule_to_dict rule) = Inr ag"
    and st: "mapE stop_rule_to_dict (fpv_preregistered_stop_rules p) = Inr st"
    and v: "v = obj [(''schema_ref'', JStr (fpv_schema_ref p)), (''evaluation_data'', JDict d1), (''split'', JDict d2),
        (''preprocessing'', JDict d3), (''required_metrics'', JList rq), (''optional_metrics'', JList op),
        (''internal_part_keys'', jstrs (fpv_internal_part_keys p)), (''aggregation'', ag),
        (''preregistered_stop_rules'', JList st)]"
    using assms(2) by (auto simp: protocol_version_to_dict_def)
  note ok = assms(1) [unfolded protocol_ok_def]
  have m: "list_all metric_ok (fpv_required_metrics p)" "list_all metric_ok (fpv_optional_metrics p)"
    using ok by auto
  note rows = metric_rows [OF m(1) _ rq] metric_rows [OF m(2) _ op] stop_rule_rows [OF _ _ st] aggregation_row [OF _ ag]
  have docs: "domain_document (JDict d1) ''protocol evaluation data'' = Inr (fpv_evaluation_data p)"
    "domain_document (JDict d2) ''protocol split'' = Inr (fpv_split p)"
    "domain_document (JDict d3) ''protocol preprocessing'' = Inr (fpv_preprocessing p)"
    using ok d by (auto intro: frozen_parse)
  have parts: "string_list (jstrs (fpv_internal_part_keys p)) ''protocol internal part keys'' True = Inr (fpv_internal_part_keys p)"
    using ok by (simp add: string_list_iff)
  have "validate_protocol_version p = Inr ()" using assms(1) validate_protocol_decides by simp
  then show ?thesis
    using ok rows docs parts
    by (cases p) (simp add: v protocol_version_from_dict_def exact_dict_iff keys_are_def Let_def)
qed

lemma measurement_round_trip:
  assumes "measurement_contract_to_dict c = Inr v"
  shows "measurement_contract_from_dict v = Inr c"
proof -
  have val: "validate_measurement_contract c = Inr ()"
    and ser: "measurement_contract_to_unvalidated_dict c = Inr v"
    and root: "\<exists>h. validate_json_root plain_mode v ''TargetMeasurementContractCandidate'' = Inr h"
    using assms by (auto simp: measurement_contract_to_dict_def)
  obtain d1 d2 d3 pv d4 where
    d: "as_dict (tmc_baseline_forward_contract c) = Inr d1" "as_dict (tmc_variant_recipe c) = Inr d2"
      "as_dict (tmc_evaluation_protocol_lineage c) = Inr d3" "as_dict (tmc_result_schema c) = Inr d4"
    and pv: "protocol_version_to_dict (tmc_protocol_version c) = Inr pv"
    and v: "v = obj [(''schema_ref'', JStr (tmc_schema_ref c)), (''experiment_keys'', jstrs (tmc_experiment_keys c)),
        (''measurement_unit_key'', JStr (tmc_measurement_unit_key c)), (''baseline_forward_contract'', JDict d1),
        (''variant_recipe'', JDict d2), (''evaluation_protocol_lineage'', JDict d3), (''protocol_version'', pv),
        (''checkpoint_policy'', JStr (tmc_checkpoint_policy c)), (''result_schema_ref'', JStr (tmc_result_schema_ref c)),
        (''result_schema'', JDict d4)]"
    using ser by (auto simp: measurement_contract_to_unvalidated_dict_def)
  have chk: "tmc_schema_ref c = L MEASUREMENT_CONTRACT_CANDIDATE_SCHEMA_REF"
    "list_all ref_ok (tmc_experiment_keys c)" "distinct (tmc_experiment_keys c)" "tmc_experiment_keys c \<noteq> []"
    "ref_ok (tmc_measurement_unit_key c)" "frozen_ok ''baseline forward contract'' (tmc_baseline_forward_contract c)"
    "frozen_ok ''variant recipe'' (tmc_variant_recipe c)"
    "frozen_ok ''evaluation protocol lineage'' (tmc_evaluation_protocol_lineage c)"
    "protocol_ok (tmc_protocol_version c)"
    "checkpoint_policy (JStr (tmc_checkpoint_policy c)) = Inr (tmc_checkpoint_policy c)"
    "ref_ok (tmc_result_schema_ref c)" "frozen_ok ''measurement result schema'' (tmc_result_schema c)"
    using val
    by (auto simp: validate_measurement_contract_def canonical_string_tuple_iff ref_value_iff frozen_ok_def
        validate_protocol_decides checkpoint_policy_iff)
  note docs = frozen_parse [OF chk(6) d(1)] frozen_parse [OF chk(7) d(2)] frozen_parse [OF chk(8) d(3)] frozen_parse [OF chk(12) d(4)]
  obtain h where h: "validate_json_root plain_mode v ''TargetMeasurementContractCandidate'' = Inr h" using root by blast
  have keys: "string_list (jstrs (tmc_experiment_keys c)) ''measurement contract ExperimentKeys'' False = Inr (tmc_experiment_keys c)"
    using chk by (simp add: string_list_iff)
  have refs: "ref_value (JStr (tmc_measurement_unit_key c)) ''measurement contract cell'' = Inr (tmc_measurement_unit_key c)"
    "ref_value (JStr (tmc_result_schema_ref c)) ''measurement result schema'' = Inr (tmc_result_schema_ref c)"
    using chk by (simp_all add: ref_value_iff)
  show ?thesis
    using docs keys refs chk(1,10) protocol_round_trip [OF chk(9) pv] val h
    by (cases c) (simp add: v measurement_contract_from_dict_def exact_dict_iff keys_are_def Let_def)
qed

interpretation measurement: codec measurement_contract_from_dict measurement_contract_to_dict "\<lambda>_. True"
  by unfold_locales
     (auto simp: measurement_round_trip measurement_contract_to_dict_def measurement_contract_to_unvalidated_dict_def)

end
