(* ===== verification/StrategyCodecs.thy ===== *)
theory StrategyCodecs
  imports DocumentCodecs
begin

text \<open>
  Round trips of formal candidates, strategy updates, strategy snapshots and completion
  contracts: a value the code serialises is the value the code parses back.
\<close>

subsection \<open>Formal candidates\<close>

definition contract_semantics_ok :: "NormalizedCompletionContract \<Rightarrow> bool" where
  "contract_semantics_ok contract \<longleftrightarrow> list_all (\<lambda>item. semantic_ok (nec_semantic_inputs item)) (ncc_experiments contract)"

lemma map_of_dict_of: "map_of (dict_of kvs) k = map_of (rev kvs) k"
proof -
  have "map_of (foldl (\<lambda>d p. dict_set (fst p) (snd p) d) d kvs) k = (map_of d ++ map_of (rev kvs)) k" for d
    by (induction kvs arbitrary: d) (auto simp: map_add_def split: option.splits)
  then show ?thesis by (simp add: dict_of_def)
qed

lemma contract_by_key_semantic:
  "contract_semantics_ok contract \<Longrightarrow> map_of (contract_by_key contract) k = Some item \<Longrightarrow> semantic_ok (nec_semantic_inputs item)"
  by (auto simp: contract_by_key_def map_of_dict_of contract_semantics_ok_def list_all_iff dest!: map_of_SomeD)

lemma semantic_fold_Inr:
  assumes "foldE semantic_input_step [] sems = Inr by_key"
  shows "by_key = map (\<lambda>s. (fsi_experiment_key s, s)) sems" and "distinct (map fsi_experiment_key sems)"
proof -
  have "by_key = map (\<lambda>s. (fsi_experiment_key s, s)) sems \<and> distinct (map fsi_experiment_key sems)"
    using assms
  proof (rule foldE_prefix_rule)
    fix dn rest :: "FrozenSemanticInputs list" and x s s'
    assume I: "s = map (\<lambda>s. (fsi_experiment_key s, s)) dn \<and> distinct (map fsi_experiment_key dn)"
      and "semantic_input_step s x = Inr s'"
    then have "\<not> has_key s (fsi_experiment_key x)" "s' = dict_set (fsi_experiment_key x) x s"
      by (auto simp: semantic_input_step_def)
    with I show "s' = map (\<lambda>s. (fsi_experiment_key s, s)) (dn @ [x]) \<and> distinct (map fsi_experiment_key (dn @ [x]))"
      by (auto simp: has_key_iff dict_set_new comp_def)
  qed simp
  then show "by_key = map (\<lambda>s. (fsi_experiment_key s, s)) sems" and "distinct (map fsi_experiment_key sems)" by auto
qed

text \<open>What an admitted formal candidate is.\<close>

definition formal_admissible :: "NormalizedCompletionContract \<Rightarrow> FormalTargetCandidate \<Rightarrow> bool" where
  "formal_admissible contract f \<longleftrightarrow>
     ftc_schema_ref f = L FORMAL_TARGET_CANDIDATE_SCHEMA_REF
     \<and> str_in (ftc_risk_class f) [''normal'', ''high'']
     \<and> candidate_accepted (briefs_by_key contract) (ftc_candidate f)
     \<and> validate_measurement_contract (ftc_measurement_contract f) = Inr ()
     \<and> tmc_experiment_keys (ftc_measurement_contract f) = tc_experiment_keys (ftc_candidate f)
     \<and> tmc_measurement_unit_key (ftc_measurement_contract f) = cell_of (ftc_candidate f)
     \<and> distinct (map fsi_experiment_key (ftc_semantic_inputs f))
     \<and> fsi_experiment_key ` set (ftc_semantic_inputs f) = set (tc_experiment_keys (ftc_candidate f))
     \<and> (\<forall>s\<in>set (ftc_semantic_inputs f).
          \<exists>item. map_of (contract_by_key contract) (fsi_experiment_key s) = Some item \<and> s = nec_semantic_inputs item)"

lemma validate_formal_Inr:
  assumes "validate_formal_candidate f contract = Inr ()"
  shows "formal_admissible contract f"
proof -
  obtain m by_key where risk: "risk_class (JStr (ftc_risk_class f)) = Inr (ftc_risk_class f)"
    and schema: "ftc_schema_ref f = L FORMAL_TARGET_CANDIDATE_SCHEMA_REF"
    and v: "verify_candidate (ftc_candidate f) (briefs_by_key contract) = Inr m"
    and mc: "validate_measurement_contract (ftc_measurement_contract f) = Inr ()"
    and keys: "tmc_experiment_keys (ftc_measurement_contract f) = tc_experiment_keys (ftc_candidate f)"
    and cell: "tmc_measurement_unit_key (ftc_measurement_contract f) = hd (tc_measurement_unit_keys (ftc_candidate f))"
    and fold: "foldE semantic_input_step [] (ftc_semantic_inputs f) = Inr by_key"
    and same: "set (keys by_key) = set (tc_experiment_keys (ftc_candidate f))"
    and all: "\<forall>k\<in>set (tc_experiment_keys (ftc_candidate f)). check_semantic_input (contract_by_key contract) by_key k = Inr ()"
    using assms by (auto simp: validate_formal_candidate_def Let_def risk_class_iff)
  note by_key = semantic_fold_Inr [OF fold]
  have images: "fsi_experiment_key ` set (ftc_semantic_inputs f) = set (tc_experiment_keys (ftc_candidate f))"
    using same by (simp add: by_key(1) keys_def image_image)
  have "\<exists>item. map_of (contract_by_key contract) (fsi_experiment_key s) = Some item \<and> s = nec_semantic_inputs item"
    if "s \<in> set (ftc_semantic_inputs f)" for s
  proof -
    have "map_of by_key (fsi_experiment_key s) = Some s"
      using by_key that by (simp add: comp_def image_iff)
    moreover have "fsi_experiment_key s \<in> set (tc_experiment_keys (ftc_candidate f))" using images that by blast
    ultimately show ?thesis using all by (auto simp: check_semantic_input_def)
  qed
  then show ?thesis
    using risk schema v mc keys cell by_key(2) images
    by (simp add: formal_admissible_def candidate_accepted_def cell_of_def risk_class_iff)
qed

lemma verify_candidate_refs:
  assumes "verify_candidate c briefs = Inr m" and "lists_bounded (projection_plain_value (pv_TargetCandidate c))"
  shows "candidate_ok c"
proof -
  have bm: "binding_map bs = Inr m' \<Longrightarrow> list_all held_fixed_ok bs" for bs m'
    unfolding binding_map_def
    by (erule foldE_prefix_rule [where I = "\<lambda>dn _. list_all held_fixed_ok dn"])
       (auto simp: binding_step_def ref_value_iff held_fixed_ok_def)
  have rt: "check_route r = Inr () \<Longrightarrow> route_ok r" for r
    by (auto simp: check_route_def ref_value_iff canonical_string_tuple_iff route_ok_def)
  have "length (tc_measurement_unit_keys c) = 1 \<Longrightarrow> ref_ok (hd (tc_measurement_unit_keys c)) \<Longrightarrow>
      list_all ref_ok (tc_measurement_unit_keys c) \<and> distinct (tc_measurement_unit_keys c) \<and> tc_measurement_unit_keys c \<noteq> []"
    by (cases "tc_measurement_unit_keys c") auto
  moreover have "length (tc_held_fixed_bindings c) \<le> BUNDLE_PROJECTION_MAX_TUPLE_ITEMS
      \<and> length (tc_routes c) \<le> BUNDLE_PROJECTION_MAX_TUPLE_ITEMS"
    using assms(2) by (simp add: pv_TargetCandidate_def)
  ultimately show ?thesis
    using assms(1)
    by (auto simp: verify_candidate_def candidate_ok_def ref_value_iff canonical_string_tuple_iff Let_def list_all_iff
        dest!: bm dest: rt)
qed

lemma formal_round_trip:
  assumes "formal_target_candidate_to_dict f contract = Inr v" and "contract_semantics_ok contract"
  shows "formal_target_candidate_from_dict v contract = Inr f"
proof -
  obtain mv h where val: "validate_formal_candidate f contract = Inr ()"
    and mv: "measurement_contract_to_dict (ftc_measurement_contract f) = Inr mv"
    and v: "v = obj [(''schema_ref'', JStr (ftc_schema_ref f)),
        (''candidate'', projection_plain_value (pv_TargetCandidate (ftc_candidate f))),
        (''semantic_inputs'', JList (map semantic_to_dict (ftc_semantic_inputs f))),
        (''measurement_contract'', mv), (''risk_class'', JStr (ftc_risk_class f))]"
    and h: "validate_json_root plan_mode v ''FormalTargetCandidate'' = Inr h"
    using assms(1) by (auto simp: formal_target_candidate_to_dict_def Let_def)
  have ok: "formal_admissible contract f" using val by (rule validate_formal_Inr)
  have bounded: "lists_bounded (projection_plain_value (pv_TargetCandidate (ftc_candidate f)))"
    "length (ftc_semantic_inputs f) \<le> BUNDLE_PROJECTION_MAX_TUPLE_ITEMS"
    using validated_lists [OF h] by (simp_all add: v)
  have "candidate_ok (ftc_candidate f)"
    using ok verify_candidate_refs [OF _ bounded(1)] by (auto simp: formal_admissible_def candidate_accepted_def returns_iff)
  then have cand: "candidate_from_dict (projection_plain_value (pv_TargetCandidate (ftc_candidate f))) = Inr (ftc_candidate f)"
    by (simp add: candidate.parse_ser)
  have sems: "list_all semantic_ok (ftc_semantic_inputs f)"
    using ok contract_by_key_semantic [OF assms(2)] by (fastforce simp: formal_admissible_def list_all_iff)
  have rows: "object_list (JList (map semantic_to_dict (ftc_semantic_inputs f))) c = Inr (map semantic_to_dict (ftc_semantic_inputs f))"
    "mapE semantic_from_dict (map semantic_to_dict (ftc_semantic_inputs f)) = Inr (ftc_semantic_inputs f)" for c
    using semantic.ser_list_dicts [OF mapE_total] semantic.parse_ser_list [OF sems mapE_total] bounded(2)
    by (auto simp: object_list_iff)
  have risk: "risk_class (JStr (ftc_risk_class f)) = Inr (ftc_risk_class f)" "ftc_schema_ref f = L FORMAL_TARGET_CANDIDATE_SCHEMA_REF"
    using ok by (simp_all add: formal_admissible_def risk_class_iff)
  show ?thesis
    using cand rows measurement_round_trip [OF mv] risk val h
    by (cases f) (simp add: v formal_target_candidate_from_dict_def exact_dict_iff keys_are_def Let_def)
qed

lemma formal_to_dict_dict: "formal_target_candidate_to_dict f contract = Inr v \<Longrightarrow> is_dict v"
  by (auto simp: formal_target_candidate_to_dict_def Let_def)

interpretation formal: codec "\<lambda>v. formal_target_candidate_from_dict v contract"
    "\<lambda>f. formal_target_candidate_to_dict f contract" "\<lambda>_. contract_semantics_ok contract" for contract
  by unfold_locales (auto simp: formal_round_trip formal_to_dict_dict)

lemma formal_rows:
  assumes "mapE (\<lambda>f. formal_target_candidate_to_dict f contract) fs = Inr rows" and "contract_semantics_ok contract"
    and "length rows \<le> BUNDLE_PROJECTION_MAX_TUPLE_ITEMS"
  shows "object_list (JList rows) c = Inr rows"
    and "mapE (\<lambda>v. formal_target_candidate_from_dict v contract) rows = Inr fs"
  using formal.ser_list_dicts [OF assms(1)] formal.parse_ser_list [OF _ assms(1)] assms(2,3)
  by (auto simp: object_list_iff list_all_iff)

subsection \<open>Strategy updates\<close>

lemma strategy_update_keys:
  "keys_are (map (\<lambda>p. (L (fst p), snd p)) (kvs @ (case n of None \<Rightarrow> [] | Some t \<Rightarrow> [(''notes'', JStr t)])))
      strategy_update_required
   \<longleftrightarrow> fst ` set kvs \<union> (if n = None then {} else {''notes''}) = set strategy_update_required"
  by (cases n) (simp_all add: keys_are_obj del: map_append)

lemma strategy_update_round_trip:
  assumes "strategy_update_to_dict u contract = Inr v" and "contract_semantics_ok contract"
  shows "strategy_update_from_dict v contract = Inr u"
proof -
  let ?u = "fsu_update u"
  obtain rows h where val: "validate_update_pair u contract = Inr ()"
    and rows: "mapE (\<lambda>f. formal_target_candidate_to_dict f contract) (fsu_candidates u) = Inr rows"
    and v: "v = obj
       ([(''schema_ref'', JStr (fsu_schema_ref u)), (''revision'', JInt (su_revision ?u)), (''candidates'', JList rows),
         (''requires_accepted_labels'', jstrs (su_requires_accepted_labels ?u)),
         (''strategy_complete'', JBool (su_strategy_complete ?u))]
        @ (case fsu_notes u of None \<Rightarrow> [] | Some notes \<Rightarrow> [(''notes'', JStr notes)]))"
    and h: "validate_json_root notes_mode v ''FormalStrategyUpdate'' = Inr h"
    using assms(1) by (auto simp: strategy_update_to_dict_def Let_def)
  obtain d where pair: "fsu_schema_ref u = L FORMAL_STRATEGY_UPDATE_SCHEMA_REF"
    "su_candidates ?u = map ftc_candidate (fsu_candidates u)"
    "positive_int (JInt (su_revision ?u)) ''strategy revision'' = Inr (su_revision ?u)"
    "string_list (jstrs (su_requires_accepted_labels ?u)) ''requires_accepted_labels'' True = Inr (su_requires_accepted_labels ?u)"
    "validate_closed_bundle_projection (pv_StrategyUpdate ?u) ''StrategyUpdate'' BUNDLE_ROOT_MAX_SERIALIZED_BYTES = Inr d"
    using val by (auto simp: validate_update_pair_def positive_int_Inr string_list_iff)
  have "length rows \<le> BUNDLE_PROJECTION_MAX_TUPLE_ITEMS" using validated_lists [OF h] by (simp add: v)
  note parsed = formal_rows [OF rows assms(2) this]
  have bool: "exact_bool (JBool b) n = Inr b" for b n by (simp add: exact_bool_iff)
  have rec: "\<lparr>su_revision = su_revision ?u, su_candidates = map ftc_candidate (fsu_candidates u),
      su_requires_accepted_labels = su_requires_accepted_labels ?u, su_strategy_complete = su_strategy_complete ?u\<rparr> = ?u"
    using pair(2) by (cases ?u) simp
  have closed: "validate_closed_bundle_projection (pv_StrategyUpdate
      \<lparr>su_revision = su_revision ?u, su_candidates = map ftc_candidate (fsu_candidates u),
        su_requires_accepted_labels = su_requires_accepted_labels ?u, su_strategy_complete = su_strategy_complete ?u\<rparr>)
      ''StrategyUpdate'' BUNDLE_ROOT_MAX_SERIALIZED_BYTES = Inr d"
    using pair(5) by (subst rec)
  show ?thesis
  proof (cases "fsu_notes u")
    case None
    show ?thesis
      using parsed pair h bool rec closed None
      by (cases u)
         (simp add: v strategy_update_from_dict_def exact_object_def keys_are_def strategy_update_required_def Let_def)
  next
    case (Some t)
    show ?thesis
      using parsed pair h bool rec closed Some
      by (cases u)
         (simp add: v strategy_update_from_dict_def exact_object_def keys_are_def strategy_update_required_def Let_def insert_commute)
  qed
qed

text \<open>
  C22. A strategy update survives its round trip: over a completion contract whose texts are well
  formed, the document the serialiser writes for an update parses back to that very update, notes
  included.
\<close>
theorem strategy_update_codec:
  assumes "strategy_update_to_dict u contract = Inr v" and "contract_semantics_ok contract"
  shows "strategy_update_from_dict v contract = Inr u"
  using assms by (rule strategy_update_round_trip)

subsection \<open>Strategy snapshots\<close>

lemma hex64_ref: "is_hex64 h \<Longrightarrow> sha256_value (JStr h) n = Inr h"
proof -
  assume "is_hex64 h"
  then have len: "length (codes h) = 64" and set_in: "schars_in h ''0123456789abcdef''"
    by (auto simp: is_hex64_def slen_def)
  have cs: "list_all (\<lambda>c. (48 \<le> c \<and> c \<le> 57) \<or> (97 \<le> c \<and> c \<le> 102)) (codes h)"
    using set_in by (auto simp: schars_in_def list_all_iff dest!: bspec)
  have asc: "list_all (\<lambda>c. 33 \<le> c \<and> c < 128) (codes h)" using cs by (auto simp: list_all_iff)
  have "codes h \<noteq> []" using len by auto
  then have "hd (codes h) \<in> set (codes h)" "last (codes h) \<in> set (codes h)" by simp_all
  then have "\<not> is_space (hd (codes h))" "\<not> is_space (last (codes h))"
    using asc cs by (auto simp: list_all_iff is_space_def)
  then have "h = strip h" and "\<not> is_blank h"
    using \<open>codes h \<noteq> []\<close> \<open>hd (codes h) \<in> set (codes h)\<close> by (auto simp: strip_fix_iff is_blank_iff list_all_iff)
  moreover have "encode_utf8 h = Inr (codes h)"
    using asc by (simp add: encode_utf8_def utf8_codes_ascii list_all_iff)
  moreover have "\<not> scontains 0 h" "\<not> scontains 13 h" "\<not> scontains 10 h"
    using asc by (auto simp: scontains_def list_all_iff)
  moreover note set_in
  ultimately show ?thesis
    using len by (simp add: sha256_value_def ref_value_iff ref_ok_def slen_def BUNDLE_PROJECTION_STRING_MAX_UTF8_BYTES_def)
qed

lemma completion_contract_hash_hex: "completion_contract_hash contract = Inr h \<Longrightarrow> is_hex64 h"
  by (auto simp: completion_contract_hash_def validate_json_root_decides)

lemma snapshot_round_trip:
  assumes "rolling_strategy_state_to_dict state contract = Inr v" and "contract_semantics_ok contract"
  shows "rolling_strategy_state_from_dict v contract None = Inr state"
proof -
  obtain rows h where val: "validate_state state contract = Inr ()"
    and rows: "mapE (\<lambda>f. formal_target_candidate_to_dict f contract) (rss_candidates state) = Inr rows"
    and v: "v = obj [(''schema_ref'', JStr (rss_schema_ref state)),
        (''completion_contract_hash'', JStr (rss_completion_contract_hash state)),
        (''revision'', JInt (su_revision (rss_strategy state))), (''candidates'', JList rows),
        (''strategy_complete'', JBool (su_strategy_complete (rss_strategy state)))]"
    and h: "validate_json_root plan_mode v ''RollingStrategyState'' = Inr h"
    using assms(1) by (auto simp: rolling_strategy_state_to_dict_def Let_def)
  have sv: "state_valid state contract" using val by (simp add: state_valid_def)
  note st = sv [unfolded state_valid_iff]
  have "length rows \<le> BUNDLE_PROJECTION_MAX_TUPLE_ITEMS" using validated_lists [OF h] by (simp add: v)
  note parsed = formal_rows [OF rows assms(2) this]
  have hash: "sha256_value (JStr (rss_completion_contract_hash state)) n = Inr (rss_completion_contract_hash state)" for n
    using st completion_contract_hash_hex by (intro hex64_ref) blast
  have rev: "nonnegative_int (JInt (su_revision (rss_strategy state))) n = Inr (su_revision (rss_strategy state))" for n
    using st by (simp add: nonnegative_int_Inr revision_def)
  have rec: "\<lparr>su_revision = su_revision (rss_strategy state), su_candidates = map ftc_candidate (rss_candidates state),
      su_requires_accepted_labels = [], su_strategy_complete = su_strategy_complete (rss_strategy state)\<rparr> = rss_strategy state"
    using st by (cases "rss_strategy state") (simp add: candidates_of_def)
  show ?thesis
    using parsed hash rev h val rec st
    by (cases state)
       (simp add: v rolling_strategy_state_from_dict_def exact_dict_iff keys_are_def Let_def exact_bool_iff)
qed

text \<open>
  C21. A strategy survives being stored: the snapshot document of a valid state parses back to that
  state.
\<close>
theorem strategy_snapshot_codec:
  assumes "rolling_strategy_state_to_dict state contract = Inr v" and "contract_semantics_ok contract"
  shows "rolling_strategy_state_from_dict v contract None = Inr state"
  using assms by (rule snapshot_round_trip)

end
