(* ===== verification/StrategySample.thy ===== *)
theory StrategySample
  imports SmallRoots StrategyCodecs
begin

text \<open>
  A concrete strategy: a completion contract of one experiment with one measurement cell, a formal
  candidate that covers it, and the update that seals the strategy.  It is admitted step by step
  and witnesses the promises of candidates, updates and snapshots.
\<close>

text \<open>A short word of printable ASCII is admitted wherever a reference or a Plan text is.\<close>

definition word_text :: "string \<Rightarrow> bool" where
  "word_text s \<longleftrightarrow> s \<noteq> [] \<and> length s \<le> 64 \<and> list_all (\<lambda>c. 33 \<le> (of_char c :: nat) \<and> of_char c < (127 :: nat)) s"

lemma word_text_ok:
  assumes "word_text s"
  shows "ref_ok (L s)" and "plan_text_ok (L s)"
proof -
  have all: "list_all (\<lambda>c. 33 \<le> c \<and> c < 127) (codes (L s))" and ne: "codes (L s) \<noteq> []" and len: "length (codes (L s)) \<le> 64"
    using assms by (auto simp: word_text_def list_all_iff)
  then have asc: "list_all (\<lambda>c. c < 128) (codes (L s))" by (auto simp: list_all_iff)
  have sp: "c \<in> set (codes (L s)) \<Longrightarrow> \<not> is_space c" for c using all by (auto simp: list_all_iff is_space_def)
  have blank: "\<not> is_blank (L s)" using ne sp [of "hd (codes (L s))"] by (auto simp: is_blank_iff list_all_iff simp del: codes_L)
  have "L s = strip (L s)"
    using ne sp [of "hd (codes (L s))"] sp [of "last (codes (L s))"] by (auto simp: strip_fix_iff simp del: codes_L)
  moreover have "encode_utf8 (L s) = Inr (codes (L s))" using asc by (simp add: encode_utf8_def utf8_codes_ascii del: codes_L)
  moreover have "\<not> scontains 0 (L s)" "\<not> scontains 13 (L s)" "\<not> scontains 10 (L s)"
    using all by (auto simp: scontains_def list_all_iff simp del: codes_L)
  ultimately show "ref_ok (L s)" and "plan_text_ok (L s)"
    using len blank
    by (auto simp: ref_ok_def plan_text_ok_def slen_def BUNDLE_PROJECTION_STRING_MAX_UTF8_BYTES_def PLAN_TEXT_MAX_CHARS_def)
qed

abbreviation js :: "string \<Rightarrow> json" where
  "js s \<equiv> JStr (L s)"

definition unit_document :: json where
  "unit_document = obj [(''unit'', js ''ms''), (''split'', JList [js ''test''])]"

definition unit_frozen :: FrozenJsonObject where
  "unit_frozen = \<lparr>fjo_canonical_json = Str (json_codes unit_document)\<rparr>"

lemma unit_small: "small 64 unit_document" "json_size unit_document < 65536"
  by (simp_all add: unit_document_def slen_def BUNDLE_PROJECTION_MAX_TUPLE_ITEMS_def)

lemma unit_routed: "\<not> routed schema unit_document"
  by (simp add: unit_document_def routing_key_def domain_routing_fields_def casefold_def sreplace_def)
     (simp add: L_def)

lemma unit_domain: "domain_document unit_document name = Inr unit_frozen"
  using unit_small unit_routed [of "name = SCHEMA_NAME"] unfolding unit_frozen_def
  by (simp add: unit_document_def small_domain_document del: small.simps json_size.simps routed.simps json_codes.simps)

lemma unit_loadable: "loadable unit_document"
  using small_ascii [OF unit_small(1)] by (simp add: loadable_def ascii_json_plain) (simp add: unit_document_def)

lemma unit_valid: "validate_frozen_domain_document unit_frozen name = Inr ()"
  using frozen_document_valid(1) [OF unit_domain unit_loadable] .

lemma unit_as_dict: "as_dict unit_frozen = Inr (obj_items (key_sorted unit_document))"
  using frozen_document_valid(2) [OF unit_domain [of "[]"] unit_loadable] by (metis obj_items.simps(1))

subsection \<open>The completion contract\<close>

definition one_semantics :: FrozenSemanticInputs where
  "one_semantics = \<lparr>fsi_experiment_key = L ''x1'', fsi_goal = L ''g'', fsi_characteristics = L ''c'',
     fsi_boundary_constraints = L ''b'', fsi_semantic_delta = L ''d''\<rparr>"

definition one_brief :: ExperimentBrief where
  "one_brief = \<lparr>eb_experiment_key = L ''x1'', eb_semantic_delta = L ''d'', eb_held_fixed_slots = [L ''data''],
     eb_required_measurement_unit_keys = [L ''m1'', L ''m2'']\<rparr>"

definition one_plan_brief :: json where
  "one_plan_brief = obj
     [(''experiment_key'', js ''x1''), (''gap_obligation_keys'', JList [js ''o1'']), (''goal'', js ''g''), (''characteristics'', js ''c''),
      (''boundary_constraints'', js ''b''), (''semantic_delta'', js ''d''), (''contributing_idea_refs'', JList [])]"

definition one_plan_document :: json where
  "one_plan_document = obj
     [(''schema_ref'', js PLAN_DOCUMENT_SCHEMA_REF), (''kind'', js ''PlanDocument''),
      (''bundle_disposition'', js ''experiments_required''), (''gap_set'', JList [js ''o1'']),
      (''experiment_briefs'', JList [one_plan_brief])]"

definition one_plan_hash :: str where
  "one_plan_hash = sha256_hex (json_codes one_plan_document)"

definition one_contract :: NormalizedCompletionContract where
  "one_contract = \<lparr>ncc_plan_document_hash = one_plan_hash,
     ncc_experiments = [\<lparr>nec_semantic_inputs = one_semantics, nec_brief = one_brief\<rparr>],
     ncc_schema_ref = L NORMALIZED_COMPLETION_CONTRACT_SCHEMA_REF\<rparr>"

lemma one_hash_ascii: "list_all (\<lambda>c. c < 128) (codes (sha256_hex xs))" "slen (sha256_hex xs) = 64"
  using sha256_hex_is_hex64 [of xs] by (auto simp: is_hex64_def schars_in_def list_all_iff dest!: bspec)

lemma one_plan_hash_ascii: "list_all (\<lambda>c. c < 128) (codes one_plan_hash)" "slen one_plan_hash = 64" "length (codes one_plan_hash) = 64"
  using one_hash_ascii [of "json_codes one_plan_document"] by (simp_all add: one_plan_hash_def slen_def)

definition one_contract_hash :: str where
  "one_contract_hash = sha256_hex (json_codes (obj
     [(''schema_ref'', js NORMALIZED_COMPLETION_CONTRACT_SCHEMA_REF),
      (''plan_document_hash'', JStr one_plan_hash),
      (''experiments'', JList [experiment_completion_to_dict \<lparr>nec_semantic_inputs = one_semantics, nec_brief = one_brief\<rparr>])]))"

lemmas small_simps = slen_def BUNDLE_PROJECTION_MAX_TUPLE_ITEMS_def semantic_to_dict_def pv_strs_def jstrs_def

lemma one_completion_hash: "completion_contract_hash one_contract = Inr one_contract_hash"
proof -
  let ?v = "obj
     [(''schema_ref'', js NORMALIZED_COMPLETION_CONTRACT_SCHEMA_REF),
      (''plan_document_hash'', JStr one_plan_hash),
      (''experiments'', JList [experiment_completion_to_dict \<lparr>nec_semantic_inputs = one_semantics, nec_brief = one_brief\<rparr>])]"
  have "small 64 ?v" "json_size ?v < 65536"
    by (simp_all add: one_plan_hash_ascii small_simps experiment_completion_to_dict_def one_semantics_def one_brief_def
        pv_ExperimentBrief_def NORMALIZED_COMPLETION_CONTRACT_SCHEMA_REF_def)
  from small_root [OF this]
  have "\<And>mode name. validate_json_root mode ?v name = Inr one_contract_hash" unfolding one_contract_hash_def .
  then show ?thesis
    by (simp add: completion_contract_hash_def normalized_completion_contract_to_dict_def one_contract_def Let_def)
qed

lemma one_contract_semantics: "contract_semantics_ok one_contract"
  by (simp add: contract_semantics_ok_def one_contract_def one_semantics_def semantic_ok_def word_text_ok word_text_def)

subsection \<open>Two candidates\<close>

definition one_candidate :: "string \<Rightarrow> string \<Rightarrow> str list \<Rightarrow> TargetCandidate" where
  "one_candidate label cell deps = \<lparr>tc_local_label = L label, tc_experiment_keys = [L ''x1''],
     tc_measurement_unit_keys = [L cell],
     tc_held_fixed_bindings = [\<lparr>hfb_semantic_slot = L ''data'', hfb_implementation_revision_ref = L ''rev1''\<rparr>],
     tc_implementation_revision_ref = L ''rev1'', tc_code_changed = True,
     tc_routes = [\<lparr>rs_route_ref = L ''train'', rs_known_external_operation_refs = []\<rparr>],
     tc_depends_on_labels = deps, tc_direct_accepted_input_asset_refs = []\<rparr>"

lemma one_briefs: "briefs_by_key one_contract = [(L ''x1'', one_brief)]"
  "contract_by_key one_contract = [(L ''x1'', \<lparr>nec_semantic_inputs = one_semantics, nec_brief = one_brief\<rparr>)]"
  by (simp_all add: briefs_by_key_def contract_by_key_def dict_of_def one_contract_def one_brief_def)

lemmas one_candidate_simps = one_candidate_def pv_TargetCandidate_def pv_HeldFixedBinding_def pv_RouteSpec_def hints_TargetCandidate_def
  hints_HeldFixedBinding_def hints_RouteSpec_def duplicate_sensitive_types_def

definition first_candidate :: TargetCandidate where
  "first_candidate = one_candidate ''t1'' ''m1'' []"

definition second_candidate :: TargetCandidate where
  "second_candidate = one_candidate ''t2'' ''m2'' [L ''t1'']"

lemma one_projections:
  "\<exists>d. validate_closed_bundle_projection (pv_TargetCandidate first_candidate) ''TargetCandidate'' BUNDLE_ROOT_MAX_SERIALIZED_BYTES = Inr d"
  "\<exists>d. validate_closed_bundle_projection (pv_TargetCandidate second_candidate) ''TargetCandidate'' BUNDLE_ROOT_MAX_SERIALIZED_BYTES = Inr d"
  by (rule closed_projection_admits; simp add: walk_simps one_candidate_simps first_candidate_def second_candidate_def)+

lemma one_verified:
  assumes "c \<in> {first_candidate, second_candidate}"
  shows "verify_candidate c (briefs_by_key one_contract) = Inr [(L ''data'', L ''rev1'')]"
proof -
  have "\<exists>d. validate_closed_bundle_projection (pv_TargetCandidate c) ''TargetCandidate'' BUNDLE_ROOT_MAX_SERIALIZED_BYTES = Inr d"
    using assms one_projections by blast
  then show ?thesis
    using assms
    by (auto simp: verify_candidate_def one_briefs first_candidate_def second_candidate_def one_candidate_def ref_value_iff
        canonical_string_tuple_iff word_text_ok word_text_def check_cell_required_def dict_item_def one_brief_def expected_slots_def
        binding_map_def binding_step_def check_route_def Let_def)
qed

subsection \<open>Measurement contracts and formal candidates\<close>

definition one_protocol :: FrozenProtocolVersionCandidate where
  "one_protocol = \<lparr>fpv_evaluation_data = unit_frozen, fpv_split = unit_frozen, fpv_preprocessing = unit_frozen,
     fpv_required_metrics = [\<lparr>fmd_metric_key = L ''acc'', fmd_definition = unit_frozen\<rparr>], fpv_optional_metrics = [],
     fpv_internal_part_keys = [], fpv_aggregation = None,
     fpv_preregistered_stop_rules = [\<lparr>fsr_rule_ref = L ''s1'', fsr_rule = unit_frozen\<rparr>],
     fpv_schema_ref = L PROTOCOL_VERSION_CANDIDATE_SCHEMA_REF\<rparr>"

definition one_measurement :: "string \<Rightarrow> TargetMeasurementContractCandidate" where
  "one_measurement cell = \<lparr>tmc_experiment_keys = [L ''x1''], tmc_measurement_unit_key = L cell,
     tmc_baseline_forward_contract = unit_frozen, tmc_variant_recipe = unit_frozen,
     tmc_evaluation_protocol_lineage = unit_frozen, tmc_protocol_version = one_protocol,
     tmc_checkpoint_policy = L ''optional'', tmc_result_schema_ref = L ''rs'', tmc_result_schema = unit_frozen,
     tmc_schema_ref = L MEASUREMENT_CONTRACT_CANDIDATE_SCHEMA_REF\<rparr>"

definition read_back :: json where
  "read_back = JDict (obj_items (key_sorted unit_document))"

lemma read_back_small: "small 20 read_back" "json_size read_back < 300" "is_dict read_back"
proof -
  have read_eq: "read_back = key_sorted unit_document"
    by (simp add: read_back_def unit_document_def del: key_sorted.simps) (simp add: unit_document_def)
  have "small 20 unit_document" "json_size unit_document < 300"
    by (simp_all add: unit_document_def slen_def BUNDLE_PROJECTION_MAX_TUPLE_ITEMS_def)
  then show "small 20 read_back" and "json_size read_back < 300"
    unfolding read_eq small_key_sorted json_size_key_sorted by blast+
qed (simp add: read_back_def)

lemma read_back_small_at [simp]: "20 \<le> n \<Longrightarrow> small n read_back"
  using small_mono [OF read_back_small(1)] .

definition protocol_document :: json where
  "protocol_document = obj
     [(''schema_ref'', js PROTOCOL_VERSION_CANDIDATE_SCHEMA_REF), (''evaluation_data'', read_back), (''split'', read_back),
      (''preprocessing'', read_back), (''required_metrics'', JList [obj [(''metric_key'', js ''acc''), (''definition'', read_back)]]),
      (''optional_metrics'', JList []), (''internal_part_keys'', JList []), (''aggregation'', JNull),
      (''preregistered_stop_rules'', JList [obj [(''rule_ref'', js ''s1''), (''rule'', read_back)]])]"

definition measurement_document :: "string \<Rightarrow> json" where
  "measurement_document cell = obj
     [(''schema_ref'', js MEASUREMENT_CONTRACT_CANDIDATE_SCHEMA_REF), (''experiment_keys'', JList [js ''x1'']),
      (''measurement_unit_key'', js cell), (''baseline_forward_contract'', read_back), (''variant_recipe'', read_back),
      (''evaluation_protocol_lineage'', read_back), (''protocol_version'', protocol_document),
      (''checkpoint_policy'', js ''optional''), (''result_schema_ref'', js ''rs''), (''result_schema'', read_back)]"

lemma one_protocol_valid: "validate_protocol_version one_protocol = Inr ()"
  by (simp add: validate_protocol_version_def one_protocol_def unit_valid validate_metric_definitions_def metric_key_def ref_value_iff utf8_bytes_of_Inr plain_ascii_encode word_text_ok word_text_def
      METRIC_DEFINITION_MAX_ITEMS_def canonical_string_tuple_iff validate_stop_rule_def BUNDLE_PROJECTION_MAX_TUPLE_ITEMS_def)

lemma one_protocol_document: "protocol_version_to_dict one_protocol = Inr protocol_document"
  by (simp add: protocol_version_to_dict_def one_protocol_def unit_as_dict metric_definition_to_dict_def stop_rule_to_dict_def
      protocol_document_def read_back_def jstrs_def)

lemma read_back_size: "json_size read_back \<le> 300"
  using read_back_small(2) by simp

lemma measurement_small:
  assumes "cell = ''m1'' \<or> cell = ''m2''"
  shows "small 40 (measurement_document cell)" and "json_size (measurement_document cell) < 7000"
  using assms read_back_size
  by (auto simp: measurement_document_def protocol_document_def MEASUREMENT_CONTRACT_CANDIDATE_SCHEMA_REF_def
      PROTOCOL_VERSION_CANDIDATE_SCHEMA_REF_def small_simps)

lemma one_measurement_document:
  assumes "cell = ''m1'' \<or> cell = ''m2''"
  shows "measurement_contract_to_dict (one_measurement cell) = Inr (measurement_document cell)"
    and "validate_measurement_contract (one_measurement cell) = Inr ()"
proof -
  have unv: "measurement_contract_to_unvalidated_dict (one_measurement cell) = Inr (measurement_document cell)"
    by (simp add: measurement_contract_to_unvalidated_dict_def one_measurement_def unit_as_dict one_protocol_document
        measurement_document_def read_back_def jstrs_def)
  have root: "validate_json_root mode (measurement_document cell) name = Inr (sha256_hex (json_codes (measurement_document cell)))" for mode name
    using small_mono [OF measurement_small(1) [OF assms]] measurement_small(2) [OF assms] by (intro small_root) simp_all
  show val: "validate_measurement_contract (one_measurement cell) = Inr ()"
    using assms
    by (auto simp: validate_measurement_contract_def unv root)
       (auto simp: one_measurement_def canonical_string_tuple_iff ref_value_iff word_text_ok word_text_def unit_valid one_protocol_valid
        checkpoint_policy_iff)
  show "measurement_contract_to_dict (one_measurement cell) = Inr (measurement_document cell)"
    by (simp add: measurement_contract_to_dict_def val unv root)
qed

definition one_formal :: "TargetCandidate \<Rightarrow> string \<Rightarrow> FormalTargetCandidate" where
  "one_formal c cell = \<lparr>ftc_candidate = c, ftc_semantic_inputs = [one_semantics], ftc_measurement_contract = one_measurement cell,
     ftc_risk_class = L ''normal'', ftc_schema_ref = L FORMAL_TARGET_CANDIDATE_SCHEMA_REF\<rparr>"

definition first_formal :: FormalTargetCandidate where
  "first_formal = one_formal first_candidate ''m1''"

definition second_formal :: FormalTargetCandidate where
  "second_formal = one_formal second_candidate ''m2''"

lemmas one_formal_simps = first_formal_def second_formal_def one_formal_def first_candidate_def second_candidate_def one_candidate_def

lemma one_formals_valid:
  "validate_formal_candidate first_formal one_contract = Inr ()"
  "validate_formal_candidate second_formal one_contract = Inr ()"
  using one_verified [of first_candidate] one_verified [of second_candidate]
    one_measurement_document(2) [of "''m1''"] one_measurement_document(2) [of "''m2''"]
  by (simp_all add: validate_formal_candidate_def one_formal_simps risk_class_iff Let_def)
     (simp_all add: one_measurement_def one_semantics_def semantic_input_step_def check_semantic_input_def one_briefs dict_item_def)

definition formal_document :: "TargetCandidate \<Rightarrow> string \<Rightarrow> json" where
  "formal_document c cell = obj
     [(''schema_ref'', js FORMAL_TARGET_CANDIDATE_SCHEMA_REF), (''candidate'', projection_plain_value (pv_TargetCandidate c)),
      (''semantic_inputs'', JList [semantic_to_dict one_semantics]), (''measurement_contract'', measurement_document cell),
      (''risk_class'', js ''normal'')]"

lemma candidate_document_small:
  assumes "c = first_candidate \<or> c = second_candidate"
  shows "small 30 (projection_plain_value (pv_TargetCandidate c))" and "json_size (projection_plain_value (pv_TargetCandidate c)) < 3000"
  using assms by (auto simp: first_candidate_def second_candidate_def one_candidate_simps small_simps)

lemma formal_document_small:
  assumes "c = first_candidate \<or> c = second_candidate" and "cell = ''m1'' \<or> cell = ''m2''"
  shows "small 64 (formal_document c cell)" and "json_size (formal_document c cell) < 15000"
  using small_mono [OF measurement_small(1) [OF assms(2)], of 63] small_mono [OF candidate_document_small(1) [OF assms(1)], of 63]
    measurement_small(2) [OF assms(2)] candidate_document_small(2) [OF assms(1)]
  by (simp_all add: formal_document_def FORMAL_TARGET_CANDIDATE_SCHEMA_REF_def small_simps one_semantics_def)

lemma one_formal_documents:
  "formal_target_candidate_to_dict first_formal one_contract = Inr (formal_document first_candidate ''m1'')"
  "formal_target_candidate_to_dict second_formal one_contract = Inr (formal_document second_candidate ''m2'')"
proof -
  have doc: "formal_target_candidate_to_dict (one_formal c cell) one_contract = Inr (formal_document c cell)"
    if c: "c = first_candidate \<or> c = second_candidate" and cell: "cell = ''m1'' \<or> cell = ''m2''"
      and val: "validate_formal_candidate (one_formal c cell) one_contract = Inr ()" for c cell
    using small_root [OF formal_document_small(1) [OF c cell]] formal_document_small(2) [OF c cell] one_measurement_document(1) [OF cell]
    by (simp add: formal_target_candidate_to_dict_def val Let_def) (simp add: one_formal_def formal_document_def)
  show "formal_target_candidate_to_dict first_formal one_contract = Inr (formal_document first_candidate ''m1'')"
    and "formal_target_candidate_to_dict second_formal one_contract = Inr (formal_document second_candidate ''m2'')"
    using doc [of first_candidate "''m1''"] doc [of second_candidate "''m2''"] one_formals_valid
    by (simp_all add: first_formal_def second_formal_def)
qed

subsection \<open>Two updates seal the strategy\<close>

definition one_update :: "int \<Rightarrow> FormalTargetCandidate list \<Rightarrow> str list \<Rightarrow> bool \<Rightarrow> str option \<Rightarrow> FormalStrategyUpdate" where
  "one_update n fs required final note =
     \<lparr>fsu_update = \<lparr>su_revision = n, su_candidates = map ftc_candidate fs, su_requires_accepted_labels = required,
        su_strategy_complete = final\<rparr>,
      fsu_candidates = fs, fsu_schema_ref = L FORMAL_STRATEGY_UPDATE_SCHEMA_REF, fsu_notes = note\<rparr>"

definition first_update :: FormalStrategyUpdate where
  "first_update = one_update 1 [first_formal] [] False None"

definition second_update :: FormalStrategyUpdate where
  "second_update = one_update 2 [second_formal] [L ''t1''] True (Some (L ''sealed''))"

lemma one_update_projections:
  "\<exists>d. validate_closed_bundle_projection (pv_StrategyUpdate (fsu_update first_update)) ''StrategyUpdate'' BUNDLE_ROOT_MAX_SERIALIZED_BYTES = Inr d"
  "\<exists>d. validate_closed_bundle_projection (pv_StrategyUpdate (fsu_update second_update)) ''StrategyUpdate'' BUNDLE_ROOT_MAX_SERIALIZED_BYTES = Inr d"
  by (rule closed_projection_admits;
      simp add: walk_simps one_candidate_simps one_formal_simps first_update_def second_update_def one_update_def pv_StrategyUpdate_def
        hints_StrategyUpdate_def)+

lemma one_updates_valid:
  "validate_update_pair first_update one_contract = Inr ()" "validate_update_pair second_update one_contract = Inr ()"
  using one_update_projections one_formals_valid
  by (auto simp: validate_update_pair_def first_update_def second_update_def one_update_def positive_int_Inr string_list_iff
      word_text_ok word_text_def BUNDLE_CANONICAL_INTEGER_MAX_ABS_def)

end
