(* ===== verification/StrategyRun.thy ===== *)
theory StrategyRun
  imports StrategySample
begin

text \<open>
  The concrete strategy run to its seal, and the witnesses it gives for the promises of candidate
  sets, frozen documents, strategy updates and snapshots.
\<close>

lemma one_accepted:
  "candidate_accepted (briefs_by_key one_contract) first_candidate"
  "candidate_accepted (briefs_by_key one_contract) second_candidate"
  using one_verified by (simp_all add: candidate_accepted_def)

lemma candidate_parts [simp]:
  "tc_local_label first_candidate = L ''t1''" "tc_local_label second_candidate = L ''t2''"
  "tc_experiment_keys first_candidate = [L ''x1'']" "tc_experiment_keys second_candidate = [L ''x1'']"
  "tc_depends_on_labels first_candidate = []" "tc_depends_on_labels second_candidate = [L ''t1'']"
  "cell_of first_candidate = L ''m1''" "cell_of second_candidate = L ''m2''"
  "binding_pairs second_candidate = binding_pairs first_candidate"
  by (simp_all add: first_candidate_def second_candidate_def one_candidate_def cell_of_def binding_pairs_def)

lemma formal_parts [simp]:
  "ftc_candidate first_formal = first_candidate" "ftc_candidate second_formal = second_candidate"
  by (simp_all add: first_formal_def second_formal_def one_formal_def)

lemma depends_on_simps [simp]:
  "depends_on [] = {}" "depends_on (c # cs) = (\<lambda>d. (d, tc_local_label c)) ` set (tc_depends_on_labels c) \<union> depends_on cs"
  by (auto simp: depends_on_def)

lemma one_dependencies:
  "dependencies_known []" "acyclic (depends_on [])"
  "dependencies_known [first_candidate]" "acyclic (depends_on [first_candidate])"
  "dependencies_known [first_candidate, second_candidate]" "acyclic (depends_on [first_candidate, second_candidate])"
  by (simp_all add: dependencies_known_def labels_of_def) (simp_all add: acyclic_def)

lemma one_sets:
  "verify_candidate_set [first_formal] one_contract = Inr ()"
  "verify_candidate_set [first_formal, second_formal] one_contract = Inr ()"
  using one_accepted one_dependencies
  by (simp_all add: verify_candidate_set_decides candidates_of_def candidate_set_valid_def bindings_agree_def Let_def)

lemma one_covered: "covers_exactly one_contract (candidates_of [first_formal, second_formal])"
proof -
  have req: "requires_cell one_contract key cell \<longleftrightarrow> key = L ''x1'' \<and> (cell = L ''m1'' \<or> cell = L ''m2'')" for key cell
    by (auto simp: requires_cell_def one_contract_def one_brief_def)
  have cover: "covers_cell first_candidate (L ''x1'') cell \<longleftrightarrow> cell = L ''m1''"
    "covers_cell second_candidate (L ''x1'') cell \<longleftrightarrow> cell = L ''m2''" for cell
    by (auto simp: covers_cell_def)
  have "\<exists>!c. c \<in> {first_candidate, second_candidate} \<and> covers_cell c (L ''x1'') cell" if "cell = L ''m1'' \<or> cell = L ''m2''" for cell
    using that cover [of cell] by (intro ex1I [of _ "if cell = L ''m1'' then first_candidate else second_candidate"]) auto
  then show ?thesis unfolding covers_exactly_def req by (simp add: candidates_of_def)
qed

definition one_start :: RollingStrategyState where
  "one_start = \<lparr>rss_completion_contract_hash = one_contract_hash,
     rss_strategy = \<lparr>su_revision = 0, su_candidates = [], su_requires_accepted_labels = [], su_strategy_complete = False\<rparr>,
     rss_candidates = [], rss_schema_ref = L ROLLING_STRATEGY_STATE_SCHEMA_REF\<rparr>"

definition one_middle :: RollingStrategyState where
  "one_middle = advanced_state one_start first_update"

definition one_sealed :: RollingStrategyState where
  "one_sealed = advanced_state one_middle second_update"

lemma one_started: "start_rolling_strategy one_contract = Inr one_start"
  by (simp add: start_rolling_strategy_def one_completion_hash one_start_def)

lemmas one_update_simps = first_update_def second_update_def one_update_def one_start_def one_middle_def advanced_state_def Let_def

lemma first_applied: "apply_strategy_update one_start first_update one_contract [] = Inr one_middle"
proof -
  have "update_admissible one_start first_update []"
    by (simp add: update_admissible_def strategy_sealed_def revision_def one_update_simps)
  then show ?thesis
    using start_valid [OF one_started] one_updates_valid(1) one_sets(1)
    by (simp add: apply_strategy_update_decides one_middle_def) (simp add: one_update_simps)
qed

lemma second_applied: "apply_strategy_update one_middle second_update one_contract [L ''t1''] = Inr one_sealed"
proof -
  have "state_valid one_middle one_contract" using first_applied rolling_step_facts(4) apply_update by blast
  moreover have "update_admissible one_middle second_update [L ''t1'']"
    by (simp add: update_admissible_def strategy_sealed_def revision_def one_update_simps candidate_label_def)
  moreover have "rss_candidates one_middle @ fsu_candidates second_update = [first_formal, second_formal]"
    by (simp add: one_update_simps)
  ultimately show ?thesis
    using one_updates_valid(2) one_sets(2) one_covered by (simp add: apply_strategy_update_decides one_sealed_def)
qed

lemma one_steps: "rolling_step one_contract one_start one_middle" "rolling_step one_contract one_middle one_sealed"
  using apply_update [OF first_applied] apply_update [OF second_applied] .

lemma one_reachable: "rolling_reachable one_contract one_sealed"
  using rolling_reachable.start [OF one_started] one_steps rolling_reachable.step by blast

subsection \<open>Documents\<close>

definition update_document :: json where
  "update_document = obj
     [(''schema_ref'', js FORMAL_STRATEGY_UPDATE_SCHEMA_REF), (''revision'', JInt 2),
      (''candidates'', JList [formal_document second_candidate ''m2'']), (''requires_accepted_labels'', JList [js ''t1'']),
      (''strategy_complete'', JBool True), (''notes'', js ''sealed'')]"

definition snapshot_document :: json where
  "snapshot_document = obj
     [(''schema_ref'', js ROLLING_STRATEGY_STATE_SCHEMA_REF), (''completion_contract_hash'', JStr one_contract_hash), (''revision'', JInt 2),
      (''candidates'', JList [formal_document first_candidate ''m1'', formal_document second_candidate ''m2'']),
      (''strategy_complete'', JBool True)]"

lemma formal_document_depth:
  assumes "c = first_candidate \<or> c = second_candidate" and "cell = ''m1'' \<or> cell = ''m2''"
  shows "small 62 (formal_document c cell)"
  using small_mono [OF measurement_small(1) [OF assms(2)], of 61] small_mono [OF candidate_document_small(1) [OF assms(1)], of 61]
  by (simp add: formal_document_def FORMAL_TARGET_CANDIDATE_SCHEMA_REF_def small_simps one_semantics_def)

lemma small_documents:
  "small 64 update_document" "json_size update_document < 65536" "small 64 snapshot_document" "json_size snapshot_document < 65536"
proof -
  note F = formal_document_depth [of first_candidate "''m1''"] formal_document_depth [of second_candidate "''m2''"]
    formal_document_small(2) [of first_candidate "''m1''"] formal_document_small(2) [of second_candidate "''m2''"]
  show "small 64 update_document" "json_size update_document < 65536"
    using F by (simp_all add: update_document_def FORMAL_STRATEGY_UPDATE_SCHEMA_REF_def small_simps BUNDLE_CANONICAL_INTEGER_MAX_ABS_def
      int_codes_def nat_codes.simps)
  have "slen one_contract_hash = 64" "list_all (\<lambda>c. c < 128) (codes one_contract_hash)"
    unfolding one_contract_hash_def by (rule one_hash_ascii(2), rule one_hash_ascii(1))
  then show "small 64 snapshot_document" "json_size snapshot_document < 65536"
    using F by (simp_all add: snapshot_document_def ROLLING_STRATEGY_STATE_SCHEMA_REF_def small_simps BUNDLE_CANONICAL_INTEGER_MAX_ABS_def
      int_codes_def nat_codes.simps)
qed

lemma second_update_document: "strategy_update_to_dict second_update one_contract = Inr update_document"
proof -
  have "fsu_candidates second_update = [second_formal]" by (simp add: second_update_def one_update_def)
  then have "mapE (\<lambda>item. formal_target_candidate_to_dict item one_contract) (fsu_candidates second_update)
      = Inr [formal_document second_candidate ''m2'']" by (simp add: one_formal_documents)
  then show ?thesis
    using small_root [OF small_documents(1,2)] one_updates_valid(2)
    by (simp add: strategy_update_to_dict_def Let_def) (simp add: second_update_def one_update_def update_document_def jstrs_def)
qed

lemma sealed_document: "rolling_strategy_state_to_dict one_sealed one_contract = Inr snapshot_document"
proof -
  have val: "validate_state one_sealed one_contract = Inr ()"
    using rolling_step_facts(4) [OF one_steps(2)] by (simp add: state_valid_def)
  have "rss_candidates one_sealed = [first_formal, second_formal]" by (simp add: one_sealed_def one_update_simps)
  then have "mapE (\<lambda>item. formal_target_candidate_to_dict item one_contract) (rss_candidates one_sealed)
      = Inr [formal_document first_candidate ''m1'', formal_document second_candidate ''m2'']" by (simp add: one_formal_documents)
  then show ?thesis
    using small_root [OF small_documents(3,4)]
    by (simp add: rolling_strategy_state_to_dict_def val Let_def) (simp add: one_sealed_def one_update_simps snapshot_document_def)
qed

subsection \<open>Witnesses\<close>

lemma verify_acyclic_iff_witness: "verify_acyclic (index_of [first_candidate, second_candidate]) = Inr ()"
  using verify_acyclic_iff [of "[first_candidate, second_candidate]"] one_dependencies by simp

lemma json_root_key_order_witness:
  "validate_json_root plain_mode (key_sorted unit_document) ''other'' = Inr (sha256_hex (json_codes unit_document))"
  using json_root_key_order [OF same_document_key_sorted(1) [of unit_document]] small_root [OF unit_small] by blast

lemma freeze_domain_document_witness: "domain_document (key_sorted unit_document) ''split'' = Inr unit_frozen"
  using freeze_domain_document [OF unit_domain [of "''split''"] _ _ same_document_key_sorted(2)] unit_loadable
  by (simp add: loadable_def)

lemma apply_strategy_update_iff_witness: "update_admissible one_middle second_update [L ''t1'']"
  using apply_strategy_update_iff [THEN iffD1, OF second_applied] by blast

lemma strategy_update_codec_witness: "strategy_update_from_dict update_document one_contract = Inr second_update"
  using strategy_update_codec [OF second_update_document one_contract_semantics] .

lemma strategy_snapshot_codec_witness: "rolling_strategy_state_from_dict snapshot_document one_contract None = Inr one_sealed"
  using strategy_snapshot_codec [OF sealed_document one_contract_semantics] .

lemma reachable_strategy_invariant_witness: "covers_exactly one_contract (candidates_of (rss_candidates one_sealed))"
proof -
  have "strategy_sealed one_sealed" by (simp add: strategy_sealed_def one_sealed_def one_update_simps)
  then show ?thesis using reachable_strategy_invariant [OF one_reachable] by blast
qed

lemma rolling_run_append_only_witness: "prefix (rss_candidates one_start) (rss_candidates one_sealed)"
  using rolling_run_append_only [of one_contract one_start one_sealed] one_steps by (meson rtranclp.simps)

lemma py_eq_refl: "ascii_json v \<Longrightarrow> wf_json v \<Longrightarrow> py_eq v v"
proof (induction v)
  case (JList xs)
  then show ?case by (auto simp: list_all_iff in_set_zip)
next
  case (JDict d)
  have "case map_of d (fst p) of None \<Rightarrow> False | Some u \<Rightarrow> py_eq (snd p) u" if "p \<in> set d" for p
  proof -
    have "map_of d (fst p) = Some (snd p)" using JDict.prems(2) that by simp
    moreover have "py_eq (snd p) (snd p)" using JDict that by (auto simp: list_all_iff snds.simps)
    ultimately show ?thesis by simp
  qed
  then show ?case by (simp add: list_all_iff)
qed simp_all

lemma wf_key_sorted: "wf_json v \<Longrightarrow> wf_json (key_sorted v)"
proof (induction v)
  case (JList xs)
  then show ?case by (auto simp: list_all_iff)
next
  case (JDict d)
  have "distinct (map fst (sort_key fst d))" using JDict.prems by (simp add: distinct_map)
  moreover have "wf_json (key_sorted (snd p))" if "p \<in> set d" for p
    using JDict that by (auto simp: list_all_iff snds.simps)
  ultimately show ?case by (simp add: list_all_iff comp_def)
qed simp_all

lemma read_back_wf [simp]: "wf_json read_back"
proof -
  have "read_back = key_sorted unit_document"
    by (simp add: read_back_def unit_document_def del: key_sorted.simps) (simp add: unit_document_def)
  then show ?thesis using unit_loadable wf_key_sorted unfolding loadable_def by metis
qed

lemma formal_document_eq: "py_eq (formal_document first_candidate ''m1'') (formal_document first_candidate ''m1'')"
proof (rule py_eq_refl)
  show "ascii_json (formal_document first_candidate ''m1'')" by (rule small_ascii [OF formal_document_small(1)]) simp_all
  show "wf_json (formal_document first_candidate ''m1'')"
    by (simp add: formal_document_def measurement_document_def protocol_document_def semantic_to_dict_def
        first_candidate_def one_candidate_simps pv_strs_def)
qed

lemma snapshot_replaced: "snapshot_step one_contract one_middle one_sealed"
proof -
  have cs: "rss_candidates one_middle = [first_formal]" "rss_candidates one_sealed = [first_formal, second_formal]"
    by (simp_all add: one_sealed_def one_update_simps)
  have revs: "su_revision (rss_strategy one_middle) = 1" "su_revision (rss_strategy one_sealed) = 2"
    "\<not> su_strategy_complete (rss_strategy one_middle)"
    by (simp_all add: one_sealed_def one_update_simps)
  have "validate_state one_middle one_contract = Inr ()"
    using rolling_step_facts(4) [OF one_steps(1)] by (simp add: state_valid_def)
  then have "extends_previous one_sealed one_middle one_contract = Inr ()"
    using formal_document_eq by (simp add: extends_previous_def cs revs one_formal_documents)
  moreover have "rolling_strategy_state_from_dict snapshot_document one_contract None = Inr one_sealed"
    using snapshot_round_trip [OF sealed_document one_contract_semantics] .
  ultimately have "rolling_strategy_state_from_dict snapshot_document one_contract (Some one_middle) = Inr one_sealed"
    by (auto simp: rolling_strategy_state_from_dict_def Let_def)
  then show ?thesis by (auto simp: snapshot_step_def)
qed

lemma snapshot_run_append_only_witness: "revision one_middle \<le> revision one_sealed"
  using snapshot_run_append_only [of one_contract one_middle one_sealed] snapshot_replaced by blast

end
