(* ===== verification/IdeaLaws.thy ===== *)
theory IdeaLaws
  imports IdeaContext
begin

text \<open>
  What an accepted Idea outcome and an accepted Idea context pack guarantee, and which rewrites of
  an outcome its material hash sees through.
\<close>

subsection \<open>Outcomes\<close>

lemma nonempty_str_str: "nonempty_str v \<Longrightarrow> v = JStr (str_of v)"
  by (cases v) simp_all

lemma idea_text_Inr [simp, res_simps]: "idea_require_text v label = Inr u \<longleftrightarrow> (\<exists>s. v = JStr s \<and> \<not> is_blank s)"
  by (cases v) (auto simp: idea_require_text_def)

text \<open>The collections an outcome cites references in, in the order the code visits them.\<close>

definition cited_collections :: "jdict \<Rightarrow> json list \<Rightarrow> json list \<Rightarrow> json list" where
  "cited_collections outcome boundaries families =
     map (\<lambda>b. dget_or (obj_items b) ''accepted_evidence_refs'' (JList [])) (filter is_obj boundaries)
     @ map (\<lambda>f. dget_or (obj_items f) ''evidence_refs'' (JList [])) (filter is_obj families)"

lemma cited_step_Inr:
  "cited_refs_step refs v = Inr refs' \<longleftrightarrow>
     is_list v \<and> list_all nonempty_str (list_items v) \<and> refs' = refs @ map str_of (list_items v)"
  by (auto simp: cited_refs_step_def list_all_iff list_ex_iff)

lemma cited_fold:
  assumes "foldE cited_refs_step refs vs = Inr refs'"
  shows "refs' = refs @ concat (map (\<lambda>v. map str_of (list_items v)) vs)
    \<and> (\<forall>v\<in>set vs. is_list v \<and> list_all nonempty_str (list_items v))"
  using assms
proof (induction vs arbitrary: refs)
  case (Cons v vs)
  then obtain r where "cited_refs_step refs v = Inr r" "foldE cited_refs_step r vs = Inr refs'" by auto
  then show ?case using Cons.IH [of r] by (simp add: cited_step_Inr)
qed simp

lemma boundary_Inr:
  assumes "validate_evidence_boundary v accepted = Inr ()"
  shows "is_obj v \<and> (\<forall>r\<in>set (list_items (dget (obj_items v) ''accepted_evidence_refs'')). bound_ref accepted r)
    \<and> map_of (obj_items v) (L ''accepted_evidence_refs'') \<noteq> None"
  using assms
  by (auto simp: validate_evidence_boundary_def list_ex_iff dest: keys_are_has split: json.splits if_splits)

lemma family_Inr:
  assumes "candidate_family_check accepted v = Inr ()"
  shows "is_obj v \<and> (\<forall>r\<in>set (list_items (dget (obj_items v) ''evidence_refs'')). bound_ref accepted r)
    \<and> map_of (obj_items v) (L ''evidence_refs'') \<noteq> None"
  using assms
  by (auto simp: candidate_family_check_def list_ex_iff dest: keys_are_has split: json.splits if_splits)

lemma candidate_check_Inr:
  assumes "idea_candidate_check accepted v = Inr d"
  shows "v = JDict d \<and> validate_evidence_boundary (dget d ''evidence_boundary'') accepted = Inr ()
    \<and> (\<exists>s. dget d ''candidate_key'' = JStr s \<and> \<not> is_blank s)"
  using assms by (auto simp: idea_candidate_check_def split: json.splits)

text \<open>The material hash the code compares two candidates by.\<close>

definition candidate_material_hash :: "interp \<Rightarrow> json \<Rightarrow> str res" where
  "candidate_material_hash py v =
     bindE (idea_material_value py (JDict (material_candidate (obj_items v)))) canonical_hash"

lemma candidate_fold:
  assumes "foldE (idea_candidate_step py accepted) ([], []) cs = Inr (ks, material)"
  shows "ks = map (\<lambda>c. str_of (dget (obj_items c) ''candidate_key'')) cs
    \<and> map Inr material = map (candidate_material_hash py) cs
    \<and> (\<forall>c\<in>set cs. is_obj c \<and> validate_evidence_boundary (dget (obj_items c) ''evidence_boundary'') accepted = Inr ())"
proof -
  have "(\<lambda>s. fst s = map (\<lambda>c. str_of (dget (obj_items c) ''candidate_key'')) cs
    \<and> map Inr (snd s) = map (candidate_material_hash py) cs
    \<and> (\<forall>c\<in>set cs. is_obj c \<and> validate_evidence_boundary (dget (obj_items c) ''evidence_boundary'') accepted = Inr ())) (ks, material)"
    using assms
  proof (rule foldE_prefix_rule)
    fix dn rest x and s s' :: "str list \<times> str list"
    assume I: "fst s = map (\<lambda>c. str_of (dget (obj_items c) ''candidate_key'')) dn
        \<and> map Inr (snd s) = map (candidate_material_hash py) dn
        \<and> (\<forall>c\<in>set dn. is_obj c \<and> validate_evidence_boundary (dget (obj_items c) ''evidence_boundary'') accepted = Inr ())"
      and "idea_candidate_step py accepted s x = Inr s'"
    then obtain d h where d: "idea_candidate_check accepted x = Inr d" "candidate_material_hash py (JDict d) = Inr h"
      and s': "s' = (fst s @ [str_of (dget d ''candidate_key'')], snd s @ [h])"
      by (cases s) (auto simp: idea_candidate_step_def candidate_material_hash_def)
    show "fst s' = map (\<lambda>c. str_of (dget (obj_items c) ''candidate_key'')) (dn @ [x])
        \<and> map Inr (snd s') = map (candidate_material_hash py) (dn @ [x])
        \<and> (\<forall>c\<in>set (dn @ [x]). is_obj c \<and> validate_evidence_boundary (dget (obj_items c) ''evidence_boundary'') accepted = Inr ())"
      using I candidate_check_Inr [OF d(1)] d(2) by (simp add: s')
  qed simp
  then show ?thesis by simp
qed

definition idea_candidates :: "jdict \<Rightarrow> json list" where
  "idea_candidates outcome = list_items (dget outcome ''candidates'')"

definition idea_set_promise :: "interp \<Rightarrow> jdict \<Rightarrow> bool" where
  "idea_set_promise py outcome \<longleftrightarrow>
     idea_candidates outcome \<noteq> []
     \<and> distinct (map (\<lambda>c. dget (obj_items c) ''candidate_key'') (idea_candidates outcome))
     \<and> distinct (map (candidate_material_hash py) (idea_candidates outcome))
     \<and> list_all (\<lambda>c. returns (candidate_material_hash py c)) (idea_candidates outcome)"

lemma idea_set_Inr:
  assumes "validate_idea_set py outcome accepted = Inr ()"
  shows "idea_set_promise py outcome
    \<and> (\<forall>c\<in>set (idea_candidates outcome). is_obj c \<and> validate_evidence_boundary (dget (obj_items c) ''evidence_boundary'') accepted = Inr ())
    \<and> dget_or outcome ''candidates'' (JList []) = JList (idea_candidates outcome)
    \<and> map_of outcome (L ''candidate_families_considered'') = None"
proof -
  obtain cs ks material where cs: "dget outcome ''candidates'' = JList cs" "cs \<noteq> []"
    and fold: "foldE (idea_candidate_step py accepted) ([], []) cs = Inr (ks, material)"
    and d: "distinct ks" "distinct material"
    and k: "keys_are outcome ([''kind'', ''question_ref'', ''context_pack_ref'', ''candidates'', ''recommendation'']
         @ (if has_key outcome (L ''notes'') then [''notes''] else []))"
    using assms by (auto simp: validate_idea_set_def split: json.splits if_splits)
  note f = candidate_fold [OF fold]
  have a: "distinct (map JStr ks)" using d(1) by (simp add: distinct_map inj_on_def)
  have b: "map JStr ks = map (\<lambda>c. dget (obj_items c) ''candidate_key'') cs"
  proof -
    have "\<forall>c\<in>set cs. \<exists>s. dget (obj_items c) ''candidate_key'' = JStr s"
    proof
      fix c assume "c \<in> set cs"
      then obtain dn rest where "cs = dn @ c # rest" by (meson split_list)
      with fold obtain s s' where "idea_candidate_step py accepted s c = Inr s'"
        by (auto simp: foldE_append)
      then show "\<exists>s. dget (obj_items c) ''candidate_key'' = JStr s"
        by (cases s) (auto simp: idea_candidate_step_def dest!: candidate_check_Inr)
    qed
    then show ?thesis using f by auto
  qed
  have "distinct (map (\<lambda>c. dget (obj_items c) ''candidate_key'') cs)" using a unfolding b .
  moreover have "distinct (map (candidate_material_hash py) cs)"
    using f d(2) by (metis distinct_map inj_Inr subset_UNIV inj_on_subset)
  moreover have "list_all (\<lambda>c. returns (candidate_material_hash py c)) cs"
    unfolding list_all_iff returns_iff using f by (metis (no_types, lifting) imageE image_set list.set_map rev_image_eqI)
  moreover have "map_of outcome (L ''candidates'') = Some (JList cs)"
    using cs(1) by (auto simp: dget_def split: option.splits)
  moreover have "map_of outcome (L ''candidate_families_considered'') = None"
    using k by (auto simp: map_of_eq_None_iff keys_are_def keys_def split: if_splits)
  ultimately show ?thesis using f cs by (simp add: idea_set_promise_def idea_candidates_def dget_or_def)
qed

lemma no_viable_Inr:
  assumes "validate_no_viable outcome accepted = Inr ()"
  shows "validate_evidence_boundary (dget outcome ''evidence_boundary'') accepted = Inr ()
    \<and> dget_or outcome ''candidate_families_considered'' (JList []) = JList (list_items (dget outcome ''candidate_families_considered''))
    \<and> (\<forall>f\<in>set (list_items (dget outcome ''candidate_families_considered'')). candidate_family_check accepted f = Inr ())"
proof -
  obtain fs where fs: "dget outcome ''candidate_families_considered'' = JList fs" "\<forall>f\<in>set fs. candidate_family_check accepted f = Inr ()"
    "validate_evidence_boundary (dget outcome ''evidence_boundary'') accepted = Inr ()"
    using assms by (auto simp: validate_no_viable_def split: json.splits if_splits)
  then have "map_of outcome (L ''candidate_families_considered'') = Some (JList fs)"
    by (auto simp: dget_def split: option.splits)
  then show ?thesis using fs by (simp add: dget_or_def)
qed

lemma dget_or_present: "map_of d (L k) \<noteq> None \<Longrightarrow> dget_or d k w = dget d k"
  by (auto simp: dget_or_def dget_def)

lemma bound_ref_member: "bound_ref (Some acc) v \<Longrightarrow> str_of v \<in> set acc"
  by (simp add: bound_ref_def)

lemma used_refs_bound:
  assumes "idea_used_evidence_refs outcome = Inr refs"
    and "boundary_values outcome = Inr boundaries"
    and "py_iter (dget_or outcome ''candidate_families_considered'' (JList [])) = Inr families"
    and "\<forall>b\<in>set boundaries. validate_evidence_boundary b (Some acc) = Inr ()"
    and "\<forall>f\<in>set families. candidate_family_check (Some acc) f = Inr ()"
  shows "set refs \<subseteq> set acc"
proof -
  obtain all where fold: "foldE cited_refs_step [] (cited_collections outcome boundaries families) = Inr all" and r: "refs = remdups all"
    using assms(1-3) by (auto simp: idea_used_evidence_refs_def cited_collections_def)
  have "\<forall>v\<in>set (cited_collections outcome boundaries families). \<forall>x\<in>set (list_items v). str_of x \<in> set acc"
  proof (intro ballI)
    fix v x assume v: "v \<in> set (cited_collections outcome boundaries families)" and x: "x \<in> set (list_items v)"
    then consider b where "b \<in> set boundaries" "v = dget_or (obj_items b) ''accepted_evidence_refs'' (JList [])"
      | f where "f \<in> set families" "v = dget_or (obj_items f) ''evidence_refs'' (JList [])"
      by (auto simp: cited_collections_def)
    then show "str_of x \<in> set acc"
    proof cases
      case 1
      then show ?thesis using boundary_Inr [of b "Some acc"] assms(4) x dget_or_present bound_ref_member by metis
    next
      case 2
      then show ?thesis using family_Inr [of "Some acc" f] assms(5) x dget_or_present bound_ref_member by metis
    qed
  qed
  then show ?thesis using cited_fold [OF fold] by (auto simp: r)
qed

lemma idea_outcome_holds:
  assumes "validate_idea_outcome py (JDict outcome) q c accepted = Inr h"
  shows "canonical_hash (JDict outcome) = Inr h
    \<and> (\<exists>refs. idea_used_evidence_refs outcome = Inr refs \<and> length refs \<le> MAX_IDEA_CONTEXT_EVIDENCE_REFS
         \<and> (case accepted of None \<Rightarrow> True | Some acc \<Rightarrow> set refs \<subseteq> set acc))
    \<and> (if dget outcome ''kind'' = JStr (L ''IdeaSet'') then idea_set_promise py outcome
       else dget outcome ''kind'' = JStr (L ''NoViableCandidate''))"
proof -
  let ?set = "dget outcome ''kind'' = JStr (L ''IdeaSet'')"
  obtain refs where h: "canonical_hash (JDict outcome) = Inr h" and refs: "idea_used_evidence_refs outcome = Inr refs"
    and kind: "if ?set then validate_idea_set py outcome accepted = Inr ()
        else dget outcome ''kind'' = JStr (L ''NoViableCandidate'') \<and> validate_no_viable outcome accepted = Inr ()"
    using assms by (auto simp: validate_idea_outcome_def split: if_splits)
  have len: "length refs \<le> MAX_IDEA_CONTEXT_EVIDENCE_REFS"
    using refs by (auto simp: idea_used_evidence_refs_def)
  have "set refs \<subseteq> set acc" if acc: "accepted = Some acc" for acc
  proof (cases ?set)
    case True
    then have s: "validate_idea_set py outcome accepted = Inr ()" using kind by simp
    have "boundary_values outcome = Inr (map (\<lambda>c. dget (obj_items c) ''evidence_boundary'') (filter is_obj (idea_candidates outcome)))"
      using True idea_set_Inr [OF s] by (simp add: boundary_values_def)
    moreover have "py_iter (dget_or outcome ''candidate_families_considered'' (JList [])) = Inr []"
      using idea_set_Inr [OF s] by (simp add: dget_or_def)
    ultimately show ?thesis
      using idea_set_Inr [OF s] acc by (intro used_refs_bound [OF refs]) auto
  next
    case False
    then have s: "validate_no_viable outcome accepted = Inr ()" using kind by simp
    have "boundary_values outcome = Inr [dget outcome ''evidence_boundary'']"
      using False by (simp add: boundary_values_def)
    moreover have "py_iter (dget_or outcome ''candidate_families_considered'' (JList [])) =
        Inr (list_items (dget outcome ''candidate_families_considered''))"
      using no_viable_Inr [OF s] by simp
    ultimately show ?thesis
      using no_viable_Inr [OF s] acc by (intro used_refs_bound [OF refs]) auto
  qed
  then show ?thesis
    using h refs len kind idea_set_Inr [of py outcome accepted] by (auto split: option.splits if_splits)
qed

text \<open>
  C29. What an accepted Idea outcome promises.  It cites, in its boundary, its candidates and its rejected
  families, at most 100 evidence references; when the caller gives the accepted references, as it does
  for context packs of versions 1 to 3, each of them is an accepted one.  For a version 4 pack the code
  gives none, and the outcome promises nothing of the references but their number.  In any case an Idea
  set has candidates with pairwise different keys and pairwise different material hashes, and the
  result is the canonical hash of the outcome.
\<close>
theorem idea_outcome_promise:
  assumes "validate_idea_outcome py (JDict outcome) q c accepted = Inr h"
  shows "canonical_hash (JDict outcome) = Inr h
    \<and> (\<exists>refs. idea_used_evidence_refs outcome = Inr refs \<and> length refs \<le> MAX_IDEA_CONTEXT_EVIDENCE_REFS
         \<and> (\<forall>acc. accepted = Some acc \<longrightarrow> set refs \<subseteq> set acc))
    \<and> (if dget outcome ''kind'' = JStr (L ''IdeaSet'') then idea_set_promise py outcome
       else dget outcome ''kind'' = JStr (L ''NoViableCandidate''))"
  using idea_outcome_holds [OF assms] by (auto split: option.splits)

subsection \<open>The draft and the review\<close>

text \<open>
  C31. A review binds bytes: accepted Idea content comes with a review that names the hash of the final
  outcome and the hash of the reviewed draft, and the draft is itself an accepted outcome (the final
  outcome when no other draft is claimed).
\<close>
theorem idea_review_binds:
  assumes "validate_idea_content py outcome review draft q c accepted = Inr (outcome_hash, review_hash)"
  shows "\<exists>draft_hash. validate_idea_outcome py outcome q c accepted = Inr outcome_hash
     \<and> validate_idea_outcome py (case draft of None \<Rightarrow> outcome | Some d \<Rightarrow> d) q c accepted = Inr draft_hash
     \<and> dget review ''final_outcome_hash'' = JStr outcome_hash \<and> dget review ''reviewed_draft_hash'' = JStr draft_hash
     \<and> (draft = None \<longrightarrow> draft_hash = outcome_hash)
     \<and> canonical_hash (JDict review) = Inr review_hash"
  using assms
  by (auto simp: validate_idea_content_def validate_advisory_review_def split: option.splits if_splits)

end
