(* ===== verification/IdeaContextLaws.thy ===== *)
theory IdeaContextLaws
  imports IdeaLaws
begin

text \<open>
  What an accepted Idea context pack opens, when the check of its prior Reasoning is decided by the
  pack alone, and which rewrites of an outcome its material hash sees through.
\<close>

subsection \<open>Prior Reasoning bindings\<close>

lemma prior_bindings_decided:
  assumes "py_ok py" and "mapE prior_binding_check (list_items value) = Inr identities" and "distinct (map snd identities)"
  shows "validate_prior_reasoning_bindings py value = Inr () \<longleftrightarrow>
     is_list value \<and> identities \<noteq> [] \<and> sorted (map snd identities)"
proof -
  have order: "set (set_order py identities) = set identities" "distinct (set_order py identities)"
    using assms(1) by (simp_all add: py_ok_def)
  have inj: "inj_on snd (set identities)" using assms(3) by (simp add: distinct_map)
  have "identities = sorted_by_epoch py identities \<longleftrightarrow> sorted (map snd identities)"
  proof
    assume "identities = sorted_by_epoch py identities"
    then show "sorted (map snd identities)" by (metis sorted_by_epoch_def sorted_sort_key)
  next
    assume s: "sorted (map snd identities)"
    have "distinct (map snd (sort_key snd (set_order py identities)))"
      using order inj by (simp add: distinct_map)
    then show "identities = sorted_by_epoch py identities"
      unfolding sorted_by_epoch_def
      using s assms(3) order inj by (intro map_sorted_distinct_set_unique [of snd]) simp_all
  qed
  moreover have "list_items value \<noteq> [] \<longleftrightarrow> identities \<noteq> []" using mapE_length [OF assms(2)] by auto
  ultimately show ?thesis using assms(2) by (auto simp: validate_prior_reasoning_bindings_def)
qed

text \<open>
  With one prior Reasoning per epoch the check of the prior bindings does not depend on the
  interpreter: the (non-empty) list is accepted exactly when it is in order of its epochs.
\<close>
theorem prior_bindings_by_epoch:
  assumes "py_ok py" and "mapE prior_binding_check (list_items value) = Inr identities" and "distinct (map snd identities)"
  shows "validate_prior_reasoning_bindings py value = Inr () \<longleftrightarrow>
     is_list value \<and> identities \<noteq> [] \<and> sorted (map snd identities)"
  using assms by (rule prior_bindings_decided)

definition sample_receipt :: "string \<Rightarrow> string \<Rightarrow> json" where
  "sample_receipt issuer subject =
     JDict [(L ''status'', JStr (L ''accepted'')), (L ''issuer'', JStr (L issuer)), (L ''kind'', JStr (L ''k'')),
       (L ''receipt_ref'', JStr (L ''r'')), (L ''subject_ref'', JStr (L subject)), (L ''payload_hash'', JStr (sha256_hex []))]"

definition sample_prior :: "string \<Rightarrow> int \<Rightarrow> json" where
  "sample_prior cycle epoch =
     JDict [(L ''stage'', JStr (L ''reasoning'')), (L ''commit_ref'', JStr (L ''c'')), (L ''cycle_ref'', JStr (L cycle)),
       (L ''epoch'', JInt epoch), (L ''disposition'', JStr (L ''completed'')), (L ''receipt'', sample_receipt ''advancement_engine'' ''c''),
       (L ''request_ref'', JStr (L ''q'')), (L ''run_ref'', JStr (L ''n'')), (L ''outcome_ref'', JStr (L ''o'')),
       (L ''outcome_kind'', JStr (L ''reasoning_outcome'')), (L ''run_completion_receipt'', sample_receipt ''agent_runtime'' ''n''),
       (L ''outcome_receipt'', sample_receipt ''research_graph'' ''o''),
       (L ''closure'', JDict [(L ''transition_kind'', JStr (L ''next_cycle_proposal''))])]"

lemma sample_receipt_admitted: "validate_public_receipt (sample_receipt issuer subject) issuer (JStr (L subject)) = Inr ()"
  by (simp add: validate_public_receipt_def sample_receipt_def keys_are_def receipt_fields_def Let_def)

lemma sample_prior_admitted:
  "cycle \<noteq> '''' \<Longrightarrow> 1 \<le> epoch \<Longrightarrow> prior_binding_check (sample_prior cycle epoch) = Inr (L cycle, epoch)"
  by (simp add: prior_binding_check_def sample_prior_def keys_are_def prior_reasoning_binding_fields_def in_str_set_def
      sample_receipt_admitted Let_def)

lemma prior_bindings_by_epoch_witness:
  "validate_prior_reasoning_bindings ascii_interp (JList [sample_prior ''a'' 1, sample_prior ''b'' 2]) = Inr ()"
  using prior_bindings_by_epoch [OF py_ok_ascii, of "JList [sample_prior ''a'' 1, sample_prior ''b'' 2]" "[(L ''a'', 1), (L ''b'', 2)]"]
  by (simp add: sample_prior_admitted)

definition reversed_interp :: interp where
  "reversed_interp = ascii_interp\<lparr>set_order := \<lambda>xs. rev (remdups xs)\<rparr>"

text \<open>
  Two prior Reasoning bindings of the same epoch make the check depend on the iteration order of a
  set of strings, which differs from one process to the next: the same pack is accepted by one
  interpreter and refused by another.
\<close>
theorem prior_bindings_order_dependent:
  "py_ok ascii_interp \<and> py_ok reversed_interp
   \<and> validate_prior_reasoning_bindings ascii_interp (JList [sample_prior ''a'' 1, sample_prior ''b'' 1]) = Inr ()
   \<and> validate_prior_reasoning_bindings reversed_interp (JList [sample_prior ''a'' 1, sample_prior ''b'' 1])
       = Inl (IdeaContractError ''idea_context_pack_invalid'')"
proof -
  have "py_ok reversed_interp" by (simp add: py_ok_def reversed_interp_def)
  moreover have "mapE prior_binding_check [sample_prior ''a'' 1, sample_prior ''b'' 1] = Inr [(L ''a'', 1), (L ''b'', 1)]"
    by (simp add: sample_prior_admitted)
  ultimately show ?thesis
    using py_ok_ascii
    by (simp add: validate_prior_reasoning_bindings_def sorted_by_epoch_def ascii_interp_def reversed_interp_def pack_check_def
        del: mapE.simps)
qed

subsection \<open>The references a context pack opens\<close>

declare dget_dict_set [simp]

lemma evidence_refs_Inr:
  "evidence_refs_check v = Inr refs \<longleftrightarrow>
     v = JList (map JStr refs) \<and> list_all (\<lambda>r. codes r \<noteq> []) refs \<and> length refs \<le> MAX_IDEA_CONTEXT_EVIDENCE_REFS
     \<and> sorted refs \<and> distinct refs"
proof
  assume a: "evidence_refs_check v = Inr refs"
  then have v: "is_list v" "list_all nonempty_str (list_items v)" and r: "refs = map str_of (list_items v)" "refs = sorted_set refs"
    and n: "length (list_items v) \<le> MAX_IDEA_CONTEXT_EVIDENCE_REFS"
    by (auto simp: evidence_refs_check_def list_all_iff list_ex_iff)
  have "list_items v = map JStr refs" using v(2) by (auto simp: r(1) list_all_iff comp_def intro!: map_idI [symmetric] nonempty_str_str [symmetric])
  moreover from this have "v = JList (map JStr refs)" using v(1) by (cases v) simp_all
  moreover have "sorted refs \<and> distinct refs" using r(2) by (rule sorted_set_fix [THEN iffD1])
  moreover have "length refs \<le> MAX_IDEA_CONTEXT_EVIDENCE_REFS" using n by (simp add: r(1))
  moreover have "list_all (\<lambda>r. codes r \<noteq> []) refs" using v(2) by (auto simp: r(1) list_all_iff nonempty_str_iff)
  ultimately show "v = JList (map JStr refs) \<and> list_all (\<lambda>r. codes r \<noteq> []) refs \<and> length refs \<le> MAX_IDEA_CONTEXT_EVIDENCE_REFS
     \<and> sorted refs \<and> distinct refs"
    by blast
next
  assume "v = JList (map JStr refs) \<and> list_all (\<lambda>r. codes r \<noteq> []) refs \<and> length refs \<le> MAX_IDEA_CONTEXT_EVIDENCE_REFS
     \<and> sorted refs \<and> distinct refs"
  then show "evidence_refs_check v = Inr refs"
    using sorted_set_fix [of refs] by (auto simp: evidence_refs_check_def list_all_iff list_ex_iff comp_def)
qed

lemma pack_v123_Inr:
  assumes "validate_context_pack_v123 py pack cycle_ref question = Inr refs"
  shows "evidence_refs_check (dget pack ''accepted_evidence_refs'') = Inr refs
    \<and> dget pack ''cycle_ref'' = JStr cycle_ref
    \<and> (dget pack ''schema_ref'' = JStr (L IDEA_CONTEXT_PACK_SCHEMA_REF) \<longrightarrow> refs = [])"
  using assms
  by (auto simp: validate_context_pack_v123_def Let_def evidence_refs_Inr IDEA_CONTEXT_PACK_SCHEMA_REF_def
      IDEA_CONTEXT_PACK_SCHEMA_V2_REF_def IDEA_CONTEXT_PACK_SCHEMA_V3_REF_def split: if_splits)

lemma pack_v4_Inr:
  assumes "validate_context_pack_v4 py pack cycle_ref question = Inr refs"
  shows "evidence_refs_check (dget pack ''accepted_evidence_refs'') = Inr refs \<and> dget pack ''cycle_ref'' = JStr cycle_ref
    \<and> length refs \<le> 32 \<and> (dget pack ''evidence_page'' = JNull \<longrightarrow> refs = [])"
  using assms
  by (auto simp: validate_context_pack_v4_def Let_def dget_without evidence_page_check_def
      dest!: pack_v123_Inr split: if_splits)

lemma accepted_refs_of_list:
  "dget pack ''accepted_evidence_refs'' = JList (map JStr refs) \<Longrightarrow> list_all (\<lambda>r. codes r \<noteq> []) refs \<Longrightarrow>
     accepted_evidence_refs pack = Inr refs"
  by (auto simp: accepted_evidence_refs_def dget_def dget_or_def list_ex_iff list_all_iff comp_def split: option.splits)

text \<open>
  An accepted Idea context pack opens exactly the evidence it lists: the returned references are
  the pack's own list, non-empty texts in strictly increasing order, at most 100 (at most 32, a
  discovery page, for version four, and none for version one); validating an outcome against the pack
  uses that list, except for version four, whose page is not the whole universe.
\<close>
theorem idea_context_pack_promise:
  assumes "validate_idea_context_pack py value cycle_ref question = Inr refs"
  shows "\<exists>pack. value = JDict pack \<and> dget pack ''cycle_ref'' = JStr cycle_ref
     \<and> dget pack ''accepted_evidence_refs'' = JList (map JStr refs) \<and> sorted refs \<and> distinct refs
     \<and> list_all (\<lambda>r. codes r \<noteq> []) refs \<and> length refs \<le> MAX_IDEA_CONTEXT_EVIDENCE_REFS
     \<and> (dget pack ''schema_ref'' = JStr (L IDEA_CONTEXT_PACK_SCHEMA_REF) \<longrightarrow> refs = [])
     \<and> (dget pack ''schema_ref'' = JStr (L IDEA_CONTEXT_PACK_SCHEMA_V4_REF) \<longrightarrow> length refs \<le> 32)
     \<and> idea_validation_evidence_refs pack =
         Inr (if dget pack ''schema_ref'' = JStr (L IDEA_CONTEXT_PACK_SCHEMA_V4_REF) then None else Some refs)"
proof -
  obtain pack where v: "value = JDict pack" using assms by (cases "value") (auto simp: validate_idea_context_pack_def)
  show ?thesis
  proof (cases "dget pack ''schema_ref'' = JStr (L IDEA_CONTEXT_PACK_SCHEMA_V4_REF)")
    case True
    then have "validate_context_pack_v4 py pack cycle_ref question = Inr refs"
      using assms by (simp add: validate_idea_context_pack_def v)
    then show ?thesis using True pack_v4_Inr
      by (auto simp: v evidence_refs_Inr idea_validation_evidence_refs_def IDEA_CONTEXT_PACK_SCHEMA_REF_def IDEA_CONTEXT_PACK_SCHEMA_V4_REF_def)
  next
    case False
    then have "validate_context_pack_v123 py pack cycle_ref question = Inr refs"
      using assms by (simp add: validate_idea_context_pack_def v)
    then show ?thesis using False pack_v123_Inr accepted_refs_of_list [of pack refs]
      by (auto simp: v evidence_refs_Inr idea_validation_evidence_refs_def)
  qed
qed

end
