(* ===== verification/IdeaMaterial.thy ===== *)
theory IdeaMaterial
  imports IdeaContextLaws
begin

text \<open>
  The material hash of an Idea outcome: a relation of cosmetic rewrites that it sees through, and
  concrete outcomes, packs and reviews for the Idea properties.
\<close>

subsection \<open>The canonical text of a material value\<close>


definition not_compliant :: exn where
  "not_compliant = ValueError ''not JSON compliant''"

lemma canonical_json_cases: "canonical_json v = (if dumpable v then Inr (Str (json_codes v)) else Inl not_compliant)"
  by (simp add: canonical_json_def json_dumps_def not_compliant_def)













subsection \<open>Cosmetic rewrites\<close>

text \<open>
  What a reader would not call a change, said without the code's own filters: characters of a normalised
  text that are spaces, punctuation, separators or format characters come and go one by one; lists hold
  the same items in any order and number; an object gains or loses a member that is identity-only or a
  blank note, and its other members are rewritten in place. A note is not rewritten from blank to
  punctuation only: the code drops the former and keeps the latter.
\<close>

definition cosmetic_char :: "interp \<Rightarrow> nat \<Rightarrow> bool" where
  "cosmetic_char py c \<longleftrightarrow> is_space c \<or> category py c = ''Cf''
     \<or> (case category py c of [] \<Rightarrow> False | general # _ \<Rightarrow> general = CHR ''P'' \<or> general = CHR ''Z'')"

inductive respaced :: "interp \<Rightarrow> nat list \<Rightarrow> nat list \<Rightarrow> bool" for py and s where
  unchanged: "respaced py s s"
| inserted: "respaced py s (u @ v) \<Longrightarrow> cosmetic_char py c \<Longrightarrow> respaced py s (u @ c # v)"
| removed: "respaced py s (u @ c # v) \<Longrightarrow> cosmetic_char py c \<Longrightarrow> respaced py s (u @ v)"










subsection \<open>Concrete outcomes\<close>

definition sample_boundary :: json where
  "sample_boundary =
     JDict [(L ''accepted_evidence_refs'', JList [JStr (L ''e1'')]), (L ''supported'', JStr (L ''s'')),
       (L ''inferred'', JStr (L ''i'')), (L ''unknown'', JStr (L ''u''))]"

definition sample_candidate_core :: jdict where
  "sample_candidate_core =
     [(L ''direction'', JStr (L ''d'')), (L ''rationale'', JStr (L ''r'')), (L ''evidence_boundary'', sample_boundary)]"

definition sample_outcome :: jdict where
  "sample_outcome =
     [(L ''kind'', JStr (L ''IdeaSet'')), (L ''question_ref'', JStr (L ''q'')), (L ''context_pack_ref'', JStr (L ''cp'')),
      (L ''candidates'', JList [JDict ((L ''candidate_key'', JStr (L ''c1'')) # sample_candidate_core)]), (L ''recommendation'', JNull)]"

lemma dget_or_cons: "dget_or ((L k', v) # d) k w = (if k' = k then v else dget_or d k w)"
  by (simp add: dget_or_def)

definition sample_outcome_hash :: str where
  "sample_outcome_hash = sha256_hex (json_codes (JDict sample_outcome))"

lemma sample_material: "idea_material_value ascii_interp (JDict sample_candidate_core) = Inr (JDict sample_candidate_core)"
proof -
  have letter: "material_text ascii_interp (L [c]) = L [c]" if "\<not> is_space (of_char c)" "65 \<le> (of_char c :: nat)"
      "(of_char c :: nat) \<le> 90 \<or> (97 \<le> (of_char c :: nat) \<and> (of_char c :: nat) \<le> 122)" for c
    using that by (auto simp: material_text_def ascii_interp_def material_char_def L_def is_digit_def)
  have e1: "material_text ascii_interp (L ''e1'') = L ''e1''"
    by (simp add: material_text_def ascii_interp_def material_char_def L_def is_digit_def is_space_def)
  have "canonical_json (JStr (L ''e1'')) = Inr (Str (json_codes (JStr (L ''e1''))))"
    by (simp add: canonical_json_cases del: json_codes.simps)
  then show ?thesis
    by (simp add: sample_candidate_core_def sample_boundary_def material_key_def material_identity_fields_def letter e1 is_space_def
        unique_sorted_def sorted_set_def)
qed

lemma sample_outcome_admitted:
  "validate_idea_outcome ascii_interp (JDict sample_outcome) (JStr (L ''q'')) (JStr (L ''cp'')) (Some [L ''e1'']) = Inr sample_outcome_hash"
proof -
  let ?c = "(L ''candidate_key'', JStr (L ''c1'')) # sample_candidate_core"
  have blank: "\<not> is_blank (L [c])" if "\<not> is_space (of_char c)" for c
    using that by (simp add: is_blank_iff)
  have blank2: "\<not> is_blank (L (c # s))" if "\<not> is_space (of_char c)" for c s
    using that by (simp add: is_blank_iff)
  have "validate_evidence_boundary sample_boundary (Some [L ''e1'']) = Inr ()"
    by (simp add: validate_evidence_boundary_def sample_boundary_def keys_are_def bound_ref_def idea_require_text_def blank is_space_def)
  then have check: "idea_candidate_check (Some [L ''e1'']) (JDict ?c) = Inr ?c"
    by (simp add: idea_candidate_check_def sample_candidate_core_def idea_candidate_required_def idea_candidate_optional_def
        idea_require_text_def blank blank2 is_space_def)
  have core: "material_candidate ?c = sample_candidate_core"
    by (simp add: material_candidate_def sample_candidate_core_def without_def)
  have "ascii_json (JDict sample_candidate_core)" by (simp add: sample_candidate_core_def sample_boundary_def)
  then obtain h where h: "canonical_hash (JDict sample_candidate_core) = Inr h" using ascii_json_hash by blast
  have step: "foldE (idea_candidate_step ascii_interp (Some [L ''e1''])) ([], []) [JDict ?c] = Inr ([L ''c1''], [h])"
    by (simp add: idea_candidate_step_def check core sample_material h del: idea_material_value.simps)
  have outcome: "dget sample_outcome ''kind'' = JStr (L ''IdeaSet'')" "dget sample_outcome ''candidates'' = JList [JDict ?c]"
    "dget sample_outcome ''recommendation'' = JNull" "\<not> has_key sample_outcome (L ''notes'')"
    "keys_are sample_outcome [''kind'', ''question_ref'', ''context_pack_ref'', ''candidates'', ''recommendation'']"
    "dget sample_outcome ''question_ref'' = JStr (L ''q'')" "dget sample_outcome ''context_pack_ref'' = JStr (L ''cp'')"
    "dget_or sample_outcome ''candidates'' (JList []) = JList [JDict ?c]"
    "dget_or sample_outcome ''candidate_families_considered'' (JList []) = JList []"
    by (simp_all add: sample_outcome_def keys_are_def dget_or_def)
  have set: "validate_idea_set ascii_interp sample_outcome (Some [L ''e1'']) = Inr ()"
    by (simp add: validate_idea_set_def outcome step validate_recommendation_def del: foldE.simps)
  have used: "idea_used_evidence_refs sample_outcome = Inr [L ''e1'']"
    by (simp add: idea_used_evidence_refs_def boundary_values_def outcome sample_candidate_core_def sample_boundary_def
        cited_refs_step_def MAX_IDEA_CONTEXT_EVIDENCE_REFS_def dget_or_cons)
  have "ascii_json (JDict sample_outcome)"
    by (simp add: sample_outcome_def sample_candidate_core_def sample_boundary_def)
  then have "canonical_hash (JDict sample_outcome) = Inr sample_outcome_hash"
    by (simp add: ascii_json_hash sample_outcome_hash_def del: json_codes.simps)
  then show ?thesis
    by (simp add: validate_idea_outcome_def outcome set used idea_require_text_def blank blank2 is_space_def)
qed

lemma idea_outcome_promise_witness:
  "idea_set_promise ascii_interp sample_outcome
   \<and> (\<exists>refs. idea_used_evidence_refs sample_outcome = Inr refs \<and> set refs \<subseteq> {L ''e1''})"
  using idea_outcome_promise [OF sample_outcome_admitted] by (auto simp: sample_outcome_def)

definition sample_review :: jdict where
  "sample_review =
     [(L ''schema_ref'', JStr (L IDEA_REVIEW_SCHEMA_REF)), (L ''reviewed_draft_hash'', JStr sample_outcome_hash),
      (L ''final_outcome_hash'', JStr sample_outcome_hash)]"

lemma sample_hash_hex: "is_hex64 sample_outcome_hash"
  unfolding sample_outcome_hash_def by (rule sha256_hex_is_hex64)

lemma sample_review_hash: "\<exists>r. canonical_hash (JDict sample_review) = Inr r"
proof -
  have "ascii_json (JDict sample_review)"
    by (simp add: sample_review_def IDEA_REVIEW_SCHEMA_REF_def hex_codes_ascii [OF sample_hash_hex])
  then show ?thesis using ascii_json_hash by blast
qed

lemma idea_review_binds_witness:
  "\<exists>r. validate_idea_content ascii_interp (JDict sample_outcome) sample_review None (JStr (L ''q'')) (JStr (L ''cp'')) (Some [L ''e1''])
       = Inr (sample_outcome_hash, r) \<and> dget sample_review ''final_outcome_hash'' = JStr sample_outcome_hash
     \<and> canonical_hash (JDict sample_review) = Inr r"
proof -
  obtain r where r: "canonical_hash (JDict sample_review) = Inr r" using sample_review_hash by blast
  have "str64 (JStr sample_outcome_hash)" using sample_hash_hex by (simp add: is_hex64_def)
  then have v: "validate_idea_content ascii_interp (JDict sample_outcome) sample_review None (JStr (L ''q'')) (JStr (L ''cp'')) (Some [L ''e1''])
      = Inr (sample_outcome_hash, r)"
    using r by (simp add: validate_idea_content_def sample_outcome_admitted validate_advisory_review_def)
      (simp add: sample_review_def keys_are_def IDEA_REVIEW_SCHEMA_REF_def)
  show ?thesis using v idea_review_binds [OF v] by auto
qed

definition sample_question :: jdict where
  "sample_question = [(L ''question_ref'', JStr (L ''q''))]"

definition sample_pack :: jdict where
  "sample_pack =
     [(L ''schema_ref'', JStr (L IDEA_CONTEXT_PACK_SCHEMA_V2_REF)), (L ''cycle_ref'', JStr (L ''cy'')),
      (L ''accepted_question_binding'', JDict sample_question), (L ''accepted_evidence_refs'', JList [JStr (L ''e1''), JStr (L ''e2'')]),
      (L ''literature_binding'', JNull), (L ''prior_accepted_bindings'', JList []), (L ''active_guidance_bindings'', JList []),
      (L ''evidence_reference_revision'', JInt 2)]"

lemma sample_pack_admitted: "validate_idea_context_pack py (JDict sample_pack) (L ''cy'') sample_question = Inr [L ''e1'', L ''e2'']"
proof -
  have "evidence_refs_check (JList (map JStr [L ''e1'', L ''e2''])) = Inr [L ''e1'', L ''e2'']"
    unfolding evidence_refs_Inr by (simp add: MAX_IDEA_CONTEXT_EVIDENCE_REFS_def less_eq_str_def)
  then show ?thesis
    by (simp add: validate_idea_context_pack_def validate_context_pack_v123_def sample_pack_def sample_question_def keys_are_def
        idea_context_pack_v2_fields_def idea_context_pack_v1_fields_def cycle_position_check_def pack_literature_check_def
        IDEA_CONTEXT_PACK_SCHEMA_REF_def IDEA_CONTEXT_PACK_SCHEMA_V2_REF_def IDEA_CONTEXT_PACK_SCHEMA_V3_REF_def
        IDEA_CONTEXT_PACK_SCHEMA_V4_REF_def validate_guidance_bindings_def in_str_set_def sorted_set_def Let_def)
qed

lemma idea_context_pack_promise_witness: "idea_validation_evidence_refs sample_pack = Inr (Some [L ''e1'', L ''e2''])"
  using idea_context_pack_promise [OF sample_pack_admitted]
  by (auto simp: sample_pack_def IDEA_CONTEXT_PACK_SCHEMA_V2_REF_def IDEA_CONTEXT_PACK_SCHEMA_V4_REF_def)


end
