(* ===== verification/ControlLaws.thy ===== *)
theory ControlLaws
  imports ControlContract
begin

text \<open>
  Correctness of control commands, owner previews and wall-clock budgets.
\<close>

subsection \<open>Control commands\<close>

text \<open>
  The promise of an admitted command, member by member: which actions reach which scope, and
  exactly which optional references each of them carries.
\<close>

definition control_promise :: "json \<Rightarrow> jdict \<Rightarrow> bool" where
  "control_promise action target \<longleftrightarrow>
     json_in action CONTROL_ACTIONS
     \<and> list_all (\<lambda>k. control_ref (dget target k)) [''quest_ref'', ''cycle_ref'', ''question_ref'']
     \<and> int_at_least 1 (dget target ''epoch'')
     \<and> json_in (dget target ''target_scope'') CONTROL_TARGET_SCOPES
     \<and> (dget target ''target_scope'' = JStr (L ''run'') \<longrightarrow> json_in action RUN_ACTIONS \<and> control_ref (dget target ''run_ref''))
     \<and> (dget target ''target_scope'' \<noteq> JStr (L ''run'') \<longrightarrow> dget target ''run_ref'' = JNull)
     \<and> (dget target ''target_scope'' = JStr (L ''stage'') \<longrightarrow> json_in action STAGE_ACTIONS)
     \<and> (json_in action QUESTION_ACTIONS \<longrightarrow>
          dget target ''target_scope'' = JStr (L ''cycle'') \<and> control_ref (dget target ''target_question_ref''))
     \<and> (\<not> json_in action QUESTION_ACTIONS \<longrightarrow> dget target ''target_question_ref'' = JNull)
     \<and> (action = JStr (L ''restore'') \<longrightarrow> control_ref (dget target ''prune_record_ref''))
     \<and> (action \<noteq> JStr (L ''restore'') \<longrightarrow> dget target ''prune_record_ref'' = JNull)"

lemma json_in_iff: "json_in v ks \<longleftrightarrow> (\<exists>k\<in>set ks. v = JStr (L k))"
  by (cases v) (auto simp: json_in_def)

lemma in_str_set_json_in: "in_str_set v ks = Inr b \<longleftrightarrow> \<not> unhashable v \<and> b = json_in v ks"
  by (cases v) (auto simp: in_str_set_def json_in_def)

lemma not_json_in_unhashable: "json_in v ks \<Longrightarrow> \<not> unhashable v"
  by (auto simp: json_in_iff)

lemma dget_or_dget: "map_of t (L k) = None \<Longrightarrow> dget t k = JNull" "map_of t (L k) = Some v \<Longrightarrow> dget_or t k w = v"
  "map_of t (L k) = None \<Longrightarrow> dget_or t k w = w" "map_of t (L k) = Some v \<Longrightarrow> dget t k = v"
  by (simp_all add: dget_def dget_or_def)

lemma dget_or_simps [simp]:
  "dget_or [] k w = w"
  "dget_or ((L k', v) # d) k w = (if k' = k then v else dget_or d k w)"
  by (simp_all add: dget_or_def)

lemma dget_optional [simp]:
  "dget (optional_member k v @ e) k' = (if k' = k \<and> v \<noteq> JNull then v else dget e k')"
  "dget (optional_member k v) k' = (if k' = k then v else JNull)"
  by (simp_all add: optional_member_def)

lemma if_raise [simp]:
  "(if b then raise_if c e else raise_if c' e') = Inr u \<longleftrightarrow> (b \<longrightarrow> \<not> c) \<and> (\<not> b \<longrightarrow> \<not> c')"
  by simp

lemma control_target_cases:
  assumes "control_target action target = Inr t"
  obtains run tq pr scope where
    "t = [(L ''quest_ref'', dget target ''quest_ref''), (L ''cycle_ref'', dget target ''cycle_ref''),
           (L ''question_ref'', dget target ''question_ref''), (L ''epoch'', dget target ''epoch''), (L ''target_scope'', scope)]
          @ optional_member ''run_ref'' run @ optional_member ''target_question_ref'' tq @ optional_member ''prune_record_ref'' pr"
    and "control_ref (dget target ''quest_ref'')" "control_ref (dget target ''cycle_ref'')" "control_ref (dget target ''question_ref'')"
    and "int_at_least 1 (dget target ''epoch'')" and "json_in scope CONTROL_TARGET_SCOPES"
    and "scope = JStr (L ''run'') \<Longrightarrow> json_in action RUN_ACTIONS \<and> control_ref run"
    and "scope \<noteq> JStr (L ''run'') \<Longrightarrow> run = JNull"
    and "scope = JStr (L ''stage'') \<Longrightarrow> json_in action STAGE_ACTIONS"
    and "json_in action QUESTION_ACTIONS \<Longrightarrow> scope = JStr (L ''cycle'') \<and> control_ref tq"
    and "\<not> json_in action QUESTION_ACTIONS \<Longrightarrow> tq = JNull"
    and "action = JStr (L ''restore'') \<Longrightarrow> control_ref pr"
    and "action \<noteq> JStr (L ''restore'') \<Longrightarrow> pr = JNull"
  using assms
  by (intro that [of "dget_or target ''target_scope'' (JStr (L ''cycle''))" "dget target ''run_ref''"
        "dget target ''target_question_ref''" "dget target ''prune_record_ref''"])
     (simp_all add: control_target_def Let_def in_str_set_json_in)

lemma control_ref_not_null [simp]: "\<not> control_ref JNull"
  by (simp add: control_ref_def)

lemma control_target_promise:
  assumes "control_target action target = Inr t" and "json_in action CONTROL_ACTIONS"
  shows "control_promise action t"
  using assms(1)
proof (cases rule: control_target_cases)
  case (1 run tq pr scope)
  then have "dget t ''target_scope'' = scope" "dget t ''run_ref'' = run" "dget t ''target_question_ref'' = tq"
    "dget t ''prune_record_ref'' = pr"
    by simp_all
  with 1 assms(2) show ?thesis unfolding control_promise_def by simp
qed

lemma control_target_again:
  assumes "control_target action target = Inr t"
  shows "control_target action t = Inr t"
  using assms
proof (cases rule: control_target_cases)
  case (1 run tq pr scope)
  have scope: "dget_or t ''target_scope'' w = scope" for w using 1(1) by simp
  have "fst ` set t \<subseteq> L ` {''quest_ref'', ''cycle_ref'', ''question_ref'', ''epoch'', ''target_scope'', ''run_ref'',
      ''target_question_ref'', ''prune_record_ref''}"
    "L ` {''quest_ref'', ''cycle_ref'', ''question_ref'', ''epoch''} \<subseteq> fst ` set t"
    using 1(1) by (auto simp: optional_member_def)
  then have "subset_list (map L [''quest_ref'', ''cycle_ref'', ''question_ref'', ''epoch'']) (keys t)
      \<and> subset_list (keys t) (map L [''quest_ref'', ''cycle_ref'', ''question_ref'', ''epoch'', ''target_scope'', ''run_ref'',
          ''target_question_ref'', ''prune_record_ref''])"
    by (simp add: keys_def)
  moreover have "dget t ''run_ref'' = run" "dget t ''target_question_ref'' = tq" "dget t ''prune_record_ref'' = pr"
    "dget t ''quest_ref'' = dget target ''quest_ref''" "dget t ''cycle_ref'' = dget target ''cycle_ref''"
    "dget t ''question_ref'' = dget target ''question_ref''" "dget t ''epoch'' = dget target ''epoch''"
    using 1(1) by simp_all
  ultimately show ?thesis
    using 1 not_json_in_unhashable [OF 1(6)] scope
    by (simp add: control_target_def Let_def in_str_set_json_in)
qed

lemma control_payload_admits:
  assumes "validate_control_payload value = Inr d"
  shows "\<exists>target reason. d = [(L ''action'', dget d ''action''), (L ''target'', JDict target), (L ''reason'', JStr reason)]
     \<and> control_promise (dget d ''action'') target \<and> reason = strip reason \<and> \<not> is_blank reason \<and> slen reason \<le> 512
     \<and> validate_control_payload (JDict d) = Inr d"
proof -
  obtain e target reason where v: "value = JDict e" and act: "json_in (dget e ''action'') CONTROL_ACTIONS"
    and tgt: "is_obj (dget e ''target'')" and rs: "dget e ''reason'' = JStr reason" "\<not> is_blank reason" "slen reason \<le> 512"
    and t: "control_target (dget e ''action'') (obj_items (dget e ''target'')) = Inr target"
    and d: "d = [(L ''action'', dget e ''action''), (L ''target'', JDict target), (L ''reason'', JStr (strip reason))]"
    using assms
    by (auto simp: validate_control_payload_def in_str_set_json_in split: json.splits)
  have "slen (strip reason) \<le> 512" using slen_strip [of reason] rs(3) by linarith
  moreover have "keys_are d [''action'', ''target'', ''reason'']" by (simp add: d keys_are_def)
  ultimately show ?thesis
    using control_target_promise [OF t act] control_target_again [OF t] act rs not_json_in_unhashable [OF act]
    by (auto simp: d validate_control_payload_def in_str_set_json_in)
qed

text \<open>
  C32. An admitted control command is closed: its target names the Quest, Cycle, Question and epoch,
  only pause, resume and cancel reach a run or a stage, a run reference is present exactly for the
  run scope, a target Question exactly for a switch, a prune or a restore (and those only at Cycle
  scope), a prune record exactly for a restore; and admission normalises: the returned command is
  admitted again and unchanged.
\<close>
theorem control_payload_promise:
  assumes "validate_control_payload value = Inr d"
  shows "\<exists>target reason. d = [(L ''action'', dget d ''action''), (L ''target'', JDict target), (L ''reason'', JStr reason)]
     \<and> control_promise (dget d ''action'') target \<and> reason = strip reason \<and> \<not> is_blank reason \<and> slen reason \<le> 512
     \<and> validate_control_payload (JDict d) = Inr d"
  using assms by (rule control_payload_admits)

definition restore_command :: json where
  "restore_command =
     JDict [(L ''action'', JStr (L ''restore'')),
       (L ''target'', JDict [(L ''quest_ref'', JStr (L ''q'')), (L ''cycle_ref'', JStr (L ''c'')), (L ''question_ref'', JStr (L ''x'')),
          (L ''epoch'', JInt 3), (L ''target_question_ref'', JStr (L ''y'')), (L ''prune_record_ref'', JStr (L ''p''))]),
       (L ''reason'', JStr (L '' back on track ''))]"

definition restored_target :: jdict where
  "restored_target =
     [(L ''quest_ref'', JStr (L ''q'')), (L ''cycle_ref'', JStr (L ''c'')), (L ''question_ref'', JStr (L ''x'')),
      (L ''epoch'', JInt 3), (L ''target_scope'', JStr (L ''cycle'')), (L ''target_question_ref'', JStr (L ''y'')),
      (L ''prune_record_ref'', JStr (L ''p''))]"

lemma restore_command_admitted:
  "validate_control_payload restore_command =
     Inr [(L ''action'', JStr (L ''restore'')), (L ''target'', JDict restored_target), (L ''reason'', JStr (L ''back on track''))]"
proof -
  have "strip (L '' back on track '') = L ''back on track''" "\<not> is_blank (L '' back on track '')"
    by (simp_all add: strip_def is_blank_def is_space_def) (simp add: L_def)
  then show ?thesis
    by (simp add: validate_control_payload_def restore_command_def control_target_def keys_are_def CONTROL_ACTIONS_def
        CONTROL_TARGET_SCOPES_def QUESTION_ACTIONS_def SWITCH_ACTIONS_def json_in_def control_ref_def Let_def dget_or_def
        optional_member_def restored_target_def)
qed

lemma control_payload_promise_witness: "control_promise (JStr (L ''restore'')) restored_target"
  using control_payload_promise [OF restore_command_admitted] by auto

text \<open>
  The action of a command must be hashable before it can be refused: a command whose action is a
  list or an object escapes as a \<open>TypeError\<close> instead of the \<open>OwnerConflict\<close> of the contract.
\<close>
theorem control_action_type_error:
  "validate_control_payload (JDict [(L ''action'', JList xs), (L ''target'', target), (L ''reason'', reason)]) = Inl TypeError
   \<and> validate_control_payload (JDict [(L ''action'', JInt n), (L ''target'', target), (L ''reason'', reason)])
       = Inl (OwnerConflict ''research_control_payload_invalid'')"
  by (simp add: validate_control_payload_def keys_are_def in_str_set_def)

subsection \<open>Owner previews\<close>

text \<open>
  The bytes a human's approval stands for, written from the contract and not from the code: the UTF-8
  form of the canonical text of the six named fields.
\<close>

definition preview_bytes :: "str \<Rightarrow> jdict \<Rightarrow> str list \<Rightarrow> str list \<Rightarrow> str list \<Rightarrow> str list \<Rightarrow> nat list res" where
  "preview_bytes owner target happens not_happens risks stale =
     bindE (canonical_json (JDict
       [(L ''risks'', JList (map JStr risks)), (L ''source_owner'', JStr owner),
        (L ''stale_conditions'', JList (map JStr stale)), (L ''target_assertion'', JDict target),
        (L ''will_happen'', JList (map JStr happens)), (L ''will_not_happen'', JList (map JStr not_happens))]))
       encode_utf8"

lemma preview_same_document:
  assumes "same_document (JDict [(L ''source_owner'', JStr o1), (L ''target_assertion'', JDict t1), (L ''will_happen'', w1),
      (L ''will_not_happen'', n1), (L ''risks'', r1), (L ''stale_conditions'', s1)])
    (JDict [(L ''source_owner'', JStr o2), (L ''target_assertion'', JDict t2), (L ''will_happen'', w2),
      (L ''will_not_happen'', n2), (L ''risks'', r2), (L ''stale_conditions'', s2)])"
  shows "o1 = o2 \<and> same_document (JDict t1) (JDict t2) \<and> same_document w1 w2 \<and> same_document n1 n2
    \<and> same_document r1 r2 \<and> same_document s1 s2"
  using assms by (simp add: same_document_def less_eq_str_def L_def)

lemma same_document_jtexts [simp]: "same_document (jtexts xs) (jtexts ys) \<longleftrightarrow> xs = ys"
  by (simp add: same_document_def jtexts_def comp_def inj_map_eq_map inj_on_def)

lemma jtexts_ok [simp]: "wf_json (jtexts xs)" "floats_ok (jtexts xs)"
  by (simp_all add: jtexts_def list_all_iff)

lemma preview_perm:
  "same_document (JDict [(L ''source_owner'', JStr o1), (L ''target_assertion'', JDict t1), (L ''will_happen'', jtexts w1),
      (L ''will_not_happen'', jtexts n1), (L ''risks'', jtexts r1), (L ''stale_conditions'', jtexts s1)])
    (JDict [(L ''risks'', JList (map JStr r1)), (L ''source_owner'', JStr o1), (L ''stale_conditions'', JList (map JStr s1)),
      (L ''target_assertion'', JDict t1), (L ''will_happen'', JList (map JStr w1)), (L ''will_not_happen'', JList (map JStr n1))])"
  by (rule same_document_perm) (auto simp: jtexts_def L_def)

lemma preview_digest:
  assumes "signed_owner_preview o1 t1 w1 n1 r1 s1 = Inr p"
  shows "\<exists>b. preview_bytes o1 t1 w1 n1 r1 s1 = Inr b \<and> dget p ''digest'' = JStr (sha256_hex b)"
  using assms
  by (auto simp: signed_owner_preview_def preview_bytes_def Let_def canonical_hash_def canonical_json_def
      json_dumps_same_document [OF preview_perm])

lemma preview_bytes_bind:
  assumes "preview_bytes o1 t1 w1 n1 r1 s1 = Inr b" and "preview_bytes o2 t2 w2 n2 r2 s2 = Inr b"
    and "wf_json (JDict t1)" "floats_ok (JDict t1)" "wf_json (JDict t2)" "floats_ok (JDict t2)"
  shows "o1 = o2 \<and> same_document (JDict t1) (JDict t2) \<and> w1 = w2 \<and> n1 = n2 \<and> r1 = r2 \<and> s1 = s2"
proof -
  let ?d = "\<lambda>o' t w n r s. JDict [(L ''source_owner'', JStr o'), (L ''target_assertion'', JDict t), (L ''will_happen'', jtexts w),
      (L ''will_not_happen'', jtexts n), (L ''risks'', jtexts r), (L ''stale_conditions'', jtexts s)]"
  obtain x y where "json_dumps (?d o1 t1 w1 n1 r1 s1) = Inr x" "encode_utf8 x = Inr b"
      "json_dumps (?d o2 t2 w2 n2 r2 s2) = Inr y" "encode_utf8 y = Inr b"
    using assms(1,2) by (auto simp: preview_bytes_def canonical_json_def json_dumps_same_document [OF preview_perm])
  moreover from this have "x = y" using encode_utf8_inj by blast
  moreover have "wf_json (?d o1 t1 w1 n1 r1 s1)" "floats_ok (?d o1 t1 w1 n1 r1 s1)"
      "wf_json (?d o2 t2 w2 n2 r2 s2)" "floats_ok (?d o2 t2 w2 n2 r2 s2)"
    using assms(3-6) by simp_all
  ultimately have "same_document (?d o1 t1 w1 n1 r1 s1) (?d o2 t2 w2 n2 r2 s2)" using json_dumps_inj by blast
  from preview_same_document [OF this] show ?thesis by simp
qed

text \<open>
  C33. The digest of a signed preview is the SHA-256 of exactly what a human approves: the bytes of the
  canonical text of the owner, the target and the four lists. Two previews have the same bytes only when
  they agree in all six, so two previews of one digest agree in all six or exhibit, in these two byte
  strings, two texts of equal SHA-256.
\<close>
theorem preview_digest_binds:
  assumes "signed_owner_preview o1 t1 w1 n1 r1 s1 = Inr p" and "signed_owner_preview o2 t2 w2 n2 r2 s2 = Inr q"
    and "wf_json (JDict t1)" "floats_ok (JDict t1)" "wf_json (JDict t2)" "floats_ok (JDict t2)"
  shows "\<exists>b c. preview_bytes o1 t1 w1 n1 r1 s1 = Inr b \<and> dget p ''digest'' = JStr (sha256_hex b)
    \<and> preview_bytes o2 t2 w2 n2 r2 s2 = Inr c \<and> dget q ''digest'' = JStr (sha256_hex c)
    \<and> (b = c \<longrightarrow> o1 = o2 \<and> same_document (JDict t1) (JDict t2) \<and> w1 = w2 \<and> n1 = n2 \<and> r1 = r2 \<and> s1 = s2)"
  using preview_digest [OF assms(1)] preview_digest [OF assms(2)] preview_bytes_bind [OF _ _ assms(3-6)] by blast

lemma preview_digest_binds_witness:
  "\<exists>p q b c. signed_owner_preview (L ''rg'') [] [] [] [L ''r''] [] = Inr p \<and> signed_owner_preview (L ''rg'') [] [] [] [] [] = Inr q
    \<and> preview_bytes (L ''rg'') [] [] [] [L ''r''] [] = Inr b \<and> dget p ''digest'' = JStr (sha256_hex b)
    \<and> preview_bytes (L ''rg'') [] [] [] [] [] = Inr c \<and> dget q ''digest'' = JStr (sha256_hex c) \<and> b \<noteq> c"
proof -
  have "\<exists>p. signed_owner_preview (L ''rg'') [] [] [] rs [] = Inr p" if "list_all (\<lambda>r. list_all (\<lambda>c. c < 128) (codes r)) rs" for rs
  proof -
    let ?v = "JDict [(L ''source_owner'', JStr (L ''rg'')), (L ''target_assertion'', JDict []), (L ''will_happen'', jtexts []),
        (L ''will_not_happen'', jtexts []), (L ''risks'', jtexts rs), (L ''stale_conditions'', jtexts [])]"
    have "ascii_json ?v" using that by (simp add: jtexts_def L_def list_all_iff)
    then obtain h where "canonical_hash ?v = Inr h" using ascii_json_hash by blast
    then show ?thesis by (simp add: signed_owner_preview_def Let_def)
  qed
  from this [of "[L ''r'']"] this [of "[]"] obtain p q
    where p: "signed_owner_preview (L ''rg'') [] [] [] [L ''r''] [] = Inr p" and q: "signed_owner_preview (L ''rg'') [] [] [] [] [] = Inr q"
    by (auto simp: L_def)
  then show ?thesis using preview_digest_binds [OF p q] by auto
qed

subsection \<open>Wall-clock budgets\<close>

text \<open>The decimal is multiplied exactly: at most two decimals, so no second is cut off.\<close>

lemma decimal_seconds_exact:
  "length f \<le> 2 \<Longrightarrow> decimal_seconds a f = 36 * (int (digits_value (a @ f) 0) * 10 ^ (2 - length f))"
proof -
  assume "length f \<le> 2"
  then have "length f = 0 \<or> length f = 1 \<or> length f = 2" by linarith
  then show ?thesis by (elim disjE) (simp_all add: decimal_seconds_def zdiv_int)
qed

lemma hours_match_decimals: "hours_match cs = Some (a, f) \<Longrightarrow> length f \<le> 2"
  by (auto simp: hours_match_def Let_def split: if_splits list.splits)

definition budget_text :: "nat \<Rightarrow> str" where
  "budget_text k = Str (nat_codes (k div 100) @ [46, 48 + k mod 100 div 10, 48 + k mod 10, 104])"

lemma hours_match_budget_text:
  "hours_match (codes (budget_text k)) = Some (nat_codes (k div 100), [48 + k mod 100 div 10, 48 + k mod 10])"
proof -
  have "k mod 100 div 10 < 10" by (simp add: less_mult_imp_div_less)
  then have d: "is_digit (48 + k mod 100 div 10)" "is_digit (48 + k mod 10)" "\<not> is_digit 46" "\<not> is_digit 104"
    by (auto simp: is_digit_def)
  have all: "\<forall>c\<in>set (nat_codes (k div 100)). is_digit c" using nat_codes_is_digit by (simp add: list_all_iff)
  show ?thesis
    using d all by (simp add: hours_match_def budget_text_def Let_def takeWhile_append2 dropWhile_append2)
qed

lemma budget_text_seconds: "decimal_seconds (nat_codes (k div 100)) [48 + k mod 100 div 10, 48 + k mod 10] = 36 * int k"
proof -
  have "10 dvd (100::nat)" by simp
  then have "k div 100 * 100 + k mod 100 div 10 * 10 + k mod 10 = k"
    using div_mult_mod_eq [of k 100] div_mult_mod_eq [of "k mod 100" 10] mod_mod_cancel [of 10 100 k]
    by linarith
  then have "digits_value (nat_codes (k div 100) @ [48 + k mod 100 div 10, 48 + k mod 10]) 0 = k"
    by (simp add: digits_value_append algebra_simps)
  then show ?thesis by (simp add: decimal_seconds_exact)
qed

lemma last_budget_text: "codes (budget_text k) \<noteq> [] \<and> last (codes (budget_text k)) = 104 \<and> 46 \<in> set (codes (budget_text k))"
  by (simp add: budget_text_def)

lemma budget_text_reads:
  assumes "0 < k" and "36 * int k \<le> MAX_SAFE_SECONDS"
  shows "time_budget_seconds (JStr (budget_text k)) = Inr (Some (36 * int k))"
proof -
  have "k div 100 < 10 ^ 13" using assms(2) by (simp add: MAX_SAFE_SECONDS_def)
  then have "length (nat_codes (k div 100)) \<le> 13" by (rule length_nat_codes) simp
  then have len: "slen (budget_text k) \<le> 24" by (simp add: slen_def budget_text_def)
  have "budget_text k \<noteq> L t" if "46 \<notin> set (codes (L t))" for t
    using last_budget_text [of k] that by metis
  then have "map_of (map (\<lambda>p. (L (fst p), snd p)) LEGACY_SECONDS) (budget_text k) = None"
    by (simp add: LEGACY_SECONDS_def)
  then show ?thesis
    using assms len by (simp add: time_budget_seconds_def hours_match_budget_text budget_text_seconds)
qed

text \<open>
  The budgets a Quest can have are exactly the positive multiples of 36 seconds (hundredths of
  an hour) up to 2^53 - 1: every accepted text denotes one, with no rounding, and each of them has
  an accepted text.
\<close>
theorem time_budget_range:
  "{n. \<exists>v. time_budget_seconds v = Inr (Some n)} = {n. 0 < n \<and> n \<le> MAX_SAFE_SECONDS \<and> 36 dvd n}"
proof (intro set_eqI iffI)
  fix n assume "n \<in> {n. \<exists>v. time_budget_seconds v = Inr (Some n)}"
  then obtain v where "time_budget_seconds v = Inr (Some n)" by blast
  then show "n \<in> {n. 0 < n \<and> n \<le> MAX_SAFE_SECONDS \<and> 36 dvd n}"
    by (auto simp: time_budget_seconds_def LEGACY_SECONDS_def MAX_SAFE_SECONDS_def Let_def decimal_seconds_exact
        split: json.splits option.splits if_splits dest!: hours_match_decimals)
next
  fix n assume "n \<in> {n. 0 < n \<and> n \<le> MAX_SAFE_SECONDS \<and> 36 dvd n}"
  then obtain j where "n = 36 * j" "0 < j" "36 * j \<le> MAX_SAFE_SECONDS" by (auto elim!: dvdE)
  then obtain k where "0 < k" "36 * int k \<le> MAX_SAFE_SECONDS" "n = 36 * int k"
    using zero_less_imp_eq_int [of j] by auto
  then show "n \<in> {n. \<exists>v. time_budget_seconds v = Inr (Some n)}"
    using budget_text_reads by blast
qed

end
