(* ===== verification/BundleCompletion.thy ===== *)
theory BundleCompletion
  imports TargetRules
begin

text \<open>
  \<open>src/meta_research/bundle_completion.py\<close>, part one: the Plan's briefs, one result-bearing
  candidate, and the gate that a completed strategy covers every cell of the Plan.  The module
  repeats, on the closed projections of the Bundle protocol and with errors of its own, the rules
  that \<open>TargetRules\<close> states for formal candidates; definitions whose name is taken there carry
  the suffix \<open>_bc\<close>.
\<close>

abbreviation bp_fail :: "string \<Rightarrow> 'a res" where
  "bp_fail message \<equiv> Inl (BundleProtocolError message)"

subsection \<open>References and receipts\<close>

definition require_ref :: "str \<Rightarrow> string \<Rightarrow> str res" where
  "require_ref value name =
     (if is_blank value then bp_fail (name @ '' is absent'')
      else bindE (rethrow (\<lambda>_. True) (\<lambda>_. BundleProtocolError (name @ '' is not valid UTF-8'')) (encode_utf8 value)) (\<lambda>_.
        Inr value))"

text \<open>The same call on a field that may be \<open>None\<close>, and in a loop over (value, name) pairs.\<close>

definition require_optional_ref :: "str option \<Rightarrow> string \<Rightarrow> str res" where
  "require_optional_ref value name =
     (case value of None \<Rightarrow> bp_fail (name @ '' is absent'') | Some s \<Rightarrow> require_ref s name)"

definition require_refs :: "str list \<Rightarrow> string \<Rightarrow> unit res" where
  "require_refs values name = forE (\<lambda>s. bindE (require_ref s name) (\<lambda>_. Inr ())) values"

fun exn_text :: "exn \<Rightarrow> string" where
  "exn_text (BundleProtocolError message) = message"
| "exn_text (ValueError message) = message"
| "exn_text _ = []"

fun is_protocol_error :: "exn \<Rightarrow> bool" where
  "is_protocol_error (BundleProtocolError _) = True"
| "is_protocol_error _ = False"

definition validate_projection :: "pval \<Rightarrow> string \<Rightarrow> unit res" where
  "validate_projection value name =
     bindE (validate_closed_bundle_projection value name BUNDLE_ROOT_MAX_SERIALIZED_BYTES) (\<lambda>_. Inr ())"

definition validate_receipt_bc :: "ReceiptProof \<Rightarrow> str \<Rightarrow> string \<Rightarrow> unit res" where
  "validate_receipt_bc receipt subject_ref name =
     rethrow is_protocol_error (\<lambda>e. BundleProtocolError (name @ '' is invalid: '' @ exn_text e))
       (validate_receipt_proof receipt subject_ref)"

subsection \<open>The briefs of a Plan\<close>

definition validate_brief_bc :: "ExperimentBrief \<Rightarrow> unit res" where
  "validate_brief_bc brief =
     bindE (validate_projection (pv_ExperimentBrief brief) ''ExperimentBrief'') (\<lambda>_.
     bindE (require_ref (eb_experiment_key brief) ''ExperimentKey'') (\<lambda>_.
     bindE (require_ref (eb_semantic_delta brief) ''ExperimentBrief SemanticDelta'') (\<lambda>_.
     if \<not> distinct (eb_held_fixed_slots brief) then bp_fail ''ExperimentBrief repeats a held-fixed slot''
     else if list_ex is_blank (eb_held_fixed_slots brief) then bp_fail ''ExperimentBrief has an empty held-fixed slot''
     else if eb_required_measurement_unit_keys brief = [] then bp_fail ''ExperimentBrief has no required measurement cell''
     else if \<not> distinct (eb_required_measurement_unit_keys brief) then bp_fail ''ExperimentBrief repeats a measurement cell''
     else if list_ex is_blank (eb_required_measurement_unit_keys brief) then bp_fail ''ExperimentBrief has an empty measurement cell''
     else Inr ())))"

definition brief_step :: "(str \<times> ExperimentBrief) list \<Rightarrow> ExperimentBrief \<Rightarrow> (str \<times> ExperimentBrief) list res" where
  "brief_step result brief =
     bindE (validate_brief_bc brief) (\<lambda>_.
     if has_key result (eb_experiment_key brief) then bp_fail ''FormalPlan repeats an ExperimentKey''
     else Inr (dict_set (eb_experiment_key brief) brief result))"

definition briefs_by_key_bc :: "FormalPlan \<Rightarrow> (str \<times> ExperimentBrief) list res" where
  "briefs_by_key_bc plan =
     bindE (validate_projection (pv_FormalPlan plan) ''FormalPlan'') (\<lambda>_.
     bindE (require_ref (fp_formal_plan_ref plan) ''FormalPlanRef'') (\<lambda>_.
     if fp_briefs plan = [] then bp_fail ''FormalPlan has no gap ExperimentBrief''
     else
       bindE (foldE brief_step [] (fp_briefs plan)) (\<lambda>result.
       if cbp_subject_ref (fp_content_binding plan) \<noteq> fp_formal_plan_ref plan
       then bp_fail ''FormalPlan content binding points at another plan''
       else
         bindE (require_ref (cbp_content_hash_ref (fp_content_binding plan)) ''FormalPlan content hash'') (\<lambda>_.
         bindE (validate_receipt_bc (fp_acceptance_receipt plan) (cbp_content_hash_ref (fp_content_binding plan))
                  ''FormalPlan acceptance receipt'') (\<lambda>_.
         Inr result)))))"

definition binding_step_bc :: "(str \<times> str) list \<Rightarrow> HeldFixedBinding \<Rightarrow> (str \<times> str) list res" where
  "binding_step_bc result binding =
     bindE (validate_projection (pv_HeldFixedBinding binding) ''HeldFixedBinding'') (\<lambda>_.
     bindE (require_ref (hfb_semantic_slot binding) ''held-fixed semantic slot'') (\<lambda>slot.
     bindE (require_ref (hfb_implementation_revision_ref binding) ''held-fixed Implementation Revision'') (\<lambda>revision_ref.
     if has_key result slot then bp_fail ''held-fixed binding repeats a semantic slot''
     else Inr (dict_set slot revision_ref result))))"

definition binding_map_bc :: "HeldFixedBinding list \<Rightarrow> (str \<times> str) list res" where
  "binding_map_bc bindings = foldE binding_step_bc [] bindings"

subsection \<open>One candidate\<close>

definition check_mapped_brief :: "str \<times> ExperimentBrief \<Rightarrow> unit res" where
  "check_mapped_brief = (\<lambda>(experiment_key, brief).
     if experiment_key \<noteq> eb_experiment_key brief then bp_fail ''ExperimentBrief mapping changed its ExperimentKey''
     else validate_brief_bc brief)"

definition check_cell_required_bc :: "(str \<times> ExperimentBrief) list \<Rightarrow> str \<Rightarrow> str \<Rightarrow> unit res" where
  "check_cell_required_bc briefs unit_key key =
     bindE (dict_item briefs key) (\<lambda>brief.
     bindE (validate_brief_bc brief) (\<lambda>_.
     if unit_key \<notin> set (eb_required_measurement_unit_keys brief)
     then bp_fail ''Target measurement cell is not required by its ExperimentBrief''
     else Inr ()))"

definition check_route_bc :: "RouteSpec \<Rightarrow> unit res" where
  "check_route_bc route =
     bindE (require_ref (rs_route_ref route) ''SemanticRouteRef'') (\<lambda>_.
     if \<not> distinct (rs_known_external_operation_refs route) then bp_fail ''semantic route repeats an external operation''
     else require_refs (rs_known_external_operation_refs route) ''ExternalOperationRef'')"

definition verify_candidate_bc :: "TargetCandidate \<Rightarrow> (str \<times> ExperimentBrief) list \<Rightarrow> (str \<times> str) list res" where
  "verify_candidate_bc candidate briefs =
     bindE (validate_projection (pv_TargetCandidate candidate) ''TargetCandidate'') (\<lambda>_.
     bindE (forE check_mapped_brief briefs) (\<lambda>_.
     bindE (require_ref (tc_local_label candidate) ''Target local planning label'') (\<lambda>_.
     if tc_experiment_keys candidate = [] then bp_fail ''Target candidate has no ExperimentKey coverage''
     else if \<not> distinct (tc_experiment_keys candidate) then bp_fail ''Target candidate repeats an ExperimentKey''
     else if \<not> subset_list (tc_experiment_keys candidate) (keys briefs)
     then bp_fail ''Target candidate references an unknown ExperimentKey''
     else if length (tc_measurement_unit_keys candidate) \<noteq> 1
     then bp_fail ''one result-bearing Target must contain exactly one measurement cell''
     else
       bindE (require_ref (hd (tc_measurement_unit_keys candidate)) ''Target measurement cell'') (\<lambda>unit_key.
       if tc_local_label candidate \<in> set (tc_depends_on_labels candidate)
       then bp_fail ''Target candidate has a self dependency''
       else
         bindE (forE (check_cell_required_bc briefs unit_key) (tc_experiment_keys candidate)) (\<lambda>_.
         bindE (expected_slots briefs (tc_experiment_keys candidate)) (\<lambda>slots.
         bindE (binding_map_bc (tc_held_fixed_bindings candidate)) (\<lambda>bindings.
         if \<not> same_set (keys bindings) slots
         then bp_fail ''Target candidate does not bind every held-fixed slot exactly once''
         else
           bindE (require_ref (tc_implementation_revision_ref candidate) ''ImplementationRevisionRef'') (\<lambda>_.
           if map rs_route_ref (tc_routes candidate) = [] \<or> \<not> distinct (map rs_route_ref (tc_routes candidate))
           then bp_fail ''Target candidate lacks unique semantics-preserving routes''
           else
             bindE (forE check_route_bc (tc_routes candidate)) (\<lambda>_.
             if \<not> distinct (tc_direct_accepted_input_asset_refs candidate)
             then bp_fail ''Target candidate repeats an accepted input asset''
             else
               bindE (require_refs (tc_direct_accepted_input_asset_refs candidate) ''AcceptedInputAssetRef'') (\<lambda>_.
               Inr bindings))))))))))"

subsection \<open>The strategy-complete gate\<close>

text \<open>The reachability loop is the one of \<open>_verify_acyclic\<close> in \<open>bundle_target_contract\<close>, line for line.\<close>

definition verify_acyclic_bc :: "(str \<times> TargetCandidate) list \<Rightarrow> unit res" where
  "verify_acyclic_bc candidates =
     (let labels = keys candidates; values = map snd candidates in
      if list_ex (\<lambda>c. \<not> subset_list (tc_depends_on_labels c) labels) values
      then bp_fail ''strategy dependency references an unknown local label''
      else if \<not> same_set (reachable_labels values []) labels then bp_fail ''rolling strategy contains a dependency cycle''
      else Inr ())"

text \<open>A \<open>Counter\<close> of cells is the list of the cells counted, with repetitions.\<close>

record cells_state =
  planned_cells :: "(str \<times> str) list"
  target_by_unit :: "(str \<times> str) list"
  held_fixed_by_experiment :: "(str \<times> (str \<times> str) list) list"

definition held_slot_step_bc :: "string \<Rightarrow> (str \<times> str) list \<Rightarrow> (str \<times> str) list \<Rightarrow> str \<Rightarrow> (str \<times> str) list res" where
  "held_slot_step_bc message bindings established slot =
     bindE (dict_item bindings slot) (\<lambda>revision.
     case setdefault slot revision established of (previous_revision, established') \<Rightarrow>
       if previous_revision \<noteq> revision then bp_fail message else Inr established')"

definition held_experiment_step_bc ::
  "string \<Rightarrow> (str \<times> ExperimentBrief) list \<Rightarrow> (str \<times> str) list \<Rightarrow> (str \<times> (str \<times> str) list) list \<Rightarrow> str
     \<Rightarrow> (str \<times> (str \<times> str) list) list res" where
  "held_experiment_step_bc message briefs bindings held key =
     (case setdefault key [] held of (established, held') \<Rightarrow>
       bindE (dict_item briefs key) (\<lambda>brief.
       bindE (foldE (held_slot_step_bc message bindings) established (eb_held_fixed_slots brief)) (\<lambda>established'.
       Inr (dict_set key established' held'))))"

definition completion_cells_step ::
  "(str \<times> ExperimentBrief) list \<Rightarrow> cells_state \<Rightarrow> str \<times> TargetCandidate \<Rightarrow> cells_state res" where
  "completion_cells_step briefs st = (\<lambda>(label, candidate).
     if label \<noteq> tc_local_label candidate then bp_fail ''candidate mapping changed its local label''
     else
       bindE (verify_candidate_bc candidate briefs) (\<lambda>bindings.
       let unit_key = hd (tc_measurement_unit_keys candidate) in
       case setdefault unit_key label (target_by_unit st) of (previous_label, targets) \<Rightarrow>
       if previous_label \<noteq> label then bp_fail ''independent measurement cell appears in two Targets''
       else
         bindE (foldE (held_experiment_step_bc ''comparison Targets drifted a held-fixed semantic slot'' briefs bindings)
                  (held_fixed_by_experiment st) (tc_experiment_keys candidate)) (\<lambda>held.
         Inr \<lparr>planned_cells = planned_cells st @ map (\<lambda>key. (key, unit_key)) (tc_experiment_keys candidate),
              target_by_unit = targets, held_fixed_by_experiment = held\<rparr>)))"

definition brief_covered :: "(str \<times> str) list \<Rightarrow> ExperimentBrief \<Rightarrow> unit res" where
  "brief_covered planned brief =
     (let expected = map (Pair (eb_experiment_key brief)) (eb_required_measurement_unit_keys brief);
          actual = filter (\<lambda>cell. fst cell = eb_experiment_key brief \<and> count_list planned cell = 1) planned in
      if \<not> same_set actual expected \<or> list_ex (\<lambda>cell. count_list planned cell \<noteq> 1) expected
      then bp_fail ''completed strategy does not cover each FormalPlan cell exactly once''
      else Inr ())"

definition verify_completion_cells_bc :: "FormalPlan \<Rightarrow> (str \<times> TargetCandidate) list \<Rightarrow> unit res" where
  "verify_completion_cells_bc plan candidates =
     bindE (briefs_by_key_bc plan) (\<lambda>briefs.
     bindE (foldE (completion_cells_step briefs) \<lparr>planned_cells = [], target_by_unit = [], held_fixed_by_experiment = []\<rparr> candidates) (\<lambda>st.
     bindE (verify_acyclic_bc candidates) (\<lambda>_.
     forE (brief_covered (planned_cells st)) (fp_briefs plan))))"

end
