(* ===== verification/BundleClosure.thy ===== *)
theory BundleClosure
  imports BundleCompletion
begin

text \<open>
  \<open>src/meta_research/bundle_completion.py\<close>, part two: code reviews, accepted measurement
  closures with their receipts and reviews, atomic protocol aggregation, and the realized and
  remaining experiments that the accepted closures determine.
\<close>

subsection \<open>Code reviews\<close>

definition review_refs_present :: "CodeReviewRecord \<Rightarrow> unit res" where
  "review_refs_present review =
     forE (\<lambda>(v, name). bindE (require_optional_ref v name) (\<lambda>_. Inr ()))
       [(crr_fixed_base_ref review, ''code-review fixed base''),
        (crr_diff_ref review, ''code-review diff''),
        (crr_review_ref review, ''code-review ref''),
        (crr_review_parent_session_ref review, ''code-review parent Session''),
        (crr_reviewer_session_ref review, ''code-review reviewer Session''),
        (crr_reviewer_spawn_evidence_ref review, ''code-review spawn evidence'')]"

definition verify_code_review :: "CodeReviewRecord \<Rightarrow> str \<Rightarrow> unit res" where
  "verify_code_review review implementation_revision_ref =
     bindE (validate_projection (pv_CodeReviewRecord review) ''CodeReviewRecord'') (\<lambda>_.
     if crr_candidate_revision_ref review \<noteq> implementation_revision_ref
     then bp_fail ''code review candidate and implementation revision differ''
     else if crr_unresolved_standards_findings review \<noteq> 0 then bp_fail ''code-review has unresolved Standards findings''
     else if crr_unresolved_spec_findings review \<noteq> 0 then bp_fail ''code-review has unresolved Spec findings''
     else if crr_code_changed review then
       (if crr_disposition review \<noteq> L ''reviewed'' then bp_fail ''non-empty code diff requires code-review''
        else
          bindE (review_refs_present review) (\<lambda>_.
          if crr_reviewer_session_ref review = crr_review_parent_session_ref review
          then bp_fail ''code-review must run in an independent child Session''
          else if crr_reviewed_revision_ref review \<noteq> Some implementation_revision_ref
          then bp_fail ''code-review is stale for the executed revision''
          else Inr ()))
     else if crr_disposition review \<noteq> L ''not_applicable(empty_diff)''
     then bp_fail ''empty code diff requires a not-applicable record''
     else if list_ex (\<lambda>item. item \<noteq> None)
       [crr_reviewed_revision_ref review, crr_fixed_base_ref review, crr_diff_ref review, crr_review_ref review,
        crr_review_parent_session_ref review, crr_reviewer_session_ref review, crr_reviewer_spawn_evidence_ref review]
     then bp_fail ''empty code diff cannot claim a synthetic review''
     else Inr ())"

subsection \<open>Protocol aggregation\<close>

definition aggregation_document :: "ProtocolAggregationProof \<Rightarrow> pval" where
  "aggregation_document aggregation = PJson (JDict
     [(L ''protocol_version_ref'', JStr (pap_protocol_version_ref aggregation)),
      (L ''part_keys'', JList (map JStr (pap_part_keys aggregation))),
      (L ''aggregation_rule_ref'', JStr (pap_aggregation_rule_ref aggregation))])"

definition verify_protocol_aggregation :: "AcceptedMeasurementClosure \<Rightarrow> unit res" where
  "verify_protocol_aggregation closure =
     (let parts = map pp_part_key (amc_protocol_internal_parts closure) in
      if \<not> distinct parts \<or> list_ex is_blank parts then bp_fail ''Protocol internal parts are invalid''
      else if list_ex (\<lambda>part. pp_protocol_version_ref part \<noteq> amc_protocol_version_ref closure) (amc_protocol_internal_parts closure)
      then bp_fail ''Protocol part belongs to another version''
      else if parts \<noteq> [] then
        (case amc_protocol_aggregation_proof closure of
           None \<Rightarrow> bp_fail ''Protocol aggregation is incomplete or drifted''
         | Some aggregation \<Rightarrow>
             if pap_protocol_version_ref aggregation \<noteq> amc_protocol_version_ref closure \<or> pap_part_keys aggregation \<noteq> parts
             then bp_fail ''Protocol aggregation is incomplete or drifted''
             else
               let binding = pap_aggregation_evidence_binding aggregation in
               bindE (require_ref (pap_aggregation_rule_ref aggregation) ''aggregation rule'') (\<lambda>_.
               bindE (require_ref (cbp_subject_ref binding) ''aggregation evidence'') (\<lambda>_.
               bindE (require_ref (cbp_content_hash_ref binding) ''aggregation evidence hash'') (\<lambda>_.
               bindE (canonical_projection_bytes (aggregation_document aggregation) ''Protocol atomic aggregation'') (\<lambda>bytes.
               if cbp_content_hash_ref binding \<noteq> sha256_hex bytes
               then bp_fail ''Protocol aggregation evidence does not bind version, parts, and rule''
               else
                 validate_receipt_bc (pap_aggregation_evidence_receipt aggregation) (cbp_content_hash_ref binding)
                   ''aggregation evidence receipt'')))))
      else if amc_protocol_aggregation_proof closure \<noteq> None then bp_fail ''aggregation proof exists without Protocol parts''
      else Inr ())"

subsection \<open>Accepted closures\<close>

definition closure_refs_present :: "AcceptedMeasurementClosure \<Rightarrow> unit res" where
  "closure_refs_present closure =
     forE (\<lambda>(name, v). bindE (require_ref v name) (\<lambda>_. Inr ()))
       [(''TargetRef'', amc_target_ref closure), (''TargetRunRef'', amc_target_run_ref closure),
        (''TargetCommitRef'', amc_target_commit_ref closure), (''VariantRunRef'', amc_variant_run_ref closure),
        (''EvaluationRef'', amc_evaluation_ref closure), (''ProtocolVersionRef'', amc_protocol_version_ref closure),
        (''AssetManifestRef'', amc_asset_manifest_ref closure), (''ExecutionAttemptRef'', amc_execution_attempt_ref closure),
        (''ExecutionFenceRef'', amc_execution_fence_ref closure),
        (''ImplementationRevisionRef'', amc_implementation_revision_ref closure),
        (''measurement cell'', amc_measurement_unit_key closure)]"

definition closure_measurement_check :: "AcceptedMeasurementClosure \<Rightarrow> unit res" where
  "closure_measurement_check closure =
     bindE (raise_if
       ((\<not> amc_formal_measurement_accepted closure
           \<and> \<not> (amc_root_completion_receipt closure \<noteq> None \<and> amc_metric_values closure = []))
        \<or> \<not> amc_currentness_known closure \<or> \<not> amc_current closure)
       (BundleProtocolError ''measurement closure is unaccepted, stale, or unknown'')) (\<lambda>_.
     bindE
       (if amc_formal_measurement_accepted closure then
          bindE (require_optional_ref (amc_evaluation_attempt_ref closure) ''EvaluationAttemptRef'') (\<lambda>_.
          bindE (require_optional_ref (amc_metric_result_ref closure) ''MetricResultRef'') (\<lambda>_.
          raise_if ((amc_metric_values closure = [] \<and> amc_root_completion_receipt closure = None)
                      \<or> amc_rg_formal_measurement_receipt closure = None)
            (BundleProtocolError ''accepted EvaluationAttempt has no Metric values or receipt'')))
        else
          raise_if (amc_metric_result_ref closure \<noteq> None \<or> amc_metric_values closure \<noteq> []
                      \<or> amc_rg_formal_measurement_receipt closure \<noteq> None)
            (BundleProtocolError ''unmeasured work cannot claim a MetricResult or measurement receipt'')) (\<lambda>_.
     if (amc_evaluation_attempt_ref closure = None) \<noteq> (amc_evaluation_attempt_input_binding closure = None)
     then bp_fail ''EvaluationAttempt and its input binding must exist together''
     else
       case amc_evaluation_attempt_ref closure of
         None \<Rightarrow> Inr ()
       | Some ref \<Rightarrow> bindE (require_ref ref ''EvaluationAttemptRef'') (\<lambda>_. Inr ())))"

definition closure_cell_required :: "(str \<times> ExperimentBrief) list \<Rightarrow> str \<Rightarrow> str \<Rightarrow> unit res" where
  "closure_cell_required briefs unit_key key =
     bindE (dict_item briefs key) (\<lambda>brief.
     if unit_key \<notin> set (eb_required_measurement_unit_keys brief)
     then bp_fail ''measurement closure does not match its ExperimentBrief cell'' else Inr ())"

definition closure_coverage_check :: "AcceptedMeasurementClosure \<Rightarrow> (str \<times> ExperimentBrief) list \<Rightarrow> unit res" where
  "closure_coverage_check closure briefs =
     (if amc_experiment_keys closure = [] \<or> \<not> distinct (amc_experiment_keys closure)
      then bp_fail ''measurement closure has invalid ExperimentKey coverage''
      else if \<not> subset_list (amc_experiment_keys closure) (keys briefs)
      then bp_fail ''measurement closure references an unknown ExperimentKey''
      else
        bindE (forE (closure_cell_required briefs (amc_measurement_unit_key closure)) (amc_experiment_keys closure)) (\<lambda>_.
        if \<not> distinct (amc_checkpoint_artifact_refs closure) then bp_fail ''measurement closure repeats a checkpoint''
        else
          bindE (require_refs (amc_checkpoint_artifact_refs closure) ''CheckpointArtifactRef'') (\<lambda>_.
          if amc_implementation_provenance_refs closure = [] \<or> \<not> distinct (amc_implementation_provenance_refs closure)
          then bp_fail ''implementation provenance is absent or duplicated''
          else require_refs (amc_implementation_provenance_refs closure) ''implementation provenance'')))"

definition closure_completion_check :: "AcceptedMeasurementClosure \<Rightarrow> unit res" where
  "closure_completion_check closure =
     (case amc_root_completion_receipt closure of
        None \<Rightarrow>
          (case (amc_code_review closure, amc_result_review closure) of
             (Some review, Some _) \<Rightarrow> verify_code_review review (amc_implementation_revision_ref closure)
           | _ \<Rightarrow> bp_fail ''legacy measurement closure requires both independent reviews'')
      | Some receipt \<Rightarrow>
          if amc_code_review closure \<noteq> None \<or> amc_result_review closure \<noteq> None
          then bp_fail ''root completion cannot claim synthetic reviews''
          else validate_receipt_bc receipt (amc_execution_attempt_ref closure) ''root completion receipt'')"

definition input_binding_check :: "ExecutionInputBindingProof \<Rightarrow> str option \<Rightarrow> string \<Rightarrow> unit res" where
  "input_binding_check binding subject_ref name =
     bindE (require_ref (eibp_binding_ref binding) name) (\<lambda>_.
     if Some (eibp_subject_ref binding) \<noteq> subject_ref then bp_fail (name @ '' points at another subject'')
     else validate_receipt_bc (eibp_acceptance_receipt binding) (eibp_binding_ref binding) (name @ '' receipt''))"

definition closure_inputs_check :: "AcceptedMeasurementClosure \<Rightarrow> unit res" where
  "closure_inputs_check closure =
     (let variant = amc_variant_run_input_binding closure in
      bindE (input_binding_check variant (Some (amc_variant_run_ref closure)) ''VariantRun input binding'') (\<lambda>_.
      case amc_evaluation_attempt_input_binding closure of
        None \<Rightarrow>
          if amc_evaluation_attempt_ref closure = None then Inr ()
          else bp_fail ''EvaluationAttempt input binding is absent''
      | Some evaluation \<Rightarrow>
          bindE (input_binding_check evaluation (amc_evaluation_attempt_ref closure) ''EvaluationAttempt input binding'') (\<lambda>_.
          if eibp_binding_ref variant = eibp_binding_ref evaluation then bp_fail ''execution subjects share one input binding''
          else if rp_receipt_ref (eibp_acceptance_receipt variant) = rp_receipt_ref (eibp_acceptance_receipt evaluation)
          then bp_fail ''execution input bindings share one receipt''
          else Inr ())))"

text \<open>
  The measurement receipt is absent exactly when the measurement was not accepted, and its subject
  is then present: both were checked before.
\<close>

definition closure_receipts_check :: "AcceptedMeasurementClosure \<Rightarrow> unit res" where
  "closure_receipts_check closure =
     bindE (validate_receipt_bc (amc_rm_asset_receipt closure) (amc_asset_manifest_ref closure) ''RM asset receipt'') (\<lambda>_.
     bindE (validate_receipt_bc (amc_ar_execution_receipt closure) (amc_execution_attempt_ref closure) ''AR execution receipt'') (\<lambda>_.
     bindE
       (case (amc_rg_formal_measurement_receipt closure, amc_evaluation_attempt_ref closure) of
          (Some receipt, Some subject_ref) \<Rightarrow> validate_receipt_bc receipt subject_ref ''Formal Measurement receipt''
        | (None, _) \<Rightarrow>
            raise_if (amc_formal_measurement_accepted closure) (BundleProtocolError ''Formal Measurement receipt is invalid: '')
        | _ \<Rightarrow> bp_fail ''Formal Measurement receipt is invalid: '') (\<lambda>_.
     validate_receipt_bc (amc_rg_target_commit_receipt closure) (amc_target_commit_ref closure) ''TargetCommit receipt'')))"

definition result_review_check :: "AcceptedMeasurementClosure \<Rightarrow> ResultReviewRecord \<Rightarrow> unit res" where
  "result_review_check closure review =
     (if Some (rrr_reviewed_evaluation_attempt_ref review) \<noteq> amc_evaluation_attempt_ref closure
        \<or> Some (rrr_reviewed_metric_result_ref review) \<noteq> amc_metric_result_ref closure
        \<or> rrr_reviewed_asset_manifest_ref review \<noteq> amc_asset_manifest_ref closure
        \<or> rrr_unresolved_findings review \<noteq> 0
      then bp_fail ''result review does not bind the selected closure''
      else
        bindE (forE (\<lambda>(v, name). bindE (require_ref v name) (\<lambda>_. Inr ()))
          [(rrr_review_ref review, ''result review ref''),
           (rrr_review_parent_session_ref review, ''result review parent Session''),
           (rrr_reviewer_session_ref review, ''result reviewer Session''),
           (rrr_reviewer_spawn_evidence_ref review, ''result reviewer spawn evidence'')]) (\<lambda>_.
        if rrr_reviewer_session_ref review = rrr_review_parent_session_ref review
        then bp_fail ''result review must run in an independent child Session''
        else Inr ()))"

definition verify_accepted_closure :: "AcceptedMeasurementClosure \<Rightarrow> (str \<times> ExperimentBrief) list \<Rightarrow> unit res" where
  "verify_accepted_closure closure briefs =
     bindE (validate_projection (pv_AcceptedMeasurementClosure closure) ''AcceptedMeasurementClosure'') (\<lambda>_.
     bindE (closure_refs_present closure) (\<lambda>_.
     bindE (closure_measurement_check closure) (\<lambda>_.
     bindE (closure_coverage_check closure briefs) (\<lambda>_.
     bindE (closure_completion_check closure) (\<lambda>_.
     bindE (binding_map_bc (amc_held_fixed_bindings closure)) (\<lambda>bindings.
     bindE (expected_slots briefs (amc_experiment_keys closure)) (\<lambda>slots.
     if \<not> same_set (keys bindings) slots
     then bp_fail ''measurement closure does not bind every held-fixed slot exactly once''
     else
       bindE (closure_inputs_check closure) (\<lambda>_.
       bindE (closure_receipts_check closure) (\<lambda>_.
       bindE (case amc_result_review closure of None \<Rightarrow> Inr () | Some review \<Rightarrow> result_review_check closure review) (\<lambda>_.
       verify_protocol_aggregation closure))))))))))"

end
