(* ===== verification/BundleReporting.thy ===== *)
theory BundleReporting
  imports BundleClosure "HOL-Library.List_Lexorder" "HOL-Library.Product_Lexorder"
begin

text \<open>
  \<open>src/meta_research/bundle_completion.py\<close>, part three: the realized and remaining experiments of
  a set of accepted closures, the gate of a Bundle disposition, the closed semantic-replan payload,
  and the report.  Tuples of references are compared lexicographically, as Python compares them.
\<close>

subsection \<open>Realized and remaining experiments\<close>

record result_state =
  accepted_cells :: "(str \<times> str) list"
  held_by_key :: "(str \<times> (str \<times> str) list) list"
  commit_refs :: "str list"
  evaluation_refs :: "str list"
  metric_refs :: "str list"

definition claim_identity :: "string \<Rightarrow> str list \<Rightarrow> str option \<Rightarrow> str list res" where
  "claim_identity name identities value =
     (case value of
        None \<Rightarrow> Inr identities
      | Some ref \<Rightarrow>
          if ref \<in> set identities then bp_fail (''two Targets selected one '' @ name) else Inr (ref # identities))"

definition result_sets_step ::
  "(str \<times> ExperimentBrief) list \<Rightarrow> result_state \<Rightarrow> str \<times> AcceptedMeasurementClosure \<Rightarrow> result_state res" where
  "result_sets_step briefs st = (\<lambda>(target_ref, closure).
     if target_ref \<noteq> amc_target_ref closure then bp_fail ''accepted closure mapping changed its TargetRef''
     else
       bindE (verify_accepted_closure closure briefs) (\<lambda>_.
       bindE (claim_identity ''TargetCommit'' (commit_refs st) (Some (amc_target_commit_ref closure))) (\<lambda>commits.
       bindE (claim_identity ''EvaluationAttempt'' (evaluation_refs st) (amc_evaluation_attempt_ref closure)) (\<lambda>evaluations.
       bindE (claim_identity ''MetricResult'' (metric_refs st) (amc_metric_result_ref closure)) (\<lambda>metrics.
       bindE (binding_map_bc (amc_held_fixed_bindings closure)) (\<lambda>bindings.
       bindE (foldE (held_experiment_step_bc ''accepted closures drifted a held-fixed semantic slot'' briefs bindings)
                (held_by_key st) (amc_experiment_keys closure)) (\<lambda>held.
       Inr \<lparr>accepted_cells = accepted_cells st @ map (\<lambda>key. (key, amc_measurement_unit_key closure)) (amc_experiment_keys closure),
            held_by_key = held, commit_refs = commits, evaluation_refs = evaluations, metric_refs = metrics\<rparr>)))))))"

definition empty_results :: result_state where
  "empty_results = \<lparr>accepted_cells = [], held_by_key = [], commit_refs = [], evaluation_refs = [], metric_refs = []\<rparr>"

definition units_of :: "(str \<times> str) list \<Rightarrow> str \<Rightarrow> str list" where
  "units_of cells key = map snd (filter (\<lambda>cell. fst cell = key) cells)"

definition result_sets ::
  "FormalPlan \<Rightarrow> (str \<times> AcceptedMeasurementClosure) list \<Rightarrow> (str list \<times> str list) res" where
  "result_sets plan accepted =
     bindE (briefs_by_key_bc plan) (\<lambda>briefs.
     bindE (foldE (result_sets_step briefs) empty_results accepted) (\<lambda>st.
     if list_ex (\<lambda>cell. count_list (accepted_cells st) cell \<noteq> 1) (accepted_cells st)
     then bp_fail ''one measurement cell has multiple accepted closures''
     else
       let required = map (\<lambda>brief. (eb_experiment_key brief, eb_required_measurement_unit_keys brief)) (fp_briefs plan);
           realized = map fst (filter (\<lambda>p. same_set (snd p) (units_of (accepted_cells st) (fst p))) required);
           remaining = filter (\<lambda>key. key \<notin> set realized) (map fst required)
       in Inr (sorted_set realized, sorted_set remaining)))"

subsection \<open>The gate of a disposition\<close>

definition freeze_refs :: "str list \<Rightarrow> string \<Rightarrow> str list res" where
  "freeze_refs values name =
     bindE (require_refs values name) (\<lambda>_.
     if \<not> distinct values then bp_fail (name @ '' contains duplicate refs'') else Inr values)"

definition verify_report_gate ::
  "str \<Rightarrow> str list \<Rightarrow> str list \<Rightarrow> str list \<Rightarrow> str list \<Rightarrow> str list \<Rightarrow> str list \<Rightarrow> str list \<Rightarrow> str list \<Rightarrow> unit res" where
  "verify_report_gate disposition realized remaining all_experiment_keys blocker_refs semantic_change_required
       active_target_refs pending_submission_refs outcome_unknown_refs =
     (if \<not> str_in disposition [''realized'', ''blocked'', ''replan_required''] then bp_fail ''Bundle report disposition is invalid''
      else if active_target_refs \<noteq> [] \<or> pending_submission_refs \<noteq> [] \<or> outcome_unknown_refs \<noteq> []
      then bp_fail ''active, pending, or unknown work prevents a Bundle disposition''
      else if blocker_refs \<noteq> [] \<and> disposition \<noteq> L ''blocked'' then bp_fail ''a technical blocker cannot be overtaken''
      else if disposition = L ''blocked'' then
        (if blocker_refs = [] then bp_fail ''blocked disposition lacks a blocker''
         else if semantic_change_required \<noteq> [] then bp_fail ''technical blocker is not semantic replan''
         else Inr ())
      else if disposition = L ''realized'' then
        (if \<not> same_set realized all_experiment_keys \<or> remaining \<noteq> []
         then bp_fail ''realized disposition does not cover every ExperimentBrief''
         else if semantic_change_required \<noteq> [] then bp_fail ''realized disposition carries semantic changes''
         else Inr ())
      else if remaining = [] \<or> semantic_change_required = []
      then bp_fail ''replan disposition lacks remaining work or required semantic change''
      else Inr ())"

subsection \<open>The semantic-replan payload\<close>

record replan_state =
  expected_route_refs :: "str list"
  actual_route_refs :: "str list"
  changes_seen :: "str list"
  evidence_seen :: "str list"
  dispositions_seen :: "str list"
  reconciliation_receipts :: "str list"
  reconciliations_by_operation :: "(str \<times> (str \<times> ReceiptProof)) list"
  reconciliation_receipt_subjects :: "(str \<times> str) list"

definition empty_replan :: replan_state where
  "empty_replan = \<lparr>expected_route_refs = [], actual_route_refs = [], changes_seen = [], evidence_seen = [], dispositions_seen = [],
     reconciliation_receipts = [], reconciliations_by_operation = [], reconciliation_receipt_subjects = []\<rparr>"

definition route_step :: "str list \<Rightarrow> RouteSpec \<Rightarrow> str list res" where
  "route_step expected route =
     (if rs_route_ref route \<in> set expected then bp_fail ''semantic route appears in two Target candidates''
      else Inr (rs_route_ref route # expected))"

definition reconciliation_step :: "replan_state \<Rightarrow> ExternalOperationReconciliation \<Rightarrow> replan_state res" where
  "reconciliation_step st reconciliation =
     (let state = (eor_outcome reconciliation, eor_receipt reconciliation);
          receipt_ref = rp_receipt_ref (eor_receipt reconciliation);
          operation_ref = eor_operation_ref reconciliation in
      case setdefault operation_ref state (reconciliations_by_operation st) of (previous_state, by_operation) \<Rightarrow>
      if previous_state \<noteq> state then bp_fail ''external operation has inconsistent reconciliation across routes''
      else
        case setdefault receipt_ref operation_ref (reconciliation_receipt_subjects st) of (previous_subject, subjects) \<Rightarrow>
        if previous_subject \<noteq> operation_ref then bp_fail ''external reconciliation receipt identity binds two operations''
        else Inr (st\<lparr>reconciliations_by_operation := by_operation, reconciliation_receipt_subjects := subjects,
                    reconciliation_receipts := receipt_ref # reconciliation_receipts st\<rparr>))"

definition disposition_step :: "replan_state \<Rightarrow> RouteDisposition \<Rightarrow> replan_state res" where
  "disposition_step st disposition =
     (if rd_route_ref disposition \<in> set (actual_route_refs st) then bp_fail ''semantic route was disposed more than once''
      else if rd_disposition_ref disposition \<in> set (dispositions_seen st)
      then bp_fail ''two semantic routes share one disposition identity''
      else
        foldE reconciliation_step
          (st\<lparr>actual_route_refs := rd_route_ref disposition # actual_route_refs st,
              dispositions_seen := rd_disposition_ref disposition # dispositions_seen st,
              changes_seen := rd_required_changes disposition @ changes_seen st,
              evidence_seen := rd_evidence_refs disposition @ evidence_seen st\<rparr>)
          (rd_external_reconciliations disposition))"

definition barrier_step ::
  "(str \<times> TargetCandidate) list \<Rightarrow> (str \<times> str) list \<Rightarrow> (str \<times> SemanticBarrier) list \<Rightarrow> replan_state \<Rightarrow> str \<Rightarrow> replan_state res" where
  "barrier_step candidates target_by_label barriers st label =
     bindE (dict_item candidates label) (\<lambda>candidate.
     bindE (dict_item target_by_label label) (\<lambda>target_ref.
     bindE (dict_item barriers target_ref) (\<lambda>barrier.
     if sb_target_ref barrier \<noteq> target_ref then bp_fail ''semantic barrier points at another Target''
     else if sb_experiment_keys barrier \<noteq> tc_experiment_keys candidate
     then bp_fail ''semantic barrier has wrong Target ExperimentKey coverage''
     else
       bindE (foldE route_step (expected_route_refs st) (tc_routes candidate)) (\<lambda>expected.
       foldE disposition_step (st\<lparr>expected_route_refs := expected\<rparr>) (sb_route_dispositions barrier)))))"

type_synonym replan_payload = "str list \<times> str list \<times> str list \<times> str list"

record replan_flags =
  strategy_complete :: bool
  requested_target_refs :: "str list"
  blocked_target_refs :: "str list"
  pending_notice_refs :: "str list"

definition closed_semantic_replan_payload ::
  "FormalPlan \<Rightarrow> (str \<times> TargetCandidate) list \<Rightarrow> (str \<times> str) list \<Rightarrow> (str \<times> AcceptedMeasurementClosure) list \<Rightarrow> str list
     \<Rightarrow> (str \<times> SemanticBarrier) list \<Rightarrow> replan_flags \<Rightarrow> replan_payload option res" where
  "closed_semantic_replan_payload plan candidates target_by_label accepted accepted_labels semantic_barriers flags =
     (if semantic_barriers = [] then Inr None
      else if \<not> strategy_complete flags \<or> requested_target_refs flags \<noteq> [] \<or> blocked_target_refs flags \<noteq> []
        \<or> pending_notice_refs flags \<noteq> []
      then Inr None
      else if \<not> subset_list accepted_labels (keys candidates) then bp_fail ''accepted strategy label is unknown''
      else if \<not> same_set (keys target_by_label) (keys candidates) then bp_fail ''Target identity mapping is incomplete''
      else if \<not> distinct (map snd target_by_label) then bp_fail ''two strategy labels share one Target identity''
      else
        let unresolved_labels = filter (\<lambda>label. label \<notin> set accepted_labels) (keys candidates) in
        bindE (mapE (dict_item target_by_label) unresolved_labels) (\<lambda>expected_barrier_targets.
        if \<not> same_set (keys semantic_barriers) expected_barrier_targets then Inr None
        else
          bindE (result_sets plan accepted) (\<lambda>(_, remaining_keys).
          let barrier_keys = concat (map (\<lambda>p. sb_experiment_keys (snd p)) semantic_barriers) in
          if remaining_keys = [] \<or> \<not> same_set barrier_keys remaining_keys
          then bp_fail ''semantic barriers do not exactly cover remaining ExperimentKeys''
          else
            bindE (foldE (barrier_step candidates target_by_label semantic_barriers) empty_replan (sorted_set unresolved_labels)) (\<lambda>st.
            if \<not> same_set (actual_route_refs st) (expected_route_refs st)
            then bp_fail ''semantic barriers do not exactly dispose every remaining route''
            else Inr (Some (sorted_set (changes_seen st), sorted_set (evidence_seen st), sorted_set (dispositions_seen st),
                            sorted_set (reconciliation_receipts st)))))))"

subsection \<open>The report\<close>

record report_refs =
  blocker_refs :: "str list"
  semantic_change_required :: "str list"
  evidence_refs :: "str list"
  route_disposition_refs :: "str list"
  reconciliation_receipt_refs :: "str list"
  additional_owner_receipt_refs :: "str list"
  stop_decision_refs :: "str list"
  recovery_evidence_refs :: "str list"
  code_review_preflights :: "TargetExecutionPreflight list"
  active_target_refs :: "str list"
  pending_submission_refs :: "str list"
  outcome_unknown_refs :: "str list"

definition request_check :: "StageRunRequest \<Rightarrow> FormalPlan \<Rightarrow> unit res" where
  "request_check request plan =
     (if srr_formal_plan_ref request \<noteq> fp_formal_plan_ref plan
        \<or> srr_formal_plan_content_hash_ref request \<noteq> cbp_content_hash_ref (fp_content_binding plan)
      then bp_fail ''StageRunRequest is bound to another FormalPlan''
      else if \<not> srr_typed request \<or> \<not> srr_currentness_known request \<or> \<not> srr_current request
        \<or> \<not> srr_root_execution_fence_current request
      then bp_fail ''StageRunRequest is untyped, stale, or unfenced''
      else bindE (require_ref (srr_request_ref request) ''BundleStageRunRequestRef'') (\<lambda>_. Inr ()))"

definition frozen_report_refs :: "report_refs \<Rightarrow> unit res" where
  "frozen_report_refs refs =
     bindE (freeze_refs (blocker_refs refs) ''blocker ref'') (\<lambda>_.
     bindE (freeze_refs (semantic_change_required refs) ''semantic change ref'') (\<lambda>_.
     bindE (freeze_refs (evidence_refs refs) ''evidence ref'') (\<lambda>_.
     bindE (freeze_refs (route_disposition_refs refs) ''route disposition ref'') (\<lambda>_.
     bindE (freeze_refs (reconciliation_receipt_refs refs) ''reconciliation receipt ref'') (\<lambda>_.
     bindE (freeze_refs (additional_owner_receipt_refs refs) ''Owner receipt ref'') (\<lambda>_.
     bindE (freeze_refs (stop_decision_refs refs) ''StopDecisionRef'') (\<lambda>_.
     bindE (freeze_refs (recovery_evidence_refs refs) ''recovery evidence ref'') (\<lambda>_.
     bindE (forE (\<lambda>preflight. validate_projection (pv_TargetExecutionPreflight preflight) ''TargetExecutionPreflight'')
              (code_review_preflights refs)) (\<lambda>_.
     bindE (freeze_refs (active_target_refs refs) ''active TargetRef'') (\<lambda>_.
     bindE (freeze_refs (pending_submission_refs refs) ''pending submission ref'') (\<lambda>_.
     bindE (freeze_refs (outcome_unknown_refs refs) ''unknown operation ref'') (\<lambda>_.
     Inr ()))))))))))))"

definition closure_provenance :: "AcceptedMeasurementClosure \<Rightarrow> str \<times> str list" where
  "closure_provenance closure =
     (amc_target_commit_ref closure,
      sorted_set (map hfb_implementation_revision_ref (amc_held_fixed_bindings closure)
                  @ amc_implementation_revision_ref closure # amc_implementation_provenance_refs closure))"

definition closure_owner_receipts :: "AcceptedMeasurementClosure \<Rightarrow> str list" where
  "closure_owner_receipts closure =
     map rp_receipt_ref
       ([amc_rm_asset_receipt closure, amc_ar_execution_receipt closure, amc_rg_target_commit_receipt closure,
         eibp_acceptance_receipt (amc_variant_run_input_binding closure)]
        @ present
            [amc_rg_formal_measurement_receipt closure,
             map_option eibp_acceptance_receipt (amc_evaluation_attempt_input_binding closure),
             amc_root_completion_receipt closure,
             map_option pap_aggregation_evidence_receipt (amc_protocol_aggregation_proof closure)])"

definition report_of ::
  "str \<Rightarrow> StageRunRequest \<Rightarrow> FormalPlan \<Rightarrow> AcceptedMeasurementClosure list \<Rightarrow> report_refs \<Rightarrow> str list \<Rightarrow> str list \<Rightarrow> BundleReport" where
  "report_of disposition request plan closures refs realized remaining =
     (let preflights = code_review_preflights refs;
          reviews = present (map amc_result_review closures) in
      \<lparr>br_disposition = disposition,
       br_stage_request_ref = srr_request_ref request,
       br_formal_plan_ref = fp_formal_plan_ref plan,
       br_accepted_target_commit_refs = sort (map amc_target_commit_ref closures),
       br_accepted_evaluation_attempt_refs = sort (present (map amc_evaluation_attempt_ref closures)),
       br_metric_result_refs = sort (present (map amc_metric_result_ref closures)),
       br_execution_attempt_refs = sort (map amc_execution_attempt_ref closures),
       br_execution_fence_refs = sort (map amc_execution_fence_ref closures),
       br_checkpoint_artifact_refs = sort (concat (map amc_checkpoint_artifact_refs closures)),
       br_realized_experiment_keys = realized,
       br_remaining_experiment_keys = remaining,
       br_blocker_refs = blocker_refs refs,
       br_semantic_change_required = semantic_change_required refs,
       br_evidence_refs = evidence_refs refs,
       br_route_disposition_refs = route_disposition_refs refs,
       br_reconciliation_receipt_refs = reconciliation_receipt_refs refs,
       br_owner_receipt_refs = sorted_set (additional_owner_receipt_refs refs
         @ rp_receipt_ref (fp_acceptance_receipt plan) # concat (map closure_owner_receipts closures)),
       br_stop_decision_refs = sort (stop_decision_refs refs),
       br_recovery_evidence_refs = sort (recovery_evidence_refs refs),
       br_code_review_preflights = preflights,
       br_code_review_refs = sorted_set (present (map (crr_review_ref \<circ> tep_code_review) preflights)),
       br_result_reviews = sort_key rrr_review_ref reviews,
       br_result_review_refs = sort (map rrr_review_ref reviews),
       br_reviewer_session_refs = sorted_set (present (map (crr_reviewer_session_ref \<circ> tep_code_review) preflights)
         @ map rrr_reviewer_session_ref reviews),
       br_reviewer_spawn_evidence_refs = sorted_set (present (map (crr_reviewer_spawn_evidence_ref \<circ> tep_code_review) preflights)
         @ map rrr_reviewer_spawn_evidence_ref reviews),
       br_provenance = sort (map closure_provenance closures)\<rparr>)"

definition build_report ::
  "str \<Rightarrow> StageRunRequest \<Rightarrow> FormalPlan \<Rightarrow> (str \<times> AcceptedMeasurementClosure) list \<Rightarrow> report_refs \<Rightarrow> BundleReport res" where
  "build_report disposition request plan accepted refs =
     bindE (validate_projection (pv_StageRunRequest request) ''BundleStageRunRequest'') (\<lambda>_.
     bindE (briefs_by_key_bc plan) (\<lambda>briefs.
     bindE (request_check request plan) (\<lambda>_.
     bindE (frozen_report_refs refs) (\<lambda>_.
     bindE (result_sets plan accepted) (\<lambda>(realized, remaining).
     bindE (verify_report_gate disposition realized remaining (keys briefs) (blocker_refs refs) (semantic_change_required refs)
              (active_target_refs refs) (pending_submission_refs refs) (outcome_unknown_refs refs)) (\<lambda>_.
     let report = report_of disposition request plan (map snd accepted) refs realized remaining in
     bindE (validate_bundle_report report) (\<lambda>_. Inr report)))))))"

end
