(* ===== verification/TargetRunGates.thy ===== *)
theory TargetRunGates
  imports BundleReporting
begin

text \<open>
  \<open>src/meta_research/target_run_contract.py\<close>, part one: references and receipts, the code-review
  gate, the handle of a TargetRun and its frozen inputs, the activation scope, the proof that every
  route of a Target is exhausted, and the frontier entry.
\<close>

abbreviation tr_fail :: "string \<Rightarrow> 'a res" where
  "tr_fail message \<equiv> Inl (TargetRunContractError message)"

subsection \<open>References, numbers, receipts, digests\<close>

definition require_run_ref :: "str \<Rightarrow> string \<Rightarrow> str res" where
  "require_run_ref value name =
     (if codes value = [] \<or> value \<noteq> strip value then tr_fail (name @ '' is absent, padded, or non-canonical'')
      else
        bindE (rethrow (\<lambda>_. True) (\<lambda>_. TargetRunContractError (name @ '' is not valid UTF-8'')) (encode_utf8 value)) (\<lambda>_.
        if scontains 0 value \<or> scontains 13 value \<or> scontains 10 value
        then tr_fail (name @ '' contains a stream delimiter'')
        else Inr value))"

text \<open>The same call on a field that may be \<open>None\<close>, and in a loop over references.\<close>

definition require_optional_run_ref :: "str option \<Rightarrow> string \<Rightarrow> str res" where
  "require_optional_run_ref value name =
     (case value of None \<Rightarrow> tr_fail (name @ '' is absent, padded, or non-canonical'') | Some s \<Rightarrow> require_run_ref s name)"

definition require_run_refs :: "str list \<Rightarrow> string \<Rightarrow> unit res" where
  "require_run_refs values name = forE (\<lambda>s. bindE (require_run_ref s name) (\<lambda>_. Inr ())) values"

definition require_nonnegative_int :: "int \<Rightarrow> string \<Rightarrow> bool \<Rightarrow> int res" where
  "require_nonnegative_int value name positive =
     (if value < (if positive then 1 else 0) then tr_fail (name @ '' must be an exact nonnegative integer'') else Inr value)"

definition validate_run_receipt :: "ReceiptProof \<Rightarrow> str \<Rightarrow> string \<Rightarrow> unit res" where
  "validate_run_receipt receipt subject_ref name =
     rethrow is_protocol_error (\<lambda>_. TargetRunContractError (name @ '' is absent, stale, or subject-drifted''))
       (validate_receipt_proof receipt subject_ref)"

definition projection_digest :: "pval \<Rightarrow> string \<Rightarrow> str res" where
  "projection_digest v name = validate_closed_bundle_projection v name BUNDLE_ROOT_MAX_SERIALIZED_BYTES"

definition payload_digest :: "json \<Rightarrow> string \<Rightarrow> str res" where
  "payload_digest payload name = bindE (canonical_projection_bytes (PJson payload) name) (\<lambda>bytes. Inr (sha256_hex bytes))"

definition plain :: "('a \<Rightarrow> pval) \<Rightarrow> 'a \<Rightarrow> json" where
  "plain f x = projection_plain_value (f x)"

fun jopt :: "str option \<Rightarrow> json" where
  "jopt None = JNull"
| "jopt (Some s) = JStr s"

definition code_review_evidence_digest :: "CodeReviewRecord \<Rightarrow> CodeReviewScope \<Rightarrow> str res" where
  "code_review_evidence_digest review scope = payload_digest (obj
     [(''review'', plain pv_CodeReviewRecord review), (''complete_review_scope'', plain pv_CodeReviewScope scope)])
     ''independent code-review evidence''"

definition notice_payload_digest :: "TargetWorkNotice \<Rightarrow> str res" where
  "notice_payload_digest notice = payload_digest (obj
     [(''notice_ref'', JStr (twn_notice_ref notice)),
      (''terminal_transition_ref'', JStr (twn_terminal_transition_ref notice)),
      (''kind'', JStr (twn_kind notice)),
      (''target_ref'', JStr (twn_target_ref notice)),
      (''target_run_ref'', JStr (twn_target_run_ref notice)),
      (''execution_attempt_ref'', jopt (twn_execution_attempt_ref notice)),
      (''execution_fence_ref'', jopt (twn_execution_fence_ref notice)),
      (''terminal_fact_ref'', JStr (twn_terminal_fact_ref notice)),
      (''handoff_manifest_ref'', JStr (twn_handoff_manifest_ref notice)),
      (''handoff_manifest_sha256'', JStr (twn_handoff_manifest_sha256 notice)),
      (''compact_reason'', JStr (twn_compact_reason notice)),
      (''pending_obligation_refs'', jstrs (twn_pending_obligation_refs notice))]) ''TargetWorkNotice payload''"

definition bundle_escalation_digest :: "TechnicalBlocker \<Rightarrow> str res" where
  "bundle_escalation_digest blocker = payload_digest (obj
     [(''target_ref'', JStr (tbl_target_ref blocker)),
      (''target_run_ref'', JStr (tbl_target_run_ref blocker)),
      (''execution_attempt_ref'', JStr (tbl_execution_attempt_ref blocker)),
      (''execution_fence_ref'', JStr (tbl_execution_fence_ref blocker)),
      (''blocker_ref'', JStr (tbl_blocker_ref blocker)),
      (''blocker_receipt'', plain pv_ReceiptProof (tbl_blocker_receipt blocker)),
      (''reason'', JStr (tbl_reason blocker)),
      (''recovery_ready'', JBool (tbl_recovery_ready blocker)),
      (''old_session_fenced'', JBool (tbl_old_session_fenced blocker)),
      (''recovery_pack_complete'', JBool (tbl_recovery_pack_complete blocker)),
      (''replacement_implementation_revision_ref'', jopt (tbl_replacement_implementation_revision_ref blocker)),
      (''bundle_decision_required'', JBool (tbl_bundle_decision_required blocker)),
      (''escalation_scope'', jopt (tbl_escalation_scope blocker)),
      (''pending_obligation_refs'', jstrs (tbl_pending_obligation_refs blocker))]) ''Bundle escalation payload''"

subsection \<open>The code-review gate\<close>

definition code_review_refs :: "CodeReviewRecord \<Rightarrow> (str option \<times> string) list" where
  "code_review_refs review =
     [(crr_reviewed_revision_ref review, ''reviewed revision''),
      (crr_fixed_base_ref review, ''fixed review base''),
      (crr_diff_ref review, ''review diff''),
      (crr_review_ref review, ''$code-review record''),
      (crr_review_parent_session_ref review, ''review parent Session''),
      (crr_reviewer_session_ref review, ''reviewer Session''),
      (crr_reviewer_spawn_evidence_ref review, ''reviewer spawn evidence'')]"

definition changed_code_check :: "CodeReviewRecord \<Rightarrow> str \<Rightarrow> str \<Rightarrow> unit res" where
  "changed_code_check review revision root_session =
     (if crr_disposition review \<noteq> L ''reviewed'' then tr_fail ''non-empty diff requires an independent $code-review''
      else
        bindE (forE (\<lambda>(v, name). bindE (require_optional_run_ref v name) (\<lambda>_. Inr ())) (code_review_refs review)) (\<lambda>_.
        if crr_reviewed_revision_ref review \<noteq> Some revision then tr_fail ''code review is stale for the protected revision''
        else if crr_review_parent_session_ref review \<noteq> Some root_session
        then tr_fail ''code-review child was not spawned by the current Target root''
        else if crr_reviewer_session_ref review = Some root_session
        then tr_fail ''code review must run in a distinct child Session''
        else Inr ()))"

definition empty_diff_check :: "CodeReviewRecord \<Rightarrow> unit res" where
  "empty_diff_check review =
     (if crr_disposition review \<noteq> L ''not_applicable(empty_diff)''
      then tr_fail ''empty diff requires the exact not_applicable(empty_diff) record''
      else if list_ex (\<lambda>(v, name). v \<noteq> None) (code_review_refs review)
      then tr_fail ''empty diff cannot carry a synthetic code review''
      else Inr ())"

definition validate_code_review :: "CodeReviewRecord \<Rightarrow> str \<Rightarrow> str \<Rightarrow> str res" where
  "validate_code_review review implementation_revision_ref target_root_session_ref =
     bindE (projection_digest (pv_CodeReviewRecord review) ''CodeReviewRecord'') (\<lambda>digest.
     bindE (require_run_ref implementation_revision_ref ''Implementation Revision'') (\<lambda>_.
     bindE (require_run_ref target_root_session_ref ''Target root Session'') (\<lambda>_.
     bindE (require_nonnegative_int (crr_unresolved_standards_findings review) ''unresolved Standards findings'' False) (\<lambda>_.
     bindE (require_nonnegative_int (crr_unresolved_spec_findings review) ''unresolved Spec findings'' False) (\<lambda>_.
     if crr_candidate_revision_ref review \<noteq> implementation_revision_ref
     then tr_fail ''code review candidate differs from the protected revision''
     else if crr_unresolved_standards_findings review \<noteq> 0 \<or> crr_unresolved_spec_findings review \<noteq> 0
     then tr_fail ''code review has unresolved Standards or Spec findings''
     else
       bindE (if crr_code_changed review then changed_code_check review implementation_revision_ref target_root_session_ref
              else empty_diff_check review) (\<lambda>_.
       Inr digest))))))"

subsection \<open>The handle of a TargetRun\<close>

definition handle_identities :: "TargetWorkHandle \<Rightarrow> (str \<times> string) list" where
  "handle_identities handle =
     [(twh_target_run_ref handle, ''TargetRun''), (twh_root_session_ref handle, ''Target root Session''),
      (twh_execution_attempt_ref handle, ''ExecutionAttempt''), (twh_execution_fence_ref handle, ''ExecutionFence'')]"

definition input_asset_check :: "AcceptedInputAssetProof \<Rightarrow> unit res" where
  "input_asset_check proof =
     bindE (require_run_ref (aiap_asset_ref proof) ''accepted input asset'') (\<lambda>_.
     bindE (validate_run_receipt (aiap_rm_acceptance_receipt proof) (aiap_asset_ref proof) ''accepted input RM receipt'') (\<lambda>_.
     validate_run_receipt (aiap_rg_role_receipt proof) (aiap_asset_ref proof) ''accepted input RG role receipt''))"

definition validate_target_work_handle :: "TargetWorkHandle \<Rightarrow> str \<Rightarrow> str list \<Rightarrow> str list \<Rightarrow> str res" where
  "validate_target_work_handle handle target_ref commits assets =
     bindE (projection_digest (pv_TargetWorkHandle handle) ''TargetWorkHandle'') (\<lambda>digest.
     if twh_target_ref handle \<noteq> target_ref then tr_fail ''TargetRun handle points at another Target''
     else
       bindE (forE (\<lambda>(v, name). bindE (require_run_ref v name) (\<lambda>_. Inr ())) (handle_identities handle)) (\<lambda>_.
       if \<not> distinct (map fst (handle_identities handle))
       then tr_fail ''TargetRun, Session, ExecutionAttempt, and ExecutionFence must be distinct''
       else
         bindE (require_run_ref (twh_execution_input_binding_ref handle) ''Execution Input Binding'') (\<lambda>_.
         bindE (validate_run_receipt (twh_execution_input_binding_receipt handle) (twh_execution_input_binding_ref handle)
                  ''Execution Input Binding receipt'') (\<lambda>_.
         if commits \<noteq> sorted_set commits
         then tr_fail ''expected upstream TargetCommit refs are not canonical and unique''
         else if twh_accepted_input_target_commit_refs handle \<noteq> commits
         then tr_fail ''TargetRun does not freeze the exact accepted upstream TargetCommits''
         else
           bindE (require_run_refs (twh_accepted_input_target_commit_refs handle) ''accepted TargetCommit'') (\<lambda>_.
           if assets \<noteq> sorted_set assets then tr_fail ''expected accepted asset refs are not canonical and unique''
           else if map aiap_asset_ref (twh_accepted_input_asset_proofs handle) \<noteq> assets
           then tr_fail ''TargetRun does not freeze the exact accepted asset refs''
           else
             bindE (forE input_asset_check (twh_accepted_input_asset_proofs handle)) (\<lambda>_.
             if \<not> twh_recoverable handle then tr_fail ''formal result-bearing Target lacks a recoverable TargetRun''
             else Inr digest))))))"

subsection \<open>The activation scope\<close>

definition plan_content_digest :: "FormalPlan \<Rightarrow> str res" where
  "plan_content_digest plan = payload_digest (obj
     [(''formal_plan_ref'', JStr (fp_formal_plan_ref plan)),
      (''briefs'', JList (map (plain pv_ExperimentBrief) (fp_briefs plan)))]) ''FormalPlan content''"

definition target_content_digest :: "str \<Rightarrow> TargetCandidate \<Rightarrow> str res" where
  "target_content_digest target_ref candidate = payload_digest (obj
     [(''target_ref'', JStr target_ref), (''candidate'', plain pv_TargetCandidate candidate)]) ''Target candidate content''"

definition scope_follows_candidate ::
  "CodeReviewScope \<Rightarrow> TargetCandidate \<Rightarrow> FormalPlan \<Rightarrow> str list \<Rightarrow> str list \<Rightarrow> bool" where
  "scope_follows_candidate scope candidate plan deltas inputs \<longleftrightarrow>
     cbp_subject_ref (crs_candidate_revision_binding scope) = tc_implementation_revision_ref candidate
     \<and> crs_formal_plan_binding scope = fp_content_binding plan
     \<and> crs_formal_plan_acceptance_receipt scope = fp_acceptance_receipt plan
     \<and> crs_experiment_keys scope = tc_experiment_keys candidate
     \<and> crs_semantic_deltas scope = deltas
     \<and> crs_held_fixed_bindings scope = tc_held_fixed_bindings candidate
     \<and> crs_accepted_input_refs scope = inputs"

definition receipt_subject_step :: "(str \<times> str) list \<Rightarrow> ReceiptProof \<Rightarrow> (str \<times> str) list res" where
  "receipt_subject_step subjects receipt =
     (case setdefault (rp_receipt_ref receipt) (rp_subject_ref receipt) subjects of (previous, subjects') \<Rightarrow>
        if previous \<noteq> rp_subject_ref receipt then tr_fail ''one Owner receipt identity was rebound to two subjects''
        else Inr subjects')"

definition handle_receipts :: "TargetWorkHandle \<Rightarrow> ReceiptProof list" where
  "handle_receipts handle = twh_execution_input_binding_receipt handle #
     concat (map (\<lambda>proof. [aiap_rm_acceptance_receipt proof, aiap_rg_role_receipt proof]) (twh_accepted_input_asset_proofs handle))"

definition activation_plan_check :: "TargetCandidate \<Rightarrow> FormalPlan \<Rightarrow> (str \<times> ExperimentBrief) list res" where
  "activation_plan_check candidate plan =
     bindE (projection_digest (pv_TargetCandidate candidate) ''TargetCandidate'') (\<lambda>_.
     bindE (projection_digest (pv_FormalPlan plan) ''FormalPlan'') (\<lambda>_.
     let briefs = dict_of (map (\<lambda>brief. (eb_experiment_key brief, brief)) (fp_briefs plan)) in
     if length briefs \<noteq> length (fp_briefs plan) then tr_fail ''FormalPlan repeats an ExperimentKey''
     else
       bindE (rethrow is_value_error (\<lambda>_. TargetRunContractError ''Target candidate is invalid for the FormalPlan'')
                (verify_candidate_bc candidate briefs)) (\<lambda>_.
       if cbp_subject_ref (fp_content_binding plan) \<noteq> fp_formal_plan_ref plan
       then tr_fail ''FormalPlan content binding points at another plan''
       else
         bindE (plan_content_digest plan) (\<lambda>expected_hash.
         if cbp_content_hash_ref (fp_content_binding plan) \<noteq> expected_hash
         then tr_fail ''FormalPlan content binding differs from its complete briefs''
         else
           bindE (validate_run_receipt (fp_acceptance_receipt plan) (cbp_content_hash_ref (fp_content_binding plan))
                    ''FormalPlan acceptance receipt'') (\<lambda>_.
           Inr briefs)))))"

definition activation_spec_check :: "TargetWorkHandle \<Rightarrow> TargetCandidate \<Rightarrow> ContentBindingProof \<Rightarrow> ReceiptProof \<Rightarrow> unit res" where
  "activation_spec_check handle candidate spec_binding spec_receipt =
     (if cbp_subject_ref spec_binding \<noteq> twh_target_ref handle then tr_fail ''Target spec content binding points at another Target''
      else
        bindE (target_content_digest (twh_target_ref handle) candidate) (\<lambda>expected_hash.
        if cbp_content_hash_ref spec_binding \<noteq> expected_hash
        then tr_fail ''Target spec content binding differs from the complete candidate''
        else validate_run_receipt spec_receipt (cbp_content_hash_ref spec_binding) ''Target spec acceptance receipt''))"

definition validate_target_run_activation_scope ::
  "TargetWorkHandle \<Rightarrow> TargetCandidate \<Rightarrow> FormalPlan \<Rightarrow> ContentBindingProof \<Rightarrow> ReceiptProof \<Rightarrow> CodeReviewScope
     \<Rightarrow> str list \<Rightarrow> str list \<Rightarrow> unit res" where
  "validate_target_run_activation_scope handle candidate plan spec_binding spec_receipt scope commits assets =
     bindE (activation_plan_check candidate plan) (\<lambda>briefs.
     bindE (validate_target_work_handle handle (twh_target_ref handle) commits assets) (\<lambda>_.
     bindE (activation_spec_check handle candidate spec_binding spec_receipt) (\<lambda>_.
     if crs_target_spec_binding scope \<noteq> spec_binding \<or> crs_target_spec_acceptance_receipt scope \<noteq> spec_receipt
     then tr_fail ''initial review scope differs from authoritative Target spec''
     else
       bindE (mapE (\<lambda>key. bindE (dict_item briefs key) (\<lambda>brief. Inr (eb_semantic_delta brief))) (tc_experiment_keys candidate)) (\<lambda>deltas.
       if \<not> scope_follows_candidate scope candidate plan deltas (sort (commits @ assets))
       then tr_fail ''initial review scope drifted Candidate, FormalPlan, or accepted inputs''
       else if assets \<noteq> sort (tc_direct_accepted_input_asset_refs candidate)
       then tr_fail ''accepted input assets differ from the complete Target candidate''
       else bindE (foldE receipt_subject_step [] (handle_receipts handle)) (\<lambda>_. Inr ())))))"

subsection \<open>Route exhaustion\<close>

definition FROZEN_SEMANTIC_FIELDS :: "string list" where
  "FROZEN_SEMANTIC_FIELDS =
     [''Goal'', ''Characteristics'', ''BoundaryConstraints'', ''SemanticDelta'', ''HeldFixedImplementationRevision'']"

definition TERMINAL_EXTERNAL_OUTCOMES :: "string list" where
  "TERMINAL_EXTERNAL_OUTCOMES = [''succeeded'', ''rejected'', ''cancelled'', ''no_effect'', ''already_applied'']"

definition expected_route_step :: "(str \<times> RouteSpec) list \<Rightarrow> RouteSpec \<Rightarrow> (str \<times> RouteSpec) list res" where
  "expected_route_step expected route =
     bindE (require_run_ref (rs_route_ref route) ''semantic route'') (\<lambda>route_ref.
     if has_key expected route_ref then tr_fail ''Target candidate repeats a semantic route''
     else if \<not> distinct (rs_known_external_operation_refs route) then tr_fail ''semantic route repeats an external operation''
     else
       bindE (require_run_refs (rs_known_external_operation_refs route) ''external operation'') (\<lambda>_.
       Inr (dict_set route_ref route expected)))"

definition reconciliation_check :: "str \<times> ExternalOperationReconciliation \<Rightarrow> unit res" where
  "reconciliation_check = (\<lambda>(operation_ref, reconciliation).
     bindE (require_run_ref operation_ref ''external operation reconciliation'') (\<lambda>_.
     if \<not> str_in (eor_outcome reconciliation) TERMINAL_EXTERNAL_OUTCOMES
     then tr_fail ''SemanticBarrier has an unreconciled external operation''
     else validate_run_receipt (eor_receipt reconciliation) operation_ref ''external operation reconciliation receipt''))"

definition disposition_reconciliations :: "RouteDisposition \<Rightarrow> (str \<times> ExternalOperationReconciliation) list" where
  "disposition_reconciliations disposition =
     dict_of (map (\<lambda>item. (eor_operation_ref item, item)) (rd_external_reconciliations disposition))"

definition exhausted_route_step ::
  "TargetCandidate \<Rightarrow> (str \<times> RouteSpec) list \<Rightarrow> str list \<Rightarrow> str \<times> RouteDisposition \<Rightarrow> str list res" where
  "exhausted_route_step candidate expected disposition_refs = (\<lambda>(route_ref, disposition).
     bindE (require_run_ref (rd_disposition_ref disposition) ''RouteDisposition'') (\<lambda>disposition_ref.
     if disposition_ref \<in> set disposition_refs then tr_fail ''two semantic routes share one disposition identity''
     else if rd_experiment_keys disposition \<noteq> tc_experiment_keys candidate
     then tr_fail ''route disposition has wrong ExperimentKey coverage''
     else if rd_outcome disposition \<noteq> L ''requires_frozen_change''
     then tr_fail ''technical, viable, or unknown route cannot prove semantic replan''
     else if rd_required_changes disposition = [] \<or> \<not> distinct (rd_required_changes disposition)
       \<or> list_ex (\<lambda>change. \<not> str_in change FROZEN_SEMANTIC_FIELDS) (rd_required_changes disposition)
     then tr_fail ''repairable implementation difficulty is not semantic replan''
     else if rd_evidence_refs disposition = [] \<or> \<not> distinct (rd_evidence_refs disposition)
     then tr_fail ''semantic route disposition lacks exact evidence''
     else
       bindE (require_run_refs (rd_evidence_refs disposition) ''SemanticBarrier evidence'') (\<lambda>_.
       let reconciliations = disposition_reconciliations disposition in
       if length reconciliations \<noteq> length (rd_external_reconciliations disposition)
       then tr_fail ''external operation is reconciled more than once''
       else
         bindE (dict_item expected route_ref) (\<lambda>route.
         if \<not> same_set (keys reconciliations) (rs_known_external_operation_refs route)
         then tr_fail ''semantic route omits a known external operation reconciliation''
         else
           bindE (forE reconciliation_check reconciliations) (\<lambda>_.
           Inr (disposition_ref # disposition_refs))))))"

definition barrier_dispositions :: "SemanticBarrier \<Rightarrow> (str \<times> RouteDisposition) list" where
  "barrier_dispositions barrier = dict_of (map (\<lambda>item. (rd_route_ref item, item)) (sb_route_dispositions barrier))"

definition validate_semantic_barrier :: "SemanticBarrier \<Rightarrow> TargetCandidate \<Rightarrow> TargetWorkHandle \<Rightarrow> str res" where
  "validate_semantic_barrier barrier candidate handle =
     bindE (projection_digest (pv_SemanticBarrier barrier) ''SemanticBarrier'') (\<lambda>digest.
     if sb_target_ref barrier \<noteq> twh_target_ref handle \<or> sb_target_run_ref barrier \<noteq> twh_target_run_ref handle
       \<or> sb_execution_attempt_ref barrier \<noteq> twh_execution_attempt_ref handle
       \<or> sb_execution_fence_ref barrier \<noteq> twh_execution_fence_ref handle
     then tr_fail ''SemanticBarrier is bound to a stale TargetRun handle''
     else if sb_experiment_keys barrier \<noteq> tc_experiment_keys candidate
     then tr_fail ''SemanticBarrier has wrong ExperimentKey coverage''
     else
       bindE (require_run_ref (sb_reason barrier) ''SemanticBarrier reason'') (\<lambda>_.
       bindE (foldE expected_route_step [] (tc_routes candidate)) (\<lambda>expected.
       let dispositions = barrier_dispositions barrier in
       if length dispositions \<noteq> length (sb_route_dispositions barrier) \<or> \<not> same_set (keys dispositions) (keys expected)
       then tr_fail ''SemanticBarrier lacks exact dispositions for its Target routes''
       else
         bindE (foldE (exhausted_route_step candidate expected) [] dispositions) (\<lambda>_.
         Inr digest))))"

subsection \<open>The frontier\<close>

definition validate_target_frontier_entry ::
  "TargetFrontierEntry \<Rightarrow> str \<Rightarrow> ContentBindingProof \<Rightarrow> ReceiptProof \<Rightarrow> str list \<Rightarrow> str list \<Rightarrow> str res" where
  "validate_target_frontier_entry entry target_ref spec_binding spec_receipt commits assets =
     bindE (projection_digest (pv_TargetFrontierEntry entry) ''TargetFrontierEntry'') (\<lambda>digest.
     if tfe_target_ref entry \<noteq> target_ref then tr_fail ''Target frontier points at another Target''
     else if tfe_target_spec_binding entry \<noteq> spec_binding \<or> tfe_target_spec_acceptance_receipt entry \<noteq> spec_receipt
     then tr_fail ''Target frontier differs from the authoritative Target spec''
     else if cbp_subject_ref spec_binding \<noteq> target_ref then tr_fail ''Target spec content binding points at another Target''
     else
       bindE (require_run_ref (cbp_content_hash_ref spec_binding) ''Target spec content hash'') (\<lambda>_.
       bindE (validate_run_receipt spec_receipt (cbp_content_hash_ref spec_binding) ''Target spec acceptance receipt'') (\<lambda>_.
       bindE (require_nonnegative_int (tfe_state_revision entry) ''frontier revision'' True) (\<lambda>_.
       if \<not> tfe_currentness_known entry \<or> \<not> tfe_current entry then tr_fail ''Target frontier currentness is false or unknown''
       else if \<not> str_in (tfe_state entry) [''running'', ''terminal''] then tr_fail ''Target frontier has an unknown state''
       else if tfe_state entry = L ''terminal'' \<and> tfe_terminal_fact_ref entry = None
       then tr_fail ''terminal Target frontier lacks a terminal fact''
       else if tfe_state entry = L ''running'' \<and> tfe_terminal_fact_ref entry \<noteq> None
       then tr_fail ''running Target frontier claims a terminal fact''
       else
         bindE (validate_target_work_handle (tfe_current_handle entry) target_ref commits assets) (\<lambda>_.
         Inr digest)))))"

end
