(* ===== verification/TargetRunRecovery.thy ===== *)
theory TargetRunRecovery
  imports TargetRunGates
begin

text \<open>
  \<open>src/meta_research/target_run_contract.py\<close>, part two: the gate before protected execution, the
  review of a result, stop decisions, monitor observations, the recovery from a technical blocker,
  and the blocker that ends a run.
\<close>

subsection \<open>The gate before execution\<close>

definition preflight_subject_check :: "TargetExecutionPreflight \<Rightarrow> TargetWorkHandle \<Rightarrow> CodeReviewScope \<Rightarrow> str \<Rightarrow> unit res" where
  "preflight_subject_check preflight handle expected_scope expected_revision =
     (if tep_target_ref preflight \<noteq> twh_target_ref handle then tr_fail ''preflight points at another Target''
      else if tep_target_run_ref preflight \<noteq> twh_target_run_ref handle then tr_fail ''preflight points at another TargetRun''
      else if tep_implementation_revision_ref preflight \<noteq> expected_revision
      then tr_fail ''preflight prepared another Implementation Revision''
      else
        bindE (require_run_ref (tep_implementation_revision_ref preflight) ''Implementation Revision'') (\<lambda>_.
        if tep_review_scope preflight \<noteq> expected_scope
        then tr_fail ''preflight review scope differs from the exact authoritative scope''
        else Inr ()))"

definition preflight_bindings_check :: "TargetExecutionPreflight \<Rightarrow> TargetWorkHandle \<Rightarrow> unit res" where
  "preflight_bindings_check preflight handle =
     (let scope = tep_review_scope preflight; revision = crs_candidate_revision_binding scope;
          spec = crs_target_spec_binding scope; plan = crs_formal_plan_binding scope in
      if cbp_subject_ref revision \<noteq> tep_implementation_revision_ref preflight
      then tr_fail ''candidate content binding points at another revision''
      else
        bindE (require_run_ref (cbp_content_hash_ref revision) ''candidate revision content hash'') (\<lambda>_.
        bindE (validate_run_receipt (tep_implementation_acceptance_receipt preflight) (cbp_content_hash_ref revision)
                 ''Implementation Revision acceptance receipt'') (\<lambda>_.
        if cbp_subject_ref spec \<noteq> twh_target_ref handle then tr_fail ''review scope points at another Target spec''
        else
          bindE (require_run_ref (cbp_content_hash_ref spec) ''Target spec content hash'') (\<lambda>_.
          if crs_target_spec_acceptance_receipt scope \<noteq> tep_target_spec_acceptance_receipt preflight
          then tr_fail ''preflight and review scope carry different Target spec receipts''
          else
            bindE (validate_run_receipt (tep_target_spec_acceptance_receipt preflight) (cbp_content_hash_ref spec)
                     ''Target spec acceptance receipt'') (\<lambda>_.
            if codes (cbp_subject_ref plan) = [] then tr_fail ''review scope lacks a FormalPlan binding''
            else
              bindE (require_run_ref (cbp_subject_ref plan) ''FormalPlan'') (\<lambda>_.
              bindE (require_run_ref (cbp_content_hash_ref plan) ''FormalPlan content hash'') (\<lambda>_.
              validate_run_receipt (crs_formal_plan_acceptance_receipt scope) (cbp_content_hash_ref plan)
                ''FormalPlan acceptance receipt'')))))))"

definition handle_input_refs :: "TargetWorkHandle \<Rightarrow> str list" where
  "handle_input_refs handle =
     sort (twh_accepted_input_target_commit_refs handle @ map aiap_asset_ref (twh_accepted_input_asset_proofs handle))"

definition review_scope_check :: "CodeReviewScope \<Rightarrow> TargetWorkHandle \<Rightarrow> unit res" where
  "review_scope_check scope handle =
     (if crs_accepted_input_refs scope \<noteq> handle_input_refs handle
      then tr_fail ''review scope does not freeze the exact accepted inputs''
      else if crs_experiment_keys scope = [] \<or> \<not> distinct (crs_experiment_keys scope)
      then tr_fail ''review scope has empty or duplicate ExperimentKeys''
      else if length (crs_semantic_deltas scope) \<noteq> length (crs_experiment_keys scope)
      then tr_fail ''review scope SemanticDelta coverage is incomplete''
      else if list_ex is_blank (crs_semantic_deltas scope) then tr_fail ''SemanticDelta is absent''
      else if crs_reuse_provenance_refs scope \<noteq> sorted_set (crs_reuse_provenance_refs scope)
      then tr_fail ''review scope reuse provenance is not canonical and unique''
      else
        bindE (require_run_refs (crs_reuse_provenance_refs scope) ''reuse provenance'') (\<lambda>_.
        if crs_repository_standards_refs scope = [] \<or> \<not> distinct (crs_repository_standards_refs scope)
        then tr_fail ''review scope lacks unique repository standards''
        else require_run_refs (crs_repository_standards_refs scope) ''repository standard''))"

definition self_check :: "str \<Rightarrow> RevisionEvidenceProof \<Rightarrow> unit res" where
  "self_check revision evidence =
     bindE (require_run_ref (rep_evidence_ref evidence) ''self-check evidence'') (\<lambda>_.
     if rep_subject_revision_ref evidence \<noteq> revision then tr_fail ''self-check evidence is bound to another revision''
     else Inr ())"

definition preflight_evidence_check :: "TargetExecutionPreflight \<Rightarrow> unit res" where
  "preflight_evidence_check preflight =
     (let ready = tep_candidate_ready_evidence preflight; revision = tep_implementation_revision_ref preflight in
      if codes (rep_evidence_ref ready) = [] then tr_fail ''preflight began before the candidate revision was complete''
      else if rep_subject_revision_ref ready \<noteq> revision then tr_fail ''candidate-ready evidence is bound to another revision''
      else
        bindE (require_run_ref (rep_evidence_ref ready) ''candidate-ready evidence'') (\<lambda>_.
        if tep_self_check_evidence preflight = [] then tr_fail ''preflight lacks completed self-check evidence''
        else forE (self_check revision) (tep_self_check_evidence preflight)))"

definition review_evidence_check :: "TargetExecutionPreflight \<Rightarrow> unit res" where
  "review_evidence_check preflight =
     (let review = tep_code_review preflight in
      if crr_code_changed review then
        (case (tep_code_review_evidence_binding preflight, tep_code_review_evidence_receipt preflight) of
           (Some binding, Some receipt) \<Rightarrow>
             if Some (cbp_subject_ref binding) \<noteq> crr_review_ref review then tr_fail ''code-review evidence points at another review''
             else
               bindE (code_review_evidence_digest review (tep_review_scope preflight)) (\<lambda>expected_hash.
               if cbp_content_hash_ref binding \<noteq> expected_hash
               then tr_fail ''code-review evidence does not bind the complete review scope''
               else validate_run_receipt receipt (cbp_content_hash_ref binding) ''independent code-review evidence receipt'')
         | _ \<Rightarrow> tr_fail ''non-empty diff lacks content-bound independent review evidence'')
      else if tep_code_review_evidence_binding preflight \<noteq> None \<or> tep_code_review_evidence_receipt preflight \<noteq> None
      then tr_fail ''empty diff carries synthetic code-review evidence''
      else Inr ())"

definition validate_target_execution_preflight ::
  "TargetExecutionPreflight \<Rightarrow> TargetWorkHandle \<Rightarrow> CodeReviewScope \<Rightarrow> str \<Rightarrow> bool \<Rightarrow> str res" where
  "validate_target_execution_preflight preflight handle expected_scope expected_revision expected_code_changed =
     bindE (projection_digest (pv_TargetExecutionPreflight preflight) ''TargetExecutionPreflight'') (\<lambda>digest.
     bindE (preflight_subject_check preflight handle expected_scope expected_revision) (\<lambda>_.
     bindE (preflight_bindings_check preflight handle) (\<lambda>_.
     bindE (review_scope_check (tep_review_scope preflight) handle) (\<lambda>_.
     bindE (preflight_evidence_check preflight) (\<lambda>_.
     if crr_code_changed (tep_code_review preflight) \<noteq> expected_code_changed
     then tr_fail ''preflight code-diff state differs from its candidate''
     else
       bindE (validate_code_review (tep_code_review preflight) (tep_implementation_revision_ref preflight)
                (twh_root_session_ref handle)) (\<lambda>_.
       bindE (review_evidence_check preflight) (\<lambda>_.
       Inr digest)))))))"

definition validate_protected_execution_admission ::
  "TargetWorkHandle \<Rightarrow> TargetExecutionPreflight \<Rightarrow> CodeReviewScope \<Rightarrow> str \<Rightarrow> bool \<Rightarrow> str res" where
  "validate_protected_execution_admission handle preflight expected_scope expected_revision expected_code_changed =
     bindE (validate_target_work_handle handle (twh_target_ref handle) (twh_accepted_input_target_commit_refs handle)
              (map aiap_asset_ref (twh_accepted_input_asset_proofs handle))) (\<lambda>_.
     bindE (validate_target_execution_preflight preflight handle expected_scope expected_revision expected_code_changed) (\<lambda>_.
     payload_digest (obj [(''handle'', plain pv_TargetWorkHandle handle), (''preflight'', plain pv_TargetExecutionPreflight preflight)])
       ''protected execution admission''))"

subsection \<open>The review of a result\<close>

text \<open>
  The attempt and the metric result come from a closure, where they may be \<open>None\<close>.  The sessions
  and spawn evidence of the code reviews are sets in the source.
\<close>

definition reviewer_sessions :: "TargetExecutionPreflight list \<Rightarrow> str list" where
  "reviewer_sessions preflights = present (map (\<lambda>item. crr_reviewer_session_ref (tep_code_review item)) preflights)"

definition reviewer_spawns :: "TargetExecutionPreflight list \<Rightarrow> str list" where
  "reviewer_spawns preflights = present (map (\<lambda>item. crr_reviewer_spawn_evidence_ref (tep_code_review item)) preflights)"

definition result_review_refs :: "ResultReviewRecord \<Rightarrow> (str \<times> string) list" where
  "result_review_refs review =
     [(rrr_review_ref review, ''result review''), (rrr_review_parent_session_ref review, ''result review parent Session''),
      (rrr_reviewer_session_ref review, ''result reviewer Session''),
      (rrr_reviewer_spawn_evidence_ref review, ''result reviewer spawn evidence'')]"

definition validate_result_review ::
  "ResultReviewRecord \<Rightarrow> str \<Rightarrow> str option \<Rightarrow> str option \<Rightarrow> str \<Rightarrow> TargetExecutionPreflight list \<Rightarrow> str res" where
  "validate_result_review review root_session attempt metric manifest preflights =
     bindE (projection_digest (pv_ResultReviewRecord review) ''ResultReviewRecord'') (\<lambda>digest.
     if Some (rrr_reviewed_evaluation_attempt_ref review) \<noteq> attempt
     then tr_fail ''result review is bound to another EvaluationAttempt''
     else if Some (rrr_reviewed_metric_result_ref review) \<noteq> metric then tr_fail ''result review is bound to another MetricResult''
     else if rrr_reviewed_asset_manifest_ref review \<noteq> manifest then tr_fail ''result review is bound to another asset manifest''
     else
       bindE (forE (\<lambda>(v, name). bindE (require_run_ref v name) (\<lambda>_. Inr ())) (result_review_refs review)) (\<lambda>_.
       if rrr_review_parent_session_ref review \<noteq> root_session
       then tr_fail ''result reviewer was not spawned by the current Target root''
       else if rrr_reviewer_session_ref review = root_session
       then tr_fail ''result review must run in an independent child Session''
       else if rrr_reviewer_session_ref review \<in> set (reviewer_sessions preflights)
       then tr_fail ''result reviewer reused a code-reviewer Session''
       else if rrr_reviewer_spawn_evidence_ref review \<in> set (reviewer_spawns preflights)
       then tr_fail ''result reviewer reused code-review spawn evidence''
       else
         bindE (require_nonnegative_int (rrr_unresolved_findings review) ''result-review findings'' False) (\<lambda>_.
         if rrr_unresolved_findings review \<noteq> 0 then tr_fail ''result review has unresolved findings''
         else Inr digest)))"

subsection \<open>Stop decisions and observations\<close>

definition ALLOWED_STOP_BASES :: "string list" where
  "ALLOWED_STOP_BASES = [''control_invalid'', ''engineering_anomaly'', ''preregistered_rule'']"

definition stop_rule_check :: "StopDecisionProof \<Rightarrow> unit res" where
  "stop_rule_check stop =
     (if sdp_stop_basis stop = L ''preregistered_rule'' then
        bindE (require_optional_run_ref (sdp_frozen_rule_ref stop) ''frozen stop rule'') (\<lambda>_.
        bindE (require_optional_run_ref (sdp_protocol_version_ref stop) ''stop ProtocolVersion'') (\<lambda>_. Inr ()))
      else if sdp_frozen_rule_ref stop \<noteq> None \<or> sdp_protocol_version_ref stop \<noteq> None
      then tr_fail ''engineering or control stop cannot claim a protocol rule''
      else Inr ())"

definition validate_stop_decision :: "StopDecisionProof \<Rightarrow> TargetWorkHandle \<Rightarrow> str res" where
  "validate_stop_decision stop handle =
     bindE (projection_digest (pv_StopDecisionProof stop) ''StopDecisionProof'') (\<lambda>digest.
     if \<not> str_in (sdp_stop_basis stop) ALLOWED_STOP_BASES then tr_fail ''metric quality is not a valid stop basis''
     else if sdp_target_ref stop \<noteq> twh_target_ref handle then tr_fail ''StopDecision points at another Target''
     else if sdp_target_run_ref stop \<noteq> twh_target_run_ref handle then tr_fail ''StopDecision points at another TargetRun''
     else if sdp_execution_attempt_ref stop \<noteq> twh_execution_attempt_ref handle
     then tr_fail ''StopDecision points at another ExecutionAttempt''
     else
       bindE (require_run_ref (sdp_decision_ref stop) ''StopDecision'') (\<lambda>_.
       bindE (validate_run_receipt (sdp_termination_receipt stop) (sdp_decision_ref stop) ''trusted termination receipt'') (\<lambda>_.
       if \<not> sdp_process_tree_drained stop then tr_fail ''trusted termination did not drain the process tree''
       else
         bindE (stop_rule_check stop) (\<lambda>_.
         if sdp_stop_basis stop = L ''control_invalid''
         then tr_fail ''control_invalid requires immediate fail-closed termination''
         else Inr digest))))"

definition validate_optional_int :: "int option \<Rightarrow> string \<Rightarrow> unit res" where
  "validate_optional_int value name =
     (case value of None \<Rightarrow> Inr () | Some i \<Rightarrow> bindE (require_nonnegative_int i name False) (\<lambda>_. Inr ()))"

definition observation_shape_check :: "MonitorObservation \<Rightarrow> TargetWorkHandle \<Rightarrow> unit res" where
  "observation_shape_check observation handle =
     bindE (projection_digest (pv_MonitorObservation observation) ''MonitorObservation'') (\<lambda>_.
     if mo_target_ref observation \<noteq> twh_target_ref handle \<or> mo_target_run_ref observation \<noteq> twh_target_run_ref handle
       \<or> mo_execution_attempt_ref observation \<noteq> twh_execution_attempt_ref handle
       \<or> mo_execution_fence_ref observation \<noteq> twh_execution_fence_ref handle
     then tr_fail ''MonitorObservation is bound to a stale TargetRun handle''
     else
       bindE (require_nonnegative_int (mo_cursor observation) ''monitor cursor'' False) (\<lambda>_.
       bindE (require_nonnegative_int (mo_status_revision observation) ''monitor status revision'' False) (\<lambda>_.
       bindE (require_nonnegative_int (mo_limit observation) ''monitor limit'' True) (\<lambda>_.
       if 1000 < mo_limit observation then tr_fail ''monitor response exceeds the bounded contract''
       else
         bindE (validate_optional_int (mo_after_cursor observation) ''monitor after_cursor'') (\<lambda>_.
         bindE (validate_optional_int (mo_after_status_revision observation) ''monitor after_status_revision'') (\<lambda>_.
         case mo_stop_decision observation of
           None \<Rightarrow> Inr ()
         | Some stop \<Rightarrow> bindE (validate_stop_decision stop handle) (\<lambda>_. Inr ())))))))"

definition validate_monitor_observation ::
  "MonitorObservation \<Rightarrow> TargetWorkHandle \<Rightarrow> int option \<Rightarrow> int option \<Rightarrow> bool \<Rightarrow> StopDecisionProof option res" where
  "validate_monitor_observation observation handle last_cursor last_status_revision snapshot_required =
     bindE (observation_shape_check observation handle) (\<lambda>_.
     if snapshot_required then
       (if mo_mode observation \<noteq> L ''snapshot'' \<or> mo_after_cursor observation \<noteq> None
          \<or> mo_after_status_revision observation \<noteq> None
        then tr_fail ''first or recovered observation must be a bounded snapshot''
        else Inr (mo_stop_decision observation))
     else if mo_mode observation \<noteq> L ''incremental'' then tr_fail ''routine monitoring must use incremental mode''
     else if mo_after_cursor observation \<noteq> last_cursor then tr_fail ''monitor cursor replay or gap detected''
     else if mo_after_status_revision observation \<noteq> last_status_revision
     then tr_fail ''monitor status revision replay or gap detected''
     else
       (case (last_cursor, last_status_revision) of
          (Some cursor, Some status) \<Rightarrow>
            if mo_cursor observation < cursor then tr_fail ''monitor cursor moved backwards''
            else if mo_status_revision observation < status then tr_fail ''monitor status revision moved backwards''
            else Inr (mo_stop_decision observation)
        | _ \<Rightarrow> tr_fail ''incremental monitoring lacks an accepted snapshot cursor''))"

subsection \<open>Recovery from a technical blocker\<close>

definition blocker_is_stale :: "TechnicalBlocker \<Rightarrow> TargetWorkHandle \<Rightarrow> bool" where
  "blocker_is_stale blocker handle \<longleftrightarrow>
     tbl_target_ref blocker \<noteq> twh_target_ref handle \<or> tbl_target_run_ref blocker \<noteq> twh_target_run_ref handle
     \<or> tbl_execution_attempt_ref blocker \<noteq> twh_execution_attempt_ref handle
     \<or> tbl_execution_fence_ref blocker \<noteq> twh_execution_fence_ref handle"

definition claims_escalation :: "TechnicalBlocker \<Rightarrow> bool" where
  "claims_escalation blocker \<longleftrightarrow>
     tbl_bundle_decision_required blocker \<or> tbl_escalation_scope blocker \<noteq> None \<or> tbl_pending_obligation_refs blocker \<noteq> []
     \<or> tbl_escalation_evidence blocker \<noteq> None \<or> tbl_escalation_receipt blocker \<noteq> None"

definition recovery_blocker_check :: "TechnicalBlocker \<Rightarrow> TargetWorkHandle \<Rightarrow> ReceiptProof res" where
  "recovery_blocker_check blocker old_handle =
     bindE (projection_digest (pv_TechnicalBlocker blocker) ''TechnicalBlocker'') (\<lambda>_.
     if blocker_is_stale blocker old_handle then tr_fail ''recoverable TechnicalBlocker points at a stale handle''
     else
       bindE (require_run_ref (tbl_blocker_ref blocker) ''TechnicalBlocker'') (\<lambda>_.
       bindE (require_run_ref (tbl_reason blocker) ''TechnicalBlocker reason'') (\<lambda>_.
       bindE (validate_run_receipt (tbl_blocker_receipt blocker) (tbl_blocker_ref blocker) ''TechnicalBlocker receipt'') (\<lambda>_.
       case tbl_recovery_receipt blocker of
         None \<Rightarrow> tr_fail ''Target-local recovery is not fully fenced and receipted''
       | Some receipt \<Rightarrow>
           if \<not> tbl_recovery_ready blocker \<or> \<not> tbl_old_session_fenced blocker \<or> \<not> tbl_recovery_pack_complete blocker
           then tr_fail ''Target-local recovery is not fully fenced and receipted''
           else if claims_escalation blocker then tr_fail ''Target-local recovery cannot also claim Bundle escalation''
           else
             bindE (validate_run_receipt receipt (tbl_blocker_ref blocker) ''TargetRun recovery receipt'') (\<lambda>_.
             Inr receipt)))))"

definition fresh_review_refs :: "CodeReviewRecord \<Rightarrow> CodeReviewRecord \<Rightarrow> (str option \<times> str option \<times> string) list" where
  "fresh_review_refs old_review new_review =
     [(crr_review_ref old_review, crr_review_ref new_review, ''review record''),
      (crr_reviewer_session_ref old_review, crr_reviewer_session_ref new_review, ''reviewer Session''),
      (crr_reviewer_spawn_evidence_ref old_review, crr_reviewer_spawn_evidence_ref new_review, ''reviewer spawn evidence'')]"

definition fresh_review_check :: "str option \<times> str option \<times> string \<Rightarrow> unit res" where
  "fresh_review_check = (\<lambda>(old, new, name).
     if old \<noteq> None \<and> old = new then tr_fail (''code-changing recovery reused the previous '' @ name) else Inr ())"

definition replacement_check ::
  "str option \<Rightarrow> TargetWorkHandle \<Rightarrow> TargetExecutionPreflight option \<Rightarrow> TargetExecutionPreflight option
     \<Rightarrow> CodeReviewScope option \<Rightarrow> unit res" where
  "replacement_check replacement_revision replacement_handle previous_preflight replacement_preflight expected_scope =
     (case replacement_revision of
        None \<Rightarrow>
          if replacement_preflight \<noteq> None \<or> expected_scope \<noteq> None
          then tr_fail ''pure execution retry must reuse the existing reviewed preflight''
          else Inr ()
      | Some revision \<Rightarrow>
          bindE (require_run_ref revision ''replacement Implementation Revision'') (\<lambda>_.
          case (previous_preflight, replacement_preflight, expected_scope) of
            (Some previous, Some replacement, Some scope) \<Rightarrow>
              if tep_implementation_revision_ref replacement \<noteq> revision
              then tr_fail ''recovery preflight prepared another replacement revision''
              else if revision = tep_implementation_revision_ref previous
              then tr_fail ''replacement revision reused the previous reviewed revision''
              else
                bindE (validate_target_execution_preflight replacement replacement_handle scope revision True) (\<lambda>_.
                if cbp_content_hash_ref (crs_candidate_revision_binding (tep_review_scope replacement))
                   = cbp_content_hash_ref (crs_candidate_revision_binding (tep_review_scope previous))
                then tr_fail ''code-changing recovery reused previous implementation content''
                else forE fresh_review_check (fresh_review_refs (tep_code_review previous) (tep_code_review replacement)))
          | _ \<Rightarrow> tr_fail ''code-changing recovery lacks a fresh reviewed preflight''))"

definition handle_refs :: "TargetWorkHandle \<Rightarrow> str list" where
  "handle_refs handle = map fst (handle_identities handle)"

definition validate_technical_blocker_recovery ::
  "TechnicalBlocker \<Rightarrow> TargetWorkHandle \<Rightarrow> TargetWorkHandle \<Rightarrow> TargetExecutionPreflight option
     \<Rightarrow> TargetExecutionPreflight option \<Rightarrow> CodeReviewScope option \<Rightarrow> str list \<Rightarrow> str list \<Rightarrow> str list res" where
  "validate_technical_blocker_recovery blocker old_handle replacement_handle previous_preflight replacement_preflight expected_scope
       commits assets =
     bindE (recovery_blocker_check blocker old_handle) (\<lambda>recovery_receipt.
     bindE (validate_target_work_handle replacement_handle (twh_target_ref old_handle) commits assets) (\<lambda>_.
     if twh_root_session_ref replacement_handle = twh_root_session_ref old_handle
       \<or> twh_execution_attempt_ref replacement_handle = twh_execution_attempt_ref old_handle
       \<or> twh_execution_fence_ref replacement_handle = twh_execution_fence_ref old_handle
     then tr_fail ''recovery reused a retired Session, Attempt, or Fence''
     else
       bindE (replacement_check (tbl_replacement_implementation_revision_ref blocker) replacement_handle previous_preflight
                replacement_preflight expected_scope) (\<lambda>_.
       Inr (sorted_set ([tbl_blocker_ref blocker, rp_receipt_ref (tbl_blocker_receipt blocker), rp_receipt_ref recovery_receipt]
              @ handle_refs old_handle @ handle_refs replacement_handle)))))"

subsection \<open>The blocker that ends a run\<close>

definition ALLOWED_BUNDLE_ESCALATION_SCOPES :: "string list" where
  "ALLOWED_BUNDLE_ESCALATION_SCOPES = [''cross_target'', ''shared_resource'', ''authority'', ''human_input'', ''strategy'']"

definition terminal_blocker_check :: "TechnicalBlocker \<Rightarrow> TargetWorkHandle \<Rightarrow> unit res" where
  "terminal_blocker_check blocker handle =
     bindE (projection_digest (pv_TechnicalBlocker blocker) ''TechnicalBlocker escalation'') (\<lambda>_.
     if blocker_is_stale blocker handle then tr_fail ''terminal TechnicalBlocker points at a stale handle''
     else
       bindE (require_run_ref (tbl_blocker_ref blocker) ''TechnicalBlocker'') (\<lambda>_.
       bindE (require_run_ref (tbl_reason blocker) ''TechnicalBlocker reason'') (\<lambda>_.
       bindE (validate_run_receipt (tbl_blocker_receipt blocker) (tbl_blocker_ref blocker) ''blocker receipt'') (\<lambda>_.
       if tbl_recovery_ready blocker then tr_fail ''recoverable blocker escaped the TargetRun Monitor Loop''
       else if \<not> tbl_bundle_decision_required blocker
       then tr_fail ''terminal blocker lacks an explicit Bundle decision requirement''
       else if \<not> (case tbl_escalation_scope blocker of None \<Rightarrow> False | Some scope \<Rightarrow> str_in scope ALLOWED_BUNDLE_ESCALATION_SCOPES)
       then tr_fail ''terminal blocker lacks a recognized Bundle escalation scope''
       else if tbl_pending_obligation_refs blocker = [] \<or> \<not> distinct (tbl_pending_obligation_refs blocker)
       then tr_fail ''terminal blocker lacks unique pending obligations''
       else
         bindE (require_run_refs (tbl_pending_obligation_refs blocker) ''pending obligation'') (\<lambda>_.
         if tbl_recovery_receipt blocker \<noteq> None then tr_fail ''non-recoverable blocker carries a recovery receipt''
         else if tbl_replacement_implementation_revision_ref blocker \<noteq> None
         then tr_fail ''terminal blocker carries an unexecuted replacement revision''
         else Inr ())))))"

definition validate_terminal_blocker :: "TechnicalBlocker \<Rightarrow> TargetWorkHandle \<Rightarrow> str list res" where
  "validate_terminal_blocker blocker handle =
     bindE (terminal_blocker_check blocker handle) (\<lambda>_.
     case (tbl_escalation_evidence blocker, tbl_escalation_receipt blocker) of
       (Some evidence, Some receipt) \<Rightarrow>
         bindE (require_run_ref (cbp_subject_ref evidence) ''Bundle escalation evidence'') (\<lambda>_.
         bindE (bundle_escalation_digest blocker) (\<lambda>expected_hash.
         if cbp_content_hash_ref evidence \<noteq> expected_hash
         then tr_fail ''Bundle escalation evidence does not bind its complete payload''
         else
           bindE (validate_run_receipt receipt (cbp_content_hash_ref evidence) ''Bundle escalation receipt'') (\<lambda>_.
           Inr (sorted_set ([tbl_blocker_ref blocker, rp_receipt_ref (tbl_blocker_receipt blocker)] @ handle_refs handle
                  @ [cbp_subject_ref evidence, cbp_content_hash_ref evidence, rp_receipt_ref receipt])))))
     | _ \<Rightarrow> tr_fail ''Bundle escalation lacks content-bound formal evidence'')"

end
