(* ===== verification/TargetRunHandoff.thy ===== *)
theory TargetRunHandoff
  imports TargetRunRecovery
begin

text \<open>
  \<open>src/meta_research/target_run_contract.py\<close>, part three: the notice of a terminal fact and the
  replay of a whole handoff (its handles, recoveries, reviews and stops) against the frontier.
  A loop over an index is a fold over the list of the places it visits.
\<close>

subsection \<open>The notice of a terminal fact\<close>

definition terminal_notice_projection :: "TargetTerminal \<Rightarrow> str option \<Rightarrow> (string \<times> str \<times> str \<times> str list) res" where
  "terminal_notice_projection terminal barrier_fact =
     (case terminal of
        Term_AcceptedMeasurementClosure closure \<Rightarrow>
          Inr (''target_completed'', amc_target_commit_ref closure, L ''terminal candidate ready'', [])
      | Term_TechnicalBlocker blocker \<Rightarrow>
          Inr (''coordination_required'', tbl_blocker_ref blocker, tbl_reason blocker, tbl_pending_obligation_refs blocker)
      | Term_SemanticBarrier barrier \<Rightarrow>
          bindE (require_optional_run_ref barrier_fact ''SemanticBarrier fact'') (\<lambda>fact_ref.
          Inr (''semantic_change_required'', fact_ref, sb_reason barrier, map rd_disposition_ref (sb_route_dispositions barrier)))
      | Term_GoalWorkDisposition work \<Rightarrow>
          Inr (''semantic_change_required'', gwd_terminal_fact_ref work, gwd_reason work, gwd_custody_refs work))"

definition is_target_root_completion_terminal :: "TargetTerminal \<Rightarrow> bool" where
  "is_target_root_completion_terminal terminal \<longleftrightarrow> root_completion terminal \<noteq> None"

text \<open>Which target, run, attempt and fence a terminal, a notice and a handle name.\<close>

fun terminal_subject :: "TargetTerminal \<Rightarrow> str \<times> str \<times> str option \<times> str option" where
  "terminal_subject (Term_TechnicalBlocker b) =
     (tbl_target_ref b, tbl_target_run_ref b, Some (tbl_execution_attempt_ref b), Some (tbl_execution_fence_ref b))"
| "terminal_subject (Term_AcceptedMeasurementClosure c) =
     (amc_target_ref c, amc_target_run_ref c, Some (amc_execution_attempt_ref c), Some (amc_execution_fence_ref c))"
| "terminal_subject (Term_SemanticBarrier b) =
     (sb_target_ref b, sb_target_run_ref b, Some (sb_execution_attempt_ref b), Some (sb_execution_fence_ref b))"
| "terminal_subject (Term_GoalWorkDisposition g) =
     (gwd_target_ref g, gwd_target_run_ref g, gwd_execution_attempt_ref g, gwd_execution_fence_ref g)"

definition handle_subject :: "TargetWorkHandle \<Rightarrow> str \<times> str \<times> str option \<times> str option" where
  "handle_subject h =
     (twh_target_ref h, twh_target_run_ref h, Some (twh_execution_attempt_ref h), Some (twh_execution_fence_ref h))"

definition notice_subject :: "TargetWorkNotice \<Rightarrow> str \<times> str \<times> str option \<times> str option" where
  "notice_subject n =
     (twn_target_ref n, twn_target_run_ref n, twn_execution_attempt_ref n, twn_execution_fence_ref n)"

definition notice_tells :: "TargetWorkNotice \<Rightarrow> string \<times> str \<times> str \<times> str list \<Rightarrow> bool" where
  "notice_tells notice = (\<lambda>(kind, fact, reason, obligations).
     twn_kind notice = L kind \<and> twn_terminal_fact_ref notice = fact \<and> twn_compact_reason notice = reason
     \<and> twn_pending_obligation_refs notice = obligations)"

text \<open>The last two conditions of each notice: it names the handoff's digest and its own payload's.\<close>

definition notice_hashes_check :: "TargetWorkNotice \<Rightarrow> str \<Rightarrow> string \<Rightarrow> string \<Rightarrow> unit res" where
  "notice_hashes_check notice digest manifest_message payload_message =
     (if twn_handoff_manifest_sha256 notice \<noteq> digest then tr_fail manifest_message
      else
        bindE (notice_payload_digest notice) (\<lambda>payload.
        if twn_payload_sha256 notice \<noteq> payload then tr_fail payload_message else Inr ()))"

subsection \<open>A Target that was never started\<close>

definition validate_goal_work_nonstart_notice :: "TargetRunHandoff \<Rightarrow> TargetWorkNotice \<Rightarrow> str res" where
  "validate_goal_work_nonstart_notice handoff notice =
     (let message = ''Target non-start notice is inconsistent with its handoff'' in
      bindE (validate_target_run_handoff handoff) (\<lambda>digest.
      bindE (validate_target_work_notice notice) (\<lambda>_.
      case trh_terminal handoff of
        Term_GoalWorkDisposition work \<Rightarrow>
          if gwd_disposition work \<noteq> L ''not_started'' then tr_fail ''Target non-start handoff has an invalid disposition''
          else
            bindE (terminal_notice_projection (trh_terminal handoff) None) (\<lambda>expected.
            if \<not> notice_tells notice expected
              \<or> notice_subject notice \<noteq> (gwd_target_ref work, gwd_target_run_ref work, None, None)
            then tr_fail message
            else bindE (notice_hashes_check notice digest message message) (\<lambda>_. Inr digest))
      | _ \<Rightarrow> tr_fail ''Target non-start handoff has an invalid disposition'')))"

subsection \<open>Histories\<close>

text \<open>
  A handoff carries one blocker less than it has handles: each handle but the first succeeds the one
  before it over the blocker at its place.
\<close>

definition successions :: "TargetRunHandoff \<Rightarrow> (TargetWorkHandle \<times> TechnicalBlocker \<times> TargetWorkHandle) list" where
  "successions handoff = zip (trh_handle_history handoff) (zip (trh_recovered_blockers handoff) (tl (trh_handle_history handoff)))"

definition linked_history :: "TargetRunHandoff \<Rightarrow> ((TargetWorkHandle \<times> TechnicalBlocker) option \<times> TargetWorkHandle) list" where
  "linked_history handoff =
     (None, hd (trh_handle_history handoff)) # map (\<lambda>(old, blocker, new). (Some (old, blocker), new)) (successions handoff)"

definition input_assets :: "TargetWorkHandle \<Rightarrow> str list" where
  "input_assets handle = map aiap_asset_ref (twh_accepted_input_asset_proofs handle)"

definition validate_same_inputs :: "TargetWorkHandle \<Rightarrow> TargetWorkHandle \<Rightarrow> str res" where
  "validate_same_inputs initial handle =
     validate_target_work_handle handle (twh_target_ref initial) (twh_accepted_input_target_commit_refs initial) (input_assets initial)"

definition retry_evidence :: "TargetWorkHandle \<Rightarrow> TargetWorkHandle \<Rightarrow> TechnicalBlocker \<Rightarrow> TargetWorkHandle \<Rightarrow> str list res" where
  "retry_evidence initial old blocker new =
     validate_technical_blocker_recovery blocker old new None None None
       (twh_accepted_input_target_commit_refs initial) (input_assets initial)"

definition terminal_frontier_check ::
  "TargetFrontierEntry \<Rightarrow> TargetFrontierEntry \<Rightarrow> TargetWorkHandle \<Rightarrow> TargetWorkHandle \<Rightarrow> ContentBindingProof \<Rightarrow> ReceiptProof
     \<Rightarrow> string \<Rightarrow> string \<Rightarrow> unit res" where
  "terminal_frontier_check frontier reconfirmed initial final spec_binding spec_receipt handle_message changed_message =
     bindE (validate_target_frontier_entry frontier (twh_target_ref initial) spec_binding spec_receipt
              (twh_accepted_input_target_commit_refs initial) (input_assets initial)) (\<lambda>_.
     if tfe_state frontier \<noteq> L ''terminal'' \<or> tfe_current_handle frontier \<noteq> final then tr_fail handle_message
     else if reconfirmed \<noteq> frontier then tr_fail changed_message
     else Inr ())"

subsection \<open>A cancelled Target\<close>

definition cancellation_step ::
  "TargetWorkHandle \<Rightarrow> str list \<Rightarrow> (TargetWorkHandle \<times> TechnicalBlocker) option \<times> TargetWorkHandle \<Rightarrow> str list res" where
  "cancellation_step initial evidence = (\<lambda>(previous, handle).
     bindE (validate_same_inputs initial handle) (\<lambda>_.
     case previous of
       None \<Rightarrow> Inr evidence
     | Some (old, blocker) \<Rightarrow>
         bindE (retry_evidence initial old blocker handle) (\<lambda>refs. Inr (evidence @ refs))))"

definition one_attempt_history :: "TargetRunHandoff \<Rightarrow> TargetWorkHandle \<Rightarrow> CodeReviewScope list \<Rightarrow> bool" where
  "one_attempt_history handoff initial scopes \<longleftrightarrow>
     scopes = [] \<and> trh_handle_history handoff \<noteq> [] \<and> hd (trh_handle_history handoff) = initial
     \<and> trh_code_review_preflights handoff = [] \<and> trh_stop_decisions handoff = []
     \<and> length (trh_recovered_blockers handoff) + 1 = length (trh_handle_history handoff)"

definition validate_goal_work_cancellation_handoff_notice ::
  "TargetRunHandoff \<Rightarrow> TargetWorkNotice \<Rightarrow> TargetFrontierEntry \<Rightarrow> TargetFrontierEntry \<Rightarrow> str \<Rightarrow> TargetWorkHandle
     \<Rightarrow> ContentBindingProof \<Rightarrow> ReceiptProof \<Rightarrow> CodeReviewScope list \<Rightarrow> str res" where
  "validate_goal_work_cancellation_handoff_notice handoff notice frontier reconfirmed digest initial spec_binding spec_receipt scopes =
     (let history_message = ''Target cancellation handoff contains invalid execution history'';
          frontier_message = ''Target cancellation frontier changed during handoff validation'';
          message = ''Target cancellation notice is inconsistent with its handoff'';
          final = last (trh_handle_history handoff) in
      case trh_terminal handoff of
        Term_GoalWorkDisposition work \<Rightarrow>
          if gwd_disposition work \<noteq> L ''cancelled'' \<or> \<not> one_attempt_history handoff initial scopes then tr_fail history_message
          else
            bindE (foldE (cancellation_step initial) [] (linked_history handoff)) (\<lambda>evidence.
            if \<not> subset_list evidence (trh_recovery_evidence_refs handoff) then tr_fail ''Target cancellation recovery evidence is incomplete''
            else if terminal_subject (trh_terminal handoff) \<noteq> handle_subject final
            then tr_fail ''Target cancellation points at a stale final handle''
            else
              bindE (terminal_frontier_check frontier reconfirmed initial final spec_binding spec_receipt frontier_message frontier_message) (\<lambda>_.
              bindE (terminal_notice_projection (trh_terminal handoff) None) (\<lambda>expected.
              if \<not> notice_tells notice expected \<or> tfe_terminal_fact_ref frontier \<noteq> Some (fst (snd expected))
                \<or> notice_subject notice \<noteq> handle_subject final
              then tr_fail message
              else bindE (notice_hashes_check notice digest message message) (\<lambda>_. Inr digest))))
      | _ \<Rightarrow> tr_fail history_message)"

subsection \<open>A Target that its root completed\<close>

record retired_refs =
  retired_runs :: "str list"
  retired_sessions :: "str list"
  retired_attempts :: "str list"
  retired_fences :: "str list"

definition nothing_retired :: retired_refs where
  "nothing_retired = \<lparr>retired_runs = [], retired_sessions = [], retired_attempts = [], retired_fences = []\<rparr>"

definition retire :: "TargetWorkHandle \<Rightarrow> retired_refs \<Rightarrow> retired_refs" where
  "retire handle st = st\<lparr>retired_sessions := twh_root_session_ref handle # retired_sessions st,
     retired_attempts := twh_execution_attempt_ref handle # retired_attempts st,
     retired_fences := twh_execution_fence_ref handle # retired_fences st\<rparr>"

definition reuses_retired :: "retired_refs \<Rightarrow> TargetWorkHandle \<Rightarrow> bool" where
  "reuses_retired st handle \<longleftrightarrow>
     twh_root_session_ref handle \<in> set (retired_sessions st)
     \<or> twh_execution_attempt_ref handle \<in> set (retired_attempts st)
     \<or> twh_execution_fence_ref handle \<in> set (retired_fences st)"

definition root_history_step ::
  "TargetWorkHandle \<Rightarrow> retired_refs \<times> str list \<Rightarrow> (TargetWorkHandle \<times> TechnicalBlocker) option \<times> TargetWorkHandle
     \<Rightarrow> (retired_refs \<times> str list) res" where
  "root_history_step initial = (\<lambda>(st, evidence) (previous, handle).
     bindE (validate_same_inputs initial handle) (\<lambda>_.
     if twh_target_run_ref handle \<noteq> twh_target_run_ref initial \<or> reuses_retired st handle
     then tr_fail ''Target root recovery reused a retired identity''
     else
       case previous of
         None \<Rightarrow> Inr (st, evidence)
       | Some (old, blocker) \<Rightarrow>
           bindE (retry_evidence initial old blocker handle) (\<lambda>refs. Inr (retire old st, evidence @ refs))))"

definition root_closure_stale :: "AcceptedMeasurementClosure \<Rightarrow> TargetWorkHandle \<Rightarrow> bool" where
  "root_closure_stale closure final \<longleftrightarrow>
     terminal_subject (Term_AcceptedMeasurementClosure closure) \<noteq> handle_subject final
     \<or> (\<not> amc_formal_measurement_accepted closure
        \<and> \<not> (amc_root_completion_receipt closure \<noteq> None \<and> amc_metric_values closure = []))
     \<or> \<not> amc_currentness_known closure \<or> \<not> amc_current closure"

definition validate_target_root_completion_handoff_notice ::
  "TargetRunHandoff \<Rightarrow> TargetWorkNotice \<Rightarrow> TargetFrontierEntry \<Rightarrow> TargetFrontierEntry \<Rightarrow> str \<Rightarrow> TargetWorkHandle
     \<Rightarrow> ContentBindingProof \<Rightarrow> ReceiptProof \<Rightarrow> CodeReviewScope list \<Rightarrow> str res" where
  "validate_target_root_completion_handoff_notice handoff notice frontier reconfirmed digest initial spec_binding spec_receipt scopes =
     (let frontier_message = ''authoritative Target root frontier changed during handoff validation'';
          message = ''Target root completion notice is inconsistent with its handoff'';
          final = last (trh_handle_history handoff) in
      case root_completion (trh_terminal handoff) of
        None \<Rightarrow> tr_fail ''Target root completion handoff contains invalid execution history''
      | Some (closure, receipt) \<Rightarrow>
          if \<not> one_attempt_history handoff initial scopes
            \<or> amc_code_review closure \<noteq> None \<or> amc_result_review closure \<noteq> None
            \<or> amc_ar_execution_receipt closure \<noteq> receipt
            \<or> trh_recovery_evidence_refs handoff \<noteq> sorted_set (trh_recovery_evidence_refs handoff)
          then tr_fail ''Target root completion handoff contains invalid execution history''
          else
            bindE (foldE (root_history_step initial) (nothing_retired, []) (linked_history handoff)) (\<lambda>(_, evidence).
            if \<not> subset_list evidence (trh_recovery_evidence_refs handoff) then tr_fail ''Target root recovery evidence is incomplete''
            else
              bindE (validate_run_receipt receipt (twh_execution_attempt_ref final) ''Target root completion receipt'') (\<lambda>_.
              if root_closure_stale closure final then tr_fail ''Target root completion points at a stale final handle''
              else
                bindE (terminal_frontier_check frontier reconfirmed initial final spec_binding spec_receipt frontier_message
                         frontier_message) (\<lambda>_.
                bindE (terminal_notice_projection (trh_terminal handoff) None) (\<lambda>expected.
                if \<not> notice_tells notice expected \<or> tfe_terminal_fact_ref frontier \<noteq> Some (fst (snd expected))
                  \<or> notice_subject notice \<noteq> handle_subject final
                then tr_fail message
                else bindE (notice_hashes_check notice digest message message) (\<lambda>_. Inr digest))))))"

end
