(* ===== verification/TargetRunReplay.thy ===== *)
theory TargetRunReplay
  imports TargetRunHandoff
begin

text \<open>
  \<open>src/meta_research/target_run_contract.py\<close>, part four: \<open>validate_target_run_handoff_notice\<close>, which
  replays a handoff of reviewed executions step by step.
\<close>

subsection \<open>Handles\<close>

text \<open>
  The first loop: every handle is checked against the retired identities, then its predecessor is
  retired and it is checked again.  A run is retired when it is left, not when it is continued.
\<close>

definition revives_retired :: "retired_refs \<Rightarrow> TargetWorkHandle \<Rightarrow> bool" where
  "revives_retired st handle \<longleftrightarrow> twh_target_run_ref handle \<in> set (retired_runs st) \<or> reuses_retired st handle"

definition retire_run :: "TargetWorkHandle \<Rightarrow> TargetWorkHandle \<Rightarrow> retired_refs \<Rightarrow> retired_refs" where
  "retire_run previous handle st =
     (if twh_target_run_ref handle \<noteq> twh_target_run_ref previous
      then st\<lparr>retired_runs := twh_target_run_ref previous # retired_runs st\<rparr> else st)"

definition handle_step ::
  "TargetWorkHandle \<Rightarrow> retired_refs \<Rightarrow> TargetWorkHandle option \<times> TargetWorkHandle \<Rightarrow> retired_refs res" where
  "handle_step initial st = (\<lambda>(previous, handle).
     bindE (validate_same_inputs initial handle) (\<lambda>_.
     if revives_retired st handle then tr_fail ''TargetRun recovery revived a retired identity (A->B->A)''
     else
       case previous of
         None \<Rightarrow> Inr st
       | Some old \<Rightarrow>
           let st' = retire_run old handle (retire old st) in
           if revives_retired st' handle then tr_fail ''TargetRun recovery reused a retired identity'' else Inr st'))"

definition handle_places :: "TargetWorkHandle list \<Rightarrow> (TargetWorkHandle option \<times> TargetWorkHandle) list" where
  "handle_places history = zip (None # map Some history) history"

subsection \<open>Recoveries\<close>

text \<open>
  The second loop.  The preflights not yet used, each with its authoritative scope, stand for the
  index \<open>preflight_index\<close>.
\<close>

record recovery_state =
  unused_preflights :: "(TargetExecutionPreflight \<times> CodeReviewScope) list"
  current_preflight :: TargetExecutionPreflight
  exact_evidence :: "str list"
  consumed_receipts :: "str list"

definition next_preflight ::
  "recovery_state \<Rightarrow> TechnicalBlocker \<Rightarrow> ((TargetExecutionPreflight \<times> CodeReviewScope) option \<times> recovery_state) res" where
  "next_preflight st blocker =
     (if tbl_replacement_implementation_revision_ref blocker = None then Inr (None, st)
      else
        case unused_preflights st of
          [] \<Rightarrow> tr_fail ''code-changing recovery lacks its ordered preflight''
        | next # rest \<Rightarrow> Inr (Some next, st\<lparr>unused_preflights := rest\<rparr>))"

definition chosen_preflight :: "(TargetExecutionPreflight \<times> CodeReviewScope) option \<Rightarrow> TargetExecutionPreflight \<Rightarrow> TargetExecutionPreflight" where
  "chosen_preflight replacement current = (case replacement of None \<Rightarrow> current | Some (preflight, _) \<Rightarrow> preflight)"

definition recovery_step ::
  "TargetWorkHandle \<Rightarrow> recovery_state \<Rightarrow> TargetWorkHandle \<times> TechnicalBlocker \<times> TargetWorkHandle \<Rightarrow> recovery_state res" where
  "recovery_step initial st = (\<lambda>(old, blocker, new).
     bindE (next_preflight st blocker) (\<lambda>(replacement, st').
     bindE (validate_technical_blocker_recovery blocker old new (Some (current_preflight st')) (map_option fst replacement)
              (map_option snd replacement) (twh_accepted_input_target_commit_refs initial) (input_assets initial)) (\<lambda>evidence.
     case tbl_recovery_receipt blocker of
       None \<Rightarrow> tr_fail ''recovered blocker lacks a recovery receipt''
     | Some receipt \<Rightarrow>
         if rp_receipt_ref receipt \<in> set (consumed_receipts st') then tr_fail ''TargetRun recovery receipt was replayed''
         else
           Inr (st'\<lparr>consumed_receipts := rp_receipt_ref receipt # consumed_receipts st',
                    exact_evidence := exact_evidence st' @ evidence,
                    current_preflight := chosen_preflight replacement (current_preflight st')\<rparr>))))"

subsection \<open>Reviews\<close>

record review_identities =
  seen_revisions :: "str list"
  seen_reviews :: "str list"
  seen_reviewers :: "str list"
  seen_spawns :: "str list"

definition no_reviews :: review_identities where
  "no_reviews = \<lparr>seen_revisions = [], seen_reviews = [], seen_reviewers = [], seen_spawns = []\<rparr>"

definition claim_review_ref :: "string \<Rightarrow> str list \<Rightarrow> str option \<Rightarrow> str list res" where
  "claim_review_ref name seen value =
     (case value of
        None \<Rightarrow> Inr seen
      | Some ref \<Rightarrow> if ref \<in> set seen then tr_fail (''TargetRun reused a '' @ name) else Inr (ref # seen))"

definition review_identity_step :: "str list \<Rightarrow> review_identities \<Rightarrow> TargetExecutionPreflight \<Rightarrow> review_identities res" where
  "review_identity_step root_sessions st preflight =
     (let review = tep_code_review preflight; revision = tep_implementation_revision_ref preflight in
      if revision \<in> set (seen_revisions st) then tr_fail ''TargetRun repeats a reviewed Implementation Revision''
      else if \<not> crr_code_changed review then Inr (st\<lparr>seen_revisions := revision # seen_revisions st\<rparr>)
      else if (case crr_reviewer_session_ref review of None \<Rightarrow> False | Some session \<Rightarrow> session \<in> set root_sessions)
      then tr_fail ''code reviewer reused a Target root Session identity''
      else
        bindE (claim_review_ref ''review record'' (seen_reviews st) (crr_review_ref review)) (\<lambda>reviews.
        bindE (claim_review_ref ''reviewer Session'' (seen_reviewers st) (crr_reviewer_session_ref review)) (\<lambda>reviewers.
        bindE (claim_review_ref ''reviewer spawn'' (seen_spawns st) (crr_reviewer_spawn_evidence_ref review)) (\<lambda>spawns.
        Inr \<lparr>seen_revisions = revision # seen_revisions st, seen_reviews = reviews, seen_reviewers = reviewers,
             seen_spawns = spawns\<rparr>))))"

subsection \<open>Stops\<close>

record stop_state =
  stop_subjects :: "(str \<times> str \<times> str) list"
  stop_receipt_subjects :: "(str \<times> str) list"
  verified_stops :: "(StopDecisionProof \<times> nat) list"

definition no_stops :: stop_state where
  "no_stops = \<lparr>stop_subjects = [], stop_receipt_subjects = [], verified_stops = []\<rparr>"

definition stop_matches :: "TargetWorkHandle list \<Rightarrow> StopDecisionProof \<Rightarrow> (nat \<times> TargetWorkHandle) list" where
  "stop_matches history stop = filter (\<lambda>(_, handle).
     sdp_target_ref stop = twh_target_ref handle \<and> sdp_target_run_ref stop = twh_target_run_ref handle
     \<and> sdp_execution_attempt_ref stop = twh_execution_attempt_ref handle) (enumerate 0 history)"

definition stop_step :: "TargetWorkHandle list \<Rightarrow> stop_state \<Rightarrow> StopDecisionProof \<Rightarrow> stop_state res" where
  "stop_step history st stop =
     (case stop_matches history stop of
        [(index, handle)] \<Rightarrow>
          bindE (validate_stop_decision stop handle) (\<lambda>_.
          let subject = (sdp_target_ref stop, sdp_target_run_ref stop, sdp_execution_attempt_ref stop) in
          if subject \<in> set (stop_subjects st) then tr_fail ''one ExecutionAttempt has multiple terminal StopDecisions''
          else
            case setdefault (rp_receipt_ref (sdp_termination_receipt stop)) (sdp_decision_ref stop) (stop_receipt_subjects st) of
              (previous, subjects) \<Rightarrow>
                if previous \<noteq> sdp_decision_ref stop then tr_fail ''one termination receipt was rebound to two StopDecisions''
                else Inr \<lparr>stop_subjects = subject # stop_subjects st, stop_receipt_subjects = subjects,
                          verified_stops = verified_stops st @ [(stop, index)]\<rparr>)
      | _ \<Rightarrow> tr_fail ''StopDecision is not bound to exactly one handoff handle'')"

definition engineering_stop_check :: "TargetRunHandoff \<Rightarrow> nat \<Rightarrow> unit res" where
  "engineering_stop_check handoff index =
     (if index + 1 < length (trh_handle_history handoff) then
        (if \<not> tbl_old_session_fenced (trh_recovered_blockers handoff ! index)
         then tr_fail ''engineering stop recovery lacks its trusted fence'' else Inr ())
      else
        case trh_terminal handoff of
          Term_TechnicalBlocker blocker \<Rightarrow>
            if \<not> tbl_old_session_fenced blocker then tr_fail ''engineering stop cannot proceed directly to a result terminal''
            else Inr ()
        | _ \<Rightarrow> tr_fail ''engineering stop cannot proceed directly to a result terminal'')"

text \<open>The protocol version and the attempt that the preregistered stops so far agree on.\<close>

definition preregistered_stop_check ::
  "TargetTerminal \<Rightarrow> str option \<times> str option \<Rightarrow> StopDecisionProof \<Rightarrow> (str option \<times> str option) res" where
  "preregistered_stop_check terminal = (\<lambda>(protocol, attempt) stop.
     if protocol \<noteq> None \<and> protocol \<noteq> sdp_protocol_version_ref stop then tr_fail ''TargetRun mixes preregistered stop ProtocolVersions''
     else if attempt \<noteq> None \<and> attempt \<noteq> Some (sdp_execution_attempt_ref stop)
     then tr_fail ''TargetRun mixes preregistered stop ExecutionAttempts''
     else
       case terminal of
         Term_AcceptedMeasurementClosure closure \<Rightarrow>
           if Some (amc_protocol_version_ref closure) \<noteq> sdp_protocol_version_ref stop
             \<or> amc_execution_attempt_ref closure \<noteq> sdp_execution_attempt_ref stop
           then tr_fail ''preregistered stop and accepted result differ in protocol or attempt''
           else Inr (sdp_protocol_version_ref stop, Some (sdp_execution_attempt_ref stop))
       | _ \<Rightarrow> Inr (sdp_protocol_version_ref stop, Some (sdp_execution_attempt_ref stop)))"

definition stop_basis_step ::
  "TargetRunHandoff \<Rightarrow> str option \<times> str option \<Rightarrow> StopDecisionProof \<times> nat \<Rightarrow> (str option \<times> str option) res" where
  "stop_basis_step handoff agreed = (\<lambda>(stop, index).
     bindE (if sdp_stop_basis stop = L ''engineering_anomaly'' then engineering_stop_check handoff index else Inr ()) (\<lambda>_.
     if sdp_stop_basis stop = L ''preregistered_rule'' then preregistered_stop_check (trh_terminal handoff) agreed stop
     else Inr agreed))"

definition stops_check :: "TargetRunHandoff \<Rightarrow> (StopDecisionProof \<times> nat) list res" where
  "stops_check handoff =
     (let stop_refs = map sdp_decision_ref (trh_stop_decisions handoff) in
      if stop_refs \<noteq> sorted_set stop_refs then tr_fail ''TargetRun stop decisions are duplicated or non-canonical''
      else bindE (foldE (stop_step (trh_handle_history handoff)) no_stops (trh_stop_decisions handoff)) (\<lambda>st.
        Inr (verified_stops st)))"

subsection \<open>The terminal\<close>

text \<open>
  The reads of \<open>terminal.result_review\<close> raise \<open>AttributeError\<close> where the closure has none: the
  validator walks \<open>None\<close> as a closed projection first and then reads its fields.
\<close>

definition result_terminal_check ::
  "TargetRunHandoff \<Rightarrow> AcceptedMeasurementClosure \<Rightarrow> TargetWorkHandle \<Rightarrow> str list \<Rightarrow> str list \<Rightarrow> unit res" where
  "result_terminal_check handoff closure final root_sessions review_refs =
     (case amc_result_review closure of
        None \<Rightarrow> bindE (projection_digest PNone ''ResultReviewRecord'') (\<lambda>_. Inl AttributeError)
      | Some review \<Rightarrow>
          bindE (validate_result_review review (twh_root_session_ref final) (amc_evaluation_attempt_ref closure)
                   (amc_metric_result_ref closure) (amc_asset_manifest_ref closure) (trh_code_review_preflights handoff)) (\<lambda>_.
          let current = last (trh_code_review_preflights handoff) in
          if rrr_reviewer_session_ref review \<in> set root_sessions
          then tr_fail ''result reviewer reused a Target root Session identity''
          else if rrr_review_ref review \<in> set review_refs
          then tr_fail ''result reviewer reused a code-review record identity''
          else if amc_implementation_revision_ref closure \<noteq> tep_implementation_revision_ref current
          then tr_fail ''executed revision differs from the current reviewed preflight''
          else if amc_code_review closure \<noteq> Some (tep_code_review current)
          then tr_fail ''result closure carries stale code-review evidence''
          else Inr ()))"

text \<open>The evidence that the terminal adds to the recoveries'.\<close>

definition terminal_check :: "TargetRunHandoff \<Rightarrow> TargetWorkHandle \<Rightarrow> str list \<Rightarrow> str list \<Rightarrow> str list res" where
  "terminal_check handoff final root_sessions review_refs =
     (case trh_terminal handoff of
        Term_AcceptedMeasurementClosure closure \<Rightarrow>
          bindE (result_terminal_check handoff closure final root_sessions review_refs) (\<lambda>_. Inr [])
      | Term_TechnicalBlocker blocker \<Rightarrow> validate_terminal_blocker blocker final
      | Term_SemanticBarrier barrier \<Rightarrow> bindE (require_run_ref (sb_reason barrier) ''SemanticBarrier reason'') (\<lambda>_. Inr [])
      | Term_GoalWorkDisposition _ \<Rightarrow> tr_fail ''TargetRun handoff has an unknown terminal type'')"

subsection \<open>The replay\<close>

definition replay_recoveries :: "TargetRunHandoff \<Rightarrow> TargetWorkHandle \<Rightarrow> CodeReviewScope list \<Rightarrow> str \<Rightarrow> bool \<Rightarrow> str list res" where
  "replay_recoveries handoff initial scopes expected_revision expected_code_changed =
     (case zip (trh_code_review_preflights handoff) scopes of
        [] \<Rightarrow> Inl IndexError
      | (preflight, scope) # rest \<Rightarrow>
          bindE (validate_target_execution_preflight preflight initial scope expected_revision expected_code_changed) (\<lambda>_.
          bindE (foldE (recovery_step initial)
                   \<lparr>unused_preflights = rest, current_preflight = preflight, exact_evidence = [], consumed_receipts = []\<rparr>
                   (successions handoff)) (\<lambda>st.
          if unused_preflights st \<noteq> [] then tr_fail ''pure execution recovery introduced an extra review preflight''
          else Inr (exact_evidence st))))"

definition replay_execution ::
  "TargetRunHandoff \<Rightarrow> TargetWorkHandle \<Rightarrow> CodeReviewScope list \<Rightarrow> str \<Rightarrow> bool \<Rightarrow> unit res" where
  "replay_execution handoff initial scopes expected_revision expected_code_changed =
     (let history = trh_handle_history handoff; final = last history; root_sessions = map twh_root_session_ref history in
      if length scopes \<noteq> length (trh_code_review_preflights handoff)
      then tr_fail ''TargetRun handoff lacks exact authoritative review scopes''
      else
        bindE (foldE (handle_step initial) nothing_retired (handle_places history)) (\<lambda>_.
        bindE (replay_recoveries handoff initial scopes expected_revision expected_code_changed) (\<lambda>evidence.
        bindE (foldE (review_identity_step root_sessions) no_reviews (trh_code_review_preflights handoff)) (\<lambda>identities.
        bindE (stops_check handoff) (\<lambda>stops.
        if terminal_subject (trh_terminal handoff) \<noteq> handle_subject final
        then tr_fail ''Target terminal fact points at a stale final handle''
        else
          bindE (foldE (stop_basis_step handoff) (None, None) stops) (\<lambda>_.
          bindE (terminal_check handoff final root_sessions (seen_reviews identities)) (\<lambda>more.
          if \<not> same_set (trh_recovery_evidence_refs handoff) (evidence @ more)
          then tr_fail ''TargetRun recovery evidence is not the exact handoff closure''
          else Inr ())))))))"

definition execution_notice_check ::
  "TargetRunHandoff \<Rightarrow> TargetWorkNotice \<Rightarrow> TargetFrontierEntry \<Rightarrow> str \<Rightarrow> str option \<Rightarrow> unit res" where
  "execution_notice_check handoff notice frontier digest barrier_fact =
     bindE (terminal_notice_projection (trh_terminal handoff) barrier_fact) (\<lambda>expected.
     if \<not> notice_tells notice expected then tr_fail ''TargetWorkNotice and terminal fact are inconsistent''
     else if tfe_terminal_fact_ref frontier \<noteq> Some (fst (snd expected))
     then tr_fail ''TargetWorkNotice disagrees with the authoritative terminal fact''
     else if notice_subject notice \<noteq> handle_subject (last (trh_handle_history handoff))
     then tr_fail ''TargetWorkNotice points at a stale handoff handle''
     else
       notice_hashes_check notice digest ''TargetWorkNotice handoff digest does not match the manifest''
         ''TargetWorkNotice payload hash is invalid'')"

definition validate_target_run_handoff_notice ::
  "TargetRunHandoff \<Rightarrow> TargetWorkNotice \<Rightarrow> TargetFrontierEntry \<Rightarrow> TargetFrontierEntry \<Rightarrow> TargetWorkHandle \<Rightarrow> ContentBindingProof
     \<Rightarrow> ReceiptProof \<Rightarrow> CodeReviewScope list \<Rightarrow> str \<Rightarrow> bool \<Rightarrow> str option \<Rightarrow> str res" where
  "validate_target_run_handoff_notice handoff notice frontier reconfirmed initial spec_binding spec_receipt scopes
       expected_revision expected_code_changed barrier_fact =
     bindE (validate_target_run_handoff handoff) (\<lambda>digest.
     bindE (validate_target_work_notice notice) (\<lambda>_.
     bindE (validate_same_inputs initial initial) (\<lambda>_.
     case trh_handle_history handoff of
       [] \<Rightarrow> Inl IndexError
     | first # _ \<Rightarrow>
         if first \<noteq> initial then tr_fail ''TargetRun handoff does not start with the admitted handle''
         else if is_target_root_completion_terminal (trh_terminal handoff) then
           validate_target_root_completion_handoff_notice handoff notice frontier reconfirmed digest initial spec_binding
             spec_receipt scopes
         else
           case trh_terminal handoff of
             Term_GoalWorkDisposition work \<Rightarrow>
               if gwd_disposition work \<noteq> L ''cancelled''
               then tr_fail ''Target non-start disposition requires the non-start validator''
               else
                 validate_goal_work_cancellation_handoff_notice handoff notice frontier reconfirmed digest initial spec_binding
                   spec_receipt scopes
           | _ \<Rightarrow>
               bindE (replay_execution handoff initial scopes expected_revision expected_code_changed) (\<lambda>_.
               bindE (terminal_frontier_check frontier reconfirmed initial (last (trh_handle_history handoff)) spec_binding
                        spec_receipt ''authoritative frontier does not match the terminal handoff handle''
                        ''Target frontier changed during handoff validation'') (\<lambda>_.
               bindE (execution_notice_check handoff notice frontier digest barrier_fact) (\<lambda>_.
               Inr digest))))))"

end
