(* ===== verification/BundleTables.thy ===== *)
theory BundleTables
  imports BundleReporting CandidateLaws
begin

text \<open>
  The loops of \<open>bundle_completion\<close> that check each element on its own and against all before it by
  means of tables.  The interface of such a loop is a locale; the two loops over candidates and
  over accepted closures interpret it.
\<close>

subsection \<open>A loop that checks pairwise agreement\<close>

locale pairwise_check =
  fixes step :: "'s \<Rightarrow> 'a \<Rightarrow> 'e + 's"
    and holds :: "'a list \<Rightarrow> 's \<Rightarrow> bool"
    and good :: "'a \<Rightarrow> bool"
    and agree :: "'a \<Rightarrow> 'a \<Rightarrow> bool"
  assumes step_returns:
      "holds xs s \<Longrightarrow> list_all good xs \<Longrightarrow> returns (step s x) \<longleftrightarrow> good x \<and> (\<forall>y\<in>set xs. agree y x)"
    and step_holds: "holds xs s \<Longrightarrow> list_all good xs \<Longrightarrow> step s x = Inr s' \<Longrightarrow> holds (xs @ [x]) s'"
begin

lemma fold_checks:
  assumes "holds xs s" and "list_all good xs" and "sorted_wrt agree xs"
  shows "returns (foldE step s ys) \<longleftrightarrow> list_all good ys \<and> sorted_wrt agree (xs @ ys)"
    and "foldE step s ys = Inr t \<Longrightarrow> holds (xs @ ys) t"
  using assms
proof (induction ys arbitrary: xs s)
  case (Cons y ys)
  { case 1
    show ?case
    proof (cases "step s y")
      case (Inl e)
      then have "\<not> (good y \<and> (\<forall>x\<in>set xs. agree x y))" using step_returns [OF 1(1,2), of y] by simp
      then show ?thesis using Inl by (auto simp: sorted_wrt_append)
    next
      case (Inr s')
      then have ok: "good y" "\<forall>x\<in>set xs. agree x y" using step_returns [OF 1(1,2), of y] by simp_all
      have "returns (foldE step s' ys) \<longleftrightarrow> list_all good ys \<and> sorted_wrt agree ((xs @ [y]) @ ys)"
        using 1 ok Inr by (intro Cons.IH(1) step_holds) (auto simp: sorted_wrt_append)
      then show ?thesis using Inr ok by simp
    qed
  next
    case 2
    then obtain s' where s': "step s y = Inr s'" "foldE step s' ys = Inr t" by auto
    then have ok: "good y" "\<forall>x\<in>set xs. agree x y" using step_returns [OF 2(2,3), of y] by simp_all
    have "holds ((xs @ [y]) @ ys) t"
      using 2 ok s' by (intro Cons.IH(2) [OF s'(2)] step_holds [OF _ _ s'(1)]) (auto simp: sorted_wrt_append)
    then show ?case by simp }
qed simp_all

lemma fold_from_start:
  assumes "holds [] s"
  shows "returns (foldE step s ys) \<longleftrightarrow> list_all good ys \<and> sorted_wrt agree ys"
    and "foldE step s ys = Inr t \<Longrightarrow> holds ys t \<and> list_all good ys \<and> sorted_wrt agree ys"
  using fold_checks(1) [OF assms, of ys] fold_checks(2) [OF assms, of ys t] by (simp_all add: returns_iff)

end

subsection \<open>The tables of held-fixed revisions\<close>

lemma foldE_same_results:
  assumes "\<And>s x s'. f s x = Inr s' \<longleftrightarrow> g s x = Inr s'"
  shows "foldE f s xs = Inr t \<longleftrightarrow> foldE g s xs = Inr t"
  by (induction xs arbitrary: s) (use assms in auto)

lemma held_slot_step_bc_Inr: "held_slot_step_bc m b e s = Inr e' \<longleftrightarrow> held_slot_step b e s = Inr e'"
  by (auto simp: held_slot_step_bc_def held_slot_step_def split: prod.splits)

lemma held_experiment_step_bc_Inr:
  "held_experiment_step_bc m briefs b held key = Inr h \<longleftrightarrow> held_experiment_step briefs b held key = Inr h"
  by (auto simp: held_experiment_step_bc_def held_experiment_step_def foldE_same_results [OF held_slot_step_bc_Inr] split: prod.splits)

lemma held_fold_bc_Inr:
  "foldE (held_experiment_step_bc m briefs b) held ks = Inr h \<longleftrightarrow> foldE (held_experiment_step briefs b) held ks = Inr h"
  by (rule foldE_same_results) (rule held_experiment_step_bc_Inr)

text \<open>An entry: the experiments an element belongs to and the revision it binds to each slot.\<close>

type_synonym entry = "str list \<times> (str \<times> str) list"

definition entry_ok :: "(str \<times> ExperimentBrief) list \<Rightarrow> entry \<Rightarrow> bool" where
  "entry_ok briefs e \<longleftrightarrow>
     (\<forall>k\<in>set (fst e). \<exists>b. map_of briefs k = Some b \<and> (\<forall>s\<in>set (eb_held_fixed_slots b). map_of (snd e) s \<noteq> None))"

definition entries_agree :: "(str \<times> ExperimentBrief) list \<Rightarrow> entry \<Rightarrow> entry \<Rightarrow> bool" where
  "entries_agree briefs d e \<longleftrightarrow>
     (\<forall>k\<in>set (fst d) \<inter> set (fst e). \<forall>s\<in>slots_of briefs k. map_of (snd d) s = map_of (snd e) s)"

definition held_holds :: "(str \<times> ExperimentBrief) list \<Rightarrow> entry list \<Rightarrow> (str \<times> (str \<times> str) list) list \<Rightarrow> bool" where
  "held_holds briefs es held \<longleftrightarrow>
     (\<forall>k s r. held_revision held k s = Some r \<longleftrightarrow>
        (\<exists>e\<in>set es. k \<in> set (fst e) \<and> s \<in> slots_of briefs k \<and> map_of (snd e) s = Some r))"

lemma held_holds_empty [simp]: "held_holds briefs [] []"
  by (simp add: held_holds_def held_revision_def)

lemma entry_ok_binds: "entry_ok briefs e \<Longrightarrow> k \<in> set (fst e) \<Longrightarrow> s \<in> slots_of briefs k \<Longrightarrow> \<exists>r. map_of (snd e) s = Some r"
  by (fastforce simp: entry_ok_def slots_of_def)

lemma held_fold:
  assumes "held_holds briefs es held" and "entry_ok briefs e" and "list_all (entry_ok briefs) es"
  shows "returns (foldE (held_experiment_step_bc m briefs (snd e)) held (fst e)) \<longleftrightarrow> (\<forall>d\<in>set es. entries_agree briefs d e)"
    and "foldE (held_experiment_step_bc m briefs (snd e)) held (fst e) = Inr h \<Longrightarrow> held_holds briefs (es @ [e]) h"
proof -
  let ?h = "held_revision held" and ?b = "map_of (snd e)"
  have ok: "\<forall>k\<in>set (fst e). \<exists>b. map_of briefs k = Some b \<and> (\<forall>s\<in>set (eb_held_fixed_slots b). ?b s \<noteq> None)"
    using assms(2) by (simp add: entry_ok_def)
  have held: "?h k s = Some r \<longleftrightarrow> (\<exists>d\<in>set es. k \<in> set (fst d) \<and> s \<in> slots_of briefs k \<and> map_of (snd d) s = Some r)" for k s r
    using assms(1) unfolding held_holds_def by blast
  have compat: "(\<forall>k\<in>set (fst e). \<forall>s\<in>slots_of briefs k. ?h k s = None \<or> ?h k s = ?b s) \<longleftrightarrow> (\<forall>d\<in>set es. entries_agree briefs d e)"
    (is "?L \<longleftrightarrow> ?R")
  proof
    assume L: ?L
    show ?R
    proof (unfold entries_agree_def, intro ballI)
      fix d k s assume d: "d \<in> set es" and k: "k \<in> set (fst d) \<inter> set (fst e)" and s: "s \<in> slots_of briefs k"
      then obtain r where r: "map_of (snd d) s = Some r"
        using assms(3) entry_ok_binds [of briefs d k s] by (auto simp: list_all_iff)
      then have "?h k s = Some r" using held d k s by blast
      then show "map_of (snd d) s = ?b s" using L k s r by force
    qed
  next
    assume R: ?R
    show ?L
    proof (intro ballI)
      fix k s assume "k \<in> set (fst e)" and "s \<in> slots_of briefs k"
      then show "?h k s = None \<or> ?h k s = ?b s"
        using R held [of k s] unfolding entries_agree_def by (cases "?h k s") (simp, metis IntI)
    qed
  qed
  show "returns (foldE (held_experiment_step_bc m briefs (snd e)) held (fst e)) \<longleftrightarrow> ?R"
    using held_experiments_fold(1) [OF ok, of held] compat by (simp add: returns_iff held_fold_bc_Inr)
  show "held_holds briefs (es @ [e]) h" if h: "foldE (held_experiment_step_bc m briefs (snd e)) held (fst e) = Inr h"
  proof -
    have old: "?h k s = Some r \<Longrightarrow> k \<in> set (fst e) \<Longrightarrow> s \<in> slots_of briefs k \<Longrightarrow> ?b s = Some r" for k s r
      using held_experiments_fold(1) [OF ok, of held] h by (fastforce simp: returns_iff held_fold_bc_Inr)
    have new: "held_revision h k s = (if k \<in> set (fst e) \<and> s \<in> slots_of briefs k then ?b s else ?h k s)" for k s
      using held_experiments_fold(2) [OF ok] h by (simp add: held_fold_bc_Inr)
    have "held_revision h k s = Some r \<longleftrightarrow>
        (k \<in> set (fst e) \<and> s \<in> slots_of briefs k \<and> ?b s = Some r) \<or> ?h k s = Some r" for k s r
      using old [of k s r] new [of k s] by (cases "k \<in> set (fst e) \<and> s \<in> slots_of briefs k") auto
    then show ?thesis by (auto simp: held_holds_def held)
  qed
qed

end
