(* ===== verification/TargetRunLaws.thy ===== *)
theory TargetRunLaws
  imports TargetRunReplay BundleTables
begin

text \<open>
  Laws of the TargetRun gates: what each validator guarantees of the record it admits, and that the
  reviews it admits are admitted by the Bundle's own gates.
\<close>

subsection \<open>References and receipts\<close>

definition run_ref_ok :: "str \<Rightarrow> bool" where
  "run_ref_ok s \<longleftrightarrow> codes s \<noteq> [] \<and> s = strip s \<and> returns (encode_utf8 s)
     \<and> \<not> scontains 0 s \<and> \<not> scontains 13 s \<and> \<not> scontains 10 s"

lemma require_run_ref_Inr [simp]: "require_run_ref s n = Inr t \<longleftrightarrow> t = s \<and> run_ref_ok s"
  by (auto simp: require_run_ref_def run_ref_ok_def returns_iff)

lemma require_optional_run_ref_Inr [simp]: "require_optional_run_ref v n = Inr t \<longleftrightarrow> v = Some t \<and> run_ref_ok t"
  by (cases v) (auto simp: require_optional_run_ref_def)

lemma require_run_refs_Inr [simp]: "require_run_refs ss n = Inr u \<longleftrightarrow> list_all run_ref_ok ss"
  by (simp add: require_run_refs_def forE_eq_Inr list_all_iff)

lemma require_nonnegative_int_Inr [simp]:
  "require_nonnegative_int i n p = Inr j \<longleftrightarrow> j = i \<and> (if p then 1 else 0) \<le> i"
  by (auto simp: require_nonnegative_int_def)

lemma validate_run_receipt_Inr [simp]: "validate_run_receipt r s n = Inr u \<longleftrightarrow> validate_receipt_proof r s = Inr ()"
  by (simp add: validate_run_receipt_def)

lemma run_ref_present: "run_ref_ok s \<Longrightarrow> require_ref s n = Inr s"
proof -
  assume ok: "run_ref_ok s"
  then have "\<not> is_blank s" by (simp add: run_ref_ok_def is_blank_def)
  with ok show ?thesis by (auto simp: require_ref_def run_ref_ok_def returns_iff)
qed

lemma forE_named_refs [simp]:
  "forE (\<lambda>(v, name). bindE (require_run_ref v name) (\<lambda>_. Inr ())) ps = Inr u \<longleftrightarrow> list_all (\<lambda>p. run_ref_ok (fst p)) ps"
  by (auto simp: forE_eq_Inr list_all_iff split: prod.splits)

lemma forE_named_optional_refs [simp]:
  "forE (\<lambda>(v, name). bindE (require_optional_run_ref v name) (\<lambda>_. Inr ())) ps = Inr u
     \<longleftrightarrow> list_all (\<lambda>p. \<exists>s. fst p = Some s \<and> run_ref_ok s) ps"
  by (auto simp: forE_eq_Inr list_all_iff split: prod.splits)

text \<open>From here on a loop over named references is read by the two lemmas above.\<close>

declare forE_eq_Inr [simp del]

subsection \<open>Reviews\<close>

text \<open>
  The specification names every field of the record.  A changed revision was reviewed: the record is
  of that very revision, it names the base, the diff, the review and the evidence of the spawn, its
  parent is the Target root, and its reviewer is another session.
\<close>

definition independent_code_review :: "CodeReviewRecord \<Rightarrow> str \<Rightarrow> str \<Rightarrow> bool" where
  "independent_code_review review revision root_session \<longleftrightarrow>
     (\<exists>base diff record reviewer evidence.
        review =
          \<lparr>crr_code_changed = True, crr_disposition = L ''reviewed'', crr_candidate_revision_ref = revision,
           crr_reviewed_revision_ref = Some revision, crr_fixed_base_ref = Some base, crr_diff_ref = Some diff,
           crr_review_ref = Some record, crr_review_parent_session_ref = Some root_session,
           crr_reviewer_session_ref = Some reviewer, crr_reviewer_spawn_evidence_ref = Some evidence,
           crr_unresolved_standards_findings = 0, crr_unresolved_spec_findings = 0\<rparr>
        \<and> reviewer \<noteq> root_session
        \<and> run_ref_ok base \<and> run_ref_ok diff \<and> run_ref_ok record \<and> run_ref_ok reviewer \<and> run_ref_ok evidence)"

text \<open>Of an empty diff there is one record only.\<close>

definition no_code_review :: "CodeReviewRecord \<Rightarrow> str \<Rightarrow> bool" where
  "no_code_review review revision \<longleftrightarrow>
     review =
       \<lparr>crr_code_changed = False, crr_disposition = L ''not_applicable(empty_diff)'', crr_candidate_revision_ref = revision,
        crr_reviewed_revision_ref = None, crr_fixed_base_ref = None, crr_diff_ref = None,
        crr_review_ref = None, crr_review_parent_session_ref = None,
        crr_reviewer_session_ref = None, crr_reviewer_spawn_evidence_ref = None,
        crr_unresolved_standards_findings = 0, crr_unresolved_spec_findings = 0\<rparr>"

definition code_review_good :: "CodeReviewRecord \<Rightarrow> str \<Rightarrow> str \<Rightarrow> bool" where
  "code_review_good review revision root_session \<longleftrightarrow>
     returns (projection_digest (pv_CodeReviewRecord review) ''CodeReviewRecord'')
     \<and> run_ref_ok revision \<and> run_ref_ok root_session
     \<and> (independent_code_review review revision root_session \<or> no_code_review review revision)"

lemma changed_code_Inr:
  "changed_code_check review revision root_session = Inr u \<and> crr_code_changed review
      \<and> crr_candidate_revision_ref review = revision \<and> crr_unresolved_standards_findings review = 0
      \<and> crr_unresolved_spec_findings review = 0
   \<longleftrightarrow> independent_code_review review revision root_session \<and> run_ref_ok revision \<and> run_ref_ok root_session"
  by (cases review) (auto simp: changed_code_check_def independent_code_review_def code_review_refs_def)

lemma empty_diff_Inr:
  "empty_diff_check review = Inr u \<and> \<not> crr_code_changed review
      \<and> crr_candidate_revision_ref review = revision \<and> crr_unresolved_standards_findings review = 0
      \<and> crr_unresolved_spec_findings review = 0
   \<longleftrightarrow> no_code_review review revision"
  by (cases review) (auto simp: empty_diff_check_def no_code_review_def code_review_refs_def)

lemma code_review_decided:
  "validate_code_review review revision root_session = Inr digest \<longleftrightarrow>
     code_review_good review revision root_session
     \<and> projection_digest (pv_CodeReviewRecord review) ''CodeReviewRecord'' = Inr digest"
proof (cases "crr_code_changed review")
  case True
  then have "\<not> no_code_review review revision" by (auto simp: no_code_review_def)
  then show ?thesis
    using True changed_code_Inr [of review revision root_session "()"]
    by (auto simp: validate_code_review_def code_review_good_def returns_iff)
next
  case False
  then have "\<not> independent_code_review review revision root_session" by (auto simp: independent_code_review_def)
  then show ?thesis
    using False empty_diff_Inr [of review "()" revision]
    by (auto simp: validate_code_review_def code_review_good_def returns_iff)
qed

lemma code_review_returns:
  "returns (validate_code_review review revision root_session) \<longleftrightarrow> code_review_good review revision root_session"
  by (auto simp: returns_iff code_review_decided) (auto simp: code_review_good_def returns_iff)

text \<open>
  C39. The code-review gate of a TargetRun returns, with the digest of the record, exactly for two
  kinds of records.  Either every field is that of an independent clean review of the protected
  revision: the revision itself, base, diff, review and spawn evidence present and well formed, the
  parent the Target root, the reviewer another session, no open finding.  Or the record is the one
  record of an empty diff, with no review field at all.
\<close>
theorem validate_code_review_iff:
  "validate_code_review review revision root_session = Inr digest \<longleftrightarrow>
     code_review_good review revision root_session
     \<and> projection_digest (pv_CodeReviewRecord review) ''CodeReviewRecord'' = Inr digest"
  by (rule code_review_decided)

lemma code_review_admitted:
  assumes "code_review_good review revision root_session"
  shows "verify_code_review review revision = Inr ()"
proof -
  have proj: "validate_projection (pv_CodeReviewRecord review) ''CodeReviewRecord'' = Inr ()"
    using assms by (auto simp: code_review_good_def validate_projection_def projection_digest_def returns_iff)
  from assms consider "independent_code_review review revision root_session" | "no_code_review review revision"
    by (auto simp: code_review_good_def)
  then show ?thesis
  proof cases
    case 1
    then show ?thesis
      using proj assms
      by (auto simp: verify_code_review_def code_review_good_def independent_code_review_def review_refs_present_def
          require_optional_ref_def run_ref_present)
  next
    case 2
    then show ?thesis using proj by (auto simp: verify_code_review_def no_code_review_def)
  qed
qed

lemma run_result_review_Inr:
  assumes "validate_result_review review root_session attempt metric manifest preflights = Inr d"
  shows "Some (rrr_reviewed_evaluation_attempt_ref review) = attempt" and "Some (rrr_reviewed_metric_result_ref review) = metric"
    and "rrr_reviewed_asset_manifest_ref review = manifest" and "rrr_unresolved_findings review = 0"
    and "list_all (\<lambda>p. run_ref_ok (fst p)) (result_review_refs review)"
    and "rrr_review_parent_session_ref review = root_session" and "rrr_reviewer_session_ref review \<noteq> root_session"
    and "rrr_reviewer_session_ref review \<notin> set (reviewer_sessions preflights)"
    and "rrr_reviewer_spawn_evidence_ref review \<notin> set (reviewer_spawns preflights)"
  using assms by (auto simp: validate_result_review_def)

lemma result_review_admitted:
  assumes "validate_result_review review root_session (amc_evaluation_attempt_ref c) (amc_metric_result_ref c) (amc_asset_manifest_ref c)
      preflights = Inr d"
  shows "result_review_check c review = Inr ()"
  using run_result_review_Inr [OF assms] by (auto simp: result_review_check_def result_review_refs_def run_ref_present)

subsection \<open>Handles\<close>

definition handle_good :: "TargetWorkHandle \<Rightarrow> str \<Rightarrow> str list \<Rightarrow> str list \<Rightarrow> bool" where
  "handle_good handle target_ref commits assets \<longleftrightarrow>
     returns (projection_digest (pv_TargetWorkHandle handle) ''TargetWorkHandle'')
     \<and> twh_target_ref handle = target_ref
     \<and> list_all run_ref_ok (handle_refs handle) \<and> distinct (handle_refs handle)
     \<and> run_ref_ok (twh_execution_input_binding_ref handle)
     \<and> validate_receipt_proof (twh_execution_input_binding_receipt handle) (twh_execution_input_binding_ref handle) = Inr ()
     \<and> twh_accepted_input_target_commit_refs handle = commits \<and> sorted commits \<and> distinct commits \<and> list_all run_ref_ok commits
     \<and> map aiap_asset_ref (twh_accepted_input_asset_proofs handle) = assets \<and> sorted assets \<and> distinct assets
     \<and> (\<forall>proof\<in>set (twh_accepted_input_asset_proofs handle).
          run_ref_ok (aiap_asset_ref proof)
          \<and> validate_receipt_proof (aiap_rm_acceptance_receipt proof) (aiap_asset_ref proof) = Inr ()
          \<and> validate_receipt_proof (aiap_rg_role_receipt proof) (aiap_asset_ref proof) = Inr ())
     \<and> twh_recoverable handle"

lemma forE_input_assets [simp]:
  "forE input_asset_check proofs = Inr u \<longleftrightarrow> (\<forall>proof\<in>set proofs.
     run_ref_ok (aiap_asset_ref proof)
     \<and> validate_receipt_proof (aiap_rm_acceptance_receipt proof) (aiap_asset_ref proof) = Inr ()
     \<and> validate_receipt_proof (aiap_rg_role_receipt proof) (aiap_asset_ref proof) = Inr ())"
  by (simp add: forE_eq_Inr input_asset_check_def)

text \<open>
  A TargetRun handle is admitted exactly when it names the Target, its four identities are
  distinct references, its inputs are the expected ones, sorted and without repetition and each
  accepted by both owners, and the run is recoverable.
\<close>
theorem validate_target_work_handle_iff:
  "returns (validate_target_work_handle handle target_ref commits assets) \<longleftrightarrow> handle_good handle target_ref commits assets"
proof -
  have "list_all (\<lambda>p. run_ref_ok (fst p)) (handle_identities handle) = list_all run_ref_ok (handle_refs handle)"
    by (simp add: handle_refs_def handle_identities_def)
  then show ?thesis
    by (auto simp: returns_iff validate_target_work_handle_def handle_good_def handle_refs_def sorted_set_fix)
qed

lemma same_inputs_iff:
  "returns (validate_same_inputs initial handle) \<longleftrightarrow>
     handle_good handle (twh_target_ref initial) (twh_accepted_input_target_commit_refs initial) (input_assets initial)"
  by (simp add: validate_same_inputs_def validate_target_work_handle_iff)

end
