(* ===== verification/TargetRunHistory.thy ===== *)
theory TargetRunHistory
  imports TargetRunLaws
begin

text \<open>
  The histories of admitted handoffs: along the handles of a handoff no session, attempt or fence
  ever returns, and a run that was left is never entered again.  The two loops that check it
  interpret the locale of pairwise checks.
\<close>

subsection \<open>Fresh identities\<close>

definition clash :: "TargetWorkHandle \<Rightarrow> TargetWorkHandle \<Rightarrow> bool" where
  "clash a b \<longleftrightarrow> twh_root_session_ref b = twh_root_session_ref a
     \<or> twh_execution_attempt_ref b = twh_execution_attempt_ref a \<or> twh_execution_fence_ref b = twh_execution_fence_ref a"

definition never_revives :: "TargetWorkHandle list \<Rightarrow> bool" where
  "never_revives history \<longleftrightarrow>
     distinct (map twh_root_session_ref history) \<and> distinct (map twh_execution_attempt_ref history)
     \<and> distinct (map twh_execution_fence_ref history)"

definition runs_contiguous :: "TargetWorkHandle list \<Rightarrow> bool" where
  "runs_contiguous history \<longleftrightarrow>
     (\<forall>i j k. i < j \<longrightarrow> j < k \<longrightarrow> k < length history \<longrightarrow>
        twh_target_run_ref (history ! k) = twh_target_run_ref (history ! i) \<longrightarrow>
        twh_target_run_ref (history ! j) = twh_target_run_ref (history ! i))"

lemma never_revives_clash: "never_revives history \<longleftrightarrow> sorted_wrt (\<lambda>a b. \<not> clash a b) history"
  by (induction history) (auto simp: never_revives_def clash_def image_iff)

subsection \<open>The loop over reviewed handles\<close>

type_synonym place = "TargetWorkHandle option \<times> TargetWorkHandle"

definition place_good :: "TargetWorkHandle \<Rightarrow> place \<Rightarrow> bool" where
  "place_good initial = (\<lambda>(previous, handle).
     returns (validate_same_inputs initial handle) \<and> (case previous of None \<Rightarrow> True | Some old \<Rightarrow> \<not> clash old handle))"

definition place_agree :: "place \<Rightarrow> place \<Rightarrow> bool" where
  "place_agree = (\<lambda>(previous, handle) (_, later).
     case previous of
       None \<Rightarrow> True
     | Some old \<Rightarrow> \<not> clash old later
         \<and> (twh_target_run_ref handle \<noteq> twh_target_run_ref old \<longrightarrow> twh_target_run_ref later \<noteq> twh_target_run_ref old))"

definition left_handles :: "place list \<Rightarrow> TargetWorkHandle set" where
  "left_handles places = {old. \<exists>handle. (Some old, handle) \<in> set places}"

definition left_runs :: "place list \<Rightarrow> str set" where
  "left_runs places = {run. \<exists>old handle. (Some old, handle) \<in> set places \<and> run = twh_target_run_ref old
     \<and> twh_target_run_ref handle \<noteq> run}"

definition identities_hold :: "place list \<Rightarrow> retired_refs \<Rightarrow> bool" where
  "identities_hold places st \<longleftrightarrow>
     set (retired_sessions st) = twh_root_session_ref ` left_handles places
     \<and> set (retired_attempts st) = twh_execution_attempt_ref ` left_handles places
     \<and> set (retired_fences st) = twh_execution_fence_ref ` left_handles places"

definition places_hold :: "place list \<Rightarrow> retired_refs \<Rightarrow> bool" where
  "places_hold places st \<longleftrightarrow> identities_hold places st \<and> set (retired_runs st) = left_runs places"

lemma left_handles_simps [simp]:
  "left_handles [] = {}" "left_handles (places @ [(None, h)]) = left_handles places"
  "left_handles (places @ [(Some old, h)]) = insert old (left_handles places)"
  by (auto simp: left_handles_def)

lemma left_runs_simps [simp]:
  "left_runs [] = {}" "left_runs (places @ [(None, h)]) = left_runs places"
  "left_runs (places @ [(Some old, h)]) =
     (if twh_target_run_ref h \<noteq> twh_target_run_ref old then insert (twh_target_run_ref old) (left_runs places) else left_runs places)"
  by (auto simp: left_runs_def)

lemma place_disagrees:
  "\<not> place_agree p (q, h) \<longleftrightarrow> (\<exists>old handle. p = (Some old, handle)
     \<and> (clash old h \<or> twh_target_run_ref handle \<noteq> twh_target_run_ref old \<and> twh_target_run_ref h = twh_target_run_ref old))"
  by (cases p) (auto simp: place_agree_def split: option.splits)

lemma identities_reuse:
  "identities_hold places st \<Longrightarrow> reuses_retired st h \<longleftrightarrow> (\<exists>old\<in>left_handles places. clash old h)"
  unfolding identities_hold_def reuses_retired_def clash_def by (simp add: image_iff bex_disj_distrib)

lemma holding_revives:
  assumes "places_hold places st"
  shows "revives_retired st h \<longleftrightarrow> (\<exists>p\<in>set places. \<not> place_agree p (q, h))"
proof -
  have reuse: "reuses_retired st h \<longleftrightarrow> (\<exists>old\<in>left_handles places. clash old h)"
    using assms identities_reuse by (simp add: places_hold_def)
  have "revives_retired st h \<longleftrightarrow> twh_target_run_ref h \<in> left_runs places \<or> (\<exists>old\<in>left_handles places. clash old h)"
    using assms reuse by (simp add: revives_retired_def places_hold_def)
  also have "\<dots> \<longleftrightarrow> (\<exists>p\<in>set places. \<not> place_agree p (q, h))" (is "?L \<longleftrightarrow> ?R")
  proof
    assume ?L
    then obtain old handle where "(Some old, handle) \<in> set places"
      "clash old h \<or> twh_target_run_ref handle \<noteq> twh_target_run_ref old \<and> twh_target_run_ref h = twh_target_run_ref old"
      by (auto simp: left_runs_def left_handles_def)
    then show ?R unfolding place_disagrees by blast
  next
    assume ?R
    then obtain old handle where "(Some old, handle) \<in> set places"
      "clash old h \<or> twh_target_run_ref handle \<noteq> twh_target_run_ref old \<and> twh_target_run_ref h = twh_target_run_ref old"
      unfolding place_disagrees by blast
    then show ?L unfolding left_runs_def left_handles_def by fastforce
  qed
  finally show "revives_retired st h \<longleftrightarrow> (\<exists>p\<in>set places. \<not> place_agree p (q, h))" .
qed

lemma identities_retired: "identities_hold places st \<Longrightarrow> identities_hold (places @ [(Some old, h)]) (retire old st)"
  by (simp add: identities_hold_def retire_def)

lemma identities_skip: "identities_hold (places @ [(None, h)]) st \<longleftrightarrow> identities_hold places st"
  by (simp add: identities_hold_def)

lemma retired_holds:
  "places_hold places st \<Longrightarrow> places_hold (places @ [(Some old, h)]) (retire_run old h (retire old st))"
  using identities_retired [of places st old h]
  by (simp add: places_hold_def retire_run_def identities_hold_def) (simp add: retire_def)

lemma handle_step_iff:
  assumes "places_hold places st"
  shows "handle_step initial st x = Inr st' \<longleftrightarrow>
     place_good initial x \<and> (\<forall>p\<in>set places. place_agree p x)
     \<and> st' = (case fst x of None \<Rightarrow> st | Some old \<Rightarrow> retire_run old (snd x) (retire old st))"
proof (cases x)
  case (Pair previous h)
  show ?thesis
  proof (cases previous)
    case None
    then show ?thesis
      using holding_revives [OF assms, of h None]
      by (auto simp: Pair handle_step_def place_good_def returns_iff)
  next
    case (Some old)
    note after = holding_revives [OF retired_holds [OF assms], of old h h "Some old"]
    have "revives_retired (retire_run old h (retire old st)) h \<longleftrightarrow> revives_retired st h \<or> clash old h"
      unfolding after holding_revives [OF assms, of h "Some old"] by (auto simp: place_agree_def)
    then show ?thesis
      using holding_revives [OF assms, of h "Some old"]
      by (auto simp: Pair Some handle_step_def place_good_def returns_iff Let_def)
  qed
qed

interpretation handles: pairwise_check "handle_step initial" places_hold "place_good initial" place_agree for initial
proof unfold_locales
  fix places st x st'
  assume holds: "places_hold places st"
  show "returns (handle_step initial st x) \<longleftrightarrow> place_good initial x \<and> (\<forall>p\<in>set places. place_agree p x)"
    using handle_step_iff [OF holds] by (auto simp: returns_iff)
  show "handle_step initial st x = Inr st' \<Longrightarrow> places_hold (places @ [x]) st'"
    using retired_holds [OF holds] holds
    by (cases x; cases "fst x") (auto simp: handle_step_iff [OF holds] places_hold_def identities_skip)
qed

lemma handle_places_nth:
  "i < length history \<Longrightarrow> handle_places history ! i = (if i = 0 then None else Some (history ! (i - 1)), history ! i)"
  by (auto simp: handle_places_def nth_Cons split: nat.splits)

lemma handle_places_length [simp]: "length (handle_places history) = length history"
  by (simp add: handle_places_def)

lemma never_revives_nth:
  assumes "\<And>i. Suc i < length history \<Longrightarrow> \<not> clash (history ! i) (history ! Suc i)"
    and "\<And>i j. Suc i < j \<Longrightarrow> j < length history \<Longrightarrow> \<not> clash (history ! i) (history ! j)"
  shows "never_revives history"
proof -
  have "\<not> clash (history ! i) (history ! j)" if "i < j" "j < length history" for i j
    using assms that by (cases "j = Suc i") auto
  then show ?thesis by (simp add: never_revives_clash sorted_wrt_iff_nth_less)
qed

lemma places_imp_history:
  assumes good: "list_all (place_good initial) (handle_places history)" and agree: "sorted_wrt place_agree (handle_places history)"
  shows "list_all (\<lambda>h. returns (validate_same_inputs initial h)) history \<and> never_revives history \<and> runs_contiguous history"
proof -
  have good_at: "place_good initial (handle_places history ! i)" if "i < length history" for i
    using good that by (simp add: list_all_length)
  have agree_at: "place_agree (handle_places history ! i) (handle_places history ! j)" if "i < j" "j < length history" for i j
    using agree that by (simp add: sorted_wrt_iff_nth_less)
  have valid: "returns (validate_same_inputs initial (history ! i))" if "i < length history" for i
    using good_at [OF that] that by (simp add: handle_places_nth place_good_def)
  have fresh: "never_revives history"
  proof (rule never_revives_nth)
    show "\<not> clash (history ! i) (history ! Suc i)" if "Suc i < length history" for i
      using good_at [OF that] that by (simp add: handle_places_nth place_good_def)
    show "\<not> clash (history ! i) (history ! j)" if "Suc i < j" "j < length history" for i j
      using agree_at [OF that] that by (simp add: handle_places_nth place_agree_def)
  qed
  have run: "twh_target_run_ref (history ! k) \<noteq> twh_target_run_ref (history ! i)"
    if ijk: "i < j" "j < k" "k < length history" and differ: "twh_target_run_ref (history ! j) \<noteq> twh_target_run_ref (history ! i)"
    for i j k
  proof -
    let ?P = "\<lambda>m. i < m \<and> twh_target_run_ref (history ! m) \<noteq> twh_target_run_ref (history ! i)"
    define m where "m = (LEAST m. ?P m)"
    have "?P j" using ijk(1) differ by simp
    then have m: "?P m" and le: "m \<le> j" unfolding m_def by (rule LeastI, rule Least_le)
    have before: "twh_target_run_ref (history ! (m - 1)) = twh_target_run_ref (history ! i)"
      using not_less_Least [of "m - 1" ?P] m unfolding m_def [symmetric] by (cases "m - 1 = i") auto
    show ?thesis
      using agree_at [of m k] m le ijk before by (simp add: handle_places_nth place_agree_def)
  qed
  then show ?thesis using valid fresh by (auto simp: list_all_length runs_contiguous_def)
qed

lemma handles_replayed:
  assumes "foldE (handle_step initial) nothing_retired (handle_places history) = Inr st"
  shows "list_all (\<lambda>h. returns (validate_same_inputs initial h)) history \<and> never_revives history \<and> runs_contiguous history"
proof -
  have "places_hold [] nothing_retired" by (simp add: places_hold_def identities_hold_def nothing_retired_def)
  from handles.fold_from_start(2) [OF this assms] show ?thesis by (intro places_imp_history) auto
qed


subsection \<open>The loop over the handles of a root completion\<close>

type_synonym link = "(TargetWorkHandle \<times> TechnicalBlocker) option \<times> TargetWorkHandle"

definition place_of :: "link \<Rightarrow> place" where
  "place_of = (\<lambda>(previous, handle). (map_option fst previous, handle))"

definition link_good :: "TargetWorkHandle \<Rightarrow> link \<Rightarrow> bool" where
  "link_good initial = (\<lambda>(previous, handle).
     returns (validate_same_inputs initial handle) \<and> twh_target_run_ref handle = twh_target_run_ref initial
     \<and> (case previous of None \<Rightarrow> True | Some (old, blocker) \<Rightarrow> returns (retry_evidence initial old blocker handle)))"

definition link_agree :: "link \<Rightarrow> link \<Rightarrow> bool" where
  "link_agree = (\<lambda>(previous, _) (_, later). case previous of None \<Rightarrow> True | Some (old, _) \<Rightarrow> \<not> clash old later)"

definition links_hold :: "link list \<Rightarrow> retired_refs \<times> str list \<Rightarrow> bool" where
  "links_hold links = (\<lambda>(st, _). identities_hold (map place_of links) st)"

lemma links_reuse:
  assumes "links_hold links (st, evidence)"
  shows "reuses_retired st h \<longleftrightarrow> (\<exists>l\<in>set links. \<not> link_agree l (q, h))"
proof -
  have "old \<in> left_handles (map place_of links) \<longleftrightarrow> (\<exists>blocker handle. (Some (old, blocker), handle) \<in> set links)" for old
  proof
    assume "old \<in> left_handles (map place_of links)"
    then obtain handle l where "l \<in> set links" "(Some old, handle) = place_of l"
      unfolding left_handles_def by auto
    then show "\<exists>blocker handle. (Some (old, blocker), handle) \<in> set links"
      by (auto simp: place_of_def eq_commute [of "Some old"] map_option_eq_Some split: prod.splits)
  next
    assume "\<exists>blocker handle. (Some (old, blocker), handle) \<in> set links"
    then obtain blocker handle where l: "(Some (old, blocker), handle) \<in> set links" by blast
    have "place_of (Some (old, blocker), handle) = (Some old, handle)" by (simp add: place_of_def)
    with l show "old \<in> left_handles (map place_of links)" unfolding left_handles_def by (metis (mono_tags) imageI list.set_map mem_Collect_eq)
  qed
  then have "reuses_retired st h \<longleftrightarrow> (\<exists>old blocker handle. (Some (old, blocker), handle) \<in> set links \<and> clash old h)"
    using assms identities_reuse [of "map place_of links" st h] by (auto simp: links_hold_def)
  also have "\<dots> \<longleftrightarrow> (\<exists>l\<in>set links. \<not> link_agree l (q, h))"
    by (fastforce simp: link_agree_def split: option.splits)
  finally show ?thesis .
qed

lemma root_history_step_iff:
  assumes "links_hold links (st, evidence)"
  shows "returns (root_history_step initial (st, evidence) x) \<longleftrightarrow> link_good initial x \<and> (\<forall>l\<in>set links. link_agree l x)"
    and "root_history_step initial (st, evidence) x = Inr (st', evidence') \<Longrightarrow>
       st' = (case fst x of None \<Rightarrow> st | Some (old, _) \<Rightarrow> retire old st)"
  using links_reuse [OF assms, of "snd x" "fst x"]
  by (cases x; auto simp: root_history_step_def link_good_def returns_iff split: option.splits)+

interpretation links: pairwise_check "root_history_step initial" links_hold "link_good initial" link_agree for initial
proof unfold_locales
  fix links :: "link list" and s x and s' :: "retired_refs \<times> str list"
  assume holds: "links_hold links s"
  obtain st evidence st' evidence' where s: "s = (st, evidence)" "s' = (st', evidence')" by (cases s, cases s')
  note holds = holds [unfolded s]
  show "returns (root_history_step initial s x) \<longleftrightarrow> link_good initial x \<and> (\<forall>l\<in>set links. link_agree l x)"
    using root_history_step_iff(1) [OF holds] by (simp add: s)
  show "links_hold (links @ [x]) s'" if "root_history_step initial s x = Inr s'"
    using root_history_step_iff(2) [OF holds that [unfolded s]] holds identities_retired
    by (cases x) (auto simp: s links_hold_def place_of_def identities_skip split: option.splits)
qed

text \<open>Under the length condition each link is a place of the history with its blocker.\<close>

lemma linked_history_nth:
  assumes "trh_handle_history handoff \<noteq> []" and "length (trh_recovered_blockers handoff) + 1 = length (trh_handle_history handoff)"
    and "i < length (trh_handle_history handoff)"
  shows "linked_history handoff ! i =
     (if i = 0 then None else Some (trh_handle_history handoff ! (i - 1), trh_recovered_blockers handoff ! (i - 1)),
      trh_handle_history handoff ! i)"
    and "length (linked_history handoff) = length (trh_handle_history handoff)"
  using assms by (auto simp: linked_history_def successions_def nth_Cons hd_conv_nth nth_tl split: nat.splits)

lemma retry_evidence_fresh: "returns (retry_evidence initial old blocker new) \<Longrightarrow> \<not> clash old new"
  by (auto simp: returns_iff retry_evidence_def validate_technical_blocker_recovery_def clash_def)

lemma root_history_replayed:
  assumes "foldE (root_history_step initial) (nothing_retired, []) (linked_history handoff) = Inr st"
    and "trh_handle_history handoff \<noteq> []" and "length (trh_recovered_blockers handoff) + 1 = length (trh_handle_history handoff)"
  shows "list_all (\<lambda>h. returns (validate_same_inputs initial h) \<and> twh_target_run_ref h = twh_target_run_ref initial)
      (trh_handle_history handoff) \<and> never_revives (trh_handle_history handoff)"
proof -
  let ?history = "trh_handle_history handoff"
  note nth = linked_history_nth(1) [OF assms(2,3)] and len = linked_history_nth(2) [OF assms(2,3)]
  have "links_hold [] (nothing_retired, [])" by (simp add: links_hold_def identities_hold_def nothing_retired_def)
  from links.fold_from_start(2) [OF this assms(1)]
  have good: "list_all (link_good initial) (linked_history handoff)" and agree: "sorted_wrt link_agree (linked_history handoff)"
    by auto
  have len': "length (linked_history handoff) = length ?history" using len assms(2) by blast
  have good_at: "link_good initial (linked_history handoff ! i)" if "i < length ?history" for i
    using good that len' by (simp add: list_all_length)
  have agree_at: "link_agree (linked_history handoff ! i) (linked_history handoff ! j)" if "i < j" "j < length ?history" for i j
    using agree that len' by (simp add: sorted_wrt_iff_nth_less)
  have "never_revives ?history"
  proof (rule never_revives_nth)
    show "\<not> clash (?history ! i) (?history ! Suc i)" if "Suc i < length ?history" for i
      using good_at [OF that] that by (auto simp: nth link_good_def dest: retry_evidence_fresh)
    show "\<not> clash (?history ! i) (?history ! j)" if "Suc i < j" "j < length ?history" for i j
      using agree_at [OF that] that by (simp add: nth link_agree_def)
  qed
  then show ?thesis using good_at by (simp add: list_all_length nth link_good_def)
qed

subsection \<open>The loop over the handles of a cancellation\<close>

text \<open>It retires nothing: only the two handles of each succession are compared.\<close>

definition link_fresh :: "TargetWorkHandle \<Rightarrow> link \<Rightarrow> bool" where
  "link_fresh initial = (\<lambda>(previous, handle).
     returns (validate_same_inputs initial handle) \<and> (case previous of None \<Rightarrow> True | Some (old, _) \<Rightarrow> \<not> clash old handle))"

lemma cancellation_links:
  assumes "foldE (cancellation_step initial) evidence links = Inr evidence'"
  shows "list_all (link_fresh initial) links"
proof (rule foldE_prefix_rule [OF assms])
  fix dn x rest s s'
  assume "list_all (link_fresh initial) dn" and "cancellation_step initial s x = Inr s'"
  then show "list_all (link_fresh initial) (dn @ [x])"
    by (cases x)
      (force simp: cancellation_step_def link_fresh_def returns_iff split: option.splits dest: retry_evidence_fresh [unfolded returns_iff, OF exI])
qed simp

lemma cancellation_replayed:
  assumes "foldE (cancellation_step initial) [] (linked_history handoff) = Inr evidence"
    and "trh_handle_history handoff \<noteq> []" and "length (trh_recovered_blockers handoff) + 1 = length (trh_handle_history handoff)"
  shows "list_all (\<lambda>h. returns (validate_same_inputs initial h)) (trh_handle_history handoff)"
    and "Suc i < length (trh_handle_history handoff) \<Longrightarrow>
      \<not> clash (trh_handle_history handoff ! i) (trh_handle_history handoff ! Suc i)"
proof -
  let ?history = "trh_handle_history handoff"
  note nth = linked_history_nth(1) [OF assms(2,3)] and len = linked_history_nth(2) [OF assms(2,3)]
  have at: "link_fresh initial (linked_history handoff ! j)" if "j < length ?history" for j
    using cancellation_links [OF assms(1)] that len [OF that] by (simp add: list_all_length)
  then show "list_all (\<lambda>h. returns (validate_same_inputs initial h)) ?history"
    using nth by (simp add: list_all_length link_fresh_def)
  show "\<not> clash (?history ! i) (?history ! Suc i)" if "Suc i < length ?history"
    using at [OF that] by (simp add: nth [OF that] link_fresh_def)
qed

end
