(* ===== verification/TargetRunReviews.thy ===== *)
theory TargetRunReviews
  imports TargetRunHistory
begin

text \<open>
  The recoveries, reviews and stops of an admitted handoff: every preflight was admitted for a
  handle of the history, the reviews never share an identity, and each stop belongs to one handle.
\<close>

subsection \<open>Preflights\<close>

definition review_evidence_bound :: "TargetExecutionPreflight \<Rightarrow> bool" where
  "review_evidence_bound preflight \<longleftrightarrow>
     (if crr_code_changed (tep_code_review preflight) then
        (\<exists>binding receipt.
           tep_code_review_evidence_binding preflight = Some binding \<and> tep_code_review_evidence_receipt preflight = Some receipt
           \<and> crr_review_ref (tep_code_review preflight) = Some (cbp_subject_ref binding)
           \<and> code_review_evidence_digest (tep_code_review preflight) (tep_review_scope preflight) = Inr (cbp_content_hash_ref binding)
           \<and> validate_receipt_proof receipt (cbp_content_hash_ref binding) = Inr ())
      else tep_code_review_evidence_binding preflight = None \<and> tep_code_review_evidence_receipt preflight = None)"

lemma review_evidence_check_Inr: "review_evidence_check preflight = Inr u \<longleftrightarrow> review_evidence_bound preflight"
  by (cases "tep_code_review_evidence_binding preflight"; cases "tep_code_review_evidence_receipt preflight")
    (auto simp: review_evidence_check_def review_evidence_bound_def Let_def)

definition preflight_admitted :: "TargetWorkHandle \<Rightarrow> TargetExecutionPreflight \<Rightarrow> CodeReviewScope \<Rightarrow> bool" where
  "preflight_admitted handle preflight scope \<longleftrightarrow>
     tep_target_ref preflight = twh_target_ref handle \<and> tep_target_run_ref preflight = twh_target_run_ref handle
     \<and> tep_review_scope preflight = scope
     \<and> cbp_subject_ref (crs_candidate_revision_binding scope) = tep_implementation_revision_ref preflight
     \<and> cbp_subject_ref (crs_target_spec_binding scope) = twh_target_ref handle
     \<and> crs_accepted_input_refs scope = handle_input_refs handle
     \<and> (\<forall>evidence\<in>set (tep_self_check_evidence preflight).
          rep_subject_revision_ref evidence = tep_implementation_revision_ref preflight)
     \<and> tep_self_check_evidence preflight \<noteq> []
     \<and> code_review_good (tep_code_review preflight) (tep_implementation_revision_ref preflight) (twh_root_session_ref handle)
     \<and> review_evidence_bound preflight"

lemma preflight_Inr:
  assumes "validate_target_execution_preflight preflight handle scope revision changed = Inr d"
  shows "preflight_admitted handle preflight scope" and "tep_implementation_revision_ref preflight = revision"
    and "crr_code_changed (tep_code_review preflight) = changed"
proof -
  have review: "returns (validate_code_review (tep_code_review preflight) (tep_implementation_revision_ref preflight)
      (twh_root_session_ref handle))"
    and parts: "preflight_subject_check preflight handle scope revision = Inr ()"
      "preflight_bindings_check preflight handle = Inr ()" "review_scope_check (tep_review_scope preflight) handle = Inr ()"
      "preflight_evidence_check preflight = Inr ()" "review_evidence_check preflight = Inr ()"
    using assms by (auto simp: validate_target_execution_preflight_def returns_iff)
  have subject: "tep_target_ref preflight = twh_target_ref handle" "tep_target_run_ref preflight = twh_target_run_ref handle"
    "tep_review_scope preflight = scope" "tep_implementation_revision_ref preflight = revision"
    using parts(1) by (auto simp: preflight_subject_check_def)
  have bindings: "cbp_subject_ref (crs_candidate_revision_binding scope) = revision"
    "cbp_subject_ref (crs_target_spec_binding scope) = twh_target_ref handle"
    using parts(2) subject by (auto simp: preflight_bindings_check_def Let_def)
  have inputs: "crs_accepted_input_refs scope = handle_input_refs handle"
    using parts(3) subject(3) by (auto simp: review_scope_check_def)
  have checks: "tep_self_check_evidence preflight \<noteq> []"
    "\<forall>evidence\<in>set (tep_self_check_evidence preflight). rep_subject_revision_ref evidence = revision"
    using parts(4) subject(4) by (auto simp: preflight_evidence_check_def self_check_def forE_eq_Inr Let_def)
  show "preflight_admitted handle preflight scope"
    using subject bindings inputs checks review parts(5)
    by (simp add: preflight_admitted_def code_review_returns review_evidence_check_Inr)
  show "tep_implementation_revision_ref preflight = revision" by (rule subject(4))
  show "crr_code_changed (tep_code_review preflight) = changed"
    using assms by (auto simp: validate_target_execution_preflight_def)
qed

subsection \<open>Recoveries\<close>

type_synonym succession = "TargetWorkHandle \<times> TechnicalBlocker \<times> TargetWorkHandle"

definition replaces_code :: "succession \<Rightarrow> bool" where
  "replaces_code = (\<lambda>(_, blocker, _). tbl_replacement_implementation_revision_ref blocker \<noteq> None)"

definition recovery_receipt_of :: "succession \<Rightarrow> str option" where
  "recovery_receipt_of = (\<lambda>(_, blocker, _). map_option rp_receipt_ref (tbl_recovery_receipt blocker))"

definition succession_refs :: "succession \<Rightarrow> str set" where
  "succession_refs = (\<lambda>(old, blocker, new).
     {tbl_blocker_ref blocker, rp_receipt_ref (tbl_blocker_receipt blocker)}
     \<union> (case tbl_recovery_receipt blocker of None \<Rightarrow> {} | Some receipt \<Rightarrow> {rp_receipt_ref receipt})
     \<union> set (handle_refs old) \<union> set (handle_refs new))"

lemma recovery_Inr:
  assumes "validate_technical_blocker_recovery blocker old new previous replacement scope commits assets = Inr refs"
  shows "set refs = succession_refs (old, blocker, new)" and "\<not> clash old new"
    and "returns (validate_target_work_handle new (twh_target_ref old) commits assets)"
    and "tbl_replacement_implementation_revision_ref blocker = None \<Longrightarrow> replacement = None"
    and "tbl_replacement_implementation_revision_ref blocker \<noteq> None \<Longrightarrow>
       \<exists>before after s. previous = Some before \<and> replacement = Some after \<and> scope = Some s
         \<and> preflight_admitted new after s \<and> crr_code_changed (tep_code_review after)
         \<and> tep_implementation_revision_ref after \<noteq> tep_implementation_revision_ref before"
proof -
  obtain receipt where parts: "recovery_blocker_check blocker old = Inr receipt"
      "replacement_check (tbl_replacement_implementation_revision_ref blocker) new previous replacement scope = Inr ()"
    and refs: "refs = sorted_set ([tbl_blocker_ref blocker, rp_receipt_ref (tbl_blocker_receipt blocker), rp_receipt_ref receipt]
              @ handle_refs old @ handle_refs new)"
    and rest: "\<not> clash old new" "returns (validate_target_work_handle new (twh_target_ref old) commits assets)"
    using assms by (auto simp: validate_technical_blocker_recovery_def clash_def returns_iff)
  have "tbl_recovery_receipt blocker = Some receipt"
    using parts(1) by (auto simp: recovery_blocker_check_def split: option.splits)
  then show "set refs = succession_refs (old, blocker, new)" by (auto simp: refs succession_refs_def)
  show "\<not> clash old new" "returns (validate_target_work_handle new (twh_target_ref old) commits assets)" using rest .
  show "replacement = None" if "tbl_replacement_implementation_revision_ref blocker = None"
    using parts(2) that by (simp add: replacement_check_def)
  show "\<exists>before after s. previous = Some before \<and> replacement = Some after \<and> scope = Some s
         \<and> preflight_admitted new after s \<and> crr_code_changed (tep_code_review after)
         \<and> tep_implementation_revision_ref after \<noteq> tep_implementation_revision_ref before"
    if replaced: "tbl_replacement_implementation_revision_ref blocker \<noteq> None"
  proof -
    obtain revision where revision: "tbl_replacement_implementation_revision_ref blocker = Some revision" using replaced by blast
    obtain before after s where some: "previous = Some before" "replacement = Some after" "scope = Some s"
      using parts(2) revision by (cases previous; cases replacement; cases scope) (auto simp: replacement_check_def)
    then show ?thesis using parts(2) revision preflight_Inr [of after new s revision True]
      by (auto simp: replacement_check_def)
  qed
qed

text \<open>
  What the loop over the blockers has established after a prefix of the successions: the preflights
  it used, the evidence it collected, and that no recovery receipt was used twice.
\<close>

definition recoveries_hold ::
  "TargetWorkHandle set \<Rightarrow> (TargetExecutionPreflight \<times> CodeReviewScope) list \<Rightarrow> succession list \<Rightarrow> recovery_state \<Rightarrow> bool" where
  "recoveries_hold handles reviewed steps st \<longleftrightarrow>
     (\<exists>used. reviewed = used @ unused_preflights st \<and> length used = Suc (length (filter replaces_code steps))
        \<and> fst (last used) = current_preflight st
        \<and> (\<forall>(preflight, scope)\<in>set used. \<exists>handle\<in>handles. preflight_admitted handle preflight scope)
        \<and> (\<forall>(preflight, scope)\<in>set (tl used). crr_code_changed (tep_code_review preflight)))
     \<and> distinct (map recovery_receipt_of steps) \<and> Some ` set (consumed_receipts st) = recovery_receipt_of ` set steps
     \<and> set (exact_evidence st) = \<Union> (succession_refs ` set steps)"

lemma recovery_step_holds:
  assumes holds: "recoveries_hold handles reviewed steps st" and step: "recovery_step initial st x = Inr st'"
    and new: "snd (snd x) \<in> handles"
  shows "recoveries_hold handles reviewed (steps @ [x]) st'"
proof -
  obtain old blocker h where x: "x = (old, blocker, h)" by (cases x)
  obtain used where used: "reviewed = used @ unused_preflights st" "length used = Suc (length (filter replaces_code steps))"
      "fst (last used) = current_preflight st"
      "\<forall>(preflight, scope)\<in>set used. \<exists>handle\<in>handles. preflight_admitted handle preflight scope"
      "\<forall>(preflight, scope)\<in>set (tl used). crr_code_changed (tep_code_review preflight)"
    and rest: "distinct (map recovery_receipt_of steps)" "Some ` set (consumed_receipts st) = recovery_receipt_of ` set steps"
      "set (exact_evidence st) = \<Union> (succession_refs ` set steps)"
    using holds by (auto simp: recoveries_hold_def)
  obtain replacement st1 evidence receipt where
    next1: "next_preflight st blocker = Inr (replacement, st1)"
    and recovery: "validate_technical_blocker_recovery blocker old h (Some (current_preflight st1)) (map_option fst replacement)
          (map_option snd replacement) (twh_accepted_input_target_commit_refs initial) (input_assets initial) = Inr evidence"
    and receipt: "tbl_recovery_receipt blocker = Some receipt" "rp_receipt_ref receipt \<notin> set (consumed_receipts st1)"
    and st': "st' = st1\<lparr>consumed_receipts := rp_receipt_ref receipt # consumed_receipts st1, exact_evidence := exact_evidence st1 @ evidence,
          current_preflight := chosen_preflight replacement (current_preflight st1)\<rparr>"
    using step by (auto simp: recovery_step_def x split: option.splits if_splits)
  have same: "consumed_receipts st1 = consumed_receipts st" "exact_evidence st1 = exact_evidence st"
    "current_preflight st1 = current_preflight st"
    using next1 by (auto simp: next_preflight_def split: list.splits if_splits)
  have fresh: "recovery_receipt_of x = Some (rp_receipt_ref receipt)" "Some (rp_receipt_ref receipt) \<notin> recovery_receipt_of ` set steps"
    using receipt unfolding rest(2) [symmetric] by (auto simp: recovery_receipt_of_def x same)
  have tables: "distinct (map recovery_receipt_of (steps @ [x]))"
    "Some ` set (consumed_receipts st') = recovery_receipt_of ` set (steps @ [x])"
    "set (exact_evidence st') = \<Union> (succession_refs ` set (steps @ [x]))"
    using rest fresh recovery_Inr(1) [OF recovery] by (auto simp: st' same x)
  show ?thesis
  proof (cases "tbl_replacement_implementation_revision_ref blocker")
    case None
    then have "replacement = None" "st1 = st" "\<not> replaces_code x"
      using next1 by (auto simp: next_preflight_def replaces_code_def x)
    then show ?thesis using used tables unfolding recoveries_hold_def by (intro conjI exI [of _ used]) (simp_all add: st' chosen_preflight_def)
  next
    case (Some revision)
    then obtain preflight scope where
      unused: "unused_preflights st = (preflight, scope) # unused_preflights st1" "replacement = Some (preflight, scope)"
      and repl: "replaces_code x"
      using next1 by (auto simp: next_preflight_def replaces_code_def x split: list.splits)
    have admitted: "preflight_admitted h preflight scope" "crr_code_changed (tep_code_review preflight)"
      using recovery_Inr(5) [OF recovery] Some unused(2) by auto
    have "used \<noteq> []" using used(2) by auto
    then have "tl (used @ [(preflight, scope)]) = tl used @ [(preflight, scope)]" by simp
    then show ?thesis
      using used tables admitted unused repl new unfolding recoveries_hold_def
      by (intro conjI exI [of _ "used @ [(preflight, scope)]"]) (auto simp: st' x chosen_preflight_def)
  qed
qed

lemma recoveries_replayed:
  assumes "replay_recoveries handoff initial scopes revision changed = Inr evidence"
    and "length scopes = length (trh_code_review_preflights handoff)" and "initial \<in> set (trh_handle_history handoff)"
  shows "length (trh_code_review_preflights handoff) = Suc (length (filter replaces_code (successions handoff)))"
    and "\<forall>preflight\<in>set (trh_code_review_preflights handoff). \<exists>handle\<in>set (trh_handle_history handoff). \<exists>scope\<in>set scopes.
           preflight_admitted handle preflight scope"
    and "\<forall>preflight\<in>set (tl (trh_code_review_preflights handoff)). crr_code_changed (tep_code_review preflight)"
    and "distinct (map recovery_receipt_of (successions handoff))"
    and "set evidence = \<Union> (succession_refs ` set (successions handoff))"
proof -
  let ?handles = "set (trh_handle_history handoff)" and ?reviewed = "zip (trh_code_review_preflights handoff) scopes"
  obtain preflight scope rest st d where reviewed: "?reviewed = (preflight, scope) # rest"
    and first: "validate_target_execution_preflight preflight initial scope revision changed = Inr d"
    and fold: "foldE (recovery_step initial)
        \<lparr>unused_preflights = rest, current_preflight = preflight, exact_evidence = [], consumed_receipts = []\<rparr> (successions handoff) = Inr st"
    and finished: "unused_preflights st = []" "evidence = exact_evidence st"
    using assms(1) by (auto simp: replay_recoveries_def split: list.splits)
  have "recoveries_hold ?handles ?reviewed (successions handoff) st"
  proof (rule foldE_prefix_rule [OF fold, where I = "recoveries_hold ?handles ?reviewed"])
    show "recoveries_hold ?handles ?reviewed []
        \<lparr>unused_preflights = rest, current_preflight = preflight, exact_evidence = [], consumed_receipts = []\<rparr>"
      using preflight_Inr(1) [OF first] assms(3)
      by (auto simp: recoveries_hold_def reviewed intro!: exI [of _ "[(preflight, scope)]"])
    fix dn x steps s s'
    assume "successions handoff = dn @ x # steps" "recoveries_hold ?handles ?reviewed dn s" "recovery_step initial s x = Inr s'"
    moreover have "snd (snd x) \<in> ?handles" if "x \<in> set (successions handoff)" for x
    proof -
      have "snd (snd x) \<in> set (tl (trh_handle_history handoff))"
        using that unfolding successions_def by (metis prod.collapse set_zip_rightD)
      then show ?thesis by (cases "trh_handle_history handoff") auto
    qed
    ultimately show "recoveries_hold ?handles ?reviewed (dn @ [x]) s'" by (intro recovery_step_holds) auto
  qed
  then obtain used where hold: "?reviewed = used" "length used = Suc (length (filter replaces_code (successions handoff)))"
      "\<forall>(preflight, scope)\<in>set used. \<exists>handle\<in>?handles. preflight_admitted handle preflight scope"
      "\<forall>(preflight, scope)\<in>set (tl used). crr_code_changed (tep_code_review preflight)"
    and rest': "distinct (map recovery_receipt_of (successions handoff))"
      "set (exact_evidence st) = \<Union> (succession_refs ` set (successions handoff))"
    by (auto simp: recoveries_hold_def finished)
  have fsts: "trh_code_review_preflights handoff = map fst used" "set (map snd used) = set scopes"
    using assms(2) by (simp_all flip: hold(1))
  show "length (trh_code_review_preflights handoff) = Suc (length (filter replaces_code (successions handoff)))"
    using hold(2) by (simp add: fsts)
  show "\<forall>preflight\<in>set (trh_code_review_preflights handoff). \<exists>handle\<in>?handles. \<exists>scope\<in>set scopes.
           preflight_admitted handle preflight scope"
  proof
    fix preflight assume "preflight \<in> set (trh_code_review_preflights handoff)"
    then obtain scope where mem: "(preflight, scope) \<in> set used" unfolding fsts(1) by auto
    then have "scope \<in> set scopes" unfolding fsts(2) [symmetric] by force
    then show "\<exists>handle\<in>?handles. \<exists>scope\<in>set scopes. preflight_admitted handle preflight scope" using hold(3) mem by blast
  qed
  show "\<forall>preflight\<in>set (tl (trh_code_review_preflights handoff)). crr_code_changed (tep_code_review preflight)"
    using hold(4) unfolding fsts(1) map_tl [symmetric] by (auto split: prod.splits)
  show "distinct (map recovery_receipt_of (successions handoff))" "set evidence = \<Union> (succession_refs ` set (successions handoff))"
    using rest' by (simp_all add: finished)
qed

end
