(* ===== verification/BundleCompletionLaws.thy ===== *)
theory BundleCompletionLaws
  imports BundleTables
begin

text \<open>
  Laws of the strategy-complete gate of \<open>bundle_completion\<close>: what an admitted candidate satisfies,
  what the gate decides, and that it accepts every strategy that \<open>bundle_target_contract\<close> sealed.
\<close>

subsection \<open>References, bindings and briefs\<close>

definition ref_present :: "str \<Rightarrow> bool" where
  "ref_present s \<longleftrightarrow> \<not> is_blank s \<and> text_ok (codes s)"

lemma require_ref_Inr [simp]: "require_ref s n = Inr t \<longleftrightarrow> t = s \<and> ref_present s"
  by (auto simp: require_ref_def ref_present_def encode_utf8_def text_ok_iff split: option.splits)

lemma require_optional_ref_Inr [simp]: "require_optional_ref v n = Inr t \<longleftrightarrow> v = Some t \<and> ref_present t"
  by (cases v) (auto simp: require_optional_ref_def)

lemma require_refs_Inr [simp]: "require_refs xs n = Inr () \<longleftrightarrow> (\<forall>x\<in>set xs. ref_present x)"
  by (auto simp: require_refs_def)

lemma binding_map_bc_Inr:
  "binding_map_bc bs = Inr m \<Longrightarrow>
     m = map (\<lambda>h. (hfb_semantic_slot h, hfb_implementation_revision_ref h)) bs \<and> distinct (map hfb_semantic_slot bs)"
  unfolding binding_map_bc_def
proof (erule foldE_prefix_rule)
  fix dn rest :: "HeldFixedBinding list" and x s s'
  assume I: "s = map (\<lambda>h. (hfb_semantic_slot h, hfb_implementation_revision_ref h)) dn \<and> distinct (map hfb_semantic_slot dn)"
    and step: "binding_step_bc s x = Inr s'"
  have "\<not> has_key s (hfb_semantic_slot x)" "s' = dict_set (hfb_semantic_slot x) (hfb_implementation_revision_ref x) s"
    using step by (auto simp: binding_step_bc_def)
  with I show "s' = map (\<lambda>h. (hfb_semantic_slot h, hfb_implementation_revision_ref h)) (dn @ [x])
      \<and> distinct (map hfb_semantic_slot (dn @ [x]))"
    by (auto simp: has_key_iff dict_set_new comp_def)
qed simp

lemma brief_fold_Inr:
  "foldE brief_step [] bs = Inr m \<Longrightarrow>
     m = map (\<lambda>b. (eb_experiment_key b, b)) bs \<and> distinct (map eb_experiment_key bs)
     \<and> (\<forall>b\<in>set bs. validate_brief_bc b = Inr ())"
proof (erule foldE_prefix_rule)
  fix dn rest :: "ExperimentBrief list" and x s s'
  assume I: "s = map (\<lambda>b. (eb_experiment_key b, b)) dn \<and> distinct (map eb_experiment_key dn)
      \<and> (\<forall>b\<in>set dn. validate_brief_bc b = Inr ())"
    and step: "brief_step s x = Inr s'"
  have "validate_brief_bc x = Inr ()" "\<not> has_key s (eb_experiment_key x)" "s' = dict_set (eb_experiment_key x) x s"
    using step by (auto simp: brief_step_def)
  with I show "s' = map (\<lambda>b. (eb_experiment_key b, b)) (dn @ [x]) \<and> distinct (map eb_experiment_key (dn @ [x]))
      \<and> (\<forall>b\<in>set (dn @ [x]). validate_brief_bc b = Inr ())"
    by (auto simp: has_key_iff dict_set_new comp_def)
qed simp

lemma briefs_by_key_bc_Inr:
  assumes "briefs_by_key_bc plan = Inr briefs"
  shows "briefs = map (\<lambda>b. (eb_experiment_key b, b)) (fp_briefs plan)" and "distinct (map eb_experiment_key (fp_briefs plan))"
    and "\<forall>b\<in>set (fp_briefs plan). validate_brief_bc b = Inr ()" and "fp_briefs plan \<noteq> []"
  using assms brief_fold_Inr by (auto simp: briefs_by_key_bc_def split: if_splits)

lemma brief_lookup:
  assumes "briefs_by_key_bc plan = Inr briefs"
  shows "map_of briefs k = Some b \<longleftrightarrow> b \<in> set (fp_briefs plan) \<and> eb_experiment_key b = k"
proof -
  note B = briefs_by_key_bc_Inr [OF assms]
  have "distinct (map fst briefs)" using B(1,2) by (simp add: comp_def)
  then have "map_of briefs k = Some b \<longleftrightarrow> (k, b) \<in> set briefs" by (simp add: map_of_eq_Some_iff)
  also have "\<dots> \<longleftrightarrow> b \<in> set (fp_briefs plan) \<and> eb_experiment_key b = k" unfolding B(1) by auto
  finally show ?thesis .
qed

subsection \<open>One candidate\<close>

lemma verify_candidate_bc_Inr:
  assumes "verify_candidate_bc c briefs = Inr bindings"
  shows "candidate_admissible briefs c" and "bindings = binding_pairs c"
proof -
  from assms obtain slots where
    ks: "tc_experiment_keys c \<noteq> []" "distinct (tc_experiment_keys c)"
    and one: "length (tc_measurement_unit_keys c) = 1"
    and self: "tc_local_label c \<notin> set (tc_depends_on_labels c)"
    and req: "\<forall>key\<in>set (tc_experiment_keys c). check_cell_required_bc briefs (cell_of c) key = Inr ()"
    and slots: "expected_slots briefs (tc_experiment_keys c) = Inr slots"
    and bm: "binding_map_bc (tc_held_fixed_bindings c) = Inr bindings"
    and same: "set (keys bindings) = set slots"
    and routes: "tc_routes c \<noteq> []" "distinct (map rs_route_ref (tc_routes c))"
    by (auto simp: verify_candidate_bc_def cell_of_def)
  show b: "bindings = binding_pairs c"
    using binding_map_bc_Inr [OF bm] by (simp add: binding_pairs_def)
  have unit: "tc_measurement_unit_keys c = [cell_of c]"
    using one by (cases "tc_measurement_unit_keys c") (auto simp: cell_of_def)
  have "\<exists>b. map_of briefs key = Some b \<and> cell_of c \<in> set (eb_required_measurement_unit_keys b)
      \<and> set (eb_held_fixed_slots b) \<subseteq> set (map fst (binding_pairs c))" if "key \<in> set (tc_experiment_keys c)" for key
    using req that expected_slots_Inr [OF slots that] same b
    by (fastforce simp: check_cell_required_bc_def keys_def)
  moreover have "distinct (map fst (binding_pairs c))"
    using binding_map_bc_Inr [OF bm] by (simp add: binding_pairs_def comp_def)
  ultimately show "candidate_admissible briefs c"
    using unit ks self routes by (simp add: candidate_admissible_def)
qed

definition entry_of :: "TargetCandidate \<Rightarrow> entry" where
  "entry_of c = (tc_experiment_keys c, binding_pairs c)"

lemma entry_of_ok: "candidate_admissible briefs c \<Longrightarrow> entry_ok briefs (entry_of c)"
  by (fastforce simp: candidate_admissible_def entry_ok_def entry_of_def map_of_eq_None_iff)

subsection \<open>The loop over the candidates\<close>

definition cells_good :: "(str \<times> ExperimentBrief) list \<Rightarrow> str \<times> TargetCandidate \<Rightarrow> bool" where
  "cells_good briefs p \<longleftrightarrow> fst p = tc_local_label (snd p) \<and> returns (verify_candidate_bc (snd p) briefs)"

definition cells_agree :: "(str \<times> ExperimentBrief) list \<Rightarrow> str \<times> TargetCandidate \<Rightarrow> str \<times> TargetCandidate \<Rightarrow> bool" where
  "cells_agree briefs p q \<longleftrightarrow>
     (cell_of (snd p) = cell_of (snd q) \<longrightarrow> fst p = fst q) \<and> entries_agree briefs (entry_of (snd p)) (entry_of (snd q))"

definition cells_covered :: "TargetCandidate list \<Rightarrow> (str \<times> str) list" where
  "cells_covered cs = concat (map (\<lambda>c. map (\<lambda>key. (key, cell_of c)) (tc_experiment_keys c)) cs)"

definition cells_hold :: "(str \<times> ExperimentBrief) list \<Rightarrow> (str \<times> TargetCandidate) list \<Rightarrow> cells_state \<Rightarrow> bool" where
  "cells_hold briefs ps st \<longleftrightarrow>
     planned_cells st = cells_covered (map snd ps)
     \<and> (\<forall>u l. map_of (target_by_unit st) u = Some l \<longleftrightarrow> (\<exists>p\<in>set ps. fst p = l \<and> cell_of (snd p) = u))
     \<and> held_holds briefs (map (entry_of \<circ> snd) ps) (held_fixed_by_experiment st)"

lemma cells_good_admissible: "cells_good briefs p \<Longrightarrow> candidate_admissible briefs (snd p)"
  by (auto simp: cells_good_def returns_iff dest: verify_candidate_bc_Inr)

lemma cells_good_entries: "list_all (cells_good briefs) ps \<Longrightarrow> list_all (entry_ok briefs) (map (entry_of \<circ> snd) ps)"
  by (auto simp: list_all_iff intro: entry_of_ok cells_good_admissible)

lemma completion_cells_step_eq:
  assumes "cells_good briefs (label, c)"
  shows "completion_cells_step briefs st (label, c) =
    (case setdefault (cell_of c) label (target_by_unit st) of (previous, targets) \<Rightarrow>
       if previous \<noteq> label then bp_fail ''independent measurement cell appears in two Targets''
       else
         bindE (foldE (held_experiment_step_bc ''comparison Targets drifted a held-fixed semantic slot'' briefs (snd (entry_of c)))
                  (held_fixed_by_experiment st) (fst (entry_of c))) (\<lambda>held.
         Inr \<lparr>planned_cells = planned_cells st @ cells_covered [c], target_by_unit = targets, held_fixed_by_experiment = held\<rparr>))"
proof -
  obtain m where m: "verify_candidate_bc c briefs = Inr m" using assms by (auto simp: cells_good_def returns_iff)
  then have "m = binding_pairs c" by (rule verify_candidate_bc_Inr)
  then show ?thesis
    using m assms by (simp add: completion_cells_step_def cells_good_def cells_covered_def entry_of_def cell_of_def Let_def split: prod.split)
qed

lemma setdefault_agrees:
  assumes "\<forall>u l. map_of d u = Some l \<longleftrightarrow> (\<exists>p\<in>set ps. fst p = l \<and> cell_of (snd p) = u)"
    and "setdefault (cell_of c) label d = (previous, d')"
  shows "previous = label \<longleftrightarrow> (\<forall>p\<in>set ps. cell_of (snd p) = cell_of c \<longrightarrow> fst p = label)"
    and "previous = label \<Longrightarrow> map_of d' u = Some l \<longleftrightarrow> (\<exists>p\<in>set (ps @ [(label, c)]). fst p = l \<and> cell_of (snd p) = u)"
proof -
  have uniq: "fst p = l" if "p \<in> set ps" "map_of d (cell_of (snd p)) = Some l" for p l
    using assms(1) that by (metis option.inject)
  show "previous = label \<longleftrightarrow> (\<forall>p\<in>set ps. cell_of (snd p) = cell_of c \<longrightarrow> fst p = label)"
  proof (cases "map_of d (cell_of c)")
    case None
    then have "\<forall>p\<in>set ps. cell_of (snd p) \<noteq> cell_of c" using assms(1) by (metis option.distinct(1))
    then show ?thesis using None assms(2) by (simp add: setdefault_simps)
  next
    case (Some l)
    then have "previous = l" using assms(2) by (simp add: setdefault_simps)
    moreover obtain q where "q \<in> set ps" "fst q = l" "cell_of (snd q) = cell_of c" using assms(1) Some by blast
    ultimately show ?thesis using uniq Some by metis
  qed
  show "map_of d' u = Some l \<longleftrightarrow> (\<exists>p\<in>set (ps @ [(label, c)]). fst p = l \<and> cell_of (snd p) = u)" if "previous = label"
  proof -
    have "map_of d' = (map_of d)(cell_of c \<mapsto> label)"
      using assms(2) that by (cases "map_of d (cell_of c)") (auto simp: setdefault_simps)
    moreover have "map_of d (cell_of c) = Some l \<Longrightarrow> l = label" for l
      using assms(2) that by (simp add: setdefault_simps)
    ultimately show ?thesis using assms(1) by auto
  qed
qed

lemma completion_cells_step_returns:
  assumes "cells_hold briefs ps st" and "list_all (cells_good briefs) ps"
  shows "returns (completion_cells_step briefs st p) \<longleftrightarrow> cells_good briefs p \<and> (\<forall>q\<in>set ps. cells_agree briefs q p)"
proof (cases "cells_good briefs p")
  case True
  obtain label c where p: "p = (label, c)" by (cases p)
  obtain previous targets where sd: "setdefault (cell_of c) label (target_by_unit st) = (previous, targets)"
    by (cases "setdefault (cell_of c) label (target_by_unit st)")
  have table: "\<forall>u l. map_of (target_by_unit st) u = Some l \<longleftrightarrow> (\<exists>p\<in>set ps. fst p = l \<and> cell_of (snd p) = u)"
    and held: "held_holds briefs (map (entry_of \<circ> snd) ps) (held_fixed_by_experiment st)"
    using assms(1) unfolding cells_hold_def by blast+
  have "entry_ok briefs (entry_of c)" using cells_good_admissible [OF True] entry_of_ok p by simp
  note F = held_fold(1) [OF held this cells_good_entries [OF assms(2)]]
  have "returns (completion_cells_step briefs st p) \<longleftrightarrow> previous = label \<and> (\<forall>q\<in>set ps. entries_agree briefs (entry_of (snd q)) (entry_of c))"
    using F by (simp add: completion_cells_step_eq [OF True [unfolded p]] p sd returns_iff)
  then show ?thesis
    using True setdefault_agrees(1) [OF table sd] by (auto simp: cells_agree_def p)
next
  case False
  then show ?thesis by (cases p) (auto simp: completion_cells_step_def cells_good_def returns_iff)
qed

lemma completion_cells_step_holds:
  assumes "cells_hold briefs ps st" and "list_all (cells_good briefs) ps" and "completion_cells_step briefs st p = Inr st'"
  shows "cells_hold briefs (ps @ [p]) st'"
proof -
  obtain label c where p: "p = (label, c)" by (cases p)
  have good: "cells_good briefs (label, c)"
    using completion_cells_step_returns [OF assms(1,2), of p] assms(3) p by simp
  obtain targets held where sd: "setdefault (cell_of c) label (target_by_unit st) = (label, targets)"
    and fold: "foldE (held_experiment_step_bc ''comparison Targets drifted a held-fixed semantic slot'' briefs (snd (entry_of c)))
                  (held_fixed_by_experiment st) (fst (entry_of c)) = Inr held"
    and st': "st' = \<lparr>planned_cells = planned_cells st @ cells_covered [c], target_by_unit = targets, held_fixed_by_experiment = held\<rparr>"
    using assms(3) by (auto simp: p completion_cells_step_eq [OF good] split: prod.splits if_splits)
  have table: "\<forall>u l. map_of (target_by_unit st) u = Some l \<longleftrightarrow> (\<exists>p\<in>set ps. fst p = l \<and> cell_of (snd p) = u)"
    and hh: "held_holds briefs (map (entry_of \<circ> snd) ps) (held_fixed_by_experiment st)"
    and planned: "planned_cells st = cells_covered (map snd ps)"
    using assms(1) unfolding cells_hold_def by blast+
  have "entry_ok briefs (entry_of c)" using cells_good_admissible [OF good] entry_of_ok by simp
  from held_fold(2) [OF hh this cells_good_entries [OF assms(2)] fold]
  have "held_holds briefs (map (entry_of \<circ> snd) (ps @ [p])) held" by (simp add: p)
  moreover have "\<forall>u l. map_of targets u = Some l \<longleftrightarrow> (\<exists>q\<in>set (ps @ [p]). fst q = l \<and> cell_of (snd q) = u)"
    using setdefault_agrees(2) [OF table sd] by (simp add: p)
  ultimately show ?thesis using planned by (simp add: cells_hold_def st' p cells_covered_def)
qed

interpretation cells: pairwise_check "completion_cells_step briefs" "cells_hold briefs" "cells_good briefs" "cells_agree briefs"
  for briefs
  using completion_cells_step_returns completion_cells_step_holds by unfold_locales

subsection \<open>What the gate decides\<close>

definition plan_requires :: "FormalPlan \<Rightarrow> str \<Rightarrow> str \<Rightarrow> bool" where
  "plan_requires plan key cell \<longleftrightarrow>
     (\<exists>b\<in>set (fp_briefs plan). eb_experiment_key b = key \<and> cell \<in> set (eb_required_measurement_unit_keys b))"

definition plan_covered_exactly :: "FormalPlan \<Rightarrow> TargetCandidate list \<Rightarrow> bool" where
  "plan_covered_exactly plan cs \<longleftrightarrow>
     (\<forall>key cell. plan_requires plan key cell \<longleftrightarrow> (\<exists>c\<in>set cs. covers_cell c key cell))
     \<and> (\<forall>key cell. plan_requires plan key cell \<longrightarrow> (\<exists>!c. c \<in> set cs \<and> covers_cell c key cell))"

text \<open>The specification of an admitted mapping of labels to candidates.\<close>

definition mapping_valid :: "(str \<times> ExperimentBrief) list \<Rightarrow> (str \<times> TargetCandidate) list \<Rightarrow> bool" where
  "mapping_valid briefs ps \<longleftrightarrow>
     (\<forall>p\<in>set ps. cells_good briefs p) \<and> distinct (map (cell_of \<circ> snd) ps)
     \<and> (\<forall>p\<in>set ps. \<forall>q\<in>set ps. bindings_agree briefs (snd p) (snd q))"

lemma entries_bindings_agree: "entries_agree briefs (entry_of c) (entry_of d) \<longleftrightarrow> bindings_agree briefs c d"
  by (simp add: entries_agree_def entry_of_def bindings_agree_def)

lemma symmetric_snoc:
  assumes "\<And>x y. A x y = A y x" and "\<And>x. A x x"
  shows "(\<forall>x\<in>set (ps @ [p]). \<forall>y\<in>set (ps @ [p]). A x y) \<longleftrightarrow> (\<forall>x\<in>set ps. \<forall>y\<in>set ps. A x y) \<and> (\<forall>q\<in>set ps. A q p)"
  using assms(2) assms(1) [of p] by auto

lemma mapping_valid_snoc:
  "mapping_valid briefs (ps @ [p]) \<longleftrightarrow>
     mapping_valid briefs ps \<and> cells_good briefs p \<and> cell_of (snd p) \<notin> (cell_of \<circ> snd) ` set ps
     \<and> (\<forall>q\<in>set ps. bindings_agree briefs (snd q) (snd p))"
proof -
  have "(\<forall>x\<in>set (ps @ [p]). \<forall>y\<in>set (ps @ [p]). bindings_agree briefs (snd x) (snd y)) \<longleftrightarrow>
      (\<forall>x\<in>set ps. \<forall>y\<in>set ps. bindings_agree briefs (snd x) (snd y)) \<and> (\<forall>q\<in>set ps. bindings_agree briefs (snd q) (snd p))"
    by (rule symmetric_snoc) (rule bindings_agree_sym, rule bindings_agree_refl)
  moreover have "distinct (map (cell_of \<circ> snd) (ps @ [p])) \<longleftrightarrow>
      distinct (map (cell_of \<circ> snd) ps) \<and> cell_of (snd p) \<notin> (cell_of \<circ> snd) ` set ps" by auto
  moreover have "(\<forall>x\<in>set (ps @ [p]). cells_good briefs x) \<longleftrightarrow> (\<forall>x\<in>set ps. cells_good briefs x) \<and> cells_good briefs p" by auto
  ultimately show ?thesis unfolding mapping_valid_def by argo
qed

lemma cells_agree_new:
  "fst p \<notin> fst ` set ps \<Longrightarrow> (\<forall>q\<in>set ps. cells_agree briefs q p) \<longleftrightarrow>
      cell_of (snd p) \<notin> (cell_of \<circ> snd) ` set ps \<and> (\<forall>q\<in>set ps. bindings_agree briefs (snd q) (snd p))"
proof -
  assume "fst p \<notin> fst ` set ps"
  then have "q \<in> set ps \<Longrightarrow> cells_agree briefs q p \<longleftrightarrow> cell_of (snd q) \<noteq> cell_of (snd p) \<and> bindings_agree briefs (snd q) (snd p)" for q
    by (auto simp: cells_agree_def entries_bindings_agree image_iff)
  then have "(\<forall>q\<in>set ps. cells_agree briefs q p) \<longleftrightarrow>
      (\<forall>q\<in>set ps. cell_of (snd q) \<noteq> cell_of (snd p)) \<and> (\<forall>q\<in>set ps. bindings_agree briefs (snd q) (snd p))" by blast
  moreover have "(\<forall>q\<in>set ps. cell_of (snd q) \<noteq> cell_of (snd p)) \<longleftrightarrow> cell_of (snd p) \<notin> (cell_of \<circ> snd) ` set ps"
    by (auto simp: image_iff)
  ultimately show ?thesis by argo
qed

lemma mapping_valid_iff:
  "distinct (map fst ps) \<Longrightarrow> list_all (cells_good briefs) ps \<and> sorted_wrt (cells_agree briefs) ps \<longleftrightarrow> mapping_valid briefs ps"
proof (induction ps rule: rev_induct)
  case Nil
  then show ?case by (simp add: mapping_valid_def)
next
  case (snoc p ps)
  then have new: "fst p \<notin> fst ` set ps" and dist: "distinct (map fst ps)" by simp_all
  have "list_all (cells_good briefs) (ps @ [p]) \<and> sorted_wrt (cells_agree briefs) (ps @ [p]) \<longleftrightarrow>
      (list_all (cells_good briefs) ps \<and> sorted_wrt (cells_agree briefs) ps)
      \<and> cells_good briefs p \<and> (\<forall>q\<in>set ps. cells_agree briefs q p)"
    by (auto simp: sorted_wrt_append)
  then show ?case unfolding snoc.IH [OF dist] mapping_valid_snoc cells_agree_new [OF new] by blast
qed

lemma distinct_cells_covered:
  assumes "distinct (map cell_of cs)" and "\<forall>c\<in>set cs. distinct (tc_experiment_keys c)"
  shows "distinct (cells_covered cs)"
  using assms by (induction cs) (auto simp: cells_covered_def distinct_map intro: inj_onI)

lemma cells_covered_iff: "(key, cell) \<in> set (cells_covered cs) \<longleftrightarrow> (\<exists>c\<in>set cs. covers_cell c key cell)"
  by (auto simp: cells_covered_def covers_cell_def)

lemma brief_covered_iff:
  assumes "distinct planned"
  shows "brief_covered planned b = Inr () \<longleftrightarrow>
     (\<forall>cell. cell \<in> set (eb_required_measurement_unit_keys b) \<longleftrightarrow> (eb_experiment_key b, cell) \<in> set planned)"
proof -
  have "set (filter (\<lambda>cell. fst cell = eb_experiment_key b \<and> count_list planned cell = 1) planned)
      = {cell \<in> set planned. fst cell = eb_experiment_key b}"
    by (auto simp: distinct_count_list [OF assms])
  moreover have "list_ex (\<lambda>cell. count_list planned cell \<noteq> 1) (map (Pair (eb_experiment_key b)) (eb_required_measurement_unit_keys b))
      \<longleftrightarrow> \<not> Pair (eb_experiment_key b) ` set (eb_required_measurement_unit_keys b) \<subseteq> set planned"
    by (auto simp: list_ex_iff distinct_count_list [OF assms])
  ultimately have "brief_covered planned b = Inr () \<longleftrightarrow>
      {cell \<in> set planned. fst cell = eb_experiment_key b} = Pair (eb_experiment_key b) ` set (eb_required_measurement_unit_keys b)"
    by (auto simp: brief_covered_def Let_def simp del: set_filter)
  also have "\<dots> \<longleftrightarrow> (\<forall>cell. cell \<in> set (eb_required_measurement_unit_keys b) \<longleftrightarrow> (eb_experiment_key b, cell) \<in> set planned)"
    by (auto simp: set_eq_iff)
  finally show ?thesis .
qed

lemma verify_acyclic_bc_iff:
  assumes "\<forall>p\<in>set ps. fst p = tc_local_label (snd p)" and "distinct (map fst ps)"
  shows "verify_acyclic_bc ps = Inr () \<longleftrightarrow> dependencies_known (map snd ps) \<and> acyclic (depends_on (map snd ps))"
proof -
  have ps: "ps = index_of (map snd ps)" using assms(1) by (induction ps) (auto simp: index_of_def)
  have "verify_acyclic_bc ps = Inr () \<longleftrightarrow> verify_acyclic ps = Inr ()"
    by (auto simp: verify_acyclic_bc_def verify_acyclic_def Let_def)
  also have "\<dots> \<longleftrightarrow> dependencies_known (map snd ps) \<and> acyclic (depends_on (map snd ps))"
  proof (subst ps, rule verify_acyclic_decides)
    have "map tc_local_label (map snd ps) = map fst ps" using assms(1) by (simp add: comp_def)
    then show "distinct (map tc_local_label (map snd ps))" using assms(2) by presburger
  qed
  finally show ?thesis .
qed

lemma keys_start: "cells_hold briefs [] \<lparr>planned_cells = [], target_by_unit = [], held_fixed_by_experiment = []\<rparr>"
  by (simp add: cells_hold_def cells_covered_def)

lemma mapping_valid_cell_determines:
  "mapping_valid briefs ps \<Longrightarrow> c \<in> set (map snd ps) \<Longrightarrow> d \<in> set (map snd ps) \<Longrightarrow> cell_of c = cell_of d \<Longrightarrow> c = d"
proof -
  assume "mapping_valid briefs ps" and cd: "c \<in> set (map snd ps)" "d \<in> set (map snd ps)" "cell_of c = cell_of d"
  then have "distinct (map cell_of (map snd ps))" by (simp add: mapping_valid_def)
  then show "c = d" using cd by (simp only: distinct_map inj_on_def)
qed

lemma verify_completion_cells_bc_decides:
  assumes "distinct (keys ps)"
  shows "verify_completion_cells_bc plan ps = Inr () \<longleftrightarrow>
     (\<exists>briefs. briefs_by_key_bc plan = Inr briefs \<and> mapping_valid briefs ps)
     \<and> dependencies_known (map snd ps) \<and> acyclic (depends_on (map snd ps)) \<and> plan_covered_exactly plan (map snd ps)"
proof (cases "\<exists>briefs. briefs_by_key_bc plan = Inr briefs \<and> mapping_valid briefs ps")
  case True
  then obtain briefs where b: "briefs_by_key_bc plan = Inr briefs" and valid: "mapping_valid briefs ps" by blast
  have dist: "distinct (map fst ps)" using assms by (simp add: keys_def)
  have labels: "\<forall>p\<in>set ps. fst p = tc_local_label (snd p)" using valid by (simp add: mapping_valid_def cells_good_def)
  let ?st = "\<lparr>planned_cells = [], target_by_unit = [], held_fixed_by_experiment = []\<rparr>" and ?cs = "map snd ps"
  have adm: "candidate_admissible briefs c" if "c \<in> set ?cs" for c
    using valid that cells_good_admissible by (auto simp: mapping_valid_def)
  obtain st where st: "foldE (completion_cells_step briefs) ?st ps = Inr st"
    using cells.fold_from_start(1) [OF keys_start, of briefs ps] mapping_valid_iff [OF dist, of briefs] valid
    by (auto simp: returns_iff)
  have planned: "planned_cells st = cells_covered ?cs"
    using cells.fold_from_start(2) [OF keys_start st] by (simp add: cells_hold_def)
  have "\<forall>c\<in>set ?cs. distinct (tc_experiment_keys c)" using adm by (simp add: candidate_admissible_def)
  moreover have "distinct (map cell_of ?cs)" using valid by (simp add: mapping_valid_def)
  ultimately have dp: "distinct (planned_cells st)" unfolding planned by (intro distinct_cells_covered)
  have within: "plan_requires plan key cell" if "c \<in> set ?cs" "covers_cell c key cell" for c key cell
  proof -
    from that obtain b where "map_of briefs key = Some b" "cell \<in> set (eb_required_measurement_unit_keys b)"
      using adm [of c] by (fastforce simp: candidate_admissible_def covers_cell_def)
    then show ?thesis using brief_lookup [OF b] by (auto simp: plan_requires_def)
  qed
  have cover: "forE (brief_covered (planned_cells st)) (fp_briefs plan) = Inr () \<longleftrightarrow>
      (\<forall>key cell. plan_requires plan key cell \<longleftrightarrow> (\<exists>c\<in>set ?cs. covers_cell c key cell))"
  proof -
    have uniq: "b' = b''" if "b' \<in> set (fp_briefs plan)" "b'' \<in> set (fp_briefs plan)" "eb_experiment_key b' = eb_experiment_key b''" for b' b''
      using briefs_by_key_bc_Inr(2) [OF b] that by (simp add: distinct_map inj_on_def)
    have "forE (brief_covered (planned_cells st)) (fp_briefs plan) = Inr () \<longleftrightarrow>
        (\<forall>b\<in>set (fp_briefs plan). \<forall>cell. cell \<in> set (eb_required_measurement_unit_keys b)
           \<longleftrightarrow> (\<exists>c\<in>set ?cs. covers_cell c (eb_experiment_key b) cell))"
      by (simp only: forE_eq_Inr brief_covered_iff [OF dp] cells_covered_iff [symmetric] planned [symmetric])
    also have "\<dots> \<longleftrightarrow> (\<forall>key cell. plan_requires plan key cell \<longleftrightarrow> (\<exists>c\<in>set ?cs. covers_cell c key cell))"
    proof
      assume H: "\<forall>key cell. plan_requires plan key cell \<longleftrightarrow> (\<exists>c\<in>set ?cs. covers_cell c key cell)"
      have "plan_requires plan (eb_experiment_key b') cell \<longleftrightarrow> cell \<in> set (eb_required_measurement_unit_keys b')"
        if b': "b' \<in> set (fp_briefs plan)" for b' cell
        using uniq [OF _ b'] b' unfolding plan_requires_def by blast
      then show "\<forall>b\<in>set (fp_briefs plan). \<forall>cell. cell \<in> set (eb_required_measurement_unit_keys b)
           \<longleftrightarrow> (\<exists>c\<in>set ?cs. covers_cell c (eb_experiment_key b) cell)"
        using H by blast
    next
      assume H: "\<forall>b\<in>set (fp_briefs plan). \<forall>cell. cell \<in> set (eb_required_measurement_unit_keys b)
           \<longleftrightarrow> (\<exists>c\<in>set ?cs. covers_cell c (eb_experiment_key b) cell)"
      have "\<exists>c\<in>set ?cs. covers_cell c key cell" if "plan_requires plan key cell" for key cell
        using that H unfolding plan_requires_def by blast
      then show "\<forall>key cell. plan_requires plan key cell \<longleftrightarrow> (\<exists>c\<in>set ?cs. covers_cell c key cell)"
        using within by blast
    qed
    finally show ?thesis .
  qed
  have "(\<exists>c\<in>set ?cs. covers_cell c key cell) \<Longrightarrow> \<exists>!c. c \<in> set ?cs \<and> covers_cell c key cell" for key cell
    using mapping_valid_cell_determines [OF valid] unfolding covers_cell_def by blast
  then have "plan_covered_exactly plan ?cs \<longleftrightarrow>
      (\<forall>key cell. plan_requires plan key cell \<longleftrightarrow> (\<exists>c\<in>set ?cs. covers_cell c key cell))"
    unfolding plan_covered_exactly_def by blast
  then show ?thesis
    using b valid st cover verify_acyclic_bc_iff [OF labels dist]
    by (auto simp: verify_completion_cells_bc_def)
next
  case False
  have dist: "distinct (map fst ps)" using assms by (simp add: keys_def)
  have "\<not> returns (foldE (completion_cells_step briefs) \<lparr>planned_cells = [], target_by_unit = [], held_fixed_by_experiment = []\<rparr> ps)"
    if "briefs_by_key_bc plan = Inr briefs" for briefs
    using cells.fold_from_start(1) [OF keys_start, of briefs ps] mapping_valid_iff [OF dist, of briefs] False that by blast
  then have "verify_completion_cells_bc plan ps \<noteq> Inr ()"
    by (auto simp: verify_completion_cells_bc_def returns_iff)
  then show ?thesis using False by blast
qed

text \<open>
  C18. The strategy-complete gate decides its specification: the Plan is valid, every candidate is
  mapped from its own label and admitted on its own, no two share a measurement cell, candidates
  of one experiment bind its held-fixed slots alike, the dependencies are closed and acyclic, and
  every cell the Plan requires is covered by exactly one candidate while no other cell is covered.
\<close>
theorem verify_completion_cells_bc_iff:
  assumes "distinct (keys ps)"
  shows "verify_completion_cells_bc plan ps = Inr () \<longleftrightarrow>
     (\<exists>briefs. briefs_by_key_bc plan = Inr briefs \<and> mapping_valid briefs ps)
     \<and> dependencies_known (map snd ps) \<and> acyclic (depends_on (map snd ps)) \<and> plan_covered_exactly plan (map snd ps)"
  using assms by (rule verify_completion_cells_bc_decides)

end
