(* ===== verification/ReportLaws.thy ===== *)
theory ReportLaws
  imports BundleCompletionLaws
begin

text \<open>
  Laws of accepted closures and of the Bundle report: what a verified closure establishes, which
  experiments count as realized, when a disposition is admissible, and what the report lists.
\<close>

subsection \<open>Verified closures\<close>

lemma validate_receipt_bc_Inr:
  "validate_receipt_bc r s n = Inr u \<Longrightarrow>
     rp_subject_ref r = s \<and> rp_verified r \<and> rp_currentness_known r \<and> rp_current r \<and> \<not> is_blank (rp_receipt_ref r)"
  by (auto simp: validate_receipt_bc_def validate_receipt_proof_def split: if_splits)

definition receipt_for :: "str \<Rightarrow> ReceiptProof \<Rightarrow> bool" where
  "receipt_for s r \<longleftrightarrow> rp_subject_ref r = s \<and> rp_verified r \<and> rp_currentness_known r \<and> rp_current r"

definition closure_pairs :: "AcceptedMeasurementClosure \<Rightarrow> (str \<times> str) list" where
  "closure_pairs c = map (\<lambda>h. (hfb_semantic_slot h, hfb_implementation_revision_ref h)) (amc_held_fixed_bindings c)"

definition closure_entry :: "AcceptedMeasurementClosure \<Rightarrow> entry" where
  "closure_entry c = (amc_experiment_keys c, closure_pairs c)"

text \<open>Coverage and bindings of a verified closure.\<close>

definition closure_admissible :: "(str \<times> ExperimentBrief) list \<Rightarrow> AcceptedMeasurementClosure \<Rightarrow> bool" where
  "closure_admissible briefs c \<longleftrightarrow>
     amc_experiment_keys c \<noteq> [] \<and> distinct (amc_experiment_keys c)
     \<and> (\<forall>key\<in>set (amc_experiment_keys c). \<exists>b. map_of briefs key = Some b
          \<and> amc_measurement_unit_key c \<in> set (eb_required_measurement_unit_keys b)
          \<and> set (eb_held_fixed_slots b) \<subseteq> set (map fst (closure_pairs c)))
     \<and> binding_map_bc (amc_held_fixed_bindings c) = Inr (closure_pairs c)"

text \<open>
  Evidence of a verified closure: it is current, every receipt it carries was verified for its own
  subject, and a measurement without a completion receipt of the root was reviewed by sessions
  other than the reviewed one.
\<close>

definition closure_receipted :: "AcceptedMeasurementClosure \<Rightarrow> bool" where
  "closure_receipted c \<longleftrightarrow>
     amc_currentness_known c \<and> amc_current c
     \<and> receipt_for (amc_asset_manifest_ref c) (amc_rm_asset_receipt c)
     \<and> receipt_for (amc_execution_attempt_ref c) (amc_ar_execution_receipt c)
     \<and> receipt_for (amc_target_commit_ref c) (amc_rg_target_commit_receipt c)
     \<and> receipt_for (eibp_binding_ref (amc_variant_run_input_binding c)) (eibp_acceptance_receipt (amc_variant_run_input_binding c))
     \<and> eibp_subject_ref (amc_variant_run_input_binding c) = amc_variant_run_ref c
     \<and> (\<forall>b. amc_evaluation_attempt_input_binding c = Some b \<longrightarrow>
          receipt_for (eibp_binding_ref b) (eibp_acceptance_receipt b) \<and> amc_evaluation_attempt_ref c = Some (eibp_subject_ref b))
     \<and> (\<forall>r. amc_rg_formal_measurement_receipt c = Some r \<longrightarrow>
          (\<exists>a. amc_evaluation_attempt_ref c = Some a \<and> receipt_for a r))
     \<and> (\<forall>r. amc_root_completion_receipt c = Some r \<longrightarrow> receipt_for (amc_execution_attempt_ref c) r)
     \<and> (\<forall>a. amc_protocol_aggregation_proof c = Some a \<longrightarrow>
          receipt_for (cbp_content_hash_ref (pap_aggregation_evidence_binding a)) (pap_aggregation_evidence_receipt a)
          \<and> pap_part_keys a = map pp_part_key (amc_protocol_internal_parts c))
     \<and> (amc_formal_measurement_accepted c \<longleftrightarrow> amc_rg_formal_measurement_receipt c \<noteq> None)
     \<and> (amc_formal_measurement_accepted c \<longleftrightarrow> amc_metric_result_ref c \<noteq> None)"

definition independently_reviewed :: "AcceptedMeasurementClosure \<Rightarrow> bool" where
  "independently_reviewed c \<longleftrightarrow>
     (\<exists>code result. amc_code_review c = Some code \<and> amc_result_review c = Some result
        \<and> crr_candidate_revision_ref code = amc_implementation_revision_ref c
        \<and> crr_unresolved_standards_findings code = 0 \<and> crr_unresolved_spec_findings code = 0
        \<and> (crr_code_changed code \<longrightarrow>
             crr_reviewed_revision_ref code = Some (amc_implementation_revision_ref c)
             \<and> crr_reviewer_session_ref code \<noteq> crr_review_parent_session_ref code)
        \<and> Some (rrr_reviewed_metric_result_ref result) = amc_metric_result_ref c
        \<and> rrr_unresolved_findings result = 0
        \<and> rrr_reviewer_session_ref result \<noteq> rrr_review_parent_session_ref result)"

lemma closure_coverage_Inr:
  assumes "verify_accepted_closure c briefs = Inr u"
  shows "closure_admissible briefs c"
proof -
  from assms obtain bindings slots where
    cov: "closure_coverage_check c briefs = Inr ()"
    and bm: "binding_map_bc (amc_held_fixed_bindings c) = Inr bindings"
    and slots: "expected_slots briefs (amc_experiment_keys c) = Inr slots" and same: "set (keys bindings) = set slots"
    by (auto simp: verify_accepted_closure_def)
  have b: "bindings = closure_pairs c" using binding_map_bc_Inr [OF bm] by (simp add: closure_pairs_def)
  have keys: "amc_experiment_keys c \<noteq> []" "distinct (amc_experiment_keys c)"
    and req: "\<forall>k\<in>set (amc_experiment_keys c). closure_cell_required briefs (amc_measurement_unit_key c) k = Inr ()"
    using cov by (auto simp: closure_coverage_check_def)
  have "\<exists>b. map_of briefs key = Some b \<and> amc_measurement_unit_key c \<in> set (eb_required_measurement_unit_keys b)
      \<and> set (eb_held_fixed_slots b) \<subseteq> set (map fst (closure_pairs c))" if "key \<in> set (amc_experiment_keys c)" for key
    using req that expected_slots_Inr [OF slots that] same b
    by (fastforce simp: closure_cell_required_def keys_def)
  then show ?thesis using keys bm b by (simp add: closure_admissible_def)
qed

lemma input_binding_Inr:
  "input_binding_check b s n = Inr u \<Longrightarrow> s = Some (eibp_subject_ref b) \<and> receipt_for (eibp_binding_ref b) (eibp_acceptance_receipt b)"
  by (auto simp: input_binding_check_def receipt_for_def dest: validate_receipt_bc_Inr)

lemma aggregation_Inr:
  "verify_protocol_aggregation c = Inr u \<Longrightarrow> amc_protocol_aggregation_proof c = Some a \<Longrightarrow>
     receipt_for (cbp_content_hash_ref (pap_aggregation_evidence_binding a)) (pap_aggregation_evidence_receipt a)
     \<and> pap_part_keys a = map pp_part_key (amc_protocol_internal_parts c)"
  by (auto simp: verify_protocol_aggregation_def Let_def receipt_for_def dest: validate_receipt_bc_Inr split: if_splits)

lemma closure_inputs_Inr:
  assumes "closure_inputs_check c = Inr u"
  shows "receipt_for (eibp_binding_ref (amc_variant_run_input_binding c)) (eibp_acceptance_receipt (amc_variant_run_input_binding c))"
    and "eibp_subject_ref (amc_variant_run_input_binding c) = amc_variant_run_ref c"
    and "amc_evaluation_attempt_input_binding c = Some b \<Longrightarrow>
       receipt_for (eibp_binding_ref b) (eibp_acceptance_receipt b) \<and> amc_evaluation_attempt_ref c = Some (eibp_subject_ref b)"
  using assms by (auto simp: closure_inputs_check_def Let_def dest: input_binding_Inr split: option.splits)

lemma closure_receipts_Inr:
  assumes "closure_receipts_check c = Inr u"
  shows "receipt_for (amc_asset_manifest_ref c) (amc_rm_asset_receipt c)"
    and "receipt_for (amc_execution_attempt_ref c) (amc_ar_execution_receipt c)"
    and "receipt_for (amc_target_commit_ref c) (amc_rg_target_commit_receipt c)"
    and "amc_rg_formal_measurement_receipt c = Some r \<Longrightarrow> \<exists>a. amc_evaluation_attempt_ref c = Some a \<and> receipt_for a r"
  using assms
  by (auto simp: closure_receipts_check_def receipt_for_def dest: validate_receipt_bc_Inr split: option.splits)

lemma closure_measurement_Inr:
  assumes "closure_measurement_check c = Inr u"
  shows "amc_currentness_known c" and "amc_current c"
    and "amc_formal_measurement_accepted c \<longleftrightarrow> amc_rg_formal_measurement_receipt c \<noteq> None"
    and "amc_formal_measurement_accepted c \<longleftrightarrow> amc_metric_result_ref c \<noteq> None"
    and "\<not> amc_formal_measurement_accepted c \<Longrightarrow> amc_root_completion_receipt c \<noteq> None"
  using assms by (auto simp: closure_measurement_check_def raise_if_def split: if_splits)

lemma closure_completion_Inr:
  assumes "closure_completion_check c = Inr u"
  shows "amc_root_completion_receipt c = Some r \<Longrightarrow> receipt_for (amc_execution_attempt_ref c) r"
    and "amc_root_completion_receipt c = None \<Longrightarrow>
       \<exists>code result. amc_code_review c = Some code \<and> amc_result_review c = Some result
         \<and> verify_code_review code (amc_implementation_revision_ref c) = Inr ()"
  using assms
  by (auto simp: closure_completion_check_def receipt_for_def dest: validate_receipt_bc_Inr split: option.splits if_splits)

lemma code_review_Inr:
  "verify_code_review r impl = Inr u \<Longrightarrow>
     crr_candidate_revision_ref r = impl \<and> crr_unresolved_standards_findings r = 0 \<and> crr_unresolved_spec_findings r = 0
     \<and> (crr_code_changed r \<longrightarrow> crr_reviewed_revision_ref r = Some impl \<and> crr_reviewer_session_ref r \<noteq> crr_review_parent_session_ref r)"
  by (auto simp: verify_code_review_def split: if_splits)

lemma result_review_Inr:
  "result_review_check c r = Inr u \<Longrightarrow>
     Some (rrr_reviewed_metric_result_ref r) = amc_metric_result_ref c \<and> rrr_unresolved_findings r = 0
     \<and> rrr_reviewer_session_ref r \<noteq> rrr_review_parent_session_ref r"
  by (auto simp: result_review_check_def split: if_splits)

lemma closure_parts:
  assumes "verify_accepted_closure c briefs = Inr u"
  shows "closure_measurement_check c = Inr ()" and "closure_completion_check c = Inr ()" and "closure_inputs_check c = Inr ()"
    and "closure_receipts_check c = Inr ()" and "verify_protocol_aggregation c = Inr ()"
    and "amc_result_review c = Some r \<Longrightarrow> result_review_check c r = Inr ()"
  using assms by (auto simp: verify_accepted_closure_def)

lemma closure_evidence:
  assumes "verify_accepted_closure c briefs = Inr u"
  shows "closure_receipted c" and "amc_root_completion_receipt c = None \<Longrightarrow> independently_reviewed c"
proof -
  note P = closure_parts [OF assms]
  show "closure_receipted c"
    unfolding closure_receipted_def
    using closure_measurement_Inr [OF P(1)] closure_completion_Inr(1) [OF P(2)] closure_inputs_Inr [OF P(3)]
      closure_receipts_Inr [OF P(4)] aggregation_Inr [OF P(5)] by blast
  show "independently_reviewed c" if none: "amc_root_completion_receipt c = None"
  proof -
    obtain code result where r: "amc_code_review c = Some code" "amc_result_review c = Some result"
      "verify_code_review code (amc_implementation_revision_ref c) = Inr ()"
      using closure_completion_Inr(2) [OF P(2) none] by blast
    then show ?thesis
      using code_review_Inr [OF r(3)] result_review_Inr [OF P(6) [OF r(2)]] unfolding independently_reviewed_def by blast
  qed
qed

text \<open>
  C14. A verified closure is evidence: it is current; every receipt it carries is verified, current
  and bound to its own subject, the one the field is for; a measurement receipt and a metric result
  exist exactly for accepted measurements; and without a completion receipt of the root both the
  code and the result were reviewed, for this very revision and this very result, with no findings
  left and by a session other than the reviewed one.
\<close>
theorem accepted_closure_evidence:
  assumes "verify_accepted_closure closure briefs = Inr u"
  shows "closure_receipted closure \<and> (amc_root_completion_receipt closure = None \<longrightarrow> independently_reviewed closure)
     \<and> closure_admissible briefs closure"
  using closure_evidence [OF assms] closure_coverage_Inr [OF assms] by blast

subsection \<open>The loop over the accepted closures\<close>

definition results_good :: "(str \<times> ExperimentBrief) list \<Rightarrow> str \<times> AcceptedMeasurementClosure \<Rightarrow> bool" where
  "results_good briefs p \<longleftrightarrow> fst p = amc_target_ref (snd p) \<and> verify_accepted_closure (snd p) briefs = Inr ()"

definition distinct_identities :: "AcceptedMeasurementClosure \<Rightarrow> AcceptedMeasurementClosure \<Rightarrow> bool" where
  "distinct_identities c d \<longleftrightarrow>
     amc_target_commit_ref c \<noteq> amc_target_commit_ref d
     \<and> (\<forall>a. amc_evaluation_attempt_ref c = Some a \<longrightarrow> amc_evaluation_attempt_ref d \<noteq> Some a)
     \<and> (\<forall>m. amc_metric_result_ref c = Some m \<longrightarrow> amc_metric_result_ref d \<noteq> Some m)"

definition results_agree ::
  "(str \<times> ExperimentBrief) list \<Rightarrow> str \<times> AcceptedMeasurementClosure \<Rightarrow> str \<times> AcceptedMeasurementClosure \<Rightarrow> bool" where
  "results_agree briefs p q \<longleftrightarrow>
     distinct_identities (snd p) (snd q) \<and> entries_agree briefs (closure_entry (snd p)) (closure_entry (snd q))"

definition closure_cells :: "AcceptedMeasurementClosure list \<Rightarrow> (str \<times> str) list" where
  "closure_cells cs = concat (map (\<lambda>c. map (\<lambda>key. (key, amc_measurement_unit_key c)) (amc_experiment_keys c)) cs)"

definition results_hold ::
  "(str \<times> ExperimentBrief) list \<Rightarrow> (str \<times> AcceptedMeasurementClosure) list \<Rightarrow> result_state \<Rightarrow> bool" where
  "results_hold briefs ps st \<longleftrightarrow>
     accepted_cells st = closure_cells (map snd ps)
     \<and> held_holds briefs (map (closure_entry \<circ> snd) ps) (held_by_key st)
     \<and> set (commit_refs st) = (amc_target_commit_ref \<circ> snd) ` set ps
     \<and> set (evaluation_refs st) = set (present (map (amc_evaluation_attempt_ref \<circ> snd) ps))
     \<and> set (metric_refs st) = set (present (map (amc_metric_result_ref \<circ> snd) ps))"

lemma set_of_present: "set (present xs) = {x. Some x \<in> set xs}"
  by (induction xs) (auto simp: present_def split: option.splits)

lemma claim_identity_returns: "returns (claim_identity n ids v) \<longleftrightarrow> (\<forall>r. v = Some r \<longrightarrow> r \<notin> set ids)"
  by (auto simp: claim_identity_def split: option.splits)

lemma claim_identity_Inr: "claim_identity n ids v = Inr ids' \<Longrightarrow> set ids' = set ids \<union> set (present [v])"
  by (auto simp: claim_identity_def present_def split: option.splits if_splits)

lemma claimed_distinct:
  assumes "set commits = (amc_target_commit_ref \<circ> snd) ` set ps"
    and "set evaluations = set (present (map (amc_evaluation_attempt_ref \<circ> snd) ps))"
    and "set metrics = set (present (map (amc_metric_result_ref \<circ> snd) ps))"
  shows "returns (claim_identity n commits (Some (amc_target_commit_ref c)))
      \<and> returns (claim_identity n' evaluations (amc_evaluation_attempt_ref c))
      \<and> returns (claim_identity n'' metrics (amc_metric_result_ref c)) \<and> A
    \<longleftrightarrow> (\<forall>q\<in>set ps. distinct_identities (snd q) c) \<and> A"
proof -
  have "returns (claim_identity n commits (Some (amc_target_commit_ref c)))
      \<longleftrightarrow> (\<forall>q\<in>set ps. amc_target_commit_ref (snd q) \<noteq> amc_target_commit_ref c)"
    by (simp add: claim_identity_returns assms image_iff) metis
  moreover have "returns (claim_identity n' evaluations (amc_evaluation_attempt_ref c))
      \<longleftrightarrow> (\<forall>q\<in>set ps. \<forall>a. amc_evaluation_attempt_ref (snd q) = Some a \<longrightarrow> amc_evaluation_attempt_ref c \<noteq> Some a)"
    by (simp add: claim_identity_returns assms set_of_present image_iff) metis
  moreover have "returns (claim_identity n'' metrics (amc_metric_result_ref c))
      \<longleftrightarrow> (\<forall>q\<in>set ps. \<forall>a. amc_metric_result_ref (snd q) = Some a \<longrightarrow> amc_metric_result_ref c \<noteq> Some a)"
    by (simp add: claim_identity_returns assms set_of_present image_iff) metis
  ultimately show ?thesis unfolding distinct_identities_def by (simp only:) blast
qed

lemma closure_entry_ok: "closure_admissible briefs c \<Longrightarrow> entry_ok briefs (closure_entry c)"
  by (fastforce simp: closure_admissible_def entry_ok_def closure_entry_def map_of_eq_None_iff)

lemma results_good_admissible: "results_good briefs p \<Longrightarrow> closure_admissible briefs (snd p)"
  using closure_coverage_Inr by (auto simp: results_good_def)

lemma results_good_entries: "list_all (results_good briefs) ps \<Longrightarrow> list_all (entry_ok briefs) (map (closure_entry \<circ> snd) ps)"
  by (auto simp: list_all_iff intro: closure_entry_ok results_good_admissible)

lemma result_sets_step_eq:
  assumes "results_good briefs (t, c)"
  shows "result_sets_step briefs st (t, c) =
     bindE (claim_identity ''TargetCommit'' (commit_refs st) (Some (amc_target_commit_ref c))) (\<lambda>commits.
     bindE (claim_identity ''EvaluationAttempt'' (evaluation_refs st) (amc_evaluation_attempt_ref c)) (\<lambda>evaluations.
     bindE (claim_identity ''MetricResult'' (metric_refs st) (amc_metric_result_ref c)) (\<lambda>metrics.
     bindE (foldE (held_experiment_step_bc ''accepted closures drifted a held-fixed semantic slot'' briefs (snd (closure_entry c)))
              (held_by_key st) (fst (closure_entry c))) (\<lambda>held.
     Inr \<lparr>accepted_cells = accepted_cells st @ closure_cells [c],
          held_by_key = held, commit_refs = commits, evaluation_refs = evaluations, metric_refs = metrics\<rparr>))))"
  using assms results_good_admissible [OF assms]
  by (simp add: result_sets_step_def results_good_def closure_admissible_def closure_entry_def closure_cells_def)

lemma result_sets_step_returns:
  assumes "results_hold briefs ps st" and "list_all (results_good briefs) ps"
  shows "returns (result_sets_step briefs st p) \<longleftrightarrow> results_good briefs p \<and> (\<forall>q\<in>set ps. results_agree briefs q p)"
proof (cases "results_good briefs p")
  case True
  obtain t c where p: "p = (t, c)" by (cases p)
  have held: "held_holds briefs (map (closure_entry \<circ> snd) ps) (held_by_key st)"
    and ids: "set (commit_refs st) = (amc_target_commit_ref \<circ> snd) ` set ps"
      "set (evaluation_refs st) = set (present (map (amc_evaluation_attempt_ref \<circ> snd) ps))"
      "set (metric_refs st) = set (present (map (amc_metric_result_ref \<circ> snd) ps))"
    using assms(1) unfolding results_hold_def by blast+
  have "entry_ok briefs (closure_entry c)" using results_good_admissible [OF True] closure_entry_ok p by simp
  note F = held_fold(1) [OF held this results_good_entries [OF assms(2)]]
  have "returns (result_sets_step briefs st p) \<longleftrightarrow>
      returns (claim_identity ''TargetCommit'' (commit_refs st) (Some (amc_target_commit_ref c)))
      \<and> returns (claim_identity ''EvaluationAttempt'' (evaluation_refs st) (amc_evaluation_attempt_ref c))
      \<and> returns (claim_identity ''MetricResult'' (metric_refs st) (amc_metric_result_ref c))
      \<and> (\<forall>q\<in>set ps. entries_agree briefs (closure_entry (snd q)) (closure_entry c))"
    using F by (auto simp: result_sets_step_eq [OF True [unfolded p]] p returns_iff)
  also have "\<dots> \<longleftrightarrow> (\<forall>q\<in>set ps. distinct_identities (snd q) c) \<and> (\<forall>q\<in>set ps. entries_agree briefs (closure_entry (snd q)) (closure_entry c))"
    unfolding claimed_distinct [OF ids] by blast
  also have "\<dots> \<longleftrightarrow> (\<forall>q\<in>set ps. results_agree briefs q p)" by (auto simp: results_agree_def p)
  finally show ?thesis using True by simp
next
  case False
  then show ?thesis by (cases p) (auto simp: result_sets_step_def results_good_def returns_iff)
qed

lemma result_sets_step_holds:
  assumes "results_hold briefs ps st" and "list_all (results_good briefs) ps" and "result_sets_step briefs st p = Inr st'"
  shows "results_hold briefs (ps @ [p]) st'"
proof -
  obtain t c where p: "p = (t, c)" by (cases p)
  have good: "results_good briefs (t, c)"
    using result_sets_step_returns [OF assms(1,2), of p] assms(3) p by simp
  obtain commits evaluations metrics held where
    ids: "claim_identity ''TargetCommit'' (commit_refs st) (Some (amc_target_commit_ref c)) = Inr commits"
      "claim_identity ''EvaluationAttempt'' (evaluation_refs st) (amc_evaluation_attempt_ref c) = Inr evaluations"
      "claim_identity ''MetricResult'' (metric_refs st) (amc_metric_result_ref c) = Inr metrics"
    and fold: "foldE (held_experiment_step_bc ''accepted closures drifted a held-fixed semantic slot'' briefs (snd (closure_entry c)))
              (held_by_key st) (fst (closure_entry c)) = Inr held"
    and st': "st' = \<lparr>accepted_cells = accepted_cells st @ closure_cells [c],
          held_by_key = held, commit_refs = commits, evaluation_refs = evaluations, metric_refs = metrics\<rparr>"
    using assms(3) by (auto simp: p result_sets_step_eq [OF good])
  have hh: "held_holds briefs (map (closure_entry \<circ> snd) ps) (held_by_key st)"
    using assms(1) unfolding results_hold_def by blast
  have "entry_ok briefs (closure_entry c)" using results_good_admissible [OF good] closure_entry_ok by simp
  from held_fold(2) [OF hh this results_good_entries [OF assms(2)] fold]
  have "held_holds briefs (map (closure_entry \<circ> snd) (ps @ [p])) held" by (simp add: p)
  moreover note claim_identity_Inr [OF ids(1)] claim_identity_Inr [OF ids(2)] claim_identity_Inr [OF ids(3)]
  ultimately show ?thesis
    using assms(1) by (auto simp: results_hold_def st' p closure_cells_def set_of_present)
qed

interpretation results: pairwise_check "result_sets_step briefs" "results_hold briefs" "results_good briefs" "results_agree briefs"
  for briefs
  using result_sets_step_returns result_sets_step_holds by unfold_locales

lemma results_start: "results_hold briefs [] empty_results"
  by (simp add: results_hold_def empty_results_def closure_cells_def present_def)

end
