(* ===== verification/TargetRunPromises.thy ===== *)
theory TargetRunPromises
  imports TargetRunReviews ReportLaws
begin

text \<open>
  What an admitted handoff promises: fresh identities, independent reviews, one stop per attempt, a
  terminal fact that frontier and notice agree on; and that its result passes the review gates of
  the Bundle.
\<close>

subsection \<open>Independent reviews\<close>

definition changed_review :: "TargetExecutionPreflight \<Rightarrow> (CodeReviewRecord \<Rightarrow> str option) \<Rightarrow> str option" where
  "changed_review preflight part = (let review = tep_code_review preflight in if crr_code_changed review then part review else None)"

definition review_ok :: "str list \<Rightarrow> TargetExecutionPreflight \<Rightarrow> bool" where
  "review_ok root_sessions preflight \<longleftrightarrow> changed_review preflight crr_reviewer_session_ref \<notin> Some ` set root_sessions"

definition reviews_differ :: "TargetExecutionPreflight \<Rightarrow> TargetExecutionPreflight \<Rightarrow> bool" where
  "reviews_differ p q \<longleftrightarrow>
     tep_implementation_revision_ref p \<noteq> tep_implementation_revision_ref q
     \<and> (\<forall>part\<in>{crr_review_ref, crr_reviewer_session_ref, crr_reviewer_spawn_evidence_ref}.
          changed_review p part = None \<or> changed_review q part \<noteq> changed_review p part)"

definition reviews_hold :: "TargetExecutionPreflight list \<Rightarrow> review_identities \<Rightarrow> bool" where
  "reviews_hold ps st \<longleftrightarrow>
     set (seen_revisions st) = tep_implementation_revision_ref ` set ps
     \<and> Some ` set (seen_reviews st) = (\<lambda>p. changed_review p crr_review_ref) ` set ps - {None}
     \<and> Some ` set (seen_reviewers st) = (\<lambda>p. changed_review p crr_reviewer_session_ref) ` set ps - {None}
     \<and> Some ` set (seen_spawns st) = (\<lambda>p. changed_review p crr_reviewer_spawn_evidence_ref) ` set ps - {None}"

lemma claim_review_ref_Inr:
  "claim_review_ref name seen v = Inr seen' \<longleftrightarrow> v \<notin> Some ` set seen \<and> seen' = (case v of None \<Rightarrow> seen | Some ref \<Rightarrow> ref # seen)"
  by (auto simp: claim_review_ref_def split: option.splits)

lemma claimed: "Some ` set (case v of None \<Rightarrow> seen | Some ref \<Rightarrow> ref # seen) = (Some ` set seen) \<union> ({v} - {None})"
  by (cases v) auto

definition reviews_after :: "review_identities \<Rightarrow> TargetExecutionPreflight \<Rightarrow> review_identities" where
  "reviews_after st p =
     (let add = (\<lambda>part seen. case changed_review p part of None \<Rightarrow> seen | Some ref \<Rightarrow> ref # seen) in
      \<lparr>seen_revisions = tep_implementation_revision_ref p # seen_revisions st, seen_reviews = add crr_review_ref (seen_reviews st),
       seen_reviewers = add crr_reviewer_session_ref (seen_reviewers st),
       seen_spawns = add crr_reviewer_spawn_evidence_ref (seen_spawns st)\<rparr>)"

lemma review_identity_step_Inr:
  "review_identity_step root_sessions st p = Inr st' \<longleftrightarrow>
     tep_implementation_revision_ref p \<notin> set (seen_revisions st) \<and> review_ok root_sessions p
     \<and> changed_review p crr_review_ref \<notin> Some ` set (seen_reviews st)
     \<and> changed_review p crr_reviewer_session_ref \<notin> Some ` set (seen_reviewers st)
     \<and> changed_review p crr_reviewer_spawn_evidence_ref \<notin> Some ` set (seen_spawns st)
     \<and> st' = reviews_after st p"
proof (cases "crr_code_changed (tep_code_review p)")
  case False
  then show ?thesis
    by (cases st) (auto simp: review_identity_step_def Let_def review_ok_def changed_review_def reviews_after_def)
next
  case True
  then show ?thesis
    by (auto simp: review_identity_step_def Let_def review_ok_def changed_review_def reviews_after_def claim_review_ref_Inr
        split: option.splits)
qed

lemma review_step_pairs:
  assumes "reviews_hold ps st"
  shows "returns (review_identity_step root_sessions st p) \<longleftrightarrow> review_ok root_sessions p \<and> (\<forall>q\<in>set ps. reviews_differ q p)"
proof -
  have "tep_implementation_revision_ref p \<notin> set (seen_revisions st) \<longleftrightarrow> (\<forall>q\<in>set ps. tep_implementation_revision_ref q \<noteq> tep_implementation_revision_ref p)"
    "changed_review p crr_review_ref \<notin> Some ` set (seen_reviews st) \<longleftrightarrow>
       (\<forall>q\<in>set ps. changed_review q crr_review_ref = None \<or> changed_review p crr_review_ref \<noteq> changed_review q crr_review_ref)"
    "changed_review p crr_reviewer_session_ref \<notin> Some ` set (seen_reviewers st) \<longleftrightarrow>
       (\<forall>q\<in>set ps. changed_review q crr_reviewer_session_ref = None \<or> changed_review p crr_reviewer_session_ref \<noteq> changed_review q crr_reviewer_session_ref)"
    "changed_review p crr_reviewer_spawn_evidence_ref \<notin> Some ` set (seen_spawns st) \<longleftrightarrow>
       (\<forall>q\<in>set ps. changed_review q crr_reviewer_spawn_evidence_ref = None \<or> changed_review p crr_reviewer_spawn_evidence_ref \<noteq> changed_review q crr_reviewer_spawn_evidence_ref)"
    using assms by (simp_all add: reviews_hold_def image_iff) metis+
  then show ?thesis
    unfolding returns_iff review_identity_step_Inr reviews_differ_def by auto
qed

interpretation reviews: pairwise_check "review_identity_step root_sessions" reviews_hold "review_ok root_sessions" reviews_differ
  for root_sessions
proof unfold_locales
  fix ps st p st'
  assume holds: "reviews_hold ps st"
  then show "returns (review_identity_step root_sessions st p) \<longleftrightarrow> review_ok root_sessions p \<and> (\<forall>q\<in>set ps. reviews_differ q p)"
    by (rule review_step_pairs)
  show "reviews_hold (ps @ [p]) st'" if "review_identity_step root_sessions st p = Inr st'"
    using holds that by (auto simp: review_identity_step_Inr reviews_after_def reviews_hold_def Let_def claimed)
qed

subsection \<open>Stops\<close>

definition stop_subject :: "StopDecisionProof \<Rightarrow> str \<times> str \<times> str" where
  "stop_subject s = (sdp_target_ref s, sdp_target_run_ref s, sdp_execution_attempt_ref s)"

definition stop_receipt :: "StopDecisionProof \<Rightarrow> str" where
  "stop_receipt s = rp_receipt_ref (sdp_termination_receipt s)"

definition stop_ok :: "TargetWorkHandle list \<Rightarrow> StopDecisionProof \<Rightarrow> bool" where
  "stop_ok history s \<longleftrightarrow> (\<exists>index handle. stop_matches history s = [(index, handle)] \<and> returns (validate_stop_decision s handle))"

definition stops_differ :: "StopDecisionProof \<Rightarrow> StopDecisionProof \<Rightarrow> bool" where
  "stops_differ s t \<longleftrightarrow> stop_subject s \<noteq> stop_subject t \<and> (stop_receipt s = stop_receipt t \<longrightarrow> sdp_decision_ref s = sdp_decision_ref t)"

definition stops_hold :: "TargetWorkHandle list \<Rightarrow> StopDecisionProof list \<Rightarrow> stop_state \<Rightarrow> bool" where
  "stops_hold history ss st \<longleftrightarrow>
     set (stop_subjects st) = stop_subject ` set ss \<and> set (map fst (stop_receipt_subjects st)) = stop_receipt ` set ss
     \<and> (\<forall>s\<in>set ss. map_of (stop_receipt_subjects st) (stop_receipt s) = Some (sdp_decision_ref s))
     \<and> map fst (verified_stops st) = ss"

lemma key_in_table: "map_of d k = Some v \<Longrightarrow> k \<in> fst ` set d"
  by (force dest: map_of_SomeD)

lemma setdefault_decides:
  "(case setdefault k v d of (previous, d') \<Rightarrow> if previous \<noteq> v then Inl e else f d')
     = (if map_of d k \<in> {None, Some v} then f (snd (setdefault k v d)) else Inl e)"
  by (auto simp: setdefault_def split: option.split)

lemma stop_step_Inr:
  "stop_step history st s = Inr st' \<longleftrightarrow>
     (\<exists>index handle. stop_matches history s = [(index, handle)] \<and> returns (validate_stop_decision s handle)
        \<and> stop_subject s \<notin> set (stop_subjects st)
        \<and> map_of (stop_receipt_subjects st) (stop_receipt s) \<in> {None, Some (sdp_decision_ref s)}
        \<and> st' = \<lparr>stop_subjects = stop_subject s # stop_subjects st,
                 stop_receipt_subjects = snd (setdefault (stop_receipt s) (sdp_decision_ref s) (stop_receipt_subjects st)),
                 verified_stops = verified_stops st @ [(s, index)]\<rparr>)"
proof (cases "\<exists>index handle. stop_matches history s = [(index, handle)]")
  case False
  then have "stop_step history st s = tr_fail ''StopDecision is not bound to exactly one handoff handle''"
    by (auto simp: stop_step_def split: list.split prod.split)
  then show ?thesis using False by simp
next
  case True
  then obtain index handle where one: "stop_matches history s = [(index, handle)]" by blast
  show ?thesis
    by (simp add: stop_step_def one setdefault_decides Let_def stop_subject_def [symmetric] stop_receipt_def [symmetric])
       (auto simp: returns_iff)
qed

lemma stop_step_pairs:
  assumes "stops_hold history ss st"
  shows "returns (stop_step history st s) \<longleftrightarrow> stop_ok history s \<and> (\<forall>t\<in>set ss. stops_differ t s)"
proof -
  have "map_of (stop_receipt_subjects st) (stop_receipt s) \<in> {None, Some (sdp_decision_ref s)}
      \<longleftrightarrow> (\<forall>t\<in>set ss. stop_receipt t = stop_receipt s \<longrightarrow> sdp_decision_ref t = sdp_decision_ref s)"
  proof (cases "stop_receipt s \<in> stop_receipt ` set ss")
    case True
    then obtain t where t: "t \<in> set ss" "stop_receipt t = stop_receipt s" by auto
    then have found: "map_of (stop_receipt_subjects st) (stop_receipt s) = Some (sdp_decision_ref t)"
      using assms by (auto simp: stops_hold_def)
    have "sdp_decision_ref u = sdp_decision_ref t" if "u \<in> set ss" "stop_receipt u = stop_receipt s" for u
    proof -
      have "map_of (stop_receipt_subjects st) (stop_receipt u) = Some (sdp_decision_ref u)"
        using assms that(1) by (simp add: stops_hold_def)
      then show ?thesis using found that(2) by simp
    qed
    then show ?thesis using found t by (metis insert_iff option.distinct(1) option.inject singletonD)
  next
    case False
    then have "map_of (stop_receipt_subjects st) (stop_receipt s) = None"
      using assms by (simp add: stops_hold_def map_of_eq_None_iff)
    then show ?thesis using False by (metis imageI insertI1)
  qed
  moreover have "stop_subject s \<notin> set (stop_subjects st) \<longleftrightarrow> (\<forall>t\<in>set ss. stop_subject t \<noteq> stop_subject s)"
  proof -
    have "set (stop_subjects st) = stop_subject ` set ss" using assms by (simp add: stops_hold_def)
    then show ?thesis by (simp only: image_iff) metis
  qed
  ultimately show ?thesis unfolding returns_iff stop_step_Inr stop_ok_def stops_differ_def by blast
qed

interpretation stops: pairwise_check "stop_step history" "stops_hold history" "stop_ok history" stops_differ for history
proof unfold_locales
  fix ss st s st'
  assume holds: "stops_hold history ss st"
  then show "returns (stop_step history st s) \<longleftrightarrow> stop_ok history s \<and> (\<forall>t\<in>set ss. stops_differ t s)"
    by (rule stop_step_pairs)
  show "stops_hold history (ss @ [s]) st'" if step: "stop_step history st s = Inr st'"
  proof -
    let ?R = "stop_receipt_subjects st" and ?k = "stop_receipt s" and ?d = "sdp_decision_ref s"
    obtain index where agreed: "map_of ?R ?k \<in> {None, Some ?d}"
      and st': "st' = \<lparr>stop_subjects = stop_subject s # stop_subjects st, stop_receipt_subjects = snd (setdefault ?k ?d ?R),
                 verified_stops = verified_stops st @ [(s, index)]\<rparr>"
      using step unfolding stop_step_Inr by blast
    have table: "map_of (snd (setdefault ?k ?d ?R)) = (map_of ?R)(?k \<mapsto> ?d)"
      "fst ` set (snd (setdefault ?k ?d ?R)) = insert ?k (fst ` set ?R)"
      using agreed keys_dict_set [of ?k ?d ?R] by (auto simp: setdefault_def split: option.splits dest: map_of_SomeD key_in_table)
    have old: "set (stop_subjects st) = stop_subject ` set ss" "fst ` set ?R = stop_receipt ` set ss"
      "\<forall>t\<in>set ss. map_of ?R (stop_receipt t) = Some (sdp_decision_ref t)" "map fst (verified_stops st) = ss"
      using holds by (simp_all add: stops_hold_def)
    have "sdp_decision_ref t = ?d" if "t \<in> set ss" "stop_receipt t = ?k" for t
      using old(3) that agreed by (metis insertE option.distinct(1) option.inject singletonD)
    then have "\<forall>t\<in>set (ss @ [s]). ((map_of ?R)(?k \<mapsto> ?d)) (stop_receipt t) = Some (sdp_decision_ref t)"
      using old(3) by auto
    then show ?thesis using old by (simp add: stops_hold_def st' table)
  qed
qed

subsection \<open>A replayed execution\<close>

definition reviewed_execution :: "TargetRunHandoff \<Rightarrow> bool" where
  "reviewed_execution handoff \<longleftrightarrow>
     (let history = trh_handle_history handoff; preflights = trh_code_review_preflights handoff in
      length preflights = Suc (length (filter replaces_code (successions handoff)))
      \<and> (\<forall>preflight\<in>set preflights. \<exists>handle\<in>set history. \<exists>scope. preflight_admitted handle preflight scope)
      \<and> list_all (review_ok (map twh_root_session_ref history)) preflights \<and> sorted_wrt reviews_differ preflights
      \<and> distinct (map recovery_receipt_of (successions handoff))
      \<and> list_all (stop_ok history) (trh_stop_decisions handoff) \<and> sorted_wrt stops_differ (trh_stop_decisions handoff)
      \<and> \<Union> (succession_refs ` set (successions handoff)) \<subseteq> set (trh_recovery_evidence_refs handoff))"

lemma replay_facts:
  assumes "replay_execution handoff initial scopes revision changed = Inr u" and "initial \<in> set (trh_handle_history handoff)"
  shows "reviewed_execution handoff"
    and "list_all (\<lambda>h. returns (validate_same_inputs initial h)) (trh_handle_history handoff)
       \<and> never_revives (trh_handle_history handoff) \<and> runs_contiguous (trh_handle_history handoff)"
    and "terminal_subject (trh_terminal handoff) = handle_subject (last (trh_handle_history handoff))"
    and "\<exists>reviews more. terminal_check handoff (last (trh_handle_history handoff))
       (map twh_root_session_ref (trh_handle_history handoff)) reviews = Inr more"
proof -
  let ?history = "trh_handle_history handoff" and ?preflights = "trh_code_review_preflights handoff"
  let ?sessions = "map twh_root_session_ref ?history"
  obtain retired evidence identities verified more where
    len: "length scopes = length ?preflights"
    and handles: "foldE (handle_step initial) nothing_retired (handle_places ?history) = Inr retired"
    and recoveries: "replay_recoveries handoff initial scopes revision changed = Inr evidence"
    and reviews: "foldE (review_identity_step ?sessions) no_reviews ?preflights = Inr identities"
    and stops: "stops_check handoff = Inr verified"
    and subject: "terminal_subject (trh_terminal handoff) = handle_subject (last ?history)"
    and terminal: "terminal_check handoff (last ?history) ?sessions (seen_reviews identities) = Inr more"
    and evidence: "set (trh_recovery_evidence_refs handoff) = set evidence \<union> set more"
    using assms(1) by (auto simp: replay_execution_def Let_def)
  show "list_all (\<lambda>h. returns (validate_same_inputs initial h)) ?history \<and> never_revives ?history \<and> runs_contiguous ?history"
    using handles_replayed [OF handles] .
  show "terminal_subject (trh_terminal handoff) = handle_subject (last ?history)" by (rule subject)
  show "\<exists>reviews more. terminal_check handoff (last ?history) ?sessions reviews = Inr more" using terminal by blast
  note recovered = recoveries_replayed [OF recoveries len assms(2)]
  have "reviews_hold [] no_reviews" by (simp add: reviews_hold_def no_reviews_def)
  then have reviewed: "list_all (review_ok ?sessions) ?preflights \<and> sorted_wrt reviews_differ ?preflights"
    using reviews.fold_from_start(2) [OF _ reviews] by blast
  obtain st where "foldE (stop_step ?history) no_stops (trh_stop_decisions handoff) = Inr st"
    using stops by (auto simp: stops_check_def Let_def)
  moreover have "stops_hold ?history [] no_stops" by (simp add: stops_hold_def no_stops_def)
  ultimately have stopped: "list_all (stop_ok ?history) (trh_stop_decisions handoff) \<and> sorted_wrt stops_differ (trh_stop_decisions handoff)"
    using stops.fold_from_start(2) by blast
  have "\<forall>preflight\<in>set ?preflights. \<exists>handle\<in>set ?history. \<exists>scope. preflight_admitted handle preflight scope"
    using recovered(2) by blast
  moreover have "\<Union> (succession_refs ` set (successions handoff)) \<subseteq> set (trh_recovery_evidence_refs handoff)"
    using evidence unfolding recovered(5) by blast
  ultimately show "reviewed_execution handoff"
    using recovered(1,4) reviewed stopped by (simp add: reviewed_execution_def Let_def)
qed

subsection \<open>The whole handoff\<close>

definition is_goal_work :: "TargetTerminal \<Rightarrow> bool" where
  "is_goal_work terminal \<longleftrightarrow> (case terminal of Term_GoalWorkDisposition _ \<Rightarrow> True | _ \<Rightarrow> False)"

definition handoff_settled ::
  "TargetRunHandoff \<Rightarrow> TargetWorkNotice \<Rightarrow> TargetFrontierEntry \<Rightarrow> TargetFrontierEntry \<Rightarrow> TargetWorkHandle \<Rightarrow> str \<Rightarrow> bool" where
  "handoff_settled handoff notice frontier reconfirmed initial digest \<longleftrightarrow>
     (let final = last (trh_handle_history handoff) in
      terminal_subject (trh_terminal handoff) = handle_subject final \<and> notice_subject notice = handle_subject final
      \<and> tfe_current_handle frontier = final \<and> tfe_state frontier = L ''terminal'' \<and> reconfirmed = frontier
      \<and> tfe_terminal_fact_ref frontier = Some (twn_terminal_fact_ref notice)
      \<and> twn_handoff_manifest_sha256 notice = digest \<and> notice_payload_digest notice = Inr (twn_payload_sha256 notice))"

lemma notice_hashes_check_Inr [simp]:
  "notice_hashes_check notice digest m1 m2 = Inr u \<longleftrightarrow>
     twn_handoff_manifest_sha256 notice = digest \<and> notice_payload_digest notice = Inr (twn_payload_sha256 notice)"
  by (auto simp: notice_hashes_check_def)

lemma terminal_frontier_check_Inr:
  assumes "terminal_frontier_check frontier reconfirmed initial final spec_binding spec_receipt m1 m2 = Inr u"
  shows "tfe_state frontier = L ''terminal'' \<and> tfe_current_handle frontier = final \<and> reconfirmed = frontier"
  using assms by (auto simp: terminal_frontier_check_def)

lemma notice_tells_fact: "notice_tells notice expected \<Longrightarrow> fst (snd expected) = twn_terminal_fact_ref notice"
  by (cases expected) (auto simp: notice_tells_def)

lemma executed_handoff:
  assumes "validate_target_run_handoff_notice handoff notice frontier reconfirmed initial spec_binding spec_receipt scopes
      revision changed barrier_fact = Inr digest"
    and "\<not> is_goal_work (trh_terminal handoff)" and "root_completion (trh_terminal handoff) = None"
  shows "replay_execution handoff initial scopes revision changed = Inr ()"
    and "handoff_settled handoff notice frontier reconfirmed initial digest"
    and "hd (trh_handle_history handoff) = initial \<and> trh_handle_history handoff \<noteq> []"
proof -
  let ?final = "last (trh_handle_history handoff)"
  have kind: "\<not> is_target_root_completion_terminal (trh_terminal handoff)"
    using assms(3) by (simp add: is_target_root_completion_terminal_def)
  obtain first rest where history: "trh_handle_history handoff = first # rest"
    using assms(1) by (cases "trh_handle_history handoff") (auto simp: validate_target_run_handoff_notice_def)
  then have "first = initial"
    using assms(1) by (auto simp: validate_target_run_handoff_notice_def split: if_splits)
  with history have first: "trh_handle_history handoff = initial # rest" by simp
  have "replay_execution handoff initial scopes revision changed = Inr ()
     \<and> terminal_frontier_check frontier reconfirmed initial ?final spec_binding spec_receipt
        ''authoritative frontier does not match the terminal handoff handle''
        ''Target frontier changed during handoff validation'' = Inr ()
     \<and> execution_notice_check handoff notice frontier digest barrier_fact = Inr ()"
    using assms(1,2) kind
    by (cases "trh_terminal handoff") (auto simp: validate_target_run_handoff_notice_def history is_goal_work_def split: if_splits)
  then have replay: "replay_execution handoff initial scopes revision changed = Inr ()"
    and frontier: "terminal_frontier_check frontier reconfirmed initial ?final spec_binding spec_receipt
        ''authoritative frontier does not match the terminal handoff handle''
        ''Target frontier changed during handoff validation'' = Inr ()"
    and notice: "execution_notice_check handoff notice frontier digest barrier_fact = Inr ()" by simp_all
  show "replay_execution handoff initial scopes revision changed = Inr ()" by (rule replay)
  show "handoff_settled handoff notice frontier reconfirmed initial digest"
    using notice terminal_frontier_check_Inr [OF frontier] replay_facts(3) [OF replay] first
    by (auto simp: handoff_settled_def Let_def execution_notice_check_def dest: notice_tells_fact)
  show "hd (trh_handle_history handoff) = initial \<and> trh_handle_history handoff \<noteq> []" by (simp add: first)
qed

lemma root_completed_handoff:
  assumes "validate_target_run_handoff_notice handoff notice frontier reconfirmed initial spec_binding spec_receipt scopes
      revision changed barrier_fact = Inr digest"
    and "root_completion (trh_terminal handoff) = Some (closure, receipt)"
  shows "one_attempt_history handoff initial scopes"
    and "\<exists>st. foldE (root_history_step initial) (nothing_retired, []) (linked_history handoff) = Inr st"
    and "handoff_settled handoff notice frontier reconfirmed initial digest"
proof -
  have terminal: "trh_terminal handoff = Term_AcceptedMeasurementClosure closure"
    using assms(2) by (auto simp: root_completion_def split: TargetTerminal.splits option.splits)
  have terminal_root: "root_completion (Term_AcceptedMeasurementClosure closure) = Some (closure, receipt)"
    using assms(2) terminal by simp
  have kind: "is_target_root_completion_terminal (trh_terminal handoff)"
    using assms(2) by (simp add: is_target_root_completion_terminal_def)
  obtain first rest where "trh_handle_history handoff = first # rest"
    using assms(1) by (cases "trh_handle_history handoff") (auto simp: validate_target_run_handoff_notice_def)
  then obtain manifest where "validate_target_root_completion_handoff_notice handoff notice frontier reconfirmed manifest initial
      spec_binding spec_receipt scopes = Inr digest"
    using assms(1) kind by (auto simp: validate_target_run_handoff_notice_def split: if_splits)
  moreover from this have "manifest = digest"
    by (auto simp: validate_target_root_completion_handoff_notice_def assms(2) Let_def split: if_splits)
  ultimately have root: "validate_target_root_completion_handoff_notice handoff notice frontier reconfirmed digest initial spec_binding
      spec_receipt scopes = Inr digest" by simp
  show "one_attempt_history handoff initial scopes"
    "\<exists>st. foldE (root_history_step initial) (nothing_retired, []) (linked_history handoff) = Inr st"
    using root by (auto simp: validate_target_root_completion_handoff_notice_def assms(2) Let_def)
  show "handoff_settled handoff notice frontier reconfirmed initial digest"
    using root
    by (auto simp: validate_target_root_completion_handoff_notice_def assms(2) Let_def handoff_settled_def root_closure_stale_def
        terminal terminal_root dest: terminal_frontier_check_Inr notice_tells_fact)
qed

lemma cancelled_handoff:
  assumes "validate_target_run_handoff_notice handoff notice frontier reconfirmed initial spec_binding spec_receipt scopes
      revision changed barrier_fact = Inr digest"
    and "trh_terminal handoff = Term_GoalWorkDisposition work"
  shows "one_attempt_history handoff initial scopes"
    and "\<exists>evidence. foldE (cancellation_step initial) [] (linked_history handoff) = Inr evidence"
    and "handoff_settled handoff notice frontier reconfirmed initial digest"
proof -
  have kind: "\<not> is_target_root_completion_terminal (trh_terminal handoff)"
    by (simp add: assms(2) is_target_root_completion_terminal_def root_completion_def)
  obtain first rest where "trh_handle_history handoff = first # rest"
    using assms(1) by (cases "trh_handle_history handoff") (auto simp: validate_target_run_handoff_notice_def)
  then obtain manifest where cancelled: "validate_goal_work_cancellation_handoff_notice handoff notice frontier reconfirmed manifest initial
      spec_binding spec_receipt scopes = Inr digest"
    using assms kind by (auto simp: validate_target_run_handoff_notice_def split: if_splits)
  moreover from this have "manifest = digest"
    by (auto simp: validate_goal_work_cancellation_handoff_notice_def assms(2) Let_def split: if_splits)
  ultimately show "one_attempt_history handoff initial scopes"
    "\<exists>evidence. foldE (cancellation_step initial) [] (linked_history handoff) = Inr evidence"
    "handoff_settled handoff notice frontier reconfirmed initial digest"
    by (auto simp: validate_goal_work_cancellation_handoff_notice_def assms(2) Let_def handoff_settled_def
        dest: terminal_frontier_check_Inr notice_tells_fact split: if_splits)
qed

text \<open>What every admitted history promises, and what it promises unless the run was cancelled.\<close>

definition history_frozen :: "TargetWorkHandle list \<Rightarrow> TargetWorkHandle \<Rightarrow> bool" where
  "history_frozen history initial \<longleftrightarrow> history \<noteq> [] \<and> hd history = initial
     \<and> (\<forall>handle\<in>set history.
          handle_good handle (twh_target_ref initial) (twh_accepted_input_target_commit_refs initial) (input_assets initial))
     \<and> (\<forall>i. Suc i < length history \<longrightarrow> \<not> clash (history ! i) (history ! Suc i))"

lemma never_revives_succession: "never_revives history \<Longrightarrow> Suc i < length history \<Longrightarrow> \<not> clash (history ! i) (history ! Suc i)"
  unfolding never_revives_clash by (rule sorted_wrt_nth_less [where P = "\<lambda>a b. \<not> clash a b"]) simp_all

lemma executed_history:
  assumes "validate_target_run_handoff_notice handoff notice frontier reconfirmed initial spec_binding spec_receipt scopes
      revision changed barrier_fact = Inr digest"
    and "\<not> is_goal_work (trh_terminal handoff)"
  shows "never_revives (trh_handle_history handoff) \<and> runs_contiguous (trh_handle_history handoff)
     \<and> history_frozen (trh_handle_history handoff) initial
     \<and> handoff_settled handoff notice frontier reconfirmed initial digest"
proof (cases "root_completion (trh_terminal handoff)")
  case None
  note executed = executed_handoff [OF assms None]
  then have "initial \<in> set (trh_handle_history handoff)" by (metis hd_in_set)
  from replay_facts(2) [OF executed(1) this] executed show ?thesis
    by (auto simp: history_frozen_def same_inputs_iff list_all_iff never_revives_succession)
next
  case (Some cr)
  obtain closure receipt where cr: "cr = (closure, receipt)" by (cases cr)
  note completed = root_completed_handoff [OF assms(1) Some [unfolded cr]]
  then have shape: "trh_handle_history handoff \<noteq> []" "hd (trh_handle_history handoff) = initial"
    "length (trh_recovered_blockers handoff) + 1 = length (trh_handle_history handoff)"
    by (auto simp: one_attempt_history_def)
  obtain st where "foldE (root_history_step initial) (nothing_retired, []) (linked_history handoff) = Inr st"
    using completed(2) by blast
  from root_history_replayed [OF this shape(1,3)]
  have replayed: "list_all (\<lambda>h. returns (validate_same_inputs initial h) \<and> twh_target_run_ref h = twh_target_run_ref initial)
      (trh_handle_history handoff)" "never_revives (trh_handle_history handoff)" by auto
  then have "runs_contiguous (trh_handle_history handoff)" by (simp add: runs_contiguous_def list_all_length)
  then show ?thesis
    using replayed shape completed(3) by (auto simp: history_frozen_def same_inputs_iff list_all_iff never_revives_succession)
qed

text \<open>
  C1. What an admitted handoff says of the identities of its run.  Whatever ended it, its handles start
  with the admitted one, all freeze the same inputs of the same Target, and none reuses a session,
  attempt or fence of the handle right before it; terminal fact, notice and the reread frontier all
  name the last handle.  If it was executed, that is unless it ended by a cancellation, then moreover no
  root session, attempt or fence ever occurs twice and a run that was left is not entered again (no
  A-B-A).  The validator of cancellations does not check the latter; theory \<open>TargetRunRevival\<close> shows a
  cancelled run that does revive an identity.
\<close>
theorem handoff_never_revives:
  assumes "validate_target_run_handoff_notice handoff notice frontier reconfirmed initial spec_binding spec_receipt scopes
      revision changed barrier_fact = Inr digest"
  shows "history_frozen (trh_handle_history handoff) initial
     \<and> handoff_settled handoff notice frontier reconfirmed initial digest
     \<and> (is_goal_work (trh_terminal handoff) \<or>
        never_revives (trh_handle_history handoff) \<and> runs_contiguous (trh_handle_history handoff))"
proof (cases "trh_terminal handoff")
  case (Term_GoalWorkDisposition work)
  note cancelled = cancelled_handoff [OF assms Term_GoalWorkDisposition]
  then have shape: "trh_handle_history handoff \<noteq> []" "hd (trh_handle_history handoff) = initial"
    "length (trh_recovered_blockers handoff) + 1 = length (trh_handle_history handoff)"
    by (auto simp: one_attempt_history_def)
  obtain evidence where "foldE (cancellation_step initial) [] (linked_history handoff) = Inr evidence"
    using cancelled(2) by blast
  note replayed = cancellation_replayed [OF this shape(1,3)]
  have "history_frozen (trh_handle_history handoff) initial"
    using replayed shape unfolding history_frozen_def by (auto simp: same_inputs_iff list_all_iff)
  then show ?thesis using cancelled(3) Term_GoalWorkDisposition by (simp add: is_goal_work_def)
qed (use executed_history [OF assms] in \<open>auto simp: is_goal_work_def\<close>)

text \<open>
  C6. In a handoff of reviewed executions there is one preflight for the first execution and one for
  each recovery that changed code, each admitted for a handle of the history; no two share a
  revision, a review, a reviewer or a spawn, and no reviewer is a root session; no recovery receipt
  is used twice; and each stop decision belongs to exactly one handle, one per attempt.
\<close>
theorem handoff_reviewed:
  assumes "validate_target_run_handoff_notice handoff notice frontier reconfirmed initial spec_binding spec_receipt scopes
      revision changed barrier_fact = Inr digest"
    and "\<not> is_goal_work (trh_terminal handoff)" and "root_completion (trh_terminal handoff) = None"
  shows "reviewed_execution handoff"
  using replay_facts(1) [OF executed_handoff(1) [OF assms]] executed_handoff(3) [OF assms] by (metis hd_in_set)

text \<open>
  C16. The result of a reviewed handoff passes the review gates of the Bundle: the code review of an
  accepted closure is admitted by the gate of \<open>bundle_completion\<close> for the closure's revision, and its
  result review by the gate for the closure, and the result's reviewer is neither a root session nor
  a code reviewer of the run.
\<close>
theorem handoff_result_admitted:
  assumes "validate_target_run_handoff_notice handoff notice frontier reconfirmed initial spec_binding spec_receipt scopes
      revision changed barrier_fact = Inr digest"
    and "trh_terminal handoff = Term_AcceptedMeasurementClosure closure" and "amc_root_completion_receipt closure = None"
  shows "\<exists>code result.
     amc_code_review closure = Some code \<and> verify_code_review code (amc_implementation_revision_ref closure) = Inr ()
     \<and> amc_result_review closure = Some result \<and> result_review_check closure result = Inr ()
     \<and> rrr_reviewer_session_ref result \<notin> twh_root_session_ref ` set (trh_handle_history handoff)
     \<and> rrr_reviewer_session_ref result \<notin> set (reviewer_sessions (trh_code_review_preflights handoff))"
proof -
  have kind: "\<not> is_goal_work (trh_terminal handoff)" "root_completion (trh_terminal handoff) = None"
    using assms(2,3) by (simp_all add: is_goal_work_def root_completion_def)
  let ?preflights = "trh_code_review_preflights handoff"
  note executed = executed_handoff [OF assms(1) kind]
  then have mem: "initial \<in> set (trh_handle_history handoff)" by (metis hd_in_set)
  obtain reviews more where "terminal_check handoff (last (trh_handle_history handoff))
       (map twh_root_session_ref (trh_handle_history handoff)) reviews = Inr more"
    using replay_facts(4) [OF executed(1) mem] by blast
  then obtain result d where result: "amc_result_review closure = Some result"
      "validate_result_review result (twh_root_session_ref (last (trh_handle_history handoff))) (amc_evaluation_attempt_ref closure)
         (amc_metric_result_ref closure) (amc_asset_manifest_ref closure) ?preflights = Inr d"
      "rrr_reviewer_session_ref result \<notin> twh_root_session_ref ` set (trh_handle_history handoff)"
    and revision: "amc_implementation_revision_ref closure = tep_implementation_revision_ref (last ?preflights)"
    and code: "amc_code_review closure = Some (tep_code_review (last ?preflights))"
    using assms(2) by (auto simp: terminal_check_def result_terminal_check_def Let_def split: option.splits if_splits)
  have "reviewed_execution handoff" using replay_facts(1) [OF executed(1) mem] .
  then have "?preflights \<noteq> []" "\<forall>preflight\<in>set ?preflights. \<exists>handle\<in>set (trh_handle_history handoff). \<exists>scope. preflight_admitted handle preflight scope"
    by (auto simp: reviewed_execution_def Let_def)
  then obtain handle scope where "preflight_admitted handle (last ?preflights) scope" by (meson last_in_set)
  then have "verify_code_review (tep_code_review (last ?preflights)) (amc_implementation_revision_ref closure) = Inr ()"
    using code_review_admitted by (auto simp: preflight_admitted_def revision)
  then show ?thesis using result result_review_admitted [OF result(2)] run_result_review_Inr(8) [OF result(2)] code by blast
qed

subsection \<open>A closure without its review\<close>




end
