(* ===== verification/BundleContract.thy ===== *)
theory BundleContract
  imports RollingStrategy ControlContract
begin

text \<open>
  \<open>src/meta_research/bundle_contract.py\<close>: the assertion and the authorization requirement of a
  high-risk Target, the Bundle's context pack, the Target plan that opens a rolling strategy, the
  proposal that appends to the Target graph, and the review of a Target plan.
\<close>

definition BUNDLE_CONTEXT_PACK_SCHEMA_REF :: string where
  "BUNDLE_CONTEXT_PACK_SCHEMA_REF = ''meta-research/bundle-context-pack/v1''"

definition BUNDLE_SUCCESSOR_CONTEXT_PACK_SCHEMA_REF :: string where
  "BUNDLE_SUCCESSOR_CONTEXT_PACK_SCHEMA_REF = ''meta-research/bundle-context-pack/v2''"

definition LEGACY_TARGET_PLAN_SCHEMA_REF :: string where
  "LEGACY_TARGET_PLAN_SCHEMA_REF = ''meta-research/target-plan/v2''"

definition TARGET_PLAN_SCHEMA_REF :: string where
  "TARGET_PLAN_SCHEMA_REF = ''meta-research/target-plan/v3''"

definition TARGET_PLAN_REVIEW_SCHEMA_REF :: string where
  "TARGET_PLAN_REVIEW_SCHEMA_REF = ''meta-research/target-plan-review/v1''"

definition TARGET_GRAPH_APPEND_PROPOSAL_SCHEMA_REF :: string where
  "TARGET_GRAPH_APPEND_PROPOSAL_SCHEMA_REF = ''meta-research/target-graph-append-proposal/v2''"

definition MAX_BUNDLE_TARGETS :: nat where
  "MAX_BUNDLE_TARGETS = 64"

definition MAX_BUNDLE_TARGET_PLAN_BYTES :: int where
  "MAX_BUNDLE_TARGET_PLAN_BYTES = BUNDLE_ROOT_MAX_SERIALIZED_BYTES"

subsection \<open>Errors\<close>

text \<open>
  \<open>BundleContractError.__init__\<close>: a diagnostic that is a machine code (\<open>[a-z][a-z0-9_]{0,95}\<close>) is
  the code; two known texts have a code of their own, and any other text gets the general one.
\<close>

definition lower_char :: "char \<Rightarrow> bool" where
  "lower_char c \<longleftrightarrow> (97::nat) \<le> of_char c \<and> of_char c \<le> (122::nat)"

definition code_char :: "char \<Rightarrow> bool" where
  "code_char c \<longleftrightarrow> lower_char c \<or> (48::nat) \<le> of_char c \<and> of_char c \<le> (57::nat) \<or> c = CHR ''_''"

fun machine_code :: "string \<Rightarrow> bool" where
  "machine_code [] = False"
| "machine_code (c # cs) = (lower_char c \<and> list_all code_char cs \<and> length cs \<le> 95)"

definition bundle_error_code :: "string \<Rightarrow> string" where
  "bundle_error_code diagnostic =
     (if machine_code diagnostic then diagnostic
      else if diagnostic = ''FormalStrategyUpdate has oversized text'' then ''formal_strategy_update_text_too_large''
      else if diagnostic = ''FormalStrategyUpdate exceeds byte budget'' then ''formal_strategy_update_byte_budget_exceeded''
      else ''bundle_result_contract_invalid'')"

definition bundle_error :: "string \<Rightarrow> exn" where
  "bundle_error diagnostic = BundleContractError (bundle_error_code diagnostic)"

abbreviation bundle_fail :: "string \<Rightarrow> 'a res" where
  "bundle_fail diagnostic \<equiv> Inl (bundle_error diagnostic)"

text \<open>\<open>except BundleTargetContractError as error: raise BundleContractError(str(error))\<close>.\<close>

fun is_target_error :: "exn \<Rightarrow> bool" where
  "is_target_error (BundleTargetContractError _) = True"
| "is_target_error _ = False"

fun target_error_text :: "exn \<Rightarrow> string" where
  "target_error_text (BundleTargetContractError m) = m"
| "target_error_text _ = []"

definition as_bundle_error :: "'a res \<Rightarrow> 'a res" where
  "as_bundle_error r = rethrow is_target_error (\<lambda>e. bundle_error (target_error_text e)) r"

subsection \<open>Primitive checks\<close>

definition bundle_object :: "json \<Rightarrow> string \<Rightarrow> jdict res" where
  "bundle_object value code = (case value of JDict d \<Rightarrow> Inr d | _ \<Rightarrow> bundle_fail code)"

definition bundle_exact_keys :: "jdict \<Rightarrow> string list \<Rightarrow> string \<Rightarrow> unit res" where
  "bundle_exact_keys value expected code = raise_if (\<not> keys_are value expected) (bundle_error code)"

fun nonblank_text :: "json \<Rightarrow> bool" where
  "nonblank_text (JStr s) = (\<not> is_blank s)"
| "nonblank_text _ = False"

text \<open>\<open>v in names\<close> for a set of strings: a list or a dictionary cannot be hashed.\<close>

definition in_names :: "json \<Rightarrow> str list \<Rightarrow> bool res" where
  "in_names v names =
     (if unhashable v then Inl TypeError else Inr (case v of JStr s \<Rightarrow> s \<in> set names | _ \<Rightarrow> False))"

subsection \<open>High-risk Targets\<close>

definition target_execution_assertion :: "str \<Rightarrow> str \<Rightarrow> str \<Rightarrow> str \<Rightarrow> str \<Rightarrow> str \<Rightarrow> jdict" where
  "target_execution_assertion quest_ref stage_request_ref graph_ref target_ref target_spec_hash risk = obj_items (obj
     [(''schema_ref'', JStr (L ''meta-research/target-execution-assertion/v1'')),
      (''operation'', JStr (L ''execute_target'')),
      (''quest_ref'', JStr quest_ref),
      (''stage_request_ref'', JStr stage_request_ref),
      (''graph_ref'', JStr graph_ref),
      (''target_ref'', JStr target_ref),
      (''target_spec_hash'', JStr target_spec_hash),
      (''risk_class'', JStr risk)])"

definition target_execution_technical_binding :: "jdict \<Rightarrow> jdict" where
  "target_execution_technical_binding assertion = without [''help_context''] assertion"

definition target_execution_authorization_requirement :: "str \<Rightarrow> str \<Rightarrow> str \<Rightarrow> str \<Rightarrow> str \<Rightarrow> json" where
  "target_execution_authorization_requirement quest_ref stage_request_ref graph_ref target_ref target_spec_hash = obj
     [(''capability'', JStr (L ''execute_high_risk_target'')),
      (''scope'', obj
         [(''authorization_mode'', JStr (L ''single_target'')),
          (''quest_ref'', JStr quest_ref),
          (''stage_request_ref'', JStr stage_request_ref),
          (''graph_ref'', JStr graph_ref),
          (''target_ref'', JStr target_ref),
          (''target_spec_hash'', JStr target_spec_hash)])]"

text \<open>
  The text shown to the user; its sentences are Chinese, written here as code points.  Each
  non-blank part of the semantic inputs makes one line: its label, a full-width colon, the part.
\<close>

definition help_labels :: "(string \<times> str) list" where
  "help_labels =
     [(''goal'', Str [23454, 39564, 30446, 30340]),
      (''characteristics'', Str [23454, 39564, 20869, 23481]),
      (''boundary_constraints'', Str [32422, 26463]),
      (''semantic_delta'', Str [35745, 21010, 21464, 21270])]"

definition help_background :: str where
  "help_background =
     Str [24403, 21069, 24037, 20316, 26469, 33258, 24050, 25509, 21463, 30340, 30740, 31350, 35745, 21010, 12290, 10]"

definition attempt_action :: str where
  "attempt_action =
     Str [26680, 23545, 24050, 25509, 21463, 35745, 21010, 20013, 30340, 23454, 39564, 30446, 30340, 12289, 32422, 26463,
       19982, 25191, 34892, 39118, 38505, 12290]"

definition attempt_result :: str where
  "attempt_result =
     Str [24403, 21069, 24037, 20316, 34987, 26631, 35760, 20026, 39640, 39118, 38505, 65292, 25191, 34892, 21069, 38656,
       35201, 36825, 19968, 31934, 30830, 24037, 20316, 30340, 21333, 27425, 25480, 26435, 12290]"

definition help_problem :: str where
  "help_problem =
     Str [24403, 21069, 31934, 30830, 24037, 20316, 23578, 32570, 21333, 27425, 25480, 26435, 65292, 19981, 33021, 25454,
       27492, 21551, 21160, 39640, 39118, 38505, 25191, 34892, 12290]"

definition help_delivery :: str where
  "help_delivery =
     Str [35831, 20915, 23450, 20026, 24403, 21069, 31934, 30830, 24037, 20316, 25480, 20104, 25110, 25298, 32477, 21333,
       27425, 25191, 34892, 25480, 26435, 12290]"

definition help_impact :: str where
  "help_impact =
     Str [25480, 26435, 24182, 36890, 36807, 31934, 30830, 32465, 23450, 26816, 26597, 21518, 21487, 24674, 22797, 24403,
       21069, 24037, 20316, 65307, 20854, 20182, 29420, 31435, 26222, 36890, 24037, 20316, 32487, 32493, 25512, 36827, 12290]"

definition help_safe_response :: str where
  "help_safe_response =
     Str [35831, 22312, 26412, 27714, 21161, 39029, 38754, 36873, 25321, 25480, 20104, 25110, 25298, 32477, 65307, 25480,
       26435, 33539, 22260, 20165, 38480, 24403, 21069, 35831, 27714, 32465, 23450, 30340, 31934, 30830, 24037, 20316, 12290]"

definition help_description :: "jdict \<Rightarrow> string \<times> str \<Rightarrow> str list" where
  "help_description semantic = (\<lambda>(key, label).
     if nonblank_text (dget semantic key) then [Str (codes label @ 65306 # codes (str_of (dget semantic key)))] else [])"

definition help_descriptions :: "jdict \<Rightarrow> str list" where
  "help_descriptions spec =
     concat (map (\<lambda>semantic. if is_obj semantic then concat (map (help_description (obj_items semantic)) help_labels) else [])
       (list_items (dget spec ''semantic_inputs'')))"

fun join_lines :: "str list \<Rightarrow> nat list" where
  "join_lines [] = []"
| "join_lines [s] = codes s"
| "join_lines (s # t # ss) = codes s @ 10 # join_lines (t # ss)"

definition target_execution_help_context :: "jdict \<Rightarrow> json" where
  "target_execution_help_context spec = obj
     [(''background'', JStr (Str (codes help_background @ join_lines (help_descriptions spec)))),
      (''attempted_work'', JList [obj [(''action'', JStr attempt_action), (''result'', JStr attempt_result)]]),
      (''problem'', JStr help_problem),
      (''requested_delivery'', JStr help_delivery),
      (''impact'', JStr help_impact),
      (''safe_response'', JStr help_safe_response)]"

subsection \<open>The context pack\<close>

definition bundle_pack_fields :: "string list" where
  "bundle_pack_fields =
     [''schema_ref'', ''cycle_ref'', ''cycle_position'', ''accepted_question_binding'', ''accepted_formal_plan_binding'']"

text \<open>The conditions on the bindings that the pack repeats; \<open>None\<close> is an absent Idea set.\<close>

definition bundle_pack_bindings_check ::
  "jdict \<Rightarrow> bool \<Rightarrow> str \<Rightarrow> jdict \<Rightarrow> jdict \<Rightarrow> jdict option \<Rightarrow> bool" where
  "bundle_pack_bindings_check pack successor cycle_ref question plan_binding idea \<longleftrightarrow>
     dget pack ''cycle_ref'' = JStr cycle_ref
     \<and> py_eq (dget pack ''accepted_question_binding'') (JDict question)
     \<and> py_eq (dget pack ''accepted_formal_plan_binding'') (JDict plan_binding)
     \<and> (if successor then
          is_obj (dget pack ''accepted_idea_set_binding'')
          \<and> (case idea of None \<Rightarrow> True | Some binding \<Rightarrow> py_eq (dget pack ''accepted_idea_set_binding'') (JDict binding))
        else idea = None)"

definition bundle_plan_check :: "jdict \<Rightarrow> jdict \<Rightarrow> jdict \<Rightarrow> unit res" where
  "bundle_plan_check plan question plan_binding =
     (let code = ''bundle_formal_plan_binding_invalid'' in
      bindE (canonical_hash (JDict plan)) (\<lambda>hash.
      bindE (raise_if (dget plan_binding ''plan_document_hash'' \<noteq> JStr hash
          \<or> \<not> py_eq (dget plan ''question_ref'') (dget question ''question_ref'')) (bundle_error code)) (\<lambda>_.
      bindE (in_str_set (dget plan ''bundle_disposition'') [''experiments_required'', ''no_new_experiment_required'']) (\<lambda>known.
      raise_if (\<not> known \<or> \<not> is_list (dget plan ''gap_set'') \<or> \<not> is_list (dget plan ''experiment_briefs'')
          \<or> \<not> is_list (dget plan ''evidence_reuse_set'')) (bundle_error code)))))"

text \<open>A successor pack carries the Idea set that the answer contract of the Plan was drawn from.\<close>

definition bundle_idea_set_check :: "jdict \<Rightarrow> jdict \<Rightarrow> jdict \<Rightarrow> unit res" where
  "bundle_idea_set_check pack question contract =
     (let idea_binding = obj_items (dget pack ''accepted_idea_set_binding''); idea_set = dget idea_binding ''idea_set'' in
      raise_if (\<not> is_obj idea_set
        \<or> \<not> py_eq (dget (obj_items idea_set) ''question_ref'') (dget question ''question_ref'')
        \<or> \<not> py_eq (dget contract ''source_idea_set_ref'') (dget idea_binding ''outcome_ref''))
       (bundle_error ''bundle_context_pack_invalid''))"

definition validate_bundle_context_pack :: "jdict \<Rightarrow> str \<Rightarrow> jdict \<Rightarrow> jdict \<Rightarrow> jdict option \<Rightarrow> jdict res" where
  "validate_bundle_context_pack pack cycle_ref question plan_binding idea =
     (let schema = dget pack ''schema_ref''; successor = (schema = JStr (L BUNDLE_SUCCESSOR_CONTEXT_PACK_SCHEMA_REF));
          code = ''bundle_formal_plan_binding_invalid'' in
      bindE (bundle_exact_keys pack (bundle_pack_fields @ (if successor then [''accepted_idea_set_binding''] else []))
        ''bundle_context_pack_invalid'') (\<lambda>_.
      bindE (rethrow is_value_error (\<lambda>_. bundle_error ''bundle_cycle_position_invalid'')
               (validate_cycle_position (dget pack ''cycle_position'') cycle_ref)) (\<lambda>_.
      bindE (in_str_set schema [BUNDLE_CONTEXT_PACK_SCHEMA_REF, BUNDLE_SUCCESSOR_CONTEXT_PACK_SCHEMA_REF]) (\<lambda>known.
      bindE (raise_if (\<not> known \<or> \<not> bundle_pack_bindings_check pack successor cycle_ref question plan_binding idea)
        (bundle_error ''bundle_context_pack_invalid'')) (\<lambda>_.
      bindE (bundle_object (dget plan_binding ''plan_document'') code) (\<lambda>plan.
      bindE (bundle_plan_check plan question plan_binding) (\<lambda>_.
      bindE (bundle_object (dget plan ''answer_contract'') code) (\<lambda>contract.
      bindE (raise_if (\<not> py_eq (dget contract ''answer_contract_hash'') (dget plan_binding ''answer_contract_hash'')) (bundle_error code)) (\<lambda>_.
      bindE (if successor then bundle_idea_set_check pack question contract else Inr ()) (\<lambda>_.
      bindE (raise_if (dget plan ''bundle_disposition'' \<noteq>
          JStr (L (if list_items (dget plan ''experiment_briefs'') \<noteq> [] then ''experiments_required'' else ''no_new_experiment_required'')))
        (bundle_error code)) (\<lambda>_.
      Inr plan)))))))))))"

subsection \<open>The Target plan\<close>

definition target_plan_fields :: "string list" where
  "target_plan_fields =
     [''schema_ref'', ''kind'', ''formal_plan_ref'', ''context_pack_ref'', ''completion_contract'', ''initial_strategy_update'',
      ''source_bindings'']"

definition with_notes :: "jdict \<Rightarrow> string list \<Rightarrow> string list" where
  "with_notes document expected = expected @ (if has_key document (L ''notes'') then [''notes''] else [])"

definition notes_check :: "jdict \<Rightarrow> string \<Rightarrow> unit res" where
  "notes_check document code =
     raise_if (has_key document (L ''notes'') \<and> \<not> is_str (dget document ''notes'')) (bundle_error code)"

definition canonical_length :: "jdict \<Rightarrow> int res" where
  "canonical_length document =
     bindE (canonical_json (JDict document)) (\<lambda>text. bindE (encode_utf8 text) (\<lambda>bytes. Inr (int (length bytes))))"

definition target_plan_source_check :: "jdict \<Rightarrow> str \<Rightarrow> str \<Rightarrow> str \<Rightarrow> jdict \<Rightarrow> unit res" where
  "target_plan_source_check target_plan formal_plan_ref context_pack_ref context_pack_hash plan =
     bindE (raise_if (dget target_plan ''schema_ref'' \<noteq> JStr (L TARGET_PLAN_SCHEMA_REF)
         \<or> dget target_plan ''kind'' \<noteq> JStr (L ''TargetPlan'')
         \<or> dget target_plan ''formal_plan_ref'' \<noteq> JStr formal_plan_ref
         \<or> dget target_plan ''context_pack_ref'' \<noteq> JStr context_pack_ref) (bundle_error ''target_plan_source_invalid'')) (\<lambda>_.
     bindE (bundle_object (dget target_plan ''source_bindings'') ''target_plan_source_invalid'') (\<lambda>source.
     bindE (canonical_hash (JDict plan)) (\<lambda>plan_hash.
     raise_if (\<not> py_eq (JDict source) (obj
         [(''formal_plan_ref'', JStr formal_plan_ref), (''plan_document_hash'', JStr plan_hash),
          (''context_pack_ref'', JStr context_pack_ref), (''context_pack_hash'', JStr context_pack_hash)]))
       (bundle_error ''target_plan_source_invalid''))))"

text \<open>The strategy that the plan opens: revision one, no dependency on results, at most 64 Targets.\<close>

definition opened_strategy :: "json \<Rightarrow> json \<Rightarrow> jdict \<Rightarrow> RollingStrategyState res" where
  "opened_strategy completion_value update_value plan =
     bindE (normalized_completion_contract_from_dict completion_value plan) (\<lambda>completion.
     bindE (strategy_update_from_dict update_value completion) (\<lambda>update.
     if su_revision (fsu_update update) \<noteq> 1 \<or> su_requires_accepted_labels (fsu_update update) \<noteq> []
       \<or> fsu_candidates update = [] \<or> MAX_BUNDLE_TARGETS < length (fsu_candidates update)
     then bt_fail ''initial_strategy_update_invalid''
     else
       bindE (start_rolling_strategy completion) (\<lambda>state.
       apply_strategy_update state update completion [])))"

definition validate_target_plan :: "jdict \<Rightarrow> str \<Rightarrow> str \<Rightarrow> str \<Rightarrow> jdict \<Rightarrow> str res" where
  "validate_target_plan target_plan formal_plan_ref context_pack_ref context_pack_hash plan =
     bindE (canonical_length target_plan) (\<lambda>size.
     bindE (raise_if (MAX_BUNDLE_TARGET_PLAN_BYTES < size) (bundle_error ''target_plan_too_large'')) (\<lambda>_.
     bindE (notes_check target_plan ''target_plan_notes_invalid'') (\<lambda>_.
     bindE (bundle_exact_keys target_plan (with_notes target_plan target_plan_fields) ''target_plan_invalid'') (\<lambda>_.
     bindE (target_plan_source_check target_plan formal_plan_ref context_pack_ref context_pack_hash plan) (\<lambda>_.
     let completion_value = dget target_plan ''completion_contract''; update_value = dget target_plan ''initial_strategy_update'' in
     bindE (raise_if (\<not> is_obj completion_value \<or> \<not> is_obj update_value) (bundle_error ''target_plan_formal_contract_invalid'')) (\<lambda>_.
     bindE (as_bundle_error (opened_strategy completion_value update_value plan)) (\<lambda>_.
     canonical_hash (JDict target_plan))))))))"

definition legacy_target_plan_fields :: "string list" where
  "legacy_target_plan_fields =
     [''schema_ref'', ''kind'', ''formal_plan_ref'', ''context_pack_ref'', ''targets'', ''strategy_complete'', ''source_bindings'']"

definition diagnose_legacy_target_plan_v2 :: "jdict \<Rightarrow> LegacyV2TargetSpec list res" where
  "diagnose_legacy_target_plan_v2 target_plan =
     (let code = ''legacy_target_plan_v2_invalid''; targets = dget target_plan ''targets'' in
      bindE (bundle_exact_keys target_plan legacy_target_plan_fields code) (\<lambda>_.
      bindE (raise_if (dget target_plan ''schema_ref'' \<noteq> JStr (L LEGACY_TARGET_PLAN_SCHEMA_REF)
          \<or> dget target_plan ''kind'' \<noteq> JStr (L ''TargetPlan'')
          \<or> \<not> nonblank_text (dget target_plan ''formal_plan_ref'') \<or> \<not> nonblank_text (dget target_plan ''context_pack_ref'')
          \<or> dget target_plan ''strategy_complete'' \<noteq> JBool False \<or> \<not> is_obj (dget target_plan ''source_bindings'')
          \<or> \<not> is_list targets \<or> list_items targets = [] \<or> MAX_BUNDLE_TARGETS < length (list_items targets)) (bundle_error code)) (\<lambda>_.
      as_bundle_error (mapE parse_legacy_v2_target_spec (list_items targets)))))"

text \<open>\<open>material_target_plan_hash\<close> hashes the closed envelope without the Plan at hand.\<close>

definition material_target_plan_hash :: "jdict \<Rightarrow> str res" where
  "material_target_plan_hash target_plan =
     (let completion = dget target_plan ''completion_contract''; update = dget target_plan ''initial_strategy_update'' in
      bindE (notes_check target_plan ''target_plan_notes_invalid'') (\<lambda>_.
      bindE (bundle_exact_keys target_plan (with_notes target_plan target_plan_fields) ''target_plan_invalid'') (\<lambda>_.
      bindE (raise_if (dget target_plan ''schema_ref'' \<noteq> JStr (L TARGET_PLAN_SCHEMA_REF)
          \<or> dget target_plan ''kind'' \<noteq> JStr (L ''TargetPlan'')
          \<or> \<not> nonblank_text (dget target_plan ''formal_plan_ref'') \<or> \<not> nonblank_text (dget target_plan ''context_pack_ref'')
          \<or> \<not> is_obj completion
          \<or> dget (obj_items completion) ''schema_ref'' \<noteq> JStr (L NORMALIZED_COMPLETION_CONTRACT_SCHEMA_REF)
          \<or> \<not> is_obj update
          \<or> dget (obj_items update) ''schema_ref'' \<noteq> JStr (L FORMAL_STRATEGY_UPDATE_SCHEMA_REF)
          \<or> \<not> is_obj (dget target_plan ''source_bindings'')) (bundle_error ''target_plan_invalid'')) (\<lambda>_.
      bindE (canonical_length target_plan) (\<lambda>size.
      bindE (raise_if (MAX_BUNDLE_TARGET_PLAN_BYTES < size) (bundle_error ''target_plan_invalid'')) (\<lambda>_.
      canonical_hash (JDict target_plan)))))))"

subsection \<open>The append proposal\<close>

definition append_proposal_fields :: "string list" where
  "append_proposal_fields =
     [''schema_ref'', ''kind'', ''graph_ref'', ''base_generation'', ''base_head_receipt'', ''strategy_update'']"

definition append_update_fields :: "string list" where
  "append_update_fields = [''schema_ref'', ''revision'', ''candidates'', ''requires_accepted_labels'', ''strategy_complete'']"

definition append_update_check :: "jdict \<Rightarrow> unit res" where
  "append_update_check update =
     (let code = ''target_graph_append_proposal_invalid''; candidates = dget update ''candidates'';
          required = dget update ''requires_accepted_labels''; complete = dget update ''strategy_complete'' in
      bindE (bundle_exact_keys update (with_notes update append_update_fields) code) (\<lambda>_.
      bindE (notes_check update code) (\<lambda>_.
      raise_if (dget update ''schema_ref'' \<noteq> JStr (L FORMAL_STRATEGY_UPDATE_SCHEMA_REF)
        \<or> \<not> int_at_least 1 (dget update ''revision'')
        \<or> \<not> is_list candidates \<or> MAX_BUNDLE_TARGETS < length (list_items candidates)
        \<or> list_ex (\<lambda>candidate. \<not> is_obj candidate) (list_items candidates)
        \<or> \<not> is_list required \<or> list_ex (\<lambda>label. \<not> nonblank_text label) (list_items required)
        \<or> \<not> distinct (map str_of (list_items required))
        \<or> complete \<notin> {JBool True, JBool False}
        \<or> (list_items candidates = [] \<and> complete \<noteq> JBool True)) (bundle_error code))))"

definition validate_target_graph_append_proposal :: "jdict \<Rightarrow> str res" where
  "validate_target_graph_append_proposal proposal =
     (let code = ''target_graph_append_proposal_invalid'' in
      bindE (bundle_exact_keys proposal append_proposal_fields code) (\<lambda>_.
      bindE (raise_if (dget proposal ''schema_ref'' \<noteq> JStr (L TARGET_GRAPH_APPEND_PROPOSAL_SCHEMA_REF)
          \<or> dget proposal ''kind'' \<noteq> JStr (L ''TargetGraphAppendProposal'')
          \<or> \<not> nonblank_text (dget proposal ''graph_ref'')
          \<or> \<not> int_at_least 0 (dget proposal ''base_generation'')
          \<or> \<not> is_obj (dget proposal ''base_head_receipt'') \<or> \<not> is_obj (dget proposal ''strategy_update'')) (bundle_error code)) (\<lambda>_.
      bindE (append_update_check (obj_items (dget proposal ''strategy_update''))) (\<lambda>_.
      canonical_hash (JDict proposal)))))"

definition target_graph_append_proposal :: "str \<Rightarrow> int \<Rightarrow> jdict \<Rightarrow> jdict \<Rightarrow> jdict res" where
  "target_graph_append_proposal graph_ref base_generation base_head_receipt strategy_update =
     (let proposal = obj_items (obj
        [(''schema_ref'', JStr (L TARGET_GRAPH_APPEND_PROPOSAL_SCHEMA_REF)),
         (''kind'', JStr (L ''TargetGraphAppendProposal'')),
         (''graph_ref'', JStr graph_ref),
         (''base_generation'', JInt base_generation),
         (''base_head_receipt'', JDict base_head_receipt),
         (''strategy_update'', JDict strategy_update)]) in
      bindE (validate_target_graph_append_proposal proposal) (\<lambda>_. Inr proposal))"

subsection \<open>The review of a Target plan\<close>

definition finding_categories :: "string list" where
  "finding_categories = [''lineage'', ''dag'', ''dedup'', ''feasibility'', ''owner_boundary'']"

text \<open>The findings so far; a finding has a fresh identifier, a known category and a message.\<close>

definition finding_step :: "str list \<Rightarrow> json \<Rightarrow> str list res" where
  "finding_step finding_ids value =
     (let code = ''target_plan_review_invalid'' in
      bindE (bundle_object value code) (\<lambda>finding.
      bindE (bundle_exact_keys finding [''finding_id'', ''category'', ''message''] code) (\<lambda>_.
      bindE (raise_if (\<not> nonblank_text (dget finding ''finding_id'') \<or> str_of (dget finding ''finding_id'') \<in> set finding_ids)
        (bundle_error code)) (\<lambda>_.
      bindE (in_str_set (dget finding ''category'') finding_categories) (\<lambda>known.
      bindE (raise_if (\<not> known \<or> \<not> nonblank_text (dget finding ''message'')) (bundle_error code)) (\<lambda>_.
      Inr (str_of (dget finding ''finding_id'') # finding_ids)))))))"

text \<open>The dispositions so far, and whether one of them revised the draft.\<close>

definition review_disposition_step :: "str list \<Rightarrow> str list \<times> bool \<Rightarrow> json \<Rightarrow> (str list \<times> bool) res" where
  "review_disposition_step finding_ids = (\<lambda>(disposition_ids, revised) value.
     let code = ''target_plan_review_invalid'' in
     bindE (bundle_object value code) (\<lambda>disposition.
     bindE (bundle_exact_keys disposition [''finding_id'', ''action'', ''rationale''] code) (\<lambda>_.
     bindE (in_names (dget disposition ''finding_id'') finding_ids) (\<lambda>known.
     bindE (raise_if (\<not> known \<or> str_of (dget disposition ''finding_id'') \<in> set disposition_ids) (bundle_error code)) (\<lambda>_.
     bindE (in_str_set (dget disposition ''action'') [''revised'', ''not_adopted'']) (\<lambda>action_known.
     bindE (raise_if (\<not> action_known \<or> \<not> nonblank_text (dget disposition ''rationale'')) (bundle_error code)) (\<lambda>_.
     Inr (str_of (dget disposition ''finding_id'') # disposition_ids,
          revised \<or> dget disposition ''action'' = JStr (L ''revised'')))))))))"

definition target_plan_review_fields :: "string list" where
  "target_plan_review_fields =
     [''schema_ref'', ''review_mode'', ''reviewer_agent_ref'', ''reviewed_draft_hash'', ''findings'', ''dispositions'',
      ''final_target_plan_hash'', ''independent'', ''advisory_only'']"

definition validate_target_plan_review :: "jdict \<Rightarrow> str \<Rightarrow> str \<Rightarrow> str res" where
  "validate_target_plan_review review reviewed_draft_hash final_target_plan_hash =
     (let code = ''target_plan_review_invalid''; findings = dget review ''findings''; dispositions = dget review ''dispositions'' in
      bindE (bundle_exact_keys review target_plan_review_fields code) (\<lambda>_.
      bindE (raise_if (dget review ''schema_ref'' \<noteq> JStr (L TARGET_PLAN_REVIEW_SCHEMA_REF)
          \<or> dget review ''review_mode'' \<noteq> JStr (L ''harness_child_agent'')
          \<or> \<not> nonblank_text (dget review ''reviewer_agent_ref'')
          \<or> dget review ''reviewed_draft_hash'' \<noteq> JStr reviewed_draft_hash
          \<or> dget review ''final_target_plan_hash'' \<noteq> JStr final_target_plan_hash
          \<or> dget review ''independent'' \<noteq> JBool True \<or> dget review ''advisory_only'' \<noteq> JBool True
          \<or> \<not> is_list findings \<or> \<not> is_list dispositions) (bundle_error code)) (\<lambda>_.
      bindE (foldE finding_step [] (list_items findings)) (\<lambda>finding_ids.
      bindE (foldE (review_disposition_step finding_ids) ([], False) (list_items dispositions)) (\<lambda>(disposition_ids, revised).
      bindE (raise_if (\<not> same_set disposition_ids finding_ids) (bundle_error code)) (\<lambda>_.
      let changed = (reviewed_draft_hash \<noteq> final_target_plan_hash) in
      bindE (raise_if (changed \<noteq> revised)
        (bundle_error (if revised then ''target_plan_review_revision_not_material'' else ''target_plan_changed_without_review_revision''))) (\<lambda>_.
      canonical_hash (JDict review))))))))"

end
