(* ===== verification/WalkLaws.thy ===== *)
theory WalkLaws
  imports ProjectionLaws
begin

text \<open>
  The budgeted walk over a projection decides two things at once: the shape and the contents of
  the value, node by node, and the sums of nodes and of scalar bytes.  Here they are separated:
  \<open>walk_ok\<close> has no counter, and \<open>trace\<close> lists what each node adds to the bytes.
\<close>

definition text_bytes :: "str \<Rightarrow> nat list" where
  "text_bytes s = (case utf8_codes (codes s) of Some bs \<Rightarrow> bs | None \<Rightarrow> [])"

definition text_cost :: "str \<Rightarrow> int" where
  "text_cost s = int (length (case utf8_codes (quote_codes s) of Some bs \<Rightarrow> bs | None \<Rightarrow> []))"

definition text_admitted :: "bool \<Rightarrow> str \<Rightarrow> bool" where
  "text_admitted plan_text s \<longleftrightarrow> text_ok (codes s)
     \<and> (if plan_text then slen s \<le> PLAN_TEXT_MAX_CHARS else length (text_bytes s) \<le> BUNDLE_PROJECTION_STRING_MAX_UTF8_BYTES)"

fun metric_ok :: "json \<Rightarrow> bool" where
  "metric_ok (JList xs) \<longleftrightarrow> list_all metric_ok xs"
| "metric_ok (JDict d) \<longleftrightarrow> list_all (\<lambda>p. text_admitted False (fst p) \<and> metric_ok (snd p)) d"
| "metric_ok (JStr s) \<longleftrightarrow> text_admitted False s"
| "metric_ok (JInt i) \<longleftrightarrow> \<bar>i\<bar> \<le> BUNDLE_CANONICAL_INTEGER_MAX_ABS"
| "metric_ok (JFloat f) \<longleftrightarrow> float_finite f"
| "metric_ok _ \<longleftrightarrow> True"

fun metric_trace :: "json \<Rightarrow> int list" where
  "metric_trace (JList xs) = 0 # concat (map metric_trace xs)"
| "metric_trace (JDict d) = 0 # concat (map (\<lambda>p. text_cost (fst p) # metric_trace (snd p)) d)"
| "metric_trace (JStr s) = [text_cost s]"
| "metric_trace (JInt i) = [int (length (int_codes i))]"
| "metric_trace (JFloat f) = [int (length (repr_codes f))]"
| "metric_trace (JBool b) = [if b then 4 else 5]"
| "metric_trace JNull = [4]"

definition metric_field :: "string \<Rightarrow> string \<Rightarrow> bool" where
  "metric_field t f \<longleftrightarrow> t = ''AcceptedMeasurementClosure'' \<and> f = ''metric_values''"

definition field_fits :: "string \<Rightarrow> string \<times> pval \<Rightarrow> bool" where
  "field_fits t p \<longleftrightarrow>
     (if metric_field t (fst p) then metric_tuple (snd p)
      else case field_hint t (fst p) of None \<Rightarrow> False | Some h \<Rightarrow> matches_annotation (snd p) h)"

fun walk_ok :: "bool \<Rightarrow> bool \<Rightarrow> pval \<Rightarrow> bool" where
  "walk_ok metric plan_text (PJson v) \<longleftrightarrow> metric \<and> metric_ok v"
| "walk_ok metric plan_text (PRec t fs) \<longleftrightarrow>
     t \<in> set canonical_types
     \<and> list_all (\<lambda>p. field_fits t p \<and> walk_ok (metric_field t (fst p)) (\<not> metric_field t (fst p) \<and> inherited_plan_text t (fst p)) (snd p)) fs"
| "walk_ok metric plan_text (PTuple xs) \<longleftrightarrow>
     length xs \<le> BUNDLE_PROJECTION_MAX_TUPLE_ITEMS \<and> list_all (walk_ok metric plan_text) xs \<and> distinct (filter duplicate_sensitive xs)"
| "walk_ok metric plan_text (PStr s) \<longleftrightarrow> text_admitted plan_text s"
| "walk_ok metric plan_text (PInt i) \<longleftrightarrow> \<bar>i\<bar> \<le> BUNDLE_CANONICAL_INTEGER_MAX_ABS"
| "walk_ok metric plan_text (PFloat f) \<longleftrightarrow> float_finite f"
| "walk_ok metric plan_text (PBool b) \<longleftrightarrow> True"
| "walk_ok metric plan_text PNone \<longleftrightarrow> True"

fun trace :: "pval \<Rightarrow> int list" where
  "trace (PJson v) = metric_trace v"
| "trace (PRec t fs) = 0 # concat (map (\<lambda>p. trace (snd p)) fs)"
| "trace (PTuple xs) = 0 # concat (map trace xs)"
| "trace (PStr s) = [text_cost s]"
| "trace (PInt i) = [int (length (int_codes i))]"
| "trace (PFloat f) = [int (length (repr_codes f))]"
| "trace (PBool b) = [if b then 4 else 5]"
| "trace PNone = [4]"

text \<open>Spending a trace on a budget.\<close>

definition spend :: "int \<Rightarrow> int list \<Rightarrow> budget \<Rightarrow> budget option" where
  "spend limit costs st =
     (let st' = \<lparr>nodes = nodes st + length costs, scalar_bytes = scalar_bytes st + sum_list costs\<rparr> in
      if nodes st' \<le> BUNDLE_ROOT_MAX_NODES \<and> scalar_bytes st' \<le> limit then Some st' else None)"

definition affordable :: "int \<Rightarrow> budget \<Rightarrow> bool" where
  "affordable limit st \<longleftrightarrow> nodes st \<le> BUNDLE_ROOT_MAX_NODES \<and> scalar_bytes st \<le> limit"

lemma spend_affordable: "spend limit costs st = Some st' \<Longrightarrow> affordable limit st'"
  by (auto simp: spend_def affordable_def Let_def split: if_splits)

lemma spend_nil: "affordable limit st \<Longrightarrow> spend limit [] st = Some st"
  by (simp add: spend_def affordable_def)

lemma spend_append:
  assumes "\<forall>c\<in>set ds. 0 \<le> c"
  shows "spend limit (cs @ ds) st = Some st'' \<longleftrightarrow> (\<exists>st'. spend limit cs st = Some st' \<and> spend limit ds st' = Some st'')"
proof -
  have "0 \<le> sum_list ds" using assms by (induction ds) auto
  then show ?thesis by (auto simp: spend_def Let_def)
qed

lemma metric_trace_nonneg: "c \<in> set (metric_trace v) \<Longrightarrow> 0 \<le> c"
  by (induction v) (auto simp: text_cost_def split: if_splits)

lemma trace_nonneg: "c \<in> set (trace v) \<Longrightarrow> 0 \<le> c"
  by (induction v) (auto simp: text_cost_def metric_trace_nonneg split: if_splits)

text \<open>One node, with or without a scalar.\<close>

lemma add_scalar_Inr: "add_scalar_bytes name limit st c = Inr st' \<longleftrightarrow>
    scalar_bytes st + c \<le> limit \<and> st' = st\<lparr>scalar_bytes := scalar_bytes st + c\<rparr>"
  by (auto simp: add_scalar_bytes_def Let_def)

lemma add_node_Inr: "add_node name st = Inr st' \<longleftrightarrow> nodes st < BUNDLE_ROOT_MAX_NODES \<and> st' = st\<lparr>nodes := nodes st + 1\<rparr>"
  by (auto simp: add_node_def Let_def)

lemma leaf_spend:
  "(\<exists>s. add_node name st = Inr s \<and> add_scalar_bytes name limit s c = Inr st') \<longleftrightarrow> spend limit [c] st = Some st'"
  by (cases st) (auto simp: add_scalar_Inr add_node_Inr spend_def Let_def)

lemma container_spend:
  assumes "affordable limit st"
  shows "add_node name st = Inr st' \<longleftrightarrow> spend limit [0] st = Some st'"
  using assms by (cases st) (auto simp: add_node_Inr spend_def Let_def affordable_def)

lemma encode_bytes: "encode_utf8 s = Inr b \<longleftrightarrow> text_ok (codes s) \<and> b = text_bytes s"
  by (auto simp: encode_utf8_def text_bytes_def text_ok_iff split: option.splits)

lemma text_projection: "canonical_projection_bytes (PStr s) n = Inr b \<Longrightarrow> int (length b) = text_cost s"
  by (auto simp: canonical_projection_bytes_def json_dumps_def encode_utf8_def text_cost_def split: option.splits)

lemma text_serialises: "text_ok (codes s) \<Longrightarrow> \<exists>b. canonical_projection_bytes (PStr s) n = Inr b"
  using encodable_bytes [of "JStr s"] by (auto simp: canonical_projection_bytes_def)

lemma visit_str_spend:
  "visit_str name limit pt s st = Inr st' \<longleftrightarrow> text_admitted pt s \<and> add_scalar_bytes name limit st (text_cost s) = Inr st'"
proof (cases "text_ok (codes s)")
  case True
  then obtain b where b: "canonical_projection_bytes (PStr s) (name @ '' text'') = Inr b" "int (length b) = text_cost s"
    using text_serialises text_projection by blast
  have "encode_utf8 s = Inr (text_bytes s)" using True by (simp add: encode_bytes)
  then show ?thesis
    using b True by (auto simp: visit_str_def text_admitted_def not_less)
next
  case False
  then show ?thesis by (auto simp: text_admitted_def dest: visit_str_ok)
qed

lemma visit_int_spend:
  "visit_int name limit i st = Inr st' \<longleftrightarrow> \<bar>i\<bar> \<le> BUNDLE_CANONICAL_INTEGER_MAX_ABS \<and> add_scalar_bytes name limit st (int (length (int_codes i))) = Inr st'"
  by (auto simp: visit_int_def)

lemma visit_float_spend:
  "visit_float name limit f st = Inr st' \<longleftrightarrow> float_finite f \<and> add_scalar_bytes name limit st (int (length (repr_codes f))) = Inr st'"
  by (auto simp: visit_float_def)

text \<open>Sequencing: two walks that decide and spend, one after the other.\<close>

definition walks :: "bool \<Rightarrow> int list \<Rightarrow> int \<Rightarrow> budget \<Rightarrow> budget res \<Rightarrow> bool" where
  "walks ok costs limit st r \<longleftrightarrow> (\<forall>st'. r = Inr st' \<longleftrightarrow> ok \<and> spend limit costs st = Some st')"

lemma walks_bind:
  assumes r: "walks ok cs limit st r" and f: "\<And>s. r = Inr s \<Longrightarrow> walks ok' ds limit s (f s)" and ds: "\<forall>c\<in>set ds. 0 \<le> c"
  shows "walks (ok \<and> ok') (cs @ ds) limit st (bindE r f)"
proof (unfold walks_def, intro allI)
  fix st'
  have "bindE r f = Inr st' \<longleftrightarrow> (\<exists>s. r = Inr s \<and> f s = Inr st')" by simp
  also have "\<dots> \<longleftrightarrow> (\<exists>s. r = Inr s \<and> ok' \<and> spend limit ds s = Some st')" using f unfolding walks_def by blast
  also have "\<dots> \<longleftrightarrow> (\<exists>s. ok \<and> spend limit cs st = Some s \<and> ok' \<and> spend limit ds s = Some st')" using r unfolding walks_def by blast
  also have "\<dots> \<longleftrightarrow> (ok \<and> ok') \<and> spend limit (cs @ ds) st = Some st'" unfolding spend_append [OF ds] by blast
  finally show "bindE r f = Inr st' \<longleftrightarrow> (ok \<and> ok') \<and> spend limit (cs @ ds) st = Some st'" .
qed

lemma walks_leaf:
  "walks (text_admitted pt s) [text_cost s] limit st (bindE (add_node name st) (visit_str name limit pt s))"
  "walks (\<bar>i\<bar> \<le> BUNDLE_CANONICAL_INTEGER_MAX_ABS) [int (length (int_codes i))] limit st (bindE (add_node name st) (visit_int name limit i))"
  "walks (float_finite f) [int (length (repr_codes f))] limit st (bindE (add_node name st) (visit_float name limit f))"
  "walks True [c] limit st (bindE (add_node name st) (\<lambda>s. add_scalar_bytes name limit s c))"
  by (auto simp: walks_def leaf_spend [of name, symmetric] visit_str_spend visit_int_spend visit_float_spend)

lemma walks_node: "affordable limit st \<Longrightarrow> walks True [0] limit st (add_node name st)"
  using container_spend by (simp add: walks_def)

lemma walks_nil: "affordable limit st \<Longrightarrow> walks True [] limit st (Inr st)"
  by (auto simp: walks_def spend_nil)

lemma walks_affordable: "walks ok cs limit st r \<Longrightarrow> r = Inr st' \<Longrightarrow> affordable limit st'"
  unfolding walks_def by (metis spend_affordable)

lemma walks_metric:
  "affordable limit st \<Longrightarrow> walks (metric_ok v) (metric_trace v) limit st (visit_metric name limit v st)"
  "affordable limit st \<Longrightarrow> walks (list_all metric_ok xs) (concat (map metric_trace xs)) limit st (visit_metric_list name limit xs st)"
  "affordable limit st \<Longrightarrow> walks (list_all (\<lambda>p. text_admitted False (fst p) \<and> metric_ok (snd p)) d)
     (concat (map (\<lambda>p. text_cost (fst p) # metric_trace (snd p)) d)) limit st (visit_metric_dict name limit d st)"
proof (induction name limit v st and name limit xs st and name limit d st
    rule: visit_metric_visit_metric_list_visit_metric_dict.induct)
  case (1 name limit v st0)
  note node = walks_node [OF 1(3), of name]
  show ?case
  proof (cases v)
    case (JList xs)
    have "walks (True \<and> list_all metric_ok xs) ([0] @ concat (map metric_trace xs)) limit st0
        (bindE (add_node name st0) (visit_metric_list name limit xs))"
      by (rule walks_bind [OF node 1(1)]) (auto simp: JList metric_trace_nonneg dest: walks_affordable [OF node])
    then show ?thesis by (simp add: JList)
  next
    case (JDict d)
    have "walks (True \<and> list_all (\<lambda>p. text_admitted False (fst p) \<and> metric_ok (snd p)) d)
        ([0] @ concat (map (\<lambda>p. text_cost (fst p) # metric_trace (snd p)) d)) limit st0
        (bindE (add_node name st0) (visit_metric_dict name limit d))"
      by (rule walks_bind [OF node 1(2)]) (auto simp: JDict metric_trace_nonneg text_cost_def dest: walks_affordable [OF node])
    then show ?thesis by (simp add: JDict)
  next
    case JNull
    then show ?thesis using walks_leaf(4) [of 4 limit st0 name] by simp
  next
    case (JBool b)
    then show ?thesis using walks_leaf(4) [of "if b then 4 else 5" limit st0 name] by simp
  next
    case (JInt i)
    then show ?thesis using walks_leaf(2) [of i limit st0 name] by simp
  next
    case (JFloat f)
    then show ?thesis using walks_leaf(3) [of f limit st0 name] by simp
  next
    case (JStr s)
    then show ?thesis using walks_leaf(1) [of False s limit st0 name] by simp
  qed
next
  case (3 name limit x xs st)
  have "walks (metric_ok x \<and> list_all metric_ok xs) (metric_trace x @ concat (map metric_trace xs)) limit st
      (bindE (visit_metric name limit x st) (visit_metric_list name limit xs))"
    by (rule walks_bind [OF 3(1) 3(2)])
       (use 3(3) in \<open>auto simp: metric_trace_nonneg dest: walks_affordable [OF 3(1)]\<close>)
  then show ?case by simp
next
  case (5 name limit k x d st)
  let ?ok = "list_all (\<lambda>p. text_admitted False (fst p) \<and> metric_ok (snd p)) d"
    and ?cs = "concat (map (\<lambda>p. text_cost (fst p) # metric_trace (snd p)) d)"
  have rest: "\<And>c. c \<in> set ?cs \<Longrightarrow> 0 \<le> c" by (auto simp: metric_trace_nonneg text_cost_def)
  have key: "walks (metric_ok (JStr k)) (metric_trace (JStr k)) limit st (visit_metric name limit (JStr k) st)"
    using 5(1) [OF 5(4)] .
  have "walks (metric_ok (JStr k) \<and> metric_ok x \<and> ?ok) (metric_trace (JStr k) @ metric_trace x @ ?cs) limit st
      (bindE (visit_metric name limit (JStr k) st) (\<lambda>st'. bindE (visit_metric name limit x st') (visit_metric_dict name limit d)))"
  proof (rule walks_bind [OF key walks_bind])
    fix s assume s: "visit_metric name limit (JStr k) st = Inr s"
    then have "affordable limit s" by (rule walks_affordable [OF key])
    then show elem: "walks (metric_ok x) (metric_trace x) limit s (visit_metric name limit x s)" by (rule 5(2) [OF s])
    show "walks ?ok ?cs limit s' (visit_metric_dict name limit d s')" if "visit_metric name limit x s = Inr s'" for s'
      using 5(3) [OF s that walks_affordable [OF elem that]] .
  qed (use rest metric_trace_nonneg in auto)
  then show ?case by simp
qed (simp_all add: walks_nil)

subsection \<open>The walk over records and tuples\<close>

lemma walks_guard:
  "(g \<Longrightarrow> walks ok cs limit st r) \<Longrightarrow> walks (g \<and> ok) cs limit st (if g then r else Inl e)"
  "(\<not> b \<Longrightarrow> walks ok cs limit st r) \<Longrightarrow> walks (\<not> b \<and> ok) cs limit st (if b then Inl e else r)"
  "(g \<Longrightarrow> walks ok cs limit st r) \<Longrightarrow> walks (g \<and> ok) cs limit st (if \<not> g then Inl e else r)"
  by (auto simp: walks_def)

definition items_ok :: "bool \<Rightarrow> bool \<Rightarrow> pval list \<Rightarrow> pval list \<Rightarrow> bool" where
  "items_ok metric plan_text seen xs \<longleftrightarrow>
     list_all (walk_ok metric plan_text) xs \<and> distinct (filter duplicate_sensitive xs)
     \<and> set (filter duplicate_sensitive xs) \<inter> set seen = {}"

definition fields_ok :: "string \<Rightarrow> (string \<times> pval) list \<Rightarrow> bool" where
  "fields_ok t fs \<longleftrightarrow>
     list_all (\<lambda>p. field_fits t p \<and> walk_ok (metric_field t (fst p)) (\<not> metric_field t (fst p) \<and> inherited_plan_text t (fst p)) (snd p)) fs"

lemma items_ok_Cons:
  "items_ok metric plan_text seen (x # xs) \<longleftrightarrow> walk_ok metric plan_text x
     \<and> (if duplicate_sensitive x then x \<notin> set seen \<and> items_ok metric plan_text (x # seen) xs else items_ok metric plan_text seen xs)"
  by (auto simp: items_ok_def)

lemma fields_ok_Cons:
  "fields_ok t ((f, v) # fs) \<longleftrightarrow>
     field_fits t (f, v) \<and> walk_ok (metric_field t f) (\<not> metric_field t f \<and> inherited_plan_text t f) v \<and> fields_ok t fs"
  by (simp add: fields_ok_def)

lemma traces_nonneg:
  "\<forall>c\<in>set (concat (map trace xs)). 0 \<le> c" "\<forall>c\<in>set (concat (map (\<lambda>p. trace (snd p)) fs)). 0 \<le> c"
  using trace_nonneg by auto

lemma walks_visit:
  "affordable limit st \<Longrightarrow> walks (walk_ok metric pt v) (trace v) limit st (visit name limit metric pt v st)"
  "affordable limit st \<Longrightarrow> walks (items_ok metric pt seen xs) (concat (map trace xs)) limit st (visit_items name limit metric pt seen xs st)"
  "affordable limit st \<Longrightarrow> walks (fields_ok t fs) (concat (map (\<lambda>p. trace (snd p)) fs)) limit st (visit_fields name limit t fs st)"
proof (induction name limit metric pt v st and name limit metric pt seen xs st and name limit t fs st
    rule: visit_visit_items_visit_fields.induct)
  case (1 name limit metric pt v st)
  show ?case using walks_guard(1) [OF walks_metric(1) [OF 1], of metric] by simp
next
  case (2 name limit metric pt t fs st)
  have "walks (True \<and> (\<not> \<not> List.member canonical_types t \<and> fields_ok t fs)) ([0] @ concat (map (\<lambda>p. trace (snd p)) fs)) limit st
      (visit name limit metric pt (PRec t fs) st)"
    unfolding visit.simps
  proof (rule walks_bind [OF walks_node [OF 2(2)] _ traces_nonneg(2)], rule walks_guard(2))
    fix s assume s: "add_node name st = Inr s" and g: "\<not> \<not> List.member canonical_types t"
    show "walks (fields_ok t fs) (concat (map (\<lambda>p. trace (snd p)) fs)) limit s (visit_fields name limit t fs s)"
      by (rule 2(1) [OF s g walks_affordable [OF walks_node [OF 2(2)] s]])
  qed
  then show ?case by (simp add: fields_ok_def)
next
  case (3 name limit metric pt xs st)
  have "walks (True \<and> (\<not> BUNDLE_PROJECTION_MAX_TUPLE_ITEMS < length xs \<and> items_ok metric pt [] xs)) ([0] @ concat (map trace xs)) limit st
      (visit name limit metric pt (PTuple xs) st)"
    unfolding visit.simps
  proof (rule walks_bind [OF walks_node [OF 3(2)] _ traces_nonneg(1)], rule walks_guard(2))
    fix s assume s: "add_node name st = Inr s" and g: "\<not> BUNDLE_PROJECTION_MAX_TUPLE_ITEMS < length xs"
    show "walks (items_ok metric pt [] xs) (concat (map trace xs)) limit s (visit_items name limit metric pt [] xs s)"
      by (rule 3(1) [OF s g walks_affordable [OF walks_node [OF 3(2)] s]])
  qed
  then show ?case by (simp add: items_ok_def not_less)
next
  case (10 name limit metric pt seen x xs st)
  note head = 10(1) [OF 10(4)]
  have rest: "walks (if duplicate_sensitive x then \<not> x \<in> set seen \<and> items_ok metric pt (x # seen) xs else items_ok metric pt seen xs)
      (concat (map trace xs)) limit s
      (if duplicate_sensitive x then
          (if x \<in> set seen then Inl (BundleProtocolError (name @ '' contains an exact duplicate proof''))
          else visit_items name limit metric pt (x # seen) xs s)
       else visit_items name limit metric pt seen xs s)"
    if "visit name limit metric pt x st = Inr s" for s
    using 10(2,3) [OF that] walks_affordable [OF head that] walks_guard(2) by (cases "duplicate_sensitive x") auto
  show ?case
    using walks_bind [OF head rest traces_nonneg(1)] by (simp add: items_ok_Cons)
next
  case (12 name limit t f v fs st)
  let ?more = "concat (map (\<lambda>p. trace (snd p)) fs)"
  show ?case
  proof (cases "metric_field t f")
    case True
    then have tf: "t = ''AcceptedMeasurementClosure'' \<and> f = ''metric_values''" by (simp add: metric_field_def)
    have "walks (metric_tuple v \<and> (walk_ok True False v \<and> fields_ok t fs)) (trace v @ ?more) limit st
        (visit_fields name limit t ((f, v) # fs) st)"
      unfolding visit_fields.simps if_P [OF tf]
    proof (rule walks_guard(3), rule walks_bind [OF 12(1) _ traces_nonneg(2)])
      show "walks (fields_ok t fs) ?more limit s (visit_fields name limit t fs s)"
        if "metric_tuple v" "visit name limit True False v st = Inr s" for s
        using 12(2) [OF tf] walks_affordable [OF 12(1) that(2)] that tf 12(5) by blast
    qed (use tf 12(5) in auto)
    then show ?thesis using True by (simp add: fields_ok_Cons field_fits_def del: visit_fields.simps)
  next
    case False
    then have tf: "\<not> (t = ''AcceptedMeasurementClosure'' \<and> f = ''metric_values'')" by (simp add: metric_field_def)
    let ?fits = "case field_hint t f of None \<Rightarrow> False | Some h \<Rightarrow> matches_annotation v h"
    have "walks (?fits \<and> (walk_ok False (inherited_plan_text t f) v \<and> fields_ok t fs)) (trace v @ ?more) limit st
        (visit_fields name limit t ((f, v) # fs) st)"
      unfolding visit_fields.simps if_not_P [OF tf]
    proof (rule walks_guard(3), rule walks_bind [OF 12(3) _ traces_nonneg(2)])
      show "walks (fields_ok t fs) ?more limit s (visit_fields name limit t fs s)"
        if "?fits" "visit name limit False (inherited_plan_text t f) v st = Inr s" for s
        using 12(4) [OF tf] walks_affordable [OF 12(3) that(2)] that tf 12(5) by blast
    qed (use tf 12(5) in auto)
    moreover have "field_fits t (f, v) \<longleftrightarrow> ?fits" using False unfolding field_fits_def fst_conv snd_conv by (simp only: if_False)
    ultimately show ?thesis using False by (simp add: fields_ok_Cons del: visit_fields.simps)
  qed
qed (auto simp: walks_leaf walks_nil items_ok_def fields_ok_def)

subsection \<open>Admission\<close>

text \<open>The start of the walk, and the specification of an admitted projection.\<close>

definition affordable_projection :: "int \<Rightarrow> pval \<Rightarrow> bool" where
  "affordable_projection limit v \<longleftrightarrow>
     length (trace v) \<le> BUNDLE_ROOT_MAX_NODES \<and> sum_list (trace v) \<le> limit"

lemma visit_from_start:
  assumes "1 \<le> limit"
  shows "(\<exists>st. visit name limit False False v \<lparr>nodes = 0, scalar_bytes = 0\<rparr> = Inr st)
    \<longleftrightarrow> walk_ok False False v \<and> affordable_projection limit v"
proof -
  have "affordable limit \<lparr>nodes = 0, scalar_bytes = 0\<rparr>" using assms by (simp add: affordable_def)
  from walks_visit(1) [OF this, of False False v name] show ?thesis
    by (auto simp: walks_def spend_def affordable_projection_def Let_def)
qed

lemma closed_projection_decides:
  "validate_closed_bundle_projection v name limit = Inr digest \<longleftrightarrow>
     1 \<le> limit \<and> limit \<le> BUNDLE_ROOT_MAX_SERIALIZED_BYTES \<and> walk_ok False False v \<and> affordable_projection limit v
     \<and> (\<exists>b. canonical_projection_bytes v name = Inr b \<and> int (length b) \<le> limit \<and> digest = sha256_hex b)"
proof (cases "1 \<le> limit \<and> limit \<le> BUNDLE_ROOT_MAX_SERIALIZED_BYTES")
  case True
  then show ?thesis
    using visit_from_start [of limit name v] by (auto simp: validate_closed_bundle_projection_def not_less)
next
  case False
  then show ?thesis by (auto simp: validate_closed_bundle_projection_def)
qed

text \<open>
  C23. The bounded walk admits exactly the projections it should.  A digest is returned iff the
  limit is a legal one; every record is of a known type with every field of its declared type,
  every text, number and tuple within its bounds and no proof twice in one tuple; the nodes and
  the bytes of the scalars, counted without order, stay within the two budgets; and the canonical
  text, of which the digest is taken, fits the limit.
\<close>
theorem closed_projection_iff:
  "validate_closed_bundle_projection v name limit = Inr digest \<longleftrightarrow>
     1 \<le> limit \<and> limit \<le> BUNDLE_ROOT_MAX_SERIALIZED_BYTES \<and> walk_ok False False v \<and> affordable_projection limit v
     \<and> (\<exists>b. canonical_projection_bytes v name = Inr b \<and> int (length b) \<le> limit \<and> digest = sha256_hex b)"
  by (rule closed_projection_decides)

subsection \<open>Types and contents\<close>

text \<open>What the walk checks of the types, and what it checks of the contents.\<close>

fun well_typed :: "pval \<Rightarrow> bool" where
  "well_typed (PRec t fs) \<longleftrightarrow> t \<in> set canonical_types \<and> list_all (\<lambda>p. field_fits t p \<and> well_typed (snd p)) fs"
| "well_typed (PTuple xs) \<longleftrightarrow> list_all well_typed xs"
| "well_typed _ \<longleftrightarrow> True"

fun contents_ok :: "bool \<Rightarrow> bool \<Rightarrow> pval \<Rightarrow> bool" where
  "contents_ok metric plan_text (PJson v) \<longleftrightarrow> metric \<and> metric_ok v"
| "contents_ok metric plan_text (PRec t fs) \<longleftrightarrow>
     list_all (\<lambda>p. contents_ok (metric_field t (fst p)) (\<not> metric_field t (fst p) \<and> inherited_plan_text t (fst p)) (snd p)) fs"
| "contents_ok metric plan_text (PTuple xs) \<longleftrightarrow>
     length xs \<le> BUNDLE_PROJECTION_MAX_TUPLE_ITEMS \<and> list_all (contents_ok metric plan_text) xs \<and> distinct (filter duplicate_sensitive xs)"
| "contents_ok metric plan_text (PStr s) \<longleftrightarrow> text_admitted plan_text s"
| "contents_ok metric plan_text (PInt i) \<longleftrightarrow> \<bar>i\<bar> \<le> BUNDLE_CANONICAL_INTEGER_MAX_ABS"
| "contents_ok metric plan_text (PFloat f) \<longleftrightarrow> float_finite f"
| "contents_ok metric plan_text (PBool b) \<longleftrightarrow> True"
| "contents_ok metric plan_text PNone \<longleftrightarrow> True"

lemma walk_ok_split: "walk_ok metric plan_text v \<longleftrightarrow> well_typed v \<and> contents_ok metric plan_text v"
proof (induction v arbitrary: metric plan_text)
  case (PRec t fs)
  then show ?case by (fastforce simp: list_all_iff)
next
  case (PTuple xs)
  then show ?case by (auto simp: list_all_iff)
qed simp_all

subsection \<open>Short values\<close>

text \<open>A bound of nodes, scalar bytes and canonical text that is computed from the lengths alone.\<close>

fun pv_size :: "pval \<Rightarrow> nat" where
  "pv_size PNone = 4"
| "pv_size (PBool b) = 5"
| "pv_size (PInt i) = 1 + length (int_codes i)"
| "pv_size (PFloat f) = 1 + length (repr_codes f)"
| "pv_size (PStr s) = 6 * slen s + 2"
| "pv_size (PJson v) = json_size v + length (metric_trace v) + nat (sum_list (metric_trace v))"
| "pv_size (PTuple xs) = 2 + sum_list (map (\<lambda>x. pv_size x + 1) xs)"
| "pv_size (PRec t fs) = 2 + sum_list (map (\<lambda>p. 6 * length (fst p) + pv_size (snd p) + 4) fs)"

lemma sum_list_filter_le: "sum_list (map f (filter P xs)) \<le> sum_list (map f xs)" for f :: "'a \<Rightarrow> nat"
  by (induction xs) auto

lemma json_size_le: "json_size (projection_plain_value v) \<le> pv_size v"
proof (induction v)
  case (PTuple xs)
  then show ?case by (auto simp: comp_def intro!: sum_list_mono)
next
  case (PRec t fs)
  let ?f = "\<lambda>p. 6 * length (fst p) + json_size (projection_plain_value (snd p)) + 4"
  have "sum_list (map ?f (filter (\<lambda>p. \<not> drops_field t p) fs)) \<le> sum_list (map ?f fs)" by (rule sum_list_filter_le)
  also have "\<dots> \<le> sum_list (map (\<lambda>p. 6 * length (fst p) + pv_size (snd p) + 4) fs)"
    using PRec by (intro sum_list_mono) fastforce
  finally show ?case by (simp add: comp_def slen_def)
qed simp_all

lemma text_cost_le: "text_cost s \<le> int (4 * (6 * slen s + 2))"
proof -
  have "length bs \<le> 4 * length (quote_codes s)" if "utf8_codes (quote_codes s) = Some bs" for bs
    using utf8_codes_bound [OF that] by simp
  then show ?thesis using length_quote_codes [of s] by (fastforce simp: text_cost_def split: option.splits)
qed

lemma sum_concat_le:
  assumes "\<And>x. x \<in> set xs \<Longrightarrow> sum_list (f x) \<le> 4 * int (g x)" and "\<And>x. g x \<le> h x"
  shows "sum_list (concat (map f xs)) \<le> 4 * int (sum_list (map h xs))"
  using assms(1)
proof (induction xs)
  case (Cons x xs)
  have "sum_list (f x) \<le> 4 * int (g x)" "sum_list (concat (map f xs)) \<le> 4 * int (sum_list (map h xs))" using Cons by simp_all
  then show ?case using assms(2) [of x] by simp
qed simp

lemma trace_bounds: "length (trace v) \<le> pv_size v" "sum_list (trace v) \<le> 4 * int (pv_size v)"
proof (induction v)
  case (PStr s)
  { case 1 show ?case by simp }
  { case 2 show ?case using text_cost_le [of s] by simp }
next
  case (PTuple xs)
  { case 1
    have "length (concat (map trace xs)) \<le> sum_list (map (\<lambda>x. pv_size x + 1) xs)"
      unfolding length_concat map_map comp_def by (rule sum_list_mono) (fastforce dest: PTuple(1))
    then show ?case by simp }
  { case 2
    have "sum_list (concat (map trace xs)) \<le> 4 * int (sum_list (map (\<lambda>x. pv_size x + 1) xs))"
      by (rule sum_concat_le [OF PTuple(2)]) simp_all
    then show ?case by simp }
next
  case (PRec t fs)
  { case 1
    have "length (concat (map (\<lambda>p. trace (snd p)) fs)) \<le> sum_list (map (\<lambda>p. 6 * length (fst p) + pv_size (snd p) + 4) fs)"
      unfolding length_concat map_map comp_def by (rule sum_list_mono) (fastforce dest: PRec(1))
    then show ?case by simp }
  { case 2
    have "sum_list (concat (map (\<lambda>p. trace (snd p)) fs)) \<le> 4 * int (sum_list (map (\<lambda>p. 6 * length (fst p) + pv_size (snd p) + 4) fs))"
      by (rule sum_concat_le [where g = "\<lambda>p. pv_size (snd p)"]) (auto intro: PRec(2) simp: snds.simps)
    then show ?case by simp }
qed simp_all

lemma closed_projection_sized:
  assumes "well_typed v" and "contents_ok False False v" and "pv_size v \<le> 65536"
    and "1 \<le> limit" and "4 * int (pv_size v) \<le> limit" and "limit \<le> BUNDLE_ROOT_MAX_SERIALIZED_BYTES"
  shows "\<exists>d. validate_closed_bundle_projection v name limit = Inr d"
proof -
  have ok: "walk_ok False False v" using assms by (simp add: walk_ok_split)
  then have "affordable_projection limit v"
    using trace_bounds [of v] assms(3-5)
    by (simp add: affordable_projection_def BUNDLE_ROOT_MAX_NODES_def)
  moreover obtain st where "visit name limit False False v \<lparr>nodes = 0, scalar_bytes = 0\<rparr> = Inr st"
    using visit_from_start [of limit name v] calculation ok assms(4) by auto
  ultimately show ?thesis
    using closed_projection_admits [of name limit v] json_size_le [of v] assms(3-6) by fastforce
qed

lemma closed_projection_short:
  assumes "well_typed v" and "contents_ok False False v" and "pv_size v \<le> 16384"
    and "65536 \<le> limit" and "limit \<le> BUNDLE_ROOT_MAX_SERIALIZED_BYTES"
  shows "\<exists>d. validate_closed_bundle_projection v name limit = Inr d"
  using assms by (intro closed_projection_sized) simp_all

end
