(* ===== verification/RecordShapes.thy ===== *)
theory RecordShapes
  imports WalkLaws
begin

text \<open>
  The records of the Bundle protocol as projections: each is of a known type and its fields are of
  the declared types, so the walk can reject a record only for its contents.
\<close>

definition typed_as :: "string \<Rightarrow> pval \<Rightarrow> bool" where
  "typed_as t v \<longleftrightarrow> well_typed v \<and> (\<exists>fs. v = PRec t fs)"

lemma typed_asD: "typed_as t v \<Longrightarrow> well_typed v" "typed_as t v \<Longrightarrow> matches_annotation v (ARec t)"
  by (auto simp: typed_as_def)

lemma well_typed_shapes [simp]:
  "well_typed (pv_strs xs)"
  "well_typed (pv_opt f w) \<longleftrightarrow> (\<forall>x. w = Some x \<longrightarrow> well_typed (f x))"
  by (auto simp: pv_strs_def list_all_iff pv_opt_def split: option.splits)

lemma matches_shapes:
  "matches_annotation (PStr s) AStr" "matches_annotation (PInt i) AInt" "matches_annotation (PBool b) ABool"
  "matches_annotation (PTuple xs) (ATuple a) \<longleftrightarrow> (\<forall>x\<in>set xs. matches_annotation x a)"
  "matches_annotation (PTuple [x, y]) (AFixed [a, a']) \<longleftrightarrow> matches_annotation x a \<and> matches_annotation y a'"
  "matches_annotation (pv_strs ss) (ATuple AStr)"
  "matches_annotation (pv_opt f w) (AUnion [a, ANone]) \<longleftrightarrow> (\<forall>x. w = Some x \<longrightarrow> matches_annotation (f x) a \<or> f x = PNone)"
  "typed_as t v \<Longrightarrow> matches_annotation v (ARec t)"
  by (auto simp: pv_strs_def list_all_iff pv_opt_def typed_as_def split: option.splits)

lemma matches_union: "typed_as t v \<Longrightarrow> ARec t \<in> set as \<Longrightarrow> matches_annotation v (AUnion as)"
proof -
  assume t: "typed_as t v"
  have "ARec t \<in> set as \<Longrightarrow> matches_any v as" using t by (induction as) (auto simp: typed_as_def)
  then show "ARec t \<in> set as \<Longrightarrow> ?thesis" by simp
qed

lemma typed_asI:
  assumes "map_of type_hints t = Some hints"
    and "list_all (\<lambda>p. (if metric_field t (fst p) then metric_tuple (snd p)
           else case map_of hints (fst p) of None \<Rightarrow> False | Some h \<Rightarrow> matches_annotation (snd p) h) \<and> well_typed (snd p)) fs"
  shows "typed_as t (PRec t fs)"
  using assms by (auto simp: typed_as_def field_fits_def field_hint_of canonical_type_of list_all_iff)

lemmas shape_simps = metric_field_def list_all_iff

lemma type_hints_of:
  "map_of type_hints ''StageRunRequest'' = Some hints_StageRunRequest"
  "map_of type_hints ''HeldFixedBinding'' = Some hints_HeldFixedBinding"
  "map_of type_hints ''ContentBindingProof'' = Some hints_ContentBindingProof"
  "map_of type_hints ''ReceiptProof'' = Some hints_ReceiptProof"
  "map_of type_hints ''ExperimentBrief'' = Some hints_ExperimentBrief"
  "map_of type_hints ''FormalPlan'' = Some hints_FormalPlan"
  "map_of type_hints ''CodeReviewRecord'' = Some hints_CodeReviewRecord"
  "map_of type_hints ''RevisionEvidenceProof'' = Some hints_RevisionEvidenceProof"
  "map_of type_hints ''ResultReviewRecord'' = Some hints_ResultReviewRecord"
  "map_of type_hints ''CodeReviewScope'' = Some hints_CodeReviewScope"
  "map_of type_hints ''TargetExecutionPreflight'' = Some hints_TargetExecutionPreflight"
  "map_of type_hints ''ProtocolAggregationProof'' = Some hints_ProtocolAggregationProof"
  "map_of type_hints ''ProtocolPart'' = Some hints_ProtocolPart"
  "map_of type_hints ''RouteSpec'' = Some hints_RouteSpec"
  "map_of type_hints ''TargetCandidate'' = Some hints_TargetCandidate"
  "map_of type_hints ''StrategyUpdate'' = Some hints_StrategyUpdate"
  "map_of type_hints ''TargetBinding'' = Some hints_TargetBinding"
  "map_of type_hints ''AcceptedInputAssetProof'' = Some hints_AcceptedInputAssetProof"
  "map_of type_hints ''TargetWorkHandle'' = Some hints_TargetWorkHandle"
  "map_of type_hints ''TargetLaunchRequest'' = Some hints_TargetLaunchRequest"
  "map_of type_hints ''TargetLaunchAck'' = Some hints_TargetLaunchAck"
  "map_of type_hints ''TargetControlRequest'' = Some hints_TargetControlRequest"
  "map_of type_hints ''TargetControlAck'' = Some hints_TargetControlAck"
  "map_of type_hints ''TargetFrontierEntry'' = Some hints_TargetFrontierEntry"
  "map_of type_hints ''StopDecisionProof'' = Some hints_StopDecisionProof"
  "map_of type_hints ''MonitorObservation'' = Some hints_MonitorObservation"
  "map_of type_hints ''TechnicalBlocker'' = Some hints_TechnicalBlocker"
  "map_of type_hints ''ExecutionInputBindingProof'' = Some hints_ExecutionInputBindingProof"
  "map_of type_hints ''AcceptedMeasurementClosure'' = Some hints_AcceptedMeasurementClosure"
  "map_of type_hints ''ExternalOperationReconciliation'' = Some hints_ExternalOperationReconciliation"
  "map_of type_hints ''RouteDisposition'' = Some hints_RouteDisposition"
  "map_of type_hints ''SemanticBarrier'' = Some hints_SemanticBarrier"
  "map_of type_hints ''GoalWorkDisposition'' = Some hints_GoalWorkDisposition"
  "map_of type_hints ''TargetRunHandoff'' = Some hints_TargetRunHandoff"
  "map_of type_hints ''TargetWorkNotice'' = Some hints_TargetWorkNotice"
  "map_of type_hints ''BundleInboxBatch'' = Some hints_BundleInboxBatch"
  "map_of type_hints ''BundlePause'' = Some hints_BundlePause"
  "map_of type_hints ''BundleReport'' = Some hints_BundleReport"
  by (simp_all add: type_hints_def)

subsection \<open>Every record has its type\<close>

lemma typed_StageRunRequest [simp]: "typed_as ''StageRunRequest'' (pv_StageRunRequest r)"
  unfolding pv_StageRunRequest_def by (rule typed_asI [OF type_hints_of(1)]) (simp add: hints_StageRunRequest_def shape_simps matches_shapes del: matches_annotation.simps)

lemmas well_typed_StageRunRequest [simp] = typed_StageRunRequest [THEN typed_asD(1)]

lemma typed_HeldFixedBinding [simp]: "typed_as ''HeldFixedBinding'' (pv_HeldFixedBinding r)"
  unfolding pv_HeldFixedBinding_def by (rule typed_asI [OF type_hints_of(2)]) (simp add: hints_HeldFixedBinding_def shape_simps matches_shapes del: matches_annotation.simps)

lemmas well_typed_HeldFixedBinding [simp] = typed_HeldFixedBinding [THEN typed_asD(1)]

lemma typed_ContentBindingProof [simp]: "typed_as ''ContentBindingProof'' (pv_ContentBindingProof r)"
  unfolding pv_ContentBindingProof_def by (rule typed_asI [OF type_hints_of(3)]) (simp add: hints_ContentBindingProof_def shape_simps matches_shapes del: matches_annotation.simps)

lemmas well_typed_ContentBindingProof [simp] = typed_ContentBindingProof [THEN typed_asD(1)]

lemma typed_ReceiptProof [simp]: "typed_as ''ReceiptProof'' (pv_ReceiptProof r)"
  unfolding pv_ReceiptProof_def by (rule typed_asI [OF type_hints_of(4)]) (simp add: hints_ReceiptProof_def shape_simps matches_shapes del: matches_annotation.simps)

lemmas well_typed_ReceiptProof [simp] = typed_ReceiptProof [THEN typed_asD(1)]

lemma typed_ExperimentBrief [simp]: "typed_as ''ExperimentBrief'' (pv_ExperimentBrief r)"
  unfolding pv_ExperimentBrief_def by (rule typed_asI [OF type_hints_of(5)]) (simp add: hints_ExperimentBrief_def shape_simps matches_shapes del: matches_annotation.simps)

lemmas well_typed_ExperimentBrief [simp] = typed_ExperimentBrief [THEN typed_asD(1)]

lemma typed_FormalPlan [simp]: "typed_as ''FormalPlan'' (pv_FormalPlan r)"
  unfolding pv_FormalPlan_def by (rule typed_asI [OF type_hints_of(6)]) (simp add: hints_FormalPlan_def shape_simps matches_shapes del: matches_annotation.simps)

lemmas well_typed_FormalPlan [simp] = typed_FormalPlan [THEN typed_asD(1)]

lemma typed_CodeReviewRecord [simp]: "typed_as ''CodeReviewRecord'' (pv_CodeReviewRecord r)"
  unfolding pv_CodeReviewRecord_def by (rule typed_asI [OF type_hints_of(7)]) (simp add: hints_CodeReviewRecord_def shape_simps matches_shapes del: matches_annotation.simps)

lemmas well_typed_CodeReviewRecord [simp] = typed_CodeReviewRecord [THEN typed_asD(1)]

lemma typed_RevisionEvidenceProof [simp]: "typed_as ''RevisionEvidenceProof'' (pv_RevisionEvidenceProof r)"
  unfolding pv_RevisionEvidenceProof_def by (rule typed_asI [OF type_hints_of(8)]) (simp add: hints_RevisionEvidenceProof_def shape_simps matches_shapes del: matches_annotation.simps)

lemmas well_typed_RevisionEvidenceProof [simp] = typed_RevisionEvidenceProof [THEN typed_asD(1)]

lemma typed_ResultReviewRecord [simp]: "typed_as ''ResultReviewRecord'' (pv_ResultReviewRecord r)"
  unfolding pv_ResultReviewRecord_def by (rule typed_asI [OF type_hints_of(9)]) (simp add: hints_ResultReviewRecord_def shape_simps matches_shapes del: matches_annotation.simps)

lemmas well_typed_ResultReviewRecord [simp] = typed_ResultReviewRecord [THEN typed_asD(1)]

lemma typed_CodeReviewScope [simp]: "typed_as ''CodeReviewScope'' (pv_CodeReviewScope r)"
  unfolding pv_CodeReviewScope_def by (rule typed_asI [OF type_hints_of(10)]) (simp add: hints_CodeReviewScope_def shape_simps matches_shapes del: matches_annotation.simps)

lemmas well_typed_CodeReviewScope [simp] = typed_CodeReviewScope [THEN typed_asD(1)]

lemma typed_TargetExecutionPreflight [simp]: "typed_as ''TargetExecutionPreflight'' (pv_TargetExecutionPreflight r)"
  unfolding pv_TargetExecutionPreflight_def by (rule typed_asI [OF type_hints_of(11)]) (simp add: hints_TargetExecutionPreflight_def shape_simps matches_shapes del: matches_annotation.simps)

lemmas well_typed_TargetExecutionPreflight [simp] = typed_TargetExecutionPreflight [THEN typed_asD(1)]

lemma typed_ProtocolAggregationProof [simp]: "typed_as ''ProtocolAggregationProof'' (pv_ProtocolAggregationProof r)"
  unfolding pv_ProtocolAggregationProof_def by (rule typed_asI [OF type_hints_of(12)]) (simp add: hints_ProtocolAggregationProof_def shape_simps matches_shapes del: matches_annotation.simps)

lemmas well_typed_ProtocolAggregationProof [simp] = typed_ProtocolAggregationProof [THEN typed_asD(1)]

lemma typed_ProtocolPart [simp]: "typed_as ''ProtocolPart'' (pv_ProtocolPart r)"
  unfolding pv_ProtocolPart_def by (rule typed_asI [OF type_hints_of(13)]) (simp add: hints_ProtocolPart_def shape_simps matches_shapes del: matches_annotation.simps)

lemmas well_typed_ProtocolPart [simp] = typed_ProtocolPart [THEN typed_asD(1)]

lemma typed_RouteSpec [simp]: "typed_as ''RouteSpec'' (pv_RouteSpec r)"
  unfolding pv_RouteSpec_def by (rule typed_asI [OF type_hints_of(14)]) (simp add: hints_RouteSpec_def shape_simps matches_shapes del: matches_annotation.simps)

lemmas well_typed_RouteSpec [simp] = typed_RouteSpec [THEN typed_asD(1)]

lemma typed_TargetCandidate [simp]: "typed_as ''TargetCandidate'' (pv_TargetCandidate r)"
  unfolding pv_TargetCandidate_def by (rule typed_asI [OF type_hints_of(15)]) (simp add: hints_TargetCandidate_def shape_simps matches_shapes del: matches_annotation.simps)

lemmas well_typed_TargetCandidate [simp] = typed_TargetCandidate [THEN typed_asD(1)]

lemma typed_StrategyUpdate [simp]: "typed_as ''StrategyUpdate'' (pv_StrategyUpdate r)"
  unfolding pv_StrategyUpdate_def by (rule typed_asI [OF type_hints_of(16)]) (simp add: hints_StrategyUpdate_def shape_simps matches_shapes del: matches_annotation.simps)

lemmas well_typed_StrategyUpdate [simp] = typed_StrategyUpdate [THEN typed_asD(1)]

lemma typed_TargetBinding [simp]: "typed_as ''TargetBinding'' (pv_TargetBinding r)"
  unfolding pv_TargetBinding_def by (rule typed_asI [OF type_hints_of(17)]) (simp add: hints_TargetBinding_def shape_simps matches_shapes del: matches_annotation.simps)

lemmas well_typed_TargetBinding [simp] = typed_TargetBinding [THEN typed_asD(1)]

lemma typed_AcceptedInputAssetProof [simp]: "typed_as ''AcceptedInputAssetProof'' (pv_AcceptedInputAssetProof r)"
  unfolding pv_AcceptedInputAssetProof_def by (rule typed_asI [OF type_hints_of(18)]) (simp add: hints_AcceptedInputAssetProof_def shape_simps matches_shapes del: matches_annotation.simps)

lemmas well_typed_AcceptedInputAssetProof [simp] = typed_AcceptedInputAssetProof [THEN typed_asD(1)]

lemma typed_TargetWorkHandle [simp]: "typed_as ''TargetWorkHandle'' (pv_TargetWorkHandle r)"
  unfolding pv_TargetWorkHandle_def by (rule typed_asI [OF type_hints_of(19)]) (simp add: hints_TargetWorkHandle_def shape_simps matches_shapes del: matches_annotation.simps)

lemmas well_typed_TargetWorkHandle [simp] = typed_TargetWorkHandle [THEN typed_asD(1)]

lemma typed_TargetLaunchRequest [simp]: "typed_as ''TargetLaunchRequest'' (pv_TargetLaunchRequest r)"
  unfolding pv_TargetLaunchRequest_def by (rule typed_asI [OF type_hints_of(20)]) (simp add: hints_TargetLaunchRequest_def shape_simps matches_shapes del: matches_annotation.simps)

lemmas well_typed_TargetLaunchRequest [simp] = typed_TargetLaunchRequest [THEN typed_asD(1)]

lemma typed_TargetLaunchAck [simp]: "typed_as ''TargetLaunchAck'' (pv_TargetLaunchAck r)"
  unfolding pv_TargetLaunchAck_def by (rule typed_asI [OF type_hints_of(21)]) (simp add: hints_TargetLaunchAck_def shape_simps matches_shapes del: matches_annotation.simps)

lemmas well_typed_TargetLaunchAck [simp] = typed_TargetLaunchAck [THEN typed_asD(1)]

lemma typed_TargetControlRequest [simp]: "typed_as ''TargetControlRequest'' (pv_TargetControlRequest r)"
  unfolding pv_TargetControlRequest_def by (rule typed_asI [OF type_hints_of(22)]) (simp add: hints_TargetControlRequest_def shape_simps matches_shapes del: matches_annotation.simps)

lemmas well_typed_TargetControlRequest [simp] = typed_TargetControlRequest [THEN typed_asD(1)]

lemma typed_TargetControlAck [simp]: "typed_as ''TargetControlAck'' (pv_TargetControlAck r)"
  unfolding pv_TargetControlAck_def by (rule typed_asI [OF type_hints_of(23)]) (simp add: hints_TargetControlAck_def shape_simps matches_shapes del: matches_annotation.simps)

lemmas well_typed_TargetControlAck [simp] = typed_TargetControlAck [THEN typed_asD(1)]

lemma typed_TargetFrontierEntry [simp]: "typed_as ''TargetFrontierEntry'' (pv_TargetFrontierEntry r)"
  unfolding pv_TargetFrontierEntry_def by (rule typed_asI [OF type_hints_of(24)]) (simp add: hints_TargetFrontierEntry_def shape_simps matches_shapes del: matches_annotation.simps)

lemmas well_typed_TargetFrontierEntry [simp] = typed_TargetFrontierEntry [THEN typed_asD(1)]

lemma typed_StopDecisionProof [simp]: "typed_as ''StopDecisionProof'' (pv_StopDecisionProof r)"
  unfolding pv_StopDecisionProof_def by (rule typed_asI [OF type_hints_of(25)]) (simp add: hints_StopDecisionProof_def shape_simps matches_shapes del: matches_annotation.simps)

lemmas well_typed_StopDecisionProof [simp] = typed_StopDecisionProof [THEN typed_asD(1)]

lemma typed_MonitorObservation [simp]: "typed_as ''MonitorObservation'' (pv_MonitorObservation r)"
  unfolding pv_MonitorObservation_def by (rule typed_asI [OF type_hints_of(26)]) (simp add: hints_MonitorObservation_def shape_simps matches_shapes del: matches_annotation.simps)

lemmas well_typed_MonitorObservation [simp] = typed_MonitorObservation [THEN typed_asD(1)]

lemma typed_TechnicalBlocker [simp]: "typed_as ''TechnicalBlocker'' (pv_TechnicalBlocker r)"
  unfolding pv_TechnicalBlocker_def by (rule typed_asI [OF type_hints_of(27)]) (simp add: hints_TechnicalBlocker_def shape_simps matches_shapes del: matches_annotation.simps)

lemmas well_typed_TechnicalBlocker [simp] = typed_TechnicalBlocker [THEN typed_asD(1)]

lemma typed_ExecutionInputBindingProof [simp]: "typed_as ''ExecutionInputBindingProof'' (pv_ExecutionInputBindingProof r)"
  unfolding pv_ExecutionInputBindingProof_def by (rule typed_asI [OF type_hints_of(28)]) (simp add: hints_ExecutionInputBindingProof_def shape_simps matches_shapes del: matches_annotation.simps)

lemmas well_typed_ExecutionInputBindingProof [simp] = typed_ExecutionInputBindingProof [THEN typed_asD(1)]

lemma typed_AcceptedMeasurementClosure [simp]:
  "typed_as ''AcceptedMeasurementClosure'' (pv_AcceptedMeasurementClosure r) \<longleftrightarrow> list_all valid_target_metric_value (amc_metric_values r)"
proof
  assume "typed_as ''AcceptedMeasurementClosure'' (pv_AcceptedMeasurementClosure r)"
  then show "list_all valid_target_metric_value (amc_metric_values r)"
    by (simp add: typed_as_def pv_AcceptedMeasurementClosure_def field_fits_def metric_field_def metric_tuple_def list_all_iff)
next
  assume "list_all valid_target_metric_value (amc_metric_values r)"
  then show "typed_as ''AcceptedMeasurementClosure'' (pv_AcceptedMeasurementClosure r)"
    unfolding pv_AcceptedMeasurementClosure_def
    by (intro typed_asI [OF type_hints_of(29)]) (simp add: hints_AcceptedMeasurementClosure_def shape_simps metric_tuple_def matches_shapes del: matches_annotation.simps)
qed

lemma typed_ExternalOperationReconciliation [simp]: "typed_as ''ExternalOperationReconciliation'' (pv_ExternalOperationReconciliation r)"
  unfolding pv_ExternalOperationReconciliation_def by (rule typed_asI [OF type_hints_of(30)]) (simp add: hints_ExternalOperationReconciliation_def shape_simps matches_shapes del: matches_annotation.simps)

lemmas well_typed_ExternalOperationReconciliation [simp] = typed_ExternalOperationReconciliation [THEN typed_asD(1)]

lemma typed_RouteDisposition [simp]: "typed_as ''RouteDisposition'' (pv_RouteDisposition r)"
  unfolding pv_RouteDisposition_def by (rule typed_asI [OF type_hints_of(31)]) (simp add: hints_RouteDisposition_def shape_simps matches_shapes del: matches_annotation.simps)

lemmas well_typed_RouteDisposition [simp] = typed_RouteDisposition [THEN typed_asD(1)]

lemma typed_SemanticBarrier [simp]: "typed_as ''SemanticBarrier'' (pv_SemanticBarrier r)"
  unfolding pv_SemanticBarrier_def by (rule typed_asI [OF type_hints_of(32)]) (simp add: hints_SemanticBarrier_def shape_simps matches_shapes del: matches_annotation.simps)

lemmas well_typed_SemanticBarrier [simp] = typed_SemanticBarrier [THEN typed_asD(1)]

lemma typed_GoalWorkDisposition [simp]: "typed_as ''GoalWorkDisposition'' (pv_GoalWorkDisposition r)"
  unfolding pv_GoalWorkDisposition_def by (rule typed_asI [OF type_hints_of(33)]) (simp add: hints_GoalWorkDisposition_def shape_simps matches_shapes del: matches_annotation.simps)

lemmas well_typed_GoalWorkDisposition [simp] = typed_GoalWorkDisposition [THEN typed_asD(1)]

definition terminal_metrics_valid :: "TargetTerminal \<Rightarrow> bool" where
  "terminal_metrics_valid t \<longleftrightarrow> (\<forall>c. t = Term_AcceptedMeasurementClosure c \<longrightarrow> list_all valid_target_metric_value (amc_metric_values c))"

lemma typed_TargetTerminal [simp]:
  assumes "terminal_metrics_valid t"
  shows "well_typed (pv_TargetTerminal t)"
    and "matches_annotation (pv_TargetTerminal t) (AUnion
      [ARec ''TechnicalBlocker'', ARec ''AcceptedMeasurementClosure'', ARec ''SemanticBarrier'', ARec ''GoalWorkDisposition''])"
proof -
  have "\<exists>k. typed_as k (pv_TargetTerminal t)
      \<and> ARec k \<in> set [ARec ''TechnicalBlocker'', ARec ''AcceptedMeasurementClosure'', ARec ''SemanticBarrier'', ARec ''GoalWorkDisposition'']"
  proof (cases t)
    case (Term_TechnicalBlocker x)
    then show ?thesis by (intro exI [of _ "''TechnicalBlocker''"]) simp
  next
    case (Term_AcceptedMeasurementClosure x)
    then show ?thesis using assms by (intro exI [of _ "''AcceptedMeasurementClosure''"]) (simp add: terminal_metrics_valid_def)
  next
    case (Term_SemanticBarrier x)
    then show ?thesis by (intro exI [of _ "''SemanticBarrier''"]) simp
  next
    case (Term_GoalWorkDisposition x)
    then show ?thesis by (intro exI [of _ "''GoalWorkDisposition''"]) simp
  qed
  then obtain k where k: "typed_as k (pv_TargetTerminal t)" "ARec k \<in> set [ARec ''TechnicalBlocker'',
      ARec ''AcceptedMeasurementClosure'', ARec ''SemanticBarrier'', ARec ''GoalWorkDisposition'']" by blast
  show "well_typed (pv_TargetTerminal t)" using k(1) by (rule typed_asD)
  show "matches_annotation (pv_TargetTerminal t) (AUnion
      [ARec ''TechnicalBlocker'', ARec ''AcceptedMeasurementClosure'', ARec ''SemanticBarrier'', ARec ''GoalWorkDisposition''])"
    using k by (rule matches_union)
qed

lemma typed_TargetRunHandoff: "terminal_metrics_valid (trh_terminal r) \<Longrightarrow> typed_as ''TargetRunHandoff'' (pv_TargetRunHandoff r)"
  unfolding pv_TargetRunHandoff_def by (rule typed_asI [OF type_hints_of(34)]) (simp add: hints_TargetRunHandoff_def shape_simps matches_shapes del: matches_annotation.simps)

lemma typed_TargetWorkNotice [simp]: "typed_as ''TargetWorkNotice'' (pv_TargetWorkNotice r)"
  unfolding pv_TargetWorkNotice_def by (rule typed_asI [OF type_hints_of(35)]) (simp add: hints_TargetWorkNotice_def shape_simps matches_shapes del: matches_annotation.simps)

lemmas well_typed_TargetWorkNotice [simp] = typed_TargetWorkNotice [THEN typed_asD(1)]

lemma typed_BundleInboxBatch [simp]: "typed_as ''BundleInboxBatch'' (pv_BundleInboxBatch r)"
  unfolding pv_BundleInboxBatch_def by (rule typed_asI [OF type_hints_of(36)]) (simp add: hints_BundleInboxBatch_def shape_simps matches_shapes del: matches_annotation.simps)

lemmas well_typed_BundleInboxBatch [simp] = typed_BundleInboxBatch [THEN typed_asD(1)]

lemma typed_BundlePause [simp]: "typed_as ''BundlePause'' (pv_BundlePause r)"
  unfolding pv_BundlePause_def by (rule typed_asI [OF type_hints_of(37)]) (simp add: hints_BundlePause_def shape_simps matches_shapes del: matches_annotation.simps)

lemmas well_typed_BundlePause [simp] = typed_BundlePause [THEN typed_asD(1)]

lemma typed_BundleReport [simp]: "typed_as ''BundleReport'' (pv_BundleReport r)"
  unfolding pv_BundleReport_def by (rule typed_asI [OF type_hints_of(38)]) (simp add: hints_BundleReport_def shape_simps matches_shapes del: matches_annotation.simps)

lemmas well_typed_BundleReport [simp] = typed_BundleReport [THEN typed_asD(1)]

lemma well_typed_closure: "well_typed (pv_AcceptedMeasurementClosure c) \<longleftrightarrow> list_all valid_target_metric_value (amc_metric_values c)"
  using typed_AcceptedMeasurementClosure [of c] unfolding typed_as_def pv_AcceptedMeasurementClosure_def by blast

lemma well_typed_handoff: "well_typed (pv_TargetRunHandoff h) \<longleftrightarrow> terminal_metrics_valid (trh_terminal h)"
proof
  assume "well_typed (pv_TargetRunHandoff h)"
  then have "well_typed (pv_TargetTerminal (trh_terminal h))" by (simp add: pv_TargetRunHandoff_def)
  then show "terminal_metrics_valid (trh_terminal h)"
    unfolding terminal_metrics_valid_def by (auto simp: well_typed_closure)
qed (rule typed_asD(1) [OF typed_TargetRunHandoff])

end
