(* ===== verification/BundleContractLaws.thy ===== *)
theory BundleContractLaws
  imports BundleContract StrategyRun RecordShapes
begin

text \<open>
  Laws of the Target plan, of its review and of the error codes; and the progress that a rolling
  strategy can always make: once its candidates cover the Plan it can be sealed.
\<close>

subsection \<open>Machine codes\<close>

lemma bundle_error_code_machine: "machine_code (bundle_error_code d)"
  by (auto simp: bundle_error_code_def lower_char_def code_char_def)

lemma machine_code_fix: "machine_code d \<Longrightarrow> bundle_error_code d = d"
  by (simp add: bundle_error_code_def)

lemma machine_code_length: "machine_code d \<Longrightarrow> 1 \<le> length d \<and> length d \<le> 96"
  by (cases d) auto

subsection \<open>Sealing\<close>

definition sealing_update :: "RollingStrategyState \<Rightarrow> FormalStrategyUpdate" where
  "sealing_update state =
     \<lparr>fsu_update = \<lparr>su_revision = revision state + 1, su_candidates = [], su_requires_accepted_labels = [], su_strategy_complete = True\<rparr>,
      fsu_candidates = [], fsu_schema_ref = L FORMAL_STRATEGY_UPDATE_SCHEMA_REF, fsu_notes = None\<rparr>"

lemma digits_length: "n < 10 ^ k \<Longrightarrow> 0 < k \<Longrightarrow> length (nat_codes n) \<le> k"
proof (induction k arbitrary: n)
  case (Suc k)
  show ?case
  proof (cases "n < 10")
    case False
    then have "0 < k" using Suc.prems by (cases k) auto
    moreover have "n div 10 < 10 ^ k" using Suc.prems(1) by (simp add: less_mult_imp_div_less mult.commute)
    ultimately show ?thesis using Suc.IH [of "n div 10"] False by (subst nat_codes.simps) simp
  qed (subst nat_codes.simps, simp)
qed simp

lemma length_int_codes:
  assumes "\<bar>i\<bar> \<le> BUNDLE_CANONICAL_INTEGER_MAX_ABS"
  shows "length (int_codes i) \<le> 20"
proof -
  have "nat \<bar>i\<bar> < 10 ^ 19" using assms by (simp add: BUNDLE_CANONICAL_INTEGER_MAX_ABS_def nat_less_iff)
  from digits_length [OF this] show ?thesis by (cases "i < 0") (simp_all add: int_codes_def)
qed

lemma sealing_update_valid:
  assumes "0 \<le> revision state" and "revision state < BUNDLE_CANONICAL_INTEGER_MAX_ABS"
  shows "validate_update_pair (sealing_update state) contract = Inr ()"
proof -
  have "\<exists>d. validate_closed_bundle_projection (pv_StrategyUpdate (fsu_update (sealing_update state))) ''StrategyUpdate''
      BUNDLE_ROOT_MAX_SERIALIZED_BYTES = Inr d"
  proof (rule closed_projection_short)
    show "contents_ok False False (pv_StrategyUpdate (fsu_update (sealing_update state)))"
      using assms
      by (simp add: pv_StrategyUpdate_def sealing_update_def pv_strs_def metric_field_def)
    show "pv_size (pv_StrategyUpdate (fsu_update (sealing_update state))) \<le> 16384"
      using length_int_codes [of "revision state + 1"] assms
      by (simp add: pv_StrategyUpdate_def sealing_update_def pv_strs_def)
  qed (simp_all add: BUNDLE_ROOT_MAX_SERIALIZED_BYTES_def)
  then show ?thesis
    using assms by (auto simp: validate_update_pair_def sealing_update_def positive_int_Inr string_list_iff jstrs_def)
qed

text \<open>
  C38. A strategy never gets stuck before its seal: in every reachable state that is not sealed and
  whose candidates cover each required cell of the Plan exactly once, one more update seals it,
  with the same candidates and the next revision, as long as the revision counter has not reached
  its bound.
\<close>
theorem exact_cover_can_seal:
  assumes "rolling_reachable contract state" and "\<not> strategy_sealed state"
    and "covers_exactly contract (candidates_of (rss_candidates state))"
    and "revision state < BUNDLE_CANONICAL_INTEGER_MAX_ABS"
  shows "\<exists>state'. rolling_step contract state state' \<and> strategy_sealed state'
     \<and> rss_candidates state' = rss_candidates state \<and> revision state' = revision state + 1"
proof -
  have valid: "state_valid state contract" using assms(1) by (rule reachable_valid)
  then have rev: "0 \<le> revision state" and set: "verify_candidate_set (rss_candidates state) contract = Inr ()"
    by (simp_all add: state_valid_iff)
  have "apply_strategy_update state (sealing_update state) contract [] = Inr (advanced_state state (sealing_update state))"
    using valid sealing_update_valid [OF rev assms(4)] set assms(2,3)
    by (simp add: apply_strategy_update_decides update_admissible_def) (simp add: sealing_update_def)
  then have "rolling_step contract state (advanced_state state (sealing_update state))" by (rule apply_update)
  moreover have "strategy_sealed (advanced_state state (sealing_update state))"
    "rss_candidates (advanced_state state (sealing_update state)) = rss_candidates state"
    "revision (advanced_state state (sealing_update state)) = revision state + 1"
    by (simp_all add: advanced_state_def sealing_update_def strategy_sealed_def revision_def Let_def)
  ultimately show ?thesis by blast
qed

definition waiting_update :: FormalStrategyUpdate where
  "waiting_update = second_update\<lparr>fsu_update := (fsu_update second_update)\<lparr>su_strategy_complete := False\<rparr>\<rparr>"

definition one_waiting :: RollingStrategyState where
  "one_waiting = advanced_state one_middle waiting_update"

lemma waiting_update_valid: "validate_update_pair waiting_update one_contract = Inr ()"
proof -
  have "\<exists>d. validate_closed_bundle_projection (pv_StrategyUpdate (fsu_update waiting_update)) ''StrategyUpdate''
      BUNDLE_ROOT_MAX_SERIALIZED_BYTES = Inr d"
    by (rule closed_projection_admits;
      simp add: walk_simps one_candidate_simps one_formal_simps waiting_update_def second_update_def one_update_def pv_StrategyUpdate_def
        hints_StrategyUpdate_def)+
  then show ?thesis
    using one_formals_valid
    by (auto simp: validate_update_pair_def waiting_update_def second_update_def one_update_def positive_int_Inr string_list_iff
        word_text_ok word_text_def BUNDLE_CANONICAL_INTEGER_MAX_ABS_def)
qed

lemma waiting_applied: "apply_strategy_update one_middle waiting_update one_contract [L ''t1''] = Inr one_waiting"
proof -
  have "state_valid one_middle one_contract" using first_applied rolling_step_facts(4) apply_update by blast
  moreover have "update_admissible one_middle waiting_update [L ''t1'']"
    by (simp add: update_admissible_def strategy_sealed_def revision_def waiting_update_def one_update_simps candidate_label_def)
  moreover have "rss_candidates one_middle @ fsu_candidates waiting_update = [first_formal, second_formal]"
    by (simp add: waiting_update_def one_update_simps)
  moreover have "\<not> su_strategy_complete (fsu_update waiting_update)" by (simp add: waiting_update_def)
  ultimately show ?thesis
    using waiting_update_valid one_sets(2) by (simp add: apply_strategy_update_decides one_waiting_def)
qed

lemma exact_cover_can_seal_witness: "\<exists>state. rolling_step one_contract one_waiting state \<and> strategy_sealed state"
proof -
  have reach: "rolling_reachable one_contract one_waiting"
    using rolling_reachable.start [OF one_started] one_steps(1) apply_update [OF waiting_applied] rolling_reachable.step by blast
  have parts: "rss_candidates one_waiting = [first_formal, second_formal]" "\<not> strategy_sealed one_waiting"
    "revision one_waiting < BUNDLE_CANONICAL_INTEGER_MAX_ABS"
    by (simp_all add: one_waiting_def waiting_update_def one_update_simps strategy_sealed_def revision_def
        BUNDLE_CANONICAL_INTEGER_MAX_ABS_def)
  show ?thesis
    using exact_cover_can_seal [OF reach parts(2) _ parts(3)] one_covered unfolding parts(1) by blast
qed

subsection \<open>The Target plan\<close>

lemma rethrow_as_bundle_Inr [simp]: "as_bundle_error r = Inr x \<longleftrightarrow> r = Inr x"
  by (cases r) (simp_all add: as_bundle_error_def rethrow_def)

definition opens :: "NormalizedCompletionContract \<Rightarrow> FormalStrategyUpdate \<Rightarrow> RollingStrategyState \<Rightarrow> bool" where
  "opens completion update state \<longleftrightarrow>
     rolling_reachable completion state \<and> revision state = 1 \<and> rss_candidates state = fsu_candidates update
     \<and> 1 \<le> length (rss_candidates state) \<and> length (rss_candidates state) \<le> 64
     \<and> (\<forall>f\<in>set (rss_candidates state). set (tc_depends_on_labels (ftc_candidate f)) \<subseteq> candidate_label ` set (rss_candidates state))"

lemma opened_strategy_opens:
  assumes "opened_strategy completion_value update_value plan = Inr state"
  shows "\<exists>completion update. normalized_completion_contract_from_dict completion_value plan = Inr completion
     \<and> strategy_update_from_dict update_value completion = Inr update \<and> opens completion update state"
proof -
  obtain completion update start where
    parts: "normalized_completion_contract_from_dict completion_value plan = Inr completion"
      "strategy_update_from_dict update_value completion = Inr update" "start_rolling_strategy completion = Inr start"
      "apply_strategy_update start update completion [] = Inr state"
      "su_revision (fsu_update update) = 1" "fsu_candidates update \<noteq> []" "length (fsu_candidates update) \<le> 64"
    using assms by (auto simp: opened_strategy_def MAX_BUNDLE_TARGETS_def)
  have reach: "rolling_reachable completion state"
    using rolling_reachable.start [OF parts(3)] apply_update [OF parts(4)] rolling_reachable.step by blast
  have state: "rss_candidates state = fsu_candidates update" "revision state = 1"
    using parts(3-5) by (auto simp: apply_strategy_update_decides start_rolling_strategy_def advanced_state_def Let_def revision_def)
  have "dependencies_known (candidates_of (rss_candidates state))"
    using reachable_valid [OF reach] by (auto simp: state_valid_iff verify_candidate_set_decides Let_def)
  then have "\<forall>f\<in>set (rss_candidates state). set (tc_depends_on_labels (ftc_candidate f)) \<subseteq> candidate_label ` set (rss_candidates state)"
    by (auto simp: dependencies_known_def candidates_of_def labels_of_def candidate_label_def image_iff)
  then show ?thesis
    using parts(1,2,6,7) reach state by (auto simp: opens_def Suc_le_eq)
qed

text \<open>
  C37. An accepted Target plan opens a strategy: its completion contract and its first update are
  read back over the Plan, and the update gives a reachable strategy state of revision one that
  holds exactly the update's candidates, between one and 64, each depending on candidates of the
  same plan only.  The plan's canonical bytes stay within the budget of a root record, and the
  result is their hash.
\<close>
theorem target_plan_opens_strategy:
  assumes "validate_target_plan target_plan formal_plan_ref context_pack_ref context_pack_hash plan = Inr hash"
  shows "(\<exists>completion update state.
       normalized_completion_contract_from_dict (dget target_plan ''completion_contract'') plan = Inr completion
     \<and> strategy_update_from_dict (dget target_plan ''initial_strategy_update'') completion = Inr update
     \<and> opens completion update state)
     \<and> (\<exists>size\<le>8388608. canonical_length target_plan = Inr size)
     \<and> canonical_hash (JDict target_plan) = Inr hash"
proof (intro conjI)
  obtain state where "opened_strategy (dget target_plan ''completion_contract'') (dget target_plan ''initial_strategy_update'') plan = Inr state"
    using assms by (auto simp: validate_target_plan_def Let_def)
  from opened_strategy_opens [OF this] show "\<exists>completion update state.
       normalized_completion_contract_from_dict (dget target_plan ''completion_contract'') plan = Inr completion
     \<and> strategy_update_from_dict (dget target_plan ''initial_strategy_update'') completion = Inr update
     \<and> opens completion update state" by blast
qed (use assms in \<open>auto simp: validate_target_plan_def Let_def MAX_BUNDLE_TARGET_PLAN_BYTES_def BUNDLE_ROOT_MAX_SERIALIZED_BYTES_def\<close>)

subsection \<open>The review of a Target plan\<close>

definition review_ids :: "json \<Rightarrow> json list" where
  "review_ids entries = map (\<lambda>v. dget (obj_items v) ''finding_id'') (list_items entries)"

lemma finding_step_Inr:
  "finding_step ids v = Inr ids' \<Longrightarrow>
     \<exists>s. ids' = s # ids \<and> s \<notin> set ids \<and> \<not> is_blank s \<and> dget (obj_items v) ''finding_id'' = JStr s"
  by (cases "dget (obj_items v) ''finding_id''")
    (auto simp: finding_step_def bundle_object_def Let_def split: json.splits)

lemma disposition_step_Inr:
  "review_disposition_step ids (seen, revised) v = Inr (seen', revised') \<Longrightarrow>
     \<exists>s. seen' = s # seen \<and> s \<notin> set seen \<and> s \<in> set ids \<and> dget (obj_items v) ''finding_id'' = JStr s
       \<and> revised' = (revised \<or> dget (obj_items v) ''action'' = JStr (L ''revised''))"
  by (cases "dget (obj_items v) ''finding_id''")
    (auto simp: review_disposition_step_def bundle_object_def in_names_def Let_def split: json.splits if_splits)

lemma finding_ids_collected:
  assumes "foldE finding_step [] (list_items findings) = Inr ids"
  shows "review_ids findings = map JStr (List.rev ids) \<and> distinct ids"
proof -
  have "map (\<lambda>v. dget (obj_items v) ''finding_id'') (list_items findings) = map JStr (List.rev ids) \<and> distinct ids"
    by (rule foldE_prefix_rule [OF assms, where I = "\<lambda>dn ids.
        map (\<lambda>v. dget (obj_items v) ''finding_id'') dn = map JStr (List.rev ids) \<and> distinct ids"])
      (auto dest: finding_step_Inr)
  then show ?thesis by (simp add: review_ids_def)
qed

lemma disposition_ids_collected:
  assumes "foldE (review_disposition_step ids) ([], False) (list_items dispositions) = Inr (seen, revised)"
  shows "review_ids dispositions = map JStr (List.rev seen) \<and> distinct seen \<and> set seen \<subseteq> set ids
    \<and> (revised \<longleftrightarrow> (\<exists>v\<in>set (list_items dispositions). dget (obj_items v) ''action'' = JStr (L ''revised'')))"
proof -
  let ?I = "\<lambda>dn (seen, revised). map (\<lambda>v. dget (obj_items v) ''finding_id'') dn = map JStr (List.rev seen)
     \<and> distinct seen \<and> set seen \<subseteq> set ids
     \<and> (revised \<longleftrightarrow> (\<exists>v\<in>set dn. dget (obj_items v) ''action'' = JStr (L ''revised'')))"
  have "?I (list_items dispositions) (seen, revised)"
  proof (rule foldE_prefix_rule [OF assms, where I = ?I])
    fix dn x rest s s'
    assume I: "?I dn s" and step: "review_disposition_step ids s x = Inr s'"
    obtain a b a' b' where "s = (a, b)" "s' = (a', b')" by (cases s, cases s')
    then show "?I (dn @ [x]) s'" using I disposition_step_Inr [of ids a b x a' b'] step by auto
  qed auto
  then show ?thesis by (simp add: review_ids_def)
qed

text \<open>
  An accepted review disposes of every finding exactly once: the identifiers of its findings are
  distinct, the identifiers of its dispositions are the same ones in some order, and the final plan
  differs from the reviewed draft exactly when some disposition says it was revised.
\<close>
theorem review_disposes_findings:
  assumes "validate_target_plan_review review draft_hash final_hash = Inr hash"
  shows "distinct (review_ids (dget review ''findings'')) \<and> distinct (review_ids (dget review ''dispositions''))
    \<and> set (review_ids (dget review ''dispositions'')) = set (review_ids (dget review ''findings''))
    \<and> (draft_hash \<noteq> final_hash \<longleftrightarrow>
      (\<exists>v\<in>set (list_items (dget review ''dispositions'')). dget (obj_items v) ''action'' = JStr (L ''revised'')))"
proof -
  obtain ids seen revised where
    folds: "foldE finding_step [] (list_items (dget review ''findings'')) = Inr ids"
      "foldE (review_disposition_step ids) ([], False) (list_items (dget review ''dispositions'')) = Inr (seen, revised)"
      "same_set seen ids" "(draft_hash \<noteq> final_hash) = revised"
    using assms by (auto simp: validate_target_plan_review_def Let_def split: if_splits)
  show ?thesis
    using finding_ids_collected [OF folds(1)] disposition_ids_collected [OF folds(2)] folds(3,4)
    by (auto simp: same_set_def distinct_map inj_on_def)
qed

end
