(* ===== verification/SealedStrategy.thy ===== *)
theory SealedStrategy
  imports BundleCompletionLaws StrategyRun
begin

text \<open>
  The two gates composed: a strategy that \<open>bundle_target_contract\<close> accepts as complete passes the
  strategy-complete gate of \<open>bundle_completion\<close> over the Plan with the same briefs.
\<close>

lemma codes_le_bytes: "utf8_codes cs = Some bs \<Longrightarrow> length cs \<le> length bs"
  by (induction cs arbitrary: bs) (fastforce simp: utf8_cp_def split: option.splits if_splits)+

lemma ref_ok_present: "ref_ok s \<Longrightarrow> ref_present s"
  by (auto simp: ref_ok_def ref_present_def encode_iff [symmetric])

lemma ref_ok_visit:
  assumes "ref_ok s" and "scalar_bytes st + 98312 \<le> limit"
  shows "\<exists>st'. visit_str name limit False s st = Inr st' \<and> nodes st' = nodes st
     \<and> scalar_bytes st \<le> scalar_bytes st' \<and> scalar_bytes st' \<le> scalar_bytes st + 98312"
proof -
  obtain b where b: "encode_utf8 s = Inr b" "length b \<le> 4096"
    using assms(1) by (auto simp: ref_ok_def BUNDLE_PROJECTION_STRING_MAX_UTF8_BYTES_def)
  then have len: "slen s \<le> 4096" using codes_le_bytes by (fastforce simp: encode_utf8_def slen_def split: option.splits)
  have "encodable (JStr s)" using b(1) encode_text_ok by simp
  then obtain t where t: "canonical_projection_bytes (PStr s) n = Inr t" for n
    using encodable_bytes by (fastforce simp: canonical_projection_bytes_def)
  have "length t \<le> 98312" using canonical_bytes_length [OF t] len by simp
  then show ?thesis
    using b t assms(2)
    by (simp add: visit_str_def BUNDLE_PROJECTION_STRING_MAX_UTF8_BYTES_def add_scalar_bytes_def)
qed

lemma ref_ok_size: "ref_ok s \<Longrightarrow> slen s \<le> 4096"
  using codes_le_bytes
  by (fastforce simp: ref_ok_def encode_utf8_def slen_def BUNDLE_PROJECTION_STRING_MAX_UTF8_BYTES_def split: option.splits)

lemma held_fixed_projection:
  assumes "ref_ok (hfb_semantic_slot h)" and "ref_ok (hfb_implementation_revision_ref h)"
  shows "validate_projection (pv_HeldFixedBinding h) name = Inr ()"
proof -
  let ?lim = BUNDLE_ROOT_MAX_SERIALIZED_BYTES
  have lim: "?lim = 8388608" by (simp add: BUNDLE_ROOT_MAX_SERIALIZED_BYTES_def)
  obtain st1 where st1: "visit_str name ?lim False (hfb_semantic_slot h) \<lparr>nodes = 2, scalar_bytes = 0\<rparr> = Inr st1"
    "nodes st1 = 2" "scalar_bytes st1 \<le> 98312"
    using ref_ok_visit [OF assms(1), of "\<lparr>nodes = 2, scalar_bytes = 0\<rparr>" ?lim name] lim by auto
  obtain st2 where st2: "visit_str name ?lim False (hfb_implementation_revision_ref h) (st1\<lparr>nodes := 3\<rparr>) = Inr st2"
    using ref_ok_visit [OF assms(2), of "st1\<lparr>nodes := 3\<rparr>" ?lim name] lim st1 by auto
  have "visit name ?lim False False (pv_HeldFixedBinding h) \<lparr>nodes = 0, scalar_bytes = 0\<rparr> = Inr st2"
    using st1 st2
    by (simp add: pv_HeldFixedBinding_def add_node_def BUNDLE_ROOT_MAX_NODES_def hints_of [THEN canonical_type_of]
        hints_of [THEN field_hint_of] hints_HeldFixedBinding_def inherited_plan_text_def numeral_2_eq_2 numeral_3_eq_3)
  moreover have "int (4 * json_size (projection_plain_value (pv_HeldFixedBinding h))) \<le> ?lim"
    using ref_ok_size [OF assms(1)] ref_ok_size [OF assms(2)] lim by (simp add: pv_HeldFixedBinding_def slen_def)
  ultimately show ?thesis
    using closed_projection_admits lim by (fastforce simp: validate_projection_def)
qed

lemma binding_map_refines:
  assumes "binding_map bs = Inr m"
  shows "binding_map_bc bs = Inr m"
proof -
  have "foldE binding_step s bs = Inr t \<Longrightarrow> foldE binding_step_bc s bs = Inr t" for s t
    by (induction bs arbitrary: s)
       (auto simp: binding_step_def binding_step_bc_def ref_value_iff held_fixed_projection ref_ok_present)
  then show ?thesis using assms by (simp add: binding_map_def binding_map_bc_def)
qed

text \<open>A candidate admitted by the Target contract is admitted by the completion rules.\<close>

lemma verify_candidate_refines:
  assumes "verify_candidate c briefs = Inr m"
    and mapped: "\<forall>p\<in>set briefs. fst p = eb_experiment_key (snd p) \<and> validate_brief_bc (snd p) = Inr ()"
  shows "verify_candidate_bc c briefs = Inr m"
proof -
  have cells: "check_cell_required_bc briefs u k = Inr ()" if "check_cell_required briefs u k = Inr ()" for u k
  proof -
    from that obtain b where "map_of briefs k = Some b" "u \<in> set (eb_required_measurement_unit_keys b)"
      by (auto simp: check_cell_required_def split: if_splits)
    then show ?thesis using mapped map_of_SomeD [of briefs k b] by (fastforce simp: check_cell_required_bc_def)
  qed
  have routes: "check_route_bc r = Inr ()" if "check_route r = Inr ()" for r
    using that by (auto simp: check_route_def check_route_bc_def ref_value_iff canonical_string_tuple_iff ref_ok_present list_all_iff)
  have briefs: "forE check_mapped_brief briefs = Inr ()"
    using mapped by (auto simp: check_mapped_brief_def)
  show ?thesis
    using assms(1) briefs
    by (auto simp: verify_candidate_def verify_candidate_bc_def validate_projection_def ref_value_iff canonical_string_tuple_iff
        ref_ok_present list_all_iff cells routes binding_map_refines Let_def)
qed

lemma dict_of_distinct: "distinct (map fst kvs) \<Longrightarrow> dict_of kvs = kvs"
proof (induction kvs rule: rev_induct)
  case (snoc p kvs)
  then have "\<not> has_key kvs (fst p)" by (auto simp: has_key_iff)
  then show ?case using snoc by (simp add: dict_of_def dict_set_new)
qed (simp add: dict_of_def)

lemma contract_briefs:
  assumes "fp_briefs plan = map nec_brief (ncc_experiments contract)" and "briefs_by_key_bc plan = Inr briefs"
  shows "briefs_by_key contract = briefs"
proof -
  have "briefs = map (\<lambda>item. (eb_experiment_key (nec_brief item), nec_brief item)) (ncc_experiments contract)"
    using briefs_by_key_bc_Inr(1) [OF assms(2)] assms(1) by simp
  moreover have "distinct (map fst briefs)" using briefs_by_key_bc_Inr(1,2) [OF assms(2)] by (simp add: comp_def)
  ultimately show ?thesis using dict_of_distinct [of briefs] by (simp add: briefs_by_key_def)
qed

lemma sealed_admitted:
  assumes "verify_completion_cells formals contract = Inr ()"
    and "fp_briefs plan = map nec_brief (ncc_experiments contract)" and "briefs_by_key_bc plan = Inr briefs"
  shows "verify_completion_cells_bc plan (index_of (candidates_of formals)) = Inr ()"
proof -
  let ?cs = "candidates_of formals"
  have same: "briefs_by_key contract = briefs" using assms(2,3) by (rule contract_briefs)
  have valid: "candidate_set_valid briefs ?cs" and deps: "dependencies_known ?cs" "acyclic (depends_on ?cs)"
    and cover: "covers_exactly contract ?cs"
    using assms(1) same by (auto simp: verify_completion_cells_decides verify_candidate_set_decides Let_def)
  have mapped: "\<forall>p\<in>set briefs. fst p = eb_experiment_key (snd p) \<and> validate_brief_bc (snd p) = Inr ()"
    using briefs_by_key_bc_Inr(1,3) [OF assms(3)] by auto
  have "cells_good briefs p" if "p \<in> set (index_of ?cs)" for p
    using that valid verify_candidate_refines [OF _ mapped]
    by (force simp: index_of_def cells_good_def candidate_set_valid_def list_all_iff candidate_accepted_def returns_iff)
  moreover have "distinct (map (cell_of \<circ> snd) (index_of ?cs))"
    using valid by (simp add: index_of_def candidate_set_valid_def comp_def)
  moreover have "\<forall>p\<in>set (index_of ?cs). \<forall>q\<in>set (index_of ?cs). bindings_agree briefs (snd p) (snd q)"
    using valid by (auto simp: index_of_def candidate_set_valid_def)
  ultimately have "mapping_valid briefs (index_of ?cs)" unfolding mapping_valid_def by blast
  moreover have "plan_requires plan key cell \<longleftrightarrow> requires_cell contract key cell" for key cell
    using assms(2) by (auto simp: plan_requires_def requires_cell_def)
  then have "plan_covered_exactly plan ?cs"
    using cover unfolding covers_exactly_def plan_covered_exactly_def covers_cell_def by blast
  moreover have "distinct (keys (index_of ?cs))" using valid by (simp add: candidate_set_valid_def)
  ultimately show ?thesis
    using deps assms(3) by (auto simp: verify_completion_cells_bc_decides)
qed

text \<open>
  C7. Sealing is enough for completion: when \<open>bundle_target_contract\<close> accepts the candidates of a
  strategy as complete, and a valid Plan has the briefs of the completion contract, then the gate
  of \<open>bundle_completion\<close> accepts the same candidates, keyed by their labels.  The stricter forms
  (stripped references, dependency lists without repetition) are checked by the first gate only.
\<close>
theorem sealed_strategy_admitted:
  assumes "verify_completion_cells formals contract = Inr ()"
    and "fp_briefs plan = map nec_brief (ncc_experiments contract)" and "briefs_by_key_bc plan = Inr briefs"
  shows "verify_completion_cells_bc plan (index_of (candidates_of formals)) = Inr ()"
  using assms by (rule sealed_admitted)

subsection \<open>A Plan for the sample strategy\<close>

definition one_receipt :: "string \<Rightarrow> string \<Rightarrow> ReceiptProof" where
  "one_receipt r s = \<lparr>rp_receipt_ref = L r, rp_subject_ref = L s, rp_verified = True, rp_currentness_known = True, rp_current = True\<rparr>"

definition one_plan :: FormalPlan where
  "one_plan = \<lparr>fp_formal_plan_ref = L ''plan'', fp_briefs = [one_brief],
     fp_content_binding = \<lparr>cbp_subject_ref = L ''plan'', cbp_content_hash_ref = L ''hash''\<rparr>,
     fp_acceptance_receipt = one_receipt ''accepted'' ''hash''\<rparr>"

lemma more_hints_of:
  "map_of type_hints ''ExperimentBrief'' = Some hints_ExperimentBrief"
  "map_of type_hints ''FormalPlan'' = Some hints_FormalPlan"
  "map_of type_hints ''ContentBindingProof'' = Some hints_ContentBindingProof"
  by (simp_all add: type_hints_def)

lemmas plan_walk_simps = walk_simps more_hints_of [THEN field_hint_of] more_hints_of [THEN canonical_type_of]
  hints_ExperimentBrief_def hints_FormalPlan_def hints_ContentBindingProof_def hints_ReceiptProof_def
  pv_ExperimentBrief_def pv_FormalPlan_def pv_ContentBindingProof_def pv_ReceiptProof_def duplicate_sensitive_types_def

lemma one_plan_projections:
  "\<exists>d. validate_closed_bundle_projection (pv_FormalPlan one_plan) ''FormalPlan'' BUNDLE_ROOT_MAX_SERIALIZED_BYTES = Inr d"
  "\<exists>d. validate_closed_bundle_projection (pv_ExperimentBrief one_brief) ''ExperimentBrief'' BUNDLE_ROOT_MAX_SERIALIZED_BYTES = Inr d"
  "\<exists>d. validate_closed_bundle_projection (pv_ReceiptProof (one_receipt ''accepted'' ''hash'')) ''ReceiptProof'' BUNDLE_ROOT_MAX_SERIALIZED_BYTES = Inr d"
  by (rule closed_projection_admits; simp add: plan_walk_simps one_plan_def one_brief_def one_receipt_def)+

lemma word_present: "word_text s \<Longrightarrow> ref_present (L s)"
  using word_text_ok(1) ref_ok_present by blast

lemma one_brief_valid: "validate_brief_bc one_brief = Inr ()"
proof -
  have "\<not> is_blank (L ''data'')" "\<not> is_blank (L ''m1'')" "\<not> is_blank (L ''m2'')"
    using word_present [of "''data''"] word_present [of "''m1''"] word_present [of "''m2''"]
    by (simp_all add: word_text_def ref_present_def)
  then show ?thesis
    using one_plan_projections(2)
    by (auto simp: validate_brief_bc_def validate_projection_def) (auto simp: one_brief_def word_present word_text_def)
qed

lemma one_plan_briefs: "briefs_by_key_bc one_plan = Inr [(L ''x1'', one_brief)]"
proof -
  have key: "eb_experiment_key one_brief = L ''x1''" by (simp add: one_brief_def)
  have "\<not> is_blank (L ''accepted'')"
    using word_present [of "''accepted''"] by (simp add: word_text_def ref_present_def)
  then have "validate_receipt_proof (one_receipt ''accepted'' ''hash'') (L ''hash'') = Inr ()"
    using one_plan_projections(3) by (auto simp: validate_receipt_proof_def) (auto simp: one_receipt_def)
  then show ?thesis
    using one_plan_projections(1) one_brief_valid
    by (auto simp: briefs_by_key_bc_def validate_projection_def)
       (auto simp: one_plan_def brief_step_def key word_present word_text_def validate_receipt_bc_def)
qed

lemma one_complete: "verify_completion_cells [first_formal, second_formal] one_contract = Inr ()"
  using one_sets(2) one_covered by (simp add: verify_completion_cells_decides)

lemma one_plan_of_contract: "fp_briefs one_plan = map nec_brief (ncc_experiments one_contract)"
  by (simp add: one_plan_def one_contract_def)

lemma sealed_strategy_admitted_witness:
  "verify_completion_cells_bc one_plan [(L ''t1'', first_candidate), (L ''t2'', second_candidate)] = Inr ()"
  using sealed_strategy_admitted [OF one_complete one_plan_of_contract one_plan_briefs] by (simp add: index_of_def candidates_of_def)

lemma verify_completion_cells_bc_iff_witness:
  "plan_covered_exactly one_plan [first_candidate, second_candidate]"
  using verify_completion_cells_bc_iff [of "[(L ''t1'', first_candidate), (L ''t2'', second_candidate)]" one_plan]
    sealed_admitted [OF one_complete one_plan_of_contract one_plan_briefs]
  by (simp add: index_of_def candidates_of_def)

end
