(* ===== verification/ReportResults.thy ===== *)
theory ReportResults
  imports ReportLaws
begin

text \<open>
  What the accepted closures of a Plan realize, which disposition a report can carry, and what a
  closed semantic-replan payload establishes about the whole strategy.
\<close>

subsection \<open>Realized and remaining experiments\<close>

definition plan_keys :: "FormalPlan \<Rightarrow> str set" where
  "plan_keys plan = eb_experiment_key ` set (fp_briefs plan)"

definition measures :: "AcceptedMeasurementClosure \<Rightarrow> str \<Rightarrow> str \<Rightarrow> bool" where
  "measures c key cell \<longleftrightarrow> key \<in> set (amc_experiment_keys c) \<and> cell = amc_measurement_unit_key c"

definition realized_keys :: "FormalPlan \<Rightarrow> AcceptedMeasurementClosure list \<Rightarrow> str set" where
  "realized_keys plan cs =
     {key \<in> plan_keys plan. \<forall>cell. plan_requires plan key cell \<longrightarrow> (\<exists>c\<in>set cs. measures c key cell)}"

text \<open>
  The specification of an accepted mapping: every closure is filed under its own Target and was
  verified, closures share no commit, evaluation attempt or metric result, they agree on the
  held-fixed revisions of their common experiments, and no two of them measure one cell.
\<close>

definition accepted_valid ::
  "(str \<times> ExperimentBrief) list \<Rightarrow> (str \<times> AcceptedMeasurementClosure) list \<Rightarrow> bool" where
  "accepted_valid briefs accepted \<longleftrightarrow>
     (\<forall>p\<in>set accepted. fst p = amc_target_ref (snd p) \<and> verify_accepted_closure (snd p) briefs = Inr ())
     \<and> sorted_wrt (\<lambda>p q. distinct_identities (snd p) (snd q)) accepted
     \<and> sorted_wrt (\<lambda>p q. entries_agree briefs (closure_entry (snd p)) (closure_entry (snd q))) accepted
     \<and> sorted_wrt (\<lambda>p q. \<forall>key cell. \<not> (measures (snd p) key cell \<and> measures (snd q) key cell)) accepted"

lemma closure_cells_iff: "(key, cell) \<in> set (closure_cells cs) \<longleftrightarrow> (\<exists>c\<in>set cs. measures c key cell)"
  by (auto simp: closure_cells_def measures_def)

lemma distinct_closure_cells:
  assumes "\<forall>c\<in>set cs. distinct (amc_experiment_keys c)"
  shows "distinct (closure_cells cs) \<longleftrightarrow> sorted_wrt (\<lambda>c d. \<forall>key cell. \<not> (measures c key cell \<and> measures d key cell)) cs"
  using assms
proof (induction cs)
  case Nil
  then show ?case by (simp add: closure_cells_def)
next
  case (Cons c cs)
  have "closure_cells (c # cs) = map (\<lambda>key. (key, amc_measurement_unit_key c)) (amc_experiment_keys c) @ closure_cells cs"
    by (simp add: closure_cells_def)
  moreover have "distinct (map (\<lambda>key. (key, amc_measurement_unit_key c)) (amc_experiment_keys c))"
    using Cons.prems by (auto simp: distinct_map intro: inj_onI)
  moreover have "(set (map (\<lambda>key. (key, amc_measurement_unit_key c)) (amc_experiment_keys c)) \<inter> set (closure_cells cs) = {})
      \<longleftrightarrow> (\<forall>d\<in>set cs. \<forall>key cell. \<not> (measures c key cell \<and> measures d key cell))"
    by (auto simp: closure_cells_def measures_def)
  ultimately show ?case using Cons by auto
qed

lemma distinct_count_ex: "list_ex (\<lambda>x. count_list xs x \<noteq> 1) xs \<longleftrightarrow> \<not> distinct xs"
proof -
  have "distinct xs \<longleftrightarrow> (\<forall>x\<in>set xs. count_list xs x = 1)"
  proof (induction xs)
    case (Cons x xs)
    then show ?case by (cases "x \<in> set xs") (auto simp: count_list_0_iff)
  qed simp
  then show ?thesis by (auto simp: list_ex_iff)
qed

lemma sorted_set_list_of_set: "sorted_set xs = sorted_list_of_set (set xs)"
  by (simp add: sorted_set_def sorted_list_of_set_sort_remdups)

lemma units_of_iff: "cell \<in> set (units_of cells key) \<longleftrightarrow> (key, cell) \<in> set cells"
  by (force simp: units_of_def)

lemma results_sorted_wrt:
  "sorted_wrt (results_agree briefs) ps \<longleftrightarrow>
     sorted_wrt (\<lambda>p q. distinct_identities (snd p) (snd q)) ps
     \<and> sorted_wrt (\<lambda>p q. entries_agree briefs (closure_entry (snd p)) (closure_entry (snd q))) ps"
  by (induction ps) (auto simp: results_agree_def)

lemma realized_list:
  assumes briefs: "briefs_by_key_bc plan = Inr briefs"
    and good: "list_all (results_good briefs) accepted" and cells: "set cells = set (closure_cells (map snd accepted))"
    and required: "required = map (\<lambda>brief. (eb_experiment_key brief, eb_required_measurement_unit_keys brief)) (fp_briefs plan)"
  shows "set (map fst (filter (\<lambda>p. same_set (snd p) (units_of cells (fst p))) required)) = realized_keys plan (map snd accepted)"
    and "set (map fst required) = plan_keys plan"
proof -
  have unique: "b = b'" if "b \<in> set (fp_briefs plan)" "b' \<in> set (fp_briefs plan)" "eb_experiment_key b = eb_experiment_key b'" for b b'
    using briefs_by_key_bc_Inr(2) [OF briefs] that by (auto simp: distinct_map inj_on_def)
  have within: "cell \<in> set (eb_required_measurement_unit_keys b)"
    if c: "c \<in> snd ` set accepted" "measures c (eb_experiment_key b) cell" "b \<in> set (fp_briefs plan)" for c cell b
  proof -
    from c(1) good obtain p where "results_good briefs p" "c = snd p" by (auto simp: list_all_iff)
    then have "closure_admissible briefs c" using results_good_admissible by blast
    then obtain b' where "map_of briefs (eb_experiment_key b) = Some b'" "cell \<in> set (eb_required_measurement_unit_keys b')"
      using c(2) by (auto simp: closure_admissible_def measures_def)
    then show ?thesis using brief_lookup [OF briefs] unique [of b' b] c(3) by auto
  qed
  have same: "set (eb_required_measurement_unit_keys b) = set (units_of cells (eb_experiment_key b))
      \<longleftrightarrow> eb_experiment_key b \<in> realized_keys plan (map snd accepted)" if b: "b \<in> set (fp_briefs plan)" for b
  proof -
    have "plan_requires plan (eb_experiment_key b) cell \<longleftrightarrow> cell \<in> set (eb_required_measurement_unit_keys b)" for cell
      unfolding plan_requires_def using unique [OF b] b by metis
    moreover have "eb_experiment_key b \<in> plan_keys plan" using b by (auto simp: plan_keys_def)
    ultimately show ?thesis
      using within [OF _ _ b] by (auto simp: realized_keys_def units_of_iff cells closure_cells_iff set_eq_iff)
  qed
  show "set (map fst (filter (\<lambda>p. same_set (snd p) (units_of cells (fst p))) required)) = realized_keys plan (map snd accepted)"
  proof (intro set_eqI iffI)
    fix key assume "key \<in> set (map fst (filter (\<lambda>p. same_set (snd p) (units_of cells (fst p))) required))"
    then show "key \<in> realized_keys plan (map snd accepted)" using same by (auto simp: required)
  next
    fix key assume key: "key \<in> realized_keys plan (map snd accepted)"
    then obtain b where b: "b \<in> set (fp_briefs plan)" "key = eb_experiment_key b" by (auto simp: realized_keys_def plan_keys_def)
    then show "key \<in> set (map fst (filter (\<lambda>p. same_set (snd p) (units_of cells (fst p))) required))"
      using same [OF b(1)] key by (force simp: required)
  qed
  show "set (map fst required) = plan_keys plan" by (auto simp: required plan_keys_def)
qed

lemma accepted_valid_iff:
  "accepted_valid briefs accepted \<longleftrightarrow>
     list_all (results_good briefs) accepted \<and> sorted_wrt (results_agree briefs) accepted
     \<and> distinct (closure_cells (map snd accepted))"
proof (cases "list_all (results_good briefs) accepted")
  case True
  then have "\<forall>c\<in>set (map snd accepted). distinct (amc_experiment_keys c)"
    using results_good_admissible by (fastforce simp: list_all_iff closure_admissible_def)
  from distinct_closure_cells [OF this] show ?thesis
    using True unfolding accepted_valid_def results_sorted_wrt list_all_iff results_good_def
    by (auto simp: sorted_wrt_map)
next
  case False
  then show ?thesis by (auto simp: accepted_valid_def list_all_iff results_good_def)
qed

lemma result_sets_decides:
  "result_sets plan accepted = Inr (realized, remaining) \<longleftrightarrow>
     (\<exists>briefs. briefs_by_key_bc plan = Inr briefs \<and> accepted_valid briefs accepted)
     \<and> realized = sorted_list_of_set (realized_keys plan (map snd accepted))
     \<and> remaining = sorted_list_of_set (plan_keys plan - realized_keys plan (map snd accepted))"
proof (cases "briefs_by_key_bc plan")
  case (Inr briefs)
  let ?required = "map (\<lambda>brief. (eb_experiment_key brief, eb_required_measurement_unit_keys brief)) (fp_briefs plan)"
  note F = results.fold_from_start [OF results_start]
  show ?thesis
  proof (cases "foldE (result_sets_step briefs) empty_results accepted")
    case (Inl e)
    then have "\<not> accepted_valid briefs accepted" using F(1) [of briefs accepted] by (auto simp: accepted_valid_iff)
    then show ?thesis using Inl Inr by (simp add: result_sets_def)
  next
    case (Inr st)
    note st = F(2) [OF Inr]
    then have cells: "accepted_cells st = closure_cells (map snd accepted)" by (simp add: results_hold_def)
    have valid: "accepted_valid briefs accepted \<longleftrightarrow> distinct (accepted_cells st)" using st cells by (simp add: accepted_valid_iff)
    note R = realized_list [OF \<open>briefs_by_key_bc plan = Inr briefs\<close> conjunct1 [OF conjunct2 [OF st]] arg_cong [OF cells, of set] refl]
    let ?realized = "map fst (filter (\<lambda>p. same_set (snd p) (units_of (accepted_cells st) (fst p))) ?required)"
    have "set (filter (\<lambda>key. key \<notin> set ?realized) (map fst ?required)) = plan_keys plan - realized_keys plan (map snd accepted)"
      unfolding set_filter R by blast
    then show ?thesis
      unfolding result_sets_def bindE_simps \<open>briefs_by_key_bc plan = Inr briefs\<close> Inr distinct_count_ex Let_def sorted_set_list_of_set R(1)
      using valid by auto
  qed
qed (simp add: result_sets_def)

text \<open>
  C19. The aggregation of results is exact.  It succeeds iff the Plan is valid and every accepted
  closure was verified under its own Target, no two of them sharing a commit, an evaluation
  attempt, a metric result or a measured cell, and all of them agreeing on the held-fixed
  revisions of their common experiments; it then returns, sorted, the experiments all of whose
  required cells have a closure, and the rest of the Plan.
\<close>
theorem result_sets_iff:
  "result_sets plan accepted = Inr (realized, remaining) \<longleftrightarrow>
     (\<exists>briefs. briefs_by_key_bc plan = Inr briefs \<and> accepted_valid briefs accepted)
     \<and> realized = sorted_list_of_set (realized_keys plan (map snd accepted))
     \<and> remaining = sorted_list_of_set (plan_keys plan - realized_keys plan (map snd accepted))"
  by (rule result_sets_decides)

subsection \<open>The disposition of a report\<close>

lemma finite_plan_keys [simp]: "finite (plan_keys plan)"
  by (simp add: plan_keys_def)

lemma verify_report_gate_Inr:
  "verify_report_gate d realized remaining ks bs cs active pending unknown = Inr u \<longleftrightarrow>
     active = [] \<and> pending = [] \<and> unknown = []
     \<and> (d = L ''blocked'' \<and> bs \<noteq> [] \<and> cs = []
        \<or> d = L ''realized'' \<and> bs = [] \<and> cs = [] \<and> set realized = set ks \<and> remaining = []
        \<or> d = L ''replan_required'' \<and> bs = [] \<and> cs \<noteq> [] \<and> remaining \<noteq> [])"
  by (auto simp: verify_report_gate_def str_in_def)

lemma build_report_Inr:
  "build_report d request plan accepted refs = Inr report \<longleftrightarrow>
     (\<exists>briefs realized remaining.
        validate_projection (pv_StageRunRequest request) ''BundleStageRunRequest'' = Inr ()
        \<and> briefs_by_key_bc plan = Inr briefs \<and> request_check request plan = Inr () \<and> frozen_report_refs refs = Inr ()
        \<and> result_sets plan accepted = Inr (realized, remaining)
        \<and> verify_report_gate d realized remaining (keys briefs) (blocker_refs refs) (semantic_change_required refs)
              (active_target_refs refs) (pending_submission_refs refs) (outcome_unknown_refs refs) = Inr ()
        \<and> report = report_of d request plan (map snd accepted) refs realized remaining
        \<and> returns (validate_bundle_report report))"
  by (auto simp: build_report_def Let_def returns_iff split: prod.splits)

text \<open>The disposition that the facts determine.\<close>

definition due_disposition :: "report_refs \<Rightarrow> str list \<Rightarrow> str" where
  "due_disposition refs remaining =
     (if blocker_refs refs \<noteq> [] then L ''blocked'' else if remaining = [] then L ''realized'' else L ''replan_required'')"

text \<open>
  C25. A report is issued for one disposition only: nothing is active, pending or unknown; a
  technical blocker makes it blocked, an exhausted Plan realized, and unrealized work without a
  blocker a replan, which is the only one to carry semantic changes and must carry some.  The
  request was current, fenced and bound to this Plan, and the experiment sets are the ones that
  the accepted closures determine.
\<close>
theorem build_report_disposition:
  assumes "build_report disposition request plan accepted refs = Inr report"
  shows "\<exists>realized remaining. result_sets plan accepted = Inr (realized, remaining)
     \<and> br_realized_experiment_keys report = realized \<and> br_remaining_experiment_keys report = remaining
     \<and> disposition = due_disposition refs remaining \<and> br_disposition report = disposition
     \<and> (semantic_change_required refs \<noteq> [] \<longleftrightarrow> disposition = L ''replan_required'')
     \<and> active_target_refs refs = [] \<and> pending_submission_refs refs = [] \<and> outcome_unknown_refs refs = []
     \<and> srr_current request \<and> srr_root_execution_fence_current request \<and> srr_formal_plan_ref request = fp_formal_plan_ref plan"
proof -
  obtain briefs realized remaining where sets: "result_sets plan accepted = Inr (realized, remaining)"
    and gate: "verify_report_gate disposition realized remaining (keys briefs) (blocker_refs refs) (semantic_change_required refs)
              (active_target_refs refs) (pending_submission_refs refs) (outcome_unknown_refs refs) = Inr ()"
    and request: "request_check request plan = Inr ()"
    and report: "report = report_of disposition request plan (map snd accepted) refs realized remaining"
    and "briefs_by_key_bc plan = Inr briefs"
    using assms unfolding build_report_Inr by blast
  have "disposition = due_disposition refs remaining \<and> (semantic_change_required refs \<noteq> [] \<longleftrightarrow> disposition = L ''replan_required'')
      \<and> active_target_refs refs = [] \<and> pending_submission_refs refs = [] \<and> outcome_unknown_refs refs = []"
    using gate by (auto simp: verify_report_gate_Inr due_disposition_def)
  moreover have "srr_current request \<and> srr_root_execution_fence_current request \<and> srr_formal_plan_ref request = fp_formal_plan_ref plan"
    using request by (auto simp: request_check_def split: if_splits)
  ultimately show ?thesis using sets by (simp add: report report_of_def Let_def)
qed


text \<open>
  The receipts that stand behind a closure, named one by one: of its asset, its execution, its commit
  and its run input, and, where the closure has them, of its formal measurement, its evaluation input,
  its root completion and its aggregation evidence.
\<close>

definition receipted_by :: "AcceptedMeasurementClosure \<Rightarrow> str \<Rightarrow> bool" where
  "receipted_by c ref \<longleftrightarrow>
     ref = rp_receipt_ref (amc_rm_asset_receipt c)
     \<or> ref = rp_receipt_ref (amc_ar_execution_receipt c)
     \<or> ref = rp_receipt_ref (amc_rg_target_commit_receipt c)
     \<or> ref = rp_receipt_ref (eibp_acceptance_receipt (amc_variant_run_input_binding c))
     \<or> (\<exists>measurement. amc_rg_formal_measurement_receipt c = Some measurement \<and> ref = rp_receipt_ref measurement)
     \<or> (\<exists>binding. amc_evaluation_attempt_input_binding c = Some binding \<and> ref = rp_receipt_ref (eibp_acceptance_receipt binding))
     \<or> (\<exists>completion. amc_root_completion_receipt c = Some completion \<and> ref = rp_receipt_ref completion)
     \<or> (\<exists>proof. amc_protocol_aggregation_proof c = Some proof \<and> ref = rp_receipt_ref (pap_aggregation_evidence_receipt proof))"

lemma closure_receipts: "set (closure_owner_receipts c) = {ref. receipted_by c ref}"
  by (cases "amc_rg_formal_measurement_receipt c"; cases "amc_evaluation_attempt_input_binding c";
      cases "amc_root_completion_receipt c"; cases "amc_protocol_aggregation_proof c")
    (auto simp: closure_owner_receipts_def receipted_by_def present_def)

text \<open>What the provenance of a report lists: the evidence of every accepted closure, of the Plan and of the caller.\<close>

definition report_lists :: "BundleReport \<Rightarrow> FormalPlan \<Rightarrow> AcceptedMeasurementClosure list \<Rightarrow> report_refs \<Rightarrow> bool" where
  "report_lists report plan closures refs \<longleftrightarrow>
     sorted (br_accepted_target_commit_refs report) \<and> distinct (br_accepted_target_commit_refs report)
     \<and> set (br_accepted_target_commit_refs report) = amc_target_commit_ref ` set closures
     \<and> sorted (br_metric_result_refs report) \<and> distinct (br_metric_result_refs report)
     \<and> set (br_metric_result_refs report) = {m. \<exists>c\<in>set closures. amc_metric_result_ref c = Some m}
     \<and> sorted (br_accepted_evaluation_attempt_refs report) \<and> distinct (br_accepted_evaluation_attempt_refs report)
     \<and> set (br_accepted_evaluation_attempt_refs report) = {a. \<exists>c\<in>set closures. amc_evaluation_attempt_ref c = Some a}
     \<and> sorted (br_owner_receipt_refs report) \<and> distinct (br_owner_receipt_refs report)
     \<and> set (br_owner_receipt_refs report) = set (additional_owner_receipt_refs refs)
          \<union> {rp_receipt_ref (fp_acceptance_receipt plan)} \<union> {ref. \<exists>c\<in>set closures. receipted_by c ref}"

lemma distinct_present: "distinct (present xs) \<longleftrightarrow> sorted_wrt (\<lambda>x y. \<forall>a. x = Some a \<longrightarrow> y \<noteq> Some a) xs"
  by (induction xs) (auto simp: present_def set_of_present [unfolded present_def] split: option.splits)

lemma distinct_sorted_wrt: "distinct xs \<longleftrightarrow> sorted_wrt (\<noteq>) xs"
  by (induction xs) auto

lemma set_present_map: "set (present (map f cs)) = {x. \<exists>c\<in>set cs. f c = Some x}"
  by (auto simp: set_of_present image_iff) metis

lemma accepted_identities_distinct:
  assumes "accepted_valid briefs accepted"
  shows "distinct (map amc_target_commit_ref (map snd accepted))"
    and "distinct (present (map amc_evaluation_attempt_ref (map snd accepted)))"
    and "distinct (present (map amc_metric_result_ref (map snd accepted)))"
proof -
  have "sorted_wrt (\<lambda>p q. distinct_identities (snd p) (snd q)) accepted" using assms by (simp add: accepted_valid_def)
  then have S: "sorted_wrt distinct_identities (map snd accepted)" by (simp add: sorted_wrt_map)
  show "distinct (map amc_target_commit_ref (map snd accepted))"
    using sorted_wrt_mono_rel [OF _ S, of "\<lambda>c d. amc_target_commit_ref c \<noteq> amc_target_commit_ref d"]
    unfolding distinct_sorted_wrt sorted_wrt_map by (simp add: distinct_identities_def)
  show "distinct (present (map amc_evaluation_attempt_ref (map snd accepted)))"
    using sorted_wrt_mono_rel [OF _ S, of "\<lambda>c d. \<forall>a. amc_evaluation_attempt_ref c = Some a \<longrightarrow> amc_evaluation_attempt_ref d \<noteq> Some a"]
    unfolding distinct_present sorted_wrt_map by (simp add: distinct_identities_def)
  show "distinct (present (map amc_metric_result_ref (map snd accepted)))"
    using sorted_wrt_mono_rel [OF _ S, of "\<lambda>c d. \<forall>a. amc_metric_result_ref c = Some a \<longrightarrow> amc_metric_result_ref d \<noteq> Some a"]
    unfolding distinct_present sorted_wrt_map by (simp add: distinct_identities_def)
qed

text \<open>
  C35. A report lists the commits, metric results and evaluation attempts of the accepted closures and
  no others, each once and in order. Its owner receipts, in order and without repetition, are exactly
  those that the caller passed in, the acceptance receipt of the Plan, and of every accepted closure the
  asset, execution, commit and run-input receipts and, where it has them, the formal-measurement,
  evaluation-input, root-completion and aggregation receipts.
\<close>
theorem build_report_lists:
  assumes "build_report disposition request plan accepted refs = Inr report"
  shows "report_lists report plan (map snd accepted) refs"
proof -
  obtain realized remaining where sets: "result_sets plan accepted = Inr (realized, remaining)"
    and report: "report = report_of disposition request plan (map snd accepted) refs realized remaining"
    using assms unfolding build_report_Inr by blast
  obtain briefs where "accepted_valid briefs accepted" using sets unfolding result_sets_decides by blast
  note D = accepted_identities_distinct [OF this]
  define cs where "cs = map snd accepted"
  show ?thesis
    using D [folded cs_def] unfolding report_lists_def report [folded cs_def] cs_def [symmetric]
    by (auto simp: report_of_def Let_def set_present_map closure_receipts)
qed

end
