(* ===== verification/ReplanLaws.thy ===== *)
theory ReplanLaws
  imports ReportResults
begin

text \<open>
  What a closed semantic-replan payload establishes about the whole strategy: the loop over the
  barriers disposes every open route once, with consistent external reconciliations.
\<close>

definition reconciliations_of :: "RouteDisposition list \<Rightarrow> ExternalOperationReconciliation list" where
  "reconciliations_of ds = concat (map rd_external_reconciliations ds)"

definition reconciliations_consistent :: "ExternalOperationReconciliation list \<Rightarrow> bool" where
  "reconciliations_consistent rs \<longleftrightarrow>
     (\<forall>r\<in>set rs. \<forall>r'\<in>set rs. (eor_operation_ref r = eor_operation_ref r' \<longrightarrow> eor_outcome r = eor_outcome r' \<and> eor_receipt r = eor_receipt r')
        \<and> (rp_receipt_ref (eor_receipt r) = rp_receipt_ref (eor_receipt r') \<longrightarrow> eor_operation_ref r = eor_operation_ref r'))"

text \<open>The state of the loop after the routes \<open>rts\<close>, dispositions \<open>ds\<close> and reconciliations \<open>rs\<close>.\<close>

definition replan_holds ::
  "RouteSpec list \<Rightarrow> RouteDisposition list \<Rightarrow> ExternalOperationReconciliation list \<Rightarrow> replan_state \<Rightarrow> bool" where
  "replan_holds rts ds rs st \<longleftrightarrow>
     expected_route_refs st = rev (map rs_route_ref rts) \<and> distinct (expected_route_refs st)
     \<and> actual_route_refs st = rev (map rd_route_ref ds) \<and> distinct (actual_route_refs st)
     \<and> dispositions_seen st = rev (map rd_disposition_ref ds) \<and> distinct (dispositions_seen st)
     \<and> set (changes_seen st) = (\<Union>d\<in>set ds. set (rd_required_changes d))
     \<and> set (evidence_seen st) = (\<Union>d\<in>set ds. set (rd_evidence_refs d))
     \<and> set (reconciliation_receipts st) = (rp_receipt_ref \<circ> eor_receipt) ` set rs
     \<and> (\<forall>r\<in>set rs. map_of (reconciliations_by_operation st) (eor_operation_ref r) = Some (eor_outcome r, eor_receipt r)
           \<and> map_of (reconciliation_receipt_subjects st) (rp_receipt_ref (eor_receipt r)) = Some (eor_operation_ref r))"

lemma replan_holds_start: "replan_holds [] [] [] empty_replan"
  by (simp add: replan_holds_def empty_replan_def)

lemma replan_holds_consistent: "replan_holds rts ds rs st \<Longrightarrow> reconciliations_consistent rs"
  unfolding replan_holds_def reconciliations_consistent_def by (metis option.inject prod.inject)

lemma setdefault_Some:
  "setdefault k v m = (w, m') \<Longrightarrow> map_of m' k = Some w \<and> (\<forall>j u. map_of m j = Some u \<longrightarrow> map_of m' j = Some u)"
  by (auto simp: setdefault_def split: option.splits if_splits)

lemma reconciliation_step_holds:
  assumes "replan_holds rts ds rs st" and "reconciliation_step st r = Inr st'"
  shows "replan_holds rts ds (rs @ [r]) st'"
proof -
  obtain w m v n where sd: "setdefault (eor_operation_ref r) (eor_outcome r, eor_receipt r) (reconciliations_by_operation st) = (w, m)"
    "setdefault (rp_receipt_ref (eor_receipt r)) (eor_operation_ref r) (reconciliation_receipt_subjects st) = (v, n)"
    by (metis surj_pair)
  then have w: "w = (eor_outcome r, eor_receipt r)" "v = eor_operation_ref r"
    and st': "st' = st\<lparr>reconciliations_by_operation := m, reconciliation_receipt_subjects := n,
                    reconciliation_receipts := rp_receipt_ref (eor_receipt r) # reconciliation_receipts st\<rparr>"
    using assms(2) by (auto simp: reconciliation_step_def Let_def split: if_splits)
  show ?thesis
    using assms(1) setdefault_Some [OF sd(1)] setdefault_Some [OF sd(2)] unfolding replan_holds_def st' w by auto
qed

lemma foldE_extends:
  assumes "foldE f s xs = Inr t" and "I ds s" and "\<And>ds x s s'. I ds s \<Longrightarrow> f s x = Inr s' \<Longrightarrow> I (ds @ [x]) s'"
  shows "I (ds @ xs) t"
proof (rule foldE_prefix_rule [OF assms(1), of "\<lambda>dn. I (ds @ dn)"])
  show "I (ds @ dn @ [x]) s'" if "I (ds @ dn) s" "f s x = Inr s'" for dn x s s'
    using assms(3) [OF that] by simp
qed (simp add: assms(2))

lemmas reconciliations_fold = foldE_extends [where I = "\<lambda>rs. replan_holds rts ds rs", OF _ _ reconciliation_step_holds] for rts ds

lemma disposition_step_holds:
  assumes "replan_holds rts ds (reconciliations_of ds) st" and "disposition_step st d = Inr st'"
  shows "replan_holds rts (ds @ [d]) (reconciliations_of (ds @ [d])) st'"
proof -
  let ?s = "st\<lparr>actual_route_refs := rd_route_ref d # actual_route_refs st,
              dispositions_seen := rd_disposition_ref d # dispositions_seen st,
              changes_seen := rd_required_changes d @ changes_seen st,
              evidence_seen := rd_evidence_refs d @ evidence_seen st\<rparr>"
  have fresh: "rd_route_ref d \<notin> set (actual_route_refs st)" "rd_disposition_ref d \<notin> set (dispositions_seen st)"
    and fold: "foldE reconciliation_step ?s (rd_external_reconciliations d) = Inr st'"
    using assms(2) by (auto simp: disposition_step_def split: if_splits)
  have "replan_holds rts (ds @ [d]) (reconciliations_of ds) ?s"
    using assms(1) fresh unfolding replan_holds_def by auto
  from reconciliations_fold [OF fold this] show ?thesis by (simp add: reconciliations_of_def)
qed

lemmas dispositions_fold =
  foldE_extends [where I = "\<lambda>ds. replan_holds rts ds (reconciliations_of ds)", OF _ _ disposition_step_holds] for rts

lemma route_step_holds:
  "replan_holds rts ds rs (st\<lparr>expected_route_refs := expected\<rparr>) \<Longrightarrow> route_step expected r = Inr expected'
     \<Longrightarrow> replan_holds (rts @ [r]) ds rs (st\<lparr>expected_route_refs := expected'\<rparr>)"
  by (auto simp: replan_holds_def route_step_def split: if_splits)

lemmas routes_fold =
  foldE_extends [where I = "\<lambda>rts expected. replan_holds rts ds rs (st\<lparr>expected_route_refs := expected\<rparr>)", OF _ _ route_step_holds]
  for ds rs st

subsection \<open>The loop over the open Targets\<close>

text \<open>The candidate of an open label and the barrier of its Target.\<close>

definition open_target ::
  "(str \<times> TargetCandidate) list \<Rightarrow> (str \<times> str) list \<Rightarrow> (str \<times> SemanticBarrier) list \<Rightarrow> str \<Rightarrow> TargetCandidate \<times> SemanticBarrier" where
  "open_target candidates target_by_label barriers label =
     (the (map_of candidates label), the (map_of barriers (the (map_of target_by_label label))))"

definition open_routes :: "(TargetCandidate \<times> SemanticBarrier) list \<Rightarrow> RouteSpec list" where
  "open_routes opened = concat (map (tc_routes \<circ> fst) opened)"

definition open_dispositions :: "(TargetCandidate \<times> SemanticBarrier) list \<Rightarrow> RouteDisposition list" where
  "open_dispositions opened = concat (map (sb_route_dispositions \<circ> snd) opened)"

lemma barrier_step_holds:
  assumes holds: "replan_holds (open_routes opened) (open_dispositions opened) (reconciliations_of (open_dispositions opened)) st"
    and step: "barrier_step candidates target_by_label barriers st label = Inr st'"
  shows "replan_holds (open_routes (opened @ [open_target candidates target_by_label barriers label]))
           (open_dispositions (opened @ [open_target candidates target_by_label barriers label]))
           (reconciliations_of (open_dispositions (opened @ [open_target candidates target_by_label barriers label]))) st'"
    and "\<exists>candidate target barrier. map_of candidates label = Some candidate \<and> map_of target_by_label label = Some target
       \<and> map_of barriers target = Some barrier \<and> sb_target_ref barrier = target
       \<and> sb_experiment_keys barrier = tc_experiment_keys candidate"
proof -
  obtain candidate target barrier expected where found: "map_of candidates label = Some candidate"
      "map_of target_by_label label = Some target" "map_of barriers target = Some barrier"
    and bound: "sb_target_ref barrier = target" "sb_experiment_keys barrier = tc_experiment_keys candidate"
    and routes: "foldE route_step (expected_route_refs st) (tc_routes candidate) = Inr expected"
    and dispositions: "foldE disposition_step (st\<lparr>expected_route_refs := expected\<rparr>) (sb_route_dispositions barrier) = Inr st'"
    using step by (auto simp: barrier_step_def split: if_splits)
  then show "\<exists>candidate target barrier. map_of candidates label = Some candidate \<and> map_of target_by_label label = Some target
       \<and> map_of barriers target = Some barrier \<and> sb_target_ref barrier = target
       \<and> sb_experiment_keys barrier = tc_experiment_keys candidate" by blast
  let ?ds = "open_dispositions opened"
  have "replan_holds (open_routes opened @ tc_routes candidate) ?ds (reconciliations_of ?ds) (st\<lparr>expected_route_refs := expected\<rparr>)"
    using routes_fold [OF routes, of _ _ _ st] holds by simp
  from dispositions_fold [OF dispositions this]
  show "replan_holds (open_routes (opened @ [open_target candidates target_by_label barriers label]))
           (open_dispositions (opened @ [open_target candidates target_by_label barriers label]))
           (reconciliations_of (open_dispositions (opened @ [open_target candidates target_by_label barriers label]))) st'"
    using found by (simp add: open_target_def open_routes_def open_dispositions_def)
qed

lemma barriers_fold:
  assumes "foldE (barrier_step candidates target_by_label barriers) empty_replan labels = Inr st"
  defines "opened \<equiv> map (open_target candidates target_by_label barriers) labels"
  shows "replan_holds (open_routes opened) (open_dispositions opened) (reconciliations_of (open_dispositions opened)) st"
    and "\<forall>label\<in>set labels. \<exists>candidate target barrier. map_of candidates label = Some candidate \<and> map_of target_by_label label = Some target
       \<and> map_of barriers target = Some barrier \<and> sb_target_ref barrier = target
       \<and> sb_experiment_keys barrier = tc_experiment_keys candidate"
proof -
  let ?open = "map (open_target candidates target_by_label barriers)"
  let ?I = "\<lambda>ls st. replan_holds (open_routes (?open ls)) (open_dispositions (?open ls)) (reconciliations_of (open_dispositions (?open ls))) st
    \<and> (\<forall>label\<in>set ls. \<exists>candidate target barrier. map_of candidates label = Some candidate \<and> map_of target_by_label label = Some target
       \<and> map_of barriers target = Some barrier \<and> sb_target_ref barrier = target
       \<and> sb_experiment_keys barrier = tc_experiment_keys candidate)"
  have "?I ([] @ labels) st"
  proof (rule foldE_extends [OF assms(1)])
    show "?I [] empty_replan"
      using replan_holds_start by (simp add: open_routes_def open_dispositions_def reconciliations_of_def)
  next
    fix ls label s s' assume I: "?I ls s" and step: "barrier_step candidates target_by_label barriers s label = Inr s'"
    show "?I (ls @ [label]) s'"
      using barrier_step_holds [OF conjunct1 [OF I] step] conjunct2 [OF I] by simp
  qed
  then show "replan_holds (open_routes opened) (open_dispositions opened) (reconciliations_of (open_dispositions opened)) st"
    and "\<forall>label\<in>set labels. \<exists>candidate target barrier. map_of candidates label = Some candidate \<and> map_of target_by_label label = Some target
       \<and> map_of barriers target = Some barrier \<and> sb_target_ref barrier = target
       \<and> sb_experiment_keys barrier = tc_experiment_keys candidate"
    unfolding opened_def by simp_all
qed


subsection \<open>The payload\<close>

definition open_work ::
  "(str \<times> TargetCandidate) list \<Rightarrow> (str \<times> str) list \<Rightarrow> (str \<times> SemanticBarrier) list \<Rightarrow> str list \<Rightarrow> (TargetCandidate \<times> SemanticBarrier) list" where
  "open_work candidates target_by_label barriers accepted_labels =
     map (open_target candidates target_by_label barriers)
       (sorted_list_of_set (set (keys candidates) - set accepted_labels))"

text \<open>The open work is disposed exactly: the experiments, the routes, and what the payload collects.\<close>

definition disposed_exactly :: "(TargetCandidate \<times> SemanticBarrier) list \<Rightarrow> replan_payload \<Rightarrow> bool" where
  "disposed_exactly opened payload \<longleftrightarrow>
     (\<forall>(candidate, barrier)\<in>set opened. sb_experiment_keys barrier = tc_experiment_keys candidate)
     \<and> distinct (map rs_route_ref (open_routes opened)) \<and> distinct (map rd_route_ref (open_dispositions opened))
     \<and> rd_route_ref ` set (open_dispositions opened) = rs_route_ref ` set (open_routes opened)
     \<and> distinct (map rd_disposition_ref (open_dispositions opened))
     \<and> reconciliations_consistent (reconciliations_of (open_dispositions opened))
     \<and> (case payload of (changes, evidence, dispositions, receipts) \<Rightarrow>
          changes = sorted_list_of_set (\<Union>d\<in>set (open_dispositions opened). set (rd_required_changes d))
          \<and> evidence = sorted_list_of_set (\<Union>d\<in>set (open_dispositions opened). set (rd_evidence_refs d))
          \<and> dispositions = sorted_list_of_set (rd_disposition_ref ` set (open_dispositions opened))
          \<and> receipts = sorted_list_of_set ((rp_receipt_ref \<circ> eor_receipt) ` set (reconciliations_of (open_dispositions opened))))"

lemma replan_holds_disposed:
  assumes "replan_holds (open_routes opened) (open_dispositions opened) (reconciliations_of (open_dispositions opened)) st"
    and "same_set (actual_route_refs st) (expected_route_refs st)"
    and "\<forall>(candidate, barrier)\<in>set opened. sb_experiment_keys barrier = tc_experiment_keys candidate"
  shows "disposed_exactly opened (sorted_set (changes_seen st), sorted_set (evidence_seen st), sorted_set (dispositions_seen st),
           sorted_set (reconciliation_receipts st))"
proof -
  have "set (dispositions_seen st) = rd_disposition_ref ` set (open_dispositions opened)"
    "distinct (map rs_route_ref (open_routes opened))" "distinct (map rd_route_ref (open_dispositions opened))"
    "distinct (map rd_disposition_ref (open_dispositions opened))"
    "rd_route_ref ` set (open_dispositions opened) = rs_route_ref ` set (open_routes opened)"
    using assms(1,2) unfolding replan_holds_def by (metis distinct_rev set_map set_rev same_set_iff)+
  moreover have "set (changes_seen st) = (\<Union>d\<in>set (open_dispositions opened). set (rd_required_changes d))"
    "set (evidence_seen st) = (\<Union>d\<in>set (open_dispositions opened). set (rd_evidence_refs d))"
    "set (reconciliation_receipts st) = (rp_receipt_ref \<circ> eor_receipt) ` set (reconciliations_of (open_dispositions opened))"
    using assms(1) unfolding replan_holds_def by blast+
  ultimately show ?thesis
    using assms(3) replan_holds_consistent [OF assms(1)] unfolding disposed_exactly_def by (simp add: sorted_set_list_of_set)
qed

lemma barriers_of_open:
  assumes same: "set (keys barriers) = set (map target_of labels)" and "distinct (keys barriers)"
  shows "snd ` set barriers = (\<lambda>label. the (map_of barriers (target_of label))) ` set labels"
proof -
  have "snd ` set barriers = (\<lambda>k. the (map_of barriers k)) ` set (keys barriers)"
    using assms(2) by (force simp: keys_def image_iff)
  also have "\<dots> = (\<lambda>label. the (map_of barriers (target_of label))) ` set labels" unfolding same by auto
  finally show ?thesis .
qed

lemma replan_payload_Inr:
  assumes "closed_semantic_replan_payload plan candidates target_by_label accepted accepted_labels barriers flags = Inr (Some payload)"
    and "distinct (keys barriers)"
  shows "strategy_complete flags \<and> requested_target_refs flags = [] \<and> blocked_target_refs flags = [] \<and> pending_notice_refs flags = []
     \<and> (\<exists>realized remaining. result_sets plan accepted = Inr (realized, remaining) \<and> remaining \<noteq> []
          \<and> set remaining = (\<Union>(candidate, barrier)\<in>set (open_work candidates target_by_label barriers accepted_labels).
                set (tc_experiment_keys candidate)))
     \<and> disposed_exactly (open_work candidates target_by_label barriers accepted_labels) payload"
proof -
  let ?labels = "filter (\<lambda>label. label \<notin> set accepted_labels) (keys candidates)"
  let ?open = "open_work candidates target_by_label barriers accepted_labels"
  obtain targets realized remaining st where flags: "strategy_complete flags" "requested_target_refs flags = []"
      "blocked_target_refs flags = []" "pending_notice_refs flags = []"
    and targets: "mapE (dict_item target_by_label) ?labels = Inr targets" and same: "same_set (keys barriers) targets"
    and sets: "result_sets plan accepted = Inr (realized, remaining)" "remaining \<noteq> []"
    and covers: "same_set (concat (map (\<lambda>p. sb_experiment_keys (snd p)) barriers)) remaining"
    and fold: "foldE (barrier_step candidates target_by_label barriers) empty_replan (sorted_set ?labels) = Inr st"
    and routes: "same_set (actual_route_refs st) (expected_route_refs st)"
    and payload: "payload = (sorted_set (changes_seen st), sorted_set (evidence_seen st), sorted_set (dispositions_seen st),
           sorted_set (reconciliation_receipts st))"
    using assms(1) by (auto simp: closed_semantic_replan_payload_def Let_def split: if_splits prod.splits)
  have labels: "sorted_set ?labels = sorted_list_of_set (set (keys candidates) - set accepted_labels)"
    by (simp add: sorted_set_list_of_set set_diff_eq)
  have opened: "map (open_target candidates target_by_label barriers) (sorted_set ?labels) = ?open"
    unfolding open_work_def labels ..
  note F = barriers_fold [OF fold, unfolded opened]
  have bound: "\<forall>(candidate, barrier)\<in>set ?open. sb_experiment_keys barrier = tc_experiment_keys candidate"
    unfolding opened [symmetric] using F(2) by (fastforce simp: open_target_def)
  have "targets = map (\<lambda>label. the (map_of target_by_label label)) ?labels"
    using mapE_Inr_map [OF targets] by simp
  then have "snd ` set barriers = (\<lambda>label. the (map_of barriers (the (map_of target_by_label label)))) ` set ?labels"
    using same assms(2) by (intro barriers_of_open) simp_all
  also have "\<dots> = snd ` set ?open" by (force simp: opened [symmetric] open_target_def)
  finally have "snd ` set barriers = snd ` set ?open" .
  moreover have "set remaining = (\<Union>b\<in>snd ` set barriers. set (sb_experiment_keys b))" using covers by simp
  ultimately have "set remaining = (\<Union>b\<in>snd ` set ?open. set (sb_experiment_keys b))" by (simp only:)
  also have "\<dots> = (\<Union>(candidate, barrier)\<in>set ?open. set (tc_experiment_keys candidate))" using bound by fastforce
  finally show ?thesis
    using flags sets replan_holds_disposed [OF F(1) routes bound] payload by blast
qed

text \<open>
  C9. A semantic replan closes the whole strategy.  A payload exists only for a complete strategy
  with no requested, blocked or notified Target and with unrealized experiments; these are exactly
  the experiments of the Targets not yet accepted.  Each of their routes is disposed exactly once,
  under a disposition of its own, no route of another Target is disposed, and external operations
  are reconciled consistently: one outcome and receipt per operation, one operation per receipt.
  The payload is what those dispositions carry, in order and without repetition.
\<close>
theorem replan_payload_closes:
  assumes "closed_semantic_replan_payload plan candidates target_by_label accepted accepted_labels barriers flags = Inr (Some payload)"
    and "distinct (keys barriers)"
  shows "strategy_complete flags \<and> requested_target_refs flags = [] \<and> blocked_target_refs flags = [] \<and> pending_notice_refs flags = []
     \<and> (\<exists>realized remaining. result_sets plan accepted = Inr (realized, remaining) \<and> remaining \<noteq> []
          \<and> set remaining = (\<Union>(candidate, barrier)\<in>set (open_work candidates target_by_label barriers accepted_labels).
                set (tc_experiment_keys candidate)))
     \<and> disposed_exactly (open_work candidates target_by_label barriers accepted_labels) payload"
  using assms by (rule replan_payload_Inr)

end
