(* ===== verification/ReportSample.thy ===== *)
theory ReportSample
  imports SealedStrategy ReplanLaws RecordShapes
begin

text \<open>
  A concrete measurement for the sample strategy: the first Target was measured and completed by
  the root, the second is given up; the report asks for a semantic replan.
\<close>

subsection \<open>A verified closure\<close>

definition run_input :: "string \<Rightarrow> string \<Rightarrow> string \<Rightarrow> ExecutionInputBindingProof" where
  "run_input b s r = \<lparr>eibp_binding_ref = L b, eibp_subject_ref = L s, eibp_input_refs = [], eibp_acceptance_receipt = one_receipt r b\<rparr>"

definition one_closure :: AcceptedMeasurementClosure where
  "one_closure = \<lparr>amc_target_ref = L ''target1'', amc_target_run_ref = L ''run1'', amc_target_commit_ref = L ''commit1'',
     amc_experiment_keys = [L ''x1''], amc_measurement_unit_key = L ''m1'', amc_variant_run_ref = L ''variant1'',
     amc_evaluation_ref = L ''evaluation'', amc_protocol_version_ref = L ''protocol'',
     amc_evaluation_attempt_ref = Some (L ''attempt1''), amc_metric_result_ref = Some (L ''metric1''), amc_metric_values = [],
     amc_asset_manifest_ref = L ''assets1'', amc_execution_attempt_ref = L ''execution1'', amc_execution_fence_ref = L ''fence1'',
     amc_checkpoint_artifact_refs = [], amc_implementation_revision_ref = L ''rev1'',
     amc_held_fixed_bindings = [\<lparr>hfb_semantic_slot = L ''data'', hfb_implementation_revision_ref = L ''rev1''\<rparr>],
     amc_implementation_provenance_refs = [L ''rev1''],
     amc_variant_run_input_binding = run_input ''binding1'' ''variant1'' ''r1'',
     amc_evaluation_attempt_input_binding = Some (run_input ''binding2'' ''attempt1'' ''r2''),
     amc_rm_asset_receipt = one_receipt ''r3'' ''assets1'', amc_ar_execution_receipt = one_receipt ''r4'' ''execution1'',
     amc_rg_formal_measurement_receipt = Some (one_receipt ''r5'' ''attempt1''),
     amc_rg_target_commit_receipt = one_receipt ''r6'' ''commit1'', amc_code_review = None, amc_result_review = None,
     amc_formal_measurement_accepted = True, amc_currentness_known = True, amc_current = True,
     amc_root_completion_receipt = Some (one_receipt ''r7'' ''execution1''),
     amc_protocol_internal_parts = [], amc_protocol_aggregation_proof = None\<rparr>"

text \<open>A short word costs little and is admitted everywhere.\<close>

lemma word_admitted:
  assumes "word_text s"
  shows "text_admitted pt (L s)"
proof -
  have "list_all (\<lambda>c. c < 128) (codes (L s))" and len: "length (codes (L s)) \<le> 64"
    using assms by (auto simp: word_text_def list_all_iff)
  then have "utf8_codes (codes (L s)) = Some (codes (L s))" by (intro utf8_codes_ascii)
  then show ?thesis
    using len by (auto simp: text_admitted_def text_bytes_def text_ok_iff slen_def BUNDLE_PROJECTION_STRING_MAX_UTF8_BYTES_def PLAN_TEXT_MAX_CHARS_def)
qed

lemmas sample_contents = pv_strs_def pv_opt_def metric_field_def inherited_plan_text_def word_admitted word_text_def
  BUNDLE_PROJECTION_MAX_TUPLE_ITEMS_def duplicate_sensitive_types_def slen_def

lemma receipt_valid:
  assumes "word_text r" and "word_text s"
  shows "validate_receipt_bc (one_receipt r s) (L s) n = Inr ()"
proof -
  have "\<exists>d. validate_closed_bundle_projection (pv_ReceiptProof (one_receipt r s)) ''ReceiptProof'' BUNDLE_ROOT_MAX_SERIALIZED_BYTES = Inr d"
  proof (rule closed_projection_short)
    show "contents_ok False False (pv_ReceiptProof (one_receipt r s))"
      using word_admitted [OF assms(1)] word_admitted [OF assms(2)]
      by (simp add: pv_ReceiptProof_def one_receipt_def sample_contents(1-4))
    show "pv_size (pv_ReceiptProof (one_receipt r s)) \<le> 16384"
      using assms by (simp add: pv_ReceiptProof_def one_receipt_def slen_def word_text_def)
  qed (simp_all add: BUNDLE_ROOT_MAX_SERIALIZED_BYTES_def)
  moreover have "\<not> is_blank (L r)" using word_present [OF assms(1)] by (simp add: ref_present_def)
  ultimately show ?thesis
    by (auto simp: validate_receipt_bc_def validate_receipt_proof_def) (auto simp: one_receipt_def)
qed

lemmas closure_parts_def = pv_AcceptedMeasurementClosure_def pv_ExecutionInputBindingProof_def pv_ReceiptProof_def pv_HeldFixedBinding_def
  one_closure_def run_input_def one_receipt_def

lemma one_closure_projection: "validate_projection (pv_AcceptedMeasurementClosure one_closure) n = Inr ()"
proof -
  have "\<exists>d. validate_closed_bundle_projection (pv_AcceptedMeasurementClosure one_closure) n BUNDLE_ROOT_MAX_SERIALIZED_BYTES = Inr d"
  proof (rule closed_projection_short)
    show "well_typed (pv_AcceptedMeasurementClosure one_closure)"
      by (simp add: well_typed_closure one_closure_def)
    show "contents_ok False False (pv_AcceptedMeasurementClosure one_closure)"
      by (simp add: closure_parts_def sample_contents)
    show "pv_size (pv_AcceptedMeasurementClosure one_closure) \<le> 16384"
      by (simp add: closure_parts_def sample_contents)
  qed (simp_all add: BUNDLE_ROOT_MAX_SERIALIZED_BYTES_def)
  then show ?thesis by (auto simp: validate_projection_def)
qed

lemma word_not_blank: "word_text s \<Longrightarrow> \<not> is_blank (L s)"
  using word_present by (auto simp: ref_present_def)

lemma one_closure_verified: "verify_accepted_closure one_closure [(L ''x1'', one_brief)] = Inr ()"
proof -
  let ?b = "[(L ''x1'', one_brief)]"
  have refs: "closure_refs_present one_closure = Inr ()"
    by (simp add: closure_refs_present_def one_closure_def word_present word_text_def)
  have measured: "closure_measurement_check one_closure = Inr ()"
    by (simp add: closure_measurement_check_def one_closure_def word_present word_text_def raise_if_def)
  have coverage: "closure_coverage_check one_closure ?b = Inr ()"
    by (simp add: closure_coverage_check_def closure_cell_required_def one_closure_def one_brief_def word_present word_text_def)
  have completed: "closure_completion_check one_closure = Inr ()"
    by (simp add: closure_completion_check_def one_closure_def receipt_valid word_text_def)
  have bound: "binding_map_bc (amc_held_fixed_bindings one_closure) = Inr [(L ''data'', L ''rev1'')]"
    by (intro binding_map_refines)
       (simp add: one_closure_def binding_map_def binding_step_def ref_value_iff word_text_ok word_text_def has_key_def)
  have slots: "expected_slots ?b (amc_experiment_keys one_closure) = Inr [L ''data'']"
    by (simp add: expected_slots_def one_closure_def one_brief_def dict_item_def)
  have inputs: "closure_inputs_check one_closure = Inr ()"
    by (simp add: closure_inputs_check_def input_binding_check_def one_closure_def run_input_def receipt_valid word_present word_text_def Let_def)
       (simp add: one_receipt_def)
  have receipts: "closure_receipts_check one_closure = Inr ()"
    by (simp add: closure_receipts_check_def one_closure_def receipt_valid word_text_def)
  show ?thesis
    using one_closure_projection refs measured coverage completed bound slots inputs receipts
    by (simp add: verify_accepted_closure_def verify_protocol_aggregation_def) (simp add: one_closure_def)
qed

theorem accepted_closure_evidence_witness:
  "closure_receipted one_closure \<and> closure_admissible [(L ''x1'', one_brief)] one_closure"
  using accepted_closure_evidence [OF one_closure_verified] by blast

subsection \<open>The report\<close>

definition one_accepted :: "(str \<times> AcceptedMeasurementClosure) list" where
  "one_accepted = [(L ''target1'', one_closure)]"

lemma one_plan_facts: "plan_keys one_plan = {L ''x1''}"
  "plan_requires one_plan key cell \<longleftrightarrow> key = L ''x1'' \<and> cell \<in> {L ''m1'', L ''m2''}"
  by (simp_all add: plan_keys_def plan_requires_def one_plan_def one_brief_def) blast

lemma one_results: "result_sets one_plan one_accepted = Inr ([], [L ''x1''])"
proof -
  have "realized_keys one_plan (map snd one_accepted) = {}"
  proof -
    have "\<forall>c\<in>set (map snd one_accepted). \<not> measures c (L ''x1'') (L ''m2'')"
      by (simp add: one_accepted_def measures_def one_closure_def)
    then show ?thesis unfolding realized_keys_def one_plan_facts by blast
  qed
  moreover have "accepted_valid [(L ''x1'', one_brief)] one_accepted"
    using one_closure_verified by (simp add: accepted_valid_def one_accepted_def) (simp add: one_closure_def)
  ultimately show ?thesis
    using one_plan_briefs by (simp add: result_sets_decides one_plan_facts)
qed

definition one_request :: StageRunRequest where
  "one_request = \<lparr>srr_request_ref = L ''request'', srr_formal_plan_ref = L ''plan'', srr_formal_plan_content_hash_ref = L ''hash'',
     srr_typed = True, srr_currentness_known = True, srr_current = True, srr_root_execution_fence_current = True\<rparr>"

definition one_refs :: report_refs where
  "one_refs = \<lparr>blocker_refs = [], semantic_change_required = [L ''change''], evidence_refs = [L ''evidence''],
     route_disposition_refs = [L ''disposed''], reconciliation_receipt_refs = [], additional_owner_receipt_refs = [],
     stop_decision_refs = [], recovery_evidence_refs = [], code_review_preflights = [], active_target_refs = [],
     pending_submission_refs = [], outcome_unknown_refs = []\<rparr>"

definition one_report :: BundleReport where
  "one_report = report_of (L ''replan_required'') one_request one_plan (map snd one_accepted) one_refs [] [L ''x1'']"

lemma contents_strs: "contents_ok m pt (pv_strs xs) \<longleftrightarrow> length xs \<le> BUNDLE_PROJECTION_MAX_TUPLE_ITEMS \<and> (\<forall>x\<in>set xs. text_admitted pt x)"
proof -
  have "filter duplicate_sensitive (map PStr xs) = []" by (induction xs) simp_all
  then show ?thesis by (auto simp: pv_strs_def list_all_iff)
qed

lemma size_strs: "pv_size (pv_strs xs) = 2 + sum_list (map (\<lambda>x. 6 * slen x + 2 + 1) xs)"
  by (simp only: pv_strs_def pv_size.simps map_map comp_def)

lemma sort_short: "sort_key f [] = []" "sort_key f [x] = [x]"
  by simp_all

lemma one_report_valid: "returns (validate_bundle_report one_report)"
proof -
  have "\<exists>d. validate_closed_bundle_projection (pv_BundleReport one_report) ''BundleReport'' BUNDLE_ROOT_MAX_SERIALIZED_BYTES = Inr d"
  proof (rule closed_projection_short)
    show "contents_ok False False (pv_BundleReport one_report)"
      by (simp add: pv_BundleReport_def one_report_def report_of_def one_accepted_def one_closure_def one_refs_def one_plan_def
          one_request_def run_input_def one_receipt_def closure_owner_receipts_def closure_provenance_def present_def sorted_set_def
          contents_strs pv_opt_def metric_field_def inherited_plan_text_def word_admitted word_text_def BUNDLE_PROJECTION_MAX_TUPLE_ITEMS_def sort_short del: sort_key_simps insort_key.simps)
    show "pv_size (pv_BundleReport one_report) \<le> 16384"
      by (simp add: pv_BundleReport_def one_report_def report_of_def one_accepted_def one_closure_def one_refs_def one_plan_def
          one_request_def run_input_def one_receipt_def closure_owner_receipts_def closure_provenance_def present_def sorted_set_def
          size_strs sum_list_sort_key slen_def sort_short del: sort_key_simps insort_key.simps)
  qed (simp_all add: BUNDLE_ROOT_MAX_SERIALIZED_BYTES_def)
  then show ?thesis
    by (auto simp: validate_bundle_report_def) (auto simp: one_report_def report_of_def Let_def str_in_def)
qed

lemma one_report_built:
  "build_report (L ''replan_required'') one_request one_plan one_accepted one_refs = Inr one_report"
proof -
  have "\<exists>d. validate_closed_bundle_projection (pv_StageRunRequest one_request) ''BundleStageRunRequest'' BUNDLE_ROOT_MAX_SERIALIZED_BYTES = Inr d"
    by (rule closed_projection_short [OF well_typed_StageRunRequest])
       (simp_all add: pv_StageRunRequest_def one_request_def sample_contents BUNDLE_ROOT_MAX_SERIALIZED_BYTES_def)
  moreover have "request_check one_request one_plan = Inr ()"
    by (simp add: request_check_def one_request_def one_plan_def word_present word_text_def)
  moreover have "frozen_report_refs one_refs = Inr ()"
    by (simp add: frozen_report_refs_def freeze_refs_def one_refs_def word_present word_text_def)
  moreover have "verify_report_gate (L ''replan_required'') [] [L ''x1''] (keys [(L ''x1'', one_brief)]) (blocker_refs one_refs)
      (semantic_change_required one_refs) (active_target_refs one_refs) (pending_submission_refs one_refs) (outcome_unknown_refs one_refs) = Inr ()"
    by (simp add: verify_report_gate_Inr one_refs_def)
  ultimately show ?thesis
    using one_plan_briefs one_results one_report_valid unfolding build_report_Inr one_report_def
    by (auto simp: validate_projection_def)
qed

theorem build_report_disposition_witness:
  "br_disposition one_report = L ''replan_required'' \<and> br_remaining_experiment_keys one_report = [L ''x1'']"
  using build_report_disposition [OF one_report_built] one_results by auto

theorem build_report_lists_witness: "report_lists one_report one_plan [one_closure] one_refs"
  using build_report_lists [OF one_report_built] by (simp add: one_accepted_def)

subsection \<open>The replan\<close>

definition one_disposition :: RouteDisposition where
  "one_disposition = \<lparr>rd_disposition_ref = L ''disposed'', rd_route_ref = L ''train'', rd_experiment_keys = [L ''x1''],
     rd_outcome = L ''infeasible'', rd_required_changes = [L ''change''], rd_evidence_refs = [L ''evidence''],
     rd_external_reconciliations = [\<lparr>eor_operation_ref = L ''op'', eor_receipt = one_receipt ''r8'' ''op'', eor_outcome = L ''absent''\<rparr>]\<rparr>"

definition one_barrier :: SemanticBarrier where
  "one_barrier = \<lparr>sb_target_ref = L ''target2'', sb_target_run_ref = L ''run2'', sb_execution_attempt_ref = L ''execution2'',
     sb_execution_fence_ref = L ''fence2'', sb_experiment_keys = [L ''x1''], sb_reason = L ''reason'',
     sb_route_dispositions = [one_disposition]\<rparr>"

lemma one_payload:
  "closed_semantic_replan_payload one_plan [(L ''t1'', first_candidate), (L ''t2'', second_candidate)]
     [(L ''t1'', L ''target1''), (L ''t2'', L ''target2'')] one_accepted [L ''t1''] [(L ''target2'', one_barrier)]
     \<lparr>strategy_complete = True, requested_target_refs = [], blocked_target_refs = [], pending_notice_refs = []\<rparr>
   = Inr (Some ([L ''change''], [L ''evidence''], [L ''disposed''], [L ''r8'']))"
  by (simp add: closed_semantic_replan_payload_def one_results Let_def barrier_step_def dict_item_def second_candidate_def
      one_candidate_def one_barrier_def route_step_def empty_replan_def disposition_step_def reconciliation_step_def
      one_disposition_def setdefault_def sorted_set_def)
     (simp add: one_receipt_def)

theorem replan_payload_closes_witness:
  "disposed_exactly (open_work [(L ''t1'', first_candidate), (L ''t2'', second_candidate)]
      [(L ''t1'', L ''target1''), (L ''t2'', L ''target2'')] [(L ''target2'', one_barrier)] [L ''t1''])
     ([L ''change''], [L ''evidence''], [L ''disposed''], [L ''r8''])"
  using replan_payload_closes [OF one_payload] by simp

end
