(* ===== verification/BundleSample.thy ===== *)
theory BundleSample
  imports BundleContractLaws ReportSample
begin

text \<open>
  The Target plan that opens the sample strategy, and a review of it with one finding: they witness
  the promises of \<open>bundle_contract.py\<close>.
\<close>

definition contract_document :: json where
  "contract_document = obj
     [(''schema_ref'', js NORMALIZED_COMPLETION_CONTRACT_SCHEMA_REF), (''plan_document_hash'', JStr one_plan_hash),
      (''experiments'', JList [obj [(''semantic_inputs'', semantic_to_dict one_semantics),
         (''brief'', projection_plain_value (pv_ExperimentBrief one_brief))]])]"

definition first_document :: json where
  "first_document = obj
     [(''schema_ref'', js FORMAL_STRATEGY_UPDATE_SCHEMA_REF), (''revision'', JInt 1),
      (''candidates'', JList [formal_document first_candidate ''m1'']), (''requires_accepted_labels'', JList []),
      (''strategy_complete'', JBool False)]"

lemma one_plan_small: "small 64 one_plan_document" "json_size one_plan_document < 65536"
  by (simp_all add: one_plan_document_def one_plan_brief_def small_simps PLAN_DOCUMENT_SCHEMA_REF_def)

lemma one_plan_root: "validate_json_root mode one_plan_document name = Inr one_plan_hash"
  using small_root [OF one_plan_small] by (simp add: one_plan_hash_def)

lemma plan_document_briefs: "plan_briefs (obj_items one_plan_document) = Inr (one_plan_hash, [(L ''x1'', obj_items one_plan_brief)])"
proof -
  have "validate_json_root mode (JDict (obj_items one_plan_document)) name = Inr one_plan_hash" for mode name
    using one_plan_root [of mode name] by (simp add: one_plan_document_def)
  then show ?thesis
    by (simp add: plan_briefs_def)
       (simp add: one_plan_document_def one_plan_brief_def plan_brief_step_def string_list_def ref_value_iff plan_text_iff exact_dict_def
        word_text_ok word_text_def BUNDLE_PROJECTION_MAX_TUPLE_ITEMS_def plan_brief_required_def plan_brief_fields_def plan_prose_fields_def keys_are_def)
qed


lemma one_brief_projection:
  "\<exists>d. validate_closed_bundle_projection (pv_ExperimentBrief one_brief) ''ExperimentBrief'' BUNDLE_ROOT_MAX_SERIALIZED_BYTES = Inr d"
proof (rule closed_projection_short)
  show "contents_ok False False (pv_ExperimentBrief one_brief)"
    by (simp add: one_brief_def pv_ExperimentBrief_def sample_contents)
  show "pv_size (pv_ExperimentBrief one_brief) \<le> 16384"
    by (simp add: one_brief_def pv_ExperimentBrief_def pv_strs_def slen_def)
qed (simp_all add: BUNDLE_ROOT_MAX_SERIALIZED_BYTES_def)

lemma contract_document_small: "small 60 contract_document" "json_size contract_document < 10000"
  by (simp_all add: contract_document_def one_plan_hash_ascii small_simps one_semantics_def one_brief_def
      pv_ExperimentBrief_def NORMALIZED_COMPLETION_CONTRACT_SCHEMA_REF_def)

lemma contract_document_root: "validate_json_root mode contract_document name = Inr (sha256_hex (json_codes contract_document))"
  using small_mono [OF contract_document_small(1)] contract_document_small(2) by (intro small_root) simp_all

lemma contract_written: "normalized_completion_contract_to_dict one_contract = Inr contract_document"
  using contract_document_root
  by (simp add: normalized_completion_contract_to_dict_def one_contract_def experiment_completion_to_dict_def Let_def)
     (simp add: contract_document_def)

lemma one_contract_valid: "validate_completion_contract one_contract (obj_items one_plan_document) = Inr ()"
proof -
  have "foldE (completion_step [(L ''x1'', obj_items one_plan_brief)]) [] (ncc_experiments one_contract)
      = Inr [(L ''x1'', \<lparr>nec_semantic_inputs = one_semantics, nec_brief = one_brief\<rparr>)]"
    using one_brief_projection
    by (auto simp: one_contract_def completion_step_def one_semantics_def semantic_drift_def one_plan_brief_def Let_def)
       (auto simp: one_brief_def string_list_iff word_text_ok word_text_def)
  then show ?thesis
    using contract_written contract_document_root plan_document_briefs
    by (simp add: validate_completion_contract_def same_set_def) (simp add: one_contract_def)
qed

lemma contract_read: "normalized_completion_contract_from_dict contract_document (obj_items one_plan_document) = Inr one_contract"
proof -
  have parts: "semantic_from_dict (semantic_to_dict one_semantics) = Inr one_semantics"
    "brief_from_dict (projection_plain_value (pv_ExperimentBrief one_brief)) = Inr one_brief"
    by (rule semantic.parse_ser [OF _ refl]; simp add: semantic_ok_def one_semantics_def word_text_ok word_text_def)
       (rule brief.parse_ser [OF _ refl]; simp add: brief_ok_def one_brief_def word_text_ok word_text_def)
  have hash: "sha256_value (JStr one_plan_hash) name = Inr one_plan_hash" for name
    by (rule hex64_ref) (simp add: one_plan_hash_def sha256_hex_is_hex64)
  have "is_obj contract_document" by (simp add: contract_document_def)
  then show ?thesis
    using one_contract_valid contract_document_root
    by (simp add: normalized_completion_contract_from_dict_def)
       (simp add: contract_document_def exact_dict_def keys_are_def object_list_def experiment_completion_from_dict_def
        parts hash one_contract_def BUNDLE_PROJECTION_MAX_TUPLE_ITEMS_def)
qed

subsection \<open>The plan\<close>

definition one_source :: json where
  "one_source = obj
     [(''formal_plan_ref'', js ''plan1''), (''plan_document_hash'', JStr one_plan_hash),
      (''context_pack_ref'', js ''pack1''), (''context_pack_hash'', js ''hash1'')]"

definition one_target_plan :: jdict where
  "one_target_plan = obj_items (obj
     [(''schema_ref'', js TARGET_PLAN_SCHEMA_REF), (''kind'', js ''TargetPlan''), (''formal_plan_ref'', js ''plan1''),
      (''context_pack_ref'', js ''pack1''), (''completion_contract'', contract_document),
      (''initial_strategy_update'', first_document), (''source_bindings'', one_source)])"

lemma first_document_small: "small 64 first_document" "json_size first_document < 16000"
  using formal_document_depth [of first_candidate "''m1''"] formal_document_small(2) [of first_candidate "''m1''"]
  by (simp_all add: first_document_def FORMAL_STRATEGY_UPDATE_SCHEMA_REF_def small_simps BUNDLE_CANONICAL_INTEGER_MAX_ABS_def
      int_codes_def nat_codes.simps)

lemma first_update_document: "strategy_update_to_dict first_update one_contract = Inr first_document"
proof -
  have "fsu_candidates first_update = [first_formal]" by (simp add: first_update_def one_update_def)
  then have "mapE (\<lambda>item. formal_target_candidate_to_dict item one_contract) (fsu_candidates first_update)
      = Inr [formal_document first_candidate ''m1'']" by (simp add: one_formal_documents)
  moreover have "json_size first_document < 65536" using first_document_small(2) by simp
  ultimately show ?thesis
    using small_root [OF first_document_small(1)] one_updates_valid(1)
    by (simp add: strategy_update_to_dict_def Let_def) (simp add: first_update_def one_update_def first_document_def jstrs_def)
qed

lemma plan_opens: "opened_strategy contract_document first_document (obj_items one_plan_document) = Inr one_middle"
  using contract_read strategy_update_codec [OF first_update_document one_contract_semantics] one_started first_applied
  by (simp add: opened_strategy_def) (simp add: one_update_simps MAX_BUNDLE_TARGETS_def)

lemma target_plan_fits: "ascii_json (JDict one_target_plan)" "json_size (JDict one_target_plan) < 65536"
proof -
  have "ascii_json contract_document" "ascii_json first_document" "ascii_json one_source"
    using small_ascii [OF contract_document_small(1)] small_ascii [OF first_document_small(1)] one_plan_hash_ascii
    by (simp_all add: one_source_def)
  then show "ascii_json (JDict one_target_plan)" by (simp add: one_target_plan_def TARGET_PLAN_SCHEMA_REF_def)
  show "json_size (JDict one_target_plan) < 65536"
    using contract_document_small(2) first_document_small(2) one_plan_hash_ascii
    by (simp add: one_target_plan_def TARGET_PLAN_SCHEMA_REF_def one_source_def slen_def)
qed

lemma ascii_canonical_text: "ascii_json v \<Longrightarrow> canonical_json v = Inr (Str (json_codes v)) \<and> encode_utf8 (Str (json_codes v)) = Inr (json_codes v)"
  using ascii_json_codes [of v] ascii_json_plain [of v]
  by (simp add: canonical_json_def json_dumps_def encode_utf8_def utf8_codes_ascii list_all_iff)

lemma ascii_canonical_length: "ascii_json (JDict d) \<Longrightarrow> canonical_length d = Inr (int (length (json_codes (JDict d))))"
  using ascii_canonical_text [of "JDict d"] unfolding canonical_length_def by (metis bindE_simps(2))

lemma one_target_plan_accepted:
  "validate_target_plan one_target_plan (L ''plan1'') (L ''pack1'') (L ''hash1'') (obj_items one_plan_document)
     = Inr (sha256_hex (json_codes (JDict one_target_plan)))"
proof -
  have plan: "JDict (obj_items one_plan_document) = one_plan_document" by (simp add: one_plan_document_def)
  have "canonical_hash one_plan_document = Inr one_plan_hash"
    using ascii_json_hash [OF small_ascii [OF one_plan_small(1)]] by (simp add: one_plan_hash_def)
  moreover have "is_obj one_source" "py_eq one_source one_source" by (simp_all add: one_source_def)
  ultimately have source: "target_plan_source_check one_target_plan (L ''plan1'') (L ''pack1'') (L ''hash1'') (obj_items one_plan_document) = Inr ()"
    by (simp add: target_plan_source_check_def plan one_target_plan_def one_source_def bundle_object_def)
  have "length (json_codes (JDict one_target_plan)) < 65536"
    using length_json_codes [of "JDict one_target_plan"] target_plan_fits(2) by linarith
  moreover have "is_obj contract_document" "is_obj first_document" by (simp_all add: contract_document_def first_document_def)
  ultimately show ?thesis
    using source plan_opens ascii_canonical_length [OF target_plan_fits(1)] ascii_json_hash [OF target_plan_fits(1)]
    by (simp add: validate_target_plan_def MAX_BUNDLE_TARGET_PLAN_BYTES_def BUNDLE_ROOT_MAX_SERIALIZED_BYTES_def Let_def
        del: json_codes.simps)
      (simp add: one_target_plan_def notes_check_def bundle_exact_keys_def keys_are_def with_notes_def target_plan_fields_def)
qed

lemma target_plan_opens_strategy_witness: "canonical_hash (JDict one_target_plan) = Inr (sha256_hex (json_codes (JDict one_target_plan)))"
  using target_plan_opens_strategy [OF one_target_plan_accepted] by blast

subsection \<open>A review\<close>

definition one_review :: jdict where
  "one_review = obj_items (obj
     [(''schema_ref'', js TARGET_PLAN_REVIEW_SCHEMA_REF), (''review_mode'', js ''harness_child_agent''), (''reviewer_agent_ref'', js ''a1''),
      (''reviewed_draft_hash'', js ''h1''),
      (''findings'', JList [obj [(''finding_id'', js ''f1''), (''category'', js ''dag''), (''message'', js ''cycle'')]]),
      (''dispositions'', JList [obj [(''finding_id'', js ''f1''), (''action'', js ''revised''), (''rationale'', js ''cut'')]]),
      (''final_target_plan_hash'', js ''h2''), (''independent'', JBool True), (''advisory_only'', JBool True)])"

lemma one_review_accepted:
  "validate_target_plan_review one_review (L ''h1'') (L ''h2'') = Inr (sha256_hex (json_codes (JDict one_review)))"
proof -
  have "ascii_json (JDict one_review)" by (simp add: one_review_def TARGET_PLAN_REVIEW_SCHEMA_REF_def)
  note hash = ascii_json_hash [OF this]
  have "\<not> is_blank (L (c # cs))" if "\<not> is_space (of_char c)" for c cs using that by (simp add: is_blank_iff)
  then show ?thesis
    using hash
    by (simp add: validate_target_plan_review_def del: json_codes.simps)
      (simp add: one_review_def bundle_exact_keys_def keys_are_def target_plan_review_fields_def finding_step_def
        review_disposition_step_def bundle_object_def in_str_set_def finding_categories_def in_names_def same_set_def is_space_def)
qed

lemma review_disposes_findings_witness: "distinct (review_ids (dget one_review ''dispositions''))"
  using review_disposes_findings [OF one_review_accepted] by blast

end
