(* ===== verification/TargetRunSample.thy ===== *)
theory TargetRunSample
  imports TargetRunPromises BundleSample
begin

text \<open>
  A TargetRun of two executions: the first was interrupted and recovered without a change of code, the
  second finished; its result was reviewed by an independent session, and its closure was accepted.
  It witnesses the promises of admitted handoffs.
\<close>

subsection \<open>The run\<close>

definition handle_of :: "string \<Rightarrow> string \<Rightarrow> string \<Rightarrow> string \<Rightarrow> string \<Rightarrow> TargetWorkHandle" where
  "handle_of session attempt fence binding receipt =
    \<lparr>twh_target_ref = L ''target1'', twh_target_run_ref = L ''run1'', twh_root_session_ref = L session,
     twh_execution_attempt_ref = L attempt, twh_execution_fence_ref = L fence, twh_execution_input_binding_ref = L binding,
     twh_execution_input_binding_receipt = one_receipt receipt binding, twh_accepted_input_target_commit_refs = [],
     twh_accepted_input_asset_proofs = [], twh_recoverable = True\<rparr>"

definition first_handle :: TargetWorkHandle where
  "first_handle = handle_of ''session0'' ''execution0'' ''fence0'' ''input0'' ''h0''"

definition run_handle :: TargetWorkHandle where
  "run_handle = handle_of ''session1'' ''execution1'' ''fence1'' ''input1'' ''h1''"

text \<open>An interruption of a handle that was fenced and is ready to be retried.\<close>

definition interruption :: "TargetWorkHandle \<Rightarrow> string \<Rightarrow> string \<Rightarrow> string \<Rightarrow> TechnicalBlocker" where
  "interruption handle ref receipt recovery =
    \<lparr>tbl_target_ref = twh_target_ref handle, tbl_target_run_ref = twh_target_run_ref handle,
     tbl_execution_attempt_ref = twh_execution_attempt_ref handle, tbl_execution_fence_ref = twh_execution_fence_ref handle,
     tbl_blocker_ref = L ref, tbl_blocker_receipt = one_receipt receipt ref, tbl_reason = L ''interrupted'',
     tbl_recovery_ready = True, tbl_old_session_fenced = True, tbl_recovery_pack_complete = True,
     tbl_recovery_receipt = Some (one_receipt recovery ref), tbl_replacement_implementation_revision_ref = None,
     tbl_bundle_decision_required = False, tbl_escalation_scope = None, tbl_pending_obligation_refs = [],
     tbl_escalation_evidence = None, tbl_escalation_receipt = None\<rparr>"

definition bound :: "string \<Rightarrow> string \<Rightarrow> ContentBindingProof" where
  "bound s h = \<lparr>cbp_subject_ref = L s, cbp_content_hash_ref = L h\<rparr>"

definition run_scope :: CodeReviewScope where
  "run_scope = \<lparr>crs_candidate_revision_binding = bound ''rev1'' ''hash1'', crs_target_spec_binding = bound ''target1'' ''hash2'',
     crs_target_spec_acceptance_receipt = one_receipt ''h2'' ''hash2'', crs_formal_plan_binding = bound ''plan1'' ''hash3'',
     crs_formal_plan_acceptance_receipt = one_receipt ''h3'' ''hash3'', crs_experiment_keys = [L ''x1''],
     crs_semantic_deltas = [L ''delta''], crs_held_fixed_bindings = [], crs_accepted_input_refs = [],
     crs_reuse_provenance_refs = [], crs_repository_standards_refs = [L ''standards'']\<rparr>"

definition run_review :: CodeReviewRecord where
  "run_review = \<lparr>crr_code_changed = False, crr_disposition = L ''not_applicable(empty_diff)'', crr_candidate_revision_ref = L ''rev1'',
     crr_reviewed_revision_ref = None, crr_fixed_base_ref = None, crr_diff_ref = None, crr_review_ref = None,
     crr_review_parent_session_ref = None, crr_reviewer_session_ref = None, crr_reviewer_spawn_evidence_ref = None,
     crr_unresolved_standards_findings = 0, crr_unresolved_spec_findings = 0\<rparr>"

definition run_evidence :: "string \<Rightarrow> RevisionEvidenceProof" where
  "run_evidence e = \<lparr>rep_evidence_ref = L e, rep_subject_revision_ref = L ''rev1''\<rparr>"

definition run_preflight :: TargetExecutionPreflight where
  "run_preflight = \<lparr>tep_target_ref = L ''target1'', tep_target_run_ref = L ''run1'', tep_implementation_revision_ref = L ''rev1'',
     tep_implementation_acceptance_receipt = one_receipt ''h4'' ''hash1'', tep_target_spec_acceptance_receipt = one_receipt ''h2'' ''hash2'',
     tep_candidate_ready_evidence = run_evidence ''ready1'', tep_self_check_evidence = [run_evidence ''checked1''],
     tep_review_scope = run_scope, tep_code_review = run_review, tep_code_review_evidence_binding = None,
     tep_code_review_evidence_receipt = None\<rparr>"

definition run_result_review :: ResultReviewRecord where
  "run_result_review = \<lparr>rrr_reviewed_evaluation_attempt_ref = L ''attempt1'', rrr_reviewed_metric_result_ref = L ''metric1'',
     rrr_reviewed_asset_manifest_ref = L ''assets1'', rrr_review_ref = L ''review1'', rrr_review_parent_session_ref = L ''session1'',
     rrr_reviewer_session_ref = L ''session2'', rrr_reviewer_spawn_evidence_ref = L ''spawn2'', rrr_unresolved_findings = 0\<rparr>"

definition run_closure :: AcceptedMeasurementClosure where
  "run_closure = one_closure\<lparr>amc_code_review := Some run_review, amc_result_review := Some run_result_review,
     amc_root_completion_receipt := None\<rparr>"

definition run_handoff :: TargetRunHandoff where
  "run_handoff = \<lparr>trh_handle_history = [first_handle, run_handle], trh_code_review_preflights = [run_preflight], trh_stop_decisions = [],
     trh_recovered_blockers = [interruption first_handle ''blocker1'' ''h5'' ''h6''],
     trh_recovery_evidence_refs = map L [''blocker1'', ''execution0'', ''execution1'', ''fence0'', ''fence1'', ''h5'', ''h6'', ''run1'',
       ''session0'', ''session1''],
     trh_terminal = Term_AcceptedMeasurementClosure run_closure\<rparr>"

definition run_frontier :: TargetFrontierEntry where
  "run_frontier = \<lparr>tfe_target_ref = L ''target1'', tfe_target_spec_binding = bound ''target1'' ''hash2'',
     tfe_target_spec_acceptance_receipt = one_receipt ''h2'' ''hash2'', tfe_state_revision = 2, tfe_state = L ''terminal'',
     tfe_current_handle = run_handle, tfe_terminal_fact_ref = Some (L ''commit1''), tfe_currentness_known = True, tfe_current = True\<rparr>"

lemmas run_parts_def = first_handle_def run_handle_def handle_of_def interruption_def bound_def run_scope_def run_review_def run_evidence_def run_preflight_def run_result_review_def

subsection \<open>Its projections\<close>

lemma word_run_ref: "word_text s \<Longrightarrow> run_ref_ok (L s)"
  using word_text_ok(1) [of s] by (auto simp: run_ref_ok_def ref_ok_def returns_iff word_text_def)

lemma run_receipt:
  assumes "word_text r" and "word_text s"
  shows "validate_receipt_proof (one_receipt r s) (L s) = Inr ()"
  using receipt_valid [OF assms, of "[]"] by (auto simp: validate_receipt_bc_def)

lemmas run_projection_defs = pv_TargetWorkHandle_def pv_TargetExecutionPreflight_def pv_CodeReviewScope_def pv_CodeReviewRecord_def
  pv_RevisionEvidenceProof_def pv_ResultReviewRecord_def pv_ContentBindingProof_def pv_TechnicalBlocker_def pv_ReceiptProof_def one_receipt_def run_parts_def

lemmas small_numbers = BUNDLE_CANONICAL_INTEGER_MAX_ABS_def int_codes_def nat_codes.simps

lemma projected:
  assumes "well_typed v" and "contents_ok False False v" and "pv_size v \<le> 16384"
  shows "\<exists>d. projection_digest v name = Inr d"
  using closed_projection_short [OF assms] by (simp add: projection_digest_def BUNDLE_ROOT_MAX_SERIALIZED_BYTES_def)

lemma handle_projected:
  assumes "word_text session" "word_text attempt" "word_text fence" "word_text binding" "word_text receipt"
  shows "\<exists>d. projection_digest (pv_TargetWorkHandle (handle_of session attempt fence binding receipt)) n = Inr d"
proof (rule projected [OF well_typed_TargetWorkHandle])
  have len: "length session \<le> 64" "length attempt \<le> 64" "length fence \<le> 64" "length binding \<le> 64" "length receipt \<le> 64"
    using assms by (simp_all add: word_text_def)
  show "contents_ok False False (pv_TargetWorkHandle (handle_of session attempt fence binding receipt))"
    using assms [THEN word_admitted] by (simp add: run_projection_defs small_numbers sample_contents(1-4) word_admitted word_text_def [of "''target1''"]
        word_text_def [of "''run1''"] sample_contents(7-))
  show "pv_size (pv_TargetWorkHandle (handle_of session attempt fence binding receipt)) \<le> 16384"
    using len by (simp add: run_projection_defs small_numbers sample_contents(1-4))
qed

lemma interruption_projected:
  assumes "word_text session" "word_text attempt" "word_text fence" "word_text ref" "word_text receipt" "word_text recovery"
  shows "\<exists>d. projection_digest (pv_TechnicalBlocker (interruption (handle_of session attempt fence b h) ref receipt recovery)) n = Inr d"
proof (rule projected [OF well_typed_TechnicalBlocker])
  have len: "length session \<le> 64" "length attempt \<le> 64" "length fence \<le> 64" "length ref \<le> 64" "length receipt \<le> 64" "length recovery \<le> 64"
    using assms by (simp_all add: word_text_def)
  show "contents_ok False False (pv_TechnicalBlocker (interruption (handle_of session attempt fence b h) ref receipt recovery))"
    using assms [THEN word_admitted] by (simp add: run_projection_defs small_numbers sample_contents(1-4) word_admitted word_text_def [of "''target1''"]
        word_text_def [of "''run1''"] word_text_def [of "''interrupted''"] sample_contents(7-))
  show "pv_size (pv_TechnicalBlocker (interruption (handle_of session attempt fence b h) ref receipt recovery)) \<le> 16384"
    using len by (simp add: run_projection_defs small_numbers sample_contents(1-4))
qed

lemma run_preflight_projected: "\<exists>d. projection_digest (pv_TargetExecutionPreflight run_preflight) n = Inr d"
  by (rule projected [OF well_typed_TargetExecutionPreflight]) (simp_all add: run_projection_defs small_numbers sample_contents)

lemma run_review_projected: "\<exists>d. projection_digest (pv_CodeReviewRecord run_review) n = Inr d"
  by (rule projected [OF well_typed_CodeReviewRecord]) (simp_all add: run_projection_defs small_numbers sample_contents)

lemma run_result_review_projected: "\<exists>d. projection_digest (pv_ResultReviewRecord run_result_review) n = Inr d"
  by (rule projected [OF well_typed_ResultReviewRecord]) (simp_all add: run_projection_defs small_numbers sample_contents)

lemma run_frontier_projected: "\<exists>d. projection_digest (pv_TargetFrontierEntry run_frontier) n = Inr d"
  by (rule projected [OF well_typed_TargetFrontierEntry]) (simp_all add: run_projection_defs small_numbers pv_TargetFrontierEntry_def run_frontier_def sample_contents)

lemma run_handoff_projected:
  "\<exists>d. validate_closed_bundle_projection (pv_TargetRunHandoff run_handoff) n BUNDLE_HANDOFF_MAX_SERIALIZED_BYTES = Inr d"
proof -
  have size: "pv_size (pv_TargetRunHandoff run_handoff) \<le> 65536"
    by (simp add: pv_TargetRunHandoff_def run_handoff_def run_closure_def run_projection_defs closure_parts_def sample_contents small_numbers)
  show ?thesis
  proof (rule closed_projection_sized)
    show "contents_ok False False (pv_TargetRunHandoff run_handoff)"
      by (simp add: pv_TargetRunHandoff_def run_handoff_def run_closure_def run_projection_defs closure_parts_def sample_contents small_numbers)
    show "well_typed (pv_TargetRunHandoff run_handoff)"
      by (simp add: well_typed_handoff terminal_metrics_valid_def run_handoff_def run_closure_def one_closure_def)
    show "4 * int (pv_size (pv_TargetRunHandoff run_handoff)) \<le> BUNDLE_HANDOFF_MAX_SERIALIZED_BYTES"
      using size by (simp add: BUNDLE_HANDOFF_MAX_SERIALIZED_BYTES_def)
  qed (use size in \<open>simp_all add: BUNDLE_HANDOFF_MAX_SERIALIZED_BYTES_def BUNDLE_ROOT_MAX_SERIALIZED_BYTES_def\<close>)
qed

subsection \<open>Its notice\<close>

definition run_digest :: str where
  "run_digest = (case validate_target_run_handoff run_handoff of Inr d \<Rightarrow> d | Inl _ \<Rightarrow> L [])"

lemma run_handoff_admitted: "validate_target_run_handoff run_handoff = Inr run_digest" "is_hex64 run_digest"
proof -
  obtain d where d: "validate_closed_bundle_projection (pv_TargetRunHandoff run_handoff) ''TargetRunHandoff'' BUNDLE_HANDOFF_MAX_SERIALIZED_BYTES = Inr d"
    using run_handoff_projected by blast
  then have "validate_target_run_handoff run_handoff = Inr d"
    by (simp add: validate_target_run_handoff_def run_handoff_def run_closure_def root_completion_def)
  then show "validate_target_run_handoff run_handoff = Inr run_digest" "is_hex64 run_digest"
    using d by (auto simp: run_digest_def validate_closed_bundle_projection_def)
qed

definition run_notice_of :: "str \<Rightarrow> TargetWorkNotice" where
  "run_notice_of payload = \<lparr>twn_notice_ref = L ''notice1'', twn_sequence = 1, twn_terminal_transition_ref = L ''transition1'',
     twn_kind = L ''target_completed'', twn_target_ref = L ''target1'', twn_target_run_ref = L ''run1'',
     twn_execution_attempt_ref = Some (L ''execution1''), twn_execution_fence_ref = Some (L ''fence1''),
     twn_terminal_fact_ref = L ''commit1'', twn_handoff_manifest_ref = L ''manifest1'', twn_handoff_manifest_sha256 = run_digest,
     twn_compact_reason = L ''terminal candidate ready'', twn_pending_obligation_refs = [], twn_payload_sha256 = payload\<rparr>"

lemma payload_ascii:
  assumes "ascii_json v"
  shows "\<exists>h. payload_digest v n = Inr h \<and> is_hex64 h"
proof -
  have "canonical_projection_bytes (PJson v) n = Inr (json_codes v)"
    using ascii_canonical_text [OF assms] by (simp add: canonical_projection_bytes_def canonical_json_def)
  then show ?thesis by (simp add: payload_digest_def)
qed

lemma ascii_hex: "is_hex64 h \<Longrightarrow> ascii_json (JStr h)"
  by (auto simp: is_hex64_def schars_in_def list_all_iff dest!: bspec)

definition run_payload :: str where
  "run_payload = (case notice_payload_digest (run_notice_of (L [])) of Inr h \<Rightarrow> h | Inl _ \<Rightarrow> L [])"

lemma run_payload: "notice_payload_digest (run_notice_of x) = Inr run_payload" "is_hex64 run_payload"
proof -
  have same: "notice_payload_digest (run_notice_of x) = notice_payload_digest (run_notice_of (L []))" for x
    by (simp add: notice_payload_digest_def run_notice_of_def)
  have "\<exists>h. notice_payload_digest (run_notice_of (L [])) = Inr h \<and> is_hex64 h"
    unfolding notice_payload_digest_def
    using ascii_hex [OF run_handoff_admitted(2)] by (intro payload_ascii) (simp add: run_notice_of_def jstrs_def)
  then show "notice_payload_digest (run_notice_of x) = Inr run_payload" "is_hex64 run_payload"
    unfolding same [of x] by (auto simp: run_payload_def)
qed

definition run_notice :: TargetWorkNotice where
  "run_notice = run_notice_of run_payload"

lemma ascii_admitted:
  assumes "list_all (\<lambda>c. c < 128) (codes s)" and "length (codes s) \<le> 64"
  shows "text_admitted pt s"
  using assms utf8_codes_ascii [OF assms(1)]
  by (auto simp: text_admitted_def text_bytes_def text_ok_iff slen_def BUNDLE_PROJECTION_STRING_MAX_UTF8_BYTES_def PLAN_TEXT_MAX_CHARS_def)

lemma hex_admitted:
  assumes "is_hex64 h"
  shows "text_admitted pt h" and "length (codes h) = 64"
proof -
  have "list_all (\<lambda>c. c < 128) (codes h)" and "length (codes h) = 64"
    using assms by (auto simp: is_hex64_def schars_in_def slen_def list_all_iff dest!: bspec)
  then show "text_admitted pt h" "length (codes h) = 64" by (simp_all add: ascii_admitted)
qed

lemma reason_admitted: "text_admitted False (L ''terminal candidate ready'')"
  by (rule ascii_admitted) simp_all

lemma run_notice_projected:
  "\<exists>d. validate_closed_bundle_projection (pv_TargetWorkNotice run_notice) n BUNDLE_NOTICE_MAX_SERIALIZED_BYTES = Inr d"
proof (rule closed_projection_short [OF well_typed_TargetWorkNotice])
  note hex = hex_admitted(1,2) [OF run_handoff_admitted(2)] hex_admitted(1,2) [OF run_payload(2)]
  show "contents_ok False False (pv_TargetWorkNotice run_notice)"
    by (simp add: run_notice_def run_notice_of_def pv_TargetWorkNotice_def sample_contents small_numbers hex reason_admitted)
  show "pv_size (pv_TargetWorkNotice run_notice) \<le> 16384"
    by (simp add: run_notice_def run_notice_of_def pv_TargetWorkNotice_def sample_contents small_numbers hex reason_admitted)
qed (simp_all add: BUNDLE_NOTICE_MAX_SERIALIZED_BYTES_def BUNDLE_ROOT_MAX_SERIALIZED_BYTES_def)

lemma run_notice_admitted: "\<exists>d. validate_target_work_notice run_notice = Inr d"
  using run_notice_projected [of "''TargetWorkNotice''"] hex_admitted(2) [OF run_handoff_admitted(2)] hex_admitted(2) [OF run_payload(2)]
  by (auto simp: validate_target_work_notice_def)
     (auto simp: run_notice_def run_notice_of_def notice_refs_def notice_execution_refs_def plain_ascii_encode scontains_def slen_def
        is_space_def is_blank_iff BUNDLE_NOTICE_REASON_MAX_CHARS_def BUNDLE_NOTICE_REASON_MAX_UTF8_BYTES_def
        BUNDLE_NOTICE_REF_MAX_UTF8_BYTES_def)

subsection \<open>Its replay\<close>

lemma handle_of_good:
  assumes "word_text session" "word_text attempt" "word_text fence" "word_text binding" "word_text receipt"
    and "distinct [''run1'', session, attempt, fence]"
  shows "returns (validate_same_inputs first_handle (handle_of session attempt fence binding receipt))"
  using handle_projected [OF assms(1-5), of "''TargetWorkHandle''"] assms(6) assms(1-5) [THEN word_run_ref] run_receipt [OF assms(5,4)]
  unfolding same_inputs_iff unfolding handle_good_def returns_iff
  by (simp add: first_handle_def handle_of_def handle_refs_def handle_identities_def input_assets_def
      word_run_ref [of "''run1''"] word_text_def [of "''run1''"])

lemma first_handle_good: "returns (validate_same_inputs first_handle first_handle)"
  by (subst (2) first_handle_def, rule handle_of_good) (simp_all add: word_text_def)

lemma run_handle_good: "returns (validate_same_inputs first_handle run_handle)"
  unfolding run_handle_def by (rule handle_of_good) (simp_all add: word_text_def)

text \<open>A pure retry is admitted whenever session, attempt and fence are other ones.\<close>

lemma interruption_recovered:
  assumes "old = handle_of session attempt fence b h" and "returns (validate_same_inputs first_handle new)"
    and "word_text session" "word_text attempt" "word_text fence" "word_text ref" "word_text receipt" "word_text recovery"
    and "\<not> clash old new"
  shows "validate_technical_blocker_recovery (interruption old ref receipt recovery) old new previous None None [] [] =
    Inr (sorted_set ([L ref, L receipt, L recovery] @ handle_refs old @ handle_refs new))"
proof -
  obtain d where "projection_digest (pv_TechnicalBlocker (interruption old ref receipt recovery)) ''TechnicalBlocker'' = Inr d"
    using interruption_projected [OF assms(3-8)] unfolding assms(1) by blast
  then have "recovery_blocker_check (interruption old ref receipt recovery) old = Inr (one_receipt recovery ref)"
    using run_receipt [OF assms(7,6)] run_receipt [OF assms(8,6)] word_run_ref [OF assms(6)]
    by (simp add: recovery_blocker_check_def)
      (simp add: interruption_def blocker_is_stale_def claims_escalation_def word_run_ref word_text_def)
  moreover have "returns (validate_target_work_handle new (twh_target_ref old) [] [])"
    using assms(2) by (simp add: validate_same_inputs_def first_handle_def handle_of_def assms(1) input_assets_def)
  ultimately show ?thesis
    using assms(9)
    by (auto simp: validate_technical_blocker_recovery_def returns_iff clash_def replacement_check_def)
      (simp_all add: interruption_def one_receipt_def replacement_check_def)
qed

lemma run_preflight_checks:
  "preflight_subject_check run_preflight first_handle run_scope (L ''rev1'') = Inr ()"
  "preflight_bindings_check run_preflight first_handle = Inr ()" "review_scope_check run_scope first_handle = Inr ()"
  "preflight_evidence_check run_preflight = Inr ()" "review_evidence_check run_preflight = Inr ()"
  by (simp_all add: run_parts_def preflight_subject_check_def preflight_bindings_check_def review_scope_check_def
        preflight_evidence_check_def self_check_def review_evidence_check_def handle_input_refs_def sorted_set_def
        word_run_ref word_not_blank word_text_def run_receipt Let_def)

lemma run_preflight_parts [simp]:
  "tep_implementation_revision_ref run_preflight = L ''rev1''" "tep_code_review run_preflight = run_review"
  "tep_review_scope run_preflight = run_scope" "crr_code_changed run_review = False" "twh_root_session_ref run_handle = L ''session1''" "twh_root_session_ref first_handle = L ''session0''"
  "crr_reviewer_session_ref run_review = None" "crr_reviewer_spawn_evidence_ref run_review = None"
  by (simp_all add: run_preflight_def run_review_def run_handle_def first_handle_def handle_of_def)

lemma run_preflight_admitted: "\<exists>d. validate_target_execution_preflight run_preflight first_handle run_scope (L ''rev1'') False = Inr d"
proof -
  have "\<exists>d. validate_code_review run_review (L ''rev1'') (L ''session0'') = Inr d"
    using run_review_projected
    by (auto simp: validate_code_review_def) (auto simp: run_review_def empty_diff_check_def code_review_refs_def word_run_ref word_text_def)
  then show ?thesis
    using run_preflight_projected [of "''TargetExecutionPreflight''"] run_preflight_checks
    by (auto simp: validate_target_execution_preflight_def)
qed

lemma run_result_admitted:
  "\<exists>d. validate_result_review run_result_review (L ''session1'') (Some (L ''attempt1'')) (Some (L ''metric1'')) (L ''assets1'') [run_preflight] = Inr d"
  using run_result_review_projected [of "''ResultReviewRecord''"]
  by (auto simp: validate_result_review_def)
     (auto simp: run_result_review_def result_review_refs_def reviewer_sessions_def reviewer_spawns_def present_def word_run_ref word_text_def)

lemma run_retried: "\<not> clash first_handle run_handle"
  by (simp add: clash_def first_handle_def run_handle_def handle_of_def)

lemma run_succession:
  "validate_technical_blocker_recovery (interruption first_handle ''blocker1'' ''h5'' ''h6'') first_handle run_handle previous None None [] [] =
     Inr (sorted_set ([L ''blocker1'', L ''h5'', L ''h6''] @ handle_refs first_handle @ handle_refs run_handle))"
  by (rule interruption_recovered [OF first_handle_def run_handle_good _ _ _ _ _ _ run_retried]) (simp_all add: word_text_def)

lemma run_replayed: "replay_execution run_handoff first_handle [run_scope] (L ''rev1'') False = Inr ()"
proof -
  obtain f h p r where f: "validate_same_inputs first_handle first_handle = Inr f" and h: "validate_same_inputs first_handle run_handle = Inr h"
    and p: "validate_target_execution_preflight run_preflight first_handle run_scope (L ''rev1'') False = Inr p"
    and r: "validate_result_review run_result_review (L ''session1'') (Some (L ''attempt1'')) (Some (L ''metric1'')) (L ''assets1'') [run_preflight] = Inr r"
    using first_handle_good run_handle_good run_preflight_admitted run_result_admitted by (auto simp: returns_iff)
  have handles: "foldE (handle_step first_handle) nothing_retired (handle_places (trh_handle_history run_handoff))
      = Inr (retire first_handle nothing_retired)"
    using run_retried
    by (simp add: run_handoff_def handle_places_def handle_step_def f h revives_retired_def reuses_retired_def nothing_retired_def
        Let_def retire_run_def retire_def clash_def) (simp add: run_handle_def first_handle_def handle_of_def)
  have inputs: "twh_accepted_input_target_commit_refs first_handle = []" "input_assets first_handle = []"
    by (simp_all add: first_handle_def handle_of_def input_assets_def)
  have recoveries: "replay_recoveries run_handoff first_handle [run_scope] (L ''rev1'') False
      = Inr (sorted_set ([L ''blocker1'', L ''h5'', L ''h6''] @ handle_refs first_handle @ handle_refs run_handle))"
    by (simp add: replay_recoveries_def run_handoff_def p successions_def recovery_step_def next_preflight_def inputs run_succession
        del: append.simps)
      (simp add: interruption_def run_succession [unfolded interruption_def] del: append.simps)
  have reviews: "foldE (review_identity_step sessions) no_reviews (trh_code_review_preflights run_handoff)
      = Inr (no_reviews\<lparr>seen_revisions := [L ''rev1'']\<rparr>)" for sessions
    by (simp add: run_handoff_def review_identity_step_def no_reviews_def Let_def)
  have terminal: "terminal_check run_handoff run_handle [L ''session0'', L ''session1''] [] = Inr []"
    by (simp add: terminal_check_def run_handoff_def result_terminal_check_def run_closure_def one_closure_def r)
       (simp add: run_result_review_def)
  have evidence: "same_set (trh_recovery_evidence_refs run_handoff)
      (sorted_set ([L ''blocker1'', L ''h5'', L ''h6''] @ handle_refs first_handle @ handle_refs run_handle) @ [])"
    by (auto simp: same_set_def run_handoff_def handle_refs_def handle_identities_def first_handle_def run_handle_def handle_of_def)
  have stops: "stops_check run_handoff = Inr []"
    by (simp add: stops_check_def run_handoff_def no_stops_def sorted_set_def)
  have subject: "terminal_subject (trh_terminal run_handoff) = handle_subject run_handle"
    by (simp add: run_handoff_def run_closure_def one_closure_def run_handle_def handle_of_def handle_subject_def)
  have history: "trh_handle_history run_handoff = [first_handle, run_handle]" "trh_code_review_preflights run_handoff = [run_preflight]"
    by (simp_all add: run_handoff_def)
  have none: "seen_reviews no_reviews = []" by (simp add: no_reviews_def)
  show ?thesis
    unfolding replay_execution_def Let_def using handles recoveries reviews terminal evidence stops subject
    by (simp add: history none del: append.simps append_Nil2)
qed

lemma run_frontier_admitted:
  "terminal_frontier_check run_frontier run_frontier first_handle run_handle (bound ''target1'' ''hash2'') (one_receipt ''h2'' ''hash2'') m1 m2
     = Inr ()"
proof -
  obtain d where d: "projection_digest (pv_TargetFrontierEntry run_frontier) ''TargetFrontierEntry'' = Inr d"
    using run_frontier_projected by blast
  obtain h where h: "validate_same_inputs first_handle run_handle = Inr h" using run_handle_good by (auto simp: returns_iff)
  have current: "tfe_current_handle run_frontier = run_handle" "tfe_state run_frontier = L ''terminal''" by (simp_all add: run_frontier_def)
  moreover have "validate_target_frontier_entry run_frontier (twh_target_ref first_handle) (bound ''target1'' ''hash2'')
      (one_receipt ''h2'' ''hash2'') (twh_accepted_input_target_commit_refs first_handle) (input_assets first_handle) = Inr d"
    using h by (simp add: validate_target_frontier_entry_def d validate_same_inputs_def current)
      (simp add: run_frontier_def first_handle_def handle_of_def bound_def word_run_ref word_text_def run_receipt)
  ultimately show ?thesis by (simp add: terminal_frontier_check_def)
qed

lemma run_notice_checked: "execution_notice_check run_handoff run_notice run_frontier run_digest None = Inr ()"
proof -
  have "notice_payload_digest run_notice = Inr run_payload" by (simp add: run_notice_def run_payload)
  then show ?thesis
    by (simp add: execution_notice_check_def notice_hashes_check_def terminal_notice_projection_def)
       (simp add: run_handoff_def run_closure_def one_closure_def run_notice_def run_notice_of_def run_frontier_def notice_tells_def
          notice_subject_def handle_subject_def run_handle_def handle_of_def)
qed

lemma run_admitted:
  "validate_target_run_handoff_notice run_handoff run_notice run_frontier run_frontier first_handle (bound ''target1'' ''hash2'')
     (one_receipt ''h2'' ''hash2'') [run_scope] (L ''rev1'') False None = Inr run_digest"
proof -
  obtain n where "validate_target_work_notice run_notice = Inr n" using run_notice_admitted by blast
  moreover obtain h where "validate_same_inputs first_handle first_handle = Inr h" using first_handle_good by (auto simp: returns_iff)
  moreover have "trh_handle_history run_handoff = [first_handle, run_handle]" "trh_terminal run_handoff = Term_AcceptedMeasurementClosure run_closure"
    by (simp_all add: run_handoff_def)
  moreover have "root_completion (Term_AcceptedMeasurementClosure run_closure) = None" by (simp add: root_completion_def run_closure_def)
  ultimately show ?thesis
    by (simp add: validate_target_run_handoff_notice_def is_target_root_completion_terminal_def run_handoff_admitted(1)
        run_replayed run_frontier_admitted run_notice_checked)
qed

lemma run_terminal: "trh_terminal run_handoff = Term_AcceptedMeasurementClosure run_closure" "amc_root_completion_receipt run_closure = None"
  by (simp_all add: run_handoff_def run_closure_def)

subsection \<open>The witnesses\<close>

theorem handoff_never_revives_witness:
  "never_revives [first_handle, run_handle] \<and> history_frozen [first_handle, run_handle] first_handle
   \<and> handoff_settled run_handoff run_notice run_frontier run_frontier first_handle run_digest"
  using handoff_never_revives [OF run_admitted] by (simp add: is_goal_work_def run_terminal) (simp add: run_handoff_def)

theorem handoff_reviewed_witness: "reviewed_execution run_handoff"
  using handoff_reviewed [OF run_admitted] by (simp add: is_goal_work_def run_terminal root_completion_def)

theorem handoff_result_admitted_witness:
  "result_review_check run_closure run_result_review = Inr () \<and> verify_code_review run_review (L ''rev1'') = Inr ()"
  using handoff_result_admitted [OF run_admitted run_terminal] by (auto simp: run_closure_def one_closure_def)



end
