(* ===== verification/TargetRunRevival.thy ===== *)
theory TargetRunRevival
  imports TargetRunSample
begin

text \<open>
  A TargetRun that was cancelled after two interruptions.  Its third handle has the session, the attempt
  and the fence of its first one, under another input binding; the validator of cancellations, which
  compares each handle with the one before it only, admits the handoff.
\<close>

subsection \<open>The cancelled run\<close>

definition revived_handle :: TargetWorkHandle where
  "revived_handle = handle_of ''session0'' ''execution0'' ''fence0'' ''input2'' ''h9''"

definition cancelled_work :: GoalWorkDisposition where
  "cancelled_work =
     \<lparr>gwd_disposition = L ''cancelled'', gwd_target_ref = L ''target1'', gwd_target_run_ref = L ''run1'',
      gwd_execution_attempt_ref = Some (L ''execution0''), gwd_execution_fence_ref = Some (L ''fence0''),
      gwd_terminal_fact_ref = L ''fact1'', gwd_goal_work_intent_ref = L ''intent'', gwd_goal_revision_ref = L ''goal'',
      gwd_goal_revision_receipt_ref = L ''receipt'', gwd_goal_revision_receipt_hash = Str (replicate 64 97),
      gwd_reason = L ''moved'', gwd_retention_kind = Some (L ''selected''), gwd_custody_refs = [L ''asset'']\<rparr>"

definition revived_handoff :: TargetRunHandoff where
  "revived_handoff = \<lparr>trh_handle_history = [first_handle, run_handle, revived_handle], trh_code_review_preflights = [],
     trh_stop_decisions = [],
     trh_recovered_blockers = [interruption first_handle ''blocker1'' ''h5'' ''h6'', interruption run_handle ''blocker2'' ''h7'' ''h8''],
     trh_recovery_evidence_refs = map L [''blocker1'', ''blocker2'', ''execution0'', ''execution1'', ''fence0'', ''fence1'', ''h5'',
       ''h6'', ''h7'', ''h8'', ''run1'', ''session0'', ''session1''],
     trh_terminal = Term_GoalWorkDisposition cancelled_work\<rparr>"

definition revival_frontier :: TargetFrontierEntry where
  "revival_frontier = run_frontier\<lparr>tfe_current_handle := revived_handle, tfe_terminal_fact_ref := Some (L ''fact1'')\<rparr>"

lemmas revival_defs = revived_handle_def cancelled_work_def revived_handoff_def run_projection_defs

lemma goal_hash_hex: "is_hex64 (Str (replicate 64 97))"
  by (simp add: is_hex64_def slen_def schars_in_def list_all_iff)

subsection \<open>Its projections\<close>

lemma revived_handoff_projected:
  "\<exists>d. validate_closed_bundle_projection (pv_TargetRunHandoff revived_handoff) n BUNDLE_HANDOFF_MAX_SERIALIZED_BYTES = Inr d"
proof (rule closed_projection_short)
  note hex = hex_admitted(1) [OF goal_hash_hex]
  show "contents_ok False False (pv_TargetRunHandoff revived_handoff)"
    by (simp add: pv_TargetRunHandoff_def pv_GoalWorkDisposition_def revival_defs sample_contents small_numbers hex)
  show "well_typed (pv_TargetRunHandoff revived_handoff)"
    by (simp add: well_typed_handoff terminal_metrics_valid_def revived_handoff_def)
  show "pv_size (pv_TargetRunHandoff revived_handoff) \<le> 16384"
    by (simp add: pv_TargetRunHandoff_def pv_GoalWorkDisposition_def revival_defs sample_contents small_numbers)
qed (simp_all add: BUNDLE_HANDOFF_MAX_SERIALIZED_BYTES_def BUNDLE_ROOT_MAX_SERIALIZED_BYTES_def)

lemma cancelled_work_admitted: "validate_goal_work_disposition cancelled_work = Inr ()"
  by (simp add: validate_goal_work_disposition_def cancelled_work_def is_space_def Let_def schars_in_def slen_def
      scontains_def plain_ascii_encode falsy_ref_def sorted_set_def BUNDLE_NOTICE_REASON_MAX_UTF8_BYTES_def list_all_iff is_blank_iff)

definition revival_digest :: str where
  "revival_digest = (case validate_target_run_handoff revived_handoff of Inr d \<Rightarrow> d | Inl _ \<Rightarrow> L [])"

lemma revived_handoff_admitted: "validate_target_run_handoff revived_handoff = Inr revival_digest" "is_hex64 revival_digest"
proof -
  obtain d where d: "validate_closed_bundle_projection (pv_TargetRunHandoff revived_handoff) ''TargetRunHandoff''
      BUNDLE_HANDOFF_MAX_SERIALIZED_BYTES = Inr d"
    using revived_handoff_projected by blast
  have "successively (<) (trh_recovery_evidence_refs revived_handoff)" by (simp add: revived_handoff_def less_str_def)
  then have "sorted_wrt (<) (trh_recovery_evidence_refs revived_handoff)" by (simp add: successively_conv_sorted_wrt)
  then have "trh_recovery_evidence_refs revived_handoff = sorted_set (trh_recovery_evidence_refs revived_handoff)"
    by (simp add: sorted_set_fix strict_sorted_iff)
  then have "goal_work_handoff_complete revived_handoff cancelled_work"
    unfolding goal_work_handoff_complete_def by (simp add: revived_handoff_def cancelled_work_def)
  then have "validate_target_run_handoff revived_handoff = Inr d"
    using cancelled_work_admitted by (simp add: validate_target_run_handoff_def d) (simp add: revived_handoff_def)
  then show "validate_target_run_handoff revived_handoff = Inr revival_digest" "is_hex64 revival_digest"
    using d by (auto simp: revival_digest_def validate_closed_bundle_projection_def)
qed

subsection \<open>Its notice\<close>

definition revival_notice_of :: "str \<Rightarrow> TargetWorkNotice" where
  "revival_notice_of payload = \<lparr>twn_notice_ref = L ''notice1'', twn_sequence = 1, twn_terminal_transition_ref = L ''transition1'',
     twn_kind = L ''semantic_change_required'', twn_target_ref = L ''target1'', twn_target_run_ref = L ''run1'',
     twn_execution_attempt_ref = Some (L ''execution0''), twn_execution_fence_ref = Some (L ''fence0''),
     twn_terminal_fact_ref = L ''fact1'', twn_handoff_manifest_ref = L ''manifest1'', twn_handoff_manifest_sha256 = revival_digest,
     twn_compact_reason = L ''moved'', twn_pending_obligation_refs = [L ''asset''], twn_payload_sha256 = payload\<rparr>"

definition revival_payload :: str where
  "revival_payload = (case notice_payload_digest (revival_notice_of (L [])) of Inr h \<Rightarrow> h | Inl _ \<Rightarrow> L [])"

lemma revival_payload: "notice_payload_digest (revival_notice_of x) = Inr revival_payload" "is_hex64 revival_payload"
proof -
  have same: "notice_payload_digest (revival_notice_of x) = notice_payload_digest (revival_notice_of (L []))" for x
    by (simp add: notice_payload_digest_def revival_notice_of_def)
  have "\<exists>h. notice_payload_digest (revival_notice_of (L [])) = Inr h \<and> is_hex64 h"
    unfolding notice_payload_digest_def
    using ascii_hex [OF revived_handoff_admitted(2)] by (intro payload_ascii) (simp add: revival_notice_of_def jstrs_def)
  then show "notice_payload_digest (revival_notice_of x) = Inr revival_payload" "is_hex64 revival_payload"
    unfolding same [of x] by (auto simp: revival_payload_def)
qed

definition revival_notice :: TargetWorkNotice where
  "revival_notice = revival_notice_of revival_payload"

lemma revival_notice_projected:
  "\<exists>d. validate_closed_bundle_projection (pv_TargetWorkNotice revival_notice) n BUNDLE_NOTICE_MAX_SERIALIZED_BYTES = Inr d"
proof (rule closed_projection_short [OF well_typed_TargetWorkNotice])
  note hex = hex_admitted(1,2) [OF revived_handoff_admitted(2)] hex_admitted(1,2) [OF revival_payload(2)]
  show "contents_ok False False (pv_TargetWorkNotice revival_notice)"
    by (simp add: revival_notice_def revival_notice_of_def pv_TargetWorkNotice_def sample_contents small_numbers hex)
  show "pv_size (pv_TargetWorkNotice revival_notice) \<le> 16384"
    by (simp add: revival_notice_def revival_notice_of_def pv_TargetWorkNotice_def sample_contents small_numbers hex)
qed (simp_all add: BUNDLE_NOTICE_MAX_SERIALIZED_BYTES_def BUNDLE_ROOT_MAX_SERIALIZED_BYTES_def)

lemma revival_notice_admitted: "\<exists>d. validate_target_work_notice revival_notice = Inr d"
  using revival_notice_projected [of "''TargetWorkNotice''"] hex_admitted(2) [OF revived_handoff_admitted(2)] hex_admitted(2) [OF revival_payload(2)]
  by (auto simp: validate_target_work_notice_def)
     (auto simp: revival_notice_def revival_notice_of_def notice_refs_def notice_execution_refs_def plain_ascii_encode scontains_def slen_def
        is_space_def is_blank_iff BUNDLE_NOTICE_REASON_MAX_CHARS_def BUNDLE_NOTICE_REASON_MAX_UTF8_BYTES_def
        BUNDLE_NOTICE_REF_MAX_UTF8_BYTES_def BUNDLE_NOTICE_MAX_PENDING_OBLIGATIONS_def Let_def)

subsection \<open>Its history\<close>

lemma revived_handle_good: "returns (validate_same_inputs first_handle revived_handle)"
  unfolding revived_handle_def by (rule handle_of_good) (simp_all add: word_text_def)

lemma revival_succession:
  "validate_technical_blocker_recovery (interruption run_handle ''blocker2'' ''h7'' ''h8'') run_handle revived_handle previous None None [] [] =
     Inr (sorted_set ([L ''blocker2'', L ''h7'', L ''h8''] @ handle_refs run_handle @ handle_refs revived_handle))"
  by (rule interruption_recovered [OF run_handle_def revived_handle_good])
    (simp_all add: word_text_def clash_def run_handle_def revived_handle_def handle_of_def)

lemma revival_replayed:
  "\<exists>evidence. foldE (cancellation_step first_handle) [] (linked_history revived_handoff) = Inr evidence
     \<and> subset_list evidence (trh_recovery_evidence_refs revived_handoff)"
proof -
  obtain f g h where f: "validate_same_inputs first_handle first_handle = Inr f" "validate_same_inputs first_handle run_handle = Inr g"
      "validate_same_inputs first_handle revived_handle = Inr h"
    using first_handle_good run_handle_good revived_handle_good by (auto simp: returns_iff)
  have inputs: "twh_accepted_input_target_commit_refs first_handle = []" "input_assets first_handle = []"
    by (simp_all add: first_handle_def handle_of_def input_assets_def)
  have links: "linked_history revived_handoff = [(None, first_handle),
      (Some (first_handle, interruption first_handle ''blocker1'' ''h5'' ''h6''), run_handle),
      (Some (run_handle, interruption run_handle ''blocker2'' ''h7'' ''h8''), revived_handle)]"
    by (simp add: linked_history_def successions_def revived_handoff_def)
  have "foldE (cancellation_step first_handle) [] (linked_history revived_handoff) =
      Inr (sorted_set ([L ''blocker1'', L ''h5'', L ''h6''] @ handle_refs first_handle @ handle_refs run_handle)
        @ sorted_set ([L ''blocker2'', L ''h7'', L ''h8''] @ handle_refs run_handle @ handle_refs revived_handle))"
    unfolding links
    by (simp add: cancellation_step_def f retry_evidence_def inputs run_succession revival_succession del: append.simps)
  then show ?thesis
    by (auto simp: revived_handoff_def subset_list_def list_all_iff handle_refs_def handle_identities_def first_handle_def run_handle_def
        revived_handle_def handle_of_def)
qed

lemma revival_frontier_projected: "\<exists>d. projection_digest (pv_TargetFrontierEntry revival_frontier) n = Inr d"
  by (rule projected [OF well_typed_TargetFrontierEntry])
    (simp_all add: revival_defs small_numbers pv_TargetFrontierEntry_def revival_frontier_def run_frontier_def sample_contents)

lemma revival_frontier_admitted:
  "terminal_frontier_check revival_frontier revival_frontier first_handle revived_handle (bound ''target1'' ''hash2'')
     (one_receipt ''h2'' ''hash2'') m1 m2 = Inr ()"
proof -
  obtain d where d: "projection_digest (pv_TargetFrontierEntry revival_frontier) ''TargetFrontierEntry'' = Inr d"
    using revival_frontier_projected by blast
  obtain h where h: "validate_same_inputs first_handle revived_handle = Inr h" using revived_handle_good by (auto simp: returns_iff)
  have current: "tfe_current_handle revival_frontier = revived_handle" "tfe_state revival_frontier = L ''terminal''"
    by (simp_all add: revival_frontier_def run_frontier_def)
  moreover have "validate_target_frontier_entry revival_frontier (twh_target_ref first_handle) (bound ''target1'' ''hash2'')
      (one_receipt ''h2'' ''hash2'') (twh_accepted_input_target_commit_refs first_handle) (input_assets first_handle) = Inr d"
    using h by (simp add: validate_target_frontier_entry_def d validate_same_inputs_def current)
      (simp add: revival_frontier_def run_frontier_def first_handle_def handle_of_def bound_def word_run_ref word_text_def run_receipt)
  ultimately show ?thesis by (simp add: terminal_frontier_check_def)
qed

subsection \<open>The revival\<close>

text \<open>
  C36. A gap of the source: a cancelled run may revive an identity. The validator of cancellations,
  unlike those of executed and of root-completed runs, keeps no retired identities; it admits a handoff
  whose third handle has the root session, the attempt and the fence of the first one (A-B-A).
\<close>
theorem cancelled_run_revives:
  "validate_target_run_handoff_notice revived_handoff revival_notice revival_frontier revival_frontier first_handle
     (bound ''target1'' ''hash2'') (one_receipt ''h2'' ''hash2'') [] expected_revision expected_changed barrier_fact = Inr revival_digest
   \<and> \<not> never_revives (trh_handle_history revived_handoff)"
proof
  obtain n where notice: "validate_target_work_notice revival_notice = Inr n" using revival_notice_admitted by blast
  obtain h where initial: "validate_same_inputs first_handle first_handle = Inr h" using first_handle_good by (auto simp: returns_iff)
  obtain evidence where replayed: "foldE (cancellation_step first_handle) [] (linked_history revived_handoff) = Inr evidence"
    "subset_list evidence (trh_recovery_evidence_refs revived_handoff)" using revival_replayed by blast
  have history: "trh_handle_history revived_handoff = [first_handle, run_handle, revived_handle]"
    "trh_terminal revived_handoff = Term_GoalWorkDisposition cancelled_work" "gwd_disposition cancelled_work = L ''cancelled''"
    by (simp_all add: revived_handoff_def cancelled_work_def)
  have "one_attempt_history revived_handoff first_handle []"
    by (simp add: one_attempt_history_def revived_handoff_def)
  moreover have "terminal_subject (trh_terminal revived_handoff) = handle_subject revived_handle"
    "notice_subject revival_notice = handle_subject revived_handle" "tfe_terminal_fact_ref revival_frontier = Some (L ''fact1'')"
    by (simp_all add: revived_handoff_def cancelled_work_def handle_subject_def revived_handle_def handle_of_def notice_subject_def
        revival_notice_def revival_notice_of_def revival_frontier_def)
  moreover have "notice_tells revival_notice (''semantic_change_required'', L ''fact1'', L ''moved'', [L ''asset''])"
    "twn_handoff_manifest_sha256 revival_notice = revival_digest" "notice_payload_digest revival_notice = Inr (twn_payload_sha256 revival_notice)"
    using revival_payload(1) [of revival_payload] by (simp_all add: notice_tells_def revival_notice_def) (simp_all add: revival_notice_of_def)
  moreover have "terminal_notice_projection (Term_GoalWorkDisposition cancelled_work) None =
      Inr (''semantic_change_required'', L ''fact1'', L ''moved'', [L ''asset''])"
    by (simp add: terminal_notice_projection_def cancelled_work_def)
  ultimately have "validate_goal_work_cancellation_handoff_notice revived_handoff revival_notice revival_frontier revival_frontier
      revival_digest first_handle (bound ''target1'' ''hash2'') (one_receipt ''h2'' ''hash2'') [] = Inr revival_digest"
    using replayed revival_frontier_admitted
    by (simp add: validate_goal_work_cancellation_handoff_notice_def Let_def history notice_hashes_check_def)
  then show "validate_target_run_handoff_notice revived_handoff revival_notice revival_frontier revival_frontier first_handle
     (bound ''target1'' ''hash2'') (one_receipt ''h2'' ''hash2'') [] expected_revision expected_changed barrier_fact = Inr revival_digest"
    using notice initial history
    by (simp add: validate_target_run_handoff_notice_def revived_handoff_admitted(1) is_target_root_completion_terminal_def root_completion_def)
  show "\<not> never_revives (trh_handle_history revived_handoff)"
    by (simp add: never_revives_def history first_handle_def revived_handle_def handle_of_def)
qed

end
