(* ===== verification/Spec2Isabelle.thy ===== *)
theory Spec2Isabelle
  imports ReasoningSample BoundaryLaws StrategyRun PlanSample IdeaMaterial ControlLaws TargetRunRevival
begin

text \<open>
  A verification development of the contract layer of Meta Research.

  \<^bold>\<open>The program.\<close>  Meta Research runs a research quest as cycles of four stages: Idea, Plan, Bundle and
  Reasoning.  A stage is carried out by an agent, which writes a document; the owners (services over a
  database, under \<open>owners/\<close>) admit the document, hash it, sign a receipt and pass it to the next stage.
  Which documents and records are admitted is decided by pure modules under \<open>src/src/meta_research\<close>, the
  contracts.  They carry the program's own logic, they are what every owner relies on, and they are what
  is modelled here: every function of them, on every branch, with the exceptions it raises.

  \<^bold>\<open>How the parts interact.\<close>  The Idea stage produces a set of candidates, or says that none is viable, from
  a context pack that opens evidence to it (\<open>idea_contract.py\<close>).  The Plan stage turns accepted Ideas into
  an answer contract with obligations, covers them by evidence or leaves gaps, and writes an experiment
  brief for each gap (\<open>plan_contract.py\<close>).  The Bundle stage realises the briefs: its Target plan opens a
  rolling strategy (\<open>bundle_contract.py\<close>), an append-only log of Target candidates that is sealed once
  every measurement cell of the Plan is covered (\<open>bundle_target_contract.py\<close>); each Target runs through
  handles, preflights, reviews, recoveries and a terminal fact (\<open>target_run_contract.py\<close>); accepted
  measurement closures add up to the Bundle's report or to a replan of the whole strategy
  (\<open>bundle_completion.py\<close>).  The Reasoning stage draws a scientific outcome from the evidence and proposes
  one transition, the next cycle or the completion of the quest (\<open>reasoning_contract.py\<close>).  All records
  that cross the Bundle's boundary are closed projections with budgets (\<open>bundle_protocol.py\<close>); all
  documents are identified by the SHA-256 of their canonical JSON text (\<open>owners/common.py\<close>).

  \<^bold>\<open>The theories, by part of the program.\<close>

  \<^item> Python itself.  \<open>Prelude\<close>: results as \<open>exn + 'a\<close>, loops over lists that may raise (\<open>mapE\<close>, \<open>forE\<close>, \<open>foldE\<close>),
    dictionaries as association lists, sorted sets.  \<open>PyStr\<close>: strings as code points (surrogates included),
    UTF-8, \<open>strip\<close>.  \<open>PyFloat\<close>: exact finite floats, \<open>float\<close> of a token, \<open>repr\<close>.  \<open>PyJson\<close>, \<open>JsonCodec\<close>: JSON values,
    \<open>==\<close>, hashing of values, \<open>json.dumps\<close> in canonical form and \<open>json.loads\<close>, and their round trip.  \<open>Sha256\<close>:
    FIPS 180-4 on 32-bit words that wrap.  \<open>ContractValues\<close>: the shape tests and the ways of reading a member.
  \<^item> \<open>owners/common.py\<close> (the canonical text and hash): \<open>OwnersCommon\<close>.
  \<^item> \<open>bundle_protocol.py\<close>: \<open>BundleRecords\<close> (one record per frozen dataclass, one field per field),
    \<open>BundleProjection\<close> (the budgeted walk, its digest, the validators of boundary records); laws in
    \<open>ProjectionLaws\<close>, \<open>WalkLaws\<close>, \<open>RecordShapes\<close>, \<open>BoundaryLaws\<close>.
  \<^item> \<open>bundle_target_contract.py\<close>: \<open>TargetContract\<close> (data, closed values, the bounded walk of a JSON root),
    \<open>TargetParse\<close> (parsers and serialisers), \<open>TargetRules\<close> (measurement contracts, completion contracts, the
    rules of one candidate and of a set), \<open>RollingStrategy\<close> (updates, the strategy state, its snapshot); laws
    in \<open>RootLaws\<close>, \<open>SmallRoots\<close>, \<open>CandidateLaws\<close>, \<open>RollingLaws\<close>, \<open>CodecLaws\<close>, \<open>DocumentCodecs\<close>, \<open>StrategyCodecs\<close>.
  \<^item> \<open>bundle_completion.py\<close>: \<open>BundleCompletion\<close>, \<open>BundleClosure\<close>, \<open>BundleReporting\<close>; laws in \<open>BundleTables\<close>,
    \<open>BundleCompletionLaws\<close>, \<open>ReportLaws\<close>, \<open>ReportResults\<close>, \<open>ReplanLaws\<close>, \<open>SealedStrategy\<close>.
  \<^item> \<open>bundle_contract.py\<close>: \<open>BundleContract\<close>; laws in \<open>BundleContractLaws\<close>.
  \<^item> \<open>target_run_contract.py\<close>: \<open>TargetRunGates\<close>, \<open>TargetRunRecovery\<close>, \<open>TargetRunHandoff\<close>, \<open>TargetRunReplay\<close>; laws
    in \<open>TargetRunLaws\<close>, \<open>TargetRunHistory\<close>, \<open>TargetRunReviews\<close>, \<open>TargetRunPromises\<close>.
  \<^item> \<open>idea_contract.py\<close>: \<open>IdeaContract\<close>, \<open>IdeaContext\<close>; laws in \<open>IdeaLaws\<close>, \<open>IdeaContextLaws\<close>, \<open>IdeaMaterial\<close>.
  \<^item> \<open>plan_contract.py\<close>: \<open>PlanLimits\<close>, \<open>PlanContract\<close>, \<open>PlanDocument\<close>; laws in \<open>PlanLaws\<close>, \<open>PlanPromises\<close>.
  \<^item> \<open>reasoning_contract.py\<close> and \<open>context_history.py\<close>: \<open>ReasoningContract\<close>, \<open>ReasoningEvidence\<close>,
    \<open>ReasoningOutcome\<close>; laws in \<open>ReasoningLaws\<close>, \<open>ReasoningAssembly\<close>, \<open>ReasoningQuestions\<close>, \<open>ReasoningReuse\<close>.
  \<^item> \<open>control_contract.py\<close>, \<open>time_budget.py\<close>, \<open>cycle_position.py\<close>: \<open>ControlContract\<close>; laws in \<open>ControlLaws\<close>.
  \<^item> Concrete runs, which show that the hypotheses of the properties can hold: \<open>StrategySample\<close>, \<open>StrategyRun\<close>,
    \<open>BundleSample\<close>, \<open>ReportSample\<close>, \<open>TargetRunSample\<close>, \<open>TargetRunRevival\<close>, \<open>PlanSample\<close>, \<open>ReasoningSample\<close>, and the ends of
    \<open>IdeaMaterial\<close>, \<open>ControlLaws\<close> and \<open>BoundaryLaws\<close>.
\<close>

text \<open>
  \<^bold>\<open>How the model corresponds to the code.\<close>  A function that may raise is a function into \<open>exn + 'a\<close>, and each
  \<open>raise\<close> is an \<open>Inl\<close> with the exception's class and its code; a check is made where the code makes it, so the
  first failing check decides the exception.  A definition keeps the name of its function (without the
  leading underscore, or with a short prefix where two modules use one name, as \<open>rc_text\<close>).  A long
  function is split at its loops and its paragraphs; each piece says which.  A \<open>for\<close> loop with local
  variables is \<open>foldE\<close> of a step over a record of these variables.  A dataclass is a record whose fields
  carry a short prefix.  A value of unknown type is a \<open>json\<close>; integers are unbounded, as Python's.  Sets that
  the code only tests for membership are lists without order in the statements; the order of a set of
  strings, which Python does not fix, is a parameter.  Where the code adds a message or a note to an error
  that is only prose for a reader, the model keeps the code that names the error.

  \<^bold>\<open>Parameters.\<close>  \<open>interp\<close> bundles what the Python installation decides: Unicode tables (NFKC, general
  category, case folding), the order of a set of strings, and \<open>str\<close> of a container.  \<open>py_ok\<close> states the only
  promise used of it: the order of a set lists its members once.  The resolver of citations of earlier
  cycles in \<open>ReasoningEvidence\<close> is a parameter as well, as it is an argument of the code.  Nothing is
  assumed of SHA-256: it is computed, and a property about a digest says of which bytes it is the hash
  and that these bytes determine the document.

  \<^bold>\<open>Bounds and termination.\<close>  The budgets are the code's constants: nodes, bytes, depth and lengths of the
  walks over projections and JSON roots, of texts, lists and references.  \<open>json_loads\<close> bounds its nested calls
  by twice the length of the text, which suffices because every two calls consume a character; the round
  trip of \<open>JsonCodec\<close> holds for every document, so the bound is never what stops it.  The loop that decides
  acyclicity and the routing search over a document are total functions, and their properties say what
  they decide.  Recursion limits of the interpreter are not modelled, except that an integer of more than
  4300 digits has no text.

  \<^bold>\<open>What the lemmas show.\<close>  Four groups.  Inversion lemmas read off what a successful check says of a document;
  the theories \<open>...Laws\<close> collect them.  Equivalences replace a loop by the predicate that it decides: the
  walk over a projection, the root walk, the candidate set and the coverage gate, the completion gate, the
  update of a strategy.  Invariants and refinements follow a run: the strategy only grows and is sealed
  once, a snapshot taken back gives the same strategy, the gate of one module implies the gate of the next,
  no identity of an executed TargetRun returns (of a cancelled one it may, as \<open>TargetRunRevival\<close> shows), an
  outcome cites authorised evidence only.  Round trips say that each
  serialised document parses back to the value it was made from.  Where several loops or codecs share a
  contract it is a locale (\<open>codec\<close>, \<open>pairwise_check\<close>, \<open>sealable_log\<close>), interpreted on the functions of the code.

  \<^bold>\<open>Not modelled, and why.\<close>  The services under \<open>owners/\<close> and the modules that read and write their tables
  (\<open>formal_entities.py\<close>, \<open>baseline_identity.py\<close>, \<open>projection.py\<close>, \<open>quest_completion.py\<close>, \<open>quest_drafting.py\<close> and
  others) are SQL transactions over a schema; their admission rules are the contracts above.  \<open>deepfetch.py\<close>, the
  harness, its adapters, the provider supervisor and the runtime protection drive the network, processes
  and the operating system.  The stage services (\<open>*_stage.py\<close>), the skills (\<open>*_skill.py\<close>), the web
  interface, the command line and the MCP servers orchestrate and present.  \<open>bundle_exhaustion.py\<close> checks
  evidence against owner services; \<open>bundle_completion.py\<close>, which consumes what it admits, is modelled, it is
  not.  The cache of successful root validations is not modelled: it only saves work.  The cache, the
  prose of messages, and log output aside, no branch of a modelled function is left out.
\<close>

end
